(* ===== verification/WG_Prelude.thy ===== *)
theory WG_Prelude
  imports Complex_Main "HOL-Library.List_Lexorder" "HOL-Library.Char_ord"
    "HOL-Library.Product_Lexorder"
begin

text \<open>
  What every component of the WebGuard development shares: the exceptions the program raises,
  as values; the error chain that a Python constructor with several checks amounts to; points of
  time; the handful of \<^verbatim>\<open>str\<close> operations the contracts use; and SQL tables as lists of
  rows.

  \<^item> Time. A timezone-aware \<^verbatim>\<open>datetime\<close> is its number of microseconds since the epoch
    (the type \<open>time\<close>). The stores write \<^verbatim>\<open>isoformat(timespec="microseconds")\<close>
    with a final \<^verbatim>\<open>Z\<close>, which has a fixed width, so SQL's comparison of the texts
    is the comparison of the instants and the rows below hold instants.
  \<^item> Text. A \<^verbatim>\<open>str\<close> is a list of code points below 256.
  \<^item> Numbers. A Python \<^verbatim>\<open>int\<close> is \<open>int\<close>; a \<^verbatim>\<open>float\<close> is the rational
    number it denotes, with exact arithmetic.
\<close>

section \<open>Proof automation\<close>

named_theorems exn_simps "rewriting of error chains"
named_theorems table_simps "rewriting of lookups and updates in tables"

section \<open>Exceptions as values\<close>

text \<open>
  One constructor per exception class, carrying the stable error code. The message texts are
  fixed by the code and are left out.
\<close>

datatype exn =
    ScanJobValidationError string
  | ScanJobLoadError string
  | ScanScheduleValidationError string
  | OwnedTargetValidationError string
  | JobStoreError string
  | TrustScanPermitError string
  | TrustScanPermitValidationError string
  | SigningProviderError string
  | TrustScanRuntimeSafetyError string
  | TrustScanSafetyReceiptError string
  | AuthorizationRepositoryError string
  | RateLimitError string int
  | TargetValidationError string
  | CrawlPolicyError string
  | ScanContractValidationError string
  | SafeRequestError string
  | TenancyContractError string
  | IdentityStoreError string
  | AuthenticationError string int
  | PasswordPolicyError string
  | ApiServiceError string int
  | ModuleEntitlementError string
  | TrustScanPermitLoadError string
  | ScanScheduleLoadError string
  | ApiTransportError string int
  | PaginationError string
  | AuthenticationContextError string
  | AuthorizationComparisonError string
  | TargetRepositoryError string
  | TargetVerificationError string
  | FindingStoreError string
  | ScanStoreError string
  | ReportStoreError string
  | ArtifactStoreError string
  | JobExecutionError string string "string option" "string option"
  | DatabaseError
  | UnexpectedError
  | SqliteOperationalError
  | ValueError
  | TypeError

type_synonym 'a result = "exn + 'a"

definition bindE :: "'a result \<Rightarrow> ('a \<Rightarrow> 'b result) \<Rightarrow> 'b result" where
  "bindE m f = (case m of Inl e \<Rightarrow> Inl e | Inr x \<Rightarrow> f x)"

definition raise_if :: "bool \<Rightarrow> exn \<Rightarrow> 'a result \<Rightarrow> 'a result" where
  "raise_if b e k = (if b then Inl e else k)"

definition mapE_option :: "('a \<Rightarrow> 'b result) \<Rightarrow> 'a option \<Rightarrow> 'b option result" where
  "mapE_option f v = (case v of None \<Rightarrow> Inr None | Some x \<Rightarrow> bindE (f x) (\<lambda>y. Inr (Some y)))"

fun mapE :: "('a \<Rightarrow> 'b result) \<Rightarrow> 'a list \<Rightarrow> 'b list result" where
  "mapE f [] = Inr []"
| "mapE f (x # xs) = bindE (f x) (\<lambda>y. bindE (mapE f xs) (\<lambda>ys. Inr (y # ys)))"

definition succeeds :: "'a result \<Rightarrow> bool" where
  "succeeds m \<longleftrightarrow> (case m of Inl e \<Rightarrow> False | Inr x \<Rightarrow> True)"

lemma bindE_Inl [simp]: "bindE (Inl e) f = Inl e"
  by (simp add: bindE_def)

lemma bindE_Inr [simp]: "bindE (Inr x) f = f x"
  by (simp add: bindE_def)

lemma bindE_eq_Inr [exn_simps]: "bindE m f = Inr y \<longleftrightarrow> (\<exists>x. m = Inr x \<and> f x = Inr y)"
  by (cases m) simp_all

lemma raise_if_eq_Inr [exn_simps]: "raise_if b e k = Inr y \<longleftrightarrow> \<not> b \<and> k = Inr y"
  by (simp add: raise_if_def)

lemma raise_if_True [simp]: "b \<Longrightarrow> raise_if b e k = Inl e"
  by (simp add: raise_if_def)

lemma raise_if_False [simp]: "\<not> b \<Longrightarrow> raise_if b e k = k"
  by (simp add: raise_if_def)

lemma mapE_option_None [simp]: "mapE_option f None = Inr None"
  by (simp add: mapE_option_def)

lemma mapE_option_Some [simp]: "mapE_option f (Some x) = bindE (f x) (\<lambda>y. Inr (Some y))"
  by (simp add: mapE_option_def)

lemma mapE_option_eq_Inr [exn_simps]:
  "mapE_option f v = Inr w \<longleftrightarrow>
     (case v of None \<Rightarrow> w = None | Some x \<Rightarrow> (\<exists>y. f x = Inr y \<and> w = Some y))"
  by (auto simp: mapE_option_def bindE_eq_Inr split: option.splits)

lemma mapE_option_None_iff: "mapE_option f v = Inr w \<Longrightarrow> w = None \<longleftrightarrow> v = None"
  by (auto simp: mapE_option_eq_Inr split: option.splits)

lemma mapE_option_idem:
  assumes "\<And>x y. f x = Inr y \<Longrightarrow> f y = Inr y" and "mapE_option f v = Inr w"
  shows "mapE_option f w = Inr w"
  using assms by (auto simp: mapE_option_eq_Inr split: option.splits)

lemma succeeds_iff [exn_simps]: "succeeds m \<longleftrightarrow> (\<exists>x. m = Inr x)"
  by (cases m) (simp_all add: succeeds_def)

lemma mapE_Inr_length: "mapE f xs = Inr ys \<Longrightarrow> length ys = length xs"
  by (induction xs arbitrary: ys) (auto simp: exn_simps)

lemma mapE_Inr_iff: "mapE f xs = Inr ys \<longleftrightarrow> list_all2 (\<lambda>x y. f x = Inr y) xs ys"
  by (induction xs arbitrary: ys) (auto simp: exn_simps list_all2_Cons1)

lemma list_all2_member:
  assumes "list_all2 R xs ys" "x \<in> set xs"
  obtains y where "y \<in> set ys" "R x y"
  using assms by (metis in_set_conv_nth list_all2_conv_all_nth)

section \<open>Time\<close>

type_synonym time = int

definition microseconds :: int where
  "microseconds = 1000000"

text \<open>\<^verbatim>\<open>timedelta(seconds=x)\<close> rounds half to even, at microsecond resolution.\<close>

definition py_round :: "rat \<Rightarrow> int" where
  "py_round x =
     (let n = \<lfloor>x\<rfloor>; f = x - of_int n
      in if f < 1 / 2 then n else if f > 1 / 2 then n + 1 else if even n then n else n + 1)"

definition timedelta_seconds :: "rat \<Rightarrow> time" where
  "timedelta_seconds s = py_round (s * of_int microseconds)"

lemma py_round_ge_floor: "\<lfloor>x\<rfloor> \<le> py_round x"
  by (simp add: py_round_def Let_def)

lemma timedelta_seconds_pos:
  assumes "1 / 10 \<le> s"
  shows "0 < timedelta_seconds s"
proof -
  have "1 \<le> s * of_int microseconds"
    using assms by (simp add: microseconds_def)
  then have "1 \<le> \<lfloor>s * of_int microseconds\<rfloor>"
    by (simp add: le_floor_iff)
  then show ?thesis
    using py_round_ge_floor [of "s * of_int microseconds"]
    unfolding timedelta_seconds_def by linarith
qed

section \<open>Text\<close>

text \<open>
  \<^verbatim>\<open>str.strip\<close>, \<^verbatim>\<open>str.lower\<close> and \<^verbatim>\<open>str.split\<close> on one separator, on code
  points below 256.
\<close>

definition py_isspace :: "char \<Rightarrow> bool" where
  "py_isspace c \<longleftrightarrow>
     (let n = (of_char c :: nat)
      in 9 \<le> n \<and> n \<le> 13 \<or> 28 \<le> n \<and> n \<le> 32 \<or> n = 133 \<or> n = 160)"

definition py_strip :: "string \<Rightarrow> string" where
  "py_strip s = rev (dropWhile py_isspace (rev (dropWhile py_isspace s)))"

definition lower_char :: "char \<Rightarrow> char" where
  "lower_char c =
     (let n = (of_char c :: nat)
      in if 65 \<le> n \<and> n \<le> 90 \<or> 192 \<le> n \<and> n \<le> 222 \<and> n \<noteq> 215
         then char_of (n + 32) else c)"

definition py_lower :: "string \<Rightarrow> string" where
  "py_lower s = map lower_char s"

fun py_split :: "char \<Rightarrow> string \<Rightarrow> string list" where
  "py_split c [] = [[]]"
| "py_split c (x # xs) =
     (if x = c then [] # py_split c xs
      else (case py_split c xs of [] \<Rightarrow> [[x]] | w # ws \<Rightarrow> (x # w) # ws))"

fun py_join :: "char \<Rightarrow> string list \<Rightarrow> string" where
  "py_join c [] = []"
| "py_join c [w] = w"
| "py_join c (w # v # ws) = w @ c # py_join c (v # ws)"

definition is_control :: "char \<Rightarrow> bool" where
  "is_control c \<longleftrightarrow> (of_char c :: nat) < 32 \<or> (of_char c :: nat) = 127"

lemma py_split_not_Nil [simp]: "py_split c s \<noteq> []"
  by (cases s) (auto split: list.splits)

lemma py_join_Cons: "ws \<noteq> [] \<Longrightarrow> py_join c (w # ws) = w @ c # py_join c ws"
  by (cases ws) simp_all

lemma py_join_split: "py_join c (py_split c s) = s"
proof (induction s)
  case (Cons x xs)
  obtain w ws where w: "py_split c xs = w # ws"
    by (cases "py_split c xs") simp_all
  then show ?case
    using Cons by (cases ws) (auto simp: py_join_Cons)
qed simp

lemma py_split_append: "c \<notin> set w \<Longrightarrow> py_split c (w @ c # s) = w # py_split c s"
  by (induction w) auto

lemma py_split_single: "c \<notin> set w \<Longrightarrow> py_split c w = [w]"
  by (induction w) auto

lemma py_split_join:
  "ws \<noteq> [] \<Longrightarrow> (\<And>w. w \<in> set ws \<Longrightarrow> c \<notin> set w) \<Longrightarrow> py_split c (py_join c ws) = ws"
  by (induction c ws rule: py_join.induct) (auto simp: py_split_append py_split_single)

lemma set_py_split: "w \<in> set (py_split c s) \<Longrightarrow> set w \<subseteq> set s \<and> c \<notin> set w"
proof (induction s arbitrary: w)
  case (Cons a s)
  then show ?case
    by (cases "py_split c s") (fastforce split: if_splits)+
qed simp

lemma dropWhile_hd: "dropWhile P xs = [] \<or> \<not> P (hd (dropWhile P xs))"
  by (induction xs) auto

lemma py_strip_ends:
  assumes "py_strip s \<noteq> []"
  shows "\<not> py_isspace (hd (py_strip s))" and "\<not> py_isspace (last (py_strip s))"
proof -
  let ?d = "dropWhile py_isspace s"
  let ?r = "dropWhile py_isspace (rev ?d)"
  have r: "?r \<noteq> []"
    using assms by (simp add: py_strip_def)
  then show "\<not> py_isspace (last (py_strip s))"
    using dropWhile_hd [of py_isspace "rev ?d"] by (metis last_rev py_strip_def)
  obtain us where us: "rev ?d = us @ ?r"
    by (metis takeWhile_dropWhile_id)
  then have d: "?d = rev ?r @ rev us"
    by (metis rev_append rev_rev_ident)
  then have "hd ?d = hd (rev ?r)"
    using r by (metis hd_append2 rev_is_Nil_conv)
  moreover have "?d \<noteq> []"
    using r by (metis dropWhile.simps(1) rev.simps(1))
  ultimately show "\<not> py_isspace (hd (py_strip s))"
    using dropWhile_hd [of py_isspace s] by (metis py_strip_def)
qed

lemma dropWhile_id_hd: "s = [] \<or> \<not> P (hd s) \<Longrightarrow> dropWhile P s = s"
  by (cases s) auto

lemma py_strip_id:
  "s = [] \<or> \<not> py_isspace (hd s) \<and> \<not> py_isspace (last s) \<Longrightarrow> py_strip s = s"
  by (auto simp: py_strip_def dropWhile_id_hd hd_rev)

lemma py_strip_idem [simp]: "py_strip (py_strip s) = py_strip s"
  by (rule py_strip_id) (use py_strip_ends in blast)

lemma set_py_strip: "set (py_strip s) \<subseteq> set s"
  by (auto simp: py_strip_def dest!: set_dropWhileD)

lemma length_py_lower [simp]: "length (py_lower s) = length s"
  by (simp add: py_lower_def)

lemma py_lower_eq_Nil [simp]: "py_lower s = [] \<longleftrightarrow> s = []"
  by (simp add: py_lower_def)

section \<open>Tables\<close>

text \<open>
  An SQL table is the list of its rows in insertion order. \<open>sql_find\<close> is a \<^verbatim>\<open>SELECT\<close>
  read with \<^verbatim>\<open>fetchone\<close>, \<open>sql_update\<close> an \<^verbatim>\<open>UPDATE ... WHERE\<close>,
  \<open>sql_rowcount\<close> the number of rows such an update touches and \<open>sql_order\<close> an
  \<^verbatim>\<open>ORDER BY\<close>.
\<close>

definition sql_find :: "('r \<Rightarrow> bool) \<Rightarrow> 'r list \<Rightarrow> 'r option" where
  "sql_find P rows = find P rows"

definition sql_update :: "('r \<Rightarrow> bool) \<Rightarrow> ('r \<Rightarrow> 'r) \<Rightarrow> 'r list \<Rightarrow> 'r list" where
  "sql_update P f rows = map (\<lambda>r. if P r then f r else r) rows"

definition sql_rowcount :: "('r \<Rightarrow> bool) \<Rightarrow> 'r list \<Rightarrow> nat" where
  "sql_rowcount P rows = length (filter P rows)"

definition sql_order :: "('r \<Rightarrow> 'k::linorder) \<Rightarrow> 'r list \<Rightarrow> 'r list" where
  "sql_order k rows = sort_key k rows"

lemma sql_find_Some: "sql_find P rows = Some r \<Longrightarrow> r \<in> set rows \<and> P r"
  by (auto simp: sql_find_def find_Some_iff)

lemma sql_find_None: "sql_find P rows = None \<longleftrightarrow> (\<forall>r \<in> set rows. \<not> P r)"
  by (auto simp: sql_find_def find_None_iff)

lemma sql_find_key:
  assumes "distinct (map k rows)"
  shows "sql_find (\<lambda>r. k r = v) rows = Some r \<longleftrightarrow> r \<in> set rows \<and> k r = v"
proof
  assume r: "r \<in> set rows \<and> k r = v"
  then obtain r' where f: "sql_find (\<lambda>r. k r = v) rows = Some r'"
    by (metis (mono_tags, lifting) not_None_eq sql_find_None)
  then have "r' \<in> set rows" and "k r' = v"
    using sql_find_Some [OF f] by auto
  then show "sql_find (\<lambda>r. k r = v) rows = Some r"
    using f r assms by (metis distinct_map inj_onD)
qed (auto dest: sql_find_Some)

lemma key_unique:
  "distinct (map k rows) \<Longrightarrow> r \<in> set rows \<Longrightarrow> r' \<in> set rows \<Longrightarrow> k r = k r' \<Longrightarrow> r = r'"
  by (auto simp: distinct_map inj_on_def)

lemma set_sql_update: "set (sql_update P f rows) = (\<lambda>r. if P r then f r else r) ` set rows"
  by (simp add: sql_update_def)

lemma length_sql_update [simp]: "length (sql_update P f rows) = length rows"
  by (simp add: sql_update_def)

lemma map_sql_update [table_simps]:
  "(\<And>r. k (f r) = k r) \<Longrightarrow> map k (sql_update P f rows) = map k rows"
  by (simp add: sql_update_def)

lemma sql_update_other: "r \<in> set rows \<Longrightarrow> \<not> P r \<Longrightarrow> r \<in> set (sql_update P f rows)"
  by (force simp: set_sql_update)

lemma sql_update_hit: "r \<in> set rows \<Longrightarrow> P r \<Longrightarrow> f r \<in> set (sql_update P f rows)"
  by (force simp: set_sql_update)

lemma sql_update_cases:
  "r' \<in> set (sql_update P f rows) \<Longrightarrow>
     (\<exists>r \<in> set rows. P r \<and> r' = f r) \<or> r' \<in> set rows \<and> \<not> P r'"
  by (auto simp: set_sql_update split: if_splits)

lemma sql_rowcount_0 [table_simps]: "sql_rowcount P rows = 0 \<longleftrightarrow> (\<forall>r \<in> set rows. \<not> P r)"
  by (simp add: sql_rowcount_def filter_empty_conv)

lemma sql_rowcount_key:
  assumes "distinct (map k rows)" and "r \<in> set rows" and "\<And>r'. P r' \<longleftrightarrow> k r' = k r \<and> Q r'"
    and "Q r"
  shows "sql_rowcount P rows = 1"
proof -
  have "filter P rows = filter (\<lambda>x. x = r) rows"
    using assms by (intro filter_cong) (auto dest: key_unique)
  moreover have "distinct rows"
    using assms(1) by (simp add: distinct_map)
  ultimately show ?thesis
    using assms(2)
    by (simp add: sql_rowcount_def distinct_length_filter Collect_conv_if Int_def)
qed

lemma set_sql_order [simp]: "set (sql_order k rows) = set rows"
  by (simp add: sql_order_def)

lemma sorted_sql_order: "sorted (map k (sql_order k rows))"
  by (simp add: sql_order_def)

lemma sql_order_hd_least:
  assumes "sql_order k rows = r # rs" and "r' \<in> set rows"
  shows "k r \<le> k r'"
proof -
  have "sorted (map k (r # rs))"
    using sorted_sql_order [of k rows] assms(1) by simp
  moreover have "r' \<in> set (r # rs)"
    using assms set_sql_order [of k rows] by simp
  ultimately show ?thesis by auto
qed

lemma sql_find_append: "sql_find P (xs @ ys) = (case sql_find P xs of Some x \<Rightarrow> Some x | None \<Rightarrow> sql_find P ys)"
  by (induction xs) (auto simp: sql_find_def)

lemma filter_below_nth:
  assumes "sorted_wrt (\<lambda>x y. k y < k x) xs" "0 < n" "n \<le> length xs"
  shows "filter (\<lambda>r. k r < (k (xs ! (n - 1)) :: 'k :: linorder)) xs = drop n xs"
proof -
  let ?c = "k (xs ! (n - 1))"
  have lt: "k (xs ! j) < k (xs ! i)" if "i < j" "j < length xs" for i j
    using sorted_wrt_nth_less [OF assms(1)] that by blast
  have "\<not> k x < ?c" if x: "x \<in> set (take n xs)" for x
  proof -
    obtain i where i: "i < n" "x = xs ! i"
      using x assms(3) by (auto simp: in_set_conv_nth)
    then have "i = n - 1 \<or> i < n - 1"
      using assms(2) by linarith
    then show ?thesis
      using lt [of i "n - 1"] i assms(2,3) by (auto dest: order.asym)
  qed
  then have "filter (\<lambda>r. k r < ?c) (take n xs) = []"
    by (simp add: filter_empty_conv)
  moreover have "k x < ?c" if x: "x \<in> set (drop n xs)" for x
  proof -
    obtain i where i: "n \<le> i" "i < length xs" "x = xs ! i"
      using x assms(3) by (auto simp: in_set_conv_nth) (metis add.commute le_add1 less_diff_conv nth_drop)
    then show ?thesis
      using lt [of "n - 1" i] assms(2) by auto
  qed
  then have "filter (\<lambda>r. k r < ?c) (drop n xs) = drop n xs"
    by (simp add: filter_id_conv)
  ultimately show ?thesis
    by (metis append_Nil append_take_drop_id filter_append)
qed

lemma sql_find_update_other:
  "(\<And>r. P r \<Longrightarrow> k r \<noteq> v) \<Longrightarrow> (\<And>r. k (f r) = k r) \<Longrightarrow>
     sql_find (\<lambda>r. k r = v) (sql_update P f rows) = sql_find (\<lambda>r. k r = v) rows"
  by (induction rows) (auto simp: sql_find_def sql_update_def)

lemma sql_find_update_hit:
  "sql_find (\<lambda>r. k r = v) rows = Some r \<Longrightarrow> P r \<Longrightarrow> (\<And>r. k (f r) = k r) \<Longrightarrow>
     sql_find (\<lambda>r. k r = v) (sql_update P f rows) = Some (f r)"
  by (induction rows) (auto simp: sql_find_def sql_update_def split: if_splits)

end
