(* ===== verification/Contract_Text.thy ===== *)
theory Contract_Text
  imports WG_Prelude
begin

text \<open>
  The text validators that the contract modules of \<^verbatim>\<open>webguard_contracts\<close> repeat: bounded text,
  canonical UUIDs, SHA-256 digests, error identifiers and artifact references. Each module raises
  its own exception class with its own code prefix, so the shared bodies take the exception
  constructor and the prefix. The library functions they rest on (\<^verbatim>\<open>uuid.UUID\<close>,
  \<^verbatim>\<open>int(_, 16)\<close>, \<^verbatim>\<open>PurePosixPath\<close>) are written out.
\<close>

section \<open>Definitions\<close>

subsection \<open>Bounded text\<close>

definition bounded_text :: "(string \<Rightarrow> exn) \<Rightarrow> string \<Rightarrow> nat \<Rightarrow> string \<Rightarrow> string result" where
  "bounded_text err prefix maximum value =
     (let cleaned = py_strip value in
      raise_if (cleaned = [] \<or> length cleaned > maximum) (err (prefix @ ''_text_invalid''))
      (raise_if (list_ex is_control cleaned) (err (prefix @ ''_text_control_character''))
      (Inr cleaned)))"

subsection \<open>Hexadecimal digits, \<^verbatim>\<open>int(_, 16)\<close> and UUIDs\<close>

definition hex_alphabet :: string where
  "hex_alphabet = ''0123456789abcdef''"

definition hex_char :: "nat \<Rightarrow> char" where
  "hex_char n = hex_alphabet ! n"

definition is_hex :: "char \<Rightarrow> bool" where
  "is_hex c \<longleftrightarrow> c \<in> set hex_alphabet"

fun index_of :: "char \<Rightarrow> string \<Rightarrow> nat option" where
  "index_of c [] = None"
| "index_of c (x # xs) = (if x = c then Some 0 else map_option Suc (index_of c xs))"

text \<open>The digit value of a character in base 16; both letter cases are accepted.\<close>

definition hex_val :: "char \<Rightarrow> nat option" where
  "hex_val c = index_of (lower_char c) hex_alphabet"

text \<open>The digits of an \<^verbatim>\<open>int\<close> literal: single underscores may separate digits.\<close>

fun digits16 :: "nat \<Rightarrow> bool \<Rightarrow> string \<Rightarrow> nat option" where
  "digits16 acc prev [] = (if prev then Some acc else None)"
| "digits16 acc prev (c # cs) =
     (if c = CHR ''_'' then (if prev then digits16 acc False cs else None)
      else (case hex_val c of None \<Rightarrow> None | Some d \<Rightarrow> digits16 (16 * acc + d) True cs))"

definition drop_sign :: "string \<Rightarrow> bool \<times> string" where
  "drop_sign s =
     (case s of c # cs \<Rightarrow> if c = CHR ''-'' then (True, cs) else if c = CHR ''+'' then (False, cs) else (False, s)
      | [] \<Rightarrow> (False, []))"

definition drop_0x :: "string \<Rightarrow> string" where
  "drop_0x s =
     (if take 2 s = ''0x'' \<or> take 2 s = ''0X''
      then (if take 1 (drop 2 s) = ''_'' then drop 3 s else drop 2 s) else s)"

definition py_int16 :: "string \<Rightarrow> int option" where
  "py_int16 s =
     (case drop_sign (py_strip s) of (neg, u) \<Rightarrow>
        map_option (\<lambda>n. if neg then - int n else int n) (digits16 0 False (drop_0x u)))"

text \<open>\<^verbatim>\<open>s.replace(old, "")\<close> for a non-empty \<open>old\<close>.\<close>

function py_remove :: "string \<Rightarrow> string \<Rightarrow> string" where
  "py_remove old s =
     (case s of [] \<Rightarrow> []
      | x # xs \<Rightarrow> if old \<noteq> [] \<and> take (length old) s = old then py_remove old (drop (length old) s)
                 else x # py_remove old xs)"
  by pat_completeness auto
termination
  by (relation "measure (\<lambda>(old, s). length s)") (auto simp: neq_Nil_conv)

declare py_remove.simps [simp del]

definition strip_chars :: "string \<Rightarrow> string \<Rightarrow> string" where
  "strip_chars cs s =
     rev (dropWhile (\<lambda>c. c \<in> set cs) (rev (dropWhile (\<lambda>c. c \<in> set cs) s)))"

text \<open>\<^verbatim>\<open>uuid.UUID(value)\<close>, as the 128-bit integer it holds.\<close>

definition uuid_parse :: "string \<Rightarrow> nat option" where
  "uuid_parse value =
     (let hex = py_remove ''-'' (strip_chars ''{}'' (py_remove ''uuid:'' (py_remove ''urn:'' value)))
      in if length hex \<noteq> 32 then None
         else (case py_int16 hex of None \<Rightarrow> None
               | Some n \<Rightarrow> if 0 \<le> n \<and> n < 2 ^ 128 then Some (nat n) else None))"

primrec fixed_hex :: "nat \<Rightarrow> nat \<Rightarrow> string" where
  "fixed_hex 0 n = []"
| "fixed_hex (Suc k) n = fixed_hex k (n div 16) @ [hex_char (n mod 16)]"

definition dash_uuid :: "string \<Rightarrow> string" where
  "dash_uuid h =
     take 8 h @ ''-'' @ take 4 (drop 8 h) @ ''-'' @ take 4 (drop 12 h) @ ''-''
     @ take 4 (drop 16 h) @ ''-'' @ drop 20 h"

text \<open>\<^verbatim>\<open>str(UUID)\<close>.\<close>

definition uuid_str :: "nat \<Rightarrow> string" where
  "uuid_str n = dash_uuid (fixed_hex 32 n)"

definition canonical_uuid :: "(string \<Rightarrow> exn) \<Rightarrow> string \<Rightarrow> string \<Rightarrow> string result" where
  "canonical_uuid err prefix value =
     (case uuid_parse value of None \<Rightarrow> Inl (err (prefix @ ''_uuid_invalid''))
      | Some n \<Rightarrow>
          let canonical = uuid_str n in
          raise_if (canonical \<noteq> value) (err (prefix @ ''_uuid_non_canonical''))
          (Inr canonical))"

text \<open>The shape \<^verbatim>\<open>8-4-4-4-12\<close> of lower-case hexadecimal digits.\<close>

definition uuid_shape :: "string \<Rightarrow> bool" where
  "uuid_shape v \<longleftrightarrow> (\<exists>h. length h = 32 \<and> list_all is_hex h \<and> v = dash_uuid h)"

subsection \<open>Digests and identifiers\<close>

definition hex64 :: "string \<Rightarrow> bool" where
  "hex64 v \<longleftrightarrow> length v = 64 \<and> list_all is_hex v"

definition is_lower_alnum :: "char \<Rightarrow> bool" where
  "is_lower_alnum c \<longleftrightarrow> c \<in> set ''abcdefghijklmnopqrstuvwxyz0123456789''"

definition is_alnum_ascii :: "char \<Rightarrow> bool" where
  "is_alnum_ascii c \<longleftrightarrow>
     c \<in> set ''ABCDEFGHIJKLMNOPQRSTUVWXYZabcdefghijklmnopqrstuvwxyz0123456789''"

text \<open>
  The pattern \<^verbatim>\<open>[a-z0-9]+(?:[._-][a-z0-9]+)*\<close>; the flag says whether the character
  before was alphanumeric.
\<close>

fun error_code_tail :: "bool \<Rightarrow> string \<Rightarrow> bool" where
  "error_code_tail prev [] = prev"
| "error_code_tail prev (c # cs) =
     (if is_lower_alnum c then error_code_tail True cs
      else if prev \<and> c \<in> set ''._-'' then error_code_tail False cs
      else False)"

definition error_code_match :: "string \<Rightarrow> bool" where
  "error_code_match s = error_code_tail False s"

definition error_code_text :: "(string \<Rightarrow> exn) \<Rightarrow> string \<Rightarrow> string \<Rightarrow> string result" where
  "error_code_text err prefix value =
     bindE (bounded_text err prefix 128 value)
       (\<lambda>text. let cleaned = py_lower text in
          raise_if (\<not> error_code_match cleaned) (err (prefix @ ''_error_code_invalid''))
          (Inr cleaned))"

subsection \<open>Artifact references\<close>

text \<open>
  \<^verbatim>\<open>PurePosixPath\<close> of a relative text: the components between slashes without the empty ones
  and the single dots; \<^verbatim>\<open>as_posix\<close> writes the empty path as a dot.
\<close>

definition posix_parts :: "string \<Rightarrow> string list" where
  "posix_parts s = filter (\<lambda>p. p \<noteq> [] \<and> p \<noteq> ''.'') (py_split (CHR ''/'') s)"

definition as_posix :: "string list \<Rightarrow> string" where
  "as_posix ps = (if ps = [] then ''.'' else py_join (CHR ''/'') ps)"

definition is_absolute :: "string \<Rightarrow> bool" where
  "is_absolute s \<longleftrightarrow> take 1 s = ''/''"

subsection \<open>JSON documents and timestamps\<close>

text \<open>
  The values that \<^verbatim>\<open>to_dict\<close> builds. A digest is taken of the canonical JSON text of such a
  value (sorted keys, no spaces); the text encoding and SHA-256 together are one function of the
  document, a field of the environment below.
\<close>

datatype json =
    JNull | JBool bool | JInt int | JFloat rat | JStr string
  | JArr "json list" | JObj "(string \<times> json) list"

primrec fixed_dec :: "nat \<Rightarrow> nat \<Rightarrow> string" where
  "fixed_dec 0 n = []"
| "fixed_dec (Suc k) n = fixed_dec k (n div 10) @ [''0123456789'' ! (n mod 10)]"

text \<open>Year, month and day of a day number counted from 1970-01-01 (proleptic Gregorian).\<close>

definition civil_date :: "int \<Rightarrow> int \<times> int \<times> int" where
  "civil_date day =
     (let z = day + 719468;
          era = z div 146097;
          doe = z mod 146097;
          yoe = (doe - doe div 1460 + doe div 36524 - doe div 146096) div 365;
          doy = doe - (365 * yoe + yoe div 4 - yoe div 100);
          mp = (5 * doy + 2) div 153;
          d = doy - (153 * mp + 2) div 5 + 1;
          m = (if mp < 10 then mp + 3 else mp - 9);
          y = yoe + era * 400 + (if m \<le> 2 then 1 else 0)
      in (y, m, d))"

text \<open>\<^verbatim>\<open>_timestamp_text\<close>: ISO format with microseconds and a final \<^verbatim>\<open>Z\<close>.\<close>

definition timestamp_text :: "time \<Rightarrow> string" where
  "timestamp_text t =
     (let us = t mod microseconds; secs = t div microseconds;
          sod = secs mod 86400
      in case civil_date (secs div 86400) of (y, m, d) \<Rightarrow>
         fixed_dec 4 (nat y) @ ''-'' @ fixed_dec 2 (nat m) @ ''-'' @ fixed_dec 2 (nat d) @ ''T'' @
         fixed_dec 2 (nat (sod div 3600)) @ '':'' @ fixed_dec 2 (nat (sod div 60 mod 60)) @ '':'' @
         fixed_dec 2 (nat (sod mod 60)) @ ''.'' @ fixed_dec 6 (nat us) @ ''Z'')"

section \<open>The environment\<close>

text \<open>
  What the contracts take from outside: the IDNA codec on texts that are not ASCII, and the
  hexadecimal SHA-256 digest of the canonical JSON text of a document.
\<close>

record py_env =
  env_idna :: "string \<Rightarrow> string option"
  env_digest :: "json \<Rightarrow> string"

section \<open>Text\<close>

lemma bounded_text_Inr [exn_simps]:
  "bounded_text err p m v = Inr w \<longleftrightarrow>
     w = py_strip v \<and> w \<noteq> [] \<and> length w \<le> m \<and> \<not> list_ex is_control w"
  by (auto simp: bounded_text_def Let_def exn_simps)

lemma bounded_text_idem: "bounded_text err p m v = Inr w \<Longrightarrow> bounded_text err p m w = Inr w"
  by (auto simp: bounded_text_Inr)

section \<open>UUIDs\<close>

lemma length_fixed_hex [simp]: "length (fixed_hex k n) = k"
  by (induction k arbitrary: n) simp_all

lemma is_hex_hex_char [simp]: "n < 16 \<Longrightarrow> is_hex (hex_char n)"
  unfolding is_hex_def hex_char_def by (rule nth_mem) (simp add: hex_alphabet_def)

lemma fixed_hex_digits: "list_all is_hex (fixed_hex k n)"
  by (induction k arbitrary: n) simp_all

lemma index_of_Some: "index_of c xs = Some i \<Longrightarrow> i < length xs \<and> xs ! i = c"
  by (induction xs arbitrary: i) (auto split: if_splits)

lemma index_of_mem: "c \<in> set xs \<Longrightarrow> \<exists>i. index_of c xs = Some i"
  by (induction xs) auto

lemma hex_lower: "is_hex c \<Longrightarrow> lower_char c = c"
  by (auto simp: is_hex_def hex_alphabet_def lower_char_def)

lemma hex_val_hex:
  assumes "is_hex c"
  obtains d where "hex_val c = Some d" and "d < 16" and "hex_char d = c"
proof -
  obtain d where d: "index_of c hex_alphabet = Some d"
    using assms index_of_mem by (auto simp: is_hex_def)
  show thesis
  proof (rule that)
    show "hex_val c = Some d"
      using d assms by (simp add: hex_val_def hex_lower)
    show "d < 16" and "hex_char d = c"
      using index_of_Some [OF d] by (simp_all add: hex_char_def hex_alphabet_def)
  qed
qed

lemma hex_not_underscore: "is_hex c \<Longrightarrow> c \<noteq> CHR ''_''"
  by (auto simp: is_hex_def hex_alphabet_def)

text \<open>Reading the digits of a number and writing them with the same width are inverse.\<close>

primrec hex_nat :: "string \<Rightarrow> nat \<Rightarrow> nat" where
  "hex_nat [] acc = acc"
| "hex_nat (c # cs) acc = hex_nat cs (16 * acc + the (hex_val c))"

lemma digits16_hex:
  "list_all is_hex s \<Longrightarrow> prev \<or> s \<noteq> [] \<Longrightarrow> digits16 acc prev s = Some (hex_nat s acc)"
proof (induction s arbitrary: acc prev)
  case (Cons c s)
  then have "is_hex c" by simp
  then obtain d where "hex_val c = Some d"
    by (rule hex_val_hex)
  then show ?case
    using Cons hex_not_underscore by auto
qed simp

lemma hex_nat_append: "hex_nat (s @ t) acc = hex_nat t (hex_nat s acc)"
  by (induction s arbitrary: acc) simp_all

lemma fixed_hex_hex_nat: "list_all is_hex s \<Longrightarrow> fixed_hex (length s) (hex_nat s acc) = s"
proof (induction s rule: rev_induct)
  case (snoc c s)
  then obtain d where d: "hex_val c = Some d" "d < 16" "hex_char d = c"
    using hex_val_hex [of c] by auto
  have "(16 * hex_nat s acc + d) div 16 = hex_nat s acc"
    using d(2) by simp
  moreover have "(16 * hex_nat s acc + d) mod 16 = d"
    using d(2) by simp
  ultimately show ?case
    using snoc d by (simp add: hex_nat_append)
qed simp

lemma hex_nat_bound: "list_all is_hex s \<Longrightarrow> hex_nat s 0 < 16 ^ length s"
proof (induction s rule: rev_induct)
  case (snoc c s)
  then obtain d where "hex_val c = Some d" and "d < 16"
    using hex_val_hex [of c] by auto
  moreover have "Suc (hex_nat s 0) * 16 \<le> 16 ^ length s * 16"
    using snoc by simp
  ultimately show ?case
    by (simp add: hex_nat_append)
qed simp

lemma py_remove_absent:
  "old \<noteq> [] \<Longrightarrow> hd old \<notin> set s \<Longrightarrow> py_remove old s = s"
proof (induction s)
  case (Cons x xs)
  then have "take (length old) (x # xs) \<noteq> old"
    by (cases old) auto
  then show ?case
    using Cons by (subst py_remove.simps) auto
qed (simp add: py_remove.simps)

lemma py_remove_missing:
  assumes "c \<in> set old" and "c \<notin> set s"
  shows "py_remove old s = s"
  using assms(2)
proof (induction s)
  case (Cons x xs)
  have "take (length old) (x # xs) \<noteq> old"
    using Cons.prems assms(1) by (metis in_set_takeD)
  then show ?case
    using Cons by (subst py_remove.simps) auto
qed (simp add: py_remove.simps)

lemma py_remove_char: "py_remove [c] s = filter (\<lambda>x. x \<noteq> c) s"
  by (induction s) (simp_all add: py_remove.simps)

lemma dash_uuid_set:
  assumes "list_all is_hex h" and "c \<in> set (dash_uuid h)"
  shows "is_hex c \<or> c = CHR ''-''"
proof -
  have "c \<in> set h \<or> c = CHR ''-''"
    using assms(2) set_take_subset [of _ h] set_drop_subset [of _ h] set_take_subset [of 4 "drop _ h"]
    unfolding dash_uuid_def by (fastforce dest: in_set_takeD in_set_dropD)
  then show ?thesis
    using assms(1) by (auto simp: list_all_iff)
qed

lemma hex_not_dash: "is_hex c \<Longrightarrow> c \<noteq> CHR ''-''"
  by (auto simp: is_hex_def hex_alphabet_def)

lemma filter_dash: "list_all is_hex h \<Longrightarrow> filter (\<lambda>x. x \<noteq> CHR ''-'') h = h"
  by (rule filter_True) (use hex_not_dash in \<open>auto simp: list_all_iff\<close>)

lemma list_all_take: "list_all P xs \<Longrightarrow> list_all P (take n xs)"
  by (auto simp: list_all_iff dest: in_set_takeD)

lemma list_all_drop: "list_all P xs \<Longrightarrow> list_all P (drop n xs)"
  by (auto simp: list_all_iff dest: in_set_dropD)

lemma remove_dashes:
  assumes "list_all is_hex h"
  shows "filter (\<lambda>x. x \<noteq> CHR ''-'') (dash_uuid h) = h"
proof -
  have "filter (\<lambda>x. x \<noteq> CHR ''-'') (dash_uuid h)
      = take 8 h @ take 4 (drop 8 h) @ take 4 (drop 12 h) @ take 4 (drop 16 h) @ drop 20 h"
    using assms by (simp add: dash_uuid_def filter_dash list_all_take list_all_drop)
  also have "\<dots> = h"
  proof -
    have "take 4 (drop 16 h) @ drop 20 h = drop 16 h"
      using append_take_drop_id [of 4 "drop 16 h"] by simp
    moreover have "take 4 (drop 12 h) @ drop 16 h = drop 12 h"
      using append_take_drop_id [of 4 "drop 12 h"] by simp
    moreover have "take 4 (drop 8 h) @ drop 12 h = drop 8 h"
      using append_take_drop_id [of 4 "drop 8 h"] by simp
    ultimately show ?thesis by simp
  qed
  finally show ?thesis .
qed

lemma length_dash_uuid: "length h = 32 \<Longrightarrow> length (dash_uuid h) = 36"
  by (simp add: dash_uuid_def)

lemma strip_chars_absent: "(\<And>c. c \<in> set s \<Longrightarrow> c \<notin> set cs) \<Longrightarrow> strip_chars cs s = s"
  by (cases "s = []") (simp_all add: strip_chars_def dropWhile_id_hd hd_rev)

lemma hex_not_space: "is_hex c \<Longrightarrow> \<not> py_isspace c"
  by (auto simp: is_hex_def hex_alphabet_def py_isspace_def)

lemma py_int16_hex:
  assumes "list_all is_hex h" and "h \<noteq> []"
  shows "py_int16 h = Some (int (hex_nat h 0))"
proof -
  have mem: "is_hex c" if "c \<in> set h" for c
    using assms(1) that by (simp add: list_all_iff)
  have strip: "py_strip h = h"
    using assms(2) mem hex_not_space by (intro py_strip_id) auto
  have "hd h \<noteq> CHR ''-''" and "hd h \<noteq> CHR ''+''"
    using mem [of "hd h"] assms(2) by (auto simp: is_hex_def hex_alphabet_def)
  then have sign: "drop_sign h = (False, h)"
    by (cases h) (auto simp: drop_sign_def)
  have "\<not> is_hex (CHR ''x'')" and "\<not> is_hex (CHR ''X'')"
    by (simp_all add: is_hex_def hex_alphabet_def)
  then have "CHR ''x'' \<notin> set h" and "CHR ''X'' \<notin> set h"
    using mem by auto
  moreover have "set (take 2 h) \<subseteq> set h"
    by (rule set_take_subset)
  ultimately have "take 2 h \<noteq> ''0x''" and "take 2 h \<noteq> ''0X''"
    by auto
  then have "drop_0x h = h"
    by (simp add: drop_0x_def)
  then show ?thesis
    using strip sign digits16_hex [OF assms(1), of False] assms(2) by (simp add: py_int16_def)
qed

lemma uuid_parse_dash:
  assumes "list_all is_hex h" and "length h = 32"
  shows "uuid_parse (dash_uuid h) = Some (hex_nat h 0)"
proof -
  have mem: "is_hex c \<or> c = CHR ''-''" if "c \<in> set (dash_uuid h)" for c
    using dash_uuid_set [OF assms(1) that] .
  have colon: "CHR '':'' \<notin> set (dash_uuid h)"
    using mem [of "CHR '':''"] by (auto simp: is_hex_def hex_alphabet_def)
  have urn: "py_remove ''urn:'' (dash_uuid h) = dash_uuid h"
    and uuid: "py_remove ''uuid:'' (dash_uuid h) = dash_uuid h"
    using colon by (simp_all add: py_remove_missing [of "CHR '':''"])
  have braces: "strip_chars ''{}'' (dash_uuid h) = dash_uuid h"
    using mem by (intro strip_chars_absent) (auto simp: is_hex_def hex_alphabet_def)
  have "hex_nat h 0 < 2 ^ 128"
    using hex_nat_bound [OF assms(1)] assms(2) by simp
  then have "int (hex_nat h 0) < 2 ^ 128"
    by (metis of_nat_less_numeral_power_cancel_iff)
  moreover have "h \<noteq> []"
    using assms(2) by auto
  ultimately show ?thesis
    using assms py_int16_hex [OF assms(1)]
    by (simp add: uuid_parse_def urn uuid braces py_remove_char remove_dashes)
qed

text \<open>A text passes the UUID check exactly when it has the canonical shape, and unchanged.\<close>

lemma canonical_uuid_Inr:
  "canonical_uuid err p v = Inr w \<longleftrightarrow> w = v \<and> uuid_shape v"
proof
  assume "canonical_uuid err p v = Inr w"
  then obtain n where "w = uuid_str n" and "uuid_str n = v"
    by (auto simp: canonical_uuid_def Let_def exn_simps split: option.splits)
  then show "w = v \<and> uuid_shape v"
    using fixed_hex_digits [of 32 n] length_fixed_hex [of 32 n]
    unfolding uuid_shape_def uuid_str_def by blast
next
  assume "w = v \<and> uuid_shape v"
  then obtain h where h: "length h = 32" "list_all is_hex h" "v = dash_uuid h" and "w = v"
    by (auto simp: uuid_shape_def)
  then have "uuid_parse v = Some (hex_nat h 0)"
    by (simp add: uuid_parse_dash)
  moreover have "uuid_str (hex_nat h 0) = v"
    using fixed_hex_hex_nat [OF h(2), of 0] h by (simp add: uuid_str_def)
  ultimately show "canonical_uuid err p v = Inr w"
    using \<open>w = v\<close> by (simp add: canonical_uuid_def)
qed

text \<open>Code equations: the shape decides without the arithmetic on 128-bit numbers.\<close>

lemma uuid_shape_code [code]:
  "uuid_shape v \<longleftrightarrow>
     (let h = filter (\<lambda>c. c \<noteq> CHR ''-'') v in length h = 32 \<and> list_all is_hex h \<and> v = dash_uuid h)"
proof -
  have "\<not> is_hex (CHR ''-'')"
    by (simp add: is_hex_def hex_alphabet_def)
  then have "filter (\<lambda>c. c \<noteq> CHR ''-'') h = h" if "list_all is_hex h" for h
    using that unfolding list_all_iff by (intro filter_True) blast
  moreover have "list_all is_hex (take n h)" "list_all is_hex (drop n h)" if "list_all is_hex h" for n h
    using that by (auto simp: list_all_iff dest: in_set_takeD in_set_dropD)
  ultimately have "filter (\<lambda>c. c \<noteq> CHR ''-'') (dash_uuid h) =
      take 8 h @ take 4 (drop 8 h) @ take 4 (drop 12 h) @ take 4 (drop 16 h) @ drop 20 h"
    if "list_all is_hex h" for h
    using that by (simp add: dash_uuid_def)
  moreover have "take 8 h @ take 4 (drop 8 h) @ take 4 (drop 12 h) @ take 4 (drop 16 h) @ drop 20 h = h"
    for h :: string
  proof -
    have "drop 16 h = take 4 (drop 16 h) @ drop 20 h" "drop 12 h = take 4 (drop 12 h) @ drop 16 h"
      "drop 8 h = take 4 (drop 8 h) @ drop 12 h"
      using append_take_drop_id [of 4 "drop 16 h", symmetric]
        append_take_drop_id [of 4 "drop 12 h", symmetric]
        append_take_drop_id [of 4 "drop 8 h", symmetric] by simp_all
    then show ?thesis by (metis append_take_drop_id)
  qed
  ultimately have "filter (\<lambda>c. c \<noteq> CHR ''-'') (dash_uuid h) = h" if "list_all is_hex h" for h
    using that by metis
  then show ?thesis
    by (auto simp: uuid_shape_def Let_def)
qed

lemma canonical_uuid_code [code]:
  "canonical_uuid err p v =
     (if uuid_shape v then Inr v
      else if uuid_parse v = None then Inl (err (p @ ''_uuid_invalid''))
      else Inl (err (p @ ''_uuid_non_canonical'')))"
  using canonical_uuid_Inr [of err p v v]
  by (auto simp: canonical_uuid_def Let_def raise_if_def split: option.splits if_splits)

section \<open>Identifiers\<close>

lemma error_code_tail_set:
  "error_code_tail prev s \<Longrightarrow> c \<in> set s \<Longrightarrow> is_lower_alnum c \<or> c \<in> set ''._-''"
  by (induction prev s rule: error_code_tail.induct) (auto split: if_splits)

lemma code_char_plain:
  assumes "is_lower_alnum c \<or> c \<in> set ''._-''"
  shows "\<not> py_isspace c" and "lower_char c = c" and "\<not> is_control c"
  using assms
  by (auto simp: is_lower_alnum_def py_isspace_def lower_char_def is_control_def)

lemma error_code_text_idem:
  assumes "error_code_text err p v = Inr w"
  shows "error_code_text err p w = Inr w"
proof -
  obtain t where t: "bounded_text err p 128 v = Inr t" and w: "w = py_lower t"
    and m: "error_code_match w"
    using assms by (auto simp: error_code_text_def Let_def exn_simps)
  have plain: "\<not> py_isspace c" "lower_char c = c" "\<not> is_control c" if "c \<in> set w" for c
    using code_char_plain error_code_tail_set m that unfolding error_code_match_def by blast+
  have ne: "w \<noteq> []" "length w \<le> 128"
    using t w by (auto simp: bounded_text_Inr)
  have "py_strip w = w"
    using plain(1) ne(1) by (intro py_strip_id) auto
  moreover have "py_lower w = w"
    using plain(2) by (simp add: py_lower_def map_idI)
  ultimately show ?thesis
    using m ne plain(3) by (auto simp: error_code_text_def Let_def exn_simps list_ex_iff)
qed

end
