(* ===== verification/Py_Net.thy ===== *)
theory Py_Net
  imports Contract_Text
begin

text \<open>
  The parts of Python's \<^verbatim>\<open>urllib.parse\<close> and \<^verbatim>\<open>ipaddress\<close> that decide which
  targets WebGuard accepts: \<^verbatim>\<open>urlsplit\<close> with the attributes of its result, and
  \<^verbatim>\<open>ip_address\<close>. They follow the CPython 3.12 sources; text is Latin-1 as everywhere,
  on which the NFKC check of \<^verbatim>\<open>urlsplit\<close> accepts every authority.
\<close>

section \<open>Partitions of a text\<close>

text \<open>\<^verbatim>\<open>str.partition\<close> and \<^verbatim>\<open>str.rpartition\<close> for one character.\<close>

definition str_partition :: "char \<Rightarrow> string \<Rightarrow> string \<times> bool \<times> string" where
  "str_partition c s =
     (if c \<in> set s then (takeWhile (\<lambda>x. x \<noteq> c) s, True, drop 1 (dropWhile (\<lambda>x. x \<noteq> c) s))
      else (s, False, []))"

definition str_rpartition :: "char \<Rightarrow> string \<Rightarrow> string \<times> bool \<times> string" where
  "str_rpartition c s =
     (if c \<in> set s
      then (rev (drop 1 (dropWhile (\<lambda>x. x \<noteq> c) (rev s))), True, rev (takeWhile (\<lambda>x. x \<noteq> c) (rev s)))
      else ([], False, s))"

definition is_digit :: "char \<Rightarrow> bool" where
  "is_digit c \<longleftrightarrow> c \<in> set ''0123456789''"

primrec dec_nat :: "string \<Rightarrow> nat \<Rightarrow> nat" where
  "dec_nat [] acc = acc"
| "dec_nat (c # cs) acc = dec_nat cs (10 * acc + (of_char c - 48))"

definition is_ascii :: "string \<Rightarrow> bool" where
  "is_ascii s \<longleftrightarrow> list_all (\<lambda>c. (of_char c :: nat) < 128) s"

section \<open>IP addresses\<close>

text \<open>\<^verbatim>\<open>IPv4Address._parse_octet\<close>: 1 to 3 ASCII digits, no leading zero, at most 255.\<close>

definition parse_octet :: "string \<Rightarrow> nat option" where
  "parse_octet s =
     (if s = [] \<or> \<not> list_all is_digit s \<or> length s > 3 then None
      else if s \<noteq> ''0'' \<and> hd s = CHR ''0'' then None
      else if dec_nat s 0 > 255 then None else Some (dec_nat s 0))"

fun parse_octets :: "string list \<Rightarrow> nat \<Rightarrow> nat option" where
  "parse_octets [] acc = Some acc"
| "parse_octets (s # ss) acc =
     (case parse_octet s of None \<Rightarrow> None | Some n \<Rightarrow> parse_octets ss (256 * acc + n))"

definition ipv4_parse :: "string \<Rightarrow> nat option" where
  "ipv4_parse s =
     (let octets = py_split (CHR ''.'') s
      in if CHR ''/'' \<in> set s \<or> length octets \<noteq> 4 then None else parse_octets octets 0)"

definition parse_hextet :: "string \<Rightarrow> nat option" where
  "parse_hextet s =
     (if s = [] \<or> \<not> list_all (\<lambda>c. is_hex (lower_char c)) s \<or> length s > 4 then None
      else Some (hex_nat s 0))"

fun parse_hextets :: "string list \<Rightarrow> nat list option" where
  "parse_hextets [] = Some []"
| "parse_hextets (s # ss) =
     (case parse_hextet s of None \<Rightarrow> None
      | Some n \<Rightarrow> map_option (\<lambda>ns. n # ns) (parse_hextets ss))"

definition hextets_value :: "nat list \<Rightarrow> nat" where
  "hextets_value ns = foldl (\<lambda>acc n. 65536 * acc + n) 0 ns"

text \<open>
  A trailing dotted quad is rewritten to two hextets; otherwise the parts stay as they are.
\<close>

definition ipv6_parts :: "string \<Rightarrow> string list option" where
  "ipv6_parts s =
     (let parts = py_split (CHR '':'') s
      in if s = [] \<or> length parts < 3 then None
         else if CHR ''.'' \<in> set (last parts)
         then (case ipv4_parse (last parts) of None \<Rightarrow> None
               | Some n \<Rightarrow> Some (butlast parts @ [fixed_hex 4 (n div 65536), fixed_hex 4 (n mod 65536)]))
         else Some parts)"

text \<open>
  \<^verbatim>\<open>IPv6Address._ip_int_from_string\<close>: at most nine parts; at most one empty inner part, which
  stands for the missing zeros; a leading or trailing empty part only beside it.
\<close>

definition ipv6_int :: "string list \<Rightarrow> nat option" where
  "ipv6_int parts =
     (let n = length parts;
          skips = filter (\<lambda>i. parts ! i = []) [1 ..< n - 1]
      in if n > 9 \<or> length skips > 1 then None
         else if skips \<noteq> [] then
           (let skip = hd skips;
                hi = (if parts ! 0 = [] then skip - 1 else skip);
                lo = (if last parts = [] then n - skip - 2 else n - skip - 1)
            in if parts ! 0 = [] \<and> hi \<noteq> 0 \<or> last parts = [] \<and> lo \<noteq> 0 \<or> hi + lo \<ge> 8 then None
               else (case (parse_hextets (take hi parts), parse_hextets (drop (n - lo) parts)) of
                       (Some hs, Some ls) \<Rightarrow>
                         Some (hextets_value (hs @ replicate (8 - (hi + lo)) 0 @ ls))
                     | _ \<Rightarrow> None))
         else if n \<noteq> 8 then None
         else map_option hextets_value (parse_hextets parts))"

text \<open>A scope identifier after \<^verbatim>\<open>%\<close> must be present and hold no further \<^verbatim>\<open>%\<close>.\<close>

definition ipv6_parse :: "string \<Rightarrow> nat option" where
  "ipv6_parse s =
     (case str_partition (CHR ''%'') s of (addr, scoped, zone) \<Rightarrow>
        if CHR ''/'' \<in> set s \<or> scoped \<and> (zone = [] \<or> CHR ''%'' \<in> set zone) then None
        else Option.bind (ipv6_parts addr) ipv6_int)"

datatype ip_address = IPv4 nat | IPv6 nat

definition parse_ip :: "string \<Rightarrow> ip_address option" where
  "parse_ip s =
     (case ipv4_parse s of Some n \<Rightarrow> Some (IPv4 n)
      | None \<Rightarrow> map_option IPv6 (ipv6_parse s))"

section \<open>\<^verbatim>\<open>urlsplit\<close>\<close>

record split_url =
  u_scheme :: string
  u_netloc :: string
  u_path :: string
  u_query :: string
  u_fragment :: string

definition is_alpha :: "char \<Rightarrow> bool" where
  "is_alpha c \<longleftrightarrow> is_alnum_ascii c \<and> \<not> is_digit c"

definition is_scheme_char :: "char \<Rightarrow> bool" where
  "is_scheme_char c \<longleftrightarrow> is_alnum_ascii c \<or> c \<in> set ''+-.''"

definition split_scheme :: "string \<Rightarrow> string \<times> string" where
  "split_scheme url =
     (case str_partition (CHR '':'') url of (before, found, after) \<Rightarrow>
        if found \<and> before \<noteq> [] \<and> is_alpha (hd before) \<and> list_all is_scheme_char before
        then (py_lower before, after) else ([], url))"

definition is_bracket_future :: "string \<Rightarrow> bool" where
  "is_bracket_future h \<longleftrightarrow>
     (let ds = takeWhile (\<lambda>c. is_hex (lower_char c)) (drop 1 h); rest = drop (1 + length ds) h
      in ds \<noteq> [] \<and> take 1 rest = ''.'' \<and> length rest > 1 \<and> CHR 0x0A \<notin> set (drop 1 rest))"

definition check_bracketed_host :: "string \<Rightarrow> bool" where
  "check_bracketed_host h \<longleftrightarrow>
     (if take 1 h = ''v'' then is_bracket_future h
      else (case parse_ip h of Some (IPv6 n) \<Rightarrow> True | _ \<Rightarrow> False))"

definition check_bracketed_netloc :: "string \<Rightarrow> bool" where
  "check_bracketed_netloc netloc \<longleftrightarrow>
     (case str_rpartition (CHR ''@'') netloc of (_, _, hostport) \<Rightarrow>
      case str_partition (CHR ''['') hostport of (before, open_br, bracketed) \<Rightarrow>
        if open_br
        then before = [] \<and>
             (case str_partition (CHR '']'') bracketed of (hostname, _, port) \<Rightarrow>
                (port = [] \<or> take 1 port = '':'') \<and> check_bracketed_host hostname)
        else (case str_partition (CHR '':'') hostport of (hostname, _, _) \<Rightarrow>
                check_bracketed_host hostname))"

definition netloc_ok :: "string \<Rightarrow> bool" where
  "netloc_ok netloc \<longleftrightarrow>
     ((CHR ''['' \<in> set netloc) = (CHR '']'' \<in> set netloc)) \<and>
     (CHR ''['' \<in> set netloc \<longrightarrow> check_bracketed_netloc netloc)"

text \<open>\<open>None\<close> is the \<^verbatim>\<open>ValueError\<close> of a malformed bracketed authority.\<close>

definition urlsplit :: "string \<Rightarrow> split_url option" where
  "urlsplit raw =
     (let url0 = dropWhile (\<lambda>c. (of_char c :: nat) \<le> 32) raw;
          url1 = filter (\<lambda>c. (of_char c :: nat) \<notin> {9, 10, 13}) url0;
          (scheme, url2) = split_scheme url1;
          has_netloc = (take 2 url2 = ''//'');
          netloc = (if has_netloc then takeWhile (\<lambda>c. c \<notin> set ''/?#'') (drop 2 url2) else []);
          url3 = (if has_netloc then dropWhile (\<lambda>c. c \<notin> set ''/?#'') (drop 2 url2) else url2);
          (url4, _, fragment) = str_partition (CHR ''#'') url3;
          (path, _, query) = str_partition (CHR ''?'') url4
      in if has_netloc \<and> \<not> netloc_ok netloc then None
         else Some \<lparr>u_scheme = scheme, u_netloc = netloc, u_path = path,
                    u_query = query, u_fragment = fragment\<rparr>)"

definition has_userinfo :: "split_url \<Rightarrow> bool" where
  "has_userinfo u \<longleftrightarrow> CHR ''@'' \<in> set (u_netloc u)"

definition hostinfo :: "split_url \<Rightarrow> string \<times> string" where
  "hostinfo u =
     (case str_rpartition (CHR ''@'') (u_netloc u) of (_, _, hi) \<Rightarrow>
      case str_partition (CHR ''['') hi of (_, open_br, bracketed) \<Rightarrow>
        if open_br
        then (case str_partition (CHR '']'') bracketed of (hostname, _, rest) \<Rightarrow>
              case str_partition (CHR '':'') rest of (_, _, port) \<Rightarrow> (hostname, port))
        else (case str_partition (CHR '':'') hi of (hostname, _, port) \<Rightarrow> (hostname, port)))"

definition url_hostname :: "split_url \<Rightarrow> string option" where
  "url_hostname u =
     (case hostinfo u of (hostname, _) \<Rightarrow>
        if hostname = [] then None
        else (case str_partition (CHR ''%'') hostname of (h, found, zone) \<Rightarrow>
                Some (py_lower h @ (if found then ''%'' else []) @ zone)))"

text \<open>The port: \<open>Inl\<close> for the \<^verbatim>\<open>ValueError\<close>, \<open>Inr None\<close> when absent.\<close>

definition url_port :: "split_url \<Rightarrow> nat option result" where
  "url_port u =
     (case hostinfo u of (_, port) \<Rightarrow>
        if port = [] then Inr None
        else if \<not> list_all is_digit port then Inl ValueError
        else if dec_nat port 0 > 65535 then Inl ValueError
        else Inr (Some (dec_nat port 0)))"

end
