(* ===== verification/Owned_Targets.thy ===== *)
theory Owned_Targets
  imports Py_Net
begin

text \<open>
  The owned-target authorization contract (\<^verbatim>\<open>webguard_contracts/owned_targets.py\<close>): canonical
  hostnames and HTTPS target URLs, the bounded limits, and the authorization document. The IDNA
  codec for non-ASCII hostnames is the environment's.
\<close>

section \<open>Definitions\<close>

definition ot_error :: "string \<Rightarrow> exn" where
  "ot_error code = OwnedTargetValidationError code"

definition ot_uuid :: "string \<Rightarrow> string result" where
  "ot_uuid value = canonical_uuid OwnedTargetValidationError ''owned_target'' value"

definition ot_bounded_text :: "nat \<Rightarrow> string \<Rightarrow> string result" where
  "ot_bounded_text maximum value = bounded_text OwnedTargetValidationError ''owned_target'' maximum value"

definition ot_bounded_integer :: "int \<Rightarrow> int \<Rightarrow> int \<Rightarrow> int result" where
  "ot_bounded_integer minimum maximum value =
     raise_if (\<not> (minimum \<le> value \<and> value \<le> maximum)) (ot_error ''owned_target_integer_invalid'')
     (Inr value)"

definition ot_bounded_number :: "rat \<Rightarrow> rat \<Rightarrow> rat \<Rightarrow> rat result" where
  "ot_bounded_number minimum maximum value =
     raise_if (\<not> (minimum \<le> value \<and> value \<le> maximum)) (ot_error ''owned_target_number_invalid'')
     (Inr value)"

subsection \<open>Hostnames\<close>

text \<open>
  \<^verbatim>\<open>encode("idna").decode("ascii")\<close>: an ASCII text is unchanged once its labels have 1 to 63
  characters (the last may be empty); other texts go through the codec.
\<close>

definition idna_encode :: "(string \<Rightarrow> string option) \<Rightarrow> string \<Rightarrow> string option" where
  "idna_encode idna s =
     (if is_ascii s
      then (let labels = py_split (CHR ''.'') s
            in if list_all (\<lambda>l. l \<noteq> [] \<and> length l < 64) (butlast labels) \<and> length (last labels) < 64
               then Some s else None)
      else (case idna s of None \<Rightarrow> None | Some r \<Rightarrow> if is_ascii r then Some r else None))"

definition rstrip_dots :: "string \<Rightarrow> string" where
  "rstrip_dots s = rev (dropWhile (\<lambda>c. c = CHR ''.'') (rev s))"

definition dns_label_ok :: "string \<Rightarrow> bool" where
  "dns_label_ok label \<longleftrightarrow>
     label \<noteq> [] \<and> length label \<le> 63 \<and> hd label \<noteq> CHR ''-'' \<and> last label \<noteq> CHR ''-'' \<and>
     list_all (\<lambda>c. is_alnum_ascii c \<or> c = CHR ''-'') label"

definition canonicalize_owned_target_hostname :: "py_env \<Rightarrow> string \<Rightarrow> string result" where
  "canonicalize_owned_target_hostname E value =
     (let candidate = rstrip_dots (py_strip value) in
      raise_if (candidate = [] \<or> CHR ''%'' \<in> set candidate) (ot_error ''owned_target_hostname_invalid'')
      (raise_if (parse_ip candidate \<noteq> None) (ot_error ''owned_target_hostname_ip_not_allowed'')
      (case idna_encode (env_idna E) candidate of
         None \<Rightarrow> Inl (ot_error ''owned_target_hostname_invalid'')
       | Some encoded \<Rightarrow>
         let hostname = py_lower encoded; labels = py_split (CHR ''.'') hostname in
         raise_if (length hostname > 253) (ot_error ''owned_target_hostname_invalid'')
         (raise_if (length labels < 2) (ot_error ''owned_target_hostname_public_name_required'')
         (raise_if (\<not> list_all dns_label_ok labels) (ot_error ''owned_target_hostname_invalid'')
         (Inr hostname))))))"

subsection \<open>Target URLs\<close>

fun dec_str :: "nat \<Rightarrow> string" where
  "dec_str n = (if n < 10 then [''0123456789'' ! n] else dec_str (n div 10) @ [''0123456789'' ! (n mod 10)])"

declare dec_str.simps [simp del]

definition canonicalize_owned_target_url :: "py_env \<Rightarrow> string \<Rightarrow> string result" where
  "canonicalize_owned_target_url E value =
     (let candidate = py_strip value in
      raise_if (candidate = [] \<or> length candidate > 2048 \<or> CHR 0x5C \<in> set candidate)
        (ot_error ''owned_target_url_invalid'')
      (case urlsplit candidate of
         None \<Rightarrow> Inl (ot_error ''owned_target_url_invalid'')
       | Some parsed \<Rightarrow>
         raise_if (py_lower (u_scheme parsed) \<noteq> ''https'') (ot_error ''owned_target_https_required'')
         (raise_if (has_userinfo parsed) (ot_error ''owned_target_credentials_not_allowed'')
         (raise_if (u_query parsed \<noteq> [] \<or> u_fragment parsed \<noteq> [])
            (ot_error ''owned_target_query_fragment_not_allowed'')
         (case url_hostname parsed of
            None \<Rightarrow> Inl (ot_error ''owned_target_hostname_missing'')
          | Some host \<Rightarrow>
            bindE (canonicalize_owned_target_hostname E host)
            (\<lambda>hostname.
             case url_port parsed of
               Inl _ \<Rightarrow> Inl (ot_error ''owned_target_port_invalid'')
             | Inr port \<Rightarrow>
               let authority = (case port of None \<Rightarrow> hostname
                                | Some p \<Rightarrow> if p = 443 then hostname else hostname @ '':'' @ dec_str p);
                   path0 = (if u_path parsed = [] then ''/'' else u_path parsed);
                   path = (if take 1 path0 = ''/'' then path0 else CHR ''/'' # path0)
               in raise_if (list_ex (\<lambda>seg. seg = ''.'' \<or> seg = ''..'') (py_split (CHR ''/'') path))
                    (ot_error ''owned_target_path_ambiguous'')
                  (Inr (''https://'' @ authority @ path))))))))"

subsection \<open>Limits and the authorization document\<close>

record owned_target_limits =
  lim_maximum_pages :: int
  lim_maximum_depth :: int
  lim_maximum_links_per_page :: int
  lim_minimum_delay_seconds :: rat
  lim_maximum_execution_seconds :: rat
  lim_maximum_request_attempts :: int
  lim_maximum_attempts_per_request :: int
  lim_timeout_seconds :: rat
  lim_maximum_body_bytes :: int
  lim_maximum_header_bytes :: int
  lim_maximum_header_count :: int

definition OwnedTargetLimits_default :: owned_target_limits where
  "OwnedTargetLimits_default =
     \<lparr>lim_maximum_pages = 10, lim_maximum_depth = 1, lim_maximum_links_per_page = 50,
      lim_minimum_delay_seconds = 1, lim_maximum_execution_seconds = 60,
      lim_maximum_request_attempts = 15, lim_maximum_attempts_per_request = 1,
      lim_timeout_seconds = 10, lim_maximum_body_bytes = 1048576,
      lim_maximum_header_bytes = 65536, lim_maximum_header_count = 100\<rparr>"

definition OwnedTargetLimits_post_init :: "owned_target_limits \<Rightarrow> owned_target_limits result" where
  "OwnedTargetLimits_post_init l =
     bindE (ot_bounded_integer 1 50 (lim_maximum_pages l)) (\<lambda>pages.
     bindE (ot_bounded_integer 0 3 (lim_maximum_depth l)) (\<lambda>depth.
     bindE (ot_bounded_integer 1 500 (lim_maximum_links_per_page l)) (\<lambda>links.
     bindE (ot_bounded_number (1 / 2) 5 (lim_minimum_delay_seconds l)) (\<lambda>delay.
     bindE (ot_bounded_number 1 300 (lim_maximum_execution_seconds l)) (\<lambda>execution.
     bindE (ot_bounded_integer 1 150 (lim_maximum_request_attempts l)) (\<lambda>attempts.
     bindE (ot_bounded_integer 1 3 (lim_maximum_attempts_per_request l)) (\<lambda>per_request.
     bindE (ot_bounded_number 1 60 (lim_timeout_seconds l)) (\<lambda>timeout.
     bindE (ot_bounded_integer 1 (16 * 1024 * 1024) (lim_maximum_body_bytes l)) (\<lambda>body.
     bindE (ot_bounded_integer 1 (1024 * 1024) (lim_maximum_header_bytes l)) (\<lambda>header_bytes.
     bindE (ot_bounded_integer 1 1000 (lim_maximum_header_count l)) (\<lambda>header_count.
     Inr \<lparr>lim_maximum_pages = pages, lim_maximum_depth = depth,
          lim_maximum_links_per_page = links, lim_minimum_delay_seconds = delay,
          lim_maximum_execution_seconds = execution, lim_maximum_request_attempts = attempts,
          lim_maximum_attempts_per_request = per_request, lim_timeout_seconds = timeout,
          lim_maximum_body_bytes = body, lim_maximum_header_bytes = header_bytes,
          lim_maximum_header_count = header_count\<rparr>)))))))))))"

definition OwnedTargetLimits_to_dict :: "owned_target_limits \<Rightarrow> json" where
  "OwnedTargetLimits_to_dict l =
     JObj [(''maximum_pages'', JInt (lim_maximum_pages l)),
           (''maximum_depth'', JInt (lim_maximum_depth l)),
           (''maximum_links_per_page'', JInt (lim_maximum_links_per_page l)),
           (''minimum_delay_seconds'', JFloat (lim_minimum_delay_seconds l)),
           (''maximum_execution_seconds'', JFloat (lim_maximum_execution_seconds l)),
           (''maximum_request_attempts'', JInt (lim_maximum_request_attempts l)),
           (''maximum_attempts_per_request'', JInt (lim_maximum_attempts_per_request l)),
           (''timeout_seconds'', JFloat (lim_timeout_seconds l)),
           (''maximum_body_bytes'', JInt (lim_maximum_body_bytes l)),
           (''maximum_header_bytes'', JInt (lim_maximum_header_bytes l)),
           (''maximum_header_count'', JInt (lim_maximum_header_count l))]"

record owned_target_authorization =
  oa_authorization_id :: string
  oa_organization :: string
  oa_authorized_by :: string
  oa_target :: string
  oa_allowed_hosts :: "string list"
  oa_issued_at :: time
  oa_expires_at :: time
  oa_purpose :: string
  oa_limits :: owned_target_limits
  oa_passive_only :: bool
  oa_authorization_type :: string
  oa_schema_version :: string

definition OWNED_TARGET_AUTHORIZATION_TYPE :: string where
  "OWNED_TARGET_AUTHORIZATION_TYPE = ''owned_target_authorization''"

definition SUPPORTED_AUTHORIZATION_VERSIONS :: "string list" where
  "SUPPORTED_AUTHORIZATION_VERSIONS = [''1.0'']"

definition maximum_validity :: time where
  "maximum_validity = 366 * 24 * 60 * 60 * microseconds"

text \<open>\<^verbatim>\<open>tuple(sorted({...}))\<close> of a list of texts.\<close>

definition sorted_unique :: "string list \<Rightarrow> string list" where
  "sorted_unique xs = sort (remdups xs)"

definition target_hostname :: "string \<Rightarrow> string option" where
  "target_hostname target = (case urlsplit target of None \<Rightarrow> None | Some u \<Rightarrow> url_hostname u)"

definition OwnedTargetAuthorization_post_init ::
  "py_env \<Rightarrow> owned_target_authorization \<Rightarrow> owned_target_authorization result" where
  "OwnedTargetAuthorization_post_init E a =
     raise_if (oa_authorization_type a \<noteq> OWNED_TARGET_AUTHORIZATION_TYPE)
       (ot_error ''owned_target_authorization_type_invalid'')
     (raise_if (oa_schema_version a \<notin> set SUPPORTED_AUTHORIZATION_VERSIONS)
       (ot_error ''owned_target_authorization_schema_unsupported'')
     (bindE (ot_uuid (oa_authorization_id a)) (\<lambda>authorization_id.
      bindE (ot_bounded_text 200 (oa_organization a)) (\<lambda>organization.
      bindE (ot_bounded_text 200 (oa_authorized_by a)) (\<lambda>authorized_by.
      bindE (canonicalize_owned_target_url E (oa_target a)) (\<lambda>target.
      raise_if (target \<noteq> oa_target a) (ot_error ''owned_target_url_non_canonical'')
      (raise_if (oa_allowed_hosts a = []) (ot_error ''owned_target_allowed_hosts_invalid'')
      (bindE (mapE (canonicalize_owned_target_hostname E) (oa_allowed_hosts a)) (\<lambda>canonical_hosts.
       let hosts = sorted_unique canonical_hosts in
       raise_if (hosts \<noteq> oa_allowed_hosts a) (ot_error ''owned_target_allowed_hosts_non_canonical'')
       (raise_if (\<not> (case target_hostname target of None \<Rightarrow> False | Some h \<Rightarrow> h \<in> set hosts))
         (ot_error ''owned_target_canonical_host_not_allowed'')
       (raise_if (oa_expires_at a \<le> oa_issued_at a)
         (ot_error ''owned_target_authorization_window_invalid'')
       (raise_if (oa_expires_at a - oa_issued_at a > maximum_validity)
         (ot_error ''owned_target_authorization_window_too_long'')
       (bindE (ot_bounded_text 500 (oa_purpose a)) (\<lambda>purpose.
        raise_if (\<not> oa_passive_only a) (ot_error ''owned_target_passive_only_required'')
        (Inr (a\<lparr>oa_authorization_id := authorization_id, oa_organization := organization,
                oa_authorized_by := authorized_by, oa_target := target, oa_allowed_hosts := hosts,
                oa_purpose := purpose\<rparr>))))))))))))))))"

definition OwnedTargetAuthorization_to_dict :: "owned_target_authorization \<Rightarrow> json" where
  "OwnedTargetAuthorization_to_dict a =
     JObj [(''authorization_type'', JStr (oa_authorization_type a)),
           (''schema_version'', JStr (oa_schema_version a)),
           (''authorization_id'', JStr (oa_authorization_id a)),
           (''organization'', JStr (oa_organization a)),
           (''authorized_by'', JStr (oa_authorized_by a)),
           (''target'', JStr (oa_target a)),
           (''allowed_hosts'', JArr (map JStr (oa_allowed_hosts a))),
           (''issued_at'', JStr (timestamp_text (oa_issued_at a))),
           (''expires_at'', JStr (timestamp_text (oa_expires_at a))),
           (''purpose'', JStr (oa_purpose a)),
           (''passive_only'', JBool (oa_passive_only a)),
           (''limits'', OwnedTargetLimits_to_dict (oa_limits a))]"

definition authorization_fingerprint :: "py_env \<Rightarrow> owned_target_authorization \<Rightarrow> string" where
  "authorization_fingerprint E a = env_digest E (OwnedTargetAuthorization_to_dict a)"

end
