(* ===== verification/Scan_Jobs.thy ===== *)
theory Scan_Jobs
  imports Owned_Targets
begin

text \<open>
  The scan-job contract (\<^verbatim>\<open>webguard_contracts/scan_jobs.py\<close>): the lifecycle states, the
  validated submission, request and record, and their constructors. A constructor is a function
  from the raw field values to the validated record or the exception it raises, with its checks in
  the order of \<^verbatim>\<open>__post_init__\<close>. Checks of Python types (\<^verbatim>\<open>isinstance\<close>) hold
  by typing.
\<close>

section \<open>Definitions\<close>

datatype scan_job_mode = SINGLE_PAGE | CRAWL

datatype scan_job_state =
  JOB_QUEUED | JOB_RUNNING | JOB_COMPLETED | JOB_COMPLETED_WITH_ERRORS | JOB_FAILED | JOB_CANCELLED

text \<open>\<^verbatim>\<open>ScanStatus\<close> of \<^verbatim>\<open>scans.py\<close>, the status of one scan execution.\<close>

datatype scan_status =
    SCAN_QUEUED | SCAN_RUNNING | SCAN_COMPLETED | SCAN_COMPLETED_WITH_ERRORS | SCAN_FAILED
  | SCAN_CANCELLED

definition is_terminal :: "scan_job_state \<Rightarrow> bool" where
  "is_terminal s \<longleftrightarrow>
     s \<in> {JOB_COMPLETED, JOB_COMPLETED_WITH_ERRORS, JOB_FAILED, JOB_CANCELLED}"

definition mode_value :: "scan_job_mode \<Rightarrow> string" where
  "mode_value m = (case m of SINGLE_PAGE \<Rightarrow> ''single_page'' | CRAWL \<Rightarrow> ''crawl'')"

subsection \<open>Field validators\<close>

definition job_required_text :: "nat \<Rightarrow> string \<Rightarrow> string result" where
  "job_required_text maximum value = bounded_text ScanJobValidationError ''scan_job'' maximum value"

definition job_uuid :: "string \<Rightarrow> string result" where
  "job_uuid value = canonical_uuid ScanJobValidationError ''scan_job'' value"

definition MAXIMUM_IDEMPOTENCY_KEY_LENGTH :: nat where
  "MAXIMUM_IDEMPOTENCY_KEY_LENGTH = 128"

definition MINIMUM_IDEMPOTENCY_KEY_LENGTH :: nat where
  "MINIMUM_IDEMPOTENCY_KEY_LENGTH = 8"

text \<open>The pattern \<^verbatim>\<open>[A-Za-z0-9][A-Za-z0-9._:-]*\<close>.\<close>

definition idempotency_key_match :: "string \<Rightarrow> bool" where
  "idempotency_key_match s \<longleftrightarrow>
     s \<noteq> [] \<and> is_alnum_ascii (hd s) \<and> list_all (\<lambda>c. is_alnum_ascii c \<or> c \<in> set ''._:-'') s"

definition job_idempotency_key :: "string \<Rightarrow> string result" where
  "job_idempotency_key value =
     bindE (job_required_text MAXIMUM_IDEMPOTENCY_KEY_LENGTH value) (\<lambda>cleaned.
       raise_if (length cleaned < MINIMUM_IDEMPOTENCY_KEY_LENGTH \<or> \<not> idempotency_key_match cleaned)
         (ScanJobValidationError ''scan_job_idempotency_key_invalid'')
       (Inr cleaned))"

definition job_sha256 :: "string \<Rightarrow> string result" where
  "job_sha256 value =
     raise_if (\<not> hex64 value) (ScanJobValidationError ''scan_job_sha256_invalid'') (Inr value)"

definition job_artifact_reference :: "string \<Rightarrow> string result" where
  "job_artifact_reference value =
     bindE (job_required_text 512 value) (\<lambda>cleaned.
       raise_if (CHR 0x5C \<in> set cleaned) (ScanJobValidationError ''scan_job_artifact_reference_invalid'')
       (raise_if (is_absolute cleaned \<or> ''..'' \<in> set (posix_parts cleaned))
         (ScanJobValidationError ''scan_job_artifact_reference_invalid'')
       (Inr (as_posix (posix_parts cleaned)))))"

definition job_error_code :: "string option \<Rightarrow> string option result" where
  "job_error_code value = mapE_option (error_code_text ScanJobValidationError ''scan_job'') value"

definition job_optional_text :: "nat \<Rightarrow> string option \<Rightarrow> string option result" where
  "job_optional_text maximum value = mapE_option (job_required_text maximum) value"

text \<open>
  \<^verbatim>\<open>canonicalize_owned_target_url\<close>, with its failure raised again under the same code as a
  job validation error.
\<close>

definition job_target :: "py_env \<Rightarrow> string \<Rightarrow> string result" where
  "job_target E value =
     (case canonicalize_owned_target_url E value of
        Inl (OwnedTargetValidationError code) \<Rightarrow> Inl (ScanJobValidationError code)
      | r \<Rightarrow> r)"

subsection \<open>Submissions and requests\<close>

record scan_job_submission =
  ss_target :: string
  ss_authorization_id :: string
  ss_confirmation :: string
  ss_mode :: scan_job_mode

definition ScanJobSubmission_post_init ::
  "py_env \<Rightarrow> scan_job_submission \<Rightarrow> scan_job_submission result" where
  "ScanJobSubmission_post_init E s =
     bindE (job_target E (ss_target s)) (\<lambda>target.
     bindE (job_uuid (ss_authorization_id s)) (\<lambda>authorization_id.
     bindE (job_uuid (ss_confirmation s)) (\<lambda>confirmation.
       raise_if (confirmation \<noteq> authorization_id)
         (ScanJobValidationError ''scan_job_authorization_confirmation_mismatch'')
       (Inr (s\<lparr>ss_target := target, ss_authorization_id := authorization_id,
               ss_confirmation := confirmation\<rparr>)))))"

record scan_job_request =
  rq_idempotency_key :: string
  rq_target :: string
  rq_authorization_id :: string
  rq_authorization_sha256 :: string
  rq_mode :: scan_job_mode
  rq_submitted_at :: time

definition ScanJobRequest_post_init ::
  "py_env \<Rightarrow> scan_job_request \<Rightarrow> scan_job_request result" where
  "ScanJobRequest_post_init E q =
     bindE (job_idempotency_key (rq_idempotency_key q)) (\<lambda>key.
     bindE (job_target E (rq_target q)) (\<lambda>target.
     bindE (job_uuid (rq_authorization_id q)) (\<lambda>authorization_id.
     bindE (job_sha256 (rq_authorization_sha256 q)) (\<lambda>sha256.
       Inr (q\<lparr>rq_idempotency_key := key, rq_target := target,
              rq_authorization_id := authorization_id, rq_authorization_sha256 := sha256\<rparr>)))))"

definition request_fingerprint :: "py_env \<Rightarrow> scan_job_request \<Rightarrow> string" where
  "request_fingerprint E q =
     env_digest E
       (JObj [(''target'', JStr (rq_target q)),
              (''authorization_id'', JStr (rq_authorization_id q)),
              (''authorization_sha256'', JStr (rq_authorization_sha256 q)),
              (''mode'', JStr (mode_value (rq_mode q)))])"

subsection \<open>Records\<close>

record scan_job_record =
  jb_job_id :: string
  jb_request :: scan_job_request
  jb_state :: scan_job_state
  jb_updated_at :: time
  jb_revision :: int
  jb_cancellation_requested :: bool
  jb_started_at :: "time option"
  jb_completed_at :: "time option"
  jb_scan_id :: "string option"
  jb_result_status :: "scan_status option"
  jb_report_ref :: "string option"
  jb_audit_ref :: "string option"
  jb_error_code :: "string option"
  jb_error_message :: "string option"

text \<open>\<^verbatim>\<open>expected_result_state.get(status)\<close>: the job state a finished scan leads to.\<close>

definition expected_result_state :: "scan_status \<Rightarrow> scan_job_state option" where
  "expected_result_state status =
     (case status of
        SCAN_COMPLETED \<Rightarrow> Some JOB_COMPLETED
      | SCAN_COMPLETED_WITH_ERRORS \<Rightarrow> Some JOB_COMPLETED_WITH_ERRORS
      | SCAN_FAILED \<Rightarrow> Some JOB_FAILED
      | SCAN_CANCELLED \<Rightarrow> Some JOB_CANCELLED
      | SCAN_QUEUED \<Rightarrow> None
      | SCAN_RUNNING \<Rightarrow> None)"

definition has_result_metadata :: "'a scan_job_record_scheme \<Rightarrow> bool" where
  "has_result_metadata r \<longleftrightarrow>
     jb_scan_id r \<noteq> None \<or> jb_result_status r \<noteq> None \<or> jb_report_ref r \<noteq> None \<or> jb_audit_ref r \<noteq> None"

definition has_error_metadata :: "'a scan_job_record_scheme \<Rightarrow> bool" where
  "has_error_metadata r \<longleftrightarrow> jb_error_code r \<noteq> None \<or> jb_error_message r \<noteq> None"

definition has_all_result :: "'a scan_job_record_scheme \<Rightarrow> bool" where
  "has_all_result r \<longleftrightarrow>
     jb_scan_id r \<noteq> None \<and> jb_result_status r \<noteq> None \<and> jb_report_ref r \<noteq> None \<and> jb_audit_ref r \<noteq> None"

definition has_all_error :: "'a scan_job_record_scheme \<Rightarrow> bool" where
  "has_all_error r \<longleftrightarrow> jb_error_code r \<noteq> None \<and> jb_error_message r \<noteq> None"

definition validate_queued :: "'a scan_job_record_scheme \<Rightarrow> unit result" where
  "validate_queued r =
     raise_if (jb_started_at r \<noteq> None \<or> jb_completed_at r \<noteq> None
               \<or> has_result_metadata r \<or> has_error_metadata r)
       (ScanJobValidationError ''scan_job_queued_projection_invalid'')
     (Inr ())"

definition validate_running :: "'a scan_job_record_scheme \<Rightarrow> unit result" where
  "validate_running r =
     raise_if (jb_started_at r = None \<or> jb_completed_at r \<noteq> None)
       (ScanJobValidationError ''scan_job_running_projection_invalid'')
     (raise_if (has_result_metadata r \<or> has_error_metadata r)
       (ScanJobValidationError ''scan_job_running_projection_invalid'')
     (Inr ()))"

definition validate_terminal :: "'a scan_job_record_scheme \<Rightarrow> unit result" where
  "validate_terminal r =
     raise_if (jb_completed_at r = None)
       (ScanJobValidationError ''scan_job_terminal_timestamp_missing'')
     (raise_if (has_result_metadata r \<and> \<not> has_all_result r)
       (ScanJobValidationError ''scan_job_result_projection_invalid'')
     (raise_if (has_error_metadata r \<and> \<not> has_all_error r)
       (ScanJobValidationError ''scan_job_error_projection_invalid'')
     (raise_if (has_all_result r \<and> has_all_error r)
       (ScanJobValidationError ''scan_job_terminal_projection_conflict'')
     (if has_all_result r then
        raise_if (jb_started_at r = None) (ScanJobValidationError ''scan_job_result_start_missing'')
        (raise_if (Option.bind (jb_result_status r) expected_result_state \<noteq> Some (jb_state r))
          (ScanJobValidationError ''scan_job_result_status_mismatch'')
        (Inr ()))
      else if jb_state r = JOB_FAILED then
        raise_if (jb_started_at r = None \<or> \<not> has_all_error r)
          (ScanJobValidationError ''scan_job_failed_projection_invalid'')
        (Inr ())
      else if jb_state r = JOB_CANCELLED then
        raise_if (has_error_metadata r) (ScanJobValidationError ''scan_job_cancelled_error_invalid'')
        (Inr ())
      else Inl (ScanJobValidationError ''scan_job_terminal_projection_invalid'')))))"

definition validate_state_projection :: "'a scan_job_record_scheme \<Rightarrow> unit result" where
  "validate_state_projection r =
     (case jb_state r of
        JOB_QUEUED \<Rightarrow> validate_queued r
      | JOB_RUNNING \<Rightarrow> validate_running r
      | _ \<Rightarrow> validate_terminal r)"

definition validate_timestamps :: "'a scan_job_record_scheme \<Rightarrow> unit result" where
  "validate_timestamps r =
     (let submitted = rq_submitted_at (jb_request r) in
      raise_if (jb_updated_at r < submitted) (ScanJobValidationError ''scan_job_timestamp_order_invalid'')
      (raise_if (case jb_started_at r of None \<Rightarrow> False | Some t \<Rightarrow> t < submitted)
        (ScanJobValidationError ''scan_job_timestamp_order_invalid'')
      (raise_if
        (case jb_completed_at r of None \<Rightarrow> False
         | Some t \<Rightarrow> t < (case jb_started_at r of None \<Rightarrow> submitted | Some b \<Rightarrow> b))
        (ScanJobValidationError ''scan_job_timestamp_order_invalid'')
      (Inr ()))))"

definition ScanJobRecord_post_init :: "scan_job_record \<Rightarrow> scan_job_record result" where
  "ScanJobRecord_post_init r =
     bindE (job_uuid (jb_job_id r)) (\<lambda>job_id.
     raise_if (jb_revision r < 0) (ScanJobValidationError ''scan_job_revision_invalid'')
     (bindE (validate_timestamps r) (\<lambda>_.
      bindE (mapE_option job_uuid (jb_scan_id r)) (\<lambda>scan_id.
      bindE (mapE_option job_artifact_reference (jb_report_ref r)) (\<lambda>report_ref.
      bindE (mapE_option job_artifact_reference (jb_audit_ref r)) (\<lambda>audit_ref.
      bindE (job_error_code (jb_error_code r)) (\<lambda>error_code.
      bindE (job_optional_text 2048 (jb_error_message r)) (\<lambda>error_message.
        let r' = r\<lparr>jb_job_id := job_id, jb_scan_id := scan_id, jb_report_ref := report_ref,
                   jb_audit_ref := audit_ref, jb_error_code := error_code,
                   jb_error_message := error_message\<rparr>
        in bindE (validate_state_projection r') (\<lambda>_. Inr r')))))))))"

section \<open>What a valid record is\<close>

text \<open>
  The content of the checks, independently of their order: the optional fields are well formed,
  the instants are ordered, and the metadata fits the state. The predicates are stated for any
  extension of the record, so that they also read the rows of the store.
\<close>

definition fields_wf :: "'a scan_job_record_scheme \<Rightarrow> bool" where
  "fields_wf r \<longleftrightarrow>
     uuid_shape (jb_job_id r) \<and> 0 \<le> jb_revision r
     \<and> succeeds (mapE_option job_uuid (jb_scan_id r))
     \<and> succeeds (mapE_option job_artifact_reference (jb_report_ref r))
     \<and> succeeds (mapE_option job_artifact_reference (jb_audit_ref r))
     \<and> succeeds (job_error_code (jb_error_code r))
     \<and> succeeds (job_optional_text 2048 (jb_error_message r))"

definition times_wf :: "'a scan_job_record_scheme \<Rightarrow> bool" where
  "times_wf r \<longleftrightarrow>
     (let submitted = rq_submitted_at (jb_request r) in
      submitted \<le> jb_updated_at r
      \<and> (case jb_started_at r of None \<Rightarrow> True | Some t \<Rightarrow> submitted \<le> t)
      \<and> (case jb_completed_at r of None \<Rightarrow> True
         | Some t \<Rightarrow> (case jb_started_at r of None \<Rightarrow> submitted | Some b \<Rightarrow> b) \<le> t))"

definition terminal_wf :: "'a scan_job_record_scheme \<Rightarrow> bool" where
  "terminal_wf r \<longleftrightarrow>
     jb_completed_at r \<noteq> None \<and>
     (jb_started_at r \<noteq> None \<and> has_all_result r \<and> \<not> has_error_metadata r
        \<and> Option.bind (jb_result_status r) expected_result_state = Some (jb_state r)
      \<or> jb_started_at r \<noteq> None \<and> \<not> has_result_metadata r \<and> has_all_error r \<and> jb_state r = JOB_FAILED
      \<or> \<not> has_result_metadata r \<and> \<not> has_error_metadata r \<and> jb_state r = JOB_CANCELLED)"

definition projection_wf :: "'a scan_job_record_scheme \<Rightarrow> bool" where
  "projection_wf r \<longleftrightarrow>
     (case jb_state r of
        JOB_QUEUED \<Rightarrow> jb_started_at r = None \<and> jb_completed_at r = None
                        \<and> \<not> has_result_metadata r \<and> \<not> has_error_metadata r
      | JOB_RUNNING \<Rightarrow> jb_started_at r \<noteq> None \<and> jb_completed_at r = None
                        \<and> \<not> has_result_metadata r \<and> \<not> has_error_metadata r
      | _ \<Rightarrow> terminal_wf r)"

definition record_wf :: "'a scan_job_record_scheme \<Rightarrow> bool" where
  "record_wf r \<longleftrightarrow> fields_wf r \<and> times_wf r \<and> projection_wf r"

lemmas metadata_defs =
  has_result_metadata_def has_error_metadata_def has_all_result_def has_all_error_def

lemma has_all_imp: "has_all_result r \<Longrightarrow> has_result_metadata r" "has_all_error r \<Longrightarrow> has_error_metadata r"
  by (simp_all add: metadata_defs)

lemma validate_timestamps_Inr: "validate_timestamps r = Inr u \<longleftrightarrow> times_wf r"
  by (auto simp: validate_timestamps_def times_wf_def Let_def exn_simps split: option.splits)

lemma validate_terminal_Inr:
  assumes "is_terminal (jb_state r)"
  shows "validate_terminal r = Inr u \<longleftrightarrow> terminal_wf r"
  using assms has_all_imp [of r]
  by (cases "has_all_result r"; cases "has_all_error r"; cases "jb_state r")
    (auto simp: validate_terminal_def terminal_wf_def is_terminal_def exn_simps)

lemma validate_state_projection_Inr: "validate_state_projection r = Inr u \<longleftrightarrow> projection_wf r"
  by (cases "jb_state r")
    (auto simp: validate_state_projection_def projection_wf_def validate_queued_def
      validate_running_def validate_terminal_Inr is_terminal_def exn_simps)

text \<open>Normalising the optional fields keeps which of them are present.\<close>

lemma job_uuid_Inr [exn_simps]: "job_uuid v = Inr w \<longleftrightarrow> w = v \<and> uuid_shape v"
  by (simp add: job_uuid_def canonical_uuid_Inr)

lemma projection_wf_cong:
  assumes "jb_state r' = jb_state r" "jb_started_at r' = jb_started_at r"
    "jb_completed_at r' = jb_completed_at r" "jb_result_status r' = jb_result_status r"
    "jb_scan_id r' = None \<longleftrightarrow> jb_scan_id r = None"
    "jb_report_ref r' = None \<longleftrightarrow> jb_report_ref r = None"
    "jb_audit_ref r' = None \<longleftrightarrow> jb_audit_ref r = None"
    "jb_error_code r' = None \<longleftrightarrow> jb_error_code r = None"
    "jb_error_message r' = None \<longleftrightarrow> jb_error_message r = None"
  shows "projection_wf r' \<longleftrightarrow> projection_wf r"
proof -
  have "has_result_metadata r' = has_result_metadata r" "has_error_metadata r' = has_error_metadata r"
    "has_all_result r' = has_all_result r" "has_all_error r' = has_all_error r"
    using assms by (simp_all only: metadata_defs)
  then show ?thesis
    by (simp only: projection_wf_def terminal_wf_def assms(1-4))
qed

text \<open>The constructor accepts exactly the well-formed records.\<close>

lemma ScanJobRecord_succeeds:
  "succeeds (ScanJobRecord_post_init r) \<longleftrightarrow> record_wf r"
proof
  assume "succeeds (ScanJobRecord_post_init r)"
  then obtain r' where "ScanJobRecord_post_init r = Inr r'"
    by (auto simp: succeeds_iff)
  then obtain si rr ar ec em where
    jid: "uuid_shape (jb_job_id r)" and rev: "0 \<le> jb_revision r" and t: "times_wf r"
    and f: "mapE_option job_uuid (jb_scan_id r) = Inr si"
      "mapE_option job_artifact_reference (jb_report_ref r) = Inr rr"
      "mapE_option job_artifact_reference (jb_audit_ref r) = Inr ar"
      "job_error_code (jb_error_code r) = Inr ec"
      "job_optional_text 2048 (jb_error_message r) = Inr em"
    and p: "projection_wf (r\<lparr>jb_scan_id := si, jb_report_ref := rr, jb_audit_ref := ar,
        jb_error_code := ec, jb_error_message := em\<rparr>)"
    unfolding ScanJobRecord_post_init_def
    by (auto simp: Let_def bindE_eq_Inr raise_if_eq_Inr job_uuid_Inr validate_timestamps_Inr
        validate_state_projection_Inr)
  have none: "si = None \<longleftrightarrow> jb_scan_id r = None" "rr = None \<longleftrightarrow> jb_report_ref r = None"
    "ar = None \<longleftrightarrow> jb_audit_ref r = None" "ec = None \<longleftrightarrow> jb_error_code r = None"
    "em = None \<longleftrightarrow> jb_error_message r = None"
    using f [unfolded job_error_code_def job_optional_text_def]
    by (blast dest: mapE_option_None_iff)+
  have "projection_wf r"
    using p by (rule projection_wf_cong [THEN iffD1, rotated -1]) (simp_all add: none)
  then show "record_wf r"
    using jid rev t f by (auto simp: record_wf_def fields_wf_def succeeds_iff)
next
  assume wf: "record_wf r"
  then obtain si rr ar ec em where
    f: "mapE_option job_uuid (jb_scan_id r) = Inr si"
      "mapE_option job_artifact_reference (jb_report_ref r) = Inr rr"
      "mapE_option job_artifact_reference (jb_audit_ref r) = Inr ar"
      "job_error_code (jb_error_code r) = Inr ec"
      "job_optional_text 2048 (jb_error_message r) = Inr em"
    by (auto simp: record_wf_def fields_wf_def succeeds_iff)
  let ?r = "r\<lparr>jb_scan_id := si, jb_report_ref := rr, jb_audit_ref := ar,
        jb_error_code := ec, jb_error_message := em\<rparr>"
  have none: "si = None \<longleftrightarrow> jb_scan_id r = None" "rr = None \<longleftrightarrow> jb_report_ref r = None"
    "ar = None \<longleftrightarrow> jb_audit_ref r = None" "ec = None \<longleftrightarrow> jb_error_code r = None"
    "em = None \<longleftrightarrow> jb_error_message r = None"
    using f [unfolded job_error_code_def job_optional_text_def]
    by (blast dest: mapE_option_None_iff)+
  have "projection_wf ?r"
    using wf none by (subst projection_wf_cong [of _ r]) (simp_all add: record_wf_def)
  then have "validate_state_projection ?r = Inr ()"
    by (simp add: validate_state_projection_Inr)
  moreover have "job_uuid (jb_job_id r) = Inr (jb_job_id r)"
    using wf by (simp add: record_wf_def fields_wf_def job_uuid_Inr)
  moreover have "validate_timestamps r = Inr ()"
    using wf by (simp add: record_wf_def validate_timestamps_Inr)
  ultimately show "succeeds (ScanJobRecord_post_init r)"
    using wf f unfolding ScanJobRecord_post_init_def
    by (simp add: Let_def succeeds_iff record_wf_def fields_wf_def)
qed

text \<open>What the constructor returns differs from its argument in the normalised texts only.\<close>

lemma mapE_option_job_uuid: "mapE_option job_uuid v = Inr w \<Longrightarrow> w = v"
  by (cases v) (auto simp: mapE_option_def bindE_eq_Inr job_uuid_Inr)

lemma ScanJobRecord_shape:
  assumes "ScanJobRecord_post_init r = Inr r'"
  obtains rr ar ec em where
    "r' = r\<lparr>jb_report_ref := rr, jb_audit_ref := ar, jb_error_code := ec, jb_error_message := em\<rparr>"
proof -
  from assms obtain jid si rr ar ec em where
    f: "job_uuid (jb_job_id r) = Inr jid" "mapE_option job_uuid (jb_scan_id r) = Inr si"
    and r': "Inr (r\<lparr>jb_job_id := jid, jb_scan_id := si, jb_report_ref := rr, jb_audit_ref := ar,
            jb_error_code := ec, jb_error_message := em\<rparr>) = (Inr r' :: scan_job_record result)"
    unfolding ScanJobRecord_post_init_def Let_def bindE_eq_Inr raise_if_eq_Inr by blast
  have "jid = jb_job_id r" "si = jb_scan_id r"
    using f by (simp_all add: job_uuid_Inr mapE_option_job_uuid)
  then have "r' = r\<lparr>jb_report_ref := rr, jb_audit_ref := ar, jb_error_code := ec, jb_error_message := em\<rparr>"
    using r' by simp
  then show thesis by (rule that)
qed

lemma ScanJobRecord_fields:
  assumes "ScanJobRecord_post_init r = Inr r'"
  shows "jb_job_id r' = jb_job_id r" "jb_request r' = jb_request r" "jb_state r' = jb_state r"
    "jb_updated_at r' = jb_updated_at r" "jb_revision r' = jb_revision r"
    "jb_cancellation_requested r' = jb_cancellation_requested r"
    "jb_started_at r' = jb_started_at r" "jb_completed_at r' = jb_completed_at r"
    "jb_scan_id r' = jb_scan_id r" "jb_result_status r' = jb_result_status r"
  using assms by (auto elim: ScanJobRecord_shape)

lemma ScanJobRequest_fields:
  assumes "ScanJobRequest_post_init E q = Inr q'"
  shows "rq_submitted_at q' = rq_submitted_at q" "rq_mode q' = rq_mode q"
    "rq_authorization_id q' = rq_authorization_id q"
  using assms unfolding ScanJobRequest_post_init_def by (auto simp: exn_simps)

end
