(* ===== verification/Scan_Permits.thy ===== *)
theory Scan_Permits
  imports Scan_Jobs
begin

text \<open>
  TrustScan permits: the signed contract (\<^verbatim>\<open>webguard_contracts/scan_permits.py\<close>), the key
  registry that verifies signatures (\<^verbatim>\<open>webguard_api/signing.py\<close>) and the checks that
  decide whether a permit authorizes an execution (\<^verbatim>\<open>webguard_api/permits.py\<close>). The
  public-key primitives come from outside: signing and verification functions are fields of the
  registry. The signed bytes are the canonical JSON of the claims, kept as the JSON value.
\<close>

section \<open>Definitions\<close>

subsection \<open>Claims\<close>

definition pv_error :: "string \<Rightarrow> exn" where
  "pv_error code = TrustScanPermitValidationError code"

definition permit_uuid :: "string \<Rightarrow> string result" where
  "permit_uuid value = canonical_uuid TrustScanPermitValidationError ''trustscan_permit'' value"

definition permit_digest :: "string \<Rightarrow> string result" where
  "permit_digest value = raise_if (\<not> hex64 value) (pv_error ''trustscan_permit_sha256_invalid'') (Inr value)"

definition permit_positive_integer :: "int \<Rightarrow> int \<Rightarrow> int result" where
  "permit_positive_integer maximum value =
     raise_if (\<not> (1 \<le> value \<and> value \<le> maximum)) (pv_error ''trustscan_permit_integer_invalid'') (Inr value)"

definition permit_requests_per_second :: "rat \<Rightarrow> rat result" where
  "permit_requests_per_second value =
     raise_if (\<not> (1 / 5 \<le> value \<and> value \<le> 2)) (pv_error ''trustscan_permit_rate_invalid'') (Inr value)"

text \<open>\<^verbatim>\<open>tuple(sorted(set(value), key=lambda item: item.value))\<close>.\<close>

definition permit_modes :: "scan_job_mode list \<Rightarrow> scan_job_mode list result" where
  "permit_modes value =
     raise_if (value = []) (pv_error ''trustscan_permit_modes_invalid'')
     (raise_if (sort_key mode_value (remdups value) \<noteq> value)
       (pv_error ''trustscan_permit_modes_non_canonical'')
     (Inr value))"

definition upper_char :: "char \<Rightarrow> char" where
  "upper_char c =
     (let n = (of_char c :: nat)
      in if 97 \<le> n \<and> n \<le> 122 \<or> 224 \<le> n \<and> n \<le> 254 \<and> n \<noteq> 247 then char_of (n - 32) else c)"

definition py_upper :: "string \<Rightarrow> string" where
  "py_upper s = map upper_char s"

definition TRUSTSCAN_ALLOWED_HTTP_METHODS :: "string list" where
  "TRUSTSCAN_ALLOWED_HTTP_METHODS = [''GET'', ''HEAD'', ''POST'']"

definition permit_http_methods :: "string list \<Rightarrow> string list result" where
  "permit_http_methods value =
     (let canonical = sorted_unique (map py_upper value) in
      raise_if (value = []) (pv_error ''trustscan_permit_methods_invalid'')
      (raise_if (canonical \<noteq> value) (pv_error ''trustscan_permit_methods_non_canonical'')
      (raise_if (\<not> list_all (\<lambda>m. m \<in> set TRUSTSCAN_ALLOWED_HTTP_METHODS) canonical)
        (pv_error ''trustscan_permit_methods_invalid'')
      (raise_if (''GET'' \<notin> set canonical) (pv_error ''trustscan_permit_get_required'')
      (Inr canonical)))))"

definition KNOWN_TRUSTSCAN_ACTIVE_CHECKS :: "string list" where
  "KNOWN_TRUSTSCAN_ACTIVE_CHECKS =
     [''active.authorization.idor'', ''active.sqli.error'', ''active.ssrf.callback'', ''active.xss.reflected'']"

definition permit_active_checks :: "string list \<Rightarrow> string list result" where
  "permit_active_checks value =
     (let canonical = sorted_unique value in
      raise_if (canonical \<noteq> sort value \<or> length canonical \<noteq> length value)
        (pv_error ''trustscan_permit_active_checks_non_canonical'')
      (raise_if (\<not> list_all (\<lambda>c. c \<in> set KNOWN_TRUSTSCAN_ACTIVE_CHECKS) canonical)
        (pv_error ''trustscan_permit_active_checks_unknown'')
      (Inr canonical)))"

definition TRUSTSCAN_PROHIBITED_OPERATIONS :: "string list" where
  "TRUSTSCAN_PROHIBITED_OPERATIONS =
     [''autonomous_exploitation'', ''credential_attacks'', ''data_destruction'', ''denial_of_service'',
      ''malware'', ''persistence'', ''social_engineering'']"

definition permit_prohibited_operations :: "string list \<Rightarrow> string list result" where
  "permit_prohibited_operations value =
     raise_if (value \<noteq> TRUSTSCAN_PROHIBITED_OPERATIONS)
       (pv_error ''trustscan_permit_prohibited_operations_invalid'') (Inr value)"

definition permit_target :: "py_env \<Rightarrow> string \<Rightarrow> string result" where
  "permit_target E value =
     (case canonicalize_owned_target_url E value of
        Inl (OwnedTargetValidationError code) \<Rightarrow> Inl (pv_error code)
      | r \<Rightarrow> r)"

record permit_claims =
  pc_permit_id :: string
  pc_organization_id :: string
  pc_authorization_id :: string
  pc_authorization_sha256 :: string
  pc_target :: string
  pc_issued_by :: string
  pc_issued_at :: time
  pc_not_before :: time
  pc_expires_at :: time
  pc_permitted_modes :: "scan_job_mode list"
  pc_allowed_http_methods :: "string list"
  pc_maximum_request_attempts :: int
  pc_maximum_requests_per_second :: rat
  pc_maximum_concurrency :: int
  pc_prohibited_operations :: "string list"
  pc_active_checks :: "string list"
  pc_authentication_context_id :: "string option"
  pc_authorization_comparison_plan_id :: "string option"

definition maximum_permit_validity :: time where
  "maximum_permit_validity = 90 * 24 * 60 * 60 * microseconds"

definition TrustScanPermitClaims_post_init :: "py_env \<Rightarrow> permit_claims \<Rightarrow> permit_claims result" where
  "TrustScanPermitClaims_post_init E c =
     bindE (permit_uuid (pc_permit_id c)) (\<lambda>permit_id.
     bindE (permit_uuid (pc_organization_id c)) (\<lambda>organization_id.
     bindE (permit_uuid (pc_authorization_id c)) (\<lambda>authorization_id.
     bindE (permit_digest (pc_authorization_sha256 c)) (\<lambda>sha256.
     bindE (permit_target E (pc_target c)) (\<lambda>target.
     bindE (permit_uuid (pc_issued_by c)) (\<lambda>issued_by.
     raise_if (pc_not_before c < pc_issued_at c) (pv_error ''trustscan_permit_window_invalid'')
     (raise_if (pc_expires_at c \<le> pc_not_before c) (pv_error ''trustscan_permit_window_invalid'')
     (raise_if (pc_expires_at c - pc_not_before c > maximum_permit_validity)
       (pv_error ''trustscan_permit_window_too_long'')
     (bindE (permit_modes (pc_permitted_modes c)) (\<lambda>modes.
      bindE (permit_http_methods (pc_allowed_http_methods c)) (\<lambda>methods.
      bindE (permit_positive_integer 150 (pc_maximum_request_attempts c)) (\<lambda>attempts.
      bindE (permit_requests_per_second (pc_maximum_requests_per_second c)) (\<lambda>rate.
      bindE (permit_positive_integer 1 (pc_maximum_concurrency c)) (\<lambda>concurrency.
      bindE (permit_prohibited_operations (pc_prohibited_operations c)) (\<lambda>prohibited.
      bindE (permit_active_checks (pc_active_checks c)) (\<lambda>checks.
      bindE (mapE_option permit_uuid (pc_authentication_context_id c)) (\<lambda>context_id.
      bindE (mapE_option permit_uuid (pc_authorization_comparison_plan_id c)) (\<lambda>plan_id.
        Inr (c\<lparr>pc_permit_id := permit_id, pc_organization_id := organization_id,
               pc_authorization_id := authorization_id, pc_authorization_sha256 := sha256,
               pc_target := target, pc_issued_by := issued_by, pc_permitted_modes := modes,
               pc_allowed_http_methods := methods, pc_maximum_request_attempts := attempts,
               pc_maximum_requests_per_second := rate, pc_maximum_concurrency := concurrency,
               pc_prohibited_operations := prohibited, pc_active_checks := checks,
               pc_authentication_context_id := context_id,
               pc_authorization_comparison_plan_id := plan_id\<rparr>)))))))))))))))))))"

definition json_option :: "string option \<Rightarrow> json" where
  "json_option v = (case v of None \<Rightarrow> JNull | Some s \<Rightarrow> JStr s)"

definition permit_claims_to_dict :: "permit_claims \<Rightarrow> json" where
  "permit_claims_to_dict c =
     JObj [(''permit_id'', JStr (pc_permit_id c)),
           (''organization_id'', JStr (pc_organization_id c)),
           (''authorization_id'', JStr (pc_authorization_id c)),
           (''authorization_sha256'', JStr (pc_authorization_sha256 c)),
           (''target'', JStr (pc_target c)),
           (''issued_by'', JStr (pc_issued_by c)),
           (''issued_at'', JStr (timestamp_text (pc_issued_at c))),
           (''not_before'', JStr (timestamp_text (pc_not_before c))),
           (''expires_at'', JStr (timestamp_text (pc_expires_at c))),
           (''permitted_modes'', JArr (map (\<lambda>m. JStr (mode_value m)) (pc_permitted_modes c))),
           (''allowed_http_methods'', JArr (map JStr (pc_allowed_http_methods c))),
           (''maximum_request_attempts'', JInt (pc_maximum_request_attempts c)),
           (''maximum_requests_per_second'', JFloat (pc_maximum_requests_per_second c)),
           (''maximum_concurrency'', JInt (pc_maximum_concurrency c)),
           (''prohibited_operations'', JArr (map JStr (pc_prohibited_operations c))),
           (''active_checks'', JArr (map JStr (pc_active_checks c))),
           (''authentication_context_id'', json_option (pc_authentication_context_id c)),
           (''authorization_comparison_plan_id'', json_option (pc_authorization_comparison_plan_id c))]"

definition permit_fingerprint :: "py_env \<Rightarrow> permit_claims \<Rightarrow> string" where
  "permit_fingerprint E c = env_digest E (permit_claims_to_dict c)"

subsection \<open>Signed permits\<close>

record signed_permit =
  sp_claims :: permit_claims
  sp_signing_key_id :: string
  sp_signature :: string
  sp_signature_algorithm :: string
  sp_permit_type :: string
  sp_schema_version :: string

definition TRUSTSCAN_PERMIT_TYPE :: string where
  "TRUSTSCAN_PERMIT_TYPE = ''trustscan_scan_permit''"

definition CURRENT_TRUSTSCAN_PERMIT_SCHEMA_VERSION :: string where
  "CURRENT_TRUSTSCAN_PERMIT_SCHEMA_VERSION = ''1.3''"

definition SUPPORTED_TRUSTSCAN_SIGNATURE_ALGORITHMS :: "string list" where
  "SUPPORTED_TRUSTSCAN_SIGNATURE_ALGORITHMS = [''Ed25519'', ''ECDSA_SHA_256'']"

definition b64_alphabet :: string where
  "b64_alphabet = ''ABCDEFGHIJKLMNOPQRSTUVWXYZabcdefghijklmnopqrstuvwxyz0123456789-_''"

definition is_key_id :: "string \<Rightarrow> bool" where
  "is_key_id s \<longleftrightarrow> take 7 s = ''sha256:'' \<and> hex64 (drop 7 s)"

definition SignedTrustScanPermit_post_init :: "signed_permit \<Rightarrow> signed_permit result" where
  "SignedTrustScanPermit_post_init p =
     raise_if (sp_permit_type p \<noteq> TRUSTSCAN_PERMIT_TYPE) (pv_error ''trustscan_permit_type_invalid'')
     (raise_if (sp_schema_version p \<noteq> CURRENT_TRUSTSCAN_PERMIT_SCHEMA_VERSION)
       (pv_error ''trustscan_permit_schema_unsupported'')
     (raise_if (sp_signature_algorithm p \<notin> set SUPPORTED_TRUSTSCAN_SIGNATURE_ALGORITHMS)
       (pv_error ''trustscan_permit_signature_algorithm_invalid'')
     (raise_if (\<not> is_key_id (sp_signing_key_id p)) (pv_error ''trustscan_permit_key_id_invalid'')
     (raise_if (length (sp_signature p) < 80 \<or> length (sp_signature p) > 128
                \<or> \<not> list_all (\<lambda>c. c \<in> set b64_alphabet) (sp_signature p))
       (pv_error ''trustscan_permit_signature_invalid'')
     (Inr p)))))"

subsection \<open>Base64URL without padding\<close>

definition b64_char :: "nat \<Rightarrow> char" where
  "b64_char n = b64_alphabet ! n"

fun b64_groups :: "nat list \<Rightarrow> nat list" where
  "b64_groups [] = []"
| "b64_groups [a] = [a div 4, a mod 4 * 16]"
| "b64_groups [a, b] = [a div 4, a mod 4 * 16 + b div 16, b mod 16 * 4]"
| "b64_groups (a # b # c # bs) =
     a div 4 # (a mod 4 * 16 + b div 16) # (b mod 16 * 4 + c div 64) # c mod 64 # b64_groups bs"

definition b64url_encode :: "nat list \<Rightarrow> string" where
  "b64url_encode bs = map b64_char (b64_groups bs)"

fun b64_ungroup :: "nat list \<Rightarrow> nat list option" where
  "b64_ungroup [] = Some []"
| "b64_ungroup [x] = None"
| "b64_ungroup [x, y] = Some [x * 4 + y div 16]"
| "b64_ungroup [x, y, z] = Some [x * 4 + y div 16, y mod 16 * 16 + z div 4]"
| "b64_ungroup (x # y # z # w # xs) =
     map_option (\<lambda>bs. (x * 4 + y div 16) # (y mod 16 * 16 + z div 4) # (z mod 4 * 64 + w) # bs)
       (b64_ungroup xs)"

text \<open>
  \<^verbatim>\<open>altchars=b"-_"\<close> maps two characters onto \<^verbatim>\<open>+/\<close>, which stay acceptable.
  With \<^verbatim>\<open>validate=True\<close> other characters are errors, and padding may only complete the
  last group: one \<^verbatim>\<open>=\<close> after three characters, two after two (after a complete group it is
  skipped).
\<close>

definition b64_value :: "char \<Rightarrow> nat option" where
  "b64_value c =
     (case index_of c b64_alphabet of
        Some i \<Rightarrow> Some i
      | None \<Rightarrow> if c = CHR ''+'' then Some 62 else if c = CHR ''/'' then Some 63 else None)"

fun b64_indices :: "string \<Rightarrow> nat list option" where
  "b64_indices [] = Some []"
| "b64_indices (c # cs) =
     (case b64_value c of None \<Rightarrow> None
      | Some i \<Rightarrow> map_option (\<lambda>is. i # is) (b64_indices cs))"

definition b64_unpad :: "string \<Rightarrow> string" where
  "b64_unpad s = rev (dropWhile (\<lambda>c. c = CHR ''='') (rev s))"

definition b64decode_validate :: "string \<Rightarrow> nat list option" where
  "b64decode_validate s =
     (let body = b64_unpad s; pads = length s - length body; q = length body mod 4
      in if body = [] \<or> q = 2 \<and> pads \<noteq> 2 \<or> q = 3 \<and> pads \<noteq> 1 then None
         else Option.bind (b64_indices body) b64_ungroup)"

definition b64_padding :: "string \<Rightarrow> string" where
  "b64_padding value = replicate ((4 - length value mod 4) mod 4) (CHR ''='')"

definition b64url_decode_canonical :: "string \<Rightarrow> nat list result" where
  "b64url_decode_canonical value =
     (let invalid = TrustScanPermitError ''trustscan_permit_signature_invalid'' in
      raise_if (value = [] \<or> \<not> is_ascii value) invalid
      (case b64decode_validate (value @ b64_padding value) of
         None \<Rightarrow> Inl invalid
       | Some decoded \<Rightarrow>
           raise_if (b64url_encode decoded \<noteq> value)
             (TrustScanPermitError ''trustscan_permit_signature_non_canonical'')
           (Inr decoded)))"

subsection \<open>The key registry\<close>

datatype key_status = KEY_ACTIVE | KEY_RETIRED | KEY_DISABLED

record verification_key =
  vk_key_id :: string
  vk_algorithm :: string
  vk_public_key :: "nat list"
  vk_status :: key_status

record signing_registry =
  rg_active_key_id :: string
  rg_active_algorithm :: string
  rg_active_public_key :: "nat list"
  rg_active_sign :: "json \<Rightarrow> nat list"
  rg_verifier :: "string \<Rightarrow> (nat list \<Rightarrow> json \<Rightarrow> nat list \<Rightarrow> bool) option"
  rg_keys :: "string \<rightharpoonup> verification_key"

definition registry_init ::
  "string \<Rightarrow> string \<Rightarrow> nat list \<Rightarrow> (json \<Rightarrow> nat list)
   \<Rightarrow> (string \<Rightarrow> (nat list \<Rightarrow> json \<Rightarrow> nat list \<Rightarrow> bool) option) \<Rightarrow> signing_registry" where
  "registry_init key_id algorithm public_key sign verifier =
     \<lparr>rg_active_key_id = key_id, rg_active_algorithm = algorithm, rg_active_public_key = public_key,
      rg_active_sign = sign, rg_verifier = verifier,
      rg_keys = [key_id \<mapsto> \<lparr>vk_key_id = key_id, vk_algorithm = algorithm,
                            vk_public_key = public_key, vk_status = KEY_ACTIVE\<rparr>]\<rparr>"

definition add_verification_key :: "signing_registry \<Rightarrow> verification_key \<Rightarrow> signing_registry" where
  "add_verification_key R key = R\<lparr>rg_keys := (rg_keys R)(vk_key_id key \<mapsto> key)\<rparr>"

definition ensure_active_key_signable :: "signing_registry \<Rightarrow> unit result" where
  "ensure_active_key_signable R =
     (case rg_keys R (rg_active_key_id R) of
        None \<Rightarrow> Inl ValueError
      | Some key \<Rightarrow>
          raise_if (vk_status key = KEY_DISABLED) (SigningProviderError ''trustscan_signing_key_disabled'')
          (Inr ()))"

definition set_status :: "signing_registry \<Rightarrow> string \<Rightarrow> key_status \<Rightarrow> signing_registry result" where
  "set_status R key_id status =
     (case rg_keys R key_id of
        None \<Rightarrow> Inl (SigningProviderError ''trustscan_signing_key_unknown'')
      | Some existing \<Rightarrow> Inr (R\<lparr>rg_keys := (rg_keys R)(key_id \<mapsto> existing\<lparr>vk_status := status\<rparr>)\<rparr>))"

definition key_verify :: "signing_registry \<Rightarrow> verification_key \<Rightarrow> json \<Rightarrow> nat list \<Rightarrow> bool" where
  "key_verify R key message signature =
     (case rg_verifier R (vk_algorithm key) of
        None \<Rightarrow> False
      | Some verifier \<Rightarrow> verifier (vk_public_key key) message signature)"

definition verify_by_key_id :: "signing_registry \<Rightarrow> string \<Rightarrow> json \<Rightarrow> nat list \<Rightarrow> unit result" where
  "verify_by_key_id R key_id message signature =
     (case rg_keys R key_id of
        None \<Rightarrow> Inl (SigningProviderError ''trustscan_signing_key_unknown'')
      | Some key \<Rightarrow>
          raise_if (vk_status key = KEY_DISABLED) (SigningProviderError ''trustscan_signing_key_disabled'')
          (raise_if (\<not> key_verify R key message signature)
            (SigningProviderError ''trustscan_signature_invalid'')
          (Inr ())))"

subsection \<open>Signing and verifying permits\<close>

definition signer_sign :: "signing_registry \<Rightarrow> permit_claims \<Rightarrow> signed_permit result" where
  "signer_sign R claims =
     SignedTrustScanPermit_post_init
       \<lparr>sp_claims = claims, sp_signing_key_id = rg_active_key_id R,
        sp_signature = b64url_encode (rg_active_sign R (permit_claims_to_dict claims)),
        sp_signature_algorithm = rg_active_algorithm R,
        sp_permit_type = TRUSTSCAN_PERMIT_TYPE,
        sp_schema_version = CURRENT_TRUSTSCAN_PERMIT_SCHEMA_VERSION\<rparr>"

definition signer_verify :: "signing_registry \<Rightarrow> signed_permit \<Rightarrow> unit result" where
  "signer_verify R permit =
     bindE (b64url_decode_canonical (sp_signature permit)) (\<lambda>signature.
       case verify_by_key_id R (sp_signing_key_id permit) (permit_claims_to_dict (sp_claims permit)) signature of
         Inl (SigningProviderError code) \<Rightarrow>
           Inl (TrustScanPermitError
             (if code = ''trustscan_signing_key_unknown'' \<or> code = ''trustscan_signing_key_disabled''
              then ''trustscan_permit_signing_key_mismatch''
              else ''trustscan_permit_signature_invalid''))
       | r \<Rightarrow> r)"

record persisted_permit =
  pp_permit :: signed_permit
  pp_revoked_at :: "time option"
  pp_revoked_by :: "string option"

definition permit_state_at :: "persisted_permit \<Rightarrow> time \<Rightarrow> string" where
  "permit_state_at p now =
     (let claims = sp_claims (pp_permit p) in
      if pp_revoked_at p \<noteq> None then ''revoked''
      else if now < pc_not_before claims then ''pending''
      else if now \<ge> pc_expires_at claims then ''expired''
      else ''active'')"

definition validate_permit_scope ::
  "py_env \<Rightarrow> signing_registry \<Rightarrow> persisted_permit \<Rightarrow> string \<Rightarrow> owned_target_authorization
   \<Rightarrow> string \<Rightarrow> scan_job_mode \<Rightarrow> unit result" where
  "validate_permit_scope E R p organization_id authorization target mode =
     bindE (signer_verify R (pp_permit p)) (\<lambda>_.
       let claims = sp_claims (pp_permit p) in
       raise_if (pp_revoked_at p \<noteq> None) (TrustScanPermitError ''trustscan_permit_revoked'')
       (raise_if (pc_organization_id claims \<noteq> organization_id)
         (TrustScanPermitError ''trustscan_permit_organization_mismatch'')
       (raise_if (pc_authorization_id claims \<noteq> oa_authorization_id authorization)
         (TrustScanPermitError ''trustscan_permit_authorization_mismatch'')
       (raise_if (pc_authorization_sha256 claims \<noteq> authorization_fingerprint E authorization)
         (TrustScanPermitError ''trustscan_permit_authorization_changed'')
       (raise_if (pc_target claims \<noteq> target \<or> oa_target authorization \<noteq> target)
         (TrustScanPermitError ''trustscan_permit_target_mismatch'')
       (raise_if (mode \<notin> set (pc_permitted_modes claims))
         (TrustScanPermitError ''trustscan_permit_mode_not_allowed'')
       (Inr ())))))))"

definition active_checks_authorized :: "persisted_permit \<Rightarrow> string list \<Rightarrow> bool" where
  "active_checks_authorized p check_ids =
     list_all (\<lambda>c. c \<in> set (pc_active_checks (sp_claims (pp_permit p)))) check_ids"

definition validate_permit_use ::
  "py_env \<Rightarrow> signing_registry \<Rightarrow> persisted_permit \<Rightarrow> string \<Rightarrow> owned_target_authorization
   \<Rightarrow> string \<Rightarrow> scan_job_mode \<Rightarrow> time \<Rightarrow> unit result" where
  "validate_permit_use E R p organization_id authorization target mode now =
     bindE (validate_permit_scope E R p organization_id authorization target mode) (\<lambda>_.
       raise_if (permit_state_at p now \<noteq> ''active'')
         (TrustScanPermitError (''trustscan_permit_'' @ permit_state_at p now))
       (Inr ()))"

end
