(* ===== verification/Scan_Schedules.thy ===== *)
theory Scan_Schedules
  imports Scan_Jobs
begin

text \<open>
  The recurring-schedule contract (\<^verbatim>\<open>webguard_contracts/scan_schedules.py\<close>) and the
  arithmetic of the next run (\<^verbatim>\<open>ScanJobStore._next_schedule_time\<close>).
\<close>

section \<open>Definitions\<close>

datatype scan_schedule_state = SCHEDULE_ACTIVE | SCHEDULE_PAUSED

definition sv_error :: "string \<Rightarrow> exn" where
  "sv_error code = ScanScheduleValidationError code"

definition schedule_uuid :: "string \<Rightarrow> string result" where
  "schedule_uuid value = canonical_uuid ScanScheduleValidationError ''scan_schedule'' value"

definition schedule_required_text :: "nat \<Rightarrow> string \<Rightarrow> string result" where
  "schedule_required_text maximum value =
     bounded_text ScanScheduleValidationError ''scan_schedule'' maximum value"

definition schedule_sha256 :: "string \<Rightarrow> string result" where
  "schedule_sha256 value = raise_if (\<not> hex64 value) (sv_error ''scan_schedule_sha256_invalid'') (Inr value)"

definition schedule_error_code :: "string option \<Rightarrow> string option result" where
  "schedule_error_code value =
     mapE_option (error_code_text ScanScheduleValidationError ''scan_schedule'') value"

definition MINIMUM_SCAN_SCHEDULE_INTERVAL_SECONDS :: int where
  "MINIMUM_SCAN_SCHEDULE_INTERVAL_SECONDS = 3600"

definition MAXIMUM_SCAN_SCHEDULE_INTERVAL_SECONDS :: int where
  "MAXIMUM_SCAN_SCHEDULE_INTERVAL_SECONDS = 365 * 24 * 60 * 60"

definition schedule_interval :: "int \<Rightarrow> int result" where
  "schedule_interval value =
     raise_if (\<not> (MINIMUM_SCAN_SCHEDULE_INTERVAL_SECONDS \<le> value
                  \<and> value \<le> MAXIMUM_SCAN_SCHEDULE_INTERVAL_SECONDS))
       (sv_error ''scan_schedule_interval_invalid'') (Inr value)"

definition schedule_target :: "py_env \<Rightarrow> string \<Rightarrow> string result" where
  "schedule_target E value =
     (case canonicalize_owned_target_url E value of
        Inl (OwnedTargetValidationError code) \<Rightarrow> Inl (sv_error code)
      | r \<Rightarrow> r)"

record schedule_record =
  sc_schedule_id :: string
  sc_organization_id :: string
  sc_created_by :: string
  sc_name :: string
  sc_target :: string
  sc_authorization_id :: string
  sc_authorization_sha256 :: string
  sc_mode :: scan_job_mode
  sc_interval_seconds :: int
  sc_state :: scan_schedule_state
  sc_created_at :: time
  sc_updated_at :: time
  sc_next_run_at :: time
  sc_revision :: int
  sc_last_enqueued_at :: "time option"
  sc_last_job_id :: "string option"
  sc_last_error_code :: "string option"
  sc_last_error_at :: "time option"

definition ScanScheduleRecord_post_init :: "py_env \<Rightarrow> schedule_record \<Rightarrow> schedule_record result" where
  "ScanScheduleRecord_post_init E s =
     bindE (schedule_uuid (sc_schedule_id s)) (\<lambda>schedule_id.
     bindE (schedule_uuid (sc_organization_id s)) (\<lambda>organization_id.
     bindE (schedule_uuid (sc_created_by s)) (\<lambda>created_by.
     bindE (schedule_required_text 120 (sc_name s)) (\<lambda>name.
     bindE (schedule_target E (sc_target s)) (\<lambda>target.
     bindE (schedule_uuid (sc_authorization_id s)) (\<lambda>authorization_id.
     bindE (schedule_sha256 (sc_authorization_sha256 s)) (\<lambda>sha256.
     bindE (schedule_interval (sc_interval_seconds s)) (\<lambda>interval.
     raise_if (sc_updated_at s < sc_created_at s) (sv_error ''scan_schedule_timestamp_order_invalid'')
     (raise_if (sc_revision s < 0) (sv_error ''scan_schedule_revision_invalid'')
     (bindE (mapE_option schedule_uuid (sc_last_job_id s)) (\<lambda>last_job_id.
      bindE (schedule_error_code (sc_last_error_code s)) (\<lambda>last_error_code.
      raise_if ((last_error_code = None) \<noteq> (sc_last_error_at s = None))
        (sv_error ''scan_schedule_error_projection_invalid'')
      (Inr (s\<lparr>sc_schedule_id := schedule_id, sc_organization_id := organization_id,
              sc_created_by := created_by, sc_name := name, sc_target := target,
              sc_authorization_id := authorization_id, sc_authorization_sha256 := sha256,
              sc_interval_seconds := interval, sc_last_job_id := last_job_id,
              sc_last_error_code := last_error_code\<rparr>))))))))))))))"

text \<open>
  \<^verbatim>\<open>_next_schedule_time\<close>. Python's \<^verbatim>\<open>//\<close> of two \<^verbatim>\<open>timedelta\<close>s is the floor
  of their quotient, as \<open>div\<close> on \<open>int\<close> is.
\<close>

definition next_schedule_time :: "time \<Rightarrow> int \<Rightarrow> time \<Rightarrow> time" where
  "next_schedule_time scheduled_for interval_seconds now =
     (let interval = interval_seconds * microseconds;
          next_run = scheduled_for + interval
      in if next_run > now then next_run
         else (let intervals = (now - scheduled_for) div interval + 1
               in scheduled_for + interval * intervals))"

section \<open>The next run\<close>

lemma next_schedule_time_div:
  assumes "0 < interval_seconds" and "scheduled_for \<le> now"
  shows "next_schedule_time scheduled_for interval_seconds now =
    scheduled_for + interval_seconds * microseconds *
      ((now - scheduled_for) div (interval_seconds * microseconds) + 1)"
proof -
  let ?i = "interval_seconds * microseconds"
  have i: "0 < ?i"
    using assms(1) by (simp add: microseconds_def)
  have "(now - scheduled_for) div ?i = 0" if "scheduled_for + ?i > now"
    using that assms(2) by (intro div_pos_pos_trivial) auto
  then show ?thesis
    by (auto simp: next_schedule_time_def Let_def)
qed

end
