(* ===== verification/Store_Db.thy ===== *)
theory Store_Db
  imports Scan_Permits Scan_Schedules
begin

text \<open>
  The SQLite database behind \<^verbatim>\<open>ScanJobStore\<close> (\<^verbatim>\<open>webguard_api/store.py\<close>): one
  record per table row, one list per table, and the lookups the store's statements share. A row of
  \<^verbatim>\<open>scan_jobs\<close> has the columns of a job record and of its request, raw, and the lease
  columns. An operation of the store maps the database to its result and the new database: a
  transaction that is rolled back gives back the old one, and an exception raised after
  \<^verbatim>\<open>COMMIT\<close> comes with the committed one. Failures of SQLite itself other than violated
  constraints are not modelled.
\<close>

section \<open>Definitions\<close>

record job_row = scan_job_record +
  jr_request_fingerprint :: string
  jr_worker_id :: "string option"
  jr_lease_token :: "string option"
  jr_lease_expires_at :: "time option"
  jr_heartbeat_at :: "time option"
  jr_attempt_count :: int

record permit_row =
  pr_permit_id :: string
  pr_organization_id :: string
  pr_authorization_id :: string
  pr_authorization_sha256 :: string
  pr_target :: string
  pr_issued_by :: string
  pr_issued_at :: time
  pr_not_before :: time
  pr_expires_at :: time
  pr_permit_sha256 :: string
  pr_signing_key_id :: string
  pr_document :: signed_permit
  pr_revoked_at :: "time option"
  pr_revoked_by :: "string option"

text \<open>
  \<open>organization_authorizations\<close> belongs to the identity store and is \<open>None\<close> before that store
  has created its table.
\<close>

record job_db =
  scan_jobs :: "job_row list"
  job_scopes :: "(string \<times> string \<times> string) list"
  job_permits :: "(string \<times> string \<times> string) list"
  job_safety_receipts :: "(string \<times> string \<times> string \<times> time) list"
  scan_permits :: "permit_row list"
  scan_schedules :: "schedule_record list"
  schedule_permits :: "(string \<times> string \<times> string) list"
  organization_authorizations :: "(string \<times> string) list option"

type_synonym 'a dbop = "job_db \<Rightarrow> 'a result \<times> job_db"

definition empty_db :: job_db where
  "empty_db =
     \<lparr>scan_jobs = [], job_scopes = [], job_permits = [], job_safety_receipts = [], scan_permits = [],
      scan_schedules = [], schedule_permits = [], organization_authorizations = None\<rparr>"

definition fetch_job :: "string \<Rightarrow> job_db \<Rightarrow> job_row option" where
  "fetch_job job_id db = sql_find (\<lambda>r. jb_job_id r = job_id) (scan_jobs db)"

text \<open>A row of a two-column table keyed by its first column.\<close>

definition keyed :: "string \<Rightarrow> (string \<times> 'v) list \<Rightarrow> 'v option" where
  "keyed k rows = map_of rows k"

definition job_scope_of :: "job_db \<Rightarrow> string \<Rightarrow> (string \<times> string) option" where
  "job_scope_of db job_id = keyed job_id (job_scopes db)"

definition job_permit_of :: "job_db \<Rightarrow> string \<Rightarrow> (string \<times> string) option" where
  "job_permit_of db job_id = keyed job_id (job_permits db)"

definition fetch_permit :: "string \<Rightarrow> job_db \<Rightarrow> permit_row option" where
  "fetch_permit permit_id db = sql_find (\<lambda>p. pr_permit_id p = permit_id) (scan_permits db)"

text \<open>
  \<^verbatim>\<open>_record_from_row\<close>: the request and the record are validated again; a bad request is a
  store error, a bad record keeps its validation error.
\<close>

definition record_from_row :: "py_env \<Rightarrow> job_row \<Rightarrow> scan_job_record result" where
  "record_from_row E row =
     (case ScanJobRequest_post_init E (jb_request row) of
        Inl _ \<Rightarrow> Inl (JobStoreError ''job_store_persisted_state_invalid'')
      | Inr request \<Rightarrow>
          ScanJobRecord_post_init ((scan_job_record.truncate row)\<lparr>jb_request := request\<rparr>))"

definition new_row :: "py_env \<Rightarrow> scan_job_record \<Rightarrow> job_row" where
  "new_row E r =
     scan_job_record.extend r
       (job_row.fields (request_fingerprint E (jb_request r)) None None None None 0)"

text \<open>\<^verbatim>\<open>_no_earlier_than\<close>.\<close>

definition no_earlier_than :: "time \<Rightarrow> time \<Rightarrow> time" where
  "no_earlier_than candidate earliest = (if candidate \<ge> earliest then candidate else earliest)"

lemma no_earlier_than_max: "no_earlier_than a b = max a b"
  by (simp add: no_earlier_than_def max_def)

lemma fetch_job_SomeD: "fetch_job i db = Some r \<Longrightarrow> r \<in> set (scan_jobs db) \<and> jb_job_id r = i"
  unfolding fetch_job_def by (drule sql_find_Some) simp

lemma fetch_job_iff:
  "distinct (map jb_job_id (scan_jobs db)) \<Longrightarrow>
     fetch_job i db = Some r \<longleftrightarrow> r \<in> set (scan_jobs db) \<and> jb_job_id r = i"
  unfolding fetch_job_def by (rule sql_find_key)

lemma keyed_append: "keyed k (rows @ [(k', v)]) =
  (case keyed k rows of Some x \<Rightarrow> Some x | None \<Rightarrow> if k = k' then Some v else None)"
  by (auto simp: keyed_def map_add_def split: option.splits)

end
