(* ===== verification/Job_Store.thy ===== *)
theory Job_Store
  imports Store_Db
begin

text \<open>
  The job queue of \<^verbatim>\<open>ScanJobStore\<close> (\<^verbatim>\<open>webguard_api/store.py\<close>): submission with
  idempotency keys, claiming with and without a worker lease, renewal, recovery of expired leases,
  cancellation and the terminal transitions. Identifiers that the code draws with
  \<^verbatim>\<open>uuid4()\<close> are arguments, and so is the caller's clock reading \<open>now\<close>.
\<close>

section \<open>Argument checks\<close>

definition store_error :: "string \<Rightarrow> exn" where
  "store_error code = JobStoreError code"

definition check_worker_id :: "string \<Rightarrow> string result" where
  "check_worker_id value =
     (let result = py_strip value in
      raise_if (result = [] \<or> length result > 128
                \<or> list_ex (\<lambda>c. (of_char c :: nat) < 33 \<or> (of_char c :: nat) > 126) result)
        (store_error ''job_worker_id_invalid'') (Inr result))"

definition check_lease_seconds :: "rat \<Rightarrow> rat result" where
  "check_lease_seconds value =
     raise_if (\<not> (1 / 10 \<le> value \<and> value \<le> 3600)) (store_error ''job_lease_duration_invalid'') (Inr value)"

definition check_maximum_attempts :: "int \<Rightarrow> int result" where
  "check_maximum_attempts value =
     raise_if (\<not> (1 \<le> value \<and> value \<le> 100)) (store_error ''job_maximum_attempts_invalid'') (Inr value)"

section \<open>Submission\<close>

definition fresh_record :: "string \<Rightarrow> scan_job_request \<Rightarrow> scan_job_record" where
  "fresh_record job_id request =
     \<lparr>jb_job_id = job_id, jb_request = request, jb_state = JOB_QUEUED,
      jb_updated_at = rq_submitted_at request, jb_revision = 0, jb_cancellation_requested = False,
      jb_started_at = None, jb_completed_at = None, jb_scan_id = None, jb_result_status = None,
      jb_report_ref = None, jb_audit_ref = None, jb_error_code = None, jb_error_message = None\<rparr>"

text \<open>The checks on the row that already has the idempotency key.\<close>

definition resubmit ::
  "py_env \<Rightarrow> job_row \<Rightarrow> scan_job_request \<Rightarrow> string option \<Rightarrow> string option \<Rightarrow> string option
   \<Rightarrow> job_db \<Rightarrow> (scan_job_record \<times> bool) result" where
  "resubmit E existing request organization_id permit_id permit_sha256 db =
     bindE (record_from_row E existing) (\<lambda>existing_record.
       raise_if (jr_request_fingerprint existing \<noteq> request_fingerprint E request)
         (store_error ''job_idempotency_conflict'')
       (raise_if (organization_id \<noteq> None
                  \<and> map_option fst (job_scope_of db (jb_job_id existing_record)) \<noteq> organization_id)
         (store_error ''job_idempotency_conflict'')
       (raise_if (permit_id \<noteq> None
                  \<and> (map_option fst (job_permit_of db (jb_job_id existing_record)) \<noteq> permit_id
                     \<or> map_option snd (job_permit_of db (jb_job_id existing_record)) \<noteq> permit_sha256))
         (store_error ''job_idempotency_conflict'')
       (Inr (existing_record, False)))))"

text \<open>The permit that a new job is bound to must exist for the organization.\<close>

definition permit_bindable :: "job_db \<Rightarrow> string option \<Rightarrow> string option \<Rightarrow> string option \<Rightarrow> bool" where
  "permit_bindable db organization_id permit_id permit_sha256 =
     (case permit_id of None \<Rightarrow> True
      | Some pid \<Rightarrow>
          (case fetch_permit pid db of None \<Rightarrow> False
           | Some p \<Rightarrow> Some (pr_organization_id p) = organization_id
                      \<and> Some (pr_permit_sha256 p) = permit_sha256))"

definition option_pair :: "'a option \<Rightarrow> 'b option \<Rightarrow> ('a \<times> 'b) list" where
  "option_pair a b = (case (a, b) of (Some x, Some y) \<Rightarrow> [(x, y)] | _ \<Rightarrow> [])"

definition insert_job ::
  "py_env \<Rightarrow> scan_job_record \<Rightarrow> string option \<Rightarrow> string option \<Rightarrow> string option \<Rightarrow> string option
   \<Rightarrow> job_db \<Rightarrow> job_db" where
  "insert_job E record organization_id submitted_by permit_id permit_sha256 db =
     db\<lparr>scan_jobs := scan_jobs db @ [new_row E record],
        job_scopes := job_scopes db
          @ map (\<lambda>(o', s). (jb_job_id record, o', s)) (option_pair organization_id submitted_by),
        job_permits := job_permits db
          @ map (\<lambda>(p, s). (jb_job_id record, p, s)) (option_pair permit_id permit_sha256)\<rparr>"

definition submit ::
  "py_env \<Rightarrow> scan_job_request \<Rightarrow> string \<Rightarrow> string option \<Rightarrow> string option \<Rightarrow> string option
   \<Rightarrow> string option \<Rightarrow> (scan_job_record \<times> bool) dbop" where
  "submit E request job_id organization_id submitted_by permit_id permit_sha256 db =
     (if (organization_id = None) \<noteq> (submitted_by = None) then (Inl (store_error ''job_scope_invalid''), db)
      else if (permit_id = None) \<noteq> (permit_sha256 = None)
      then (Inl (store_error ''trustscan_job_binding_invalid''), db)
      else if permit_id \<noteq> None \<and> organization_id = None
      then (Inl (store_error ''trustscan_job_binding_invalid''), db)
      else
        (case ScanJobRecord_post_init (fresh_record job_id request) of
           Inl e \<Rightarrow> (Inl e, db)
         | Inr record \<Rightarrow>
             (case sql_find (\<lambda>r. rq_idempotency_key (jb_request r) = rq_idempotency_key request)
                     (scan_jobs db) of
                Some existing \<Rightarrow>
                  (resubmit E existing request organization_id permit_id permit_sha256 db, db)
              | None \<Rightarrow>
                  (if fetch_job (jb_job_id record) db \<noteq> None
                      \<or> (organization_id \<noteq> None \<and> job_scope_of db (jb_job_id record) \<noteq> None)
                   then (Inl (store_error ''job_store_submit_failed''), db)
                   else if \<not> permit_bindable db organization_id permit_id permit_sha256
                   then (Inl (store_error ''trustscan_permit_not_found''), db)
                   else if permit_id \<noteq> None \<and> job_permit_of db (jb_job_id record) \<noteq> None
                   then (Inl (store_error ''job_store_submit_failed''), db)
                   else (Inr (record, True),
                         insert_job E record organization_id submitted_by permit_id permit_sha256 db)))))"

section \<open>Reading\<close>

definition get_job :: "py_env \<Rightarrow> string \<Rightarrow> job_db \<Rightarrow> scan_job_record result" where
  "get_job E job_id db =
     (case fetch_job job_id db of
        None \<Rightarrow> Inl (store_error ''job_not_found'')
      | Some row \<Rightarrow> record_from_row E row)"

definition get_scoped :: "py_env \<Rightarrow> string \<Rightarrow> string \<Rightarrow> job_db \<Rightarrow> scan_job_record result" where
  "get_scoped E job_id organization_id db =
     (case sql_find (\<lambda>r. jb_job_id r = job_id
              \<and> map_option fst (job_scope_of db (jb_job_id r)) = Some organization_id) (scan_jobs db) of
        None \<Rightarrow> Inl (store_error ''job_not_found'')
      | Some row \<Rightarrow> record_from_row E row)"

text \<open>
  The organization feed: newest first by \<^verbatim>\<open>(submitted_at, job_id)\<close>, filtered, from
  after the cursor on. One row more than the limit tells whether there is another page.
\<close>

definition feed_key :: "job_row \<Rightarrow> time \<times> string" where
  "feed_key r = (rq_submitted_at (jb_request r), jb_job_id r)"

definition feed_filter ::
  "job_db \<Rightarrow> string \<Rightarrow> (time \<times> string) option \<Rightarrow> scan_job_state option \<Rightarrow> scan_job_mode option
   \<Rightarrow> job_row \<Rightarrow> bool" where
  "feed_filter db organization_id after state mode r \<longleftrightarrow>
     map_option fst (job_scope_of db (jb_job_id r)) = Some organization_id
     \<and> (case state of None \<Rightarrow> True | Some s \<Rightarrow> jb_state r = s)
     \<and> (case mode of None \<Rightarrow> True | Some m \<Rightarrow> rq_mode (jb_request r) = m)
     \<and> (case after of None \<Rightarrow> True
        | Some (t, i) \<Rightarrow> rq_submitted_at (jb_request r) < t
                         \<or> rq_submitted_at (jb_request r) = t \<and> jb_job_id r < i)"

definition feed_rows ::
  "job_db \<Rightarrow> string \<Rightarrow> (time \<times> string) option \<Rightarrow> scan_job_state option \<Rightarrow> scan_job_mode option
   \<Rightarrow> job_row list" where
  "feed_rows db organization_id after state mode =
     rev (sql_order feed_key (filter (feed_filter db organization_id after state mode) (scan_jobs db)))"

definition list_jobs_scoped_page ::
  "py_env \<Rightarrow> string \<Rightarrow> int \<Rightarrow> (time \<times> string) option \<Rightarrow> scan_job_state option \<Rightarrow> scan_job_mode option
   \<Rightarrow> job_db \<Rightarrow> (scan_job_record list \<times> bool) result" where
  "list_jobs_scoped_page E organization_id limit after state mode db =
     raise_if (\<not> (1 \<le> limit \<and> limit \<le> 100)) (store_error ''job_list_limit_invalid'')
     (let rows = take (nat limit + 1) (feed_rows db organization_id after state mode)
      in bindE (mapE (record_from_row E) (take (nat limit) rows))
           (\<lambda>records. Inr (records, int (length rows) > limit)))"

section \<open>Claiming\<close>

text \<open>The permit of a binding: present with that digest, not revoked and inside its window.\<close>

definition permit_live :: "job_db \<Rightarrow> string \<Rightarrow> string \<Rightarrow> time \<Rightarrow> bool" where
  "permit_live db permit_id sha256 now =
     list_ex (\<lambda>p. pr_permit_id p = permit_id \<and> pr_permit_sha256 p = sha256 \<and> pr_revoked_at p = None
                  \<and> pr_not_before p \<le> now \<and> now < pr_expires_at p) (scan_permits db)"

definition permit_running :: "job_db \<Rightarrow> string \<Rightarrow> bool" where
  "permit_running db permit_id =
     list_ex (\<lambda>r. jb_state r = JOB_RUNNING
                  \<and> map_option fst (job_permit_of db (jb_job_id r)) = Some permit_id) (scan_jobs db)"

definition claimable :: "job_db \<Rightarrow> time \<Rightarrow> job_row \<Rightarrow> bool" where
  "claimable db now r \<longleftrightarrow>
     jb_state r = JOB_QUEUED \<and> \<not> jb_cancellation_requested r
     \<and> (case organization_authorizations db of None \<Rightarrow> True
        | Some assigned \<Rightarrow>
            (case job_scope_of db (jb_job_id r) of None \<Rightarrow> True
             | Some (org, _) \<Rightarrow> (org, rq_authorization_id (jb_request r)) \<in> set assigned))
     \<and> (case job_permit_of db (jb_job_id r) of None \<Rightarrow> True
        | Some (pid, sha) \<Rightarrow> permit_live db pid sha now \<and> \<not> permit_running db pid)"

definition select_claimable_row :: "job_db \<Rightarrow> time \<Rightarrow> job_row option" where
  "select_claimable_row db now =
     (case sql_order feed_key (filter (claimable db now) (scan_jobs db)) of
        [] \<Rightarrow> None | r # _ \<Rightarrow> Some r)"

text \<open>A compare-and-swap update of one job row: identifier, state and revision must be as read.\<close>

definition cas :: "job_row \<Rightarrow> scan_job_state \<Rightarrow> job_row \<Rightarrow> bool" where
  "cas row state r \<longleftrightarrow> jb_job_id r = jb_job_id row \<and> jb_state r = state \<and> jb_revision r = jb_revision row"

definition update_jobs :: "(job_row \<Rightarrow> bool) \<Rightarrow> (job_row \<Rightarrow> job_row) \<Rightarrow> job_db \<Rightarrow> job_db" where
  "update_jobs P f db = db\<lparr>scan_jobs := sql_update P f (scan_jobs db)\<rparr>"

definition claim_row :: "job_row \<Rightarrow> time \<Rightarrow> job_row \<Rightarrow> job_row" where
  "claim_row row claim_now r =
     r\<lparr>jb_state := JOB_RUNNING, jb_started_at := Some claim_now, jb_updated_at := claim_now,
       jb_revision := jb_revision row + 1\<rparr>"

definition claim_next :: "py_env \<Rightarrow> time \<Rightarrow> scan_job_record option dbop" where
  "claim_next E now db =
     (case select_claimable_row db now of
        None \<Rightarrow> (Inr None, db)
      | Some row \<Rightarrow>
          (let claim_now = no_earlier_than now (rq_submitted_at (jb_request row));
               P = cas row JOB_QUEUED;
               db' = update_jobs P (claim_row row claim_now) db
           in if sql_rowcount P (scan_jobs db) \<noteq> 1 then (Inr None, db)
              else (case fetch_job (jb_job_id row) db' of
                      None \<Rightarrow> (Inl ValueError, db')
                    | Some claimed \<Rightarrow> (bindE (record_from_row E claimed) (\<lambda>r. Inr (Some r)), db'))))"

record leased_job =
  lj_record :: scan_job_record
  lj_worker_id :: string
  lj_lease_token :: string
  lj_lease_expires_at :: time
  lj_attempt_count :: int

definition lease_from_row :: "py_env \<Rightarrow> job_row \<Rightarrow> leased_job result" where
  "lease_from_row E row =
     (case (jr_worker_id row, jr_lease_token row, jr_lease_expires_at row) of
        (Some w, Some t, Some x) \<Rightarrow>
          bindE (record_from_row E row) (\<lambda>r.
            Inr \<lparr>lj_record = r, lj_worker_id = w, lj_lease_token = t, lj_lease_expires_at = x,
                 lj_attempt_count = jr_attempt_count row\<rparr>)
      | _ \<Rightarrow> Inl (store_error ''job_lease_metadata_invalid''))"

definition lease_row :: "job_row \<Rightarrow> time \<Rightarrow> string \<Rightarrow> string \<Rightarrow> rat \<Rightarrow> job_row \<Rightarrow> job_row" where
  "lease_row row claim_now worker_id lease_token duration r =
     (claim_row row claim_now r)
       \<lparr>jr_worker_id := Some worker_id, jr_lease_token := Some lease_token,
        jr_lease_expires_at := Some (claim_now + timedelta_seconds duration),
        jr_heartbeat_at := Some claim_now, jr_attempt_count := jr_attempt_count r + 1\<rparr>"

definition claim_next_leased ::
  "py_env \<Rightarrow> time \<Rightarrow> string \<Rightarrow> rat \<Rightarrow> string \<Rightarrow> leased_job option dbop" where
  "claim_next_leased E now worker_id lease_seconds lease_token db =
     (case bindE (check_worker_id worker_id) (\<lambda>w. bindE (check_lease_seconds lease_seconds) (\<lambda>d. Inr (w, d))) of
        Inl e \<Rightarrow> (Inl e, db)
      | Inr (worker, duration) \<Rightarrow>
         (case select_claimable_row db now of
            None \<Rightarrow> (Inr None, db)
          | Some row \<Rightarrow>
              (let claim_now = no_earlier_than now (rq_submitted_at (jb_request row));
                   P = cas row JOB_QUEUED;
                   db' = update_jobs P (lease_row row claim_now worker lease_token duration) db
               in if sql_rowcount P (scan_jobs db) \<noteq> 1 then (Inr None, db)
                  else (case fetch_job (jb_job_id row) db' of
                          None \<Rightarrow> (Inl ValueError, db')
                        | Some claimed \<Rightarrow> (bindE (lease_from_row E claimed) (\<lambda>l. Inr (Some l)), db')))))"

section \<open>Leases\<close>

definition require_active_lease :: "job_row \<Rightarrow> string \<Rightarrow> string \<Rightarrow> time \<Rightarrow> unit result" where
  "require_active_lease row worker_id lease_token now =
     raise_if (jb_state row \<noteq> JOB_RUNNING \<or> jr_worker_id row \<noteq> Some worker_id
               \<or> jr_lease_token row \<noteq> Some lease_token)
       (store_error ''job_lease_lost'')
     (raise_if (case jr_lease_expires_at row of None \<Rightarrow> True | Some x \<Rightarrow> x \<le> now)
       (store_error ''job_lease_expired'')
     (Inr ()))"

definition lease_cas :: "job_row \<Rightarrow> string \<Rightarrow> string \<Rightarrow> job_row \<Rightarrow> bool" where
  "lease_cas row worker_id lease_token r \<longleftrightarrow>
     cas row JOB_RUNNING r \<and> jr_worker_id r = Some worker_id \<and> jr_lease_token r = Some lease_token"

definition renew_row :: "job_row \<Rightarrow> time \<Rightarrow> rat \<Rightarrow> job_row \<Rightarrow> job_row" where
  "renew_row row renew_now duration r =
     r\<lparr>jr_heartbeat_at := Some renew_now,
       jr_lease_expires_at := Some (renew_now + timedelta_seconds duration),
       jb_updated_at := renew_now, jb_revision := jb_revision row + 1\<rparr>"

definition renew_lease ::
  "py_env \<Rightarrow> string \<Rightarrow> string \<Rightarrow> string \<Rightarrow> time \<Rightarrow> rat \<Rightarrow> leased_job dbop" where
  "renew_lease E job_id worker_id lease_token now lease_seconds db =
     (case bindE (check_worker_id worker_id) (\<lambda>w. bindE (check_lease_seconds lease_seconds) (\<lambda>d. Inr (w, d))) of
        Inl e \<Rightarrow> (Inl e, db)
      | Inr (worker, duration) \<Rightarrow>
         (case fetch_job job_id db of
            None \<Rightarrow> (Inl (store_error ''job_not_found''), db)
          | Some row \<Rightarrow>
             (case require_active_lease row worker lease_token now of
                Inl e \<Rightarrow> (Inl e, db)
              | Inr _ \<Rightarrow>
                 (let renew_now = no_earlier_than now (rq_submitted_at (jb_request row));
                      P = lease_cas row worker lease_token;
                      db' = update_jobs P (renew_row row renew_now duration) db
                  in if sql_rowcount P (scan_jobs db) \<noteq> 1 then (Inl (store_error ''job_lease_lost''), db)
                     else (case fetch_job job_id db' of
                             None \<Rightarrow> (Inl ValueError, db')
                           | Some renewed \<Rightarrow> (lease_from_row E renewed, db'))))))"

definition clear_lease :: "job_row \<Rightarrow> job_row" where
  "clear_lease r =
     r\<lparr>jr_worker_id := None, jr_lease_token := None, jr_lease_expires_at := None, jr_heartbeat_at := None\<rparr>"

definition lease_expired :: "time \<Rightarrow> job_row \<Rightarrow> bool" where
  "lease_expired now r \<longleftrightarrow>
     jb_state r = JOB_RUNNING \<and> (case jr_lease_expires_at r of None \<Rightarrow> False | Some x \<Rightarrow> x \<le> now)"

text \<open>The three outcomes for a job whose worker was lost.\<close>

datatype recovery = Recover_Cancelled | Recover_Failed | Recover_Requeued

definition recovery_of :: "int \<Rightarrow> job_row \<Rightarrow> recovery" where
  "recovery_of limit row =
     (if jb_cancellation_requested row then Recover_Cancelled
      else if jr_attempt_count row \<ge> limit then Recover_Failed
      else Recover_Requeued)"

definition recover_row :: "recovery \<Rightarrow> job_row \<Rightarrow> time \<Rightarrow> job_row \<Rightarrow> job_row" where
  "recover_row kind row row_now r =
     (case kind of
        Recover_Cancelled \<Rightarrow>
          (clear_lease r)\<lparr>jb_state := JOB_CANCELLED, jb_completed_at := Some row_now,
                          jb_updated_at := row_now, jb_revision := jb_revision row + 1\<rparr>
      | Recover_Failed \<Rightarrow>
          (clear_lease r)\<lparr>jb_state := JOB_FAILED, jb_completed_at := Some row_now,
                          jb_updated_at := row_now, jb_revision := jb_revision row + 1,
                          jb_error_code := Some ''worker_lease_attempts_exhausted'',
                          jb_error_message :=
                            Some ''The scan job exceeded the permitted worker recovery attempts.''\<rparr>
      | Recover_Requeued \<Rightarrow>
          (clear_lease r)\<lparr>jb_state := JOB_QUEUED, jb_started_at := None,
                          jb_updated_at := row_now, jb_revision := jb_revision row + 1\<rparr>)"

text \<open>SQL's \<^verbatim>\<open>lease_token = ?\<close> is not true of a null token.\<close>

definition token_cas :: "job_row \<Rightarrow> job_row \<Rightarrow> bool" where
  "token_cas row r \<longleftrightarrow>
     cas row JOB_RUNNING r \<and> jr_lease_token r \<noteq> None \<and> jr_lease_token r = jr_lease_token row"

record recovery_summary =
  rs_requeued :: nat
  rs_cancelled :: nat
  rs_failed :: nat

definition count_recovery :: "recovery \<Rightarrow> nat \<Rightarrow> recovery_summary \<Rightarrow> recovery_summary" where
  "count_recovery kind n s =
     (case kind of
        Recover_Cancelled \<Rightarrow> s\<lparr>rs_cancelled := rs_cancelled s + n\<rparr>
      | Recover_Failed \<Rightarrow> s\<lparr>rs_failed := rs_failed s + n\<rparr>
      | Recover_Requeued \<Rightarrow> s\<lparr>rs_requeued := rs_requeued s + n\<rparr>)"

definition recover_one :: "time \<Rightarrow> int \<Rightarrow> job_row \<Rightarrow> job_row list \<times> recovery_summary \<Rightarrow> job_row list \<times> recovery_summary" where
  "recover_one now limit row st =
     (case st of (jobs, summary) \<Rightarrow>
        let kind = recovery_of limit row;
            row_now = no_earlier_than now (rq_submitted_at (jb_request row))
        in (sql_update (token_cas row) (recover_row kind row row_now) jobs,
            count_recovery kind (sql_rowcount (token_cas row) jobs) summary))"

definition expired_key :: "job_row \<Rightarrow> time \<times> string" where
  "expired_key r = (case jr_lease_expires_at r of None \<Rightarrow> 0 | Some x \<Rightarrow> x, jb_job_id r)"

definition recover_expired_leases :: "time \<Rightarrow> int \<Rightarrow> recovery_summary dbop" where
  "recover_expired_leases now maximum_attempts db =
     (case check_maximum_attempts maximum_attempts of
        Inl e \<Rightarrow> (Inl e, db)
      | Inr limit \<Rightarrow>
          (let rows = sql_order expired_key (filter (lease_expired now) (scan_jobs db));
               (jobs, summary) =
                 fold (recover_one now limit) rows
                   (scan_jobs db, \<lparr>rs_requeued = 0, rs_cancelled = 0, rs_failed = 0\<rparr>)
           in (Inr summary, db\<lparr>scan_jobs := jobs\<rparr>)))"

section \<open>Cancellation\<close>

definition cancel_queued_row :: "scan_job_record \<Rightarrow> time \<Rightarrow> job_row \<Rightarrow> job_row" where
  "cancel_queued_row record now r =
     r\<lparr>jb_state := JOB_CANCELLED, jb_cancellation_requested := True,
       jb_completed_at := Some now, jb_updated_at := now, jb_revision := jb_revision record + 1\<rparr>"

definition cancel_request_row :: "scan_job_record \<Rightarrow> time \<Rightarrow> job_row \<Rightarrow> job_row" where
  "cancel_request_row record now r =
     r\<lparr>jb_cancellation_requested := True, jb_updated_at := now, jb_revision := jb_revision record + 1\<rparr>"

definition request_cancellation :: "py_env \<Rightarrow> string \<Rightarrow> time \<Rightarrow> scan_job_record dbop" where
  "request_cancellation E job_id now db =
     (case fetch_job job_id db of
        None \<Rightarrow> (Inl (store_error ''job_not_found''), db)
      | Some row \<Rightarrow>
         (case record_from_row E row of
            Inl e \<Rightarrow> (Inl e, db)
          | Inr record \<Rightarrow>
             (if is_terminal (jb_state record) then (Inr record, db)
              else
                (let P = (\<lambda>r. jb_job_id r = job_id \<and> jb_revision r = jb_revision record);
                     f = (if jb_state record = JOB_QUEUED then cancel_queued_row record now
                          else cancel_request_row record now);
                     db' = update_jobs P f db
                 in (case fetch_job job_id db' of
                       None \<Rightarrow> (Inl ValueError, db')
                     | Some updated \<Rightarrow> (record_from_row E updated, db'))))))"

definition request_cancellation_scoped :: "py_env \<Rightarrow> string \<Rightarrow> string \<Rightarrow> time \<Rightarrow> scan_job_record dbop" where
  "request_cancellation_scoped E job_id organization_id now db =
     (case get_scoped E job_id organization_id db of
        Inl e \<Rightarrow> (Inl e, db)
      | Inr _ \<Rightarrow> request_cancellation E job_id now db)"

section \<open>Terminal transitions\<close>

record outcome =
  oc_state :: scan_job_state
  oc_scan_id :: "string option"
  oc_result_status :: "scan_status option"
  oc_report_ref :: "string option"
  oc_audit_ref :: "string option"
  oc_error_code :: "string option"
  oc_error_message :: "string option"
  oc_receipt_ref :: "string option"
  oc_receipt_sha256 :: "string option"

definition terminal_row :: "scan_job_record \<Rightarrow> outcome \<Rightarrow> time \<Rightarrow> job_row \<Rightarrow> job_row" where
  "terminal_row record out timestamp r =
     (clear_lease r)
       \<lparr>jb_state := oc_state out, jb_completed_at := Some timestamp, jb_updated_at := timestamp,
        jb_revision := jb_revision record + 1, jb_scan_id := oc_scan_id out,
        jb_result_status := oc_result_status out, jb_report_ref := oc_report_ref out,
        jb_audit_ref := oc_audit_ref out, jb_error_code := oc_error_code out,
        jb_error_message := oc_error_message out\<rparr>"

text \<open>The lease check of a terminal transition, before the update.\<close>

definition terminal_lease_check ::
  "job_row \<Rightarrow> string option \<Rightarrow> string option \<Rightarrow> time \<Rightarrow> unit result" where
  "terminal_lease_check row worker lease_token now =
     (if jr_lease_token row \<noteq> None then
        (case (worker, lease_token) of
           (Some w, Some t) \<Rightarrow> require_active_lease row w t now
         | _ \<Rightarrow> Inl (store_error ''job_lease_required''))
      else if worker \<noteq> None then Inl (store_error ''job_lease_lost'')
      else Inr ())"

definition terminal_cas :: "scan_job_record \<Rightarrow> string option \<Rightarrow> string option \<Rightarrow> job_row \<Rightarrow> bool" where
  "terminal_cas record worker lease_token r \<longleftrightarrow>
     jb_job_id r = jb_job_id record \<and> jb_state r = JOB_RUNNING \<and> jb_revision r = jb_revision record
     \<and> (worker \<noteq> None \<longrightarrow> jr_worker_id r = worker \<and> lease_token \<noteq> None \<and> jr_lease_token r = lease_token)"

definition receipt_check :: "outcome \<Rightarrow> unit result" where
  "receipt_check out =
     (case oc_receipt_ref out of
        None \<Rightarrow> Inr ()
      | Some ref \<Rightarrow>
          raise_if (ref = [] \<or> take 1 ref = ''/'' \<or> ''..'' \<in> set (py_split (CHR ''/'') ref))
            (store_error ''trustscan_safety_receipt_reference_invalid'')
          (raise_if (case oc_receipt_sha256 out of None \<Rightarrow> True | Some d \<Rightarrow> \<not> hex64 d)
            (store_error ''trustscan_safety_receipt_digest_invalid'')
          (Inr ())))"

definition add_receipt :: "string \<Rightarrow> outcome \<Rightarrow> time \<Rightarrow> job_db \<Rightarrow> job_db" where
  "add_receipt job_id out timestamp db =
     (case (oc_receipt_ref out, oc_receipt_sha256 out) of
        (Some ref, Some sha) \<Rightarrow>
          db\<lparr>job_safety_receipts := job_safety_receipts db @ [(job_id, ref, sha, timestamp)]\<rparr>
      | _ \<Rightarrow> db)"

text \<open>The instant written: never before the start boundary of the record.\<close>

definition terminal_timestamp :: "scan_job_record \<Rightarrow> time \<Rightarrow> time" where
  "terminal_timestamp record now =
     no_earlier_than now
       (case jb_started_at record of None \<Rightarrow> rq_submitted_at (jb_request record) | Some t \<Rightarrow> t)"

text \<open>The statements after the state check: lease check, update, receipt, commit and read back.\<close>

definition terminal_write ::
  "py_env \<Rightarrow> string \<Rightarrow> string option \<Rightarrow> string option \<Rightarrow> outcome \<Rightarrow> time \<Rightarrow> job_row
   \<Rightarrow> scan_job_record \<Rightarrow> scan_job_record dbop" where
  "terminal_write E job_id worker lease_token out now row record db =
     (let timestamp = terminal_timestamp record now;
          P = terminal_cas record worker lease_token;
          db' = add_receipt job_id out timestamp
                  (update_jobs P (terminal_row record out timestamp) db)
      in case terminal_lease_check row worker lease_token now of
           Inl e \<Rightarrow> (Inl e, db)
         | Inr _ \<Rightarrow>
            if sql_rowcount P (scan_jobs db) \<noteq> 1
            then (Inl (store_error (if worker \<noteq> None then ''job_lease_lost''
                                    else ''job_state_transition_conflict'')), db)
            else (case receipt_check out of
                    Inl e \<Rightarrow> (Inl e, db)
                  | Inr _ \<Rightarrow>
                     if oc_receipt_ref out \<noteq> None \<and> keyed job_id (job_safety_receipts db) \<noteq> None
                     then (Inl (store_error ''job_store_transition_failed''), db)
                     else (case fetch_job job_id db' of
                             None \<Rightarrow> (Inl ValueError, db')
                           | Some updated \<Rightarrow> (record_from_row E updated, db'))))"

definition terminal_update ::
  "py_env \<Rightarrow> string \<Rightarrow> string option \<Rightarrow> string option \<Rightarrow> outcome \<Rightarrow> time \<Rightarrow> scan_job_record dbop" where
  "terminal_update E job_id worker_id lease_token out now db =
     (if (oc_receipt_ref out = None) \<noteq> (oc_receipt_sha256 out = None)
      then (Inl (store_error ''trustscan_safety_receipt_metadata_invalid''), db)
      else if (worker_id = None) \<noteq> (lease_token = None)
      then (Inl (store_error ''job_lease_credentials_invalid''), db)
      else
       (case mapE_option check_worker_id worker_id of
          Inl e \<Rightarrow> (Inl e, db)
        | Inr worker \<Rightarrow>
         (case fetch_job job_id db of
            None \<Rightarrow> (Inl (store_error ''job_not_found''), db)
          | Some row \<Rightarrow>
           (case record_from_row E row of
              Inl e \<Rightarrow> (Inl e, db)
            | Inr record \<Rightarrow>
               if jb_state record \<noteq> JOB_RUNNING
               then (Inl (store_error ''job_state_transition_invalid''), db)
               else terminal_write E job_id worker lease_token out now row record db))))"

definition result_outcome ::
  "string \<Rightarrow> scan_status \<Rightarrow> string \<Rightarrow> string \<Rightarrow> string option \<Rightarrow> string option \<Rightarrow> outcome result" where
  "result_outcome scan_id status report_ref audit_ref receipt_ref receipt_sha256 =
     (case expected_result_state status of
        None \<Rightarrow> Inl (store_error ''job_store_result_status_invalid'')
      | Some state \<Rightarrow>
          Inr \<lparr>oc_state = state, oc_scan_id = Some scan_id, oc_result_status = Some status,
               oc_report_ref = Some report_ref, oc_audit_ref = Some audit_ref,
               oc_error_code = None, oc_error_message = None,
               oc_receipt_ref = receipt_ref, oc_receipt_sha256 = receipt_sha256\<rparr>)"

definition finish_result ::
  "py_env \<Rightarrow> string \<Rightarrow> string \<Rightarrow> scan_status \<Rightarrow> string \<Rightarrow> string \<Rightarrow> time \<Rightarrow> string option
   \<Rightarrow> string option \<Rightarrow> scan_job_record dbop" where
  "finish_result E job_id scan_id status report_ref audit_ref now receipt_ref receipt_sha256 db =
     (case result_outcome scan_id status report_ref audit_ref receipt_ref receipt_sha256 of
        Inl e \<Rightarrow> (Inl e, db)
      | Inr out \<Rightarrow> terminal_update E job_id None None out now db)"

definition finish_result_leased ::
  "py_env \<Rightarrow> string \<Rightarrow> string \<Rightarrow> string \<Rightarrow> string \<Rightarrow> scan_status \<Rightarrow> string \<Rightarrow> string \<Rightarrow> time
   \<Rightarrow> string option \<Rightarrow> string option \<Rightarrow> scan_job_record dbop" where
  "finish_result_leased E job_id worker_id lease_token scan_id status report_ref audit_ref now
     receipt_ref receipt_sha256 db =
     (case result_outcome scan_id status report_ref audit_ref receipt_ref receipt_sha256 of
        Inl e \<Rightarrow> (Inl e, db)
      | Inr out \<Rightarrow> terminal_update E job_id (Some worker_id) (Some lease_token) out now db)"

definition complete_job ::
  "py_env \<Rightarrow> string \<Rightarrow> scan_job_state \<Rightarrow> string \<Rightarrow> scan_status \<Rightarrow> string \<Rightarrow> string \<Rightarrow> time
   \<Rightarrow> scan_job_record dbop" where
  "complete_job E job_id state scan_id status report_ref audit_ref now db =
     (if state \<notin> {JOB_COMPLETED, JOB_COMPLETED_WITH_ERRORS}
      then (Inl (store_error ''job_store_completion_state_invalid''), db)
      else if status \<noteq> (if state = JOB_COMPLETED then SCAN_COMPLETED else SCAN_COMPLETED_WITH_ERRORS)
      then (Inl (store_error ''job_store_completion_status_mismatch''), db)
      else finish_result E job_id scan_id status report_ref audit_ref now None None db)"

definition failure_outcome :: "string \<Rightarrow> string \<Rightarrow> string option \<Rightarrow> string option \<Rightarrow> outcome" where
  "failure_outcome error_code error_message receipt_ref receipt_sha256 =
     \<lparr>oc_state = JOB_FAILED, oc_scan_id = None, oc_result_status = None, oc_report_ref = None,
      oc_audit_ref = None, oc_error_code = Some error_code, oc_error_message = Some error_message,
      oc_receipt_ref = receipt_ref, oc_receipt_sha256 = receipt_sha256\<rparr>"

definition cancel_outcome :: outcome where
  "cancel_outcome =
     \<lparr>oc_state = JOB_CANCELLED, oc_scan_id = None, oc_result_status = None, oc_report_ref = None,
      oc_audit_ref = None, oc_error_code = None, oc_error_message = None,
      oc_receipt_ref = None, oc_receipt_sha256 = None\<rparr>"

definition fail_job ::
  "py_env \<Rightarrow> string \<Rightarrow> string \<Rightarrow> string \<Rightarrow> time \<Rightarrow> string option \<Rightarrow> string option
   \<Rightarrow> scan_job_record dbop" where
  "fail_job E job_id error_code error_message now receipt_ref receipt_sha256 db =
     terminal_update E job_id None None
       (failure_outcome error_code error_message receipt_ref receipt_sha256) now db"

definition fail_leased ::
  "py_env \<Rightarrow> string \<Rightarrow> string \<Rightarrow> string \<Rightarrow> string \<Rightarrow> string \<Rightarrow> time \<Rightarrow> string option \<Rightarrow> string option
   \<Rightarrow> scan_job_record dbop" where
  "fail_leased E job_id worker_id lease_token error_code error_message now receipt_ref receipt_sha256 db =
     terminal_update E job_id (Some worker_id) (Some lease_token)
       (failure_outcome error_code error_message receipt_ref receipt_sha256) now db"

definition cancel_running :: "py_env \<Rightarrow> string \<Rightarrow> time \<Rightarrow> scan_job_record dbop" where
  "cancel_running E job_id now db = terminal_update E job_id None None cancel_outcome now db"

definition cancel_running_leased ::
  "py_env \<Rightarrow> string \<Rightarrow> string \<Rightarrow> string \<Rightarrow> time \<Rightarrow> scan_job_record dbop" where
  "cancel_running_leased E job_id worker_id lease_token now db =
     terminal_update E job_id (Some worker_id) (Some lease_token) cancel_outcome now db"

end
