(* ===== verification/Job_Invariants.thy ===== *)
theory Job_Invariants
  imports Job_Store
begin

text \<open>
  The invariant of the job queue and how each operation of \<open>Job_Store\<close> moves the table: every
  stored row can be read back, job identifiers and idempotency keys are unique, bindings refer to
  stored jobs and at most one job runs per permit. An operation changes a row only along the job
  lifecycle, one revision at a time.
\<close>

section \<open>Well-formed rows\<close>

definition request_ok :: "py_env \<Rightarrow> scan_job_request \<Rightarrow> bool" where
  "request_ok E q \<longleftrightarrow> ScanJobRequest_post_init E q = Inr q"

definition lease_wf :: "job_row \<Rightarrow> bool" where
  "lease_wf r \<longleftrightarrow>
     (jr_lease_token r = None \<longleftrightarrow> jr_worker_id r = None)
     \<and> (jr_lease_token r = None \<longleftrightarrow> jr_lease_expires_at r = None)
     \<and> (jr_lease_token r \<noteq> None \<longrightarrow> jb_state r = JOB_RUNNING)
     \<and> (\<forall>s x. jb_started_at r = Some s \<longrightarrow> jr_lease_expires_at r = Some x \<longrightarrow> s < x)
     \<and> 0 \<le> jr_attempt_count r"

definition row_ok :: "py_env \<Rightarrow> job_row \<Rightarrow> bool" where
  "row_ok E r \<longleftrightarrow>
     request_ok E (jb_request r) \<and> record_wf r \<and> lease_wf r
     \<and> jr_request_fingerprint r = request_fingerprint E (jb_request r)"

definition row_record :: "job_row \<Rightarrow> scan_job_record" where
  "row_record r = scan_job_record.truncate r"

lemma row_record_sel [simp]:
  "jb_job_id (row_record r) = jb_job_id r" "jb_request (row_record r) = jb_request r"
  "jb_state (row_record r) = jb_state r" "jb_updated_at (row_record r) = jb_updated_at r"
  "jb_revision (row_record r) = jb_revision r"
  "jb_cancellation_requested (row_record r) = jb_cancellation_requested r"
  "jb_started_at (row_record r) = jb_started_at r" "jb_completed_at (row_record r) = jb_completed_at r"
  "jb_scan_id (row_record r) = jb_scan_id r" "jb_result_status (row_record r) = jb_result_status r"
  "jb_report_ref (row_record r) = jb_report_ref r" "jb_audit_ref (row_record r) = jb_audit_ref r"
  "jb_error_code (row_record r) = jb_error_code r" "jb_error_message (row_record r) = jb_error_message r"
  by (simp_all add: row_record_def scan_job_record.defs)

lemma record_wf_row_record: "record_wf (row_record r) \<longleftrightarrow> record_wf r"
proof -
  have m: "has_result_metadata (row_record r) = has_result_metadata r"
    "has_error_metadata (row_record r) = has_error_metadata r"
    "has_all_result (row_record r) = has_all_result r" "has_all_error (row_record r) = has_all_error r"
    by (simp_all add: metadata_defs)
  have "projection_wf (row_record r) = projection_wf r"
    by (simp only: projection_wf_def terminal_wf_def m row_record_sel)
  then show ?thesis
    by (simp only: record_wf_def fields_wf_def times_wf_def row_record_sel)
qed

lemma row_record_request [simp]: "(row_record r)\<lparr>jb_request := jb_request r\<rparr> = row_record r"
  by (simp add: row_record_def scan_job_record.defs)

text \<open>A well-formed row reads back as a record that agrees with it.\<close>

lemma record_from_row_ok:
  assumes "row_ok E r"
  obtains rec where "record_from_row E r = Inr rec" "ScanJobRecord_post_init (row_record r) = Inr rec"
proof -
  have "succeeds (ScanJobRecord_post_init (row_record r))"
    using assms by (simp add: ScanJobRecord_succeeds record_wf_row_record row_ok_def)
  moreover have "record_from_row E r = ScanJobRecord_post_init (row_record r)"
    using assms by (simp add: record_from_row_def row_ok_def request_ok_def flip: row_record_def)
  ultimately show thesis
    using that by (auto simp: succeeds_iff)
qed

lemma record_from_row_fields:
  assumes "record_from_row E r = Inr rec"
  shows "jb_job_id rec = jb_job_id r" "jb_state rec = jb_state r" "jb_revision rec = jb_revision r"
    "jb_started_at rec = jb_started_at r" "jb_updated_at rec = jb_updated_at r"
    "jb_completed_at rec = jb_completed_at r"
    "jb_cancellation_requested rec = jb_cancellation_requested r"
    "jb_result_status rec = jb_result_status r" "jb_scan_id rec = jb_scan_id r"
  using assms
  by (auto simp: record_from_row_def ScanJobRecord_fields simp flip: row_record_def
      split: sum.splits)

lemma record_from_row_request:
  assumes "row_ok E r" and "record_from_row E r = Inr rec"
  shows "jb_request rec = jb_request r"
  using assms
  by (auto simp: record_from_row_def row_ok_def request_ok_def ScanJobRecord_fields
      simp flip: row_record_def)

section \<open>Building blocks of rows\<close>

lemma fields_wf_plain:
  assumes "uuid_shape (jb_job_id r)" "0 \<le> jb_revision r" "\<not> has_result_metadata r" "\<not> has_error_metadata r"
  shows "fields_wf r"
  using assms by (simp add: fields_wf_def metadata_defs job_error_code_def job_optional_text_def succeeds_def)

text \<open>What the state of a well-formed row says.\<close>

lemma record_wf_queued:
  "record_wf r \<Longrightarrow> jb_state r = JOB_QUEUED \<Longrightarrow>
     jb_started_at r = None \<and> jb_completed_at r = None \<and> \<not> has_result_metadata r \<and> \<not> has_error_metadata r"
  by (simp add: record_wf_def projection_wf_def)

lemma record_wf_running:
  "record_wf r \<Longrightarrow> jb_state r = JOB_RUNNING \<Longrightarrow>
     jb_started_at r \<noteq> None \<and> jb_completed_at r = None \<and> \<not> has_result_metadata r \<and> \<not> has_error_metadata r"
  by (simp add: record_wf_def projection_wf_def)

lemma record_wf_basic:
  "record_wf r \<Longrightarrow> uuid_shape (jb_job_id r) \<and> 0 \<le> jb_revision r"
  by (simp add: record_wf_def fields_wf_def)

lemma record_wf_started:
  "record_wf r \<Longrightarrow> jb_started_at r = Some s \<Longrightarrow> rq_submitted_at (jb_request r) \<le> s"
  by (simp add: record_wf_def times_wf_def Let_def)

section \<open>Every row update keeps rows well formed\<close>

text \<open>
  The instants that an update writes must not precede the submission (or the start) of the job;
  the operations provide this by \<open>no_earlier_than\<close> or take it from the lease.
\<close>

lemmas row_ok_defs = row_ok_def record_wf_def times_wf_def projection_wf_def lease_wf_def Let_def

lemma metadata_update [simp]:
  "has_result_metadata (r\<lparr>jb_state := s\<rparr>) = has_result_metadata r"
  "has_error_metadata (r\<lparr>jb_state := s\<rparr>) = has_error_metadata r"
  "has_result_metadata (r\<lparr>jb_updated_at := t\<rparr>) = has_result_metadata r"
  "has_error_metadata (r\<lparr>jb_updated_at := t\<rparr>) = has_error_metadata r"
  "has_result_metadata (r\<lparr>jb_revision := n\<rparr>) = has_result_metadata r"
  "has_error_metadata (r\<lparr>jb_revision := n\<rparr>) = has_error_metadata r"
  "has_result_metadata (r\<lparr>jb_started_at := o1\<rparr>) = has_result_metadata r"
  "has_error_metadata (r\<lparr>jb_started_at := o1\<rparr>) = has_error_metadata r"
  "has_result_metadata (r\<lparr>jb_completed_at := o1\<rparr>) = has_result_metadata r"
  "has_error_metadata (r\<lparr>jb_completed_at := o1\<rparr>) = has_error_metadata r"
  "has_result_metadata (r\<lparr>jb_cancellation_requested := b\<rparr>) = has_result_metadata r"
  "has_error_metadata (r\<lparr>jb_cancellation_requested := b\<rparr>) = has_error_metadata r"
  by (simp_all add: metadata_defs)

lemma metadata_update_lease [simp]:
  "has_result_metadata (row\<lparr>jr_worker_id := w\<rparr>) = has_result_metadata (row :: job_row)"
  "has_error_metadata (row\<lparr>jr_worker_id := w\<rparr>) = has_error_metadata (row :: job_row)"
  "has_result_metadata (row\<lparr>jr_lease_token := w\<rparr>) = has_result_metadata (row :: job_row)"
  "has_error_metadata (row\<lparr>jr_lease_token := w\<rparr>) = has_error_metadata (row :: job_row)"
  "has_result_metadata (row\<lparr>jr_lease_expires_at := t\<rparr>) = has_result_metadata (row :: job_row)"
  "has_error_metadata (row\<lparr>jr_lease_expires_at := t\<rparr>) = has_error_metadata (row :: job_row)"
  "has_result_metadata (row\<lparr>jr_heartbeat_at := t\<rparr>) = has_result_metadata (row :: job_row)"
  "has_error_metadata (row\<lparr>jr_heartbeat_at := t\<rparr>) = has_error_metadata (row :: job_row)"
  "has_result_metadata (row\<lparr>jr_attempt_count := n\<rparr>) = has_result_metadata (row :: job_row)"
  "has_error_metadata (row\<lparr>jr_attempt_count := n\<rparr>) = has_error_metadata (row :: job_row)"
  by (simp_all add: metadata_defs)

lemma row_ok_plainI:
  assumes "request_ok E (jb_request r)" "jr_request_fingerprint r = request_fingerprint E (jb_request r)"
    and "uuid_shape (jb_job_id r)" "0 \<le> jb_revision r"
    and "\<not> has_result_metadata r" "\<not> has_error_metadata r"
    and "times_wf r" "projection_wf r" "lease_wf r"
  shows "row_ok E r"
  using assms by (simp add: row_ok_def record_wf_def fields_wf_plain)

lemma row_ok_new_row:
  assumes "request_ok E q" "uuid_shape job_id" 
  shows "row_ok E (new_row E (fresh_record job_id q))"
  using assms
  by (intro row_ok_plainI)
    (simp_all add: new_row_def fresh_record_def scan_job_record.defs job_row.defs metadata_defs times_wf_def
      projection_wf_def lease_wf_def Let_def)

lemma row_ok_claim:
  assumes "row_ok E r" "jb_state r = JOB_QUEUED" "0 \<le> jb_revision row"
    and "rq_submitted_at (jb_request r) \<le> t"
  shows "row_ok E (claim_row row t r)"
proof (rule row_ok_plainI)
  show "lease_wf (claim_row row t r)"
    using assms by (auto simp: row_ok_def lease_wf_def claim_row_def)
qed (use assms record_wf_queued [of r] record_wf_basic [of r] in
    \<open>auto simp: row_ok_def claim_row_def times_wf_def projection_wf_def Let_def\<close>)

lemma row_ok_lease:
  assumes "row_ok E r" "jb_state r = JOB_QUEUED" "0 \<le> jb_revision row"
    and "rq_submitted_at (jb_request r) \<le> t" and "0 < timedelta_seconds d"
  shows "row_ok E (lease_row row t w tok d r)"
proof (rule row_ok_plainI)
  show "lease_wf (lease_row row t w tok d r)"
    using assms by (auto simp: row_ok_def lease_wf_def lease_row_def claim_row_def)
qed (use assms record_wf_queued [of r] record_wf_basic [of r] in
    \<open>auto simp: row_ok_def lease_row_def claim_row_def times_wf_def projection_wf_def Let_def\<close>)

lemma row_ok_renew:
  assumes "row_ok E r" "jb_state r = JOB_RUNNING" "0 \<le> jb_revision row" "jr_lease_token r \<noteq> None"
    and "\<And>s. jb_started_at r = Some s \<Longrightarrow> s \<le> t" "rq_submitted_at (jb_request r) \<le> t"
    and "0 < timedelta_seconds d"
  shows "row_ok E (renew_row row t d r)"
proof (rule row_ok_plainI)
  show "lease_wf (renew_row row t d r)"
    using assms by (fastforce simp: row_ok_def lease_wf_def renew_row_def)
qed (use assms record_wf_running [of r] record_wf_basic [of r] record_wf_started [of r] in
    \<open>auto simp: row_ok_def renew_row_def times_wf_def projection_wf_def Let_def\<close>)

lemma row_ok_cancel_queued:
  assumes "row_ok E r" "jb_state r = JOB_QUEUED" "0 \<le> jb_revision rec"
    and "rq_submitted_at (jb_request r) \<le> t"
  shows "row_ok E (cancel_queued_row rec t r)"
proof (rule row_ok_plainI)
  show "lease_wf (cancel_queued_row rec t r)"
    using assms by (auto simp: row_ok_def lease_wf_def cancel_queued_row_def)
qed (use assms record_wf_queued [of r] record_wf_basic [of r] in
    \<open>auto simp: row_ok_def cancel_queued_row_def times_wf_def projection_wf_def terminal_wf_def Let_def\<close>)

lemma row_ok_cancel_request:
  assumes "row_ok E r" "jb_state r = JOB_RUNNING" "0 \<le> jb_revision rec"
    and "rq_submitted_at (jb_request r) \<le> t"
  shows "row_ok E (cancel_request_row rec t r)"
proof (rule row_ok_plainI)
  show "lease_wf (cancel_request_row rec t r)"
    using assms by (auto simp: row_ok_def lease_wf_def cancel_request_row_def)
qed (use assms record_wf_running [of r] record_wf_basic [of r] record_wf_started [of r] in
    \<open>auto simp: row_ok_def cancel_request_row_def times_wf_def projection_wf_def Let_def\<close>)

text \<open>
  A terminal outcome that fits the contract: the metadata of one of the three shapes, and fields
  that the constructor of the record accepts.
\<close>

definition outcome_wf :: "outcome \<Rightarrow> bool" where
  "outcome_wf out \<longleftrightarrow>
     succeeds (mapE_option job_uuid (oc_scan_id out))
     \<and> succeeds (mapE_option job_artifact_reference (oc_report_ref out))
     \<and> succeeds (mapE_option job_artifact_reference (oc_audit_ref out))
     \<and> succeeds (job_error_code (oc_error_code out))
     \<and> succeeds (job_optional_text 2048 (oc_error_message out))"

definition outcome_shape :: "outcome \<Rightarrow> bool" where
  "outcome_shape out \<longleftrightarrow>
     (oc_scan_id out \<noteq> None \<and> oc_report_ref out \<noteq> None \<and> oc_audit_ref out \<noteq> None
        \<and> oc_error_code out = None \<and> oc_error_message out = None
        \<and> (\<exists>st. oc_result_status out = Some st \<and> expected_result_state st = Some (oc_state out))
      \<or> oc_scan_id out = None \<and> oc_report_ref out = None \<and> oc_audit_ref out = None
        \<and> oc_result_status out = None
        \<and> (oc_state out = JOB_FAILED \<and> oc_error_code out \<noteq> None \<and> oc_error_message out \<noteq> None
           \<or> oc_state out = JOB_CANCELLED \<and> oc_error_code out = None \<and> oc_error_message out = None))"

lemma expected_result_state_terminal: "expected_result_state st = Some s \<Longrightarrow> is_terminal s"
  by (cases st) (auto simp: expected_result_state_def is_terminal_def)

lemma outcome_shape_terminal: "outcome_shape out \<Longrightarrow> is_terminal (oc_state out)"
  by (auto simp: outcome_shape_def is_terminal_def dest: expected_result_state_terminal)

lemma projection_wf_terminal: "is_terminal (jb_state r) \<Longrightarrow> projection_wf r \<longleftrightarrow> terminal_wf r"
  by (auto simp: is_terminal_def projection_wf_def)

lemma row_ok_terminal:
  assumes "row_ok E r" "jb_state r = JOB_RUNNING" "0 \<le> jb_revision rec"
    and t: "\<And>s. jb_started_at r = Some s \<Longrightarrow> s \<le> t" and out: "outcome_wf out" "outcome_shape out"
  shows "row_ok E (terminal_row rec out t r)"
proof -
  let ?r = "terminal_row rec out t r"
  have wf: "record_wf r" and lw: "lease_wf r"
    using assms(1) by (simp_all add: row_ok_def)
  obtain s where s: "jb_started_at r = Some s" "rq_submitted_at (jb_request r) \<le> s" "s \<le> t"
    using record_wf_running [OF wf assms(2)] record_wf_started [OF wf] t by auto
  have "fields_wf ?r"
    using record_wf_basic [OF wf] assms(3) out(1)
    by (simp add: terminal_row_def clear_lease_def fields_wf_def outcome_wf_def)
  moreover have "times_wf ?r"
    using s by (simp add: terminal_row_def clear_lease_def times_wf_def Let_def)
  moreover have "terminal_wf ?r"
    using s(1) out(2)
    by (auto simp: terminal_row_def clear_lease_def terminal_wf_def metadata_defs outcome_shape_def)
  moreover have "is_terminal (jb_state ?r)"
    using outcome_shape_terminal [OF out(2)] by (simp add: terminal_row_def)
  moreover have "lease_wf ?r"
    using lw by (simp add: lease_wf_def terminal_row_def clear_lease_def)
  ultimately show ?thesis
    using assms(1) by (simp add: row_ok_def record_wf_def projection_wf_terminal)
      (simp add: terminal_row_def clear_lease_def)
qed

lemma row_ok_recover:
  assumes "row_ok E r" "jb_state r = JOB_RUNNING" "0 \<le> jb_revision row"
    and t: "\<And>s. jb_started_at r = Some s \<Longrightarrow> s \<le> t"
  shows "row_ok E (recover_row kind row t r)"
proof -
  have wf: "record_wf r" and lw: "lease_wf r"
    using assms(1) by (simp_all add: row_ok_def)
  note run = record_wf_running [OF wf assms(2)]
  obtain s where s: "jb_started_at r = Some s" "rq_submitted_at (jb_request r) \<le> s" "s \<le> t"
    using run record_wf_started [OF wf] t by auto
  show ?thesis
  proof (cases kind)
    case Recover_Cancelled
    then show ?thesis
      using assms run s record_wf_basic [OF wf] lw
      by (intro row_ok_plainI)
        (auto simp: recover_row_def clear_lease_def row_ok_def times_wf_def projection_wf_def
          terminal_wf_def lease_wf_def Let_def)
  next
    case Recover_Requeued
    then show ?thesis
      using assms run s record_wf_basic [OF wf] lw
      by (intro row_ok_plainI)
        (auto simp: recover_row_def clear_lease_def row_ok_def times_wf_def projection_wf_def
          lease_wf_def Let_def)
  next
    case Recover_Failed
    let ?out = "failure_outcome ''worker_lease_attempts_exhausted''
      ''The scan job exceeded the permitted worker recovery attempts.'' None None"
    have "recover_row kind row t r = terminal_row (row_record row) ?out t r"
      using Recover_Failed run
      by (simp add: recover_row_def terminal_row_def failure_outcome_def clear_lease_def metadata_defs)
    moreover have "outcome_wf ?out" "outcome_shape ?out"
      by (code_simp, simp add: outcome_shape_def failure_outcome_def)
    ultimately show ?thesis
      using row_ok_terminal [of E r "row_record row" t ?out] assms by simp
  qed
qed

end
