(* ===== verification/Job_Effects.thy ===== *)
theory Job_Effects
  imports Job_Invariants
begin

text \<open>
  The effect of the queue's operations on the table, in terms of the job lifecycle. \<open>effect\<close>
  collects the four ways in which an operation changes the database; each of them keeps the
  invariant \<open>db_inv\<close> and moves every row along \<open>row_step\<close>.
\<close>

section \<open>The invariant of the table\<close>

definition permit_of :: "job_db \<Rightarrow> job_row \<Rightarrow> string option" where
  "permit_of db r = map_option fst (job_permit_of db (jb_job_id r))"

definition permit_exclusive :: "job_db \<Rightarrow> bool" where
  "permit_exclusive db \<longleftrightarrow>
     (\<forall>r \<in> set (scan_jobs db). \<forall>r' \<in> set (scan_jobs db).
        jb_state r = JOB_RUNNING \<longrightarrow> jb_state r' = JOB_RUNNING \<longrightarrow>
        permit_of db r \<noteq> None \<longrightarrow> permit_of db r = permit_of db r' \<longrightarrow> r = r')"

definition job_ids :: "job_db \<Rightarrow> string set" where
  "job_ids db = jb_job_id ` set (scan_jobs db)"

definition db_inv :: "py_env \<Rightarrow> job_db \<Rightarrow> bool" where
  "db_inv E db \<longleftrightarrow>
     distinct (map jb_job_id (scan_jobs db))
     \<and> distinct (map (rq_idempotency_key \<circ> jb_request) (scan_jobs db))
     \<and> (\<forall>r \<in> set (scan_jobs db). row_ok E r)
     \<and> permit_exclusive db
     \<and> fst ` set (job_scopes db) \<subseteq> job_ids db \<and> fst ` set (job_permits db) \<subseteq> job_ids db
     \<and> fst ` set (job_safety_receipts db) \<subseteq> job_ids db"

lemma db_inv_row_ok: "db_inv E db \<Longrightarrow> r \<in> set (scan_jobs db) \<Longrightarrow> row_ok E r"
  by (simp add: db_inv_def)

lemma db_inv_distinct: "db_inv E db \<Longrightarrow> distinct (map jb_job_id (scan_jobs db))"
  by (simp add: db_inv_def)

lemma db_inv_id_unique:
  "db_inv E db \<Longrightarrow> r \<in> set (scan_jobs db) \<Longrightarrow> r' \<in> set (scan_jobs db) \<Longrightarrow>
     jb_job_id r = jb_job_id r' \<Longrightarrow> r = r'"
  by (rule key_unique [OF db_inv_distinct])

lemma db_inv_empty: "db_inv E empty_db"
  by (simp add: db_inv_def empty_db_def permit_exclusive_def job_ids_def)

section \<open>The lifecycle of a job\<close>

inductive lifecycle :: "scan_job_state \<Rightarrow> scan_job_state \<Rightarrow> bool" where
  claimed: "lifecycle JOB_QUEUED JOB_RUNNING"
| withdrawn: "lifecycle JOB_QUEUED JOB_CANCELLED"
| touched: "lifecycle JOB_RUNNING JOB_RUNNING"
| requeued: "lifecycle JOB_RUNNING JOB_QUEUED"
| finished: "is_terminal s \<Longrightarrow> lifecycle JOB_RUNNING s"

inductive_simps lifecycle_simps:
  "lifecycle JOB_QUEUED s" "lifecycle JOB_RUNNING s"
  "lifecycle JOB_COMPLETED s" "lifecycle JOB_COMPLETED_WITH_ERRORS s"
  "lifecycle JOB_FAILED s" "lifecycle JOB_CANCELLED s"

lemma lifecycle_from_terminal: "is_terminal s \<Longrightarrow> \<not> lifecycle s s'"
  by (auto simp: is_terminal_def lifecycle_simps)

definition row_step :: "job_row \<Rightarrow> job_row \<Rightarrow> bool" where
  "row_step r r' \<longleftrightarrow>
     r' = r \<or>
     jb_job_id r' = jb_job_id r \<and> jb_request r' = jb_request r
     \<and> jr_request_fingerprint r' = jr_request_fingerprint r
     \<and> lifecycle (jb_state r) (jb_state r') \<and> jb_revision r' = jb_revision r + 1
     \<and> (jb_cancellation_requested r \<longrightarrow> jb_cancellation_requested r')
     \<and> jr_attempt_count r \<le> jr_attempt_count r' \<and> jr_attempt_count r' \<le> jr_attempt_count r + 1
     \<and> (jr_attempt_count r' = jr_attempt_count r + 1 \<longrightarrow> jb_state r = JOB_QUEUED)"

lemma row_step_refl [simp]: "row_step r r"
  by (simp add: row_step_def)

lemma row_step_key: "row_step r r' \<Longrightarrow> jb_job_id r' = jb_job_id r \<and> jb_request r' = jb_request r"
  by (auto simp: row_step_def)

text \<open>The table evolves: old rows keep their place and make a step, new rows are fresh.\<close>

definition jobs_evolve :: "job_row list \<Rightarrow> job_row list \<Rightarrow> bool" where
  "jobs_evolve old new \<longleftrightarrow>
     (\<exists>mid tail. new = mid @ tail \<and> list_all2 row_step old mid
        \<and> (\<forall>r \<in> set tail. jb_state r = JOB_QUEUED \<and> jb_revision r = 0))"

lemma list_all2_row_step_refl [simp]: "list_all2 row_step rs rs"
  by (simp add: list_all2_refl)

lemma jobs_evolve_refl [simp]: "jobs_evolve rs rs"
  unfolding jobs_evolve_def by (intro exI [of _ rs] exI [of _ "[]"]) simp

lemma jobs_evolve_update:
  assumes "\<And>r. r \<in> set rows \<Longrightarrow> P r \<Longrightarrow> row_step r (f r)"
  shows "jobs_evolve rows (sql_update P f rows)"
proof -
  have "list_all2 row_step rows (sql_update P f rows)"
    using assms by (auto simp: sql_update_def list_all2_conv_all_nth)
  then show ?thesis
    unfolding jobs_evolve_def by (intro exI [of _ "sql_update P f rows"] exI [of _ "[]"]) simp
qed

lemma jobs_evolve_member:
  assumes "jobs_evolve old new" and "r \<in> set old"
  obtains r' where "r' \<in> set new" "row_step r r'"
proof -
  obtain mid tail where new: "new = mid @ tail" and st: "list_all2 row_step old mid"
    using assms(1) by (auto simp: jobs_evolve_def)
  obtain r' where "r' \<in> set mid" "row_step r r'"
    using list_all2_member [OF st assms(2)] by blast
  then show thesis using that [of r'] new by simp
qed

section \<open>The four effects\<close>

definition good_update :: "py_env \<Rightarrow> (job_row \<Rightarrow> bool) \<Rightarrow> (job_row \<Rightarrow> job_row) \<Rightarrow> job_db \<Rightarrow> bool" where
  "good_update E P f db \<longleftrightarrow>
     (\<forall>r \<in> set (scan_jobs db). P r \<longrightarrow> row_step r (f r) \<and> row_ok E (f r))"

definition keeps_running :: "(job_row \<Rightarrow> bool) \<Rightarrow> (job_row \<Rightarrow> job_row) \<Rightarrow> job_db \<Rightarrow> bool" where
  "keeps_running P f db \<longleftrightarrow>
     (\<forall>r \<in> set (scan_jobs db). P r \<longrightarrow> jb_state (f r) = JOB_RUNNING \<longrightarrow> jb_state r = JOB_RUNNING)"

inductive effect :: "py_env \<Rightarrow> job_db \<Rightarrow> job_db \<Rightarrow> bool" for E where
  unchanged: "effect E db db"
| updated:
    "good_update E P f db \<Longrightarrow> keeps_running P f db \<Longrightarrow> fst ` set rc \<subseteq> job_ids db \<Longrightarrow>
     effect E db ((update_jobs P f db)\<lparr>job_safety_receipts := job_safety_receipts db @ rc\<rparr>)"
| started:
    "good_update E P f db \<Longrightarrow> row \<in> set (scan_jobs db) \<Longrightarrow>
     (\<And>r. r \<in> set (scan_jobs db) \<Longrightarrow> P r \<Longrightarrow> r = row) \<Longrightarrow>
     (\<And>p. permit_of db row = Some p \<Longrightarrow> \<not> permit_running db p) \<Longrightarrow>
     effect E db (update_jobs P f db)"
| inserted:
    "request_ok E q \<Longrightarrow> uuid_shape i \<Longrightarrow> i \<notin> job_ids db \<Longrightarrow>
     rq_idempotency_key q \<notin> (rq_idempotency_key \<circ> jb_request) ` set (scan_jobs db) \<Longrightarrow>
     effect E db (insert_job E (fresh_record i q) org by pid sha db)"

lemma effect_update:
  "good_update E P f db \<Longrightarrow> keeps_running P f db \<Longrightarrow> effect E db (update_jobs P f db)"
  using effect.updated [of E P f db "[]"] by (simp add: update_jobs_def)

lemma update_jobs_sel [simp]:
  "scan_jobs (update_jobs P f db) = sql_update P f (scan_jobs db)"
  "job_scopes (update_jobs P f db) = job_scopes db"
  "job_permits (update_jobs P f db) = job_permits db"
  "job_safety_receipts (update_jobs P f db) = job_safety_receipts db"
  "scan_permits (update_jobs P f db) = scan_permits db"
  "scan_schedules (update_jobs P f db) = scan_schedules db"
  "schedule_permits (update_jobs P f db) = schedule_permits db"
  "organization_authorizations (update_jobs P f db) = organization_authorizations db"
  by (simp_all add: update_jobs_def)

lemma good_update_keys:
  assumes "good_update E P f db"
  shows "map jb_job_id (sql_update P f (scan_jobs db)) = map jb_job_id (scan_jobs db)"
    and "map (rq_idempotency_key \<circ> jb_request) (sql_update P f (scan_jobs db))
       = map (rq_idempotency_key \<circ> jb_request) (scan_jobs db)"
    and "jb_job_id ` set (sql_update P f (scan_jobs db)) = jb_job_id ` set (scan_jobs db)"
proof -
  show 1: "map jb_job_id (sql_update P f (scan_jobs db)) = map jb_job_id (scan_jobs db)"
    using assms by (auto simp: sql_update_def good_update_def dest: row_step_key)
  show "map (rq_idempotency_key \<circ> jb_request) (sql_update P f (scan_jobs db))
       = map (rq_idempotency_key \<circ> jb_request) (scan_jobs db)"
    using assms by (auto simp: sql_update_def good_update_def) (metis row_step_key)
  show "jb_job_id ` set (sql_update P f (scan_jobs db)) = jb_job_id ` set (scan_jobs db)"
    using arg_cong [OF 1, of set] by simp
qed

lemma good_update_row_ok:
  assumes "db_inv E db" "good_update E P f db" "r \<in> set (sql_update P f (scan_jobs db))"
  shows "row_ok E r"
  using sql_update_cases [OF assms(3)] assms(1,2) by (auto simp: db_inv_def good_update_def)

lemma permit_of_update [simp]:
  "permit_of (update_jobs P f db) r = permit_of db r"
  by (simp add: permit_of_def job_permit_of_def)

lemma permit_of_cong: "jb_job_id r = jb_job_id r' \<Longrightarrow> permit_of db r = permit_of db r'"
  by (simp add: permit_of_def)

lemma permit_runningI:
  "r \<in> set (scan_jobs db) \<Longrightarrow> jb_state r = JOB_RUNNING \<Longrightarrow> permit_of db r = Some p \<Longrightarrow> permit_running db p"
  by (auto simp: permit_running_def permit_of_def list_ex_iff)

text \<open>Updates of which only the identifiers are known to stay; used without the invariant too.\<close>

definition keeps_id :: "(job_row \<Rightarrow> bool) \<Rightarrow> (job_row \<Rightarrow> job_row) \<Rightarrow> job_db \<Rightarrow> bool" where
  "keeps_id P f db \<longleftrightarrow> (\<forall>r \<in> set (scan_jobs db). P r \<longrightarrow> jb_job_id (f r) = jb_job_id r)"

lemma good_update_keeps_id: "good_update E P f db \<Longrightarrow> keeps_id P f db"
  using row_step_key by (auto simp: good_update_def keeps_id_def)

lemma updated_origin:
  assumes "keeps_id P f db" "r' \<in> set (sql_update P f (scan_jobs db))"
  obtains r where "r \<in> set (scan_jobs db)" "jb_job_id r' = jb_job_id r" "r' = (if P r then f r else r)"
proof -
  obtain r where r: "r \<in> set (scan_jobs db)" "r' = (if P r then f r else r)"
    using assms(2) by (auto simp: set_sql_update)
  moreover have "jb_job_id r' = jb_job_id r"
    using r assms(1) by (auto simp: keeps_id_def)
  ultimately show thesis using that by blast
qed

lemma permit_exclusive_update:
  assumes inv: "permit_exclusive db" and g: "keeps_id P f db"
    and run: "\<And>r p. r \<in> set (scan_jobs db) \<Longrightarrow> P r \<Longrightarrow> jb_state (f r) = JOB_RUNNING \<Longrightarrow>
      permit_of db r = Some p \<Longrightarrow> jb_state r \<noteq> JOB_RUNNING \<Longrightarrow>
      \<not> permit_running db p \<and> (\<forall>r' \<in> set (scan_jobs db). P r' \<longrightarrow> r' = r)"
  shows "permit_exclusive (update_jobs P f db)"
  unfolding permit_exclusive_def
proof (intro ballI impI)
  fix s s'
  assume s: "s \<in> set (scan_jobs (update_jobs P f db))" "s' \<in> set (scan_jobs (update_jobs P f db))"
    and st: "jb_state s = JOB_RUNNING" "jb_state s' = JOB_RUNNING"
    and p: "permit_of (update_jobs P f db) s \<noteq> None"
      "permit_of (update_jobs P f db) s = permit_of (update_jobs P f db) s'"
  obtain r where r: "r \<in> set (scan_jobs db)" "jb_job_id s = jb_job_id r" "s = (if P r then f r else r)"
    using updated_origin [OF g] s(1) by auto
  obtain r' where r': "r' \<in> set (scan_jobs db)" "jb_job_id s' = jb_job_id r'" "s' = (if P r' then f r' else r')"
    using updated_origin [OF g] s(2) by auto
  obtain q where q: "permit_of db r = Some q" "permit_of db r' = Some q"
    using p permit_of_cong [OF r(2)] permit_of_cong [OF r'(2)] by auto
  have "r = r'"
  proof (cases "jb_state r = JOB_RUNNING")
    case True
    then have "permit_running db q"
      using permit_runningI [OF r(1) _ q(1)] by blast
    then have "jb_state r' = JOB_RUNNING"
      using run [OF r'(1) _ _ q(2)] st(2) r'(3) by (auto split: if_splits)
    then show ?thesis
      using inv True r(1) r'(1) q by (auto simp: permit_exclusive_def)
  next
    case False
    then have "P r" "\<not> permit_running db q" "\<forall>x \<in> set (scan_jobs db). P x \<longrightarrow> x = r"
      using run [OF r(1) _ _ q(1)] st(1) r(3) by (auto split: if_splits)
    then show ?thesis
      using r' st(2) permit_runningI [OF r'(1) _ q(2)] by (auto split: if_splits)
  qed
  then show "s = s'"
    using r(3) r'(3) by simp
qed

lemma db_inv_updated:
  assumes "db_inv E db" "good_update E P f db" "permit_exclusive (update_jobs P f db)"
    and "fst ` set rc \<subseteq> job_ids db"
  shows "db_inv E ((update_jobs P f db)\<lparr>job_safety_receipts := job_safety_receipts db @ rc\<rparr>)"
proof -
  have "permit_exclusive ((update_jobs P f db)\<lparr>job_safety_receipts := job_safety_receipts db @ rc\<rparr>)"
    using assms(3) by (simp add: permit_exclusive_def permit_of_def job_permit_of_def)
  then show ?thesis
    using assms good_update_keys [OF assms(2)] good_update_row_ok [OF assms(1,2)]
    by (simp add: db_inv_def job_ids_def image_Un)
qed

lemma insert_job_sel:
  "scan_jobs (insert_job E rec org by pid sha db) = scan_jobs db @ [new_row E rec]"
  "fst ` set (job_scopes (insert_job E rec org by pid sha db)) \<subseteq> insert (jb_job_id rec) (fst ` set (job_scopes db))"
  "fst ` set (job_permits (insert_job E rec org by pid sha db)) \<subseteq> insert (jb_job_id rec) (fst ` set (job_permits db))"
  "job_safety_receipts (insert_job E rec org by pid sha db) = job_safety_receipts db"
  "k \<noteq> jb_job_id rec \<Longrightarrow> job_permit_of (insert_job E rec org by pid sha db) k = job_permit_of db k"
  by (auto simp: insert_job_def job_permit_of_def keyed_def map_add_def option_pair_def split: option.splits)

lemma new_row_sel [simp]:
  "jb_job_id (new_row E rec) = jb_job_id rec" "jb_request (new_row E rec) = jb_request rec"
  "jb_state (new_row E rec) = jb_state rec" "jb_revision (new_row E rec) = jb_revision rec"
  by (simp_all add: new_row_def scan_job_record.defs job_row.defs)

lemma fresh_record_sel [simp]:
  "jb_job_id (fresh_record i q) = i" "jb_request (fresh_record i q) = q"
  "jb_state (fresh_record i q) = JOB_QUEUED" "jb_revision (fresh_record i q) = 0"
  by (simp_all add: fresh_record_def)

lemma db_inv_inserted:
  assumes inv: "db_inv E db" and "request_ok E q" "uuid_shape i" "i \<notin> job_ids db"
    and "rq_idempotency_key q \<notin> (rq_idempotency_key \<circ> jb_request) ` set (scan_jobs db)"
  shows "db_inv E (insert_job E (fresh_record i q) org by pid sha db)" (is "db_inv E ?db")
proof -
  have ids: "job_ids ?db = insert i (job_ids db)"
    by (simp add: job_ids_def insert_job_sel)
  have "permit_of ?db r = permit_of db r" if "r \<in> set (scan_jobs db)" for r
  proof -
    have "jb_job_id r \<noteq> jb_job_id (fresh_record i q)"
      using that assms(4) by (auto simp: job_ids_def)
    then show ?thesis by (simp add: permit_of_def insert_job_sel(5) del: fresh_record_sel)
  qed
  then have "permit_exclusive ?db"
    using inv by (auto simp: permit_exclusive_def insert_job_sel db_inv_def)
  moreover have "row_ok E r" if "r \<in> set (scan_jobs ?db)" for r
    using that inv row_ok_new_row [OF assms(2,3)] by (auto simp: insert_job_sel db_inv_def)
  moreover have "distinct (map jb_job_id (scan_jobs ?db))"
    using inv assms(4) by (auto simp: insert_job_sel db_inv_def job_ids_def)
  moreover have "distinct (map (rq_idempotency_key \<circ> jb_request) (scan_jobs ?db))"
    using inv assms(5) by (auto simp: insert_job_sel db_inv_def)
  moreover have "fst ` set (job_scopes ?db) \<subseteq> job_ids ?db" "fst ` set (job_permits ?db) \<subseteq> job_ids ?db"
    using inv unfolding ids db_inv_def
    by (intro subset_trans [OF insert_job_sel(2)] subset_trans [OF insert_job_sel(3)]; simp; fast)+
  moreover have "fst ` set (job_safety_receipts ?db) \<subseteq> job_ids ?db"
    using inv unfolding ids by (auto simp: db_inv_def insert_job_sel)
  ultimately show ?thesis
    by (simp only: db_inv_def) blast
qed

theorem effect_inv: "effect E db db' \<Longrightarrow> db_inv E db \<Longrightarrow> db_inv E db'"
proof (induction rule: effect.induct)
  case (updated P f db rc)
  have "permit_exclusive (update_jobs P f db)"
    using updated good_update_keeps_id [OF updated(1)]
    by (intro permit_exclusive_update) (auto simp: keeps_running_def db_inv_def)
  then show ?case
    using updated by (intro db_inv_updated)
next
  case (started P f db row)
  have "permit_exclusive (update_jobs P f db)"
  proof (rule permit_exclusive_update)
    show "permit_exclusive db" "keeps_id P f db"
      using started good_update_keeps_id [OF started(1)] by (simp_all add: db_inv_def)
  qed (use started in blast)
  then show ?case
    using started db_inv_updated [of E db P f "[]"] by (simp add: update_jobs_def)
next
  case (inserted q i db org "by" pid sha)
  then show ?case by (intro db_inv_inserted)
qed simp

theorem effect_evolves: "effect E db db' \<Longrightarrow> jobs_evolve (scan_jobs db) (scan_jobs db')"
proof (induction rule: effect.induct)
  case (inserted q i db org "by" pid sha)
  then show ?case
    unfolding jobs_evolve_def insert_job_sel
    by (intro exI [of _ "scan_jobs db"] exI [of _ "[new_row E (fresh_record i q)]"]) simp
qed (auto intro!: jobs_evolve_update simp: good_update_def)

end
