(* ===== verification/Job_Ops.thy ===== *)
theory Job_Ops
  imports Job_Effects
begin

text \<open>
  Every operation of the job queue has one of the effects of \<open>Job_Effects\<close>, on every branch. The
  clock readings that callers pass are arbitrary, except for a renewal and a cancellation request.
\<close>

section \<open>Operations and their effects\<close>

text \<open>The read-back at the end of an operation decides its result, not the database.\<close>

lemma snd_read_back: "snd (case x of None \<Rightarrow> (a, d) | Some y \<Rightarrow> (f y, d)) = d"
  by (simp split: option.split)

lemma good_update_single:
  assumes "db_inv E db" "row \<in> set (scan_jobs db)" "\<And>r. P r \<Longrightarrow> jb_job_id r = jb_job_id row"
    and "P row \<Longrightarrow> row_step row (f row) \<and> row_ok E (f row)"
  shows "good_update E P f db"
  using assms db_inv_id_unique [OF assms(1)] by (auto simp: good_update_def)

lemma fresh_record_post_init:
  assumes "ScanJobRecord_post_init (fresh_record i q) = Inr rec"
  shows "rec = fresh_record i q \<and> uuid_shape i"
proof -
  have "succeeds (ScanJobRecord_post_init (fresh_record i q))"
    using assms by (simp add: succeeds_def)
  then have u: "uuid_shape i"
    using record_wf_basic by (fastforce simp: ScanJobRecord_succeeds)
  moreover have "rec = fresh_record i q"
    using assms u unfolding ScanJobRecord_post_init_def
    by (auto simp: fresh_record_def exn_simps job_error_code_def job_optional_text_def Let_def)
  ultimately show ?thesis by simp
qed

lemma submit_effect:
  assumes "request_ok E q"
  shows "effect E db (snd (submit E q i org by pid sha db))"
proof -
  have "effect E db (insert_job E rec org by pid sha db)"
    if rec: "ScanJobRecord_post_init (fresh_record i q) = Inr rec"
      and key: "sql_find (\<lambda>r. rq_idempotency_key (jb_request r) = rq_idempotency_key q) (scan_jobs db) = None"
      and free: "fetch_job (jb_job_id rec) db = None" for rec
  proof -
    have "i \<notin> job_ids db"
      using free fresh_record_post_init [OF rec] by (auto simp: fetch_job_def sql_find_None job_ids_def)
    moreover have "rq_idempotency_key q \<notin> (rq_idempotency_key \<circ> jb_request) ` set (scan_jobs db)"
      using key by (auto simp: sql_find_None)
    ultimately show ?thesis
      using effect.inserted [OF assms] fresh_record_post_init [OF rec] by simp
  qed
  then show ?thesis
    by (auto simp: submit_def effect.unchanged split: sum.splits option.splits if_splits)
qed

lemma select_claimable_row_SomeD:
  assumes "select_claimable_row db now = Some row"
  shows "row \<in> set (scan_jobs db)" "claimable db now row"
    and "\<And>r. r \<in> set (scan_jobs db) \<Longrightarrow> claimable db now r \<Longrightarrow> feed_key row \<le> feed_key r"
proof -
  let ?c = "filter (claimable db now) (scan_jobs db)"
  obtain rs where rs: "sql_order feed_key ?c = row # rs"
    using assms by (auto simp: select_claimable_row_def split: list.splits)
  then have "row \<in> set ?c"
    by (metis list.set_intros(1) set_sql_order)
  then show "row \<in> set (scan_jobs db)" "claimable db now row"
    by simp_all
  show "feed_key row \<le> feed_key r" if "r \<in> set (scan_jobs db)" "claimable db now r" for r
    using sql_order_hd_least [OF rs, of r] that by simp
qed

lemma claimable_permit:
  "claimable db now row \<Longrightarrow> permit_of db row = Some p \<Longrightarrow> \<not> permit_running db p"
  by (auto simp: claimable_def permit_of_def split: option.splits)

lemma cas_id: "cas row s r \<Longrightarrow> jb_job_id r = jb_job_id row"
  by (simp add: cas_def)

text \<open>Both claiming operations, for whatever update of the selected row.\<close>

lemma claim_effect:
  assumes inv: "db_inv E db" and sel: "select_claimable_row db now = Some row"
    and "row_step row (f row)" "row_ok E (f row)"
  shows "effect E db (update_jobs (cas row JOB_QUEUED) f db)"
proof (rule effect.started [where row = row])
  note row = select_claimable_row_SomeD [OF sel]
  show "good_update E (cas row JOB_QUEUED) f db"
    using assms row by (intro good_update_single) (auto dest: cas_id)
  show "row \<in> set (scan_jobs db)" by (rule row)
  show "r = row" if "r \<in> set (scan_jobs db)" "cas row JOB_QUEUED r" for r
    using db_inv_id_unique [OF inv that(1) row(1)] that(2) by (simp add: cas_def)
  show "\<not> permit_running db p" if "permit_of db row = Some p" for p
    using claimable_permit row(2) that by blast
qed

lemma row_step_claim:
  "jb_state row = JOB_QUEUED \<Longrightarrow> row_step row (claim_row row t row)"
  by (simp add: row_step_def claim_row_def lifecycle_simps)

lemma row_step_lease:
  "jb_state row = JOB_QUEUED \<Longrightarrow> row_step row (lease_row row t w tok d row)"
  by (simp add: row_step_def lease_row_def claim_row_def lifecycle_simps)

lemma row_ok_revision: "row_ok E r \<Longrightarrow> 0 \<le> jb_revision r"
  using record_wf_basic by (auto simp: row_ok_def)

lemma claim_next_effect:
  assumes "db_inv E db"
  shows "effect E db (snd (claim_next E now db))"
proof -
  have "effect E db (update_jobs (cas row JOB_QUEUED)
          (claim_row row (no_earlier_than now (rq_submitted_at (jb_request row)))) db)"
    if sel: "select_claimable_row db now = Some row" for row
  proof -
    have q: "jb_state row = JOB_QUEUED" and ok: "row_ok E row"
      using select_claimable_row_SomeD [OF sel] db_inv_row_ok [OF assms] by (auto simp: claimable_def)
    show ?thesis
      by (intro claim_effect [OF assms sel] row_step_claim [OF q] row_ok_claim [OF ok q])
        (simp_all add: no_earlier_than_max row_ok_revision [OF ok])
  qed
  then show ?thesis
    by (auto simp: claim_next_def Let_def effect.unchanged split: option.splits)
qed

lemma check_lease_seconds_pos: "check_lease_seconds d = Inr d' \<Longrightarrow> 0 < timedelta_seconds d'"
  by (auto simp: check_lease_seconds_def exn_simps intro: timedelta_seconds_pos)

lemma claim_next_leased_effect:
  assumes "db_inv E db"
  shows "effect E db (snd (claim_next_leased E now w d tok db))"
proof -
  have "effect E db (update_jobs (cas row JOB_QUEUED)
          (lease_row row (no_earlier_than now (rq_submitted_at (jb_request row))) w' tok d') db)"
    if sel: "select_claimable_row db now = Some row" and "check_lease_seconds d = Inr d'" for row w' d'
  proof -
    have q: "jb_state row = JOB_QUEUED" and ok: "row_ok E row"
      using select_claimable_row_SomeD [OF sel] db_inv_row_ok [OF assms] by (auto simp: claimable_def)
    show ?thesis
      by (intro claim_effect [OF assms sel] row_step_lease [OF q] row_ok_lease [OF ok q])
        (simp_all add: no_earlier_than_max row_ok_revision [OF ok] check_lease_seconds_pos [OF that(2)])
  qed
  then show ?thesis
    by (auto simp: claim_next_leased_def Let_def effect.unchanged bindE_eq_Inr
        split: option.splits sum.splits prod.splits)
qed

text \<open>Renewal; the worker's clock has not run back behind the start of the job.\<close>

definition clock_after_start :: "string \<Rightarrow> time \<Rightarrow> job_db \<Rightarrow> bool" where
  "clock_after_start job_id now db \<longleftrightarrow>
     (case Option.bind (fetch_job job_id db) jb_started_at of None \<Rightarrow> True | Some s \<Rightarrow> s \<le> now)"

lemma require_active_leaseD:
  "require_active_lease row w tok now = Inr u \<Longrightarrow>
     jb_state row = JOB_RUNNING \<and> jr_worker_id row = Some w \<and> jr_lease_token row = Some tok
     \<and> (\<exists>x. jr_lease_expires_at row = Some x \<and> now < x)"
  by (auto simp: require_active_lease_def exn_simps split: option.splits)

lemma renew_lease_effect:
  assumes inv: "db_inv E db" and clock: "clock_after_start i now db"
  shows "effect E db (snd (renew_lease E i w tok now d db))"
proof -
  have "effect E db (update_jobs (lease_cas row w' tok)
          (renew_row row (no_earlier_than now (rq_submitted_at (jb_request row))) d') db)"
    if row: "fetch_job i db = Some row" and act: "require_active_lease row w' tok now = Inr u"
      and d: "check_lease_seconds d = Inr d'" for row w' d' u
  proof -
    let ?f = "renew_row row (no_earlier_than now (rq_submitted_at (jb_request row))) d'"
    have mem: "row \<in> set (scan_jobs db)" and ok: "row_ok E row"
      using fetch_job_SomeD [OF row] db_inv_row_ok [OF inv] by auto
    note act = require_active_leaseD [OF act]
    have "row_ok E (?f row)"
      using ok act clock row check_lease_seconds_pos [OF d]
      by (intro row_ok_renew)
        (auto simp: row_ok_revision no_earlier_than_max clock_after_start_def)
    moreover have "row_step row (?f row)"
      using act by (simp add: row_step_def renew_row_def lifecycle_simps)
    ultimately show ?thesis
      using inv mem act
      by (intro effect_update good_update_single)
        (auto simp: keeps_running_def lease_cas_def cas_def)
  qed
  then show ?thesis
    by (auto simp: renew_lease_def Let_def effect.unchanged bindE_eq_Inr
        split: option.splits sum.splits prod.splits)
qed

text \<open>
  Recovery. The rows read at the start are updated one by one; as identifiers are unique, the
  loop amounts to one update of all expired leases.
\<close>

definition recover_update :: "time \<Rightarrow> int \<Rightarrow> job_row \<Rightarrow> job_row" where
  "recover_update now limit r =
     recover_row (recovery_of limit r) r (no_earlier_than now (rq_submitted_at (jb_request r))) r"

lemma recover_row_sel [simp]:
  "jb_job_id (recover_row k row t r) = jb_job_id r"
  "jb_request (recover_row k row t r) = jb_request r"
  "jb_revision (recover_row k row t r) = jb_revision row + 1"
  "jr_lease_token (recover_row k row t r) = None"
  "jr_lease_expires_at (recover_row k row t r) = None"
  "jr_worker_id (recover_row k row t r) = None"
  "jr_attempt_count (recover_row k row t r) = jr_attempt_count r"
  "jr_request_fingerprint (recover_row k row t r) = jr_request_fingerprint r"
  "jb_cancellation_requested (recover_row k row t r) = jb_cancellation_requested r"
  by (cases k; simp add: recover_row_def clear_lease_def)+

lemma recover_row_state:
  "jb_state (recover_row k row t r) =
     (case k of Recover_Cancelled \<Rightarrow> JOB_CANCELLED | Recover_Failed \<Rightarrow> JOB_FAILED
      | Recover_Requeued \<Rightarrow> JOB_QUEUED)"
  by (cases k) (simp_all add: recover_row_def clear_lease_def)

text \<open>One round of the loop treats its row, and only that row.\<close>

lemma recover_one_row:
  assumes "distinct (map jb_job_id jobs)" "row \<in> set jobs" "jb_state row = JOB_RUNNING"
    "jr_lease_token row \<noteq> None"
  shows "recover_one now limit row (jobs, s) =
    (map (\<lambda>r. if r = row then recover_update now limit r else r) jobs,
     count_recovery (recovery_of limit row) 1 s)"
proof -
  have hit: "token_cas row r \<longleftrightarrow> r = row" if "r \<in> set jobs" for r
    using that assms key_unique [OF assms(1)] by (auto simp: token_cas_def cas_def)
  have "filter (token_cas row) jobs = filter (\<lambda>r. r = row) jobs"
    using hit by (rule filter_cong [OF refl])
  moreover have "distinct jobs"
    using assms(1) by (simp add: distinct_map)
  ultimately have "sql_rowcount (token_cas row) jobs = 1"
    using assms(2) by (simp add: sql_rowcount_def distinct_length_filter Collect_conv_if Int_def)
  moreover have "sql_update (token_cas row) (recover_row (recovery_of limit row) row
      (no_earlier_than now (rq_submitted_at (jb_request row)))) jobs
    = map (\<lambda>r. if r = row then recover_update now limit r else r) jobs"
    using hit by (auto simp: sql_update_def recover_update_def)
  ultimately show ?thesis
    by (simp add: recover_one_def Let_def)
qed

text \<open>The loop over the rows still to treat, on a table where the others are treated already.\<close>

definition summary_of :: "int \<Rightarrow> job_row list \<Rightarrow> recovery_summary \<Rightarrow> recovery_summary" where
  "summary_of limit rows s = fold (\<lambda>r. count_recovery (recovery_of limit r) 1) rows s"

lemma recover_fold:
  assumes "distinct (map jb_job_id jobs)" "set rows \<subseteq> set jobs" "distinct rows"
    and "\<And>r. r \<in> set rows \<Longrightarrow> jb_state r = JOB_RUNNING \<and> jr_lease_token r \<noteq> None"
  shows "fold (recover_one now limit) rows (jobs, s)
       = (sql_update (\<lambda>r. r \<in> set rows) (recover_update now limit) jobs, summary_of limit rows s)"
  using assms
proof (induction rows arbitrary: jobs s)
  case Nil
  then show ?case by (simp add: sql_update_def summary_of_def)
next
  case (Cons row rows)
  let ?jobs = "map (\<lambda>r. if r = row then recover_update now limit r else r) jobs"
  have "fold (recover_one now limit) (row # rows) (jobs, s)
      = fold (recover_one now limit) rows (?jobs, count_recovery (recovery_of limit row) 1 s)"
    using Cons.prems by (simp add: recover_one_row)
  also have "\<dots> = (sql_update (\<lambda>r. r \<in> set rows) (recover_update now limit) ?jobs,
      summary_of limit rows (count_recovery (recovery_of limit row) 1 s))"
  proof (rule Cons.IH)
    have "map jb_job_id ?jobs = map jb_job_id jobs"
      by (simp add: recover_update_def)
    then show "distinct (map jb_job_id ?jobs)"
      using Cons.prems(1) by (simp only:)
    show "set rows \<subseteq> set ?jobs"
      using Cons.prems(2,3) by auto
  qed (use Cons.prems in auto)
  also have "sql_update (\<lambda>r. r \<in> set rows) (recover_update now limit) ?jobs
      = sql_update (\<lambda>r. r \<in> set (row # rows)) (recover_update now limit) jobs"
  proof -
    have "recover_update now limit row \<notin> set rows"
      using Cons.prems(4) [of "recover_update now limit row"] by (auto simp: recover_update_def)
    then show ?thesis
      using Cons.prems(3) by (auto simp: sql_update_def)
  qed
  finally show ?case by (simp add: summary_of_def)
qed

lemma summary_of_counts:
  "rs_requeued (summary_of limit rows s) = rs_requeued s + length (filter (\<lambda>r. recovery_of limit r = Recover_Requeued) rows)"
  "rs_cancelled (summary_of limit rows s) = rs_cancelled s + length (filter (\<lambda>r. recovery_of limit r = Recover_Cancelled) rows)"
  "rs_failed (summary_of limit rows s) = rs_failed s + length (filter (\<lambda>r. recovery_of limit r = Recover_Failed) rows)"
  by (induction rows arbitrary: s) (auto simp: summary_of_def count_recovery_def split: recovery.splits)

lemma recover_jobs:
  assumes "db_inv E db" "check_maximum_attempts m = Inr limit"
  shows "recover_expired_leases now m db
       = (Inr (summary_of limit (sql_order expired_key (filter (lease_expired now) (scan_jobs db)))
            \<lparr>rs_requeued = 0, rs_cancelled = 0, rs_failed = 0\<rparr>),
          update_jobs (lease_expired now) (recover_update now limit) db)"
proof -
  let ?rows = "sql_order expired_key (filter (lease_expired now) (scan_jobs db))"
  let ?s = "\<lparr>rs_requeued = 0, rs_cancelled = 0, rs_failed = 0\<rparr>"
  have "fold (recover_one now limit) ?rows (scan_jobs db, ?s)
      = (sql_update (\<lambda>r. r \<in> set ?rows) (recover_update now limit) (scan_jobs db), summary_of limit ?rows ?s)"
  proof (rule recover_fold)
    show d: "distinct (map jb_job_id (scan_jobs db))"
      by (rule db_inv_distinct [OF assms(1)])
    show "distinct ?rows"
      using d by (simp add: sql_order_def distinct_map)
    show "jb_state r = JOB_RUNNING \<and> jr_lease_token r \<noteq> None" if "r \<in> set ?rows" for r
      using that db_inv_row_ok [OF assms(1), of r]
      by (auto simp: lease_expired_def row_ok_def lease_wf_def split: option.splits)
  qed auto
  moreover have "sql_update (\<lambda>r. r \<in> set ?rows) (recover_update now limit) (scan_jobs db)
      = sql_update (lease_expired now) (recover_update now limit) (scan_jobs db)"
    by (simp add: sql_update_def cong: map_cong)
  ultimately show ?thesis
    using assms(2) by (simp add: recover_expired_leases_def update_jobs_def Let_def)
qed

lemma recover_good_update:
  assumes inv: "db_inv E db"
  shows "good_update E (lease_expired now) (recover_update now limit) db"
  unfolding good_update_def
proof (intro ballI impI conjI)
  fix r assume r: "r \<in> set (scan_jobs db)" "lease_expired now r"
  then have ok: "row_ok E r" and run: "jb_state r = JOB_RUNNING"
    using db_inv_row_ok [OF inv] by (auto simp: lease_expired_def)
  show "row_step r (recover_update now limit r)"
    using run by (auto simp: row_step_def recover_update_def recover_row_state lifecycle_simps
        is_terminal_def split: recovery.splits)
  show "row_ok E (recover_update now limit r)"
    unfolding recover_update_def
  proof (rule row_ok_recover [OF ok run row_ok_revision [OF ok]])
    fix s assume "jb_started_at r = Some s"
    then show "s \<le> no_earlier_than now (rq_submitted_at (jb_request r))"
      using ok r(2) by (fastforce simp: row_ok_def lease_wf_def lease_expired_def no_earlier_than_max
          split: option.splits)
  qed
qed

lemma recover_effect:
  assumes "db_inv E db"
  shows "effect E db (snd (recover_expired_leases now m db))"
proof (cases "check_maximum_attempts m")
  case (Inl e)
  then show ?thesis by (simp add: recover_expired_leases_def effect.unchanged)
next
  case (Inr limit)
  have "effect E db (update_jobs (lease_expired now) (recover_update now limit) db)"
    by (intro effect_update recover_good_update [OF assms]) (auto simp: keeps_running_def lease_expired_def)
  then show ?thesis
    by (simp add: recover_jobs [OF assms Inr])
qed

text \<open>Cancellation; the request's clock reading is not behind the submission of the job.\<close>

definition clock_after_submit :: "string \<Rightarrow> time \<Rightarrow> job_db \<Rightarrow> bool" where
  "clock_after_submit job_id now db \<longleftrightarrow>
     (case fetch_job job_id db of None \<Rightarrow> True | Some r \<Rightarrow> rq_submitted_at (jb_request r) \<le> now)"

lemma cancel_effect:
  assumes inv: "db_inv E db" and clock: "clock_after_submit i now db"
    and row: "fetch_job i db = Some row" and rec: "record_from_row E row = Inr rec"
    and nt: "\<not> is_terminal (jb_state rec)"
  shows "effect E db (update_jobs (\<lambda>r. jb_job_id r = i \<and> jb_revision r = jb_revision rec)
           (if jb_state rec = JOB_QUEUED then cancel_queued_row rec now else cancel_request_row rec now) db)"
    (is "effect E db (update_jobs ?P ?f db)")
proof -
  have mem: "row \<in> set (scan_jobs db)" "jb_job_id row = i"
    using fetch_job_SomeD [OF row] by auto
  then have ok: "row_ok E row"
    using db_inv_row_ok [OF inv] by blast
  note same = record_from_row_fields [OF rec]
  have sub: "rq_submitted_at (jb_request row) \<le> now"
    using clock row by (simp add: clock_after_submit_def)
  have "jb_state row = JOB_QUEUED \<or> jb_state row = JOB_RUNNING"
    using nt same(2) by (cases "jb_state row") (auto simp: is_terminal_def)
  then have f: "row_step row (?f row)" "row_ok E (?f row)"
    "jb_state (?f row) = JOB_RUNNING \<Longrightarrow> jb_state row = JOB_RUNNING"
    using ok sub same row_ok_revision [OF ok]
    by (auto simp: row_step_def lifecycle_simps is_terminal_def row_ok_cancel_queued row_ok_cancel_request)
      (auto simp: cancel_queued_row_def cancel_request_row_def)
  show ?thesis
  proof (rule effect_update)
    show "good_update E ?P ?f db"
      using inv mem f by (intro good_update_single) auto
    show "keeps_running ?P ?f db"
      using db_inv_id_unique [OF inv _ mem(1)] mem(2) f(3) unfolding keeps_running_def by metis
  qed
qed

lemma request_cancellation_effect:
  assumes "db_inv E db" "clock_after_submit i now db"
  shows "effect E db (snd (request_cancellation E i now db))"
proof (cases "fetch_job i db")
  case (Some row)
  show ?thesis
  proof (cases "record_from_row E row")
    case (Inr rec)
    then show ?thesis
      using cancel_effect [OF assms Some Inr] Some
      by (cases "is_terminal (jb_state rec)")
        (simp_all add: request_cancellation_def Let_def effect.unchanged snd_read_back del: if_split)
  qed (simp add: request_cancellation_def Some effect.unchanged)
qed (simp add: request_cancellation_def effect.unchanged)

lemma request_cancellation_scoped_effect:
  assumes "db_inv E db" "clock_after_submit i now db"
  shows "effect E db (snd (request_cancellation_scoped E i org now db))"
  using request_cancellation_effect [OF assms]
  by (simp add: request_cancellation_scoped_def effect.unchanged split: sum.split)

text \<open>Terminal transitions.\<close>

lemma terminal_row_sel [simp]:
  "jb_job_id (terminal_row rec out t r) = jb_job_id r"
  "jb_request (terminal_row rec out t r) = jb_request r"
  "jb_state (terminal_row rec out t r) = oc_state out"
  "jb_revision (terminal_row rec out t r) = jb_revision rec + 1"
  "jr_attempt_count (terminal_row rec out t r) = jr_attempt_count r"
  "jr_request_fingerprint (terminal_row rec out t r) = jr_request_fingerprint r"
  "jb_cancellation_requested (terminal_row rec out t r) = jb_cancellation_requested r"
  by (simp_all add: terminal_row_def clear_lease_def)

lemma terminal_cas_id: "terminal_cas rec w tok r \<Longrightarrow> jb_job_id r = jb_job_id rec"
  by (simp add: terminal_cas_def)

lemma add_receipt_rows:
  obtains rc where "add_receipt i out t db = db\<lparr>job_safety_receipts := job_safety_receipts db @ rc\<rparr>"
    "fst ` set rc \<subseteq> {i}"
proof (cases "\<exists>ref sha. oc_receipt_ref out = Some ref \<and> oc_receipt_sha256 out = Some sha")
  case True
  then obtain ref sha where "oc_receipt_ref out = Some ref" "oc_receipt_sha256 out = Some sha"
    by blast
  then show thesis
    using that [of "[(i, ref, sha, t)]"] by (simp add: add_receipt_def)
next
  case False
  then show thesis
    using that [of "[]"] by (auto simp: add_receipt_def split: option.splits)
qed

lemma terminal_effect:
  assumes inv: "db_inv E db" and row: "fetch_job i db = Some row" and rec: "record_from_row E row = Inr rec"
    and run: "jb_state rec = JOB_RUNNING" and out: "outcome_wf out" "outcome_shape out"
  shows "effect E db (add_receipt i out (terminal_timestamp rec now)
           (update_jobs (terminal_cas rec w tok) (terminal_row rec out (terminal_timestamp rec now)) db))"
    (is "effect E db (add_receipt i out ?t (update_jobs ?P ?f db))")
proof -
  have mem: "row \<in> set (scan_jobs db)" "jb_job_id row = i"
    using fetch_job_SomeD [OF row] by auto
  then have ok: "row_ok E row"
    using db_inv_row_ok [OF inv] by blast
  note same = record_from_row_fields [OF rec]
  have "row_ok E (?f row)"
    using ok run same out
    by (intro row_ok_terminal) (auto simp: row_ok_revision terminal_timestamp_def no_earlier_than_max)
  moreover have "row_step row (?f row)"
    using run same outcome_shape_terminal [OF out(2)]
    by (auto simp: row_step_def intro: lifecycle.finished)
  ultimately have good: "good_update E ?P ?f db"
    using inv mem same(1) by (intro good_update_single) (auto dest: terminal_cas_id)
  obtain rc where "add_receipt i out ?t (update_jobs ?P ?f db)
      = (update_jobs ?P ?f db)\<lparr>job_safety_receipts := job_safety_receipts db @ rc\<rparr>" "fst ` set rc \<subseteq> {i}"
    by (rule add_receipt_rows [of i out ?t "update_jobs ?P ?f db"]) simp
  moreover have "i \<in> job_ids db"
    using mem by (auto simp: job_ids_def)
  moreover have "keeps_running ?P ?f db"
    by (auto simp: keeps_running_def terminal_cas_def)
  ultimately show ?thesis
    using effect.updated [OF good, of rc] by auto
qed

lemma terminal_update_effect:
  assumes "db_inv E db" "outcome_wf out" "outcome_shape out"
  shows "effect E db (snd (terminal_update E i w tok out now db))"
proof -
  have "effect E db (snd (terminal_write E i w' tok out now row rec db))"
    if "fetch_job i db = Some row" "record_from_row E row = Inr rec" "jb_state rec = JOB_RUNNING" for w' row rec
    using terminal_effect [OF assms(1) that assms(2,3)]
    by (auto simp: terminal_write_def Let_def effect.unchanged snd_read_back split: sum.split)
  then show ?thesis
    by (auto simp: terminal_update_def effect.unchanged split: option.split sum.split)
qed

end
