(* ===== verification/Permit_Store.thy ===== *)
theory Permit_Store
  imports Job_Store
begin

text \<open>
  The permit tables of \<^verbatim>\<open>ScanJobStore\<close>: persisting a signed permit, reading it back,
  revoking it, and the bindings of jobs and schedules to permits. The document column holds the
  permit itself: the JSON text is \<^verbatim>\<open>to_json()\<close> of it, and reading it runs the
  constructors of the contract again.
\<close>

section \<open>Definitions\<close>

text \<open>
  \<^verbatim>\<open>load_signed_trustscan_permit_json\<close> on the document that \<^verbatim>\<open>to_json\<close> wrote for
  \<open>doc\<close>: the recorded digest is the digest of \<open>doc\<close>.
\<close>

definition load_signed_permit :: "py_env \<Rightarrow> signed_permit \<Rightarrow> signed_permit result" where
  "load_signed_permit E doc =
     bindE (TrustScanPermitClaims_post_init E (sp_claims doc)) (\<lambda>claims.
     bindE (SignedTrustScanPermit_post_init (doc\<lparr>sp_claims := claims\<rparr>)) (\<lambda>value.
     bindE (permit_digest (permit_fingerprint E (sp_claims doc))) (\<lambda>supplied.
       raise_if (supplied \<noteq> permit_fingerprint E (sp_claims value))
         (pv_error ''trustscan_permit_fingerprint_mismatch'')
       (raise_if (permit_claims_to_dict (sp_claims value) \<noteq> permit_claims_to_dict (sp_claims doc))
         (pv_error ''trustscan_permit_non_canonical'')
       (Inr value)))))"

definition permit_from_row :: "py_env \<Rightarrow> permit_row \<Rightarrow> persisted_permit result" where
  "permit_from_row E row =
     (case load_signed_permit E (pr_document row) of
        Inl _ \<Rightarrow> Inl (store_error ''trustscan_permit_document_invalid'')
      | Inr permit \<Rightarrow>
          Inr \<lparr>pp_permit = permit, pp_revoked_at = pr_revoked_at row, pp_revoked_by = pr_revoked_by row\<rparr>)"

definition new_permit_row :: "py_env \<Rightarrow> signed_permit \<Rightarrow> permit_row" where
  "new_permit_row E permit =
     (let claims = sp_claims permit in
      \<lparr>pr_permit_id = pc_permit_id claims, pr_organization_id = pc_organization_id claims,
       pr_authorization_id = pc_authorization_id claims,
       pr_authorization_sha256 = pc_authorization_sha256 claims, pr_target = pc_target claims,
       pr_issued_by = pc_issued_by claims, pr_issued_at = pc_issued_at claims,
       pr_not_before = pc_not_before claims, pr_expires_at = pc_expires_at claims,
       pr_permit_sha256 = permit_fingerprint E claims, pr_signing_key_id = sp_signing_key_id permit,
       pr_document = permit, pr_revoked_at = None, pr_revoked_by = None\<rparr>)"

text \<open>\<^verbatim>\<open>permit_id\<close> is the primary key and \<^verbatim>\<open>permit_sha256\<close> is unique.\<close>

definition create_scan_permit :: "py_env \<Rightarrow> signed_permit \<Rightarrow> persisted_permit dbop" where
  "create_scan_permit E permit db =
     (let row = new_permit_row E permit;
          db' = db\<lparr>scan_permits := scan_permits db @ [row]\<rparr>
      in if list_ex (\<lambda>p. pr_permit_id p = pr_permit_id row \<or> pr_permit_sha256 p = pr_permit_sha256 row)
              (scan_permits db)
         then (Inl (store_error ''trustscan_permit_conflict''), db)
         else (case fetch_permit (pr_permit_id row) db' of
                 None \<Rightarrow> (Inl ValueError, db')
               | Some stored \<Rightarrow> (permit_from_row E stored, db')))"

definition get_scan_permit :: "py_env \<Rightarrow> string \<Rightarrow> job_db \<Rightarrow> persisted_permit result" where
  "get_scan_permit E permit_id db =
     (case fetch_permit permit_id db of
        None \<Rightarrow> Inl (store_error ''trustscan_permit_not_found'')
      | Some row \<Rightarrow> permit_from_row E row)"

definition get_scan_permit_scoped :: "py_env \<Rightarrow> string \<Rightarrow> string \<Rightarrow> job_db \<Rightarrow> persisted_permit result" where
  "get_scan_permit_scoped E permit_id organization_id db =
     (case sql_find (\<lambda>p. pr_permit_id p = permit_id \<and> pr_organization_id p = organization_id)
             (scan_permits db) of
        None \<Rightarrow> Inl (store_error ''trustscan_permit_not_found'')
      | Some row \<Rightarrow> permit_from_row E row)"

definition revoke_scan_permit_scoped ::
  "py_env \<Rightarrow> string \<Rightarrow> string \<Rightarrow> string \<Rightarrow> time \<Rightarrow> persisted_permit dbop" where
  "revoke_scan_permit_scoped E permit_id organization_id revoked_by now db =
     (case sql_find (\<lambda>p. pr_permit_id p = permit_id \<and> pr_organization_id p = organization_id)
             (scan_permits db) of
        None \<Rightarrow> (Inl (store_error ''trustscan_permit_not_found''), db)
      | Some row \<Rightarrow>
          (let db' =
             (if pr_revoked_at row = None
              then db\<lparr>scan_permits :=
                sql_update (\<lambda>p. pr_permit_id p = permit_id \<and> pr_organization_id p = organization_id
                                \<and> pr_revoked_at p = None)
                  (\<lambda>p. p\<lparr>pr_revoked_at := Some now, pr_revoked_by := Some revoked_by\<rparr>) (scan_permits db)\<rparr>
              else db)
           in (case fetch_permit permit_id db' of
                 None \<Rightarrow> (Inl ValueError, db')
               | Some updated \<Rightarrow> (permit_from_row E updated, db'))))"

text \<open>Bindings.\<close>

definition get_job_permit_binding :: "string \<Rightarrow> job_db \<Rightarrow> (string \<times> string) option" where
  "get_job_permit_binding job_id db = job_permit_of db job_id"

definition get_job_permit_binding_scoped :: "string \<Rightarrow> string \<Rightarrow> job_db \<Rightarrow> (string \<times> string) option" where
  "get_job_permit_binding_scoped job_id organization_id db =
     (if map_option fst (job_scope_of db job_id) = Some organization_id
      then job_permit_of db job_id else None)"

definition get_job_safety_receipt_scoped :: "string \<Rightarrow> string \<Rightarrow> job_db \<Rightarrow> (string \<times> string) option" where
  "get_job_safety_receipt_scoped job_id organization_id db =
     (if map_option fst (job_scope_of db job_id) = Some organization_id
      then map_option (\<lambda>(ref, sha, _). (ref, sha)) (keyed job_id (job_safety_receipts db)) else None)"

definition fetch_schedule :: "string \<Rightarrow> job_db \<Rightarrow> schedule_record option" where
  "fetch_schedule schedule_id db = sql_find (\<lambda>s. sc_schedule_id s = schedule_id) (scan_schedules db)"

definition get_schedule_permit_binding :: "string \<Rightarrow> job_db \<Rightarrow> (string \<times> string) option" where
  "get_schedule_permit_binding schedule_id db = keyed schedule_id (schedule_permits db)"

definition get_schedule_permit_binding_scoped ::
  "string \<Rightarrow> string \<Rightarrow> job_db \<Rightarrow> (string \<times> string) option" where
  "get_schedule_permit_binding_scoped schedule_id organization_id db =
     (if map_option sc_organization_id (fetch_schedule schedule_id db) = Some organization_id
      then keyed schedule_id (schedule_permits db) else None)"

section \<open>Revocation is permanent\<close>

text \<open>
  The permit table evolves by adding rows and by marking a live permit as revoked; nothing else of
  a row ever changes.
\<close>

definition permit_step :: "permit_row \<Rightarrow> permit_row \<Rightarrow> bool" where
  "permit_step p p' \<longleftrightarrow>
     p' = p \<or> pr_revoked_at p = None \<and>
       (\<exists>t by. p' = p\<lparr>pr_revoked_at := Some t, pr_revoked_by := Some by\<rparr>)"

definition permits_evolve :: "permit_row list \<Rightarrow> permit_row list \<Rightarrow> bool" where
  "permits_evolve old new \<longleftrightarrow> (\<exists>mid tail. new = mid @ tail \<and> list_all2 permit_step old mid)"

lemma permit_step_refl [simp]: "permit_step p p"
  by (simp add: permit_step_def)

lemma permits_evolve_refl [simp]: "permits_evolve ps ps"
  unfolding permits_evolve_def by (intro exI [of _ ps] exI [of _ "[]"]) (simp add: list_all2_refl)

lemma permits_evolve_append: "permits_evolve ps (ps @ qs)"
  unfolding permits_evolve_def by (intro exI [of _ ps] exI [of _ qs]) (simp add: list_all2_refl)

lemma permits_evolve_update:
  assumes "\<And>p. p \<in> set ps \<Longrightarrow> P p \<Longrightarrow> permit_step p (f p)"
  shows "permits_evolve ps (sql_update P f ps)"
proof -
  have "list_all2 permit_step ps (sql_update P f ps)"
    using assms by (auto simp: sql_update_def list_all2_conv_all_nth)
  then show ?thesis
    unfolding permits_evolve_def by (intro exI [of _ "sql_update P f ps"] exI [of _ "[]"]) simp
qed

definition permits_inv :: "job_db \<Rightarrow> bool" where
  "permits_inv db \<longleftrightarrow> distinct (map pr_permit_id (scan_permits db))"

text \<open>What the permit operations leave alone.\<close>

definition same_jobs :: "job_db \<Rightarrow> job_db \<Rightarrow> bool" where
  "same_jobs db db' \<longleftrightarrow>
     scan_jobs db' = scan_jobs db \<and> job_scopes db' = job_scopes db \<and> job_permits db' = job_permits db
     \<and> job_safety_receipts db' = job_safety_receipts db"

lemma same_jobs_refl [simp]: "same_jobs db db"
  by (simp add: same_jobs_def)

lemma create_scan_permit_frame:
  "same_jobs db (snd (create_scan_permit E permit db))
   \<and> permits_evolve (scan_permits db) (scan_permits (snd (create_scan_permit E permit db)))"
  by (simp add: create_scan_permit_def Let_def same_jobs_def permits_evolve_append split: option.split)

lemma revoke_scan_permit_frame:
  "same_jobs db (snd (revoke_scan_permit_scoped E pid org by now db))
   \<and> permits_evolve (scan_permits db) (scan_permits (snd (revoke_scan_permit_scoped E pid org by now db)))"
proof -
  have "permits_evolve (scan_permits db)
      (sql_update (\<lambda>p. pr_permit_id p = pid \<and> pr_organization_id p = org \<and> pr_revoked_at p = None)
        (\<lambda>p. p\<lparr>pr_revoked_at := Some now, pr_revoked_by := Some by\<rparr>) (scan_permits db))"
    by (rule permits_evolve_update) (auto simp: permit_step_def)
  then show ?thesis
    by (simp add: revoke_scan_permit_scoped_def Let_def same_jobs_def split: option.split)
qed

lemma create_scan_permit_inv: "permits_inv db \<Longrightarrow> permits_inv (snd (create_scan_permit E permit db))"
  by (auto simp: create_scan_permit_def Let_def permits_inv_def list_ex_iff split: option.split)

lemma revoke_scan_permit_inv: "permits_inv db \<Longrightarrow> permits_inv (snd (revoke_scan_permit_scoped E pid org by now db))"
  by (simp add: revoke_scan_permit_scoped_def Let_def permits_inv_def map_sql_update split: option.split)

end
