(* ===== verification/Schedule_Store.thy ===== *)
theory Schedule_Store
  imports Job_Ops Permit_Store
begin

text \<open>
  Recurring schedules in \<^verbatim>\<open>ScanJobStore\<close> (\<^verbatim>\<open>webguard_api/store.py\<close>): creating,
  listing, pausing and resuming them, and the transaction that turns a due schedule into a queued
  job and advances it.
\<close>

section \<open>Definitions\<close>

definition schedule_from_row :: "py_env \<Rightarrow> schedule_record \<Rightarrow> schedule_record result" where
  "schedule_from_row E row = ScanScheduleRecord_post_init E row"

definition fresh_schedule ::
  "string \<Rightarrow> string \<Rightarrow> string \<Rightarrow> string \<Rightarrow> string \<Rightarrow> string \<Rightarrow> string \<Rightarrow> scan_job_mode \<Rightarrow> int
   \<Rightarrow> time \<Rightarrow> time \<Rightarrow> schedule_record" where
  "fresh_schedule schedule_id organization_id created_by name target authorization_id
     authorization_sha256 mode interval_seconds starts_at now =
     \<lparr>sc_schedule_id = schedule_id, sc_organization_id = organization_id, sc_created_by = created_by,
      sc_name = name, sc_target = target, sc_authorization_id = authorization_id,
      sc_authorization_sha256 = authorization_sha256, sc_mode = mode,
      sc_interval_seconds = interval_seconds, sc_state = SCHEDULE_ACTIVE, sc_created_at = now,
      sc_updated_at = now, sc_next_run_at = starts_at, sc_revision = 0, sc_last_enqueued_at = None,
      sc_last_job_id = None, sc_last_error_code = None, sc_last_error_at = None\<rparr>"

text \<open>The insertion of a validated record, with the binding to its permit.\<close>

definition insert_schedule ::
  "schedule_record \<Rightarrow> string option \<Rightarrow> string option \<Rightarrow> string \<Rightarrow> schedule_record dbop" where
  "insert_schedule record permit_id permit_sha256 organization_id db =
     (if fetch_schedule (sc_schedule_id record) db \<noteq> None
      then (Inl (store_error ''schedule_conflict''), db)
      else if \<not> permit_bindable db (Some organization_id) permit_id permit_sha256
      then (Inl (store_error ''trustscan_permit_not_found''), db)
      else if permit_id \<noteq> None \<and> keyed (sc_schedule_id record) (schedule_permits db) \<noteq> None
      then (Inl (store_error ''schedule_conflict''), db)
      else (Inr record,
            db\<lparr>scan_schedules := scan_schedules db @ [record],
               schedule_permits := schedule_permits db
                 @ map (\<lambda>(p, s). (sc_schedule_id record, p, s)) (option_pair permit_id permit_sha256)\<rparr>))"

definition create_schedule ::
  "py_env \<Rightarrow> string \<Rightarrow> string \<Rightarrow> string \<Rightarrow> string \<Rightarrow> string \<Rightarrow> string \<Rightarrow> scan_job_mode \<Rightarrow> int
   \<Rightarrow> time \<Rightarrow> time \<Rightarrow> string \<Rightarrow> string option \<Rightarrow> string option \<Rightarrow> schedule_record dbop" where
  "create_schedule E organization_id created_by name target authorization_id authorization_sha256
     mode interval_seconds starts_at now schedule_id permit_id permit_sha256 db =
     (if (permit_id = None) \<noteq> (permit_sha256 = None)
      then (Inl (store_error ''trustscan_schedule_binding_invalid''), db)
      else
        (case ScanScheduleRecord_post_init E
                (fresh_schedule schedule_id organization_id created_by name target authorization_id
                   authorization_sha256 mode interval_seconds starts_at now) of
           Inl e \<Rightarrow> (Inl e, db)
         | Inr record \<Rightarrow> insert_schedule record permit_id permit_sha256 organization_id db))"

definition fetch_schedule_scoped :: "string \<Rightarrow> string \<Rightarrow> job_db \<Rightarrow> schedule_record option" where
  "fetch_schedule_scoped schedule_id organization_id db =
     sql_find (\<lambda>s. sc_schedule_id s = schedule_id \<and> sc_organization_id s = organization_id)
       (scan_schedules db)"

definition get_schedule_scoped :: "py_env \<Rightarrow> string \<Rightarrow> string \<Rightarrow> job_db \<Rightarrow> schedule_record result" where
  "get_schedule_scoped E schedule_id organization_id db =
     (case fetch_schedule_scoped schedule_id organization_id db of
        None \<Rightarrow> Inl (store_error ''schedule_not_found'')
      | Some row \<Rightarrow> schedule_from_row E row)"

definition schedule_feed_key :: "schedule_record \<Rightarrow> time \<times> string" where
  "schedule_feed_key s = (sc_created_at s, sc_schedule_id s)"

definition schedule_feed_filter ::
  "string \<Rightarrow> (time \<times> string) option \<Rightarrow> scan_schedule_state option \<Rightarrow> string option
   \<Rightarrow> schedule_record \<Rightarrow> bool" where
  "schedule_feed_filter organization_id after state target s \<longleftrightarrow>
     sc_organization_id s = organization_id
     \<and> (case state of None \<Rightarrow> True | Some x \<Rightarrow> sc_state s = x)
     \<and> (case target of None \<Rightarrow> True | Some t \<Rightarrow> sc_target s = t)
     \<and> (case after of None \<Rightarrow> True
        | Some (t, i) \<Rightarrow> sc_created_at s < t \<or> sc_created_at s = t \<and> sc_schedule_id s < i)"

definition list_schedules_scoped_page ::
  "py_env \<Rightarrow> string \<Rightarrow> int \<Rightarrow> (time \<times> string) option \<Rightarrow> scan_schedule_state option \<Rightarrow> string option
   \<Rightarrow> job_db \<Rightarrow> (schedule_record list \<times> bool) result" where
  "list_schedules_scoped_page E organization_id limit after state target db =
     raise_if (\<not> (1 \<le> limit \<and> limit \<le> 100)) (store_error ''schedule_list_limit_invalid'')
     (let rows = take (nat limit + 1)
            (rev (sql_order schedule_feed_key
              (filter (schedule_feed_filter organization_id after state target) (scan_schedules db))))
      in bindE (mapE (schedule_from_row E) (take (nat limit) rows))
           (\<lambda>records. Inr (records, int (length rows) > limit)))"

definition list_schedules_scoped ::
  "py_env \<Rightarrow> string \<Rightarrow> int \<Rightarrow> job_db \<Rightarrow> schedule_record list result" where
  "list_schedules_scoped E organization_id limit db =
     raise_if (\<not> (1 \<le> limit \<and> limit \<le> 1000)) (store_error ''schedule_list_limit_invalid'')
     (mapE (schedule_from_row E)
       (take (nat limit) (sql_order schedule_feed_key
         (filter (\<lambda>s. sc_organization_id s = organization_id) (scan_schedules db)))))"

definition update_schedules ::
  "(schedule_record \<Rightarrow> bool) \<Rightarrow> (schedule_record \<Rightarrow> schedule_record) \<Rightarrow> job_db \<Rightarrow> job_db" where
  "update_schedules P f db = db\<lparr>scan_schedules := sql_update P f (scan_schedules db)\<rparr>"

definition state_row ::
  "schedule_record \<Rightarrow> scan_schedule_state \<Rightarrow> time \<Rightarrow> time option \<Rightarrow> schedule_record \<Rightarrow> schedule_record" where
  "state_row row state now next_run_at s =
     s\<lparr>sc_state := state, sc_updated_at := now,
       sc_next_run_at := (case next_run_at of None \<Rightarrow> sc_next_run_at row | Some t \<Rightarrow> t),
       sc_revision := sc_revision row + 1, sc_last_error_code := None, sc_last_error_at := None\<rparr>"

definition set_schedule_state ::
  "py_env \<Rightarrow> string \<Rightarrow> string \<Rightarrow> scan_schedule_state \<Rightarrow> time \<Rightarrow> time option \<Rightarrow> schedule_record dbop" where
  "set_schedule_state E schedule_id organization_id state now next_run_at db =
     (case fetch_schedule_scoped schedule_id organization_id db of
        None \<Rightarrow> (Inl (store_error ''schedule_not_found''), db)
      | Some row \<Rightarrow>
          (let db' = update_schedules
                 (\<lambda>s. sc_schedule_id s = schedule_id \<and> sc_organization_id s = organization_id
                      \<and> sc_revision s = sc_revision row)
                 (state_row row state now next_run_at) db
           in case fetch_schedule schedule_id db' of
                None \<Rightarrow> (Inl ValueError, db')
              | Some updated \<Rightarrow> (schedule_from_row E updated, db')))"

definition pause_schedule_scoped :: "py_env \<Rightarrow> string \<Rightarrow> string \<Rightarrow> time \<Rightarrow> schedule_record dbop" where
  "pause_schedule_scoped E schedule_id organization_id now db =
     set_schedule_state E schedule_id organization_id SCHEDULE_PAUSED now None db"

definition resume_schedule_scoped :: "py_env \<Rightarrow> string \<Rightarrow> string \<Rightarrow> time \<Rightarrow> schedule_record dbop" where
  "resume_schedule_scoped E schedule_id organization_id now db =
     (case get_schedule_scoped E schedule_id organization_id db of
        Inl e \<Rightarrow> (Inl e, db)
      | Inr current \<Rightarrow>
          set_schedule_state E schedule_id organization_id SCHEDULE_ACTIVE now
            (Some (now + sc_interval_seconds current * microseconds)) db)"

definition due :: "time \<Rightarrow> schedule_record \<Rightarrow> bool" where
  "due now s \<longleftrightarrow> sc_state s = SCHEDULE_ACTIVE \<and> sc_next_run_at s \<le> now"

definition due_key :: "schedule_record \<Rightarrow> time \<times> string" where
  "due_key s = (sc_next_run_at s, sc_schedule_id s)"

definition list_due_schedules :: "py_env \<Rightarrow> time \<Rightarrow> int \<Rightarrow> job_db \<Rightarrow> schedule_record list result" where
  "list_due_schedules E now limit db =
     raise_if (\<not> (1 \<le> limit \<and> limit \<le> 1000)) (store_error ''schedule_batch_limit_invalid'')
     (mapE (schedule_from_row E)
       (take (nat limit) (sql_order due_key (filter (due now) (scan_schedules db)))))"

subsection \<open>Enqueueing a due schedule\<close>

definition scheduled_key :: "schedule_record \<Rightarrow> string" where
  "scheduled_key s = ''schedule:'' @ sc_schedule_id s @ '':'' @ timestamp_text (sc_next_run_at s)"

definition scheduled_request :: "schedule_record \<Rightarrow> string \<Rightarrow> time \<Rightarrow> scan_job_request" where
  "scheduled_request s authorization_sha256 now =
     \<lparr>rq_idempotency_key = scheduled_key s, rq_target = sc_target s,
      rq_authorization_id = sc_authorization_id s, rq_authorization_sha256 = authorization_sha256,
      rq_mode = sc_mode s, rq_submitted_at = now\<rparr>"

text \<open>The permit of the schedule: of the organization, with that digest, live.\<close>

definition schedule_permit_live :: "job_db \<Rightarrow> schedule_record \<Rightarrow> string \<Rightarrow> string \<Rightarrow> time \<Rightarrow> bool" where
  "schedule_permit_live db s permit_id permit_sha256 now =
     list_ex (\<lambda>p. pr_permit_id p = permit_id \<and> pr_organization_id p = sc_organization_id s
                  \<and> pr_permit_sha256 p = permit_sha256 \<and> pr_revoked_at p = None
                  \<and> pr_not_before p \<le> now \<and> now < pr_expires_at p) (scan_permits db)"

definition assigned :: "job_db \<Rightarrow> schedule_record \<Rightarrow> bool" where
  "assigned db s =
     (case organization_authorizations db of None \<Rightarrow> True
      | Some rows \<Rightarrow> (sc_organization_id s, sc_authorization_id s) \<in> set rows)"

definition advance_row ::
  "schedule_record \<Rightarrow> string \<Rightarrow> string \<Rightarrow> time \<Rightarrow> schedule_record \<Rightarrow> schedule_record" where
  "advance_row schedule authorization_sha256 job_id now s =
     s\<lparr>sc_authorization_sha256 := authorization_sha256, sc_updated_at := now,
       sc_next_run_at := next_schedule_time (sc_next_run_at schedule) (sc_interval_seconds schedule) now,
       sc_revision := sc_revision s + 1, sc_last_enqueued_at := Some now, sc_last_job_id := Some job_id,
       sc_last_error_code := None, sc_last_error_at := None\<rparr>"

text \<open>The insertions and the advance of the schedule, in one transaction.\<close>

definition enqueue_write ::
  "py_env \<Rightarrow> schedule_record \<Rightarrow> int \<Rightarrow> string \<Rightarrow> string \<Rightarrow> string \<Rightarrow> time \<Rightarrow> scan_job_record
   \<Rightarrow> (schedule_record \<times> scan_job_record) option dbop" where
  "enqueue_write E schedule expected_revision authorization_sha256 permit_id permit_sha256 now record db =
     (let P = (\<lambda>s. sc_schedule_id s = sc_schedule_id schedule \<and> sc_revision s = expected_revision
                   \<and> sc_state s = SCHEDULE_ACTIVE);
          db1 = insert_job E record (Some (sc_organization_id schedule)) (Some (sc_created_by schedule))
                  (Some permit_id) (Some permit_sha256) db;
          db2 = update_schedules P (advance_row schedule authorization_sha256 (jb_job_id record) now) db1
      in if fetch_job (jb_job_id record) db \<noteq> None
            \<or> sql_find (\<lambda>r. rq_idempotency_key (jb_request r) = rq_idempotency_key (jb_request record))
                (scan_jobs db) \<noteq> None
            \<or> job_scope_of db (jb_job_id record) \<noteq> None \<or> job_permit_of db (jb_job_id record) \<noteq> None
         then (Inl (store_error ''schedule_enqueue_conflict''), db)
         else if sql_rowcount P (scan_schedules db) \<noteq> 1 then (Inr None, db)
         else (case fetch_schedule (sc_schedule_id schedule) db2 of
                 None \<Rightarrow> (Inl ValueError, db2)
               | Some updated \<Rightarrow>
                   (bindE (schedule_from_row E updated) (\<lambda>s. Inr (Some (s, record))), db2)))"

definition enqueue_due_schedule ::
  "py_env \<Rightarrow> string \<Rightarrow> int \<Rightarrow> string \<Rightarrow> string \<Rightarrow> string \<Rightarrow> time \<Rightarrow> string
   \<Rightarrow> (schedule_record \<times> scan_job_record) option dbop" where
  "enqueue_due_schedule E schedule_id expected_revision authorization_sha256 permit_id permit_sha256
     now job_id db =
     (case fetch_schedule schedule_id db of
        None \<Rightarrow> (Inr None, db)
      | Some row \<Rightarrow>
       (case schedule_from_row E row of
          Inl e \<Rightarrow> (Inl e, db)
        | Inr schedule \<Rightarrow>
           if sc_state schedule \<noteq> SCHEDULE_ACTIVE \<or> sc_revision schedule \<noteq> expected_revision
              \<or> sc_next_run_at schedule > now
           then (Inr None, db)
           else if \<not> assigned db schedule then (Inr None, db)
           else if keyed (sc_schedule_id schedule) (schedule_permits db) \<noteq> Some (permit_id, permit_sha256)
           then (Inl (store_error ''trustscan_schedule_binding_changed''), db)
           else if \<not> schedule_permit_live db schedule permit_id permit_sha256 now then (Inr None, db)
           else (case bindE (ScanJobRequest_post_init E (scheduled_request schedule authorization_sha256 now))
                        (\<lambda>request. ScanJobRecord_post_init (fresh_record job_id request)) of
                   Inl e \<Rightarrow> (Inl e, db)
                 | Inr record \<Rightarrow>
                     enqueue_write E schedule expected_revision authorization_sha256 permit_id
                       permit_sha256 now record db)))"

definition block_row :: "string \<Rightarrow> time \<Rightarrow> schedule_record \<Rightarrow> schedule_record" where
  "block_row error_code now s =
     s\<lparr>sc_state := SCHEDULE_PAUSED, sc_updated_at := now, sc_revision := sc_revision s + 1,
       sc_last_error_code := Some error_code, sc_last_error_at := Some now\<rparr>"

definition block_due_schedule ::
  "py_env \<Rightarrow> string \<Rightarrow> int \<Rightarrow> string \<Rightarrow> time \<Rightarrow> schedule_record option dbop" where
  "block_due_schedule E schedule_id expected_revision error_code now db =
     (let P = (\<lambda>s. sc_schedule_id s = schedule_id \<and> sc_revision s = expected_revision
                   \<and> sc_state s = SCHEDULE_ACTIVE);
          db' = update_schedules P (block_row error_code now) db
      in if sql_rowcount P (scan_schedules db) \<noteq> 1 then (Inr None, db)
         else (case fetch_schedule schedule_id db' of
                 None \<Rightarrow> (Inl ValueError, db')
               | Some row \<Rightarrow> (bindE (schedule_from_row E row) (\<lambda>s. Inr (Some s)), db')))"

section \<open>Well-formed schedules\<close>

text \<open>A stored schedule reads back as itself.\<close>

definition schedule_ok :: "py_env \<Rightarrow> schedule_record \<Rightarrow> bool" where
  "schedule_ok E s \<longleftrightarrow> ScanScheduleRecord_post_init E s = Inr s"

definition stable_target :: "py_env \<Rightarrow> string \<Rightarrow> bool" where
  "stable_target E t \<longleftrightarrow>
     (case canonicalize_owned_target_url E t of Inl _ \<Rightarrow> True
      | Inr t' \<Rightarrow> canonicalize_owned_target_url E t' = Inr t')"

definition schedules_inv :: "py_env \<Rightarrow> job_db \<Rightarrow> bool" where
  "schedules_inv E db \<longleftrightarrow>
     distinct (map sc_schedule_id (scan_schedules db)) \<and> (\<forall>s \<in> set (scan_schedules db). schedule_ok E s)
     \<and> fst ` set (schedule_permits db) \<subseteq> sc_schedule_id ` set (scan_schedules db)"

lemma schedule_uuid_Inr [exn_simps]: "schedule_uuid v = Inr w \<longleftrightarrow> w = v \<and> uuid_shape v"
  by (simp add: schedule_uuid_def canonical_uuid_Inr)

lemma schedule_sha256_Inr [exn_simps]: "schedule_sha256 v = Inr w \<longleftrightarrow> w = v \<and> hex64 v"
  by (auto simp: schedule_sha256_def exn_simps)

lemma schedule_interval_Inr [exn_simps]:
  "schedule_interval v = Inr w \<longleftrightarrow> w = v \<and> MINIMUM_SCAN_SCHEDULE_INTERVAL_SECONDS \<le> v
     \<and> v \<le> MAXIMUM_SCAN_SCHEDULE_INTERVAL_SECONDS"
  by (auto simp: schedule_interval_def exn_simps)

lemma mapE_option_schedule_uuid:
  "mapE_option schedule_uuid v = Inr w \<longleftrightarrow> w = v \<and> (case v of None \<Rightarrow> True | Some x \<Rightarrow> uuid_shape x)"
  by (cases v) (auto simp: bindE_eq_Inr schedule_uuid_Inr)

lemma schedule_target_Inr [exn_simps]:
  "schedule_target E v = Inr w \<longleftrightarrow> canonicalize_owned_target_url E v = Inr w"
  by (auto simp: schedule_target_def split: sum.splits exn.splits)

text \<open>The checks of \<open>ScanScheduleRecord_post_init\<close> that leave their value as it is.\<close>

definition schedule_checks :: "schedule_record \<Rightarrow> bool" where
  "schedule_checks s \<longleftrightarrow>
     uuid_shape (sc_schedule_id s) \<and> uuid_shape (sc_organization_id s) \<and> uuid_shape (sc_created_by s)
     \<and> uuid_shape (sc_authorization_id s) \<and> hex64 (sc_authorization_sha256 s)
     \<and> MINIMUM_SCAN_SCHEDULE_INTERVAL_SECONDS \<le> sc_interval_seconds s
     \<and> sc_interval_seconds s \<le> MAXIMUM_SCAN_SCHEDULE_INTERVAL_SECONDS
     \<and> sc_created_at s \<le> sc_updated_at s \<and> 0 \<le> sc_revision s
     \<and> (case sc_last_job_id s of None \<Rightarrow> True | Some x \<Rightarrow> uuid_shape x)"

lemmas schedule_Inr =
  bindE_eq_Inr raise_if_eq_Inr schedule_uuid_Inr schedule_sha256_Inr schedule_interval_Inr
  mapE_option_schedule_uuid schedule_target_Inr

lemma ScanScheduleRecord_Inr:
  "ScanScheduleRecord_post_init E s = Inr s' \<longleftrightarrow>
     schedule_checks s \<and>
     (\<exists>n t ec. schedule_required_text 120 (sc_name s) = Inr n
        \<and> canonicalize_owned_target_url E (sc_target s) = Inr t
        \<and> schedule_error_code (sc_last_error_code s) = Inr ec
        \<and> (ec = None \<longleftrightarrow> sc_last_error_at s = None)
        \<and> s' = s\<lparr>sc_name := n, sc_target := t, sc_last_error_code := ec\<rparr>)"
  unfolding ScanScheduleRecord_post_init_def schedule_checks_def schedule_Inr by auto

lemma schedule_ok_iff:
  "schedule_ok E s \<longleftrightarrow>
     schedule_checks s \<and> schedule_required_text 120 (sc_name s) = Inr (sc_name s)
     \<and> canonicalize_owned_target_url E (sc_target s) = Inr (sc_target s)
     \<and> schedule_error_code (sc_last_error_code s) = Inr (sc_last_error_code s)
     \<and> (sc_last_error_code s = None \<longleftrightarrow> sc_last_error_at s = None)"
proof -
  have "s = s\<lparr>sc_name := n, sc_target := t, sc_last_error_code := ec\<rparr> \<longleftrightarrow>
      n = sc_name s \<and> t = sc_target s \<and> ec = sc_last_error_code s" for n t ec
    by (cases s) auto
  then show ?thesis
    by (auto simp: schedule_ok_def ScanScheduleRecord_Inr)
qed

lemma schedule_ok_post_init:
  assumes "ScanScheduleRecord_post_init E s = Inr s'" "stable_target E (sc_target s)"
  shows "schedule_ok E s'"
proof -
  obtain n t ec where n: "schedule_required_text 120 (sc_name s) = Inr n"
    and t: "canonicalize_owned_target_url E (sc_target s) = Inr t"
    and ec: "schedule_error_code (sc_last_error_code s) = Inr ec"
    and s': "schedule_checks s" "ec = None \<longleftrightarrow> sc_last_error_at s = None"
      "s' = s\<lparr>sc_name := n, sc_target := t, sc_last_error_code := ec\<rparr>"
    using assms(1) by (auto simp: ScanScheduleRecord_Inr)
  have "schedule_required_text 120 n = Inr n"
    using n unfolding schedule_required_text_def by (rule bounded_text_idem)
  moreover have "canonicalize_owned_target_url E t = Inr t"
    using assms(2) t by (simp add: stable_target_def)
  moreover have "schedule_error_code ec = Inr ec"
    using ec unfolding schedule_error_code_def by (rule mapE_option_idem [rotated]) (rule error_code_text_idem)
  ultimately show ?thesis
    using s' by (simp add: schedule_ok_iff schedule_checks_def)
qed

lemma schedule_from_row_ok: "schedule_ok E s \<Longrightarrow> schedule_from_row E s = Inr s"
  by (simp add: schedule_ok_def schedule_from_row_def)

section \<open>How schedules change\<close>

lemma fetch_schedule_SomeD:
  "fetch_schedule i db = Some s \<Longrightarrow> s \<in> set (scan_schedules db) \<and> sc_schedule_id s = i"
  unfolding fetch_schedule_def by (drule sql_find_Some) simp

lemma fetch_schedule_scoped_SomeD:
  "fetch_schedule_scoped i org db = Some s \<Longrightarrow>
     s \<in> set (scan_schedules db) \<and> sc_schedule_id s = i \<and> sc_organization_id s = org"
  unfolding fetch_schedule_scoped_def by (drule sql_find_Some) simp

lemma schedules_inv_fetch:
  assumes "schedules_inv E db"
  shows "fetch_schedule i db = Some s \<longleftrightarrow> s \<in> set (scan_schedules db) \<and> sc_schedule_id s = i"
  using assms unfolding fetch_schedule_def schedules_inv_def by (intro sql_find_key) blast

text \<open>A schedule keeps its identity; each change is one revision.\<close>

definition schedule_step :: "schedule_record \<Rightarrow> schedule_record \<Rightarrow> bool" where
  "schedule_step s s' \<longleftrightarrow>
     s' = s \<or>
     sc_schedule_id s' = sc_schedule_id s \<and> sc_organization_id s' = sc_organization_id s
     \<and> sc_created_by s' = sc_created_by s \<and> sc_name s' = sc_name s \<and> sc_target s' = sc_target s
     \<and> sc_authorization_id s' = sc_authorization_id s \<and> sc_mode s' = sc_mode s
     \<and> sc_interval_seconds s' = sc_interval_seconds s \<and> sc_created_at s' = sc_created_at s
     \<and> sc_revision s' = sc_revision s + 1"

definition schedules_evolve :: "job_db \<Rightarrow> job_db \<Rightarrow> bool" where
  "schedules_evolve db db' \<longleftrightarrow>
     (\<exists>mid tail. scan_schedules db' = mid @ tail \<and> list_all2 schedule_step (scan_schedules db) mid)"

lemma schedule_step_refl [simp]: "schedule_step s s"
  by (simp add: schedule_step_def)

lemma update_schedules_sel [simp]:
  "scan_schedules (update_schedules P f db) = sql_update P f (scan_schedules db)"
  "scan_jobs (update_schedules P f db) = scan_jobs db"
  "job_scopes (update_schedules P f db) = job_scopes db"
  "job_permits (update_schedules P f db) = job_permits db"
  "job_safety_receipts (update_schedules P f db) = job_safety_receipts db"
  "scan_permits (update_schedules P f db) = scan_permits db"
  "schedule_permits (update_schedules P f db) = schedule_permits db"
  by (simp_all add: update_schedules_def)

lemma same_jobs_update_schedules [simp]: "same_jobs db (update_schedules P f db)"
  by (simp add: same_jobs_def)

lemma schedules_update:
  assumes inv: "schedules_inv E db"
    and f: "\<And>s. s \<in> set (scan_schedules db) \<Longrightarrow> P s \<Longrightarrow> schedule_step s (f s) \<and> schedule_ok E (f s)"
  shows "schedules_inv E (update_schedules P f db)" "schedules_evolve db (update_schedules P f db)"
proof -
  have id: "sc_schedule_id (if P s then f s else s) = sc_schedule_id s" if "s \<in> set (scan_schedules db)" for s
    using f [OF that] by (auto simp: schedule_step_def)
  then have ids: "map sc_schedule_id (sql_update P f (scan_schedules db)) = map sc_schedule_id (scan_schedules db)"
    by (simp add: sql_update_def)
  have "schedule_ok E s" if "s \<in> set (sql_update P f (scan_schedules db))" for s
    using sql_update_cases [OF that] inv f by (auto simp: schedules_inv_def)
  moreover have "sc_schedule_id ` set (sql_update P f (scan_schedules db)) = sc_schedule_id ` set (scan_schedules db)"
    using arg_cong [OF ids, of set] by simp
  ultimately show "schedules_inv E (update_schedules P f db)"
    using inv ids by (auto simp: schedules_inv_def)
  have "list_all2 schedule_step (scan_schedules db) (sql_update P f (scan_schedules db))"
    using f by (auto simp: sql_update_def list_all2_conv_all_nth)
  then show "schedules_evolve db (update_schedules P f db)"
    unfolding schedules_evolve_def
    by (intro exI [of _ "sql_update P f (scan_schedules db)"] exI [of _ "[]"]) simp
qed

lemma schedules_evolve_same:
  "scan_schedules db' = scan_schedules db \<Longrightarrow> schedules_evolve db db'"
  unfolding schedules_evolve_def
  by (intro exI [of _ "scan_schedules db"] exI [of _ "[]"]) (simp add: list_all2_refl)

lemma schedules_inv_same:
  "scan_schedules db' = scan_schedules db \<Longrightarrow> schedule_permits db' = schedule_permits db \<Longrightarrow>
     schedules_inv E db' = schedules_inv E db"
  by (simp add: schedules_inv_def)

section \<open>The effect of an operation on the whole database\<close>

definition store_effect :: "py_env \<Rightarrow> job_db \<Rightarrow> job_db \<Rightarrow> bool" where
  "store_effect E db db' \<longleftrightarrow>
     (\<exists>db1. effect E db db1 \<and> same_jobs db1 db') \<and> schedules_evolve db db' \<and> schedules_inv E db'
     \<and> permits_evolve (scan_permits db) (scan_permits db') \<and> (permits_inv db \<longrightarrow> permits_inv db')"

lemma effect_frame:
  "effect E db db' \<Longrightarrow>
     scan_schedules db' = scan_schedules db \<and> schedule_permits db' = schedule_permits db
     \<and> scan_permits db' = scan_permits db"
  by (induction rule: effect.induct) (simp_all add: insert_job_def)

lemma store_effect_job:
  assumes "effect E db db'" "schedules_inv E db"
  shows "store_effect E db db'"
  unfolding store_effect_def
  using assms effect_frame [OF assms(1)] schedules_evolve_same [of db' db] schedules_inv_same [of db' db E]
  by (intro conjI exI [of _ db']) (simp_all add: permits_inv_def)

lemma store_effect_refl: "schedules_inv E db \<Longrightarrow> store_effect E db db"
  by (rule store_effect_job [OF effect.unchanged])

lemma store_effect_permits:
  assumes "same_jobs db db'" "permits_evolve (scan_permits db) (scan_permits db')" "schedules_inv E db"
    and "permits_inv db \<Longrightarrow> permits_inv db'"
    and "scan_schedules db' = scan_schedules db" "schedule_permits db' = schedule_permits db"
  shows "store_effect E db db'"
  unfolding store_effect_def
  using assms effect.unchanged schedules_evolve_same [of db' db] schedules_inv_same [of db' db E]
  by (intro conjI exI [of _ db]) simp_all

lemma store_effect_schedules:
  assumes "effect E db db1" "schedules_inv E db"
    and "\<And>s. s \<in> set (scan_schedules db) \<Longrightarrow> P s \<Longrightarrow> schedule_step s (f s) \<and> schedule_ok E (f s)"
  shows "store_effect E db (update_schedules P f db1)"
proof -
  note frame = effect_frame [OF assms(1)]
  have "schedules_inv E db1" 
    using assms(2) frame by (simp add: schedules_inv_def)
  then have "schedules_inv E (update_schedules P f db1)" "schedules_evolve db1 (update_schedules P f db1)"
    using assms(3) frame by (auto intro!: schedules_update)
  then show ?thesis
    using assms(1) frame unfolding store_effect_def schedules_evolve_def
    by (auto simp: permits_inv_def intro!: exI [of _ db1])
qed

text \<open>Pausing, resuming and blocking; the clock is not behind the creation of the schedule.\<close>

definition clock_after_create :: "string \<Rightarrow> time \<Rightarrow> job_db \<Rightarrow> bool" where
  "clock_after_create schedule_id now db \<longleftrightarrow>
     (case fetch_schedule schedule_id db of None \<Rightarrow> True | Some s \<Rightarrow> sc_created_at s \<le> now)"

lemma clock_after_createD:
  assumes "schedules_inv E db" "clock_after_create i now db" "s \<in> set (scan_schedules db)" "sc_schedule_id s = i"
  shows "sc_created_at s \<le> now"
  using assms schedules_inv_fetch [OF assms(1), of i s] by (simp add: clock_after_create_def)

lemma schedule_ok_state:
  assumes "schedule_ok E s" "sc_created_at s \<le> now" "0 \<le> sc_revision row"
  shows "schedule_ok E (state_row row state now nxt s)"
  using assms by (simp add: schedule_ok_iff schedule_checks_def state_row_def schedule_error_code_def)

lemma schedule_okD: "schedule_ok E s \<Longrightarrow> 0 \<le> sc_revision s"
  by (simp add: schedule_ok_iff schedule_checks_def)

lemma set_schedule_state_effect:
  assumes inv: "schedules_inv E db" and clock: "clock_after_create i now db"
  shows "store_effect E db (snd (set_schedule_state E i org state now nxt db))"
proof (cases "fetch_schedule_scoped i org db")
  case None
  then show ?thesis by (simp add: set_schedule_state_def store_effect_refl [OF inv])
next
  case (Some row)
  let ?P = "\<lambda>s. sc_schedule_id s = i \<and> sc_organization_id s = org \<and> sc_revision s = sc_revision row"
  have row: "row \<in> set (scan_schedules db)" "schedule_ok E row"
    using fetch_schedule_scoped_SomeD [OF Some] inv by (auto simp: schedules_inv_def)
  have "store_effect E db (update_schedules ?P (state_row row state now nxt) db)"
  proof (rule store_effect_schedules [OF effect.unchanged inv])
    fix s assume s: "s \<in> set (scan_schedules db)" "?P s"
    then show "schedule_step s (state_row row state now nxt s) \<and> schedule_ok E (state_row row state now nxt s)"
      using schedule_ok_state [of E s now row] clock_after_createD [OF inv clock, of s] inv
        schedule_okD [OF row(2)]
      by (auto simp: schedules_inv_def schedule_step_def state_row_def)
  qed
  then show ?thesis
    by (simp add: set_schedule_state_def Some Let_def snd_read_back)
qed

lemma pause_schedule_effect:
  assumes "schedules_inv E db" "clock_after_create i now db"
  shows "store_effect E db (snd (pause_schedule_scoped E i org now db))"
  unfolding pause_schedule_scoped_def by (rule set_schedule_state_effect [OF assms])

lemma resume_schedule_effect:
  assumes "schedules_inv E db" "clock_after_create i now db"
  shows "store_effect E db (snd (resume_schedule_scoped E i org now db))"
  using set_schedule_state_effect [OF assms] store_effect_refl [OF assms(1)]
  by (simp add: resume_schedule_scoped_def split: sum.split)

definition error_code_ok :: "string \<Rightarrow> bool" where
  "error_code_ok code \<longleftrightarrow> schedule_error_code (Some code) = Inr (Some code)"

lemma block_schedule_effect:
  assumes inv: "schedules_inv E db" and clock: "clock_after_create i now db" and code: "error_code_ok code"
  shows "store_effect E db (snd (block_due_schedule E i expected code now db))"
proof -
  let ?P = "\<lambda>s. sc_schedule_id s = i \<and> sc_revision s = expected \<and> sc_state s = SCHEDULE_ACTIVE"
  have "store_effect E db (update_schedules ?P (block_row code now) db)"
  proof (rule store_effect_schedules [OF effect.unchanged inv])
    fix s assume s: "s \<in> set (scan_schedules db)" "?P s"
    then have "schedule_ok E s" "sc_created_at s \<le> now"
      using inv clock_after_createD [OF inv clock] by (auto simp: schedules_inv_def)
    then show "schedule_step s (block_row code now s) \<and> schedule_ok E (block_row code now s)"
      using code by (auto simp: schedule_step_def block_row_def schedule_ok_iff schedule_checks_def error_code_ok_def)
  qed
  then show ?thesis
    by (simp add: block_due_schedule_def Let_def snd_read_back store_effect_refl [OF inv])
qed

lemma job_target_Inr: "job_target E v = Inr w \<longleftrightarrow> canonicalize_owned_target_url E v = Inr w"
  by (auto simp: job_target_def split: sum.splits exn.splits)

lemma job_idempotency_key_idem: "job_idempotency_key v = Inr w \<Longrightarrow> job_idempotency_key w = Inr w"
  unfolding job_idempotency_key_def job_required_text_def
  by (auto simp: bindE_eq_Inr raise_if_eq_Inr dest: bounded_text_idem)

lemma request_ok_post_init:
  assumes "ScanJobRequest_post_init E q = Inr q'" "stable_target E (rq_target q)"
  shows "request_ok E q'"
proof -
  obtain key t a sha where f: "job_idempotency_key (rq_idempotency_key q) = Inr key"
      "job_target E (rq_target q) = Inr t" "job_uuid (rq_authorization_id q) = Inr a"
      "job_sha256 (rq_authorization_sha256 q) = Inr sha"
    and q': "q' = q\<lparr>rq_idempotency_key := key, rq_target := t, rq_authorization_id := a,
      rq_authorization_sha256 := sha\<rparr>"
    using assms(1) unfolding ScanJobRequest_post_init_def by (auto simp only: bindE_eq_Inr sum.inject)
  have "job_idempotency_key key = Inr key" "job_uuid a = Inr a" "job_sha256 sha = Inr sha"
    using f job_idempotency_key_idem by (auto simp: job_uuid_Inr job_sha256_def raise_if_eq_Inr)
  moreover have "job_target E t = Inr t"
    using f(2) assms(2) by (simp add: job_target_Inr stable_target_def)
  ultimately show ?thesis
    by (simp add: request_ok_def ScanJobRequest_post_init_def q')
qed

lemma stable_target_schedule: "schedule_ok E s \<Longrightarrow> stable_target E (sc_target s)"
  by (simp add: schedule_ok_iff stable_target_def)

lemma schedule_ok_advance:
  assumes "schedule_ok E s" "sc_created_at s \<le> now" "hex64 sha" "uuid_shape j"
  shows "schedule_ok E (advance_row row sha j now s)"
  using assms by (simp add: schedule_ok_iff schedule_checks_def advance_row_def schedule_error_code_def)

lemma schedule_step_advance: "schedule_step s (advance_row row sha j now s)"
  by (simp add: schedule_step_def advance_row_def)

lemma enqueue_write_effect:
  assumes inv: "schedules_inv E db" and clock: "clock_after_create (sc_schedule_id row) now db"
    and "hex64 sha" "request_ok E q" "uuid_shape j"
  shows "store_effect E db (snd (enqueue_write E row expected sha pid psha now (fresh_record j q) db))"
proof (cases "fetch_job j db = None \<and>
    sql_find (\<lambda>r. rq_idempotency_key (jb_request r) = rq_idempotency_key q) (scan_jobs db) = None")
  case True
  let ?ins = "insert_job E (fresh_record j q) (Some (sc_organization_id row)) (Some (sc_created_by row))
                  (Some pid) (Some psha) db"
  let ?P = "\<lambda>s. sc_schedule_id s = sc_schedule_id row \<and> sc_revision s = expected \<and> sc_state s = SCHEDULE_ACTIVE"
  have "effect E db ?ins"
    using True assms(4,5)
    by (intro effect.inserted) (auto simp: job_ids_def fetch_job_def sql_find_None)
  then have "store_effect E db (update_schedules ?P (advance_row row sha j now) ?ins)"
  proof (rule store_effect_schedules [OF _ inv])
    fix s assume "s \<in> set (scan_schedules db)" "?P s"
    then show "schedule_step s (advance_row row sha j now s) \<and> schedule_ok E (advance_row row sha j now s)"
      using schedule_ok_advance [of E s now sha j row] assms(3,5) inv clock_after_createD [OF inv clock]
      by (auto simp: schedule_step_advance schedules_inv_def)
  qed
  then show ?thesis
    by (simp add: enqueue_write_def Let_def snd_read_back store_effect_refl [OF inv])
next
  case False
  then show ?thesis
    by (auto simp: enqueue_write_def Let_def store_effect_refl [OF inv])
qed

lemma enqueue_due_schedule_effect:
  assumes inv: "schedules_inv E db" and clock: "clock_after_create i now db"
  shows "store_effect E db (snd (enqueue_due_schedule E i expected sha pid psha now j db))"
proof -
  have "store_effect E db (snd (enqueue_write E s expected sha pid psha now rec db))"
    if row: "fetch_schedule i db = Some row" and s: "schedule_from_row E row = Inr s"
      and rec: "bindE (ScanJobRequest_post_init E (scheduled_request s sha now))
                  (\<lambda>request. ScanJobRecord_post_init (fresh_record j request)) = Inr rec" for row s rec
  proof -
    have ok: "schedule_ok E row" and id: "sc_schedule_id row = i"
      using fetch_schedule_SomeD [OF row] inv by (auto simp: schedules_inv_def)
    then have eq: "s = row"
      using s schedule_from_row_ok [OF ok] by simp
    obtain q where q: "ScanJobRequest_post_init E (scheduled_request s sha now) = Inr q"
      and r: "ScanJobRecord_post_init (fresh_record j q) = Inr rec"
      using rec by (auto simp: bindE_eq_Inr)
    have "hex64 sha"
      using q by (auto simp: ScanJobRequest_post_init_def bindE_eq_Inr job_sha256_def raise_if_eq_Inr
          scheduled_request_def)
    moreover have "request_ok E q"
      using request_ok_post_init [OF q] stable_target_schedule [OF ok] eq by (simp add: scheduled_request_def)
    ultimately show ?thesis
      using enqueue_write_effect [OF inv, of s now sha q j] clock eq id fresh_record_post_init [OF r] by auto
  qed
  then show ?thesis
    by (auto simp: enqueue_due_schedule_def store_effect_refl [OF inv] split: option.split sum.split)
qed

lemma create_schedule_effect:
  assumes inv: "schedules_inv E db" and "stable_target E target"
  shows "store_effect E db (snd (create_schedule E org by name target aid sha mode iv starts now i pid psha db))"
proof -
  have "store_effect E db (snd (insert_schedule rec pid psha org db))"
    if rec: "ScanScheduleRecord_post_init E (fresh_schedule i org by name target aid sha mode iv starts now) = Inr rec"
    for rec
  proof -
    have ok: "schedule_ok E rec"
      using schedule_ok_post_init [OF rec] assms(2) by (simp add: fresh_schedule_def)
    let ?db = "db\<lparr>scan_schedules := scan_schedules db @ [rec], schedule_permits := schedule_permits db
                 @ map (\<lambda>(p, s). (sc_schedule_id rec, p, s)) (option_pair pid psha)\<rparr>"
    have "store_effect E db ?db" if "fetch_schedule (sc_schedule_id rec) db = None"
    proof -
      have "schedules_inv E ?db"
        using inv ok that by (auto simp: schedules_inv_def fetch_schedule_def sql_find_None)
      moreover have "schedules_evolve db ?db"
        unfolding schedules_evolve_def
        by (intro exI [of _ "scan_schedules db"] exI [of _ "[rec]"]) (simp add: list_all2_refl)
      ultimately show ?thesis
        using effect.unchanged [of E db]
        by (auto simp: store_effect_def same_jobs_def permits_inv_def intro!: exI [of _ db])
    qed
    then show ?thesis
      by (simp add: insert_schedule_def store_effect_refl [OF inv])
  qed
  then show ?thesis
    by (auto simp: create_schedule_def store_effect_refl [OF inv] split: sum.split)
qed

end
