(* ===== verification/WG_Machine.thy ===== *)
theory WG_Machine
  imports WG_Prelude
begin

text \<open>
  State machines: reachable states, invariants and relations that every step respects. The stores,
  the safety engine and the rate limiters are interpreted as machines.
\<close>

definition reachable :: "('s \<Rightarrow> bool) \<Rightarrow> ('s \<Rightarrow> 's \<Rightarrow> bool) \<Rightarrow> 's \<Rightarrow> bool" where
  "reachable init step s \<longleftrightarrow> (\<exists>s0. init s0 \<and> step\<^sup>*\<^sup>* s0 s)"

lemma reachable_init: "init s \<Longrightarrow> reachable init step s"
  by (auto simp: reachable_def)

lemma reachable_step: "reachable init step s \<Longrightarrow> step s s' \<Longrightarrow> reachable init step s'"
  unfolding reachable_def by (meson rtranclp.rtrancl_into_rtrancl)

text \<open>An inductive invariant of a machine.\<close>

locale machine_invariant =
  fixes init :: "'s \<Rightarrow> bool" and step :: "'s \<Rightarrow> 's \<Rightarrow> bool" and inv :: "'s \<Rightarrow> bool"
  assumes init_inv: "init s \<Longrightarrow> inv s"
    and step_inv: "inv s \<Longrightarrow> step s s' \<Longrightarrow> inv s'"
begin

lemma steps_inv: "step\<^sup>*\<^sup>* s s' \<Longrightarrow> inv s \<Longrightarrow> inv s'"
  by (induction rule: rtranclp_induct) (auto intro: step_inv)

lemma reachable_inv: "reachable init step s \<Longrightarrow> inv s"
  unfolding reachable_def using steps_inv init_inv by blast

end

text \<open>A preorder that the steps from states of the invariant respect.\<close>

locale machine_progress = machine_invariant +
  fixes rel :: "'s \<Rightarrow> 's \<Rightarrow> bool"
  assumes rel_refl: "inv s \<Longrightarrow> rel s s"
    and rel_trans: "inv s \<Longrightarrow> rel s t \<Longrightarrow> rel t u \<Longrightarrow> rel s u"
    and step_rel: "inv s \<Longrightarrow> step s s' \<Longrightarrow> rel s s'"
begin

lemma steps_rel:
  assumes "step\<^sup>*\<^sup>* s s'" "inv s"
  shows "rel s s'"
  using assms
proof (induction rule: rtranclp_induct)
  case base
  then show ?case by (rule rel_refl)
next
  case (step t u)
  then show ?case
    using rel_trans step_rel steps_inv by blast
qed

lemma reachable_rel: "reachable init step s \<Longrightarrow> step\<^sup>*\<^sup>* s s' \<Longrightarrow> rel s s'"
  using steps_rel reachable_inv by blast

end

end
