(* ===== verification/Store_Machine.thy ===== *)
theory Store_Machine
  imports Schedule_Store WG_Machine
begin

text \<open>
  The store as a machine: one operation per method of \<^verbatim>\<open>ScanJobStore\<close> that writes, run in
  any order by any number of callers (SQLite serialises their transactions). Arguments are
  arbitrary where the method checks them; what the callers owe is \<open>admissible\<close>.
\<close>

section \<open>Definitions\<close>

datatype store_op =
    Submit scan_job_request string "string option" "string option" "string option" "string option"
  | Claim time
  | Claim_Leased time string rat string
  | Renew string string string time rat
  | Recover time int
  | Request_Cancellation string time
  | Request_Cancellation_Scoped string string time
  | Finish_Result string string scan_status string string time "string option" "string option"
  | Finish_Result_Leased string string string string scan_status string string time
      "string option" "string option"
  | Complete string scan_job_state string scan_status string string time
  | Fail string string string time "string option" "string option"
  | Fail_Leased string string string string string time "string option" "string option"
  | Cancel_Running string time
  | Cancel_Running_Leased string string string time
  | Create_Permit signed_permit
  | Revoke_Permit string string string time
  | Create_Schedule string string string string string string scan_job_mode int time time string
      "string option" "string option"
  | Pause_Schedule string string time
  | Resume_Schedule string string time
  | Enqueue_Due string int string string string time string
  | Block_Due string int string time
  | Assign_Authorizations "(string \<times> string) list option"

fun store_exec :: "py_env \<Rightarrow> store_op \<Rightarrow> job_db \<Rightarrow> job_db" where
  "store_exec E (Submit q i org by pid sha) db = snd (submit E q i org by pid sha db)"
| "store_exec E (Claim now) db = snd (claim_next E now db)"
| "store_exec E (Claim_Leased now w d tok) db = snd (claim_next_leased E now w d tok db)"
| "store_exec E (Renew i w tok now d) db = snd (renew_lease E i w tok now d db)"
| "store_exec E (Recover now m) db = snd (recover_expired_leases now m db)"
| "store_exec E (Request_Cancellation i now) db = snd (request_cancellation E i now db)"
| "store_exec E (Request_Cancellation_Scoped i org now) db = snd (request_cancellation_scoped E i org now db)"
| "store_exec E (Finish_Result i sid st rr ar now rf rs) db = snd (finish_result E i sid st rr ar now rf rs db)"
| "store_exec E (Finish_Result_Leased i w tok sid st rr ar now rf rs) db =
     snd (finish_result_leased E i w tok sid st rr ar now rf rs db)"
| "store_exec E (Complete i s sid st rr ar now) db = snd (complete_job E i s sid st rr ar now db)"
| "store_exec E (Fail i ec em now rf rs) db = snd (fail_job E i ec em now rf rs db)"
| "store_exec E (Fail_Leased i w tok ec em now rf rs) db = snd (fail_leased E i w tok ec em now rf rs db)"
| "store_exec E (Cancel_Running i now) db = snd (cancel_running E i now db)"
| "store_exec E (Cancel_Running_Leased i w tok now) db = snd (cancel_running_leased E i w tok now db)"
| "store_exec E (Create_Permit p) db = snd (create_scan_permit E p db)"
| "store_exec E (Revoke_Permit pid org by now) db = snd (revoke_scan_permit_scoped E pid org by now db)"
| "store_exec E (Create_Schedule org by n t aid sha m iv st now i pid psha) db =
     snd (create_schedule E org by n t aid sha m iv st now i pid psha db)"
| "store_exec E (Pause_Schedule i org now) db = snd (pause_schedule_scoped E i org now db)"
| "store_exec E (Resume_Schedule i org now) db = snd (resume_schedule_scoped E i org now db)"
| "store_exec E (Enqueue_Due i k sha pid psha now j) db =
     snd (enqueue_due_schedule E i k sha pid psha now j db)"
| "store_exec E (Block_Due i k code now) db = snd (block_due_schedule E i k code now db)"
| "store_exec E (Assign_Authorizations rows) db = db\<lparr>organization_authorizations := rows\<rparr>"

text \<open>
  What a caller owes: a request or target that is already canonical, metadata that the record
  accepts, and a clock that has not run back behind the creation of the row it writes.
\<close>

definition result_fields_ok :: "string \<Rightarrow> string \<Rightarrow> string \<Rightarrow> bool" where
  "result_fields_ok scan_id report_ref audit_ref \<longleftrightarrow>
     succeeds (job_uuid scan_id) \<and> succeeds (job_artifact_reference report_ref)
     \<and> succeeds (job_artifact_reference audit_ref)"

definition failure_fields_ok :: "string \<Rightarrow> string \<Rightarrow> bool" where
  "failure_fields_ok code message \<longleftrightarrow>
     succeeds (job_error_code (Some code)) \<and> succeeds (job_optional_text 2048 (Some message))"

fun admissible :: "py_env \<Rightarrow> store_op \<Rightarrow> job_db \<Rightarrow> bool" where
  "admissible E (Submit q i org by pid sha) db = request_ok E q"
| "admissible E (Renew i w tok now d) db = clock_after_start i now db"
| "admissible E (Request_Cancellation i now) db = clock_after_submit i now db"
| "admissible E (Request_Cancellation_Scoped i org now) db = clock_after_submit i now db"
| "admissible E (Finish_Result i sid st rr ar now rf rs) db = result_fields_ok sid rr ar"
| "admissible E (Finish_Result_Leased i w tok sid st rr ar now rf rs) db = result_fields_ok sid rr ar"
| "admissible E (Complete i s sid st rr ar now) db = result_fields_ok sid rr ar"
| "admissible E (Fail i ec em now rf rs) db = failure_fields_ok ec em"
| "admissible E (Fail_Leased i w tok ec em now rf rs) db = failure_fields_ok ec em"
| "admissible E (Create_Schedule org by n t aid sha m iv st now i pid psha) db = stable_target E t"
| "admissible E (Pause_Schedule i org now) db = clock_after_create i now db"
| "admissible E (Resume_Schedule i org now) db = clock_after_create i now db"
| "admissible E (Enqueue_Due i k sha pid psha now j) db = clock_after_create i now db"
| "admissible E (Block_Due i k code now) db = (clock_after_create i now db \<and> error_code_ok code)"
| "admissible E op db = True"

inductive store_step :: "py_env \<Rightarrow> job_db \<Rightarrow> job_db \<Rightarrow> bool" for E where
  exec: "admissible E op db \<Longrightarrow> store_step E db (store_exec E op db)"

inductive_cases store_stepE: "store_step E db db'"

definition store_inv :: "py_env \<Rightarrow> job_db \<Rightarrow> bool" where
  "store_inv E db \<longleftrightarrow> db_inv E db \<and> schedules_inv E db \<and> permits_inv db"

section \<open>Every operation respects the effect relation\<close>

lemma outcome_result:
  assumes "result_outcome sid st rr ar rf rs = Inr out" "result_fields_ok sid rr ar"
  shows "outcome_wf out \<and> outcome_shape out"
  using assms
  by (auto simp: result_outcome_def outcome_wf_def outcome_shape_def result_fields_ok_def succeeds_iff
      job_error_code_def job_optional_text_def bindE_eq_Inr split: option.splits)

lemma outcome_failure:
  assumes "failure_fields_ok ec em"
  shows "outcome_wf (failure_outcome ec em rf rs) \<and> outcome_shape (failure_outcome ec em rf rs)"
  using assms by (simp add: failure_outcome_def outcome_wf_def outcome_shape_def failure_fields_ok_def succeeds_def)

lemma outcome_cancel: "outcome_wf cancel_outcome \<and> outcome_shape cancel_outcome"
  by (simp add: cancel_outcome_def outcome_wf_def outcome_shape_def job_error_code_def
      job_optional_text_def succeeds_def)

lemma finish_result_effect:
  assumes "db_inv E db" "result_fields_ok sid rr ar"
  shows "effect E db (snd (finish_result E i sid st rr ar now rf rs db))"
  using terminal_update_effect [OF assms(1)] outcome_result [OF _ assms(2)]
  by (auto simp: finish_result_def effect.unchanged split: sum.split)

lemma finish_result_leased_effect:
  assumes "db_inv E db" "result_fields_ok sid rr ar"
  shows "effect E db (snd (finish_result_leased E i w tok sid st rr ar now rf rs db))"
  using terminal_update_effect [OF assms(1)] outcome_result [OF _ assms(2)]
  by (auto simp: finish_result_leased_def effect.unchanged split: sum.split)

lemmas job_op_effects =
  submit_effect claim_next_effect claim_next_leased_effect renew_lease_effect recover_effect
  request_cancellation_effect request_cancellation_scoped_effect finish_result_effect
  finish_result_leased_effect

lemma store_op_effect:
  assumes "store_inv E db" "admissible E op db"
  shows "store_effect E db (store_exec E op db)"
proof -
  have inv: "db_inv E db" and sch: "schedules_inv E db"
    using assms(1) by (auto simp: store_inv_def)
  note job = store_effect_job [OF _ sch]
  show ?thesis
    using assms(2)
  proof (cases op)
    case (Create_Permit p)
    then show ?thesis
      using create_scan_permit_frame [of db E p] create_scan_permit_inv [of db E p] sch
      by (auto intro!: store_effect_permits simp: create_scan_permit_def Let_def snd_read_back)
  next
    case (Revoke_Permit pid org "by" now)
    then show ?thesis
      using revoke_scan_permit_frame [of db E pid org "by" now]
        revoke_scan_permit_inv [of db E pid org "by" now] sch
      by (auto intro!: store_effect_permits simp: revoke_scan_permit_scoped_def Let_def split: option.split)
  next
    case (Assign_Authorizations rows)
    then show ?thesis
      using sch by (auto intro!: store_effect_permits simp: same_jobs_def permits_inv_def)
  next
    case (Complete i s sid st rr ar now)
    then show ?thesis
      using assms(2) finish_result_effect [OF inv] effect.unchanged
      by (auto intro!: job simp: complete_job_def)
  next
    case (Fail i ec em now rf rs)
    then show ?thesis
      using assms(2) outcome_failure terminal_update_effect [OF inv]
      by (auto intro!: job simp: fail_job_def)
  next
    case (Fail_Leased i w tok ec em now rf rs)
    then show ?thesis
      using assms(2) outcome_failure terminal_update_effect [OF inv]
      by (auto intro!: job simp: fail_leased_def)
  next
    case (Cancel_Running i now)
    then show ?thesis
      using outcome_cancel terminal_update_effect [OF inv]
      by (auto intro!: job simp: cancel_running_def)
  next
    case (Cancel_Running_Leased i w tok now)
    then show ?thesis
      using outcome_cancel terminal_update_effect [OF inv]
      by (auto intro!: job simp: cancel_running_leased_def)
  qed (use inv sch in \<open>auto intro!: job_op_effects [THEN job] create_schedule_effect pause_schedule_effect
      resume_schedule_effect enqueue_due_schedule_effect block_schedule_effect\<close>)
qed

lemma db_inv_same_jobs:
  assumes "same_jobs db db'"
  shows "db_inv E db' \<longleftrightarrow> db_inv E db"
  using assms
  by (simp add: db_inv_def same_jobs_def permit_exclusive_def permit_of_def job_permit_of_def job_ids_def)

lemma store_effect_inv:
  assumes "store_effect E db db'" "store_inv E db"
  shows "store_inv E db'"
  using assms effect_inv db_inv_same_jobs unfolding store_effect_def store_inv_def by blast

lemma store_step_inv: "store_inv E db \<Longrightarrow> store_step E db db' \<Longrightarrow> store_inv E db'"
  by (auto elim!: store_stepE intro: store_effect_inv store_op_effect)

lemma store_inv_empty: "store_inv E empty_db"
  by (simp add: store_inv_def db_inv_empty schedules_inv_def permits_inv_def) (simp add: empty_db_def)

section \<open>What never goes back\<close>

definition later_row :: "job_row \<Rightarrow> job_row \<Rightarrow> bool" where
  "later_row r r' \<longleftrightarrow>
     r' = r \<or>
     jb_job_id r' = jb_job_id r \<and> jb_request r' = jb_request r \<and> \<not> is_terminal (jb_state r)
     \<and> jb_revision r < jb_revision r' \<and> jr_attempt_count r \<le> jr_attempt_count r'
     \<and> (jb_cancellation_requested r \<longrightarrow> jb_cancellation_requested r')"

definition later_schedule :: "schedule_record \<Rightarrow> schedule_record \<Rightarrow> bool" where
  "later_schedule s s' \<longleftrightarrow>
     s' = s \<or>
     sc_schedule_id s' = sc_schedule_id s \<and> sc_organization_id s' = sc_organization_id s
     \<and> sc_target s' = sc_target s \<and> sc_authorization_id s' = sc_authorization_id s
     \<and> sc_interval_seconds s' = sc_interval_seconds s \<and> sc_revision s < sc_revision s'"

definition store_later :: "job_db \<Rightarrow> job_db \<Rightarrow> bool" where
  "store_later db db' \<longleftrightarrow>
     (\<forall>r \<in> set (scan_jobs db). \<exists>r' \<in> set (scan_jobs db'). later_row r r')
     \<and> (\<forall>p \<in> set (scan_permits db). \<exists>p' \<in> set (scan_permits db'). permit_step p p')
     \<and> (\<forall>s \<in> set (scan_schedules db). \<exists>s' \<in> set (scan_schedules db'). later_schedule s s')"

lemma later_row_refl: "later_row r r"
  by (simp add: later_row_def)

lemma later_row_trans: "later_row r s \<Longrightarrow> later_row s t \<Longrightarrow> later_row r t"
  by (auto simp: later_row_def)

lemma row_step_later: "row_step r r' \<Longrightarrow> later_row r r'"
  using lifecycle_from_terminal by (auto simp: row_step_def later_row_def)

lemma permit_step_trans: "permit_step p q \<Longrightarrow> permit_step q r \<Longrightarrow> permit_step p r"
  by (auto simp: permit_step_def)

lemma later_schedule_refl: "later_schedule s s"
  by (simp add: later_schedule_def)

lemma later_schedule_trans: "later_schedule r s \<Longrightarrow> later_schedule s t \<Longrightarrow> later_schedule r t"
  by (auto simp: later_schedule_def)

lemma schedule_step_later: "schedule_step s s' \<Longrightarrow> later_schedule s s'"
  by (auto simp: schedule_step_def later_schedule_def)

lemma store_later_refl: "store_later db db"
  unfolding store_later_def using later_row_refl later_schedule_refl permit_step_refl by blast

lemma store_later_trans:
  assumes "store_later a b" "store_later b c"
  shows "store_later a c"
  unfolding store_later_def
proof (intro conjI ballI)
  show "\<exists>r' \<in> set (scan_jobs c). later_row r r'" if "r \<in> set (scan_jobs a)" for r
    using assms that later_row_trans unfolding store_later_def by meson
  show "\<exists>p' \<in> set (scan_permits c). permit_step p p'" if "p \<in> set (scan_permits a)" for p
    using assms that permit_step_trans unfolding store_later_def by meson
  show "\<exists>s' \<in> set (scan_schedules c). later_schedule s s'" if "s \<in> set (scan_schedules a)" for s
    using assms that later_schedule_trans unfolding store_later_def by meson
qed

lemma store_effect_later:
  assumes "store_effect E db db'"
  shows "store_later db db'"
  unfolding store_later_def
proof (intro conjI ballI)
  obtain db1 where j: "effect E db db1" "same_jobs db1 db'"
    using assms by (auto simp: store_effect_def)
  show "\<exists>r' \<in> set (scan_jobs db'). later_row r r'" if "r \<in> set (scan_jobs db)" for r
    using jobs_evolve_member [OF effect_evolves [OF j(1)] that] j(2) row_step_later
    unfolding same_jobs_def by metis
  show "\<exists>p' \<in> set (scan_permits db'). permit_step p p'" if "p \<in> set (scan_permits db)" for p
  proof -
    obtain mid tail where m: "scan_permits db' = mid @ tail" "list_all2 permit_step (scan_permits db) mid"
      using assms by (auto simp: store_effect_def permits_evolve_def)
    then show ?thesis
      using list_all2_member [OF m(2) that] by (metis Un_iff set_append)
  qed
  show "\<exists>s' \<in> set (scan_schedules db'). later_schedule s s'" if "s \<in> set (scan_schedules db)" for s
  proof -
    obtain mid tail where m: "scan_schedules db' = mid @ tail" "list_all2 schedule_step (scan_schedules db) mid"
      using assms by (auto simp: store_effect_def schedules_evolve_def)
    then show ?thesis
      using list_all2_member [OF m(2) that] schedule_step_later by (metis Un_iff set_append)
  qed
qed

interpretation store: machine_progress "\<lambda>db. db = empty_db" "store_step E" "store_inv E" store_later for E
  by unfold_locales
    (auto simp: store_inv_empty intro: store_effect_inv store_later_refl store_later_trans
      store_effect_later store_op_effect elim!: store_stepE)

end
