(* ===== verification/Queue_Lemmas.thy ===== *)
theory Queue_Lemmas
  imports Store_Machine
begin

text \<open>
  The operations of the job queue in closed form: what a successful claim, renewal, terminal
  transition, recovery or submission did to the table, and how the pages of the feed fit together.
\<close>

section \<open>Reading and updating by identifier\<close>

lemma fetch_updated:
  assumes "db_inv E db" "row \<in> set (scan_jobs db)" "P row" "\<And>r. P r \<Longrightarrow> jb_job_id r = jb_job_id row"
    and "jb_job_id (f row) = jb_job_id row"
  shows "fetch_job (jb_job_id row) (update_jobs P f db) = Some (f row)"
proof -
  have id: "jb_job_id (if P r then f r else r) = jb_job_id r" if "r \<in> set (scan_jobs db)" for r
    using assms that db_inv_id_unique [OF assms(1) that assms(2)] by metis
  then have "map jb_job_id (sql_update P f (scan_jobs db)) = map jb_job_id (scan_jobs db)"
    by (simp add: sql_update_def)
  then have "distinct (map jb_job_id (scan_jobs (update_jobs P f db)))"
    using db_inv_distinct [OF assms(1)] by simp
  then show ?thesis
    using sql_update_hit [of row "scan_jobs db" P f] assms(2,3,5) by (simp add: fetch_job_iff)
qed

lemma single_rowcount:
  assumes "db_inv E db" "row \<in> set (scan_jobs db)" "P row" "\<And>r. P r \<Longrightarrow> jb_job_id r = jb_job_id row"
  shows "sql_rowcount P (scan_jobs db) = 1"
  using sql_rowcount_key [of jb_job_id "scan_jobs db" row P P] db_inv_distinct [OF assms(1)] assms(2-4)
  by blast

lemma update_jobs_others:
  assumes "db_inv E db" "row \<in> set (scan_jobs db)" "\<And>r. P r \<Longrightarrow> jb_job_id r = jb_job_id row"
    and "r \<in> set (scan_jobs db)" "jb_job_id r \<noteq> jb_job_id row"
  shows "r \<in> set (scan_jobs (update_jobs P f db))"
  using assms by (auto intro: sql_update_other)

section \<open>Claiming, leases and recovery\<close>

lemma claim_next_leased_cases:
  assumes inv: "db_inv E db" and w: "check_worker_id w = Inr w'" and d: "check_lease_seconds d = Inr d'"
    and sel: "select_claimable_row db now = Some row"
  defines "t \<equiv> max now (rq_submitted_at (jb_request row))"
  shows "\<exists>rec. claim_next_leased E now w d tok db =
      (Inr (Some \<lparr>lj_record = rec, lj_worker_id = w', lj_lease_token = tok,
         lj_lease_expires_at = t + timedelta_seconds d', lj_attempt_count = jr_attempt_count row + 1\<rparr>),
       update_jobs (cas row JOB_QUEUED) (lease_row row t w' tok d') db)
    \<and> record_from_row E (lease_row row t w' tok d' row) = Inr rec"
proof -
  note row = select_claimable_row_SomeD [OF sel]
  let ?f = "lease_row row t w' tok d'"
  have q: "cas row JOB_QUEUED row"
    using row(2) by (simp add: cas_def claimable_def)
  have fetch: "fetch_job (jb_job_id row) (update_jobs (cas row JOB_QUEUED) ?f db) = Some (?f row)"
    by (rule fetch_updated [OF inv row(1)]) (use q in \<open>auto dest: cas_id simp: lease_row_def claim_row_def\<close>)
  have n: "sql_rowcount (cas row JOB_QUEUED) (scan_jobs db) = 1"
    by (rule single_rowcount [OF inv row(1)]) (use q in \<open>auto dest: cas_id\<close>)
  have "row_ok E (?f row)"
    using db_inv_row_ok [OF inv row(1)] row(2) check_lease_seconds_pos [OF d]
    by (intro row_ok_lease) (auto simp: claimable_def row_ok_revision t_def)
  then obtain rec where rec: "record_from_row E (?f row) = Inr rec"
    by (rule record_from_row_ok)
  then have "lease_from_row E (?f row) = Inr \<lparr>lj_record = rec, lj_worker_id = w', lj_lease_token = tok,
         lj_lease_expires_at = t + timedelta_seconds d', lj_attempt_count = jr_attempt_count row + 1\<rparr>"
    by (simp add: lease_from_row_def lease_row_def claim_row_def)
  then show ?thesis
    using w d sel fetch n rec
    by (simp add: claim_next_leased_def Let_def no_earlier_than_max t_def [symmetric])
qed

lemma select_claimable_row_None:
  "select_claimable_row db now = None \<longleftrightarrow> (\<forall>r \<in> set (scan_jobs db). \<not> claimable db now r)"
proof -
  have "select_claimable_row db now = None \<longleftrightarrow> set (sql_order feed_key (filter (claimable db now) (scan_jobs db))) = {}"
    by (auto simp: select_claimable_row_def simp del: set_sql_order split: list.splits)
  then show ?thesis
    by (auto simp: filter_empty_conv)
qed

lemma terminal_update_leasedE:
  assumes "terminal_update E i (Some w) (Some tok) out now db = (res, db')" "db' \<noteq> db \<or> succeeds res"
  obtains w' row where "check_worker_id w = Inr w'" "fetch_job i db = Some row"
    "require_active_lease row w' tok now = Inr ()"
proof -
  obtain w' row rec where w: "check_worker_id w = Inr w'" and row: "fetch_job i db = Some row"
    and rec: "record_from_row E row = Inr rec" "jb_state rec = JOB_RUNNING"
    and tw: "terminal_write E i (Some w') (Some tok) out now row rec db = (res, db')"
    using assms
    by (auto simp: terminal_update_def succeeds_def bindE_def
        split: if_splits option.splits sum.splits)
  have "jr_lease_token row \<noteq> None \<and> require_active_lease row w' tok now = Inr ()"
    using tw assms(2)
    by (auto simp: terminal_write_def Let_def terminal_lease_check_def succeeds_def
        split: if_splits sum.splits option.splits)
  then show thesis using that w row by blast
qed

lemma renew_lease_cases:
  assumes "renew_lease E i w tok now d db = (res, db')" "db' \<noteq> db \<or> succeeds res"
  shows "\<exists>w' d' row. check_worker_id w = Inr w' \<and> check_lease_seconds d = Inr d' \<and> fetch_job i db = Some row
    \<and> require_active_lease row w' tok now = Inr ()
    \<and> db' = update_jobs (lease_cas row w' tok) (renew_row row (max now (rq_submitted_at (jb_request row))) d') db"
  using assms
  by (auto simp: renew_lease_def Let_def succeeds_def no_earlier_than_max bindE_def
      split: if_splits option.splits sum.splits)

lemma check_worker_id_strip: "check_worker_id w = Inr w' \<Longrightarrow> w' = py_strip w"
  by (auto simp: check_worker_id_def Let_def raise_if_eq_Inr)

lemma recover_update_state:
  "jb_state (recover_update now limit r) =
     (if jb_cancellation_requested r then JOB_CANCELLED
      else if jr_attempt_count r \<ge> limit then JOB_FAILED else JOB_QUEUED)"
  by (simp add: recover_update_def recover_row_state recovery_of_def)

lemma recover_update_sel [simp]:
  "jb_job_id (recover_update now limit r) = jb_job_id r"
  "jr_lease_token (recover_update now limit r) = None"
  "jr_lease_expires_at (recover_update now limit r) = None"
  "jr_attempt_count (recover_update now limit r) = jr_attempt_count r"
  by (simp_all add: recover_update_def)

section \<open>Submission\<close>

lemma fresh_record_ok: "uuid_shape j \<Longrightarrow> ScanJobRecord_post_init (fresh_record j q) = Inr (fresh_record j q)"
proof -
  assume "uuid_shape j"
  then have "record_wf (fresh_record j q)"
    by (auto simp: record_wf_def times_wf_def projection_wf_def fresh_record_def metadata_defs Let_def
        intro!: fields_wf_plain)
  then show ?thesis
    using fresh_record_post_init by (auto simp: ScanJobRecord_succeeds [symmetric] succeeds_iff)
qed

lemma record_from_new_row:
  assumes "request_ok E q" "uuid_shape i"
  shows "record_from_row E (new_row E (fresh_record i q)) = Inr (fresh_record i q)"
proof -
  have "scan_job_record.truncate (new_row E (fresh_record i q)) = fresh_record i q"
    by (simp add: new_row_def scan_job_record.defs job_row.defs fresh_record_def)
  then show ?thesis
    using assms fresh_record_ok [OF assms(2), of q]
    by (simp add: record_from_row_def request_ok_def) (simp add: fresh_record_def)
qed

text \<open>What an accepted submission did: it inserted a fresh row, or it found its own earlier row.\<close>

lemma submit_InrE:
  assumes "submit E q i org by pid psha db = (Inr (rec, created), db1)"
  obtains (new) "created" "uuid_shape i" "rec = fresh_record i q"
      "sql_find (\<lambda>r. rq_idempotency_key (jb_request r) = rq_idempotency_key q) (scan_jobs db) = None"
      "org \<noteq> None \<Longrightarrow> job_scope_of db i = None" "pid \<noteq> None \<Longrightarrow> job_permit_of db i = None"
      "db1 = insert_job E rec org by pid psha db"
    | (old) row where "\<not> created" "db1 = db" "uuid_shape i"
      "sql_find (\<lambda>r. rq_idempotency_key (jb_request r) = rq_idempotency_key q) (scan_jobs db) = Some row"
      "resubmit E row q org pid psha db = Inr (rec, False)"
proof -
  obtain r where r: "ScanJobRecord_post_init (fresh_record i q) = Inr r"
    using assms by (auto simp: submit_def split: if_splits sum.splits)
  note fr = fresh_record_post_init [OF r]
  show thesis
  proof (cases "sql_find (\<lambda>r. rq_idempotency_key (jb_request r) = rq_idempotency_key q) (scan_jobs db)")
    case None
    then show thesis
      using assms r fr by (intro new) (auto simp: submit_def simp del: not_None_eq split: if_splits)
  next
    case (Some row)
    have "\<not> created" if "resubmit E row q org pid psha db = Inr (rec, created)"
      using that by (auto simp: resubmit_def exn_simps)
    then show thesis
      using assms r fr Some by (intro old [of row]) (auto simp: submit_def split: if_splits)
  qed
qed

lemma submit_guards:
  assumes "submit E q i org by pid psha db = (Inr res, db1)"
  shows "(org = None) = (by = None)" "(pid = None) = (psha = None)" "pid \<noteq> None \<longrightarrow> org \<noteq> None"
  using assms by (auto simp: submit_def split: if_splits)

lemma submit_again:
  assumes "submit E q i org by pid psha db = (Inr res, db1)" "uuid_shape j"
    and "sql_find (\<lambda>r. rq_idempotency_key (jb_request r) = rq_idempotency_key q) (scan_jobs db1) = Some row"
  shows "submit E q j org by pid psha db1 = (resubmit E row q org pid psha db1, db1)"
  using submit_guards [OF assms(1)] assms(3) fresh_record_ok [OF assms(2), of q]
  by (auto simp: submit_def)

section \<open>The feed\<close>

lemma feed_filter_key:
  "feed_filter db org after st md r \<longleftrightarrow>
     feed_filter db org None st md r \<and> (case after of None \<Rightarrow> True | Some c \<Rightarrow> feed_key r < c)"
  by (auto simp: feed_filter_def feed_key_def less_prod_def split: option.splits)

lemma feed_rows_filter:
  "feed_rows db org (Some c) st md = filter (\<lambda>r. feed_key r < c) (feed_rows db org None st md)"
proof -
  have "filter (feed_filter db org (Some c) st md) (scan_jobs db)
      = filter (\<lambda>r. feed_key r < c) (filter (feed_filter db org None st md) (scan_jobs db))"
    by (auto simp: feed_filter_key [of db org "Some c"] intro: filter_cong)
  then show ?thesis
    by (simp add: feed_rows_def sql_order_def filter_sort rev_filter [symmetric] del: filter_filter)
qed

lemma feed_rows_sorted:
  assumes "distinct (map jb_job_id (scan_jobs db))"
  shows "sorted_wrt (\<lambda>x y. feed_key y < feed_key x) (feed_rows db org after st md)"
proof -
  let ?xs = "sql_order feed_key (filter (feed_filter db org after st md) (scan_jobs db))"
  have "distinct (map jb_job_id ?xs)"
    using assms by (simp add: sql_order_def distinct_map inj_on_def)
  then have "distinct (map snd (map feed_key ?xs))"
    by (simp add: feed_key_def comp_def)
  then have "distinct (map feed_key ?xs)"
    by (simp only: distinct_map)
  then have "sorted_wrt (<) (map feed_key ?xs)"
    using sorted_sql_order by (metis strict_sorted_iff)
  then show ?thesis
    by (simp add: feed_rows_def sorted_wrt_map sorted_wrt_rev)
qed

lemma feed_rows_next:
  assumes d: "distinct (map jb_job_id (scan_jobs db))"
    and n: "0 < n" "n \<le> length (feed_rows db org after st md)"
  shows "feed_rows db org (Some (feed_key (feed_rows db org after st md ! (n - 1)))) st md
       = drop n (feed_rows db org after st md)"
proof -
  let ?rows = "feed_rows db org after st md"
  define c where "c = feed_key (?rows ! (n - 1))"
  have "?rows ! (n - 1) \<in> set ?rows"
    using n by simp
  then have "feed_filter db org after st md (?rows ! (n - 1))"
    by (auto simp: feed_rows_def)
  then have c: "case after of None \<Rightarrow> True | Some a \<Rightarrow> c < a"
    unfolding c_def by (subst (asm) feed_filter_key) blast
  have "feed_rows db org (Some c) st md = filter (\<lambda>r. feed_key r < c) ?rows"
  proof (cases after)
    case (Some a)
    have "filter (\<lambda>r. feed_key r < c) (filter (\<lambda>r. feed_key r < a) xs) = filter (\<lambda>r. feed_key r < c) xs" for xs
      using c Some by (auto intro!: filter_cong)
    then show ?thesis
      by (simp only: Some feed_rows_filter)
  qed (simp only: feed_rows_filter)
  then show ?thesis
    using filter_below_nth [OF feed_rows_sorted [OF d] n] by (simp only: c_def)
qed

text \<open>A page shows jobs of its organization only.\<close>

lemma list_jobs_scoped_page_own:
  assumes "list_jobs_scoped_page E org limit after st md db = Inr (recs, has_more)" "rec \<in> set recs"
  shows "map_option fst (job_scope_of db (jb_job_id rec)) = Some org"
proof -
  have "mapE (record_from_row E) (take (nat limit) (feed_rows db org after st md)) = Inr recs"
    using assms(1) by (auto simp: list_jobs_scoped_page_def Let_def exn_simps min_def)
  then obtain j where j: "j < length (take (nat limit) (feed_rows db org after st md))"
    and rec: "record_from_row E (take (nat limit) (feed_rows db org after st md) ! j) = Inr rec"
    using assms(2) unfolding mapE_Inr_iff list_all2_conv_all_nth by (metis in_set_conv_nth)
  have "take (nat limit) (feed_rows db org after st md) ! j \<in> set (feed_rows db org after st md)"
    using nth_mem [OF j] by (rule in_set_takeD)
  then have "feed_filter db org after st md (take (nat limit) (feed_rows db org after st md) ! j)"
    by (auto simp: feed_rows_def)
  then show ?thesis
    using record_from_row_fields(1) [OF rec] by (simp add: feed_filter_def)
qed

text \<open>The row that a successful claim took.\<close>

lemma claimed_permit_live:
  assumes "claimable db now row" "job_permit_of db (jb_job_id row) = Some (pid, sha)"
  shows "\<exists>p \<in> set (scan_permits db). pr_permit_id p = pid \<and> pr_revoked_at p = None
    \<and> pr_not_before p \<le> now \<and> now < pr_expires_at p"
  using assms by (auto simp: claimable_def permit_live_def list_ex_iff)

section \<open>Schedules\<close>

lemma next_run_after:
  assumes "0 < interval_seconds" "scheduled_for \<le> now"
  shows "now < next_schedule_time scheduled_for interval_seconds now"
    and "next_schedule_time scheduled_for interval_seconds now - interval_seconds * microseconds \<le> now"
    and "(next_schedule_time scheduled_for interval_seconds now - scheduled_for) mod (interval_seconds * microseconds) = 0"
proof -
  let ?i = "interval_seconds * microseconds" and ?d = "now - scheduled_for"
  have i: "0 < ?i"
    using assms(1) by (simp add: microseconds_def)
  have "?i * (?d div ?i) \<le> ?d" "?d < ?i * (?d div ?i + 1)"
    using mult_div_mod_eq [of ?i ?d] pos_mod_bound [OF i, of ?d] pos_mod_sign [OF i, of ?d]
    by (simp_all add: algebra_simps)
  then show "now < next_schedule_time scheduled_for interval_seconds now"
    "next_schedule_time scheduled_for interval_seconds now - ?i \<le> now"
    "(next_schedule_time scheduled_for interval_seconds now - scheduled_for) mod ?i = 0"
    using next_schedule_time_div [OF assms] by (simp_all add: algebra_simps)
qed

lemma fetch_schedule_updated:
  assumes inv: "schedules_inv E db" and row: "row \<in> set (scan_schedules db)" "P row"
    and f: "\<And>s. sc_schedule_id (f s) = sc_schedule_id s"
  shows "sql_find (\<lambda>s. sc_schedule_id s = sc_schedule_id row) (sql_update P f (scan_schedules db)) = Some (f row)"
proof -
  have "distinct (map sc_schedule_id (sql_update P f (scan_schedules db)))"
    using inv f by (simp add: map_sql_update schedules_inv_def)
  then show ?thesis
    using sql_find_key [of sc_schedule_id "sql_update P f (scan_schedules db)"] sql_update_hit [of row _ P f] row f
    by blast
qed

lemma advance_row_sel [simp]:
  "sc_schedule_id (advance_row s0 sha j now s) = sc_schedule_id s"
  "sc_revision (advance_row s0 sha j now s) = sc_revision s + 1"
  "sc_state (advance_row s0 sha j now s) = sc_state s"
  "sc_next_run_at (advance_row s0 sha j now s) = next_schedule_time (sc_next_run_at s0) (sc_interval_seconds s0) now"
  by (simp_all add: advance_row_def)

text \<open>What a successful enqueue did.\<close>

lemma enqueue_SomeE:
  assumes inv: "schedules_inv E db"
    and eq: "enqueue_due_schedule E i k sha pid psha now j db = (Inr (Some (s', rec)), db')"
  obtains row q where "fetch_schedule i db = Some row" "schedule_ok E row" "sc_state row = SCHEDULE_ACTIVE"
    "sc_revision row = k" "sc_next_run_at row \<le> now" "assigned db row"
    "keyed i (schedule_permits db) = Some (pid, psha)" "schedule_permit_live db row pid psha now"
    "ScanJobRequest_post_init E (scheduled_request row sha now) = Inr q" "rec = fresh_record j q" "uuid_shape j"
    "fetch_job j db = None"
    "db' = update_schedules (\<lambda>s. sc_schedule_id s = i \<and> sc_revision s = k \<and> sc_state s = SCHEDULE_ACTIVE)
             (advance_row row sha j now)
             (insert_job E rec (Some (sc_organization_id row)) (Some (sc_created_by row)) (Some pid) (Some psha) db)"
    "s' = advance_row row sha j now row" "schedule_from_row E s' = Inr s'"
proof -
  obtain row where row: "fetch_schedule i db = Some row"
    using eq by (auto simp: enqueue_due_schedule_def split: option.splits)
  have mem: "row \<in> set (scan_schedules db)" "sc_schedule_id row = i" and ok: "schedule_ok E row"
    using fetch_schedule_SomeD [OF row] inv by (auto simp: schedules_inv_def)
  have g: "sc_state row = SCHEDULE_ACTIVE" "sc_revision row = k" "sc_next_run_at row \<le> now" "assigned db row"
    "keyed i (schedule_permits db) = Some (pid, psha)" "schedule_permit_live db row pid psha now"
    using eq row schedule_from_row_ok [OF ok] mem(2)
    by (auto simp: enqueue_due_schedule_def split: if_splits)
  obtain r where r: "bindE (ScanJobRequest_post_init E (scheduled_request row sha now))
                        (\<lambda>request. ScanJobRecord_post_init (fresh_record j request)) = Inr r"
    and w: "enqueue_write E row k sha pid psha now r db = (Inr (Some (s', rec)), db')"
    using eq row schedule_from_row_ok [OF ok] g mem(2)
    by (auto simp: enqueue_due_schedule_def split: if_splits sum.splits)
  obtain q where q: "ScanJobRequest_post_init E (scheduled_request row sha now) = Inr q"
    and fr: "r = fresh_record j q" "uuid_shape j"
    using r fresh_record_post_init by (auto simp: bindE_eq_Inr)
  let ?P = "\<lambda>s. sc_schedule_id s = i \<and> sc_revision s = k \<and> sc_state s = SCHEDULE_ACTIVE"
  let ?ins = "insert_job E r (Some (sc_organization_id row)) (Some (sc_created_by row)) (Some pid) (Some psha) db"
  let ?db = "update_schedules ?P (advance_row row sha j now) ?ins"
  have "fetch_schedule i ?db = Some (advance_row row sha j now row)"
    using fetch_schedule_updated [OF inv mem(1), of ?P "advance_row row sha j now"] g mem
    by (simp add: fetch_schedule_def insert_job_def)
  then have "db' = ?db" "rec = r" "fetch_job j db = None"
    and s': "schedule_from_row E (advance_row row sha j now row) = Inr s'"
    using w mem(2) fr by (auto simp: enqueue_write_def Let_def bindE_eq_Inr split: if_splits)
  moreover have "s' = advance_row row sha j now row"
  proof -
    have t: "canonicalize_owned_target_url E (sc_target row) = Inr (sc_target row)"
      "schedule_required_text 120 (sc_name row) = Inr (sc_name row)"
      using ok by (auto simp: schedule_ok_iff)
    then show ?thesis
      using s' by (auto simp: schedule_from_row_def ScanScheduleRecord_Inr schedule_error_code_def advance_row_def)
  qed
  ultimately show thesis
    using that row ok g q fr s' by blast
qed


end
