(* ===== verification/Store_Examples.thy ===== *)
theory Store_Examples
  imports Store_Machine "HOL-Library.Code_Target_Nat"
begin

text \<open>
  A concrete run of the store: an organization with one permit, two jobs bound to it, the first of
  them claimed under a lease, and a recurring schedule. The witnesses of the store's properties
  evaluate on it. The digest is a constant function here and IDNA encoding is the identity.
\<close>

section \<open>Definitions\<close>

definition ex_env :: py_env where
  "ex_env = \<lparr>env_idna = (\<lambda>s. Some s), env_digest = (\<lambda>j. replicate 64 (CHR ''a''))\<rparr>"

definition ex_uuid :: "char \<Rightarrow> string" where
  "ex_uuid c = replicate 8 c @ ''-'' @ replicate 4 c @ ''-'' @ replicate 4 c @ ''-'' @ replicate 4 c
     @ ''-'' @ replicate 12 c"

definition ex_sha :: string where
  "ex_sha = replicate 64 (CHR ''a'')"

definition ex_org :: string where
  "ex_org = ex_uuid (CHR ''c'')"

definition ex_request :: "string \<Rightarrow> time \<Rightarrow> scan_job_request" where
  "ex_request key t =
     \<lparr>rq_idempotency_key = key, rq_target = ''https://example.com/'',
      rq_authorization_id = ex_uuid (CHR ''d''), rq_authorization_sha256 = ex_sha,
      rq_mode = CRAWL, rq_submitted_at = t\<rparr>"

definition ex_claims :: permit_claims where
  "ex_claims =
     \<lparr>pc_permit_id = ex_uuid (CHR ''e''), pc_organization_id = ex_org,
      pc_authorization_id = ex_uuid (CHR ''d''), pc_authorization_sha256 = ex_sha,
      pc_target = ''https://example.com/'', pc_issued_by = ex_uuid (CHR ''9''),
      pc_issued_at = 0, pc_not_before = 0, pc_expires_at = 1000000,
      pc_permitted_modes = [CRAWL], pc_allowed_http_methods = [''GET''],
      pc_maximum_request_attempts = 100, pc_maximum_requests_per_second = 1,
      pc_maximum_concurrency = 1, pc_prohibited_operations = TRUSTSCAN_PROHIBITED_OPERATIONS,
      pc_active_checks = [], pc_authentication_context_id = None,
      pc_authorization_comparison_plan_id = None\<rparr>"

definition ex_permit :: signed_permit where
  "ex_permit =
     \<lparr>sp_claims = ex_claims, sp_signing_key_id = ''sha256:'' @ ex_sha,
      sp_signature = replicate 86 (CHR ''A''), sp_signature_algorithm = ''Ed25519'',
      sp_permit_type = TRUSTSCAN_PERMIT_TYPE,
      sp_schema_version = CURRENT_TRUSTSCAN_PERMIT_SCHEMA_VERSION\<rparr>"

definition ex_permit_id :: string where
  "ex_permit_id = ex_uuid (CHR ''e'')"

definition ex_submit :: "string \<Rightarrow> time \<Rightarrow> char \<Rightarrow> store_op" where
  "ex_submit key t c =
     Submit (ex_request key t) (ex_uuid c) (Some ex_org) (Some ''u'') (Some ex_permit_id) (Some ex_sha)"

definition ex_schedule_op :: store_op where
  "ex_schedule_op =
     Create_Schedule ex_org (ex_uuid (CHR ''9'')) ''nightly'' ''https://example.com/''
       (ex_uuid (CHR ''d'')) ex_sha CRAWL 3600 5 1 (ex_uuid (CHR ''5'')) (Some ex_permit_id) (Some ex_sha)"

definition ex_permit_row :: permit_row where
  "ex_permit_row =
     \<lparr>pr_permit_id = ex_permit_id, pr_organization_id = ex_org,
      pr_authorization_id = ex_uuid (CHR ''d''), pr_authorization_sha256 = ex_sha,
      pr_target = ''https://example.com/'', pr_issued_by = ex_uuid (CHR ''9''), pr_issued_at = 0,
      pr_not_before = 0, pr_expires_at = 1000000, pr_permit_sha256 = ex_sha,
      pr_signing_key_id = ''sha256:'' @ ex_sha, pr_document = ex_permit, pr_revoked_at = None,
      pr_revoked_by = None\<rparr>"

definition ex_start :: job_db where
  "ex_start = empty_db\<lparr>scan_permits := [ex_permit_row]\<rparr>"

definition ex_queued :: job_db where
  "ex_queued =
     fold (store_exec ex_env)
       [ex_submit ''request-1'' 10 (CHR ''1''), ex_submit ''request-2'' 20 (CHR ''2''), ex_schedule_op] ex_start"

definition ex_db :: job_db where
  "ex_db = store_exec ex_env (Claim_Leased 30 ''worker-1'' 60 ''token-1'') ex_queued"

text \<open>The state that the run ends in, written out.\<close>

definition ex_row1 :: job_row where
  "ex_row1 =
     \<lparr>jb_job_id = ex_uuid (CHR ''1''), jb_request = ex_request ''request-1'' 10, jb_state = JOB_RUNNING,
      jb_updated_at = 30, jb_revision = 1, jb_cancellation_requested = False, jb_started_at = Some 30,
      jb_completed_at = None, jb_scan_id = None, jb_result_status = None, jb_report_ref = None,
      jb_audit_ref = None, jb_error_code = None, jb_error_message = None,
      jr_request_fingerprint = ex_sha, jr_worker_id = Some ''worker-1'',
      jr_lease_token = Some ''token-1'', jr_lease_expires_at = Some 60000030,
      jr_heartbeat_at = Some 30, jr_attempt_count = 1\<rparr>"

definition ex_row2 :: job_row where
  "ex_row2 =
     \<lparr>jb_job_id = ex_uuid (CHR ''2''), jb_request = ex_request ''request-2'' 20, jb_state = JOB_QUEUED,
      jb_updated_at = 20, jb_revision = 0, jb_cancellation_requested = False, jb_started_at = None,
      jb_completed_at = None, jb_scan_id = None, jb_result_status = None, jb_report_ref = None,
      jb_audit_ref = None, jb_error_code = None, jb_error_message = None,
      jr_request_fingerprint = ex_sha, jr_worker_id = None, jr_lease_token = None,
      jr_lease_expires_at = None, jr_heartbeat_at = None, jr_attempt_count = 0\<rparr>"

definition ex_schedule :: schedule_record where
  "ex_schedule =
     fresh_schedule (ex_uuid (CHR ''5'')) ex_org (ex_uuid (CHR ''9'')) ''nightly'' ''https://example.com/''
       (ex_uuid (CHR ''d'')) ex_sha CRAWL 3600 5 1"

definition ex_final :: job_db where
  "ex_final =
     \<lparr>scan_jobs = [ex_row1, ex_row2],
      job_scopes = [(ex_uuid (CHR ''1''), ex_org, ''u''), (ex_uuid (CHR ''2''), ex_org, ''u'')],
      job_permits = [(ex_uuid (CHR ''1''), ex_permit_id, ex_sha), (ex_uuid (CHR ''2''), ex_permit_id, ex_sha)],
      job_safety_receipts = [], scan_permits = [ex_permit_row], scan_schedules = [ex_schedule],
      schedule_permits = [(ex_uuid (CHR ''5''), ex_permit_id, ex_sha)],
      organization_authorizations = None\<rparr>"

definition ex_row1_queued :: job_row where
  "ex_row1_queued =
     ex_row1\<lparr>jb_state := JOB_QUEUED, jb_updated_at := 10, jb_revision := 0, jb_started_at := None,
       jr_worker_id := None, jr_lease_token := None, jr_lease_expires_at := None,
       jr_heartbeat_at := None, jr_attempt_count := 0\<rparr>"

text \<open>Continuations: the second job is cancelled; the permit is revoked before any claim.\<close>

definition ex_cancelled :: job_db where
  "ex_cancelled = store_exec ex_env (Request_Cancellation (ex_uuid (CHR ''2'')) 40) ex_final"

definition ex_revoked :: job_db where
  "ex_revoked = store_exec ex_env (Revoke_Permit ex_permit_id ex_org ''admin'' 50) ex_queued"

definition ex_submit3 :: store_op where
  "ex_submit3 =
     Submit (ex_request ''request-3'' 60) (ex_uuid (CHR ''3'')) (Some ex_org) (Some ''u'') None None"

text \<open>An environment whose digest tells the scan modes of requests apart.\<close>

definition ex_env2 :: py_env where
  "ex_env2 =
     ex_env\<lparr>env_digest := (\<lambda>j. case j of JObj [_, _, _, (_, JStr mode)] \<Rightarrow> mode | _ \<Rightarrow> [])\<rparr>"

definition ex_one :: job_db where
  "ex_one =
     store_exec ex_env2
       (Submit (ex_request ''request-1'' 10) (ex_uuid (CHR ''1'')) (Some ex_org) (Some ''u'') None None) empty_db"

section \<open>The run is a run of the machine\<close>

lemma reachable_exec:
  "reachable (\<lambda>db. db = empty_db) (store_step E) db \<Longrightarrow> admissible E op db \<Longrightarrow>
     reachable (\<lambda>db. db = empty_db) (store_step E) (store_exec E op db)"
  by (erule reachable_step) (rule store_step.exec)

lemma ex_request_ok: "request_ok ex_env (ex_request ''request-1'' 10)" "request_ok ex_env (ex_request ''request-2'' 20)"
  by code_simp+

lemma ex_target: "stable_target ex_env ''https://example.com/''"
  by code_simp

lemma ex_start_eq: "ex_start = store_exec ex_env (Create_Permit ex_permit) empty_db"
proof -
  have "new_permit_row ex_env ex_permit = ex_permit_row"
    by (simp add: new_permit_row_def ex_permit_row_def ex_permit_def ex_claims_def ex_permit_id_def
        permit_fingerprint_def ex_env_def ex_sha_def)
  then show ?thesis
    by (simp add: ex_start_def create_scan_permit_def snd_read_back empty_db_def Let_def)
qed

lemma ex_queued_reachable: "reachable (\<lambda>db. db = empty_db) (store_step ex_env) ex_queued"
  unfolding ex_queued_def fold_simps comp_def id_def ex_start_eq
  by (intro reachable_exec reachable_init)
    (simp_all add: ex_submit_def ex_schedule_op_def ex_request_ok ex_target)

lemma ex_reachable: "reachable (\<lambda>db. db = empty_db) (store_step ex_env) ex_db"
  unfolding ex_db_def by (intro reachable_exec ex_queued_reachable) simp

lemma ex_queued_inv: "store_inv ex_env ex_queued"
  by (rule store.reachable_inv [OF ex_queued_reachable])

lemma ex_inv: "store_inv ex_env ex_db"
  by (rule store.reachable_inv [OF ex_reachable])

lemma ex_db_final: "ex_db = ex_final"
  by code_simp

lemma ex_final_reachable: "reachable (\<lambda>db. db = empty_db) (store_step ex_env) ex_final"
  using ex_reachable by (simp only: ex_db_final)

lemma ex_final_inv: "store_inv ex_env ex_final"
  using ex_inv by (simp only: ex_db_final)

lemma ex_queued_final: "ex_queued = ex_final\<lparr>scan_jobs := [ex_row1_queued, ex_row2]\<rparr>"
  by code_simp

lemma ex_cancelled_reachable: "reachable (\<lambda>db. db = empty_db) (store_step ex_env) ex_cancelled"
proof -
  have "clock_after_submit (ex_uuid (CHR ''2'')) 40 ex_final"
    by code_simp
  then show ?thesis
    unfolding ex_cancelled_def by (intro reachable_exec ex_final_reachable) simp
qed

lemma ex_revoked_reachable: "reachable (\<lambda>db. db = empty_db) (store_step ex_env) ex_revoked"
  unfolding ex_revoked_def by (intro reachable_exec ex_queued_reachable) simp

lemma ex_revoked_eq:
  "ex_revoked = ex_queued\<lparr>scan_permits :=
     [ex_permit_row\<lparr>pr_revoked_at := Some 50, pr_revoked_by := Some ''admin''\<rparr>]\<rparr>"
  unfolding ex_revoked_def ex_queued_final
  by (simp add: revoke_scan_permit_scoped_def Let_def snd_read_back sql_find_def sql_update_def
      ex_final_def ex_permit_row_def)

lemma ex_submit3_steps: "(store_step ex_env)\<^sup>*\<^sup>* ex_revoked (store_exec ex_env ex_submit3 ex_revoked)"
proof -
  have "request_ok ex_env (ex_request ''request-3'' 60)"
    by code_simp
  then show ?thesis
    by (intro r_into_rtranclp store_step.exec) (simp add: ex_submit3_def)
qed

lemma ex_one_inv: "store_inv ex_env2 ex_one"
proof -
  have "request_ok ex_env2 (ex_request ''request-1'' 10)"
    by code_simp
  then show ?thesis
    unfolding ex_one_def by (intro store.reachable_inv reachable_exec reachable_init) simp_all
qed

end
