(* ===== verification/Store_Any.thy ===== *)
theory Store_Any
  imports Store_Machine
begin

text \<open>
  The store under every call: no condition on the arguments and on the clock readings, so that the
  tables may come to hold rows that no longer read back. What survives that too: identifiers stay
  unique, a permit runs one job, a finished row stays as it is, a revoked permit stays revoked, and
  a job starts running only from a claimable row.
\<close>

section \<open>Definitions\<close>

inductive any_step :: "py_env \<Rightarrow> job_db \<Rightarrow> job_db \<Rightarrow> bool" for E where
  exec: "any_step E db (store_exec E op db)"

inductive_cases any_stepE: "any_step E db db'"

definition table_inv :: "job_db \<Rightarrow> bool" where
  "table_inv db \<longleftrightarrow>
     distinct (map jb_job_id (scan_jobs db)) \<and> permit_exclusive db \<and> permits_inv db"

definition table_later :: "job_db \<Rightarrow> job_db \<Rightarrow> bool" where
  "table_later db db' \<longleftrightarrow>
     (\<forall>r \<in> set (scan_jobs db). \<exists>r' \<in> set (scan_jobs db'). later_row r r')
     \<and> (\<forall>p \<in> set (scan_permits db). \<exists>p' \<in> set (scan_permits db'). permit_step p p')"

text \<open>The rows that run afterwards ran before, or satisfy \<open>S\<close>.\<close>

definition starts_from :: "(job_row \<Rightarrow> bool) \<Rightarrow> job_db \<Rightarrow> job_db \<Rightarrow> bool" where
  "starts_from S db db' \<longleftrightarrow>
     (\<forall>r' \<in> set (scan_jobs db'). jb_state r' = JOB_RUNNING \<longrightarrow>
        (\<exists>r \<in> set (scan_jobs db). jb_job_id r = jb_job_id r' \<and> (jb_state r = JOB_RUNNING \<or> S r)))"

definition advances :: "(job_row \<Rightarrow> bool) \<Rightarrow> job_db \<Rightarrow> job_db \<Rightarrow> bool" where
  "advances S db db' \<longleftrightarrow>
     (table_inv db \<longrightarrow> table_inv db' \<and> table_later db db' \<and> starts_from S db db')"

abbreviation (input) no_start :: "job_row \<Rightarrow> bool" where
  "no_start \<equiv> \<lambda>_. False"

section \<open>Ways to advance\<close>

lemma stays_later:
  "r \<in> R \<Longrightarrow> \<exists>r' \<in> R. later_row r r'" "p \<in> A \<Longrightarrow> \<exists>p' \<in> A. permit_step p p'"
  using later_row_refl permit_step_refl by blast+

lemma table_later_refl: "table_later db db"
  by (simp add: table_later_def stays_later)

lemma table_later_trans:
  assumes "table_later a b" "table_later b c"
  shows "table_later a c"
  unfolding table_later_def
proof (intro conjI ballI)
  show "\<exists>r' \<in> set (scan_jobs c). later_row r r'" if "r \<in> set (scan_jobs a)" for r
    using assms that later_row_trans unfolding table_later_def by meson
  show "\<exists>p' \<in> set (scan_permits c). permit_step p p'" if "p \<in> set (scan_permits a)" for p
    using assms that permit_step_trans unfolding table_later_def by meson
qed

lemma advances_refl: "advances S db db"
  unfolding advances_def starts_from_def using table_later_refl by blast

lemma advances_trans: "advances no_start a b \<Longrightarrow> advances no_start b c \<Longrightarrow> advances no_start a c"
  unfolding advances_def starts_from_def using table_later_trans by simp metis

lemma advances_weaken: "advances no_start db db' \<Longrightarrow> advances S db db'"
  unfolding advances_def starts_from_def by blast

lemma advances_update:
  assumes step: "\<And>r. table_inv db \<Longrightarrow> r \<in> set (scan_jobs db) \<Longrightarrow> P r \<Longrightarrow> row_step r (f r)"
    and run: "\<And>r. table_inv db \<Longrightarrow> r \<in> set (scan_jobs db) \<Longrightarrow> P r \<Longrightarrow> jb_state (f r) = JOB_RUNNING \<Longrightarrow>
      jb_state r \<noteq> JOB_RUNNING \<Longrightarrow>
      S r \<and> (\<forall>p. permit_of db r = Some p \<longrightarrow> \<not> permit_running db p) \<and> (\<forall>r' \<in> set (scan_jobs db). P r' \<longrightarrow> r' = r)"
  shows "advances S db (update_jobs P f db)"
  unfolding advances_def
proof (intro impI conjI)
  assume inv: "table_inv db"
  have keep: "keeps_id P f db"
    using step [OF inv] row_step_key unfolding keeps_id_def by blast
  then have "map jb_job_id (sql_update P f (scan_jobs db)) = map jb_job_id (scan_jobs db)"
    by (auto simp: sql_update_def keeps_id_def)
  moreover have "permit_exclusive (update_jobs P f db)"
    using inv keep run [OF inv] by (intro permit_exclusive_update) (auto simp: table_inv_def)
  ultimately show "table_inv (update_jobs P f db)"
    using inv by (simp add: table_inv_def permits_inv_def)
  have "jobs_evolve (scan_jobs db) (sql_update P f (scan_jobs db))"
    using step [OF inv] by (intro jobs_evolve_update)
  then have "\<exists>r' \<in> set (sql_update P f (scan_jobs db)). later_row r r'" if "r \<in> set (scan_jobs db)" for r
    using jobs_evolve_member [OF _ that] row_step_later by metis
  then show "table_later db (update_jobs P f db)"
    by (simp add: table_later_def stays_later)
  show "starts_from S db (update_jobs P f db)"
    unfolding starts_from_def
  proof (intro ballI impI)
    fix r' assume "r' \<in> set (scan_jobs (update_jobs P f db))" and r': "jb_state r' = JOB_RUNNING"
    then obtain r where r: "r \<in> set (scan_jobs db)" "jb_job_id r' = jb_job_id r" "r' = (if P r then f r else r)"
      using updated_origin [OF keep] by auto
    then show "\<exists>r \<in> set (scan_jobs db). jb_job_id r = jb_job_id r' \<and> (jb_state r = JOB_RUNNING \<or> S r)"
      using run [OF inv r(1)] r' by (intro bexI [of _ r]) (auto split: if_splits)
  qed
qed

lemma advances_same_jobs:
  assumes "same_jobs db db'" "permits_evolve (scan_permits db) (scan_permits db')"
    and "permits_inv db \<Longrightarrow> permits_inv db'"
  shows "advances S db db'"
proof -
  have "\<exists>p' \<in> set (scan_permits db'). permit_step p p'" if "p \<in> set (scan_permits db)" for p
  proof -
    obtain mid tail where m: "scan_permits db' = mid @ tail" "list_all2 permit_step (scan_permits db) mid"
      using assms(2) by (auto simp: permits_evolve_def)
    then show ?thesis
      using list_all2_member [OF m(2) that] by (metis Un_iff set_append)
  qed
  then show ?thesis
    using assms(1,3) later_row_refl
    by (auto simp: advances_def table_inv_def table_later_def starts_from_def same_jobs_def
        permit_exclusive_def permit_of_def job_permit_of_def)
qed

lemma advances_same_tables:
  "same_jobs db db' \<Longrightarrow> scan_permits db' = scan_permits db \<Longrightarrow> advances S db db'"
  by (rule advances_same_jobs) (simp_all add: permits_inv_def)

lemma advances_insert:
  assumes "i \<notin> job_ids db"
  shows "advances S db (insert_job E (fresh_record i q) org by pid sha db)" (is "advances S db ?db")
  unfolding advances_def
proof (intro impI conjI)
  assume inv: "table_inv db"
  have "permit_of ?db r = permit_of db r" if "r \<in> set (scan_jobs db)" for r
  proof -
    have "jb_job_id r \<noteq> jb_job_id (fresh_record i q)"
      using that assms by (auto simp: job_ids_def)
    then show ?thesis by (simp add: permit_of_def insert_job_sel(5) del: fresh_record_sel)
  qed
  then have "permit_exclusive ?db"
    using inv by (auto simp: permit_exclusive_def insert_job_sel table_inv_def)
  moreover have "distinct (map jb_job_id (scan_jobs ?db))"
    using inv assms by (auto simp: insert_job_sel table_inv_def job_ids_def)
  ultimately show "table_inv ?db"
    using inv by (simp add: table_inv_def permits_inv_def insert_job_def)
  show "table_later db ?db"
    by (auto simp: table_later_def insert_job_def intro: stays_later later_row_refl)
  show "starts_from S db ?db"
    by (auto simp: starts_from_def insert_job_sel)
qed

section \<open>Every operation advances\<close>

lemma table_inv_id_unique:
  "table_inv db \<Longrightarrow> r \<in> set (scan_jobs db) \<Longrightarrow> r' \<in> set (scan_jobs db) \<Longrightarrow>
     jb_job_id r = jb_job_id r' \<Longrightarrow> r = r'"
  unfolding table_inv_def by (blast intro: key_unique)

lemma submit_advances: "advances S db (snd (submit E q i org by pid sha db))"
proof -
  have "advances S db (insert_job E rec org by pid sha db)"
    if "ScanJobRecord_post_init (fresh_record i q) = Inr rec" "fetch_job (jb_job_id rec) db = None" for rec
  proof -
    have "rec = fresh_record i q" "i \<notin> job_ids db"
      using fresh_record_post_init [OF that(1)] that(2) by (auto simp: fetch_job_def sql_find_None job_ids_def)
    then show ?thesis
      using advances_insert by simp
  qed
  then show ?thesis
    by (auto simp: submit_def advances_refl split: sum.splits option.splits if_splits)
qed

lemma claim_advances:
  assumes sel: "select_claimable_row db now = Some row" and step: "row_step row (f row)"
  shows "advances (\<lambda>r. \<exists>now. claimable db now r) db (update_jobs (cas row JOB_QUEUED) f db)"
proof (rule advances_update)
  note row = select_claimable_row_SomeD [OF sel]
  have only: "r = row" if "table_inv db" "r \<in> set (scan_jobs db)" "cas row JOB_QUEUED r" for r
    using table_inv_id_unique [OF that(1,2) row(1)] cas_id [OF that(3)] by simp
  show "row_step r (f r)" if "table_inv db" "r \<in> set (scan_jobs db)" "cas row JOB_QUEUED r" for r
    using only [OF that] step by simp
  show "(\<exists>now. claimable db now r) \<and> (\<forall>p. permit_of db r = Some p \<longrightarrow> \<not> permit_running db p)
      \<and> (\<forall>r' \<in> set (scan_jobs db). cas row JOB_QUEUED r' \<longrightarrow> r' = r)"
    if "table_inv db" "r \<in> set (scan_jobs db)" "cas row JOB_QUEUED r" for r
    using only [OF that] only [OF that(1)] row(2) claimable_permit [OF row(2)] by blast
qed

lemma claim_next_advances: "advances (\<lambda>r. \<exists>now. claimable db now r) db (snd (claim_next E now db))"
proof -
  have "advances (\<lambda>r. \<exists>now. claimable db now r) db (update_jobs (cas row JOB_QUEUED) (claim_row row t) db)"
    if "select_claimable_row db now = Some row" for row t
    using select_claimable_row_SomeD(2) [OF that]
    by (intro claim_advances [OF that] row_step_claim) (simp add: claimable_def)
  then show ?thesis
    by (auto simp: claim_next_def Let_def advances_refl split: option.splits)
qed

lemma claim_next_leased_advances:
  "advances (\<lambda>r. \<exists>now. claimable db now r) db (snd (claim_next_leased E now w d tok db))"
proof -
  have "advances (\<lambda>r. \<exists>now. claimable db now r) db (update_jobs (cas row JOB_QUEUED) (lease_row row t w' tok d') db)"
    if "select_claimable_row db now = Some row" for row t w' d'
    using select_claimable_row_SomeD(2) [OF that]
    by (intro claim_advances [OF that] row_step_lease) (simp add: claimable_def)
  then show ?thesis
    by (auto simp: claim_next_leased_def Let_def advances_refl split: option.splits sum.splits prod.splits)
qed

lemma renew_lease_advances: "advances S db (snd (renew_lease E i w tok now d db))"
proof -
  have "advances S db (update_jobs (lease_cas row w' tok) (renew_row row t d') db)" for row w' t d'
    by (rule advances_update)
      (auto simp: lease_cas_def cas_def row_step_def renew_row_def lifecycle_simps)
  then show ?thesis
    by (auto simp: renew_lease_def Let_def advances_refl split: option.splits sum.splits prod.splits)
qed

lemma recover_one_advances:
  "advances no_start (db\<lparr>scan_jobs := jobs\<rparr>) (db\<lparr>scan_jobs := fst (recover_one now limit row (jobs, s))\<rparr>)"
proof -
  have "advances no_start (db\<lparr>scan_jobs := jobs\<rparr>)
      (update_jobs (token_cas row) (recover_row k row t) (db\<lparr>scan_jobs := jobs\<rparr>))" for k t
    by (rule advances_update)
      (auto simp: token_cas_def cas_def row_step_def recover_row_state lifecycle_simps is_terminal_def
        split: recovery.splits)
  then show ?thesis
    by (simp add: recover_one_def Let_def update_jobs_def)
qed

lemma recover_fold_advances:
  "advances no_start (db\<lparr>scan_jobs := jobs\<rparr>) (db\<lparr>scan_jobs := fst (fold (recover_one now limit) rows (jobs, s))\<rparr>)"
proof (induction rows arbitrary: jobs s)
  case Nil
  then show ?case by (simp add: advances_refl)
next
  case (Cons row rows)
  show ?case
    using advances_trans [OF recover_one_advances [where db = db and jobs = jobs and row = row and s = s]]
      Cons.IH [of "fst (recover_one now limit row (jobs, s))" "snd (recover_one now limit row (jobs, s))"]
    by simp
qed

lemma recover_advances: "advances S db (snd (recover_expired_leases now m db))"
  using advances_weaken [OF recover_fold_advances [where db = db and jobs = "scan_jobs db"]] advances_refl
  by (auto simp: recover_expired_leases_def Let_def split: sum.split prod.split) (metis fst_conv)

lemma cancel_advances:
  assumes row: "fetch_job i db = Some row" and rec: "record_from_row E row = Inr rec"
    and nt: "\<not> is_terminal (jb_state rec)"
  shows "advances S db (update_jobs (\<lambda>r. jb_job_id r = i \<and> jb_revision r = jb_revision rec)
      (if jb_state rec = JOB_QUEUED then cancel_queued_row rec now else cancel_request_row rec now) db)"
    (is "advances S db (update_jobs ?P ?f db)")
proof (rule advances_update)
  note same = record_from_row_fields [OF rec]
  have st: "jb_state row = JOB_QUEUED \<or> jb_state row = JOB_RUNNING"
    using nt same(2) by (cases "jb_state row") (auto simp: is_terminal_def)
  have only: "r = row" if "table_inv db" "r \<in> set (scan_jobs db)" "?P r" for r
    using table_inv_id_unique [OF that(1,2)] fetch_job_SomeD [OF row] that(3) by auto
  show "row_step r (?f r)" if "table_inv db" "r \<in> set (scan_jobs db)" "?P r" for r
    using only [OF that] st same
    by (auto simp: row_step_def lifecycle_simps is_terminal_def cancel_queued_row_def cancel_request_row_def)
  fix r
  assume r: "table_inv db" "r \<in> set (scan_jobs db)" "?P r"
    and "jb_state (?f r) = JOB_RUNNING" "jb_state r \<noteq> JOB_RUNNING"
  then have False
    using only [OF r] st same by (auto simp: cancel_queued_row_def cancel_request_row_def)
  then show "S r \<and> (\<forall>p. permit_of db r = Some p \<longrightarrow> \<not> permit_running db p)
      \<and> (\<forall>r' \<in> set (scan_jobs db). ?P r' \<longrightarrow> r' = r)" ..
qed

lemma cancellation_advances: "advances S db (snd (request_cancellation E i now db))"
proof (cases "fetch_job i db")
  case (Some row)
  show ?thesis
  proof (cases "record_from_row E row")
    case (Inr rec)
    then show ?thesis
      using cancel_advances [OF Some Inr] Some
      by (cases "is_terminal (jb_state rec)")
        (simp_all add: request_cancellation_def Let_def advances_refl snd_read_back del: if_split)
  qed (simp add: request_cancellation_def Some advances_refl)
qed (simp add: request_cancellation_def advances_refl)

lemma cancellation_scoped_advances: "advances S db (snd (request_cancellation_scoped E i org now db))"
  using cancellation_advances by (simp add: request_cancellation_scoped_def advances_refl split: sum.split)

lemma add_receipt_sel [simp]:
  "scan_jobs (add_receipt i out t db) = scan_jobs db" "job_permits (add_receipt i out t db) = job_permits db"
  "scan_permits (add_receipt i out t db) = scan_permits db"
  by (simp_all add: add_receipt_def split: option.split)

lemma advances_receipt: "advances S db db' \<Longrightarrow> advances S db (add_receipt i out t db')"
  by (simp add: advances_def table_inv_def table_later_def starts_from_def permits_inv_def permit_exclusive_def
      permit_of_def job_permit_of_def)

lemma terminal_advances:
  assumes "is_terminal (oc_state out)"
  shows "advances S db (snd (terminal_update E i w tok out now db))"
proof -
  have "advances S db (update_jobs (terminal_cas rec w' tok) (terminal_row rec out t) db)" for rec w' t
    using assms
    by (intro advances_update)
      (auto simp: terminal_cas_def row_step_def intro: lifecycle.finished)
  then show ?thesis
    by (auto simp: terminal_update_def terminal_write_def Let_def advances_refl advances_receipt
        split: option.split sum.split)
qed

lemma finish_advances:
  "advances S db (snd (finish_result E i sid st rr ar now rf rs db))"
  "advances S db (snd (finish_result_leased E i w tok sid st rr ar now rf rs db))"
  by (auto simp: finish_result_def finish_result_leased_def result_outcome_def advances_refl
      intro!: terminal_advances dest: expected_result_state_terminal split: option.split sum.split)

lemma set_schedule_state_advances: "advances S db (snd (set_schedule_state E i org state now nxt db))"
  by (auto simp: set_schedule_state_def Let_def snd_read_back advances_refl same_jobs_def update_schedules_def
      intro!: advances_same_tables split: option.split)

lemma schedule_advances:
  "advances S db (snd (create_schedule E org by n t aid sha m iv st now i pid psha db))"
  "advances S db (snd (pause_schedule_scoped E i org now db))"
  "advances S db (snd (resume_schedule_scoped E i org now db))"
  "advances S db (snd (block_due_schedule E i k code now db))"
  by (auto simp: create_schedule_def insert_schedule_def pause_schedule_scoped_def resume_schedule_scoped_def
      block_due_schedule_def Let_def snd_read_back advances_refl same_jobs_def update_schedules_def
      set_schedule_state_advances intro!: advances_same_tables split: sum.split)

lemma update_schedules_advances: "advances S db db' \<Longrightarrow> advances S db (update_schedules P f db')"
  by (simp add: advances_def table_inv_def table_later_def starts_from_def permits_inv_def permit_exclusive_def
      permit_of_def job_permit_of_def update_schedules_def)

lemma enqueue_advances: "advances S db (snd (enqueue_due_schedule E i k sha pid psha now j db))"
proof -
  have "advances S db (snd (enqueue_write E s k sha pid psha now rec db))"
    if r: "ScanJobRecord_post_init (fresh_record j q) = Inr rec" for s rec q
  proof (cases "fetch_job j db = None")
    case True
    then have "j \<notin> job_ids db"
      by (auto simp: fetch_job_def sql_find_None job_ids_def)
    then show ?thesis
      using fresh_record_post_init [OF r]
      by (auto simp: enqueue_write_def Let_def snd_read_back advances_refl update_schedules_advances advances_insert)
  next
    case False
    then show ?thesis
      using fresh_record_post_init [OF r] by (simp add: enqueue_write_def Let_def advances_refl)
  qed
  then show ?thesis
    by (auto simp: enqueue_due_schedule_def advances_refl bindE_eq_Inr split: option.split sum.split)
qed

lemma permit_advances:
  "advances S db (snd (create_scan_permit E p db))"
  "advances S db (snd (revoke_scan_permit_scoped E pid org by now db))"
  using create_scan_permit_frame create_scan_permit_inv revoke_scan_permit_frame revoke_scan_permit_inv
  by (blast intro: advances_same_jobs)+

lemmas op_advances =
  submit_advances claim_next_advances claim_next_leased_advances renew_lease_advances recover_advances
  cancellation_advances cancellation_scoped_advances finish_advances schedule_advances enqueue_advances
  permit_advances

theorem store_exec_advances: "advances (\<lambda>r. \<exists>now. claimable db now r) db (store_exec E op db)"
proof (cases op)
  case (Complete i s sid st rr ar now)
  then show ?thesis
    by (simp add: complete_job_def advances_refl finish_advances)
next
  case (Assign_Authorizations rows)
  then show ?thesis
    by (auto simp: same_jobs_def intro: advances_same_tables)
qed (auto simp: op_advances fail_job_def fail_leased_def cancel_running_def cancel_running_leased_def
    failure_outcome_def cancel_outcome_def is_terminal_def intro!: terminal_advances)

lemma table_inv_empty: "table_inv empty_db"
  by (simp add: table_inv_def empty_db_def permit_exclusive_def permits_inv_def)

lemma any_step_advances:
  "any_step E db db' \<Longrightarrow> table_inv db \<Longrightarrow> table_inv db' \<and> table_later db db'"
  using store_exec_advances by (auto simp: advances_def elim!: any_stepE)

interpretation any: machine_progress "\<lambda>db. db = empty_db" "any_step E" table_inv table_later for E
  by unfold_locales (auto simp: table_inv_empty table_later_refl intro: table_later_trans dest: any_step_advances)

lemma store_step_any: "store_step E db db' \<Longrightarrow> any_step E db db'"
  by (auto elim!: store_stepE intro: any_step.exec)

lemma any_steps: "(store_step E)\<^sup>*\<^sup>* db db' \<Longrightarrow> (any_step E)\<^sup>*\<^sup>* db db'"
  by (rule mono_rtranclp [rule_format]) (rule store_step_any)

lemma any_reachable: "reachable init (store_step E) db \<Longrightarrow> reachable init (any_step E) db"
  unfolding reachable_def using any_steps by blast

section \<open>What a claim returns\<close>

lemma claim_next_result:
  assumes "fst (claim_next E now db) = Inr (Some rec)"
  obtains row where "claimable db now row" "jb_job_id rec = jb_job_id row"
proof -
  obtain row claimed where row: "select_claimable_row db now = Some row"
    and rec: "record_from_row E claimed = Inr rec" and f: "jb_job_id claimed = jb_job_id row"
    using assms
    by (auto simp: claim_next_def Let_def bindE_eq_Inr split: option.splits if_splits dest!: fetch_job_SomeD)
  then show thesis
    using that [of row] select_claimable_row_SomeD(2) [OF row] record_from_row_fields(1) [OF rec] by simp
qed

lemma claim_next_leased_result:
  assumes "fst (claim_next_leased E now w d tok db) = Inr (Some l)"
  obtains row where "claimable db now row" "jb_job_id (lj_record l) = jb_job_id row"
proof -
  obtain row claimed where row: "select_claimable_row db now = Some row"
    and rec: "lease_from_row E claimed = Inr l" and f: "jb_job_id claimed = jb_job_id row"
    using assms
    by (auto simp: claim_next_leased_def Let_def bindE_eq_Inr
        split: option.splits if_splits sum.splits prod.splits dest!: fetch_job_SomeD)
  have "record_from_row E claimed = Inr (lj_record l)"
    using rec by (auto simp: lease_from_row_def bindE_eq_Inr split: option.splits)
  then show thesis
    using that [of row] select_claimable_row_SomeD(2) [OF row] record_from_row_fields(1) f by fastforce
qed

end
