(* ===== verification/Store_Props.thy ===== *)
theory Store_Props
  imports Queue_Lemmas Store_Examples Store_Any
begin

text \<open>
  The guarantees of the job queue: what holds in every state that admissible calls produce, what
  holds after any calls, and what each operation does on success and on failure.
\<close>

section \<open>Reachable states\<close>

text \<open>
  C1. Admissible calls keep the store well formed. Calls are admissible if requests and targets are
  canonical, scan identifiers, artifact references, error codes and messages are ones that the
  records accept, and a renewal, a cancellation or a change of a schedule has a clock reading that is
  not before the start, the submission or the creation of its row. The store does not check this
  itself. Every state that admissible calls can produce from an empty database satisfies the
  invariant: all job rows and schedule rows are well formed and read back, identifiers and
  idempotency keys are unique, bindings refer to stored rows, and at most one job runs per permit.
\<close>

theorem reachable_store_inv:
  "reachable (\<lambda>db. db = empty_db) (store_step E) db \<Longrightarrow> store_inv E db"
  by (rule store.reachable_inv)

theorem reachable_store_inv_witness: "store_inv ex_env ex_final"
  using reachable_store_inv [OF ex_final_reachable] .

text \<open>
  C2. A finished job is final: once a row is completed, failed or cancelled, no sequence of
  calls changes it or removes it, whatever their arguments and clock readings are.
\<close>

theorem terminal_row_final:
  assumes "reachable (\<lambda>db. db = empty_db) (any_step E) db" "(any_step E)\<^sup>*\<^sup>* db db'"
    and "r \<in> set (scan_jobs db)" "is_terminal (jb_state r)"
  shows "r \<in> set (scan_jobs db')"
  using any.reachable_rel [OF assms(1,2)] assms(3,4)
  by (fastforce simp: table_later_def later_row_def)

theorem terminal_row_final_witness:
  "scan_jobs ex_cancelled ! 1 \<in>
     set (scan_jobs (store_exec ex_env (Request_Cancellation (ex_uuid (CHR ''1'')) 0) ex_cancelled))"
proof -
  have "length (scan_jobs ex_cancelled) = 2" "is_terminal (jb_state (scan_jobs ex_cancelled ! 1))"
    by code_simp+
  moreover have "(any_step ex_env)\<^sup>*\<^sup>* ex_cancelled
      (store_exec ex_env (Request_Cancellation (ex_uuid (CHR ''1'')) 0) ex_cancelled)"
    by (intro r_into_rtranclp any_step.exec)
  ultimately show ?thesis
    using terminal_row_final [OF any_reachable [OF ex_cancelled_reachable]] by simp
qed

text \<open>
  C3. At most one job per permit runs at any time, after any sequence of calls with any arguments.
\<close>

theorem one_running_job_per_permit:
  assumes "reachable (\<lambda>db. db = empty_db) (any_step E) db"
    and "r \<in> set (scan_jobs db)" "jb_state r = JOB_RUNNING"
    and "r' \<in> set (scan_jobs db)" "jb_state r' = JOB_RUNNING"
    and "get_job_permit_binding (jb_job_id r) db = Some (p, sha)"
    and "get_job_permit_binding (jb_job_id r') db = Some (p, sha')"
  shows "r = r'"
  using any.reachable_inv [OF assms(1)] assms(2-)
  by (auto simp: table_inv_def permit_exclusive_def permit_of_def get_job_permit_binding_def)

theorem one_running_job_per_permit_witness:
  "\<exists>r \<in> set (scan_jobs ex_final). jb_state r = JOB_RUNNING
     \<and> (\<forall>r' \<in> set (scan_jobs ex_final). jb_state r' = JOB_RUNNING \<longrightarrow> r' = r)"
proof -
  have b: "get_job_permit_binding (jb_job_id ex_row1) ex_final = Some (ex_permit_id, ex_sha)"
    "get_job_permit_binding (jb_job_id ex_row2) ex_final = Some (ex_permit_id, ex_sha)"
    by code_simp+
  have m: "set (scan_jobs ex_final) = {ex_row1, ex_row2}" "jb_state ex_row1 = JOB_RUNNING"
    by (simp_all add: ex_final_def ex_row1_def)
  have "r' = ex_row1" if "r' \<in> set (scan_jobs ex_final)" "jb_state r' = JOB_RUNNING" for r'
    using one_running_job_per_permit [OF any_reachable [OF ex_final_reachable] that, of ex_row1] that b m by auto
  then show ?thesis
    using m by blast
qed

text \<open>
  C4. A revoked permit never starts another job. After its revocation, and after any further calls
  with any arguments, no call makes a job run that is bound to the permit and was not running, and
  neither of the two claiming operations returns such a job.
\<close>

theorem revoked_permit_never_claims:
  assumes db: "reachable (\<lambda>db. db = empty_db) (any_step E) db" "(any_step E)\<^sup>*\<^sup>* db db'"
    and p: "p \<in> set (scan_permits db)" "pr_revoked_at p \<noteq> None"
  shows "(\<forall>op. \<forall>r' \<in> set (scan_jobs (store_exec E op db')). jb_state r' = JOB_RUNNING \<longrightarrow>
        map_option fst (get_job_permit_binding (jb_job_id r') db') = Some (pr_permit_id p) \<longrightarrow>
        (\<exists>r \<in> set (scan_jobs db'). jb_job_id r = jb_job_id r' \<and> jb_state r = JOB_RUNNING))
    \<and> (\<forall>now w d tok l. fst (claim_next_leased E now w d tok db') = Inr (Some l) \<longrightarrow>
        map_option fst (get_job_permit_binding (jb_job_id (lj_record l)) db') \<noteq> Some (pr_permit_id p))
    \<and> (\<forall>now rec. fst (claim_next E now db') = Inr (Some rec) \<longrightarrow>
        map_option fst (get_job_permit_binding (jb_job_id rec) db') \<noteq> Some (pr_permit_id p))"
proof -
  have inv: "table_inv db'"
    using any.steps_inv [OF db(2) any.reachable_inv [OF db(1)]] .
  have "p \<in> set (scan_permits db')"
    using any.reachable_rel [OF db] p by (fastforce simp: table_later_def permit_step_def)
  then have dead: "p' = p" if "p' \<in> set (scan_permits db')" "pr_permit_id p' = pr_permit_id p" for p'
    using inv that by (auto simp: table_inv_def permits_inv_def dest: key_unique)
  have no: "map_option fst (get_job_permit_binding (jb_job_id row) db') \<noteq> Some (pr_permit_id p)"
    if "claimable db' now row" for now row
    using claimed_permit_live [OF that] dead p(2) by (fastforce simp: get_job_permit_binding_def)
  have "starts_from (\<lambda>r. \<exists>now. claimable db' now r) db' (store_exec E op db')" for op
    using store_exec_advances inv by (simp add: advances_def)
  then show ?thesis
    using no claim_next_result claim_next_leased_result unfolding starts_from_def by metis
qed

theorem revoked_permit_never_claims_witness:
  "\<exists>l. fst (claim_next_leased ex_env 70 ''worker-1'' 60 ''token-2'' (store_exec ex_env ex_submit3 ex_revoked))
       = Inr (Some l)
     \<and> map_option fst (get_job_permit_binding (jb_job_id (lj_record l)) (store_exec ex_env ex_submit3 ex_revoked))
       \<noteq> Some ex_permit_id"
proof -
  let ?db = "store_exec ex_env ex_submit3 ex_revoked"
  let ?c = "claim_next_leased ex_env 70 ''worker-1'' 60 ''token-2'' ?db"
  have "case fst ?c of Inr (Some l) \<Rightarrow> True | _ \<Rightarrow> False"
    unfolding ex_revoked_eq ex_queued_final by code_simp
  then obtain l where l: "fst ?c = Inr (Some l)"
    by (auto split: sum.splits option.splits)
  have p: "ex_permit_row\<lparr>pr_revoked_at := Some 50, pr_revoked_by := Some ''admin''\<rparr> \<in> set (scan_permits ex_revoked)"
    by (simp add: ex_revoked_eq)
  have "pr_permit_id (ex_permit_row\<lparr>pr_revoked_at := Some 50, pr_revoked_by := Some ''admin''\<rparr>) = ex_permit_id"
    by (simp add: ex_permit_row_def)
  then show ?thesis
    using revoked_permit_never_claims [OF any_reachable [OF ex_revoked_reachable] any_steps [OF ex_submit3_steps] p] l
    by auto
qed

section \<open>Leases\<close>

text \<open>
  C5. Lease fencing. A worker's terminal transition or renewal takes effect, or succeeds, only on a
  job that is running under exactly that worker's lease token, before the lease expires; otherwise
  it changes nothing.
\<close>

theorem lease_fencing:
  assumes "terminal_update E i (Some w) (Some tok) out now db = (res, db') \<and> (db' \<noteq> db \<or> succeeds res)
    \<or> renew_lease E i w tok now d db = (res2, db') \<and> (db' \<noteq> db \<or> succeeds res2)"
  shows "\<exists>row x. fetch_job i db = Some row \<and> jb_state row = JOB_RUNNING
    \<and> jr_worker_id row = Some (py_strip w) \<and> jr_lease_token row = Some tok
    \<and> jr_lease_expires_at row = Some x \<and> now < x"
proof -
  obtain w' row where f: "check_worker_id w = Inr w'" "fetch_job i db = Some row"
    "require_active_lease row w' tok now = Inr ()"
    using assms terminal_update_leasedE renew_lease_cases by metis
  then show ?thesis
    using check_worker_id_strip [OF f(1)] require_active_leaseD [OF f(3)] by blast
qed

theorem lease_fencing_witness:
  "\<exists>row x. fetch_job (ex_uuid (CHR ''1'')) ex_final = Some row \<and> jb_state row = JOB_RUNNING
    \<and> jr_worker_id row = Some (py_strip '' worker-1'') \<and> jr_lease_token row = Some ''token-1''
    \<and> jr_lease_expires_at row = Some x \<and> 50 < x"
proof -
  let ?r = "renew_lease ex_env (ex_uuid (CHR ''1'')) '' worker-1'' ''token-1'' 50 60 ex_final"
  have "succeeds (fst ?r)"
    by code_simp
  then show ?thesis
    by (intro lease_fencing [where E = ex_env and d = 60 and ?res2.0 = "fst ?r" and db' = "snd ?r"]) simp
qed

text \<open>
  A job under a lease cannot be finished by anyone else: with another token, or with none, every
  terminal transition fails and leaves the database as it is, whatever the outcome and the clock.
\<close>

theorem leased_job_needs_token:
  assumes "fetch_job i db = Some row" "jr_lease_token row = Some t" "tok \<noteq> Some t"
  shows "\<exists>e. terminal_update E i w tok out now db = (Inl e, db)"
proof -
  have "\<exists>e. terminal_write E i w' tok out now row rec db = (Inl e, db)" if "w' = None \<longleftrightarrow> tok = None" for w' rec
    using assms that
    by (cases w'; cases tok) (auto simp: terminal_write_def Let_def terminal_lease_check_def require_active_lease_def)
  moreover have "w' = None \<longleftrightarrow> w = None" if "mapE_option check_worker_id w = Inr w'" for w'
    using mapE_option_None_iff [OF that] .
  ultimately show ?thesis
    using assms(1) by (auto simp: terminal_update_def split: sum.splits)
qed

theorem leased_job_needs_token_witness:
  "\<exists>e. cancel_running ex_env (ex_uuid (CHR ''1'')) 50 ex_final = (Inl e, ex_final)"
proof -
  have "fetch_job (ex_uuid (CHR ''1'')) ex_final = Some ex_row1" "jr_lease_token ex_row1 = Some ''token-1''"
    by code_simp+
  then show ?thesis
    unfolding cancel_running_def by (rule leased_job_needs_token) simp
qed

text \<open>
  C6. Claiming under a lease. With valid arguments the operation takes the oldest claimable job, by
  submission time and then identifier, and the database afterwards is the one before with exactly
  that row replaced: it is running from now on (or from its submission, if the clock is behind it)
  under a lease of the given duration, with its attempt counted. It returns nothing, and changes
  nothing, exactly when no job is claimable.
\<close>

theorem claim_next_leased_oldest:
  assumes "store_inv E db" "check_worker_id w = Inr w'" "check_lease_seconds d = Inr d'"
    and "claim_next_leased E now w d tok db = (res, db')"
  shows "res = Inr None \<and> db' = db \<and> (\<forall>r \<in> set (scan_jobs db). \<not> claimable db now r)
    \<or> (\<exists>l row t. res = Inr (Some l) \<and> row \<in> set (scan_jobs db) \<and> claimable db now row
        \<and> (\<forall>r \<in> set (scan_jobs db). claimable db now r \<longrightarrow> feed_key row \<le> feed_key r)
        \<and> t = max now (rq_submitted_at (jb_request row))
        \<and> db' = db\<lparr>scan_jobs := map (\<lambda>r. if r = row then
              row\<lparr>jb_state := JOB_RUNNING, jb_started_at := Some t, jb_updated_at := t,
                jb_revision := jb_revision row + 1, jr_worker_id := Some w', jr_lease_token := Some tok,
                jr_lease_expires_at := Some (t + timedelta_seconds d'), jr_heartbeat_at := Some t,
                jr_attempt_count := jr_attempt_count row + 1\<rparr> else r) (scan_jobs db)\<rparr>
        \<and> lj_worker_id l = w' \<and> lj_lease_token l = tok \<and> lj_lease_expires_at l = t + timedelta_seconds d'
        \<and> now < lj_lease_expires_at l \<and> lj_attempt_count l = jr_attempt_count row + 1
        \<and> jb_job_id (lj_record l) = jb_job_id row \<and> jb_state (lj_record l) = JOB_RUNNING)"
proof (cases "select_claimable_row db now")
  case None
  then have "claim_next_leased E now w d tok db = (Inr None, db)"
    using assms(2,3) by (simp add: claim_next_leased_def)
  then show ?thesis
    using assms(4) None by (simp add: select_claimable_row_None)
next
  case (Some row)
  have inv: "db_inv E db"
    using assms(1) by (simp add: store_inv_def)
  note row = select_claimable_row_SomeD [OF Some]
  let ?t = "max now (rq_submitted_at (jb_request row))"
  let ?f = "lease_row row ?t w' tok d'"
  obtain rec where c: "claim_next_leased E now w d tok db =
      (Inr (Some \<lparr>lj_record = rec, lj_worker_id = w', lj_lease_token = tok,
         lj_lease_expires_at = ?t + timedelta_seconds d', lj_attempt_count = jr_attempt_count row + 1\<rparr>),
       update_jobs (cas row JOB_QUEUED) ?f db)" and rec: "record_from_row E (?f row) = Inr rec"
    using claim_next_leased_cases [OF inv assms(2,3) Some] by blast
  have "cas row JOB_QUEUED r \<longleftrightarrow> r = row" if "r \<in> set (scan_jobs db)" for r
    using db_inv_id_unique [OF inv that row(1)] row(2) by (auto simp: cas_def claimable_def)
  then have "update_jobs (cas row JOB_QUEUED) ?f db
      = db\<lparr>scan_jobs := map (\<lambda>r. if r = row then ?f row else r) (scan_jobs db)\<rparr>"
    by (simp add: update_jobs_def sql_update_def cong: map_cong)
  moreover have "jb_job_id rec = jb_job_id row" "jb_state rec = JOB_RUNNING"
    using record_from_row_fields [OF rec] by (simp_all add: lease_row_def claim_row_def)
  moreover have "now < ?t + timedelta_seconds d'"
    using check_lease_seconds_pos [OF assms(3)] by simp
  ultimately show ?thesis
    using assms(4) row unfolding c lease_row_def claim_row_def
    by (intro disjI2, intro exI [where x = row] exI [where x = ?t] exI) auto
qed

theorem claim_next_leased_oldest_witness:
  "\<exists>l. fst (claim_next_leased ex_env 30 ''worker-1'' 60 ''token-1'' ex_queued) = Inr (Some l)
     \<and> jb_job_id (lj_record l) = ex_uuid (CHR ''1'')"
proof -
  let ?c = "claim_next_leased ex_env 30 ''worker-1'' 60 ''token-1'' ex_queued"
  have c: "check_worker_id ''worker-1'' = Inr ''worker-1''" "check_lease_seconds 60 = Inr 60"
    by code_simp+
  have k: "claimable ex_queued 30 ex_row1_queued" "feed_key ex_row1_queued < feed_key ex_row2"
    unfolding ex_queued_final by code_simp+
  have m: "set (scan_jobs ex_queued) = {ex_row1_queued, ex_row2}" "jb_job_id ex_row1_queued = ex_uuid (CHR ''1'')"
    by (simp_all add: ex_queued_final ex_row1_queued_def ex_row1_def)
  show ?thesis
    using claim_next_leased_oldest [OF ex_queued_inv c, of 30 "''token-1''" "fst ?c" "snd ?c"] k m by auto
qed

text \<open>
  C7. Recovery of lost workers. Afterwards no running job has an expired lease; jobs without an
  expired lease are untouched; each expired job is cancelled if that was requested, failed if its
  attempts are used up and queued again otherwise, without a lease; and the summary counts exactly
  the expired jobs.
\<close>

theorem recovery_complete:
  assumes "store_inv E db" "check_maximum_attempts m = Inr limit"
    and "recover_expired_leases now m db = (res, db')"
  shows "(\<forall>r \<in> set (scan_jobs db'). \<not> lease_expired now r)
    \<and> (\<forall>r \<in> set (scan_jobs db). \<not> lease_expired now r \<longrightarrow> r \<in> set (scan_jobs db'))
    \<and> (\<forall>r \<in> set (scan_jobs db). lease_expired now r \<longrightarrow>
      (\<exists>r' \<in> set (scan_jobs db'). jb_job_id r' = jb_job_id r \<and> jr_lease_token r' = None
        \<and> jb_state r' = (if jb_cancellation_requested r then JOB_CANCELLED
             else if jr_attempt_count r \<ge> limit then JOB_FAILED else JOB_QUEUED)))
    \<and> (\<exists>s. res = Inr s \<and> rs_requeued s + rs_cancelled s + rs_failed s
        = length (filter (lease_expired now) (scan_jobs db)))"
proof -
  have eq: "res = Inr (summary_of limit (sql_order expired_key (filter (lease_expired now) (scan_jobs db)))
            \<lparr>rs_requeued = 0, rs_cancelled = 0, rs_failed = 0\<rparr>)"
    and jobs: "scan_jobs db' = sql_update (lease_expired now) (recover_update now limit) (scan_jobs db)"
    using recover_jobs [of E db m limit now] assms by (auto simp: store_inv_def)
  have "\<exists>r' \<in> set (scan_jobs db'). jb_job_id r' = jb_job_id r \<and> jr_lease_token r' = None
        \<and> jb_state r' = (if jb_cancellation_requested r then JOB_CANCELLED
             else if jr_attempt_count r \<ge> limit then JOB_FAILED else JOB_QUEUED)"
    if "r \<in> set (scan_jobs db)" "lease_expired now r" for r
    using sql_update_hit [of r _ "lease_expired now" "recover_update now limit"] that unfolding jobs
    by (intro bexI [of _ "recover_update now limit r"]) (simp_all add: recover_update_state)
  moreover have "length (filter (\<lambda>r. recovery_of limit r = Recover_Requeued) rows)
      + length (filter (\<lambda>r. recovery_of limit r = Recover_Cancelled) rows)
      + length (filter (\<lambda>r. recovery_of limit r = Recover_Failed) rows) = length rows" for rows
    by (induction rows) (auto simp: recovery_of_def)
  then have "\<exists>s. res = Inr s \<and> rs_requeued s + rs_cancelled s + rs_failed s
        = length (filter (lease_expired now) (scan_jobs db))"
    unfolding eq by (simp add: summary_of_counts) (simp add: sql_order_def)
  moreover have "\<forall>r \<in> set (scan_jobs db'). \<not> lease_expired now r"
    unfolding jobs by (auto simp: set_sql_update lease_expired_def recover_update_state)
  ultimately show ?thesis
    unfolding jobs by (simp add: sql_update_other)
qed

theorem recovery_complete_witness:
  "\<exists>s. fst (recover_expired_leases 70000000 3 ex_final) = Inr s \<and> rs_requeued s + rs_cancelled s + rs_failed s = 1"
proof -
  have c: "check_maximum_attempts 3 = Inr 3"
    by code_simp
  have "length (filter (lease_expired 70000000) (scan_jobs ex_final)) = 1"
    by code_simp
  then show ?thesis
    using recovery_complete [OF ex_final_inv c, of 70000000 "fst (recover_expired_leases 70000000 3 ex_final)"
        "snd (recover_expired_leases 70000000 3 ex_final)"] by simp
qed

section \<open>Submission and reading\<close>

text \<open>
  C17. Submission is idempotent: repeating an accepted submission of a canonical request, with whatever
  fresh identifier, returns the same record, does not create a job and leaves the database as it is. The first
  submission added one queued job at the end of the table if it said so, and wrote nothing otherwise.
\<close>

theorem submit_idempotent:
  assumes q: "request_ok E q" and j: "uuid_shape j"
    and first: "submit E q i org by pid psha db = (Inr (rec, created), db1)"
  shows "submit E q j org by pid psha db1 = (Inr (rec, False), db1)
    \<and> (if created then \<exists>row. scan_jobs db1 = scan_jobs db @ [row] \<and> jb_job_id row = i \<and> jb_state row = JOB_QUEUED
         \<and> jb_request row = q
       else db1 = db)"
  using first
proof (cases rule: submit_InrE)
  case new
  note g = submit_guards [OF first]
  have f: "sql_find (\<lambda>r. rq_idempotency_key (jb_request r) = rq_idempotency_key q) (scan_jobs db1)
      = Some (new_row E (fresh_record i q))"
    using new by (simp add: insert_job_def sql_find_append) (simp add: sql_find_def)
  have "org = None \<or> map_option fst (job_scope_of db1 i) = org"
    using new g by (auto simp: insert_job_def job_scope_of_def keyed_append option_pair_def)
  moreover have "pid = None \<or> map_option fst (job_permit_of db1 i) = pid \<and> map_option snd (job_permit_of db1 i) = psha"
    using new g by (auto simp: insert_job_def job_permit_of_def keyed_append option_pair_def)
  moreover have "jr_request_fingerprint (new_row E (fresh_record i q)) = request_fingerprint E q"
    by (simp add: new_row_def job_row.defs scan_job_record.defs)
  ultimately have "resubmit E (new_row E (fresh_record i q)) q org pid psha db1 = Inr (rec, False)"
    using record_from_new_row [OF q new(2)] new(3) by (auto simp: resubmit_def raise_if_def)
  then show ?thesis
    using submit_again [OF first j f] new
    by (simp add: insert_job_def new_row_def fresh_record_def job_row.defs scan_job_record.defs)
next
  case (old row)
  then show ?thesis
    using submit_again [OF first j] by simp
qed

theorem submit_idempotent_witness:
  "\<exists>rec. submit ex_env (ex_request ''request-1'' 10) (ex_uuid (CHR ''7'')) None None None None
       (snd (submit ex_env (ex_request ''request-1'' 10) (ex_uuid (CHR ''1'')) None None None None empty_db))
     = (Inr (rec, False),
        snd (submit ex_env (ex_request ''request-1'' 10) (ex_uuid (CHR ''1'')) None None None None empty_db))"
proof -
  let ?s = "submit ex_env (ex_request ''request-1'' 10) (ex_uuid (CHR ''1'')) None None None None empty_db"
  have "case fst ?s of Inr (rec, c) \<Rightarrow> c | _ \<Rightarrow> False"
    by code_simp
  then obtain rec c where "?s = (Inr (rec, c), snd ?s)"
    by (cases ?s) (auto split: sum.splits)
  moreover have "uuid_shape (ex_uuid (CHR ''7''))"
    by code_simp
  ultimately show ?thesis
    using submit_idempotent [OF ex_request_ok(1)] by blast
qed

text \<open>
  An idempotency key that was used for a different request is refused, and nothing is stored.
\<close>

theorem submit_conflict:
  assumes inv: "store_inv E db" and row: "row \<in> set (scan_jobs db)" and i: "uuid_shape i"
    and key: "rq_idempotency_key (jb_request row) = rq_idempotency_key q"
    and fp: "request_fingerprint E (jb_request row) \<noteq> request_fingerprint E q"
    and args: "(org = None) = (by = None)" "(pid = None) = (psha = None)" "pid \<noteq> None \<longrightarrow> org \<noteq> None"
  shows "submit E q i org by pid psha db = (Inl (JobStoreError ''job_idempotency_conflict''), db)"
proof -
  have d: "distinct (map (rq_idempotency_key \<circ> jb_request) (scan_jobs db))" and ok: "row_ok E row"
    using inv row by (auto simp: store_inv_def db_inv_def)
  have f: "sql_find (\<lambda>r. rq_idempotency_key (jb_request r) = rq_idempotency_key q) (scan_jobs db) = Some row"
    using sql_find_key [OF d, of "rq_idempotency_key q" row] row key by simp
  obtain rec where "record_from_row E row = Inr rec"
    using record_from_row_ok [OF ok] by blast
  then have "resubmit E row q org pid psha db = Inl (JobStoreError ''job_idempotency_conflict'')"
    using ok fp by (simp add: resubmit_def row_ok_def store_error_def)
  then show ?thesis
    using f args fresh_record_ok [OF i, of q] by (auto simp: submit_def)
qed

theorem submit_conflict_witness:
  "submit ex_env2 ((ex_request ''request-1'' 10)\<lparr>rq_mode := SINGLE_PAGE\<rparr>) (ex_uuid (CHR ''7''))
     (Some ex_org) (Some ''u'') None None ex_one
   = (Inl (JobStoreError ''job_idempotency_conflict''), ex_one)"
proof -
  let ?row = "scan_jobs ex_one ! 0" and ?q = "(ex_request ''request-1'' 10)\<lparr>rq_mode := SINGLE_PAGE\<rparr>"
  have "?row \<in> set (scan_jobs ex_one)"
    by (rule nth_mem) code_simp
  moreover have "uuid_shape (ex_uuid (CHR ''7''))" "rq_idempotency_key (jb_request ?row) = rq_idempotency_key ?q"
    "request_fingerprint ex_env2 (jb_request ?row) \<noteq> request_fingerprint ex_env2 ?q"
    by code_simp+
  ultimately show ?thesis
    by (intro submit_conflict [OF ex_one_inv]) simp_all
qed

text \<open>
  C8. Tenant isolation. An organization reads a job, or changes it by a cancellation request, only
  if the job is its own; for the job of another organization both report it as not found and
  nothing changes.
\<close>

theorem tenant_isolation:
  assumes "job_scope_of db i \<noteq> None \<longrightarrow> fst (the (job_scope_of db i)) \<noteq> org"
  shows "get_scoped E i org db = Inl (JobStoreError ''job_not_found'')
    \<and> request_cancellation_scoped E i org now db = (Inl (JobStoreError ''job_not_found''), db)
    \<and> get_job_permit_binding_scoped i org db = None \<and> get_job_safety_receipt_scoped i org db = None
    \<and> (\<forall>limit after st md recs has_more.
         list_jobs_scoped_page E org limit after st md db = Inr (recs, has_more) \<longrightarrow> i \<notin> jb_job_id ` set recs)"
proof -
  have foreign: "map_option fst (job_scope_of db i) \<noteq> Some org"
    using assms by auto
  then have "sql_find (\<lambda>r. jb_job_id r = i \<and> map_option fst (job_scope_of db (jb_job_id r)) = Some org) (scan_jobs db) = None"
    by (auto simp: sql_find_None)
  then have g: "get_scoped E i org db = Inl (JobStoreError ''job_not_found'')"
    by (simp add: get_scoped_def store_error_def)
  have "i \<notin> jb_job_id ` set recs" if "list_jobs_scoped_page E org limit after st md db = Inr (recs, has_more)"
    for limit after st md recs has_more
    using list_jobs_scoped_page_own [OF that] foreign by auto
  then show ?thesis
    using g foreign
    by (simp add: request_cancellation_scoped_def get_job_permit_binding_scoped_def get_job_safety_receipt_scoped_def)
qed

theorem tenant_isolation_witness:
  "get_scoped ex_env (ex_uuid (CHR ''1'')) (ex_uuid (CHR ''f'')) ex_final = Inl (JobStoreError ''job_not_found'')"
proof -
  have "job_scope_of ex_final (ex_uuid (CHR ''1'')) = Some (ex_org, ''u'')" "ex_org \<noteq> ex_uuid (CHR ''f'')"
    by code_simp+
  then show ?thesis
    using tenant_isolation [of ex_final "ex_uuid (CHR ''1'')" "ex_uuid (CHR ''f'')" ex_env] by simp
qed

text \<open>
  The job feed. A page holds the next rows of the organization's feed, newest first, and no
  more than the limit; it says that there is more exactly when there is; and the cursor of its last
  record leads to the page that starts with the first row left out.
\<close>

theorem job_feed_page:
  assumes inv: "store_inv E db"
    and page: "list_jobs_scoped_page E org limit after st md db = Inr (recs, has_more)"
  shows "map jb_job_id recs = map jb_job_id (take (nat limit) (feed_rows db org after st md))
    \<and> (has_more \<longleftrightarrow> limit < int (length (feed_rows db org after st md)))
    \<and> length recs \<le> nat limit
    \<and> (\<forall>rec \<in> set recs. \<exists>by. job_scope_of db (jb_job_id rec) = Some (org, by))
    \<and> (has_more \<longrightarrow> recs \<noteq> [] \<and>
        feed_rows db org (Some (rq_submitted_at (jb_request (last recs)), jb_job_id (last recs))) st md
        = drop (nat limit) (feed_rows db org after st md))"
proof -
  let ?rows = "feed_rows db org after st md"
  let ?p = "take (nat limit) ?rows"
  have db: "db_inv E db"
    using inv by (simp add: store_inv_def)
  have lim: "1 \<le> limit" and rr: "mapE (record_from_row E) ?p = Inr recs"
    and has_more: "has_more \<longleftrightarrow> limit < int (length (take (nat limit + 1) ?rows))"
    using page by (auto simp: list_jobs_scoped_page_def Let_def exn_simps min_def)
  have mem: "r \<in> set (scan_jobs db) \<and> feed_filter db org after st md r" if "r \<in> set ?p" for r
    using in_set_takeD [OF that] by (auto simp: feed_rows_def)
  have same: "jb_job_id rec = jb_job_id r \<and> jb_request rec = jb_request r"
    if "r \<in> set ?p" "record_from_row E r = Inr rec" for r rec
    using that(2) mem [OF that(1)] db_inv_row_ok [OF db] record_from_row_fields(1) record_from_row_request by blast
  have len: "length recs = length ?p" and nth: "\<And>j. j < length ?p \<Longrightarrow> record_from_row E (?p ! j) = Inr (recs ! j)"
    using rr by (auto simp: mapE_Inr_iff list_all2_conv_all_nth)
  have at: "jb_job_id (recs ! j) = jb_job_id (?p ! j) \<and> jb_request (recs ! j) = jb_request (?p ! j)"
    if "j < length ?p" for j
    using same [OF nth_mem [OF that] nth [OF that]] .
  have ids: "map jb_job_id recs = map jb_job_id ?p"
    using len at by (simp only: list_eq_iff_nth_eq length_map) simp
  have m: "has_more \<longleftrightarrow> limit < int (length ?rows)"
    using has_more lim by (simp add: min_def) linarith
  have "\<exists>by. job_scope_of db (jb_job_id rec) = Some (org, by)" if "rec \<in> set recs" for rec
  proof -
    have "jb_job_id rec \<in> set (map jb_job_id recs)"
      using that by simp
    then obtain r where "r \<in> set ?p" "jb_job_id rec = jb_job_id r"
      unfolding ids by auto
    then show ?thesis
      using mem [of r] by (auto simp: feed_filter_def)
  qed
  moreover have "recs \<noteq> [] \<and>
        feed_rows db org (Some (rq_submitted_at (jb_request (last recs)), jb_job_id (last recs))) st md
        = drop (nat limit) ?rows" if has_more
  proof -
    have n: "0 < nat limit" "nat limit \<le> length ?rows" and l: "length ?p = nat limit"
      using lim m that by auto
    have ne: "recs \<noteq> []"
      using len l n(1) by auto
    then have "last recs = recs ! (nat limit - 1)"
      using len l by (simp add: last_conv_nth)
    then have "feed_key (?rows ! (nat limit - 1)) = (rq_submitted_at (jb_request (last recs)), jb_job_id (last recs))"
      using at [of "nat limit - 1"] l n(1) by (simp add: feed_key_def)
    then show ?thesis
      using feed_rows_next [OF db_inv_distinct [OF db] n] ne by simp
  qed
  ultimately show ?thesis
    using ids m len lim by auto
qed

theorem job_feed_page_witness:
  "feed_rows ex_final ex_org (Some (20, ex_uuid (CHR ''2''))) None None
     = drop 1 (feed_rows ex_final ex_org None None None)"
proof -
  let ?p = "list_jobs_scoped_page ex_env ex_org 1 None None None ex_final"
  have "case ?p of Inr ([rec], has_more) \<Rightarrow> has_more \<and> rq_submitted_at (jb_request rec) = 20
      \<and> jb_job_id rec = ex_uuid (CHR ''2'') | _ \<Rightarrow> False"
    by code_simp
  then obtain rec where "?p = Inr ([rec], True)" "rq_submitted_at (jb_request rec) = 20"
    "jb_job_id rec = ex_uuid (CHR ''2'')"
    by (auto split: sum.splits prod.splits list.splits)
  then show ?thesis
    using job_feed_page [OF ex_final_inv, of ex_org 1 None None None "[rec]" True] by simp
qed

end
