(* ===== verification/Schedule_Props.thy ===== *)
theory Schedule_Props
  imports Queue_Lemmas Store_Examples
begin

text \<open>
  The guarantees of recurring schedules: when the next run is, and that a due run is turned into a
  job exactly once.
\<close>

section \<open>Schedules\<close>

text \<open>
  The next run of a schedule that was due lies strictly in the future, at the first point of its
  grid after now: a whole number of intervals after the time it was scheduled for, and not a whole
  interval late.
\<close>

theorem next_run_grid:
  assumes "0 < interval_seconds" "scheduled_for \<le> now"
  shows "let next = next_schedule_time scheduled_for interval_seconds now;
             interval = interval_seconds * microseconds
         in now < next \<and> next - interval \<le> now \<and> (next - scheduled_for) mod interval = 0"
  using next_run_after [OF assms] by (simp add: Let_def)

theorem next_run_grid_witness:
  "let next = next_schedule_time 5 3600 20000000000
   in 20000000000 < next \<and> next - 3600 * microseconds \<le> 20000000000 \<and> (next - 5) mod (3600 * microseconds) = 0"
  using next_run_grid [of 3600 5 20000000000] by (simp add: Let_def)

text \<open>
  C9. Enqueueing a due schedule. A successful call found the schedule active, due and at the
  expected revision, with a live permit; it added one queued job for its target and moved the
  schedule on to a run strictly in the future under the next revision; and a second call for the
  same revision, with whatever other arguments, does nothing.
\<close>

theorem enqueue_exactly_once:
  assumes inv: "store_inv E db"
    and eq: "enqueue_due_schedule E i k sha pid psha now j db = (Inr (Some (s', rec)), db')"
  shows "(\<exists>row. fetch_schedule i db = Some row \<and> due now row \<and> sc_revision row = k
      \<and> schedule_permit_live db row pid psha now \<and> rq_target (jb_request rec) = sc_target row)
    \<and> jb_state rec = JOB_QUEUED \<and> jb_job_id rec = j
    \<and> scan_jobs db' = scan_jobs db @ [new_row E rec]
    \<and> fetch_schedule i db' = Some s' \<and> sc_revision s' = k + 1 \<and> now < sc_next_run_at s'
    \<and> enqueue_due_schedule E i k sha2 pid2 psha2 now2 j2 db' = (Inr None, db')"
proof -
  have sch: "schedules_inv E db"
    using inv by (simp add: store_inv_def)
  obtain row q where row: "fetch_schedule i db = Some row" "schedule_ok E row" "sc_state row = SCHEDULE_ACTIVE"
      "sc_revision row = k" "sc_next_run_at row \<le> now" "schedule_permit_live db row pid psha now"
    and q: "ScanJobRequest_post_init E (scheduled_request row sha now) = Inr q" "rec = fresh_record j q"
    and db': "db' = update_schedules (\<lambda>s. sc_schedule_id s = i \<and> sc_revision s = k \<and> sc_state s = SCHEDULE_ACTIVE)
             (advance_row row sha j now)
             (insert_job E rec (Some (sc_organization_id row)) (Some (sc_created_by row)) (Some pid) (Some psha) db)"
    and s': "s' = advance_row row sha j now row" "schedule_from_row E s' = Inr s'"
    using enqueue_SomeE [OF sch eq] by blast
  have mem: "row \<in> set (scan_schedules db)" "sc_schedule_id row = i"
    using fetch_schedule_SomeD [OF row(1)] by auto
  have f: "fetch_schedule i db' = Some s'"
    using fetch_schedule_updated [OF sch mem(1), of "\<lambda>s. sc_schedule_id s = i \<and> sc_revision s = k \<and> sc_state s = SCHEDULE_ACTIVE"
        "advance_row row sha j now"] row mem
    by (simp add: fetch_schedule_def db' s'(1) insert_job_def)
  have iv: "0 < sc_interval_seconds row"
    using row(2) by (auto simp: schedule_ok_iff schedule_checks_def MINIMUM_SCAN_SCHEDULE_INTERVAL_SECONDS_def)
  have "now < sc_next_run_at s'"
    using next_run_after(1) [OF iv row(5)] by (simp add: s'(1))
  moreover have "enqueue_due_schedule E i k sha2 pid2 psha2 now2 j2 db' = (Inr None, db')"
    using f row(4) s'(2) by (simp add: enqueue_due_schedule_def) (simp add: s'(1))
  moreover have "rq_target (jb_request rec) = sc_target row"
    using q row(2) 
    by (auto simp: ScanJobRequest_post_init_def bindE_eq_Inr scheduled_request_def job_target_Inr schedule_ok_iff)
  moreover have "scan_jobs db' = scan_jobs db @ [new_row E rec]"
    by (simp add: db' insert_job_def)
  ultimately show ?thesis
    using row f q by (auto simp: due_def s'(1))
qed

theorem enqueue_exactly_once_witness:
  "\<exists>s' rec db'. enqueue_due_schedule ex_env (ex_uuid (CHR ''5'')) 0 ex_sha ex_permit_id ex_sha 40
       (ex_uuid (CHR ''6'')) ex_final = (Inr (Some (s', rec)), db')
     \<and> 40 < sc_next_run_at s'
     \<and> enqueue_due_schedule ex_env (ex_uuid (CHR ''5'')) 0 ex_sha ex_permit_id ex_sha 50
         (ex_uuid (CHR ''7'')) db' = (Inr None, db')"
proof -
  let ?e = "enqueue_due_schedule ex_env (ex_uuid (CHR ''5'')) 0 ex_sha ex_permit_id ex_sha 40 (ex_uuid (CHR ''6'')) ex_final"
  have "case fst ?e of Inr (Some _) \<Rightarrow> True | _ \<Rightarrow> False"
    by code_simp
  then obtain s' rec where e: "?e = (Inr (Some (s', rec)), snd ?e)"
    by (cases ?e) (auto split: sum.splits option.splits)
  then show ?thesis
    using enqueue_exactly_once [OF ex_final_inv e] by blast
qed

text \<open>
  The enqueue transaction is atomic: either it leaves the database as it is, or it adds exactly
  one job and records that job in the schedule under its next revision.
\<close>

theorem enqueue_atomic:
  assumes inv: "store_inv E db" and eq: "enqueue_due_schedule E i k sha pid psha now j db = (res, db')"
  shows "db' = db \<or>
    (\<exists>rec s. scan_jobs db' = scan_jobs db @ [new_row E rec] \<and> jb_job_id rec = j
       \<and> fetch_schedule i db' = Some s \<and> sc_revision s = k + 1 \<and> sc_last_job_id s = Some j)"
proof (cases "db' = db")
  case False
  have sch: "schedules_inv E db"
    using inv by (simp add: store_inv_def)
  obtain row rec where row: "fetch_schedule i db = Some row" "sc_state row = SCHEDULE_ACTIVE" "sc_revision row = k"
    and r: "bindE (ScanJobRequest_post_init E (scheduled_request row sha now))
                        (\<lambda>request. ScanJobRecord_post_init (fresh_record j request)) = Inr rec"
    and w: "enqueue_write E row k sha pid psha now rec db = (res, db')"
  proof -
    obtain row where row: "fetch_schedule i db = Some row"
      using eq False by (auto simp: enqueue_due_schedule_def split: option.splits)
    then have "schedule_ok E row"
      using fetch_schedule_SomeD [OF row] sch by (auto simp: schedules_inv_def)
    then show thesis
      using that [of row] eq row False schedule_from_row_ok
      by (auto simp: enqueue_due_schedule_def split: if_splits sum.splits)
  qed
  have mem: "row \<in> set (scan_schedules db)" "sc_schedule_id row = i"
    using fetch_schedule_SomeD [OF row(1)] by auto
  have j: "jb_job_id rec = j"
    using r fresh_record_post_init by (fastforce simp: bindE_eq_Inr)
  let ?P = "\<lambda>s. sc_schedule_id s = i \<and> sc_revision s = k \<and> sc_state s = SCHEDULE_ACTIVE"
  let ?db = "update_schedules ?P (advance_row row sha j now)
      (insert_job E rec (Some (sc_organization_id row)) (Some (sc_created_by row)) (Some pid) (Some psha) db)"
  have "fetch_schedule i ?db = Some (advance_row row sha j now row)"
    using fetch_schedule_updated [OF sch mem(1), of ?P "advance_row row sha j now"] row mem
    by (simp add: fetch_schedule_def insert_job_def)
  moreover have "db' = ?db"
    using w False mem(2) j by (auto simp: enqueue_write_def Let_def split: if_splits option.splits)
  ultimately have "scan_jobs db' = scan_jobs db @ [new_row E rec] \<and> jb_job_id rec = j
       \<and> fetch_schedule i db' = Some (advance_row row sha j now row)
       \<and> sc_revision (advance_row row sha j now row) = k + 1
       \<and> sc_last_job_id (advance_row row sha j now row) = Some j"
    using row(3) j by (simp add: insert_job_def) (simp add: advance_row_def)
  then show ?thesis by blast
qed simp

theorem enqueue_atomic_witness:
  "snd (enqueue_due_schedule ex_env (ex_uuid (CHR ''5'')) 0 ex_sha ex_permit_id ex_sha 40
       (ex_uuid (CHR ''1'')) ex_final) = ex_final"
proof -
  let ?e = "enqueue_due_schedule ex_env (ex_uuid (CHR ''5'')) 0 ex_sha ex_permit_id ex_sha 40 (ex_uuid (CHR ''1'')) ex_final"
  have "length (scan_jobs (snd ?e)) = 2" "length (scan_jobs ex_final) = 2"
    by code_simp+
  then show ?thesis
    using enqueue_atomic [OF ex_final_inv, of "ex_uuid (CHR ''5'')" 0 ex_sha ex_permit_id ex_sha 40
        "ex_uuid (CHR ''1'')" "fst ?e" "snd ?e"] by auto
qed

end
