(* ===== verification/Authorizations.thy ===== *)
theory Authorizations
  imports Owned_Targets
begin

text \<open>
  The server-side authorization repository (\<^verbatim>\<open>webguard_api/authorizations.py\<close>): a private
  directory of JSON documents, scanned for one authorization identifier. The directory is a value:
  what inspecting and listing it gives, and for each entry its name, its kind and mode, and what
  \<^verbatim>\<open>load_owned_target_authorization_file\<close> returns for it.
\<close>

section \<open>Definitions\<close>

datatype file_kind = Kind_Symlink | Kind_Regular | Kind_Other

record auth_file =
  af_name :: string
  af_metadata :: "(file_kind \<times> nat) option"
  af_load :: "owned_target_authorization result"

datatype auth_directory =
    Dir_Unavailable
  | Dir_Symlink
  | Dir_Not_Directory
  | Dir_Unreadable
  | Dir_Files "auth_file list"

definition ar_error :: "string \<Rightarrow> exn" where
  "ar_error code = AuthorizationRepositoryError code"

definition MAXIMUM_AUTHORIZATION_FILES :: nat where
  "MAXIMUM_AUTHORIZATION_FILES = 1000"

definition ends_with :: "string \<Rightarrow> string \<Rightarrow> bool" where
  "ends_with suffix s \<longleftrightarrow> length suffix \<le> length s \<and> drop (length s - length suffix) s = suffix"

definition auth_entries :: "auth_directory \<Rightarrow> auth_file list result" where
  "auth_entries dir =
     (case dir of
        Dir_Unavailable \<Rightarrow> Inl (ar_error ''authorization_directory_unavailable'')
      | Dir_Symlink \<Rightarrow> Inl (ar_error ''authorization_directory_symlink_not_allowed'')
      | Dir_Not_Directory \<Rightarrow> Inl (ar_error ''authorization_directory_invalid'')
      | Dir_Unreadable \<Rightarrow> Inl (ar_error ''authorization_directory_read_failed'')
      | Dir_Files files \<Rightarrow>
          (let entries = sort_key af_name (filter (\<lambda>f. ends_with ''.json'' (af_name f)) files) in
           raise_if (length entries > MAXIMUM_AUTHORIZATION_FILES)
             (ar_error ''authorization_repository_too_large'') (Inr entries)))"

text \<open>
  One entry: \<open>None\<close> is the \<^verbatim>\<open>continue\<close> for what is not a regular file. The permission bits
  of group and others are the six low bits of the mode.
\<close>

definition auth_entry :: "auth_file \<Rightarrow> owned_target_authorization option result" where
  "auth_entry f =
     (case af_metadata f of
        None \<Rightarrow> Inl (ar_error ''authorization_file_inspection_failed'')
      | Some (kind, mode) \<Rightarrow>
          raise_if (kind = Kind_Symlink) (ar_error ''authorization_file_symlink_not_allowed'')
          (if kind \<noteq> Kind_Regular then Inr None
           else
             raise_if (mode mod 64 \<noteq> 0) (ar_error ''authorization_file_permissions_insecure'')
             (case af_load f of
                Inl (OwnedTargetValidationError code) \<Rightarrow> Inl (ar_error code)
              | Inl e \<Rightarrow> Inl e
              | Inr authorization \<Rightarrow> Inr (Some authorization))))"

fun auth_matches :: "string \<Rightarrow> auth_file list \<Rightarrow> owned_target_authorization list result" where
  "auth_matches authorization_id [] = Inr []"
| "auth_matches authorization_id (f # fs) =
     bindE (auth_entry f) (\<lambda>entry.
     bindE (auth_matches authorization_id fs) (\<lambda>rest.
       Inr (case entry of
              None \<Rightarrow> rest
            | Some a \<Rightarrow> if oa_authorization_id a = authorization_id then a # rest else rest)))"

definition authorization_get :: "auth_directory \<Rightarrow> string \<Rightarrow> owned_target_authorization result" where
  "authorization_get dir authorization_id =
     bindE (auth_entries dir) (\<lambda>entries.
     bindE (auth_matches authorization_id entries) (\<lambda>found.
       raise_if (found = []) (ar_error ''authorization_not_found'')
       (raise_if (length found > 1) (ar_error ''authorization_duplicate_id'')
       (Inr (hd found)))))"

section \<open>What a lookup returns\<close>

lemma auth_matches_member:
  "auth_matches i fs = Inr found \<Longrightarrow> a \<in> set found \<Longrightarrow>
     oa_authorization_id a = i \<and> (\<exists>f \<in> set fs. auth_entry f = Inr (Some a))"
proof (induction fs arbitrary: found)
  case (Cons f fs)
  obtain entry rest where e: "auth_entry f = Inr entry" and r: "auth_matches i fs = Inr rest"
    and found: "found = (case entry of None \<Rightarrow> rest
      | Some b \<Rightarrow> if oa_authorization_id b = i then b # rest else rest)"
    using Cons.prems(1) by (auto simp: bindE_eq_Inr)
  consider "a \<in> set rest" | "entry = Some a" "oa_authorization_id a = i"
    using Cons.prems(2) found by (auto split: option.splits if_splits)
  then show ?case
    using Cons.IH [OF r] e by cases auto
qed simp

lemma auth_matches_secure:
  "auth_matches i fs = Inr found \<Longrightarrow> f \<in> set fs \<Longrightarrow> \<exists>entry. auth_entry f = Inr entry"
  by (induction fs arbitrary: found) (auto simp: bindE_eq_Inr)

lemma auth_entry_SomeD:
  "auth_entry f = Inr (Some a) \<Longrightarrow>
     \<exists>mode. af_metadata f = Some (Kind_Regular, mode) \<and> mode mod 64 = 0 \<and> af_load f = Inr a"
  by (auto simp: auth_entry_def raise_if_eq_Inr split: option.splits sum.splits exn.splits if_splits)

lemma auth_entries_member:
  "auth_entries dir = Inr entries \<Longrightarrow>
     \<exists>files. dir = Dir_Files files \<and> set entries = {f \<in> set files. ends_with ''.json'' (af_name f)}
       \<and> length entries \<le> MAXIMUM_AUTHORIZATION_FILES"
  by (auto simp: auth_entries_def Let_def raise_if_eq_Inr split: auth_directory.splits)

lemma authorization_get_single:
  assumes "authorization_get dir i = Inr a"
  obtains entries where "auth_entries dir = Inr entries" "auth_matches i entries = Inr [a]"
proof -
  obtain entries found where "auth_entries dir = Inr entries" "auth_matches i entries = Inr found"
    "found \<noteq> []" "\<not> length found > 1" "a = hd found"
    using assms by (auto simp: authorization_get_def bindE_eq_Inr raise_if_eq_Inr)
  then show thesis using that by (cases found) auto
qed

end
