(* ===== verification/Scheduler.thy ===== *)
theory Scheduler
  imports Queue_Lemmas Authorizations
begin

text \<open>
  The recurring-schedule coordinator (\<^verbatim>\<open>webguard_api/scheduler.py\<close>). One pass lists the due
  schedules and, for each, either pauses it with the reason why it may not run, or asks the store to
  enqueue it. The coordinator only sees the store's methods, so it is defined over a record of them;
  \<open>schedule_repository\<close> states what it relies on, and the SQLite store is interpreted there.
\<close>

section \<open>Definitions\<close>

record 'db schedule_repo =
  rp_list_due :: "time \<Rightarrow> int \<Rightarrow> 'db \<Rightarrow> schedule_record list result"
  rp_assigned :: "string \<Rightarrow> string \<Rightarrow> 'db \<Rightarrow> bool result"
  rp_binding :: "string \<Rightarrow> 'db \<Rightarrow> (string \<times> string) option"
  rp_permit :: "string \<Rightarrow> string \<Rightarrow> 'db \<Rightarrow> persisted_permit result"
  rp_enqueue :: "string \<Rightarrow> int \<Rightarrow> string \<Rightarrow> string \<Rightarrow> string \<Rightarrow> time \<Rightarrow> string \<Rightarrow> 'db
    \<Rightarrow> (schedule_record \<times> scan_job_record) option result \<times> 'db"
  rp_block :: "string \<Rightarrow> int \<Rightarrow> string \<Rightarrow> time \<Rightarrow> 'db \<Rightarrow> schedule_record option result \<times> 'db"

text \<open>\<^verbatim>\<open>IdentityStore.authorization_is_assigned\<close> on the shared database.\<close>

definition authorization_is_assigned :: "string \<Rightarrow> string \<Rightarrow> job_db \<Rightarrow> bool result" where
  "authorization_is_assigned organization_id authorization_id db =
     (case organization_authorizations db of
        None \<Rightarrow> Inl SqliteOperationalError
      | Some rows \<Rightarrow> Inr ((organization_id, authorization_id) \<in> set rows))"

definition sqlite_repo :: "py_env \<Rightarrow> job_db schedule_repo" where
  "sqlite_repo E =
     \<lparr>rp_list_due = list_due_schedules E, rp_assigned = authorization_is_assigned,
      rp_binding = get_schedule_permit_binding, rp_permit = get_scan_permit_scoped E,
      rp_enqueue = enqueue_due_schedule E, rp_block = block_due_schedule E\<rparr>"

record schedule_run_summary =
  sm_inspected :: nat
  sm_enqueued :: nat
  sm_blocked :: nat
  sm_raced :: nat

text \<open>What the loop body decides for one schedule before it writes.\<close>

datatype verdict = Block string | Enqueue string string string

definition permit_verdict ::
  "py_env \<Rightarrow> signing_registry \<Rightarrow> schedule_record \<Rightarrow> owned_target_authorization \<Rightarrow> time \<Rightarrow> string
   \<Rightarrow> persisted_permit \<Rightarrow> verdict result" where
  "permit_verdict E R s authorization now bound_sha256 permit =
     (let claims = sp_claims (pp_permit permit); digest = permit_fingerprint E claims in
      if digest \<noteq> bound_sha256 then Inr (Block ''trustscan_permit_binding_changed'')
      else (case validate_permit_use E R permit (sc_organization_id s) authorization (sc_target s) (sc_mode s) now of
              Inl (TrustScanPermitError code) \<Rightarrow> Inr (Block code)
            | Inl e \<Rightarrow> Inl e
            | Inr _ \<Rightarrow> Inr (Enqueue (authorization_fingerprint E authorization) (pc_permit_id claims) digest)))"

definition schedule_verdict ::
  "py_env \<Rightarrow> signing_registry \<Rightarrow> auth_directory \<Rightarrow> 'db schedule_repo \<Rightarrow> time \<Rightarrow> schedule_record \<Rightarrow> 'db
   \<Rightarrow> verdict result" where
  "schedule_verdict E R dir repo now s db =
     bindE (rp_assigned repo (sc_organization_id s) (sc_authorization_id s) db) (\<lambda>is_assigned.
       if \<not> is_assigned then Inr (Block ''authorization_not_assigned'')
       else (case authorization_get dir (sc_authorization_id s) of
               Inl (AuthorizationRepositoryError code) \<Rightarrow> Inr (Block code)
             | Inl e \<Rightarrow> Inl e
             | Inr authorization \<Rightarrow>
                if oa_target authorization \<noteq> sc_target s then Inr (Block ''authorization_target_mismatch'')
                else if \<not> (oa_issued_at authorization \<le> now \<and> now < oa_expires_at authorization)
                then Inr (Block ''authorization_not_current'')
                else (case rp_binding repo (sc_schedule_id s) db of
                        None \<Rightarrow> Inr (Block ''trustscan_permit_missing'')
                      | Some (permit_id, permit_sha256) \<Rightarrow>
                         (case rp_permit repo permit_id (sc_organization_id s) db of
                            Inl (JobStoreError code) \<Rightarrow> Inr (Block code)
                          | Inl e \<Rightarrow> Inl e
                          | Inr permit \<Rightarrow> permit_verdict E R s authorization now permit_sha256 permit))))"

text \<open>The loop body: the counters and the database after one schedule.\<close>

definition run_schedule ::
  "py_env \<Rightarrow> signing_registry \<Rightarrow> auth_directory \<Rightarrow> 'db schedule_repo \<Rightarrow> time \<Rightarrow> schedule_record \<Rightarrow> string
   \<Rightarrow> schedule_run_summary \<Rightarrow> 'db \<Rightarrow> schedule_run_summary result \<times> 'db" where
  "run_schedule E R dir repo now s job_id sm db =
     (case schedule_verdict E R dir repo now s db of
        Inl e \<Rightarrow> (Inl e, db)
      | Inr (Block code) \<Rightarrow>
          (case rp_block repo (sc_schedule_id s) (sc_revision s) code now db of
             (Inl e, db') \<Rightarrow> (Inl e, db')
           | (Inr None, db') \<Rightarrow> (Inr sm, db')
           | (Inr (Some _), db') \<Rightarrow> (Inr (sm\<lparr>sm_blocked := sm_blocked sm + 1\<rparr>), db'))
      | Inr (Enqueue sha permit_id permit_sha256) \<Rightarrow>
          (case rp_enqueue repo (sc_schedule_id s) (sc_revision s) sha permit_id permit_sha256 now job_id db of
             (Inl e, db') \<Rightarrow> (Inl e, db')
           | (Inr None, db') \<Rightarrow> (Inr (sm\<lparr>sm_raced := sm_raced sm + 1\<rparr>), db')
           | (Inr (Some _), db') \<Rightarrow> (Inr (sm\<lparr>sm_enqueued := sm_enqueued sm + 1\<rparr>), db')))"

fun run_schedules ::
  "py_env \<Rightarrow> signing_registry \<Rightarrow> auth_directory \<Rightarrow> 'db schedule_repo \<Rightarrow> time \<Rightarrow> (nat \<Rightarrow> string)
   \<Rightarrow> schedule_record list \<Rightarrow> schedule_run_summary \<Rightarrow> 'db \<Rightarrow> schedule_run_summary result \<times> 'db" where
  "run_schedules E R dir repo now fresh [] sm db = (Inr sm, db)"
| "run_schedules E R dir repo now fresh (s # rest) sm db =
     (case run_schedule E R dir repo now s (fresh (length rest)) sm db of
        (Inl e, db') \<Rightarrow> (Inl e, db')
      | (Inr sm', db') \<Rightarrow> run_schedules E R dir repo now fresh rest sm' db')"

text \<open>
  \<^verbatim>\<open>run_once\<close>. The identifiers that \<^verbatim>\<open>uuid4()\<close> gives inside the store are drawn
  from \<open>fresh\<close>.
\<close>

definition run_once ::
  "py_env \<Rightarrow> signing_registry \<Rightarrow> auth_directory \<Rightarrow> 'db schedule_repo \<Rightarrow> int \<Rightarrow> time \<Rightarrow> (nat \<Rightarrow> string)
   \<Rightarrow> 'db \<Rightarrow> schedule_run_summary result \<times> 'db" where
  "run_once E R dir repo batch_size now fresh db =
     (case rp_list_due repo now batch_size db of
        Inl e \<Rightarrow> (Inl e, db)
      | Inr schedules \<Rightarrow>
          run_schedules E R dir repo now fresh schedules
            \<lparr>sm_inspected = length schedules, sm_enqueued = 0, sm_blocked = 0, sm_raced = 0\<rparr> db)"

text \<open>The constructor's checks and the staleness bound of the health check.\<close>

definition coordinator_init :: "rat \<Rightarrow> int \<Rightarrow> (rat \<times> int) result" where
  "coordinator_init poll_seconds batch_size =
     raise_if (\<not> (1 / 10 \<le> poll_seconds \<and> poll_seconds \<le> 60)) ValueError
     (raise_if (\<not> (1 \<le> batch_size \<and> batch_size \<le> 1000)) ValueError
     (Inr (poll_seconds, batch_size)))"

definition progress_stale_after_seconds :: "rat \<Rightarrow> rat" where
  "progress_stale_after_seconds poll_seconds = max (poll_seconds * 6) (max 3 7)"

definition progress_healthy :: "rat \<Rightarrow> rat \<Rightarrow> rat \<Rightarrow> rat option \<Rightarrow> bool" where
  "progress_healthy poll_seconds monotonic last_progress stale_after_seconds \<longleftrightarrow>
     monotonic - last_progress
       \<le> (case stale_after_seconds of None \<Rightarrow> progress_stale_after_seconds poll_seconds | Some t \<Rightarrow> t)"

section \<open>What the coordinator relies on\<close>

text \<open>
  A repository keeps, for each schedule identifier, the revision at which it is due at an instant, and
  counts its jobs. A successful write ends that the schedule is due and leaves the others as they are;
  a write that reports nothing changed nothing; what is listed is due, and no identifier twice.
\<close>

locale schedule_repository =
  fixes repo :: "'db schedule_repo" and wf :: "'db \<Rightarrow> bool"
    and due_at :: "time \<Rightarrow> 'db \<Rightarrow> string \<Rightarrow> int option" and jobs :: "'db \<Rightarrow> nat"
  assumes enqueue_some:
      "wf db \<Longrightarrow> rp_enqueue repo i k sha p ps now j db = (Inr (Some r), db') \<Longrightarrow>
         wf db' \<and> jobs db' = jobs db + 1 \<and> due_at now db' i = None
         \<and> (\<forall>i'. i' \<noteq> i \<longrightarrow> due_at now db' i' = due_at now db i')"
    and enqueue_none: "wf db \<Longrightarrow> rp_enqueue repo i k sha p ps now j db = (Inr None, db') \<Longrightarrow> db' = db"
    and block_some:
      "wf db \<Longrightarrow> rp_block repo i k code now db = (Inr (Some q), db') \<Longrightarrow>
         wf db' \<and> jobs db' = jobs db \<and> due_at now db' i = None
         \<and> (\<forall>i'. i' \<noteq> i \<longrightarrow> due_at now db' i' = due_at now db i')"
    and block_none:
      "wf db \<Longrightarrow> rp_block repo i k code now db = (Inr None, db') \<Longrightarrow> db' = db \<and> due_at now db i \<noteq> Some k"
    and list_due:
      "wf db \<Longrightarrow> rp_list_due repo now limit db = Inr ss \<Longrightarrow>
         distinct (map sc_schedule_id ss) \<and> (\<forall>s \<in> set ss. due_at now db (sc_schedule_id s) = Some (sc_revision s))"
begin

lemma run_schedule_cases:
  assumes "run_schedule E R dir repo now s j sm db = (Inr sm', db')"
  obtains (left) code where "rp_block repo (sc_schedule_id s) (sc_revision s) code now db = (Inr None, db')" "sm' = sm"
    | (blocked) code q where "rp_block repo (sc_schedule_id s) (sc_revision s) code now db = (Inr (Some q), db')"
        "sm' = sm\<lparr>sm_blocked := sm_blocked sm + 1\<rparr>"
    | (raced) sha p ps where
        "rp_enqueue repo (sc_schedule_id s) (sc_revision s) sha p ps now j db = (Inr None, db')"
        "sm' = sm\<lparr>sm_raced := sm_raced sm + 1\<rparr>"
    | (enqueued) sha p ps r where
        "rp_enqueue repo (sc_schedule_id s) (sc_revision s) sha p ps now j db = (Inr (Some r), db')"
        "sm' = sm\<lparr>sm_enqueued := sm_enqueued sm + 1\<rparr>"
  using assms
  by (auto simp: run_schedule_def split: sum.splits verdict.splits prod.splits option.splits)

lemma run_schedule_law:
  assumes wf: "wf db" and run: "run_schedule E R dir repo now s j sm db = (Inr sm', db')"
    and due: "due_at now db (sc_schedule_id s) = Some (sc_revision s)"
  shows "wf db' \<and> jobs db' + sm_enqueued sm = jobs db + sm_enqueued sm'
    \<and> sm_inspected sm' = sm_inspected sm \<and> sm_raced sm \<le> sm_raced sm'
    \<and> sm_enqueued sm' + sm_blocked sm' + sm_raced sm' = sm_enqueued sm + sm_blocked sm + sm_raced sm + 1
    \<and> (sm_raced sm' = sm_raced sm \<longrightarrow> due_at now db' (sc_schedule_id s) = None)
    \<and> (\<forall>i'. i' \<noteq> sc_schedule_id s \<longrightarrow> due_at now db' i' = due_at now db i')"
proof (cases rule: run_schedule_cases [OF run])
  case (1 code)
  then show ?thesis using block_none [OF wf 1(1)] due by simp
next
  case (2 code q)
  then show ?thesis using block_some [OF wf 2(1)] by simp
next
  case (3 sha p ps)
  then show ?thesis using enqueue_none [OF wf 3(1)] wf by simp
next
  case (4 sha p ps r)
  then show ?thesis using enqueue_some [OF wf 4(1)] by simp
qed

text \<open>The loop over the listed schedules: each is accounted for once and no other one is touched.\<close>

lemma run_schedules_law:
  assumes "wf db" "run_schedules E R dir repo now fresh ss sm db = (Inr sm', db')"
    and "distinct (map sc_schedule_id ss)" "\<forall>s \<in> set ss. due_at now db (sc_schedule_id s) = Some (sc_revision s)"
  shows "wf db' \<and> jobs db' + sm_enqueued sm = jobs db + sm_enqueued sm'
    \<and> sm_inspected sm' = sm_inspected sm \<and> sm_raced sm \<le> sm_raced sm'
    \<and> sm_enqueued sm' + sm_blocked sm' + sm_raced sm'
        = sm_enqueued sm + sm_blocked sm + sm_raced sm + length ss
    \<and> (sm_raced sm' = sm_raced sm \<longrightarrow> (\<forall>s \<in> set ss. due_at now db' (sc_schedule_id s) = None))
    \<and> (\<forall>i. i \<notin> sc_schedule_id ` set ss \<longrightarrow> due_at now db' i = due_at now db i)"
  using assms
proof (induction ss arbitrary: sm db)
  case (Cons s ss)
  obtain sm1 db1 where one: "run_schedule E R dir repo now s (fresh (length ss)) sm db = (Inr sm1, db1)"
    and rest: "run_schedules E R dir repo now fresh ss sm1 db1 = (Inr sm', db')"
    using Cons.prems(2) by (auto split: prod.splits sum.splits)
  have "due_at now db (sc_schedule_id s) = Some (sc_revision s)"
    using Cons.prems(4) by simp
  note l = run_schedule_law [OF Cons.prems(1) one this]
  have t: "sc_schedule_id t \<noteq> sc_schedule_id s" if "t \<in> set ss" for t
    using Cons.prems(3) that by (auto simp: image_iff)
  then have "\<forall>t \<in> set ss. due_at now db1 (sc_schedule_id t) = Some (sc_revision t)"
    using l Cons.prems(4) by simp
  then have r: "wf db' \<and> jobs db' + sm_enqueued sm1 = jobs db1 + sm_enqueued sm'
    \<and> sm_inspected sm' = sm_inspected sm1 \<and> sm_raced sm1 \<le> sm_raced sm'
    \<and> sm_enqueued sm' + sm_blocked sm' + sm_raced sm'
        = sm_enqueued sm1 + sm_blocked sm1 + sm_raced sm1 + length ss
    \<and> (sm_raced sm' = sm_raced sm1 \<longrightarrow> (\<forall>s \<in> set ss. due_at now db' (sc_schedule_id s) = None))
    \<and> (\<forall>i. i \<notin> sc_schedule_id ` set ss \<longrightarrow> due_at now db' i = due_at now db1 i)"
    using Cons.IH [OF _ rest] l Cons.prems(3) by simp
  have "sc_schedule_id s \<notin> sc_schedule_id ` set ss"
    using t by force
  then have "due_at now db' (sc_schedule_id s) = due_at now db1 (sc_schedule_id s)"
    using r by blast
  then have "\<forall>u \<in> set (s # ss). due_at now db' (sc_schedule_id u) = None" if "sm_raced sm' = sm_raced sm"
  proof -
    have "sm_raced sm1 = sm_raced sm" "sm_raced sm' = sm_raced sm1"
      using that l r by linarith+
    then show ?thesis
      using \<open>due_at now db' (sc_schedule_id s) = due_at now db1 (sc_schedule_id s)\<close> l r by simp
  qed
  moreover have "due_at now db' i = due_at now db i" if "i \<notin> sc_schedule_id ` set (s # ss)" for i
    using that l r by simp
  ultimately show ?case
    using l r by simp
qed simp

lemma run_once_law:
  assumes "wf db" "rp_list_due repo now batch db = Inr ss"
    and "run_once E R dir repo batch now fresh db = (Inr sm, db')"
  shows "wf db' \<and> jobs db' = jobs db + sm_enqueued sm \<and> sm_inspected sm = length ss
    \<and> sm_enqueued sm + sm_blocked sm + sm_raced sm = length ss
    \<and> (sm_raced sm = 0 \<longrightarrow> (\<forall>s \<in> set ss. due_at now db' (sc_schedule_id s) = None))
    \<and> (\<forall>i. i \<notin> sc_schedule_id ` set ss \<longrightarrow> due_at now db' i = due_at now db i)"
proof -
  let ?sm = "\<lparr>sm_inspected = length ss, sm_enqueued = 0, sm_blocked = 0, sm_raced = 0\<rparr>"
  have "run_schedules E R dir repo now fresh ss ?sm db = (Inr sm, db')"
    using assms(2,3) by (simp add: run_once_def)
  then show ?thesis
    using run_schedules_law [OF assms(1)] list_due [OF assms(1,2)] by fastforce
qed

end

section \<open>The SQLite store provides it\<close>

definition schedule_ids_distinct :: "job_db \<Rightarrow> bool" where
  "schedule_ids_distinct db \<longleftrightarrow> distinct (map sc_schedule_id (scan_schedules db))"

definition due_revision :: "time \<Rightarrow> job_db \<Rightarrow> string \<Rightarrow> int option" where
  "due_revision now db i =
     (case fetch_schedule i db of None \<Rightarrow> None | Some s \<Rightarrow> if due now s then Some (sc_revision s) else None)"

text \<open>An update of one schedule at the expected revision.\<close>

lemma due_revision_update:
  fixes f i k
  defines "P \<equiv> \<lambda>s. sc_schedule_id s = i \<and> sc_revision s = k \<and> sc_state s = SCHEDULE_ACTIVE"
  assumes wf: "schedule_ids_distinct db" and n: "sql_rowcount P (scan_schedules db) = 1"
    and f: "\<And>s. sc_schedule_id (f s) = sc_schedule_id s" "\<And>s. \<not> due now (f s)"
    and db': "scan_schedules db' = sql_update P f (scan_schedules db)"
  shows "schedule_ids_distinct db' \<and> due_revision now db' i = None
    \<and> (\<forall>i'. i' \<noteq> i \<longrightarrow> due_revision now db' i' = due_revision now db i')"
proof (intro conjI allI impI)
  show "schedule_ids_distinct db'"
    using wf f(1) by (simp add: schedule_ids_distinct_def db' map_sql_update)
  obtain s where s: "s \<in> set (scan_schedules db)" "P s"
    using n sql_rowcount_0 [of P "scan_schedules db"] by fastforce
  then have "fetch_schedule i db = Some s"
    using wf by (simp add: fetch_schedule_def sql_find_key schedule_ids_distinct_def P_def)
  then have "fetch_schedule i db' = Some (f s)"
    using s(2) f(1) by (simp add: fetch_schedule_def db' sql_find_update_hit)
  then show "due_revision now db' i = None"
    using f(2) by (simp add: due_revision_def)
  show "due_revision now db' i' = due_revision now db i'" if "i' \<noteq> i" for i'
  proof -
    have "fetch_schedule i' db' = fetch_schedule i' db"
      unfolding fetch_schedule_def db'
      by (rule sql_find_update_other) (use that f in \<open>auto simp: P_def\<close>)
    then show ?thesis by (simp add: due_revision_def)
  qed
qed

lemma advanced_not_due:
  assumes "0 < sc_interval_seconds s" "sc_next_run_at s \<le> now"
  shows "\<not> due now (advance_row s sha j now r)"
  using next_run_after(1) [OF assms] by (simp add: due_def advance_row_def)

lemma sqlite_enqueue_cases:
  assumes "enqueue_due_schedule E i k sha p ps now j db = (Inr (Some r), db')"
  obtains schedule rec where
    "sql_rowcount (\<lambda>s. sc_schedule_id s = i \<and> sc_revision s = k \<and> sc_state s = SCHEDULE_ACTIVE) (scan_schedules db) = 1"
    "scan_schedules db' = sql_update (\<lambda>s. sc_schedule_id s = i \<and> sc_revision s = k \<and> sc_state s = SCHEDULE_ACTIVE)
       (advance_row schedule sha j now) (scan_schedules db)"
    "scan_jobs db' = scan_jobs db @ [new_row E rec]"
    "0 < sc_interval_seconds schedule" "sc_next_run_at schedule \<le> now"
proof -
  obtain row schedule rec where row: "fetch_schedule i db = Some row" "schedule_from_row E row = Inr schedule"
    and rec: "bindE (ScanJobRequest_post_init E (scheduled_request schedule sha now))
                        (\<lambda>request. ScanJobRecord_post_init (fresh_record j request)) = Inr rec"
    and w: "enqueue_write E schedule k sha p ps now rec db = (Inr (Some r), db')"
    and due: "sc_next_run_at schedule \<le> now"
    using assms by (auto simp: enqueue_due_schedule_def split: option.splits sum.splits if_splits)
  have id: "sc_schedule_id schedule = i" "0 < sc_interval_seconds schedule"
    using row fetch_schedule_SomeD [OF row(1)]
    by (auto simp: schedule_from_row_def ScanScheduleRecord_Inr schedule_checks_def
        MINIMUM_SCAN_SCHEDULE_INTERVAL_SECONDS_def)
  have j: "jb_job_id rec = j"
    using rec fresh_record_post_init by (fastforce simp: bindE_eq_Inr)
  show thesis
    using w id j due
    by (intro that [of schedule rec])
      (auto simp: enqueue_write_def Let_def insert_job_def split: if_splits option.splits)
qed

lemma sqlite_enqueue_none:
  "enqueue_due_schedule E i k sha p ps now j db = (Inr None, db') \<Longrightarrow> db' = db"
  by (auto simp: enqueue_due_schedule_def enqueue_write_def Let_def bindE_eq_Inr
      split: option.splits sum.splits if_splits)

lemma sqlite_block_cases:
  assumes "block_due_schedule E i k code now db = (Inr r, db')"
  shows "if r = None
    then db' = db \<and> sql_rowcount (\<lambda>s. sc_schedule_id s = i \<and> sc_revision s = k \<and> sc_state s = SCHEDULE_ACTIVE)
           (scan_schedules db) \<noteq> 1
    else sql_rowcount (\<lambda>s. sc_schedule_id s = i \<and> sc_revision s = k \<and> sc_state s = SCHEDULE_ACTIVE) (scan_schedules db) = 1
      \<and> db' = update_schedules (\<lambda>s. sc_schedule_id s = i \<and> sc_revision s = k \<and> sc_state s = SCHEDULE_ACTIVE)
          (block_row code now) db"
  using assms by (auto simp: block_due_schedule_def Let_def bindE_eq_Inr split: if_splits option.splits)

lemma list_due_member:
  assumes "list_due_schedules E now limit db = Inr ss"
  shows "list_all2 (\<lambda>row s. schedule_from_row E row = Inr s)
      (take (nat limit) (sql_order due_key (filter (due now) (scan_schedules db)))) ss"
  using assms by (auto simp: list_due_schedules_def raise_if_eq_Inr mapE_Inr_iff)

lemma schedule_from_row_same:
  "schedule_from_row E row = Inr s \<Longrightarrow> sc_schedule_id s = sc_schedule_id row \<and> sc_revision s = sc_revision row"
  by (auto simp: schedule_from_row_def ScanScheduleRecord_Inr)

lemma list_due_ids:
  assumes "list_due_schedules E now limit db = Inr ss"
  shows "map sc_schedule_id ss
      = map sc_schedule_id (take (nat limit) (sql_order due_key (filter (due now) (scan_schedules db))))"
  using list_due_member [OF assms] by (induction rule: list_all2_induct) (simp_all add: schedule_from_row_same)

lemma list_due_distinct:
  assumes "schedule_ids_distinct db" "list_due_schedules E now limit db = Inr ss"
  shows "distinct (map sc_schedule_id ss)"
  unfolding list_due_ids [OF assms(2)]
  using assms(1) by (simp add: schedule_ids_distinct_def sql_order_def distinct_map inj_on_def take_map [symmetric])

lemma due_revision_member:
  "schedule_ids_distinct db \<Longrightarrow> r \<in> set (scan_schedules db) \<Longrightarrow> due now r \<Longrightarrow>
     due_revision now db (sc_schedule_id r) = Some (sc_revision r)"
  using sql_find_key [of sc_schedule_id "scan_schedules db" "sc_schedule_id r" r]
  by (simp add: due_revision_def fetch_schedule_def schedule_ids_distinct_def)

lemma list_due_revision:
  assumes "schedule_ids_distinct db" "list_due_schedules E now limit db = Inr ss" "s \<in> set ss"
  shows "due_revision now db (sc_schedule_id s) = Some (sc_revision s)"
proof -
  let ?rows = "take (nat limit) (sql_order due_key (filter (due now) (scan_schedules db)))"
  note rows = list_due_member [OF assms(2)]
  obtain n where n: "n < length ss" "s = ss ! n"
    using assms(3) by (auto simp: in_set_conv_nth)
  have "?rows ! n \<in> set ?rows"
    using n(1) list_all2_lengthD [OF rows] by (intro nth_mem) simp
  moreover have "schedule_from_row E (?rows ! n) = Inr s"
    using list_all2_nthD2 [OF rows n(1)] n(2) by simp
  ultimately obtain r where "r \<in> set ?rows" "schedule_from_row E r = Inr s"
    by blast
  then show ?thesis
    using due_revision_member [OF assms(1), of r now] schedule_from_row_same [of E r s]
    by (auto dest!: in_set_takeD)
qed

interpretation sqlite: schedule_repository "sqlite_repo E" schedule_ids_distinct due_revision
  "\<lambda>db. length (scan_jobs db)" for E
proof
  fix db i k sha p ps now j r db'
  assume wf: "schedule_ids_distinct db"
    and e: "rp_enqueue (sqlite_repo E) i k sha p ps now j db = (Inr (Some r), db')"
  then obtain schedule rec where c:
    "sql_rowcount (\<lambda>s. sc_schedule_id s = i \<and> sc_revision s = k \<and> sc_state s = SCHEDULE_ACTIVE) (scan_schedules db) = 1"
    "scan_schedules db' = sql_update (\<lambda>s. sc_schedule_id s = i \<and> sc_revision s = k \<and> sc_state s = SCHEDULE_ACTIVE)
       (advance_row schedule sha j now) (scan_schedules db)"
    "scan_jobs db' = scan_jobs db @ [new_row E rec]"
    "0 < sc_interval_seconds schedule" "sc_next_run_at schedule \<le> now"
    by (auto simp: sqlite_repo_def elim: sqlite_enqueue_cases)
  show "schedule_ids_distinct db' \<and> length (scan_jobs db') = length (scan_jobs db) + 1
      \<and> due_revision now db' i = None \<and> (\<forall>i'. i' \<noteq> i \<longrightarrow> due_revision now db' i' = due_revision now db i')"
    using due_revision_update [OF wf c(1) _ advanced_not_due [OF c(4,5)] c(2)] c(3) by simp
next
  fix db i k sha p ps now j db'
  assume "rp_enqueue (sqlite_repo E) i k sha p ps now j db = (Inr None, db')"
  then show "db' = db" by (simp add: sqlite_repo_def sqlite_enqueue_none)
next
  fix db i k code now q db'
  assume wf: "schedule_ids_distinct db" and b: "rp_block (sqlite_repo E) i k code now db = (Inr (Some q), db')"
  then have c:
    "sql_rowcount (\<lambda>s. sc_schedule_id s = i \<and> sc_revision s = k \<and> sc_state s = SCHEDULE_ACTIVE) (scan_schedules db) = 1"
    "db' = update_schedules (\<lambda>s. sc_schedule_id s = i \<and> sc_revision s = k \<and> sc_state s = SCHEDULE_ACTIVE)
          (block_row code now) db"
    using sqlite_block_cases [of E i k code now db "Some q" db'] by (simp_all add: sqlite_repo_def)
  then show "schedule_ids_distinct db' \<and> length (scan_jobs db') = length (scan_jobs db)
      \<and> due_revision now db' i = None \<and> (\<forall>i'. i' \<noteq> i \<longrightarrow> due_revision now db' i' = due_revision now db i')"
    using due_revision_update [OF wf c(1), of "block_row code now" now db']
    by (auto simp: update_schedules_def block_row_def due_def)
next
  fix db i k code now db'
  assume wf: "schedule_ids_distinct db" and b: "rp_block (sqlite_repo E) i k code now db = (Inr None, db')"
  have c: "db' = db"
    "sql_rowcount (\<lambda>s. sc_schedule_id s = i \<and> sc_revision s = k \<and> sc_state s = SCHEDULE_ACTIVE) (scan_schedules db) \<noteq> 1"
    using sqlite_block_cases [of E i k code now db None db'] b by (simp_all add: sqlite_repo_def)
  have "due_revision now db i \<noteq> Some k"
  proof
    assume "due_revision now db i = Some k"
    then obtain s where s: "fetch_schedule i db = Some s" "sc_state s = SCHEDULE_ACTIVE" "sc_revision s = k"
      by (auto simp: due_revision_def due_def split: option.splits if_splits)
    have "sql_rowcount (\<lambda>s. sc_schedule_id s = i \<and> sc_revision s = k \<and> sc_state s = SCHEDULE_ACTIVE) (scan_schedules db) = 1"
      using fetch_schedule_SomeD [OF s(1)] s(2,3) wf
      by (intro sql_rowcount_key [where k = sc_schedule_id and r = s
            and Q = "\<lambda>s. sc_revision s = k \<and> sc_state s = SCHEDULE_ACTIVE"]) (auto simp: schedule_ids_distinct_def)
    then show False using c(2) by simp
  qed
  then show "db' = db \<and> due_revision now db i \<noteq> Some k" using c(1) by simp
next
  fix db now limit ss
  assume "schedule_ids_distinct db" "rp_list_due (sqlite_repo E) now limit db = Inr ss"
  then show "distinct (map sc_schedule_id ss)
      \<and> (\<forall>s \<in> set ss. due_revision now db (sc_schedule_id s) = Some (sc_revision s))"
    by (simp add: sqlite_repo_def list_due_distinct list_due_revision)
qed

end
