(* ===== verification/Scheduler_Props.thy ===== *)
theory Scheduler_Props
  imports Scheduler Store_Examples
begin

text \<open>
  The guarantees of the schedule coordinator, on the SQLite store, and examples of an
  authorization directory and a key registry for the witnesses.
\<close>

section \<open>Definitions\<close>

definition ex_authorization :: owned_target_authorization where
  "ex_authorization =
     \<lparr>oa_authorization_id = ex_uuid (CHR ''d''), oa_organization = ''Example'', oa_authorized_by = ''Owner'',
      oa_target = ''https://example.com/'', oa_allowed_hosts = [''example.com''], oa_issued_at = 0,
      oa_expires_at = 1000000, oa_purpose = ''audit'', oa_limits = OwnedTargetLimits_default,
      oa_passive_only = True, oa_authorization_type = OWNED_TARGET_AUTHORIZATION_TYPE,
      oa_schema_version = hd SUPPORTED_AUTHORIZATION_VERSIONS\<rparr>"

definition ex_directory :: auth_directory where
  "ex_directory =
     Dir_Files [\<lparr>af_name = ''a.json'', af_metadata = Some (Kind_Regular, 384), af_load = Inr ex_authorization\<rparr>]"

definition ex_registry :: signing_registry where
  "ex_registry =
     registry_init (''sha256:'' @ ex_sha) ''Ed25519'' [1, 2, 3] (\<lambda>m. replicate 64 0)
       (\<lambda>algorithm. if algorithm = ''Ed25519'' then Some (\<lambda>key m s. s = replicate 64 0) else None)"

definition ex_stored_permit :: persisted_permit where
  "ex_stored_permit = \<lparr>pp_permit = ex_permit, pp_revoked_at = None, pp_revoked_by = None\<rparr>"

text \<open>A repository with one due schedule that counts the jobs it is asked to enqueue.\<close>

definition ex_repo :: "nat schedule_repo" where
  "ex_repo =
     \<lparr>rp_list_due = (\<lambda>now limit n. Inr [ex_schedule]), rp_assigned = (\<lambda>org aid n. Inr True),
      rp_binding = (\<lambda>i n. Some (ex_permit_id, ex_sha)), rp_permit = (\<lambda>pid org n. Inr ex_stored_permit),
      rp_enqueue = (\<lambda>i k sha p ps now j n. (Inr (Some (ex_schedule, fresh_record j (ex_request ''k'' now))), n + 1)),
      rp_block = (\<lambda>i k code now n. (Inr (Some ex_schedule), n))\<rparr>"

section \<open>What a pass does\<close>

lemma run_schedule_enqueued:
  assumes "run_schedule E R dir repo now s j sm db = (Inr sm', db')" "sm_enqueued sm' = sm_enqueued sm + 1"
  obtains sha pid psha where "schedule_verdict E R dir repo now s db = Inr (Enqueue sha pid psha)"
  using assms by (auto simp: run_schedule_def split: sum.splits verdict.splits prod.splits option.splits)

lemma permit_verdict_Enqueue:
  "permit_verdict E R s a now psha permit = Inr (Enqueue sha pid psha') \<Longrightarrow>
     permit_fingerprint E (sp_claims (pp_permit permit)) = psha
     \<and> validate_permit_use E R permit (sc_organization_id s) a (sc_target s) (sc_mode s) now = Inr ()"
  by (auto simp: permit_verdict_def Let_def split: if_splits sum.splits exn.splits)

text \<open>
  C10. The coordinator enqueues a run only when everything that authorizes it holds at that moment:
  the authorization is assigned to the organization, loaded, for the schedule's target and current;
  the schedule is bound to a permit that is stored for the organization with the bound digest; and
  that permit validates for the organization, authorization, target and mode at that time.
\<close>

theorem scheduler_enqueues_only_authorized:
  assumes "run_schedule E R dir repo now s j sm db = (Inr sm', db')" "sm_enqueued sm' = sm_enqueued sm + 1"
  shows "\<exists>a permit pid psha.
      rp_assigned repo (sc_organization_id s) (sc_authorization_id s) db = Inr True
    \<and> authorization_get dir (sc_authorization_id s) = Inr a \<and> oa_target a = sc_target s
    \<and> oa_issued_at a \<le> now \<and> now < oa_expires_at a
    \<and> rp_binding repo (sc_schedule_id s) db = Some (pid, psha)
    \<and> rp_permit repo pid (sc_organization_id s) db = Inr permit
    \<and> permit_fingerprint E (sp_claims (pp_permit permit)) = psha
    \<and> validate_permit_use E R permit (sc_organization_id s) a (sc_target s) (sc_mode s) now = Inr ()"
proof -
  obtain sha pid psha where v: "schedule_verdict E R dir repo now s db = Inr (Enqueue sha pid psha)"
    using run_schedule_enqueued [OF assms] by blast
  obtain a where a: "rp_assigned repo (sc_organization_id s) (sc_authorization_id s) db = Inr True"
    "authorization_get dir (sc_authorization_id s) = Inr a" "oa_target a = sc_target s"
    "oa_issued_at a \<le> now" "now < oa_expires_at a"
    using v by (auto simp: schedule_verdict_def bindE_eq_Inr split: if_splits sum.splits exn.splits)
  obtain pid' psha' permit where "rp_binding repo (sc_schedule_id s) db = Some (pid', psha')"
    "rp_permit repo pid' (sc_organization_id s) db = Inr permit"
    "permit_verdict E R s a now psha' permit = Inr (Enqueue sha pid psha)"
    using v a by (auto simp: schedule_verdict_def split: option.splits sum.splits exn.splits)
  then show ?thesis
    using a permit_verdict_Enqueue by blast
qed

theorem scheduler_enqueues_only_authorized_witness:
  "\<exists>a. authorization_get ex_directory (ex_uuid (CHR ''d'')) = Inr a \<and> oa_target a = sc_target ex_schedule \<and> 40 < oa_expires_at a"
proof -
  let ?sm = "\<lparr>sm_inspected = 1, sm_enqueued = 0, sm_blocked = 0, sm_raced = 0\<rparr>"
  let ?r = "run_schedule ex_env ex_registry ex_directory ex_repo 40 ex_schedule ''j'' ?sm 0"
  have "case fst ?r of Inr sm \<Rightarrow> sm_enqueued sm = 1 | _ \<Rightarrow> False"
    by code_simp
  then obtain sm where "?r = (Inr sm, snd ?r)" "sm_enqueued sm = sm_enqueued ?sm + 1"
    by (cases ?r) (auto split: sum.splits)
  moreover have "sc_authorization_id ex_schedule = ex_uuid (CHR ''d'')"
    by (simp add: ex_schedule_def fresh_schedule_def)
  ultimately show ?thesis
    using scheduler_enqueues_only_authorized [of ex_env ex_registry ex_directory ex_repo 40 ex_schedule "''j''" ?sm 0 sm "snd ?r"]
    by auto
qed






text \<open>
  A successful authorization lookup returns the one document with that identifier: it was loaded
  from an owner-only regular file, and every document of the directory could be inspected, none of
  them being a symbolic link or accessible to others.
\<close>

theorem authorization_lookup_private:
  assumes "authorization_get dir i = Inr a"
  shows "oa_authorization_id a = i
    \<and> (\<exists>files f mode. dir = Dir_Files files \<and> f \<in> set files \<and> af_metadata f = Some (Kind_Regular, mode)
         \<and> mode mod 64 = 0 \<and> af_load f = Inr a)
    \<and> (\<forall>files f. dir = Dir_Files files \<longrightarrow> f \<in> set files \<longrightarrow> ends_with ''.json'' (af_name f) \<longrightarrow>
         succeeds (auth_entry f))"
proof -
  obtain entries where e: "auth_entries dir = Inr entries" and found: "auth_matches i entries = Inr [a]"
    using authorization_get_single [OF assms] by blast
  obtain files where files: "dir = Dir_Files files" "set entries = {f \<in> set files. ends_with ''.json'' (af_name f)}"
    using auth_entries_member [OF e] by blast
  obtain f where f: "oa_authorization_id a = i" "f \<in> set entries" "auth_entry f = Inr (Some a)"
    using auth_matches_member [OF found] by auto
  show ?thesis
    using f files auth_entry_SomeD [OF f(3)] auth_matches_secure [OF found]
    by (auto simp: succeeds_iff)
qed

theorem authorization_lookup_private_witness:
  "oa_authorization_id ex_authorization = ex_uuid (CHR ''d'')"
proof -
  have "authorization_get ex_directory (ex_uuid (CHR ''d'')) = Inr ex_authorization"
    by code_simp
  then show ?thesis
    using authorization_lookup_private by blast
qed

end
