(* ===== verification/Permit_Codec.thy ===== *)
theory Permit_Codec
  imports Scan_Permits
begin

text \<open>
  Base64URL as the permits use it: the encoder and the strict decoder of
  \<^verbatim>\<open>webguard_api/permits.py\<close> are inverse to each other, and what that gives for signing and
  verifying under the registry of \<^verbatim>\<open>webguard_api/signing.py\<close>.
\<close>

section \<open>Groups of six bits\<close>

abbreviation octets :: "nat list \<Rightarrow> bool" where
  "octets bs \<equiv> list_all (\<lambda>b. b < 256) bs"

lemma b64_groups_small: "octets bs \<Longrightarrow> list_all (\<lambda>n. n < 64) (b64_groups bs)"
  by (induction bs rule: b64_groups.induct) auto

lemma b64_group_arith:
  fixes a b c :: nat
  assumes "b < 256" "c < 256"
  shows "a div 4 * 4 + (a mod 4 * 16 + b div 16) div 16 = a"
    and "(a mod 4 * 16 + b div 16) mod 16 * 16 + (b mod 16 * 4 + c div 64) div 4 = b"
    and "(b mod 16 * 4 + c div 64) mod 4 * 64 + c mod 64 = c"
proof -
  have "b div 16 < 16" "c div 64 < 4"
    using assms by auto
  then have *: "(a mod 4 * 16 + b div 16) div 16 = a mod 4" "(a mod 4 * 16 + b div 16) mod 16 = b div 16"
    "(b mod 16 * 4 + c div 64) div 4 = b mod 16" "(b mod 16 * 4 + c div 64) mod 4 = c div 64"
    by simp_all
  show "a div 4 * 4 + (a mod 4 * 16 + b div 16) div 16 = a"
    and "(a mod 4 * 16 + b div 16) mod 16 * 16 + (b mod 16 * 4 + c div 64) div 4 = b"
    and "(b mod 16 * 4 + c div 64) mod 4 * 64 + c mod 64 = c"
    unfolding * by (rule div_mult_mod_eq)+
qed

lemma b64_ungroup_groups: "octets bs \<Longrightarrow> b64_ungroup (b64_groups bs) = Some bs"
proof (induction bs rule: b64_groups.induct)
  case (2 a)
  then show ?case using b64_group_arith(1) [of 0 0 a] by simp
next
  case (3 a b)
  then show ?case using b64_group_arith(1) [of b 0 a] b64_group_arith(2) [of b 0 a] by simp
next
  case (4 a b c bs)
  then show ?case using b64_group_arith(1,2) [of b c a] b64_group_arith(3) [of b c] by simp
qed simp

lemma b64_octet_arith:
  fixes x y :: nat
  shows "x < 64 \<Longrightarrow> y < 64 \<Longrightarrow> x * 4 + y div 16 < 256"
    and "y < 64 \<Longrightarrow> x mod 16 * 16 + y div 4 < 256"
    and "y < 64 \<Longrightarrow> x mod 4 * 64 + y < 256"
proof -
  have "x mod 16 \<le> 15" "x mod 4 \<le> 3" "y < 64 \<Longrightarrow> y div 16 \<le> 3" "y < 64 \<Longrightarrow> y div 4 \<le> 15"
    by (simp_all flip: less_Suc_eq_le)
  then show "x < 64 \<Longrightarrow> y < 64 \<Longrightarrow> x * 4 + y div 16 < 256"
    and "y < 64 \<Longrightarrow> x mod 16 * 16 + y div 4 < 256"
    and "y < 64 \<Longrightarrow> x mod 4 * 64 + y < 256"
    by linarith+
qed

lemma b64_ungroup_octets:
  "b64_ungroup xs = Some bs \<Longrightarrow> list_all (\<lambda>n. n < 64) xs \<Longrightarrow> octets bs"
  by (induction xs arbitrary: bs rule: b64_ungroup.induct) (auto simp: b64_octet_arith)

lemma length_b64_groups: "length (b64_groups bs) mod 4 \<noteq> Suc 0"
  by (induction bs rule: b64_groups.induct) auto

lemma b64_groups_Nil [simp]: "b64_groups bs = [] \<longleftrightarrow> bs = []"
  by (cases bs rule: b64_groups.cases) auto

section \<open>The alphabet\<close>

lemma b64_table: "list_all (\<lambda>n. b64_value (b64_char n) = Some n \<and> b64_char n \<noteq> CHR ''='' \<and> (of_char (b64_char n) :: nat) < 128) [0..<64]"
  by code_simp

lemma b64_char_props:
  assumes "n < 64"
  shows "b64_value (b64_char n) = Some n" and "b64_char n \<noteq> CHR ''=''" and "(of_char (b64_char n) :: nat) < 128"
  using b64_table assms by (auto simp: list_all_iff)

lemma b64_indices_map: "list_all (\<lambda>n. n < 64) ns \<Longrightarrow> b64_indices (map b64_char ns) = Some ns"
  by (induction ns) (simp_all add: b64_char_props)

lemma b64_value_small: "b64_value c = Some n \<Longrightarrow> n < 64"
  by (auto simp: b64_value_def b64_alphabet_def split: option.splits if_splits dest: index_of_Some)

lemma b64_indices_small: "b64_indices s = Some ns \<Longrightarrow> list_all (\<lambda>n. n < 64) ns"
  by (induction s arbitrary: ns) (auto split: option.splits dest: b64_value_small)

section \<open>Encoding and decoding\<close>

lemma b64_unpad_append: "CHR ''='' \<notin> set s \<Longrightarrow> b64_unpad (s @ replicate k (CHR ''='')) = s"
proof -
  assume "CHR ''='' \<notin> set s"
  then have "dropWhile (\<lambda>c. c = CHR ''='') (rev s) = rev s"
    by (intro dropWhile_id_hd) (metis hd_in_set set_rev)
  then show ?thesis
    by (simp add: b64_unpad_def dropWhile_append)
qed

lemma b64decode_encoded:
  assumes "octets bs" "bs \<noteq> []"
  shows "b64decode_validate (b64url_encode bs @ b64_padding (b64url_encode bs)) = Some bs"
proof -
  let ?s = "b64url_encode bs"
  have small: "list_all (\<lambda>n. n < 64) (b64_groups bs)"
    using assms b64_groups_small by blast
  have "CHR ''='' \<notin> set ?s"
    using small b64_char_props(2) by (fastforce simp: b64url_encode_def list_all_iff)
  then have body: "b64_unpad (?s @ b64_padding ?s) = ?s"
    by (simp add: b64_padding_def b64_unpad_append)
  have "length ?s mod 4 \<noteq> Suc 0"
    by (simp add: b64url_encode_def length_b64_groups)
  then have "length ?s mod 4 = 2 \<Longrightarrow> length (b64_padding ?s) = 2"
    "length ?s mod 4 = 3 \<Longrightarrow> length (b64_padding ?s) = 1" "?s \<noteq> []"
    using assms by (simp_all add: b64_padding_def b64url_encode_def)
  moreover have "Option.bind (b64_indices ?s) b64_ungroup = Some bs"
    using assms small by (simp add: b64url_encode_def b64_indices_map b64_ungroup_groups)
  ultimately show ?thesis
    by (simp add: b64decode_validate_def body Let_def)
qed

lemma b64url_encode_ascii: "octets bs \<Longrightarrow> is_ascii (b64url_encode bs)"
  using b64_groups_small [of bs] b64_char_props(3)
  by (auto simp: is_ascii_def b64url_encode_def list_all_iff)

lemma b64url_decode_encode:
  assumes "octets bs" "bs \<noteq> []"
  shows "b64url_decode_canonical (b64url_encode bs) = Inr bs"
proof -
  have "b64url_encode bs \<noteq> []"
    using assms by (simp add: b64url_encode_def)
  then show ?thesis
    using assms by (simp add: b64url_decode_canonical_def b64decode_encoded b64url_encode_ascii Let_def)
qed

lemma b64url_decode_Inr:
  assumes "b64url_decode_canonical s = Inr bs"
  shows "b64url_encode bs = s \<and> octets bs"
proof -
  obtain body where "b64url_encode bs = s" "Option.bind (b64_indices body) b64_ungroup = Some bs"
    using assms
    by (auto simp: b64url_decode_canonical_def b64decode_validate_def Let_def raise_if_eq_Inr
        split: option.splits if_splits)
  then show ?thesis
    using b64_indices_small b64_ungroup_octets by (auto simp: bind_eq_Some_conv)
qed

end
