(* ===== verification/Contract_Props.thy ===== *)
theory Contract_Props
  imports Scheduler_Props Permit_Codec
begin

text \<open>
  Properties of the contracts and of permits: what the identifier check and the job record accept,
  the bounds that every permit obeys, signing and verification across the life of a key, and the
  exact conditions under which a permit may be used.
\<close>

section \<open>Identifiers and records\<close>

text \<open>
  The identifier check parses a text as a 128-bit number, prints that number and compares. It
  accepts exactly the texts of the form 8-4-4-4-12 lower-case hexadecimal digits, and returns them
  unchanged; braces, the URN prefix, upper case, signs, underscores and spaces that the parser
  tolerates are all refused.
\<close>

theorem uuid_check_canonical:
  "canonical_uuid err prefix value = Inr w \<longleftrightarrow>
     w = value \<and> (\<exists>h. length h = 32 \<and> list_all is_hex h \<and> value = dash_uuid h)"
  unfolding canonical_uuid_Inr uuid_shape_def by (rule refl)

text \<open>
  The job-record constructor, with its many early returns, accepts exactly the records whose
  fields are well formed, whose instants are ordered and whose metadata fits the state.
\<close>

theorem job_record_accepts: "succeeds (ScanJobRecord_post_init r) \<longleftrightarrow> record_wf r"
  by (rule ScanJobRecord_succeeds)

section \<open>Bounds of a permit\<close>

lemma permit_http_methods_Inr:
  assumes "permit_http_methods v = Inr ms"
  shows "ms = v \<and> set ms \<subseteq> {''GET'', ''HEAD'', ''POST''} \<and> ''GET'' \<in> set ms"
  using assms
  by (auto simp: permit_http_methods_def Let_def raise_if_eq_Inr list_all_iff
      TRUSTSCAN_ALLOWED_HTTP_METHODS_def)

lemma permit_active_checks_Inr:
  assumes "permit_active_checks v = Inr cs"
  shows "set cs = set v \<and> set cs \<subseteq> set KNOWN_TRUSTSCAN_ACTIVE_CHECKS"
  using assms
  by (auto simp: permit_active_checks_def Let_def raise_if_eq_Inr list_all_iff sorted_unique_def)

text \<open>
  Whatever is submitted, accepted permit claims grant between 1 and 150 requests, at a rate
  between one request in five seconds and two per second, one at a time, for at most 90 days; they
  allow no method but GET, HEAD and POST, always GET, only known active checks, and they carry the
  full list of prohibited operations.
\<close>

theorem permit_claims_bounds:
  assumes "TrustScanPermitClaims_post_init E c = Inr c'"
  shows "1 \<le> pc_maximum_request_attempts c' \<and> pc_maximum_request_attempts c' \<le> 150
    \<and> 1 / 5 \<le> pc_maximum_requests_per_second c' \<and> pc_maximum_requests_per_second c' \<le> 2
    \<and> pc_maximum_concurrency c' = 1
    \<and> pc_issued_at c' \<le> pc_not_before c' \<and> pc_not_before c' < pc_expires_at c'
    \<and> pc_expires_at c' - pc_not_before c' \<le> 90 * 24 * 60 * 60 * microseconds
    \<and> set (pc_allowed_http_methods c') \<subseteq> {''GET'', ''HEAD'', ''POST''} \<and> ''GET'' \<in> set (pc_allowed_http_methods c')
    \<and> set (pc_active_checks c') \<subseteq> set KNOWN_TRUSTSCAN_ACTIVE_CHECKS
    \<and> pc_prohibited_operations c' = TRUSTSCAN_PROHIBITED_OPERATIONS
    \<and> pc_permitted_modes c' \<noteq> []"
  using assms
  by (auto simp: TrustScanPermitClaims_post_init_def bindE_eq_Inr raise_if_eq_Inr
      permit_positive_integer_def permit_requests_per_second_def permit_prohibited_operations_def
      permit_modes_def maximum_permit_validity_def
      dest!: permit_http_methods_Inr permit_active_checks_Inr)

theorem permit_claims_bounds_witness:
  "1 \<le> pc_maximum_request_attempts ex_claims \<and> pc_maximum_concurrency ex_claims = 1"
proof -
  have "TrustScanPermitClaims_post_init ex_env ex_claims = Inr ex_claims"
    by code_simp
  then show ?thesis
    using permit_claims_bounds by blast
qed

section \<open>Base64URL\<close>

text \<open>
  Decoding inverts encoding on every non-empty list of bytes; and a text that decodes is the one
  encoding of the bytes it decodes to, so that no two signature texts stand for the same bytes.
\<close>

theorem b64url_round_trip:
  "(list_all (\<lambda>b. b < 256) bs \<and> bs \<noteq> [] \<longrightarrow> b64url_decode_canonical (b64url_encode bs) = Inr bs)
   \<and> (b64url_decode_canonical s = Inr bs \<longrightarrow> b64url_encode bs = s \<and> list_all (\<lambda>b. b < 256) bs)"
  using b64url_decode_encode b64url_decode_Inr by blast

theorem b64url_round_trip_witness:
  "b64url_decode_canonical (b64url_encode [251, 255, 0, 7]) = Inr [251, 255, 0, 7]
   \<and> b64url_encode [251, 255, 0, 7] = ''-_8ABw''"
proof -
  have "b64url_decode_canonical ''-_8ABw'' = Inr [251, 255, 0, 7]"
    by code_simp
  then show ?thesis
    using b64url_round_trip [of "[251, 255, 0, 7]" "''-_8ABw''"] by simp
qed

section \<open>The life of a signing key\<close>

text \<open>
  What the registry relies on: the active provider's signatures are non-empty byte strings, and the
  verifier of its algorithm accepts them under its public key.
\<close>

definition provider_correct ::
  "string \<Rightarrow> nat list \<Rightarrow> (json \<Rightarrow> nat list) \<Rightarrow> (string \<Rightarrow> (nat list \<Rightarrow> json \<Rightarrow> nat list \<Rightarrow> bool) option) \<Rightarrow> bool" where
  "provider_correct algorithm public_key sign verifier \<longleftrightarrow>
     (\<forall>m. octets (sign m) \<and> sign m \<noteq> [])
     \<and> (\<exists>v. verifier algorithm = Some v \<and> (\<forall>m. v public_key m (sign m)))"

lemma signer_sign_Inr:
  "signer_sign R c = Inr p \<Longrightarrow>
     sp_claims p = c \<and> sp_signing_key_id p = rg_active_key_id R
     \<and> sp_signature p = b64url_encode (rg_active_sign R (permit_claims_to_dict c))"
  by (auto simp: signer_sign_def SignedTrustScanPermit_post_init_def raise_if_eq_Inr)

text \<open>
  C16. A permit signed with a key verifies while the key is active and after it has been retired, and
  is refused, as signed by an untrusted key, once the key is disabled. Registering a further key
  under another identifier changes nothing.
\<close>

theorem permit_key_lifecycle:
  assumes provider: "provider_correct algorithm public_key sign verifier"
    and R: "R = registry_init key_id algorithm public_key sign verifier"
    and signed: "signer_sign R c = Inr p"
    and status: "set_status R key_id status = Inr R'"
    and other: "vk_key_id key \<noteq> key_id"
  shows "signer_verify (add_verification_key R' key) p =
     (if status = KEY_DISABLED
      then Inl (TrustScanPermitError ''trustscan_permit_signing_key_mismatch'') else Inr ())"
proof -
  let ?m = "permit_claims_to_dict c"
  have "b64url_decode_canonical (sp_signature p) = Inr (sign ?m)"
    using provider signer_sign_Inr [OF signed]
    by (simp add: R registry_init_def provider_correct_def b64url_decode_encode)
  moreover obtain v where "verifier algorithm = Some v" "v public_key ?m (sign ?m)"
    using provider by (auto simp: provider_correct_def)
  ultimately show ?thesis
    using signer_sign_Inr [OF signed] status other
    by (auto simp: signer_verify_def verify_by_key_id_def add_verification_key_def set_status_def R
        registry_init_def key_verify_def)
qed

theorem permit_key_lifecycle_witness:
  "case signer_sign ex_registry ex_claims of
     Inl e \<Rightarrow> False
   | Inr p \<Rightarrow> (case set_status ex_registry (''sha256:'' @ ex_sha) KEY_RETIRED of
       Inl e \<Rightarrow> False
     | Inr R' \<Rightarrow> signer_verify (add_verification_key R' \<lparr>vk_key_id = ''k2'', vk_algorithm = ''Ed25519'',
                   vk_public_key = [9], vk_status = KEY_ACTIVE\<rparr>) p = Inr ())"
proof -
  have signed: "signer_sign ex_registry ex_claims = Inr ex_permit"
    by code_simp
  obtain R' where status: "set_status ex_registry (''sha256:'' @ ex_sha) KEY_RETIRED = Inr R'"
    by (simp add: set_status_def ex_registry_def registry_init_def)
  have "provider_correct ''Ed25519'' [1, 2, 3] (\<lambda>m. replicate 64 0)
      (\<lambda>algorithm. if algorithm = ''Ed25519'' then Some (\<lambda>key m s. s = replicate 64 0) else None)"
    by (auto simp: provider_correct_def list_all_iff)
  then show ?thesis
    using permit_key_lifecycle [OF _ ex_registry_def signed status] unfolding signed status by simp
qed

section \<open>Using a permit\<close>

text \<open>
  A permit may be used for an execution exactly when its signature verifies, it is not revoked,
  the execution happens in its validity window, and organization, authorization, authorization
  digest, target and mode are the ones it was issued for.
\<close>

theorem validate_permit_use_exact:
  "validate_permit_use E R p organization_id a target mode now = Inr () \<longleftrightarrow>
     (let c = sp_claims (pp_permit p) in
      signer_verify R (pp_permit p) = Inr () \<and> pp_revoked_at p = None
      \<and> pc_not_before c \<le> now \<and> now < pc_expires_at c
      \<and> pc_organization_id c = organization_id
      \<and> pc_authorization_id c = oa_authorization_id a
      \<and> pc_authorization_sha256 c = authorization_fingerprint E a
      \<and> pc_target c = target \<and> oa_target a = target \<and> mode \<in> set (pc_permitted_modes c))"
  by (auto simp: validate_permit_use_def validate_permit_scope_def permit_state_at_def Let_def
      bindE_eq_Inr raise_if_eq_Inr split: if_splits)

end
