(* ===== verification/Safety_Receipts.thy ===== *)
theory Safety_Receipts
  imports Permit_Codec
begin

text \<open>
  Signed safety receipts: the contract (\<^verbatim>\<open>webguard_contracts/safety_receipts.py\<close>) with every
  check of its constructors, the canonical dictionary, and signing and verification by the same
  registry that signs permits (\<^verbatim>\<open>webguard_api/permits.py\<close>). The type checks of the
  constructor hold by the types of the record; its floats are finite.
\<close>

section \<open>Definitions\<close>

definition sr_error :: "string \<Rightarrow> exn" where
  "sr_error code = TrustScanSafetyReceiptError code"

definition receipt_uuid :: "string \<Rightarrow> string result" where
  "receipt_uuid value = canonical_uuid TrustScanSafetyReceiptError ''trustscan_safety_receipt'' value"

definition receipt_sha256 :: "string \<Rightarrow> string result" where
  "receipt_sha256 value =
     raise_if (\<not> hex64 value) (sr_error ''trustscan_safety_receipt_sha256_invalid'') (Inr value)"

definition receipt_count :: "int \<Rightarrow> int result" where
  "receipt_count value =
     raise_if (value < 0) (sr_error ''trustscan_safety_receipt_count_invalid'') (Inr value)"

text \<open>\<^verbatim>\<open>^[a-z][a-z0-9._-]{0,127}$\<close> with \<^verbatim>\<open>fullmatch\<close>.\<close>

definition receipt_identifier :: "string \<Rightarrow> bool" where
  "receipt_identifier s \<longleftrightarrow>
     (case s of [] \<Rightarrow> False
      | c # cs \<Rightarrow> is_lower_alnum c \<and> \<not> is_digit c \<and> length cs \<le> 127
                  \<and> list_all (\<lambda>x. is_lower_alnum x \<or> x \<in> set ''._-'') cs)"

record receipt_claims =
  sr_receipt_id :: string
  sr_permit_id :: string
  sr_permit_sha256 :: string
  sr_organization_id :: string
  sr_job_id :: string
  sr_scan_id :: string
  sr_target :: string
  sr_started_at :: time
  sr_completed_at :: time
  sr_maximum_request_attempts :: int
  sr_maximum_requests_per_second :: rat
  sr_maximum_concurrency :: int
  sr_requests_attempted :: int
  sr_requests_permitted :: int
  sr_requests_blocked :: int
  sr_responses_429 :: int
  sr_responses_5xx :: int
  sr_request_errors :: int
  sr_throttles :: int
  sr_throttle_seconds :: rat
  sr_circuit_breaker_activations :: int
  sr_scope_violations :: int
  sr_permit_revalidations :: int
  sr_peak_concurrency :: int
  sr_termination_reason :: string
  sr_safety_policy_respected :: bool

definition starts_with :: "string \<Rightarrow> string \<Rightarrow> bool" where
  "starts_with prefix s \<longleftrightarrow> take (length prefix) s = prefix"

definition receipt_counts :: "receipt_claims \<Rightarrow> int list" where
  "receipt_counts c =
     [sr_maximum_request_attempts c, sr_maximum_concurrency c, sr_requests_attempted c,
      sr_requests_permitted c, sr_requests_blocked c, sr_responses_429 c, sr_responses_5xx c,
      sr_request_errors c, sr_throttles c, sr_circuit_breaker_activations c, sr_scope_violations c,
      sr_permit_revalidations c, sr_peak_concurrency c]"

definition TrustScanSafetyReceiptClaims_post_init :: "receipt_claims \<Rightarrow> receipt_claims result" where
  "TrustScanSafetyReceiptClaims_post_init c =
     bindE (mapE receipt_uuid
       [sr_receipt_id c, sr_permit_id c, sr_organization_id c, sr_job_id c, sr_scan_id c]) (\<lambda>_.
     bindE (receipt_sha256 (sr_permit_sha256 c)) (\<lambda>_.
     raise_if (\<not> (starts_with ''http://'' (sr_target c) \<or> starts_with ''https://'' (sr_target c)))
       (sr_error ''trustscan_safety_receipt_target_invalid'')
     (raise_if (sr_completed_at c < sr_started_at c)
       (sr_error ''trustscan_safety_receipt_timestamp_order_invalid'')
     (bindE (mapE receipt_count (receipt_counts c)) (\<lambda>_.
      raise_if (sr_maximum_request_attempts c < 1 \<or> sr_maximum_concurrency c < 1)
        (sr_error ''trustscan_safety_receipt_limit_invalid'')
      (raise_if (sr_maximum_requests_per_second c \<le> 0 \<or> sr_throttle_seconds c < 0)
        (sr_error ''trustscan_safety_receipt_rate_invalid'')
      (raise_if (sr_requests_permitted c > sr_requests_attempted c)
        (sr_error ''trustscan_safety_receipt_request_counts_invalid'')
      (raise_if (sr_peak_concurrency c > sr_maximum_concurrency c)
        (sr_error ''trustscan_safety_receipt_concurrency_invalid'')
      (raise_if (\<not> receipt_identifier (sr_termination_reason c))
        (sr_error ''trustscan_safety_receipt_termination_invalid'')
      (Inr c))))))))))"

text \<open>\<^verbatim>\<open>round(x, 6)\<close>, half to even.\<close>

definition round6 :: "rat \<Rightarrow> rat" where
  "round6 x = of_int (py_round (x * 1000000)) / 1000000"

definition receipt_claims_to_dict :: "receipt_claims \<Rightarrow> json" where
  "receipt_claims_to_dict c =
     JObj [(''receipt_id'', JStr (sr_receipt_id c)),
           (''permit_id'', JStr (sr_permit_id c)),
           (''permit_sha256'', JStr (sr_permit_sha256 c)),
           (''organization_id'', JStr (sr_organization_id c)),
           (''job_id'', JStr (sr_job_id c)),
           (''scan_id'', JStr (sr_scan_id c)),
           (''target'', JStr (sr_target c)),
           (''started_at'', JStr (timestamp_text (sr_started_at c))),
           (''completed_at'', JStr (timestamp_text (sr_completed_at c))),
           (''maximum_request_attempts'', JInt (sr_maximum_request_attempts c)),
           (''maximum_requests_per_second'', JFloat (sr_maximum_requests_per_second c)),
           (''maximum_concurrency'', JInt (sr_maximum_concurrency c)),
           (''requests_attempted'', JInt (sr_requests_attempted c)),
           (''requests_permitted'', JInt (sr_requests_permitted c)),
           (''requests_blocked'', JInt (sr_requests_blocked c)),
           (''responses_429'', JInt (sr_responses_429 c)),
           (''responses_5xx'', JInt (sr_responses_5xx c)),
           (''request_errors'', JInt (sr_request_errors c)),
           (''throttles'', JInt (sr_throttles c)),
           (''throttle_seconds'', JFloat (round6 (sr_throttle_seconds c))),
           (''circuit_breaker_activations'', JInt (sr_circuit_breaker_activations c)),
           (''scope_violations'', JInt (sr_scope_violations c)),
           (''permit_revalidations'', JInt (sr_permit_revalidations c)),
           (''peak_concurrency'', JInt (sr_peak_concurrency c)),
           (''termination_reason'', JStr (sr_termination_reason c)),
           (''safety_policy_respected'', JBool (sr_safety_policy_respected c))]"

definition receipt_claims_fingerprint :: "py_env \<Rightarrow> receipt_claims \<Rightarrow> string" where
  "receipt_claims_fingerprint E c = env_digest E (receipt_claims_to_dict c)"

subsection \<open>Signed receipts\<close>

record signed_receipt =
  ss_claims :: receipt_claims
  ss_signing_key_id :: string
  ss_signature :: string
  ss_signature_algorithm :: string
  ss_receipt_type :: string
  ss_schema_version :: string

definition TRUSTSCAN_SAFETY_RECEIPT_TYPE :: string where
  "TRUSTSCAN_SAFETY_RECEIPT_TYPE = ''trustscan_safety_receipt''"

definition CURRENT_TRUSTSCAN_SAFETY_RECEIPT_SCHEMA_VERSION :: string where
  "CURRENT_TRUSTSCAN_SAFETY_RECEIPT_SCHEMA_VERSION = ''1.0''"

definition SUPPORTED_TRUSTSCAN_SAFETY_RECEIPT_SIGNATURE_ALGORITHMS :: "string list" where
  "SUPPORTED_TRUSTSCAN_SAFETY_RECEIPT_SIGNATURE_ALGORITHMS = [''Ed25519'', ''ECDSA_SHA_256'']"

definition SignedTrustScanSafetyReceipt_post_init :: "signed_receipt \<Rightarrow> signed_receipt result" where
  "SignedTrustScanSafetyReceipt_post_init r =
     raise_if (ss_receipt_type r \<noteq> TRUSTSCAN_SAFETY_RECEIPT_TYPE
               \<or> ss_schema_version r \<noteq> CURRENT_TRUSTSCAN_SAFETY_RECEIPT_SCHEMA_VERSION)
       (sr_error ''trustscan_safety_receipt_type_invalid'')
     (raise_if (ss_signature_algorithm r \<notin> set SUPPORTED_TRUSTSCAN_SAFETY_RECEIPT_SIGNATURE_ALGORITHMS)
       (sr_error ''trustscan_safety_receipt_signature_algorithm_invalid'')
     (raise_if (\<not> is_key_id (ss_signing_key_id r)) (sr_error ''trustscan_safety_receipt_key_id_invalid'')
     (raise_if (ss_signature r = [] \<or> \<not> list_all (\<lambda>c. c \<in> set b64_alphabet) (ss_signature r))
       (sr_error ''trustscan_safety_receipt_signature_invalid'')
     (Inr r))))"

definition signed_receipt_to_dict :: "signed_receipt \<Rightarrow> json" where
  "signed_receipt_to_dict r =
     JObj [(''receipt_type'', JStr (ss_receipt_type r)),
           (''schema_version'', JStr (ss_schema_version r)),
           (''claims'', receipt_claims_to_dict (ss_claims r)),
           (''signing_key_id'', JStr (ss_signing_key_id r)),
           (''signature_algorithm'', JStr (ss_signature_algorithm r)),
           (''signature'', JStr (ss_signature r))]"

definition signed_receipt_fingerprint :: "py_env \<Rightarrow> signed_receipt \<Rightarrow> string" where
  "signed_receipt_fingerprint E r = env_digest E (signed_receipt_to_dict r)"

definition sign_safety_receipt :: "signing_registry \<Rightarrow> receipt_claims \<Rightarrow> signed_receipt result" where
  "sign_safety_receipt R claims =
     SignedTrustScanSafetyReceipt_post_init
       \<lparr>ss_claims = claims, ss_signing_key_id = rg_active_key_id R,
        ss_signature = b64url_encode (rg_active_sign R (receipt_claims_to_dict claims)),
        ss_signature_algorithm = rg_active_algorithm R,
        ss_receipt_type = TRUSTSCAN_SAFETY_RECEIPT_TYPE,
        ss_schema_version = CURRENT_TRUSTSCAN_SAFETY_RECEIPT_SCHEMA_VERSION\<rparr>"

definition verify_safety_receipt :: "signing_registry \<Rightarrow> signed_receipt \<Rightarrow> unit result" where
  "verify_safety_receipt R receipt =
     bindE (b64url_decode_canonical (ss_signature receipt)) (\<lambda>signature.
       case verify_by_key_id R (ss_signing_key_id receipt) (receipt_claims_to_dict (ss_claims receipt)) signature of
         Inl (SigningProviderError code) \<Rightarrow>
           Inl (TrustScanPermitError
             (if code = ''trustscan_signing_key_unknown'' \<or> code = ''trustscan_signing_key_disabled''
              then ''trustscan_safety_receipt_signing_key_mismatch''
              else ''trustscan_safety_receipt_signature_invalid''))
       | r \<Rightarrow> r)"

section \<open>What a valid receipt is\<close>

lemma receipt_uuid_Inr [exn_simps]: "receipt_uuid v = Inr w \<longleftrightarrow> w = v \<and> uuid_shape v"
  by (simp add: receipt_uuid_def canonical_uuid_Inr)

lemma receipt_count_Inr [exn_simps]: "receipt_count v = Inr w \<longleftrightarrow> w = v \<and> 0 \<le> v"
  by (auto simp: receipt_count_def raise_if_eq_Inr)

lemma receipt_sha256_Inr [exn_simps]: "receipt_sha256 v = Inr w \<longleftrightarrow> w = v \<and> hex64 v"
  by (auto simp: receipt_sha256_def raise_if_eq_Inr)

definition receipt_wf :: "receipt_claims \<Rightarrow> bool" where
  "receipt_wf c \<longleftrightarrow>
     list_all uuid_shape [sr_receipt_id c, sr_permit_id c, sr_organization_id c, sr_job_id c, sr_scan_id c]
     \<and> hex64 (sr_permit_sha256 c)
     \<and> (starts_with ''http://'' (sr_target c) \<or> starts_with ''https://'' (sr_target c))
     \<and> sr_started_at c \<le> sr_completed_at c
     \<and> list_all (\<lambda>n. 0 \<le> n) (receipt_counts c)
     \<and> 1 \<le> sr_maximum_request_attempts c \<and> 1 \<le> sr_maximum_concurrency c
     \<and> 0 < sr_maximum_requests_per_second c \<and> 0 \<le> sr_throttle_seconds c
     \<and> sr_requests_permitted c \<le> sr_requests_attempted c
     \<and> sr_peak_concurrency c \<le> sr_maximum_concurrency c
     \<and> receipt_identifier (sr_termination_reason c)"

lemma mapE_check:
  assumes "\<And>v w. f v = Inr w \<longleftrightarrow> w = v \<and> P v"
  shows "mapE f xs = Inr ys \<longleftrightarrow> ys = xs \<and> list_all P xs"
  by (induction xs arbitrary: ys) (auto simp: bindE_eq_Inr assms)

lemma receipt_claims_Inr:
  "TrustScanSafetyReceiptClaims_post_init c = Inr c' \<longleftrightarrow> c' = c \<and> receipt_wf c"
  unfolding TrustScanSafetyReceiptClaims_post_init_def receipt_wf_def
  by (auto simp: bindE_eq_Inr raise_if_eq_Inr receipt_sha256_Inr mapE_check [OF receipt_uuid_Inr]
      mapE_check [OF receipt_count_Inr] simp del: mapE.simps)

end
