(* ===== verification/Safety_Engine.thy ===== *)
theory Safety_Engine
  imports Safety_Receipts WG_Machine
begin

text \<open>
  The runtime safety engine (\<^verbatim>\<open>webguard_api/safety.py\<close>): the gate in front of every outbound
  request of a scan. Each operation runs under the engine's lock, so a call is one step. What a call
  takes from outside is an argument: the results of the revalidation callback and the readings of the
  monotonic clock, before and after a throttling pause.
\<close>

section \<open>Definitions\<close>

record safety_engine =
  se_permit :: persisted_permit
  se_organization_id :: string
  se_job_id :: string
  se_scan_id :: string
  se_target :: string
  se_started_at :: time
  se_root_origin :: "string \<times> string \<times> nat"
  se_last_permitted_at :: "rat option"
  se_in_flight :: int
  se_consecutive_protective_events :: int
  se_circuit_open :: bool
  se_requests_attempted :: int
  se_requests_permitted :: int
  se_requests_blocked :: int
  se_responses_429 :: int
  se_responses_5xx :: int
  se_request_errors :: int
  se_throttles :: int
  se_throttle_seconds :: rat
  se_circuit_breaker_activations :: int
  se_scope_violations :: int
  se_permit_revalidations :: int
  se_peak_concurrency :: int

abbreviation engine_claims :: "safety_engine \<Rightarrow> permit_claims" where
  "engine_claims e \<equiv> sp_claims (pp_permit (se_permit e))"

definition CIRCUIT_BREAKER_CONSECUTIVE_EVENTS :: int where
  "CIRCUIT_BREAKER_CONSECUTIVE_EVENTS = 3"

definition runtime_error :: "string \<Rightarrow> exn" where
  "runtime_error code = TrustScanRuntimeSafetyError code"

text \<open>\<^verbatim>\<open>_origin\<close>; the \<^verbatim>\<open>ValueError\<close> of \<^verbatim>\<open>urlsplit\<close> itself is not caught.\<close>

definition origin :: "string \<Rightarrow> (string \<times> string \<times> nat) result" where
  "origin url =
     (case urlsplit url of
        None \<Rightarrow> Inl ValueError
      | Some parsed \<Rightarrow>
        (case url_hostname parsed of
           None \<Rightarrow> Inl (runtime_error ''trustscan_runtime_target_invalid'')
         | Some hostname \<Rightarrow>
           raise_if (u_scheme parsed \<notin> {''http'', ''https''})
             (runtime_error ''trustscan_runtime_target_invalid'')
           (case url_port parsed of
              Inl _ \<Rightarrow> Inl (runtime_error ''trustscan_runtime_target_invalid'')
            | Inr port \<Rightarrow>
                Inr (py_lower (u_scheme parsed), py_lower hostname,
                     case port of Some p \<Rightarrow> p
                     | None \<Rightarrow> if u_scheme parsed = ''https'' then 443 else 80))))"

definition engine_init ::
  "persisted_permit \<Rightarrow> string \<Rightarrow> string \<Rightarrow> string \<Rightarrow> string \<Rightarrow> time \<Rightarrow> safety_engine result" where
  "engine_init permit organization_id job_id scan_id target now =
     bindE (origin target) (\<lambda>root.
       Inr \<lparr>se_permit = permit, se_organization_id = organization_id, se_job_id = job_id,
            se_scan_id = scan_id, se_target = target, se_started_at = now, se_root_origin = root,
            se_last_permitted_at = None, se_in_flight = 0, se_consecutive_protective_events = 0,
            se_circuit_open = False, se_requests_attempted = 0, se_requests_permitted = 0,
            se_requests_blocked = 0, se_responses_429 = 0, se_responses_5xx = 0,
            se_request_errors = 0, se_throttles = 0, se_throttle_seconds = 0,
            se_circuit_breaker_activations = 0, se_scope_violations = 0,
            se_permit_revalidations = 0, se_peak_concurrency = 0\<rparr>)"

definition engine_block :: "string \<Rightarrow> bool \<Rightarrow> safety_engine \<Rightarrow> unit result \<times> safety_engine" where
  "engine_block code scope_violation e =
     (Inl (runtime_error code),
      e\<lparr>se_requests_blocked := se_requests_blocked e + 1,
        se_scope_violations := se_scope_violations e + (if scope_violation then 1 else 0)\<rparr>)"

text \<open>\<^verbatim>\<open>_revalidate\<close> on the result of the callback: only a permit error is counted as a block.\<close>

definition engine_revalidate :: "unit result \<Rightarrow> safety_engine \<Rightarrow> unit result \<times> safety_engine" where
  "engine_revalidate outcome e =
     (let e' = e\<lparr>se_permit_revalidations := se_permit_revalidations e + 1\<rparr> in
      case outcome of
        Inr _ \<Rightarrow> (Inr (), e')
      | Inl (TrustScanPermitError code) \<Rightarrow> engine_block code False e'
      | Inl exc \<Rightarrow> (Inl exc, e'))"

text \<open>
  What one call meets outside: two revalidation results, and the monotonic clock when the request
  arrives and after a pause.
\<close>

record boundary =
  bd_revalidation :: "unit result"
  bd_now :: rat
  bd_second_revalidation :: "unit result"
  bd_after_pause :: rat

definition minimum_interval :: "safety_engine \<Rightarrow> rat" where
  "minimum_interval e = 1 / pc_maximum_requests_per_second (engine_claims e)"

definition throttle_delay :: "rat \<Rightarrow> safety_engine \<Rightarrow> rat" where
  "throttle_delay now_mono e =
     (case se_last_permitted_at e of None \<Rightarrow> 0
      | Some previous \<Rightarrow> minimum_interval e - (now_mono - previous))"

definition permit_request :: "rat \<Rightarrow> safety_engine \<Rightarrow> safety_engine" where
  "permit_request now_mono e =
     e\<lparr>se_last_permitted_at := Some now_mono,
       se_requests_permitted := se_requests_permitted e + 1,
       se_in_flight := se_in_flight e + 1,
       se_peak_concurrency := max (se_peak_concurrency e) (se_in_flight e + 1)\<rparr>"

text \<open>The part of \<^verbatim>\<open>before_request\<close> after the checks of scope and budget.\<close>

definition pace_request :: "boundary \<Rightarrow> safety_engine \<Rightarrow> unit result \<times> safety_engine" where
  "pace_request b e =
     (case engine_revalidate (bd_revalidation b) e of
        (Inl exc, e1) \<Rightarrow> (Inl exc, e1)
      | (Inr _, e1) \<Rightarrow>
        (let delay = throttle_delay (bd_now b) e1 in
         if delay > 0
         then (let e2 = e1\<lparr>se_throttles := se_throttles e1 + 1,
                           se_throttle_seconds := se_throttle_seconds e1 + delay\<rparr>
               in case engine_revalidate (bd_second_revalidation b) e2 of
                    (Inl exc, e3) \<Rightarrow> (Inl exc, e3)
                  | (Inr _, e3) \<Rightarrow> (Inr (), permit_request (bd_after_pause b) e3))
         else (Inr (), permit_request (bd_now b) e1)))"

definition before_request ::
  "string \<Rightarrow> string \<Rightarrow> boundary \<Rightarrow> safety_engine \<Rightarrow> unit result \<times> safety_engine" where
  "before_request url verb b e0 =
     (let e = e0\<lparr>se_requests_attempted := se_requests_attempted e0 + 1\<rparr>;
          claims = engine_claims e
      in if se_circuit_open e then engine_block ''trustscan_runtime_circuit_open'' False e
         else (case origin url of
                 Inl exc \<Rightarrow> (Inl exc, e)
               | Inr target_origin \<Rightarrow>
                 if target_origin \<noteq> se_root_origin e
                 then engine_block ''trustscan_runtime_scope_violation'' True e
                 else if py_upper verb \<notin> set (pc_allowed_http_methods claims)
                 then engine_block ''trustscan_runtime_method_not_allowed'' False e
                 else if se_requests_permitted e \<ge> pc_maximum_request_attempts claims
                 then engine_block ''trustscan_runtime_request_budget_exhausted'' False e
                 else if se_in_flight e \<ge> pc_maximum_concurrency claims
                 then engine_block ''trustscan_runtime_concurrency_exceeded'' False e
                 else pace_request b e))"

text \<open>\<^verbatim>\<open>after_request\<close> with the response's status, if there is one, and the error code.\<close>

definition is_protective :: "int option \<Rightarrow> string option \<Rightarrow> bool" where
  "is_protective status error_code \<longleftrightarrow>
     error_code \<noteq> None \<or> (case status of None \<Rightarrow> False | Some s \<Rightarrow> s = 429 \<or> 500 \<le> s \<and> s \<le> 599)"

definition count_response :: "int option \<Rightarrow> string option \<Rightarrow> safety_engine \<Rightarrow> safety_engine" where
  "count_response status error_code e =
     (if error_code \<noteq> None then e\<lparr>se_request_errors := se_request_errors e + 1\<rparr>
      else (case status of
              None \<Rightarrow> e
            | Some s \<Rightarrow> e\<lparr>se_responses_429 := se_responses_429 e + (if s = 429 then 1 else 0),
                          se_responses_5xx := se_responses_5xx e + (if 500 \<le> s \<and> s \<le> 599 then 1 else 0)\<rparr>))"

definition after_request :: "int option \<Rightarrow> string option \<Rightarrow> safety_engine \<Rightarrow> safety_engine" where
  "after_request status error_code e0 =
     (let e = count_response status error_code (e0\<lparr>se_in_flight := max 0 (se_in_flight e0 - 1)\<rparr>);
          events = (if is_protective status error_code then se_consecutive_protective_events e + 1 else 0);
          e' = e\<lparr>se_consecutive_protective_events := events\<rparr>
      in if \<not> se_circuit_open e' \<and> events \<ge> CIRCUIT_BREAKER_CONSECUTIVE_EVENTS
         then e'\<lparr>se_circuit_open := True,
                 se_circuit_breaker_activations := se_circuit_breaker_activations e' + 1\<rparr>
         else e')"

definition engine_receipt_claims ::
  "py_env \<Rightarrow> string \<Rightarrow> time \<Rightarrow> string \<Rightarrow> safety_engine \<Rightarrow> receipt_claims" where
  "engine_receipt_claims E receipt_id now termination_reason e =
     (let claims = engine_claims e in
      \<lparr>sr_receipt_id = receipt_id, sr_permit_id = pc_permit_id claims,
       sr_permit_sha256 = permit_fingerprint E claims, sr_organization_id = se_organization_id e,
       sr_job_id = se_job_id e, sr_scan_id = se_scan_id e, sr_target = se_target e,
       sr_started_at = se_started_at e, sr_completed_at = now,
       sr_maximum_request_attempts = pc_maximum_request_attempts claims,
       sr_maximum_requests_per_second = pc_maximum_requests_per_second claims,
       sr_maximum_concurrency = pc_maximum_concurrency claims,
       sr_requests_attempted = se_requests_attempted e,
       sr_requests_permitted = se_requests_permitted e,
       sr_requests_blocked = se_requests_blocked e,
       sr_responses_429 = se_responses_429 e, sr_responses_5xx = se_responses_5xx e,
       sr_request_errors = se_request_errors e, sr_throttles = se_throttles e,
       sr_throttle_seconds = se_throttle_seconds e,
       sr_circuit_breaker_activations = se_circuit_breaker_activations e,
       sr_scope_violations = se_scope_violations e,
       sr_permit_revalidations = se_permit_revalidations e,
       sr_peak_concurrency = se_peak_concurrency e,
       sr_termination_reason = termination_reason,
       sr_safety_policy_respected = (se_peak_concurrency e \<le> pc_maximum_concurrency claims)\<rparr>)"

definition signed_receipt_of ::
  "py_env \<Rightarrow> signing_registry \<Rightarrow> string \<Rightarrow> time \<Rightarrow> string \<Rightarrow> safety_engine \<Rightarrow> signed_receipt result" where
  "signed_receipt_of E R receipt_id now termination_reason e =
     bindE (TrustScanSafetyReceiptClaims_post_init (engine_receipt_claims E receipt_id now termination_reason e))
       (sign_safety_receipt R)"

section \<open>What a call does\<close>

text \<open>
  A call changes counters only, or permits one request. \<open>charge\<close> is the change of the counters:
  blocks, scope violations, revalidations, and pauses with their length.
\<close>

definition charge :: "int \<Rightarrow> int \<Rightarrow> int \<Rightarrow> int \<Rightarrow> rat \<Rightarrow> safety_engine \<Rightarrow> safety_engine" where
  "charge blocked scope revalidated paused seconds e =
     e\<lparr>se_requests_attempted := se_requests_attempted e + 1,
       se_requests_blocked := se_requests_blocked e + blocked,
       se_scope_violations := se_scope_violations e + scope,
       se_permit_revalidations := se_permit_revalidations e + revalidated,
       se_throttles := se_throttles e + paused,
       se_throttle_seconds := se_throttle_seconds e + seconds\<rparr>"

definition refused :: "safety_engine \<Rightarrow> safety_engine \<Rightarrow> bool" where
  "refused e e' \<longleftrightarrow>
     (\<exists>blocked scope revalidated paused seconds.
        e' = charge blocked scope revalidated paused seconds e
        \<and> 0 \<le> scope \<and> scope \<le> blocked \<and> blocked \<le> 1 \<and> 0 \<le> paused \<and> paused \<le> revalidated \<and> 0 \<le> seconds)"

definition may_pass :: "string \<Rightarrow> string \<Rightarrow> safety_engine \<Rightarrow> bool" where
  "may_pass url verb e \<longleftrightarrow>
     \<not> se_circuit_open e \<and> origin url = Inr (se_root_origin e)
     \<and> py_upper verb \<in> set (pc_allowed_http_methods (engine_claims e))
     \<and> se_requests_permitted e < pc_maximum_request_attempts (engine_claims e)
     \<and> se_in_flight e < pc_maximum_concurrency (engine_claims e)"

definition passed :: "boundary \<Rightarrow> safety_engine \<Rightarrow> safety_engine \<Rightarrow> bool" where
  "passed b e e' \<longleftrightarrow>
     bd_revalidation b = Inr () \<and>
     (let delay = throttle_delay (bd_now b) e in
      if delay > 0
      then bd_second_revalidation b = Inr () \<and> e' = permit_request (bd_after_pause b) (charge 0 0 2 1 delay e)
      else e' = permit_request (bd_now b) (charge 0 0 1 0 0 e))"

lemma engine_revalidate_Inr:
  "engine_revalidate o1 e = (Inr u, e') \<longleftrightarrow>
     o1 = Inr () \<and> e' = e\<lparr>se_permit_revalidations := se_permit_revalidations e + 1\<rparr>"
  by (auto simp: engine_revalidate_def Let_def engine_block_def split: sum.splits exn.splits)

lemma engine_revalidate_Inl:
  "engine_revalidate o1 e = (Inl exc, e') \<Longrightarrow>
     o1 \<noteq> Inr () \<and>
     (\<exists>blocked. 0 \<le> blocked \<and> blocked \<le> 1 \<and>
        e' = e\<lparr>se_permit_revalidations := se_permit_revalidations e + 1,
               se_requests_blocked := se_requests_blocked e + blocked\<rparr>)"
  by (cases o1; cases "projl o1")
    (auto simp: engine_revalidate_def Let_def engine_block_def
      intro: exI [of _ 0] exI [of _ 1])

lemma throttle_delay_cong:
  "se_last_permitted_at e' = se_last_permitted_at e \<Longrightarrow> se_permit e' = se_permit e \<Longrightarrow>
     throttle_delay t e' = throttle_delay t e"
  by (auto simp: throttle_delay_def minimum_interval_def split: option.split)

lemma refusedI:
  assumes "e' = charge blocked scope revalidated paused seconds e"
    and "0 \<le> scope" "scope \<le> blocked" "blocked \<le> 1" "0 \<le> paused" "paused \<le> revalidated" "0 \<le> seconds"
  shows "refused e e'"
  unfolding refused_def using assms by blast

lemma pace_request_passed:
  assumes "pace_request b (e\<lparr>se_requests_attempted := se_requests_attempted e + 1\<rparr>) = (Inr u, e')"
  shows "passed b e e'"
proof -
  have d: "throttle_delay t (e\<lparr>se_requests_attempted := a, se_permit_revalidations := r\<rparr>) = throttle_delay t e" for t a r
    by (rule throttle_delay_cong) simp_all
  show ?thesis
    using assms
    by (auto simp: pace_request_def passed_def Let_def engine_revalidate_Inr charge_def permit_request_def d
        split: prod.splits sum.splits if_splits)
qed

lemma pace_request_refused:
  assumes "pace_request b (e\<lparr>se_requests_attempted := se_requests_attempted e + 1\<rparr>) = (Inl x, e')"
  shows "refused e e'" and "\<nexists>e''. passed b e e''"
proof -
  have d: "throttle_delay t (e\<lparr>se_requests_attempted := a, se_permit_revalidations := r\<rparr>) = throttle_delay t e" for t a r
    by (rule throttle_delay_cong) simp_all
  let ?e = "e\<lparr>se_requests_attempted := se_requests_attempted e + 1\<rparr>"
  let ?delay = "throttle_delay (bd_now b) e"
  consider (first) "engine_revalidate (bd_revalidation b) ?e = (Inl x, e')"
    | (second) e1 where "engine_revalidate (bd_revalidation b) ?e = (Inr (), e1)" "0 < ?delay"
        "engine_revalidate (bd_second_revalidation b)
           (e1\<lparr>se_throttles := se_throttles e1 + 1, se_throttle_seconds := se_throttle_seconds e1 + ?delay\<rparr>) = (Inl x, e')"
  proof (cases "engine_revalidate (bd_revalidation b) ?e")
    case (Pair r1 e1)
    show ?thesis
    proof (cases r1)
      case (Inl y)
      then show ?thesis
        using assms Pair first by (simp add: pace_request_def)
    next
      case (Inr u)
      then have "throttle_delay (bd_now b) e1 = ?delay"
        using Pair by (simp add: engine_revalidate_Inr d)
      then have late: "0 < ?delay" "engine_revalidate (bd_second_revalidation b)
           (e1\<lparr>se_throttles := se_throttles e1 + 1, se_throttle_seconds := se_throttle_seconds e1 + ?delay\<rparr>) = (Inl x, e')"
        using assms Pair Inr by (simp_all add: pace_request_def Let_def split: if_splits prod.splits sum.splits)
      have "engine_revalidate (bd_revalidation b) ?e = (Inr (), e1)"
        using Pair Inr by simp
      then show ?thesis
        using late by (rule second)
    qed
  qed
  then have "refused e e' \<and> (\<nexists>e''. passed b e e'')"
  proof cases
    case first
    obtain blocked where "0 \<le> blocked" "blocked \<le> 1" "bd_revalidation b \<noteq> Inr ()"
      "e' = charge blocked 0 1 0 0 e"
      using engine_revalidate_Inl [OF first] by (auto simp: charge_def)
    then show ?thesis
      by (auto intro: refusedI simp: passed_def)
  next
    case second
    obtain blocked where "0 \<le> blocked" "blocked \<le> 1" "bd_second_revalidation b \<noteq> Inr ()"
      "e' = charge blocked 0 2 1 ?delay e"
      using engine_revalidate_Inl [OF second(3)] second(1) by (auto simp: charge_def engine_revalidate_Inr)
    then show ?thesis
      using second(2) by (auto intro!: refusedI simp: passed_def Let_def)
  qed
  then show "refused e e'" and "\<nexists>e''. passed b e e''"
    by blast+
qed

lemma engine_block_refused:
  "refused e (snd (engine_block code scope (e\<lparr>se_requests_attempted := se_requests_attempted e + 1\<rparr>)))"
  by (rule refusedI [of _ 1 "if scope then 1 else 0" 0 0 0])
    (simp_all add: engine_block_def charge_def)

lemma before_request_Inr:
  "before_request url verb b e = (Inr u, e') \<Longrightarrow> may_pass url verb e \<and> passed b e e'"
  by (auto simp: before_request_def may_pass_def Let_def engine_block_def
      split: if_splits sum.splits dest: pace_request_passed)

lemma before_request_Inl:
  assumes "before_request url verb b e = (Inl x, e')"
  shows "refused e e'"
proof -
  let ?e = "e\<lparr>se_requests_attempted := se_requests_attempted e + 1\<rparr>"
  consider (block) code scope where "engine_block code scope ?e = (Inl x, e')" | (invalid) "e' = ?e"
    | (pace) "pace_request b ?e = (Inl x, e')"
    using assms by (auto simp: before_request_def Let_def split: if_splits sum.splits)
  then show ?thesis
  proof cases
    case block
    then show ?thesis using engine_block_refused by (metis snd_conv)
  next
    case invalid
    then show ?thesis
      by (intro refusedI [of _ 0 0 0 0 0]) (simp_all add: charge_def)
  next
    case pace
    then show ?thesis by (rule pace_request_refused)
  qed
qed

lemma before_request_iff:
  "before_request url verb b e = (Inr (), e') \<longleftrightarrow> may_pass url verb e \<and> passed b e e'"
proof
  assume r: "may_pass url verb e \<and> passed b e e'"
  let ?e = "e\<lparr>se_requests_attempted := se_requests_attempted e + 1\<rparr>"
  have "before_request url verb b e = pace_request b ?e"
    using r by (auto simp: before_request_def may_pass_def Let_def)
  moreover obtain x e'' where pace: "pace_request b ?e = (x, e'')"
    by fastforce
  moreover have "x = Inr ()" "passed b e e''"
    using pace pace_request_refused(2) [of b e _ e''] pace_request_passed [of b e _ e''] r
    by (cases x; fastforce)+
  moreover have "e'' = e'"
    using calculation(4) r by (auto simp: passed_def Let_def split: if_splits)
  ultimately show "before_request url verb b e = (Inr (), e')"
    by simp
qed (use before_request_Inr in blast)

text \<open>The fields that only \<^verbatim>\<open>__init__\<close> and \<^verbatim>\<open>after_request\<close> write.\<close>

lemma before_request_frame:
  assumes "before_request url verb b e = (r, e')"
  shows "se_permit e' = se_permit e \<and> se_organization_id e' = se_organization_id e \<and> se_job_id e' = se_job_id e
    \<and> se_scan_id e' = se_scan_id e \<and> se_target e' = se_target e \<and> se_started_at e' = se_started_at e
    \<and> se_consecutive_protective_events e' = se_consecutive_protective_events e \<and> se_circuit_open e' = se_circuit_open e"
proof (cases r)
  case (Inl x)
  then obtain blocked scope revalidated paused seconds where "e' = charge blocked scope revalidated paused seconds e"
    using before_request_Inl [of url verb b e x e'] assms unfolding refused_def by blast
  then show ?thesis by (simp add: charge_def)
next
  case (Inr u)
  then obtain t revalidated paused seconds where "e' = permit_request t (charge 0 0 revalidated paused seconds e)"
    using before_request_Inr [of url verb b e u e'] assms unfolding passed_def Let_def by (metis (no_types))
  then show ?thesis by (simp add: charge_def permit_request_def)
qed

section \<open>The engine as a machine\<close>

text \<open>
  The callers bracket every permitted request: \<^verbatim>\<open>after_request\<close> follows a request that
  \<^verbatim>\<open>before_request\<close> let pass. A pause lasts at least as long as was asked for, as
  \<^verbatim>\<open>time.sleep\<close> does on the monotonic clock.
\<close>

inductive engine_step :: "safety_engine \<Rightarrow> safety_engine \<Rightarrow> bool" where
  Before: "before_request url verb b e = (r, e') \<Longrightarrow>
     0 < throttle_delay (bd_now b) e \<longrightarrow> bd_now b + throttle_delay (bd_now b) e \<le> bd_after_pause b \<Longrightarrow>
     engine_step e e'"
| After: "0 < se_in_flight e \<Longrightarrow> engine_step e (after_request status error_code e)"

inductive_cases engine_stepE: "engine_step e e'"

definition claims_bounded :: "permit_claims \<Rightarrow> bool" where
  "claims_bounded c \<longleftrightarrow>
     1 \<le> pc_maximum_request_attempts c \<and> 0 < pc_maximum_requests_per_second c \<and> 1 \<le> pc_maximum_concurrency c"

lemma permit_claims_bounded:
  "TrustScanPermitClaims_post_init E c = Inr c' \<Longrightarrow> claims_bounded c'"
  by (auto simp: TrustScanPermitClaims_post_init_def bindE_eq_Inr raise_if_eq_Inr claims_bounded_def
      permit_positive_integer_def permit_requests_per_second_def)

text \<open>An engine that has just been built for a permit whose claims were validated.\<close>

definition engine_start :: "safety_engine \<Rightarrow> bool" where
  "engine_start e \<longleftrightarrow>
     claims_bounded (engine_claims e)
     \<and> (\<exists>permit org job scan target now. engine_init permit org job scan target now = Inr e)"

definition budget_inv :: "safety_engine \<Rightarrow> bool" where
  "budget_inv e \<longleftrightarrow>
     0 \<le> se_requests_permitted e
     \<and> se_requests_permitted e \<le> pc_maximum_request_attempts (engine_claims e)
     \<and> 0 \<le> se_in_flight e \<and> se_in_flight e \<le> se_peak_concurrency e
     \<and> se_peak_concurrency e \<le> pc_maximum_concurrency (engine_claims e)
     \<and> (se_last_permitted_at e = None \<longleftrightarrow> se_requests_permitted e = 0)"

definition count_inv :: "safety_engine \<Rightarrow> bool" where
  "count_inv e \<longleftrightarrow>
     0 \<le> se_scope_violations e \<and> se_scope_violations e \<le> se_requests_blocked e
     \<and> se_requests_permitted e + se_requests_blocked e \<le> se_requests_attempted e
     \<and> 0 \<le> se_responses_429 e \<and> 0 \<le> se_responses_5xx e \<and> 0 \<le> se_request_errors e
     \<and> se_responses_429 e + se_responses_5xx e + se_request_errors e \<le> se_requests_permitted e - se_in_flight e
     \<and> 0 \<le> se_throttles e \<and> se_throttles e \<le> se_permit_revalidations e
     \<and> se_requests_permitted e \<le> se_permit_revalidations e \<and> 0 \<le> se_throttle_seconds e"

definition circuit_inv :: "safety_engine \<Rightarrow> bool" where
  "circuit_inv e \<longleftrightarrow>
     se_circuit_breaker_activations e = of_bool (se_circuit_open e)
     \<and> 0 \<le> se_consecutive_protective_events e
     \<and> (\<not> se_circuit_open e \<longrightarrow> se_consecutive_protective_events e < CIRCUIT_BREAKER_CONSECUTIVE_EVENTS)"

definition engine_inv :: "safety_engine \<Rightarrow> bool" where
  "engine_inv e \<longleftrightarrow> claims_bounded (engine_claims e) \<and> budget_inv e \<and> count_inv e \<and> circuit_inv e"

lemmas engine_inv_defs = budget_inv_def count_inv_def circuit_inv_def

lemma engine_start_inv: "engine_start e \<Longrightarrow> engine_inv e"
  by (auto simp: engine_start_def engine_inv_def engine_init_def bindE_eq_Inr engine_inv_defs
      claims_bounded_def CIRCUIT_BREAKER_CONSECUTIVE_EVENTS_def)

lemma charge_inv:
  assumes "engine_inv e" "0 \<le> scope" "scope \<le> blocked" "blocked \<le> 1" "0 \<le> paused" "paused \<le> revalidated" "0 \<le> seconds"
  shows "engine_inv (charge blocked scope revalidated paused seconds e)"
  using assms by (simp add: engine_inv_def engine_inv_defs charge_def)

lemma refused_inv: "refused e e' \<Longrightarrow> engine_inv e \<Longrightarrow> engine_inv e'"
  unfolding refused_def using charge_inv by blast

lemma permit_request_inv:
  assumes "engine_inv e" "may_pass url verb e" "1 \<le> revalidated" "0 \<le> paused" "paused \<le> revalidated" "0 \<le> seconds"
  shows "engine_inv (permit_request t (charge 0 0 revalidated paused seconds e))"
  using assms
  by (auto simp: may_pass_def engine_inv_def engine_inv_defs charge_def permit_request_def max_def)

lemma passedE:
  assumes "passed b e e'"
  obtains (at_once) "throttle_delay (bd_now b) e \<le> 0" "e' = permit_request (bd_now b) (charge 0 0 1 0 0 e)"
  | (paused) "0 < throttle_delay (bd_now b) e"
      "e' = permit_request (bd_after_pause b) (charge 0 0 2 1 (throttle_delay (bd_now b) e) e)"
  using assms by (cases "0 < throttle_delay (bd_now b) e") (simp_all add: passed_def Let_def)

lemma passed_inv:
  assumes "passed b e e'" "may_pass url verb e" "engine_inv e"
  shows "engine_inv e'"
  using assms(1) by (cases rule: passedE) (simp_all add: permit_request_inv [OF assms(3,2)])

lemma before_request_inv:
  "before_request url verb b e = (r, e') \<Longrightarrow> engine_inv e \<Longrightarrow> engine_inv e'"
  by (cases r) (use before_request_Inr passed_inv before_request_Inl refused_inv in blast)+

lemma after_request_inv: "0 < se_in_flight e \<Longrightarrow> engine_inv e \<Longrightarrow> engine_inv (after_request status err e)"
  by (auto simp: after_request_def count_response_def Let_def engine_inv_def engine_inv_defs split: option.splits)

text \<open>
  How an engine develops: the permit stays, counters of permitted requests never fall, requests are
  spaced by the permitted rate, and an open circuit stays open and lets nothing pass.
\<close>

definition paced :: "safety_engine \<Rightarrow> safety_engine \<Rightarrow> bool" where
  "paced e e' \<longleftrightarrow>
     (\<forall>t. se_last_permitted_at e = Some t \<longrightarrow>
        (\<exists>t'. se_last_permitted_at e' = Some t'
          \<and> t + of_int (se_requests_permitted e' - se_requests_permitted e) * minimum_interval e \<le> t'))"

definition engine_later :: "safety_engine \<Rightarrow> safety_engine \<Rightarrow> bool" where
  "engine_later e e' \<longleftrightarrow>
     se_permit e' = se_permit e \<and> se_root_origin e' = se_root_origin e
     \<and> se_requests_permitted e \<le> se_requests_permitted e'
     \<and> (se_circuit_open e \<longrightarrow> se_circuit_open e' \<and> se_requests_permitted e' = se_requests_permitted e)
     \<and> paced e e'"

lemma minimum_interval_cong: "se_permit e' = se_permit e \<Longrightarrow> minimum_interval e' = minimum_interval e"
  by (simp add: minimum_interval_def)

lemma engine_later_refl: "engine_later e e"
  by (simp add: engine_later_def paced_def)

lemma engine_later_trans: "engine_later e f \<Longrightarrow> engine_later f g \<Longrightarrow> engine_later e g"
proof -
  assume a: "engine_later e f" "engine_later f g"
  then have i: "minimum_interval f = minimum_interval e"
    by (intro minimum_interval_cong) (simp add: engine_later_def)
  have "paced e g"
    unfolding paced_def
  proof (intro allI impI)
    fix t
    assume "se_last_permitted_at e = Some t"
    then obtain t1 t2 where "se_last_permitted_at g = Some t2"
      "t + of_int (se_requests_permitted f - se_requests_permitted e) * minimum_interval e \<le> t1"
      "t1 + of_int (se_requests_permitted g - se_requests_permitted f) * minimum_interval e \<le> t2"
      using a by (auto simp: engine_later_def paced_def i)
    then show "\<exists>t'. se_last_permitted_at g = Some t' \<and>
        t + of_int (se_requests_permitted g - se_requests_permitted e) * minimum_interval e \<le> t'"
      by (auto simp: algebra_simps)
  qed
  then show ?thesis
    using a by (auto simp: engine_later_def)
qed

lemma refused_later: "refused e e' \<Longrightarrow> engine_later e e'"
  by (auto simp: refused_def engine_later_def paced_def charge_def)

lemma after_request_later: "engine_later e (after_request status err e)"
  by (auto simp: after_request_def count_response_def Let_def engine_later_def paced_def split: option.splits)

lemma passed_later:
  assumes "passed b e e'" "may_pass url verb e"
    and "0 < throttle_delay (bd_now b) e \<longrightarrow> bd_now b + throttle_delay (bd_now b) e \<le> bd_after_pause b"
  shows "engine_later e e'"
proof -
  have "\<not> se_circuit_open e"
    using assms(2) by (simp add: may_pass_def)
  from assms(1) obtain t revalidated paused seconds where
    e': "e' = permit_request t (charge 0 0 revalidated paused seconds e)" and
    t: "\<And>previous. se_last_permitted_at e = Some previous \<Longrightarrow> previous + minimum_interval e \<le> t"
  proof (cases rule: passedE)
    case at_once
    then show ?thesis
      by (intro that [of "bd_now b"]) (auto simp: throttle_delay_def)
  next
    case paused
    then show ?thesis
      using assms(3) by (intro that [of "bd_after_pause b"]) (auto simp: throttle_delay_def)
  qed
  then show ?thesis
    using \<open>\<not> se_circuit_open e\<close> by (simp add: engine_later_def paced_def charge_def permit_request_def)
qed

lemma engine_step_later: "engine_step e e' \<Longrightarrow> engine_later e e'"
proof (induction rule: engine_step.induct)
  case (Before url verb b e r e')
  then show ?case
    by (cases r) (use before_request_Inr passed_later before_request_Inl refused_later in blast)+
qed (rule after_request_later)

lemma engine_step_inv: "engine_inv e \<Longrightarrow> engine_step e e' \<Longrightarrow> engine_inv e'"
  by (auto elim!: engine_stepE intro: before_request_inv after_request_inv)

interpretation engine: machine_progress engine_start engine_step engine_inv engine_later
  by unfold_locales
    (auto intro: engine_start_inv engine_step_inv engine_later_refl engine_later_trans engine_step_later)

end
