(* ===== verification/Safety_Props.thy ===== *)
theory Safety_Props
  imports Safety_Engine Contract_Props
begin

text \<open>
  Properties of the runtime safety engine and of the receipts it signs, over every sequence of calls
  that the engine can see.
\<close>

section \<open>A concrete engine\<close>

definition ex_engine :: safety_engine where
  "ex_engine =
     projr (engine_init ex_stored_permit ex_org (ex_uuid (CHR ''1'')) (ex_uuid (CHR ''2'')) ''https://example.com/'' 10)"

definition ex_boundary :: "rat \<Rightarrow> boundary" where
  "ex_boundary t =
     \<lparr>bd_revalidation = Inr (), bd_now = t, bd_second_revalidation = Inr (), bd_after_pause = t + 1\<rparr>"

definition ex_engine2 :: safety_engine where
  "ex_engine2 =
     after_request (Some 200) None
       (snd (before_request ''https://EXAMPLE.com/login'' ''get'' (ex_boundary 100) ex_engine))"

lemma ex_engine_init:
  "engine_init ex_stored_permit ex_org (ex_uuid (CHR ''1'')) (ex_uuid (CHR ''2'')) ''https://example.com/'' 10 = Inr ex_engine"
proof -
  have "succeeds (engine_init ex_stored_permit ex_org (ex_uuid (CHR ''1'')) (ex_uuid (CHR ''2'')) ''https://example.com/'' 10)"
    by code_simp
  then show ?thesis
    by (auto simp: ex_engine_def succeeds_iff)
qed

lemma ex_engine_start: "engine_start ex_engine"
proof -
  have "claims_bounded (engine_claims ex_engine)"
    by code_simp
  then show ?thesis
    unfolding engine_start_def using ex_engine_init by blast
qed

lemma ex_engine_steps: "engine_step\<^sup>*\<^sup>* ex_engine ex_engine2"
proof -
  let ?b = "before_request ''https://EXAMPLE.com/login'' ''get'' (ex_boundary 100) ex_engine"
  have "throttle_delay 100 ex_engine = 0" "0 < se_in_flight (snd ?b)"
    by code_simp+
  moreover have "bd_now (ex_boundary 100) = 100"
    by (simp add: ex_boundary_def)
  ultimately have "engine_step ex_engine (snd ?b)" "engine_step (snd ?b) ex_engine2"
    unfolding ex_engine2_def
    by (auto intro: engine_step.After engine_step.Before [of _ _ "ex_boundary 100" _ "fst ?b"] simp del: prod.collapse)
      (auto intro!: engine_step.Before [of _ _ "ex_boundary 100" _ "fst ?b"])
  then show ?thesis
    by (meson rtranclp.rtrancl_into_rtrancl rtranclp.rtrancl_refl)
qed

lemma ex_engine_reachable: "reachable engine_start engine_step ex_engine2"
  unfolding reachable_def using ex_engine_start ex_engine_steps by blast

section \<open>Properties\<close>

text \<open>
  C12. Whatever calls an engine sees, it never permits more requests than the permit grants nor more at
  a time, each permitted request was preceded by a revalidation of the permit, the counters are
  consistent with each other, and the circuit breaker has tripped at most once, exactly when the
  circuit is open.
\<close>

theorem engine_respects_permit:
  assumes "reachable engine_start engine_step e"
  shows "se_requests_permitted e \<le> pc_maximum_request_attempts (engine_claims e)
    \<and> 0 \<le> se_in_flight e \<and> se_in_flight e \<le> se_peak_concurrency e
    \<and> se_peak_concurrency e \<le> pc_maximum_concurrency (engine_claims e)
    \<and> se_requests_permitted e \<le> se_permit_revalidations e
    \<and> se_requests_permitted e + se_requests_blocked e \<le> se_requests_attempted e
    \<and> se_scope_violations e \<le> se_requests_blocked e
    \<and> se_responses_429 e + se_responses_5xx e + se_request_errors e + se_in_flight e \<le> se_requests_permitted e
    \<and> se_circuit_breaker_activations e = of_bool (se_circuit_open e)"
  using engine.reachable_inv [OF assms] by (simp add: engine_inv_def engine_inv_defs)

theorem engine_respects_permit_witness: "se_peak_concurrency ex_engine2 \<le> 1 \<and> se_requests_permitted ex_engine2 = 1"
proof -
  have "pc_maximum_concurrency (engine_claims ex_engine2) = 1" "se_requests_permitted ex_engine2 = 1"
    by code_simp+
  then show ?thesis
    using engine_respects_permit [OF ex_engine_reachable] by simp
qed

text \<open>
  A request passes exactly when the circuit is closed, the request stays on the origin of the
  target, its HTTP verb is allowed, budget and concurrency are left, and the permit revalidates, once, or
  twice when the request had to wait for the permitted rate; the state then records the request and
  nothing else.
\<close>

theorem before_request_exact:
  "before_request url verb b e = (Inr (), e') \<longleftrightarrow>
     \<not> se_circuit_open e \<and> origin url = Inr (se_root_origin e)
     \<and> py_upper verb \<in> set (pc_allowed_http_methods (engine_claims e))
     \<and> se_requests_permitted e < pc_maximum_request_attempts (engine_claims e)
     \<and> se_in_flight e < pc_maximum_concurrency (engine_claims e)
     \<and> bd_revalidation b = Inr ()
     \<and> (let delay = throttle_delay (bd_now b) e in
        if 0 < delay
        then bd_second_revalidation b = Inr () \<and> e' = permit_request (bd_after_pause b) (charge 0 0 2 1 delay e)
        else e' = permit_request (bd_now b) (charge 0 0 1 0 0 e))"
  unfolding before_request_iff may_pass_def passed_def by blast

text \<open>
  C13. The permitted rate holds over any stretch of an execution: if the last request before it was
  permitted at \<open>t\<close> and the last one within it at \<open>t'\<close>, then no more requests were
  permitted in between than the rate allows in the time from \<open>t\<close> to \<open>t'\<close>.
\<close>

theorem engine_rate_bound:
  assumes "reachable engine_start engine_step e" "engine_step\<^sup>*\<^sup>* e e'" "se_last_permitted_at e = Some t"
  shows "\<exists>t'. se_last_permitted_at e' = Some t' \<and> t \<le> t' \<and>
    of_int (se_requests_permitted e' - se_requests_permitted e)
      \<le> pc_maximum_requests_per_second (engine_claims e) * (t' - t)"
proof -
  have later: "engine_later e e'"
    using engine.reachable_rel [OF assms(1,2)] .
  obtain t' where t': "se_last_permitted_at e' = Some t'"
    "t + of_int (se_requests_permitted e' - se_requests_permitted e) * minimum_interval e \<le> t'"
    using later assms(3) by (auto simp: engine_later_def paced_def)
  let ?n = "of_int (se_requests_permitted e' - se_requests_permitted e) :: rat"
  have rate: "0 < pc_maximum_requests_per_second (engine_claims e)" and "0 \<le> ?n"
    using engine.reachable_inv [OF assms(1)] later
    by (simp_all add: engine_inv_def claims_bounded_def engine_later_def)
  then have "?n \<le> pc_maximum_requests_per_second (engine_claims e) * (t' - t)"
    using t'(2) by (simp add: minimum_interval_def field_simps)
  moreover have "0 \<le> ?n * minimum_interval e"
    using rate \<open>0 \<le> ?n\<close> by (simp add: minimum_interval_def)
  ultimately show ?thesis
    using t' by auto
qed

theorem engine_rate_bound_witness: "se_last_permitted_at ex_engine2 = Some 100"
proof -
  have "case se_last_permitted_at ex_engine2 of Some t \<Rightarrow> t = 100 | None \<Rightarrow> False"
    by code_simp
  then have "se_last_permitted_at ex_engine2 = Some 100"
    by (auto split: option.splits)
  then show ?thesis
    using engine_rate_bound [OF ex_engine_reachable rtranclp.rtrancl_refl] by blast
qed

section \<open>The circuit breaker\<close>

text \<open>A history of calls, and the answers among them: whether each was protective.\<close>

datatype engine_event = Request string string boundary | Answer "int option" "string option"

fun engine_event_step :: "engine_event \<Rightarrow> safety_engine \<Rightarrow> safety_engine" where
  "engine_event_step (Request url verb b) e = snd (before_request url verb b e)"
| "engine_event_step (Answer status error_code) e = after_request status error_code e"

definition engine_run :: "engine_event list \<Rightarrow> safety_engine \<Rightarrow> safety_engine" where
  "engine_run evs e = fold engine_event_step evs e"

fun answers :: "engine_event list \<Rightarrow> bool list" where
  "answers [] = []"
| "answers (Request url verb b # evs) = answers evs"
| "answers (Answer status error_code # evs) = is_protective status error_code # answers evs"

definition three_in_a_row :: "bool list \<Rightarrow> bool" where
  "three_in_a_row fs \<longleftrightarrow> (\<exists>us vs. fs = us @ [True, True, True] @ vs)"

definition trailing :: "bool list \<Rightarrow> nat" where
  "trailing fs = length (takeWhile (\<lambda>f. f) (rev fs))"

lemma trailing_simps [simp]:
  "trailing [] = 0" "trailing (fs @ [True]) = Suc (trailing fs)" "trailing (fs @ [False]) = 0"
  by (simp_all add: trailing_def)

lemma trailing_two: "2 \<le> trailing fs \<longleftrightarrow> (\<exists>us. fs = us @ [True, True])"
proof
  assume "2 \<le> trailing fs"
  then obtain a b rest where r: "rev fs = a # b # rest" "a" "b"
    unfolding trailing_def by (cases "rev fs" rule: remdups_adj.cases) (auto split: if_splits)
  then have "fs = rev rest @ [True, True]"
    by (simp add: rev_swap)
  then show "\<exists>us. fs = us @ [True, True]" ..
qed (auto simp: trailing_def)

lemma three_in_a_row_snoc:
  "three_in_a_row (fs @ [f]) \<longleftrightarrow> three_in_a_row fs \<or> f \<and> 2 \<le> trailing fs"
proof
  assume "three_in_a_row (fs @ [f])"
  then obtain us vs where u: "fs @ [f] = us @ [True, True, True] @ vs"
    by (auto simp: three_in_a_row_def)
  show "three_in_a_row fs \<or> f \<and> 2 \<le> trailing fs"
  proof (cases vs rule: rev_cases)
    case Nil
    then have "fs @ [f] = (us @ [True, True]) @ [True]"
      using u by simp
    then have "fs = us @ [True, True] \<and> f"
      unfolding append1_eq_conv by simp
    then show ?thesis
      using trailing_two by blast
  next
    case (snoc ws w)
    then have "fs @ [f] = (us @ [True, True, True] @ ws) @ [w]"
      using u by simp
    then have "fs = us @ [True, True, True] @ ws"
      unfolding append1_eq_conv by simp
    then show ?thesis
      by (auto simp: three_in_a_row_def)
  qed
next
  assume "three_in_a_row fs \<or> f \<and> 2 \<le> trailing fs"
  then show "three_in_a_row (fs @ [f])"
    unfolding trailing_two three_in_a_row_def by force
qed

lemma answers_snoc:
  "answers (evs @ [ev]) = answers evs @ (case ev of Request url m b \<Rightarrow> [] | Answer s c \<Rightarrow> [is_protective s c])"
  by (induction evs rule: answers.induct) (auto split: engine_event.splits)

lemma after_request_fields [simp]:
  "se_requests_permitted (after_request status err e) = se_requests_permitted e"
  "se_consecutive_protective_events (after_request status err e) =
     (if is_protective status err then se_consecutive_protective_events e + 1 else 0)"
  "se_circuit_open (after_request status err e) =
     (se_circuit_open e \<or> is_protective status err \<and> CIRCUIT_BREAKER_CONSECUTIVE_EVENTS \<le> se_consecutive_protective_events e + 1)"
  by (auto simp: after_request_def count_response_def Let_def CIRCUIT_BREAKER_CONSECUTIVE_EVENTS_def split: option.splits)

lemma before_request_fields [simp]:
  "se_consecutive_protective_events (snd (before_request url verb b e)) = se_consecutive_protective_events e"
  "se_circuit_open (snd (before_request url verb b e)) = se_circuit_open e"
  using before_request_frame [of url verb b e "fst (before_request url verb b e)" "snd (before_request url verb b e)"]
  by simp_all

lemma engine_run_snoc: "engine_run (evs @ [ev]) e = engine_event_step ev (engine_run evs e)"
  by (simp add: engine_run_def)

lemma engine_run_circuit:
  assumes "se_consecutive_protective_events e = 0" "\<not> se_circuit_open e"
  shows "se_consecutive_protective_events (engine_run evs e) = int (trailing (answers evs))
    \<and> se_circuit_open (engine_run evs e) = three_in_a_row (answers evs)"
proof (induction evs rule: rev_induct)
  case Nil
  then show ?case
    using assms by (simp add: engine_run_def three_in_a_row_def)
next
  case (snoc ev evs)
  then show ?case
    by (cases ev) (auto simp: engine_run_snoc answers_snoc three_in_a_row_snoc
        CIRCUIT_BREAKER_CONSECUTIVE_EVENTS_def)
qed

lemma open_circuit_final:
  "se_circuit_open e \<Longrightarrow>
     se_circuit_open (engine_run evs e) \<and> se_requests_permitted (engine_run evs e) = se_requests_permitted e"
proof (induction evs rule: rev_induct)
  case (snoc ev evs)
  then show ?case
    by (cases ev) (auto simp: engine_run_snoc, simp add: before_request_def engine_block_def Let_def)
qed (simp add: engine_run_def)

text \<open>
  C14. In a fresh engine, and for every history of calls, the circuit is open exactly when three
  answers in a row were protective (an error, a 429 or a 5xx), whatever was refused in between; and an
  open circuit is final: however the history goes on, no further request is permitted.
\<close>

theorem circuit_breaker_exact:
  assumes "engine_init permit org job scan target now = Inr e"
  shows "(se_circuit_open (engine_run evs e) \<longleftrightarrow> (\<exists>us vs. answers evs = us @ [True, True, True] @ vs))
    \<and> (se_circuit_open (engine_run evs e) \<longrightarrow>
         se_requests_permitted (engine_run (evs @ later) e) = se_requests_permitted (engine_run evs e))"
proof -
  have "se_consecutive_protective_events e = 0" "\<not> se_circuit_open e"
    using assms by (auto simp: engine_init_def bindE_eq_Inr)
  moreover have "engine_run (evs @ later) e = engine_run later (engine_run evs e)"
    by (simp add: engine_run_def)
  ultimately show ?thesis
    using engine_run_circuit open_circuit_final by (auto simp: three_in_a_row_def)
qed

theorem circuit_breaker_exact_witness:
  "se_circuit_open (engine_run [Answer (Some 429) None, Answer None (Some ''timeout''),
      Request ''https://other.example/'' ''GET'' (ex_boundary 5), Answer (Some 503) None] ex_engine)"
proof -
  have "answers [Answer (Some 429) None, Answer None (Some ''timeout''),
      Request ''https://other.example/'' ''GET'' (ex_boundary 5), Answer (Some 503) None] = [] @ [True, True, True] @ []"
    by (simp add: is_protective_def)
  then show ?thesis
    using circuit_breaker_exact [OF ex_engine_init] by blast
qed

section \<open>The receipt\<close>

lemma engine_steps_identity:
  "engine_step\<^sup>*\<^sup>* e e' \<Longrightarrow>
     se_organization_id e' = se_organization_id e \<and> se_job_id e' = se_job_id e \<and> se_scan_id e' = se_scan_id e
     \<and> se_target e' = se_target e \<and> se_started_at e' = se_started_at e"
proof (induction rule: rtranclp_induct)
  case (step f g)
  from step(2) have "se_organization_id g = se_organization_id f \<and> se_job_id g = se_job_id f
      \<and> se_scan_id g = se_scan_id f \<and> se_target g = se_target f \<and> se_started_at g = se_started_at f"
  proof cases
    case (Before url verb b r)
    then show ?thesis using before_request_frame by blast
  next
    case (After status error_code)
    then show ?thesis
      by (simp add: after_request_def count_response_def Let_def split: option.split)
  qed
  then show ?case
    using step(3) by simp
qed simp

text \<open>
  C15. The receipt can always be written: from a well-formed job, an engine that has run for any length
  of time yields receipt claims that their constructor accepts, if the clock has not moved back behind
  the start; and the receipt says that the policy was respected.
\<close>

theorem receipt_always_accepted:
  assumes "engine_start e0" "engine_step\<^sup>*\<^sup>* e0 e"
    and "list_all uuid_shape [receipt_id, pc_permit_id (engine_claims e0), se_organization_id e0, se_job_id e0, se_scan_id e0]"
    and "hex64 (permit_fingerprint E (engine_claims e0))"
    and "starts_with ''https://'' (se_target e0)" "se_started_at e0 \<le> now" "receipt_identifier reason"
  shows "TrustScanSafetyReceiptClaims_post_init (engine_receipt_claims E receipt_id now reason e) =
      Inr (engine_receipt_claims E receipt_id now reason e)
    \<and> sr_safety_policy_respected (engine_receipt_claims E receipt_id now reason e)"
proof -
  have "reachable engine_start engine_step e"
    using assms(1,2) by (auto simp: reachable_def)
  then have "engine_inv e"
    by (rule engine.reachable_inv)
  moreover have "engine_later e0 e"
    using engine.steps_rel [OF assms(2)] engine_start_inv [OF assms(1)] by blast
  then have "se_permit e = se_permit e0"
    by (simp add: engine_later_def)
  ultimately show ?thesis
    using assms engine_steps_identity [OF assms(2)]
    by (simp add: receipt_claims_Inr receipt_wf_def engine_receipt_claims_def Let_def receipt_counts_def
        engine_inv_def engine_inv_defs claims_bounded_def)
qed

theorem receipt_always_accepted_witness:
  "sr_safety_policy_respected (engine_receipt_claims ex_env (ex_uuid (CHR ''7'')) 50 ''completed'' ex_engine2)"
proof -
  have "list_all uuid_shape [ex_uuid (CHR ''7''), pc_permit_id (engine_claims ex_engine), se_organization_id ex_engine,
      se_job_id ex_engine, se_scan_id ex_engine]" "hex64 (permit_fingerprint ex_env (engine_claims ex_engine))"
    "starts_with ''https://'' (se_target ex_engine)" "se_started_at ex_engine \<le> 50" "receipt_identifier ''completed''"
    by code_simp+
  then show ?thesis
    using receipt_always_accepted [OF ex_engine_start ex_engine_steps] by blast
qed

end
