(* ===== verification/Rate_Limits.thy ===== *)
theory Rate_Limits
  imports WG_Machine
begin

text \<open>
  Request rate limiting: the in-memory limiter with fixed windows
  (\<^verbatim>\<open>webguard_api/rate_limit.py\<close>) and the two limiters for authentication attempts built on it
  and on a table (\<^verbatim>\<open>webguard_api/auth_rate_limit.py\<close>). Both keep less than the history of
  attempts; the locale \<open>rate_limiter\<close> says what they promise against a reference that keeps all of
  it, for calls one after the other. Calls on the table may overlap; \<open>overlap_step\<close> is that machine.
\<close>

section \<open>Definitions\<close>

subsection \<open>Fixed windows\<close>

record fixed_window_limiter =
  fw_requests :: int
  fw_window_seconds :: int
  fw_windows :: "string \<rightharpoonup> int \<times> int"

record rate_limit_decision =
  rd_limit :: int
  rd_remaining :: int
  rd_reset_after_seconds :: int

definition FixedWindowRateLimiter_init :: "int \<Rightarrow> int \<Rightarrow> fixed_window_limiter result" where
  "FixedWindowRateLimiter_init requests window_seconds =
     raise_if (requests < 1) ValueError
     (raise_if (window_seconds < 1) ValueError
     (Inr \<lparr>fw_requests = requests, fw_window_seconds = window_seconds, fw_windows = Map.empty\<rparr>))"

definition window_of :: "int \<Rightarrow> rat \<Rightarrow> int" where
  "window_of window_seconds now_epoch = \<lfloor>now_epoch / of_int window_seconds\<rfloor>"

text \<open>The time left in the window is positive, so \<^verbatim>\<open>int\<close> rounds it down.\<close>

definition seconds_left :: "int \<Rightarrow> rat \<Rightarrow> int" where
  "seconds_left window_seconds now_epoch =
     max 1 \<lfloor>of_int ((window_of window_seconds now_epoch + 1) * window_seconds) - now_epoch\<rfloor>"

definition release :: "string \<Rightarrow> rat \<Rightarrow> fixed_window_limiter \<Rightarrow> fixed_window_limiter" where
  "release key now_epoch l =
     (case fw_windows l key of
        None \<Rightarrow> l
      | Some (current_window, count) \<Rightarrow>
          if current_window \<noteq> window_of (fw_window_seconds l) now_epoch then l
          else if count \<le> 1 then l\<lparr>fw_windows := (fw_windows l)(key := None)\<rparr>
          else l\<lparr>fw_windows := (fw_windows l)(key \<mapsto> (current_window, count - 1))\<rparr>)"

definition check ::
  "string \<Rightarrow> rat \<Rightarrow> fixed_window_limiter \<Rightarrow> rate_limit_decision result \<times> fixed_window_limiter" where
  "check key now_epoch l =
     (let window = window_of (fw_window_seconds l) now_epoch;
          count = (case fw_windows l key of None \<Rightarrow> 0
                   | Some (current_window, n) \<Rightarrow> if current_window \<noteq> window then 0 else n)
      in if count \<ge> fw_requests l
         then (Inl (RateLimitError ''rate_limit_exceeded'' (seconds_left (fw_window_seconds l) now_epoch)), l)
         else (Inr \<lparr>rd_limit = fw_requests l, rd_remaining = fw_requests l - (count + 1),
                    rd_reset_after_seconds = seconds_left (fw_window_seconds l) now_epoch\<rparr>,
               l\<lparr>fw_windows := (fw_windows l)(key \<mapsto> (window, count + 1))\<rparr>))"

subsection \<open>Authentication attempts\<close>

text \<open>\<^verbatim>\<open>now.timestamp()\<close> of an instant.\<close>

definition epoch_seconds :: "time \<Rightarrow> rat" where
  "epoch_seconds now = of_int now / of_int microseconds"

definition in_memory_check_and_record ::
  "string \<Rightarrow> time \<Rightarrow> fixed_window_limiter \<Rightarrow> unit result \<times> fixed_window_limiter" where
  "in_memory_check_and_record bucket_key now l =
     (case check bucket_key (epoch_seconds now) l of
        (Inl exc, l') \<Rightarrow> (Inl exc, l')
      | (Inr _, l') \<Rightarrow> (Inr (), l'))"

text \<open>
  The table of attempts. A call deletes the old attempts of its key and counts the others, and raises
  or goes on; then it inserts its own attempt. The transaction is committed when the call returns and
  rolled back when it raises, the deletion of old attempts included. Other calls can be committed
  between the count and the commit.
\<close>

record attempt_limiter =
  al_max_attempts :: int
  al_window_seconds :: int
  al_events :: "(string \<times> time) list"

definition window_start :: "time \<Rightarrow> attempt_limiter \<Rightarrow> time" where
  "window_start now l = now - al_window_seconds l * microseconds"

definition attempt_allowed :: "string \<Rightarrow> time \<Rightarrow> attempt_limiter \<Rightarrow> unit result" where
  "attempt_allowed bucket_key now l =
     (let kept = filter (\<lambda>(k, t). \<not> (k = bucket_key \<and> t < window_start now l)) (al_events l);
          count = length (filter (\<lambda>(k, t). k = bucket_key \<and> t \<ge> window_start now l) kept)
      in if int count \<ge> al_max_attempts l
         then Inl (RateLimitError ''auth_rate_limit_exceeded'' (al_window_seconds l))
         else Inr ())"

text \<open>
  The commit of a call. Which of the key's old rows are gone by then depends on what the deletion has
  found: \<open>gone\<close> of them.
\<close>

definition commit_attempt ::
  "(string \<times> time \<Rightarrow> bool) \<Rightarrow> string \<Rightarrow> time \<Rightarrow> attempt_limiter \<Rightarrow> attempt_limiter" where
  "commit_attempt gone bucket_key now l =
     l\<lparr>al_events := filter (\<lambda>(k, t). \<not> (k = bucket_key \<and> t < window_start now l \<and> gone (k, t))) (al_events l)
         @ [(bucket_key, now)]\<rparr>"

text \<open>A call that no other call overlaps.\<close>

definition table_check_and_record ::
  "string \<Rightarrow> time \<Rightarrow> attempt_limiter \<Rightarrow> unit result \<times> attempt_limiter" where
  "table_check_and_record bucket_key now l =
     (case attempt_allowed bucket_key now l of
        Inl e \<Rightarrow> (Inl e, l)
      | Inr _ \<Rightarrow> (Inr (), commit_attempt (\<lambda>_. True) bucket_key now l))"

subsection \<open>Overlapping calls\<close>

text \<open>
  The calls in progress have counted and not yet committed. At most \<open>c\<close> of one key are in progress at
  a time; they count in the order of their clock readings and commit in any order. \<open>ov_admitted\<close>
  remembers the attempts that passed the count.
\<close>

record overlap_state =
  ov_table :: attempt_limiter
  ov_flight :: "(string \<times> time) list"
  ov_admitted :: "(string \<times> time) list"
  ov_clock :: time

definition in_flight :: "string \<Rightarrow> overlap_state \<Rightarrow> nat" where
  "in_flight k s = length (filter (\<lambda>(k', t). k' = k) (ov_flight s))"

inductive overlap_step :: "nat \<Rightarrow> overlap_state \<Rightarrow> overlap_state \<Rightarrow> bool" for c where
  counted:
    "ov_clock s \<le> t \<Longrightarrow> in_flight k s < c \<Longrightarrow> attempt_allowed k t (ov_table s) = Inr () \<Longrightarrow>
     overlap_step c s (s\<lparr>ov_flight := ov_flight s @ [(k, t)], ov_admitted := ov_admitted s @ [(k, t)], ov_clock := t\<rparr>)"
| refused:
    "ov_clock s \<le> t \<Longrightarrow> attempt_allowed k t (ov_table s) = Inl e \<Longrightarrow> overlap_step c s (s\<lparr>ov_clock := t\<rparr>)"
| committed:
    "ov_flight s = pre @ (k, t) # post \<Longrightarrow>
     overlap_step c s (s\<lparr>ov_table := commit_attempt gone k t (ov_table s), ov_flight := pre @ post\<rparr>)"

definition overlap_start :: "int \<Rightarrow> int \<Rightarrow> overlap_state \<Rightarrow> bool" where
  "overlap_start attempts seconds s \<longleftrightarrow>
     ov_table s = \<lparr>al_max_attempts = attempts, al_window_seconds = seconds, al_events = []\<rparr>
     \<and> ov_flight s = [] \<and> ov_admitted s = []"

section \<open>What a limiter promises\<close>

text \<open>
  The reference keeps every admitted attempt and counts those that still matter. \<open>recent t' t\<close>
  says that an attempt at \<open>t'\<close> counts at \<open>t\<close>. An attempt may be taken back; the reference then drops
  one that matters at the given time.
\<close>

type_synonym 't attempts = "(string \<times> 't) list"

datatype 't limiter_event = Attempt string 't | Undo string 't

definition attempt_times :: "'t limiter_event list \<Rightarrow> 't list" where
  "attempt_times es = concat (map (\<lambda>e. case e of Attempt k t \<Rightarrow> [t] | Undo k t \<Rightarrow> []) es)"

definition used :: "('t \<Rightarrow> 't \<Rightarrow> bool) \<Rightarrow> 't attempts \<Rightarrow> string \<Rightarrow> 't \<Rightarrow> nat" where
  "used recent h k t = length (filter (\<lambda>(k', t'). k' = k \<and> recent t' t) h)"

fun forget :: "('t \<Rightarrow> 't \<Rightarrow> bool) \<Rightarrow> string \<Rightarrow> 't \<Rightarrow> 't attempts \<Rightarrow> 't attempts" where
  "forget recent k t [] = []"
| "forget recent k t ((k', t') # h) =
     (if k' = k \<and> recent t' t then h else (k', t') # forget recent k t h)"

fun reference_run ::
  "int \<Rightarrow> ('t \<Rightarrow> 't \<Rightarrow> bool) \<Rightarrow> 't limiter_event list \<Rightarrow> 't attempts \<Rightarrow> bool list \<times> 't attempts" where
  "reference_run quota recent [] h = ([], h)"
| "reference_run quota recent (Attempt k t # es) h =
     (let ok = int (used recent h k t) < quota;
          (rest, h') = reference_run quota recent es (if ok then h @ [(k, t)] else h)
      in (ok # rest, h'))"
| "reference_run quota recent (Undo k t # es) h = reference_run quota recent es (forget recent k t h)"

fun limiter_run ::
  "(string \<Rightarrow> 't \<Rightarrow> 's \<Rightarrow> 'a result \<times> 's) \<Rightarrow> (string \<Rightarrow> 't \<Rightarrow> 's \<Rightarrow> 's) \<Rightarrow> 't limiter_event list \<Rightarrow> 's
   \<Rightarrow> bool list \<times> 's" where
  "limiter_run attempt undo [] s = ([], s)"
| "limiter_run attempt undo (Attempt k t # es) s =
     (let (r, s') = attempt k t s; (rest, s'') = limiter_run attempt undo es s'
      in (succeeds r # rest, s''))"
| "limiter_run attempt undo (Undo k t # es) s = limiter_run attempt undo es (undo k t s)"

text \<open>
  \<open>tracks T h s\<close>: for all that happens from the instant \<open>T\<close> on, the state \<open>s\<close> is as good as the
  history \<open>h\<close>. Taking back is part of the contract only for limiters that can.
\<close>

locale rate_limiter =
  fixes quota :: int and recent :: "'t::linorder \<Rightarrow> 't \<Rightarrow> bool"
    and attempt :: "string \<Rightarrow> 't \<Rightarrow> 's \<Rightarrow> 'a result \<times> 's" and start :: 's
    and tracks :: "'t \<Rightarrow> 't attempts \<Rightarrow> 's \<Rightarrow> bool"
  assumes start_tracks: "tracks t [] start"
    and attempt_tracks: "tracks t0 h s \<Longrightarrow> t0 \<le> t \<Longrightarrow> attempt k t s = (r, s') \<Longrightarrow>
      succeeds r = (int (used recent h k t) < quota) \<and> tracks t (if succeeds r then h @ [(k, t)] else h) s'"
begin

lemma attempts_reference:
  assumes "tracks t0 h s" "sorted (map snd as)" "\<forall>t \<in> snd ` set as. t0 \<le> t"
  shows "fst (limiter_run attempt undo (map (\<lambda>(k, t). Attempt k t) as) s)
    = fst (reference_run quota recent (map (\<lambda>(k, t). Attempt k t) as) h)"
  using assms
proof (induction as arbitrary: t0 h s)
  case (Cons a as)
  obtain k t where a: "a = (k, t)"
    by (cases a)
  obtain r s' where r: "attempt k t s = (r, s')"
    by fastforce
  have step: "succeeds r = (int (used recent h k t) < quota) \<and> tracks t (if succeeds r then h @ [(k, t)] else h) s'"
    using Cons.prems(1,3) r a by (intro attempt_tracks) auto
  have "fst (limiter_run attempt undo (map (\<lambda>(k, t). Attempt k t) as) s')
      = fst (reference_run quota recent (map (\<lambda>(k, t). Attempt k t) as) (if succeeds r then h @ [(k, t)] else h))"
    using Cons.IH [OF conjunct2 [OF step]] Cons.prems(2) a by simp
  then show ?case
    using step a r by (auto simp: Let_def split: prod.splits)
qed simp

end

locale releasing_limiter = rate_limiter quota recent attempt start tracks
  for quota :: int and recent :: "'t::linorder \<Rightarrow> 't \<Rightarrow> bool"
    and attempt :: "string \<Rightarrow> 't \<Rightarrow> 's \<Rightarrow> 'a result \<times> 's" and start :: 's
    and tracks :: "'t \<Rightarrow> 't attempts \<Rightarrow> 's \<Rightarrow> bool" +
  fixes undo :: "string \<Rightarrow> 't \<Rightarrow> 's \<Rightarrow> 's"
  assumes undo_tracks: "tracks t0 h s \<Longrightarrow> tracks t0 (forget recent k t h) (undo k t s)"
begin

lemma run_reference:
  assumes "tracks t0 h s" "sorted (attempt_times es)" "\<forall>t \<in> set (attempt_times es). t0 \<le> t"
  shows "fst (limiter_run attempt undo es s) = fst (reference_run quota recent es h)"
  using assms
proof (induction es arbitrary: t0 h s)
  case (Cons e es)
  show ?case
  proof (cases e)
    case (Attempt k t)
    obtain r s' where r: "attempt k t s = (r, s')"
      by fastforce
    have step: "succeeds r = (int (used recent h k t) < quota) \<and> tracks t (if succeeds r then h @ [(k, t)] else h) s'"
      using Cons.prems(1,3) r Attempt by (intro attempt_tracks) (auto simp: attempt_times_def)
    have "fst (limiter_run attempt undo es s')
        = fst (reference_run quota recent es (if succeeds r then h @ [(k, t)] else h))"
      using Cons.IH [OF conjunct2 [OF step]] Cons.prems(2) Attempt by (simp add: attempt_times_def)
    then show ?thesis
      using step Attempt r by (auto simp: Let_def split: prod.splits)
  next
    case (Undo k t)
    then show ?thesis
      using Cons.IH [OF undo_tracks [OF Cons.prems(1)]] Cons.prems(2,3) by (simp add: attempt_times_def)
  qed
qed simp

lemma decisions_exact:
  assumes "sorted (attempt_times es)"
  shows "fst (limiter_run attempt undo es start) = fst (reference_run quota recent es [])"
proof (cases "attempt_times es")
  case Nil
  then show ?thesis
    using run_reference [OF start_tracks] by simp
next
  case (Cons t ts)
  then show ?thesis
    using run_reference [OF start_tracks [of t] assms] assms by simp
qed

end

text \<open>The reference itself never holds more than the quota, if it counts by an equivalence.\<close>

lemma used_forget: "used recent (forget recent2 k t h) k2 t2 \<le> used recent h k2 t2"
  by (induction recent2 k t h rule: forget.induct) (auto simp: used_def)

lemma reference_within_quota:
  assumes "equivp recent" "\<forall>k t. int (used recent h k t) \<le> quota"
  shows "int (used recent (snd (reference_run quota recent es h)) k t) \<le> quota"
  using assms(2)
proof (induction es arbitrary: h)
  case (Cons e es)
  show ?case
  proof (cases e)
    case (Attempt k1 t1)
    have same: "used recent h k1 t2 = used recent h k1 t1" if "recent t1 t2" for t2
    proof -
      have "recent x t2 \<longleftrightarrow> recent x t1" for x
        using equivp_transp [OF assms(1)] equivp_symp [OF assms(1)] that by metis
      then show ?thesis
        by (simp add: used_def)
    qed
    have "int (used recent (h @ [(k1, t1)]) k2 t2) \<le> quota" if "int (used recent h k1 t1) < quota" for k2 t2
      using Cons.prems same [of t2] that by (auto simp: used_def)
    then show ?thesis
      using Cons.IH Cons.prems Attempt by (simp add: Let_def case_prod_unfold)
  next
    case (Undo k1 t1)
    have "\<forall>k2 t2. int (used recent (forget recent k1 t1 h) k2 t2) \<le> quota"
      using Cons.prems used_forget [of recent recent k1 t1 h] order_trans by (metis of_nat_le_iff)
    then show ?thesis
      using Cons.IH Undo by simp
  qed
qed simp

section \<open>The fixed-window limiter\<close>

text \<open>In one window of the clock, counted from the epoch.\<close>

definition same_window :: "int \<Rightarrow> rat \<Rightarrow> rat \<Rightarrow> bool" where
  "same_window seconds t' t \<longleftrightarrow> window_of seconds t' = window_of seconds t"

lemma equivp_same_window: "equivp (same_window seconds)"
  by (intro equivpI reflpI sympI transpI) (simp_all add: same_window_def)

definition count_in :: "int \<Rightarrow> rat attempts \<Rightarrow> string \<Rightarrow> int \<Rightarrow> nat" where
  "count_in seconds h k w = length (filter (\<lambda>(k', t'). k' = k \<and> window_of seconds t' = w) h)"

definition stored_count :: "(int \<times> int) option \<Rightarrow> int \<Rightarrow> int" where
  "stored_count v w = (case v of None \<Rightarrow> 0 | Some (w', n) \<Rightarrow> if w' \<noteq> w then 0 else n)"

definition fixed_window_tracks :: "int \<Rightarrow> int \<Rightarrow> rat \<Rightarrow> rat attempts \<Rightarrow> fixed_window_limiter \<Rightarrow> bool" where
  "fixed_window_tracks requests seconds t0 h l \<longleftrightarrow>
     fw_requests l = requests \<and> fw_window_seconds l = seconds
     \<and> (\<forall>k t. (k, t) \<in> set h \<longrightarrow> t \<le> t0)
     \<and> (\<forall>k w. window_of seconds t0 \<le> w \<longrightarrow> int (count_in seconds h k w) = stored_count (fw_windows l k) w)"

lemma window_of_mono: "1 \<le> seconds \<Longrightarrow> t' \<le> t \<Longrightarrow> window_of seconds t' \<le> window_of seconds t"
  unfolding window_of_def by (intro floor_mono divide_right_mono) simp_all

lemma used_same_window: "used (same_window seconds) h k t = count_in seconds h k (window_of seconds t)"
  by (simp add: used_def same_window_def count_in_def)

lemma count_in_append:
  "count_in seconds (h @ [(k, t)]) k2 w = count_in seconds h k2 w + (if k2 = k \<and> w = window_of seconds t then 1 else 0)"
  by (auto simp: count_in_def)

lemma count_in_forget:
  "count_in seconds (forget (same_window seconds) k t h) k2 w
     = count_in seconds h k2 w - (if k2 = k \<and> w = window_of seconds t then 1 else 0)"
  by (induction "same_window seconds" k t h rule: forget.induct) (auto simp: count_in_def same_window_def)

lemma count_in_late:
  assumes "1 \<le> seconds" "\<And>k t'. (k, t') \<in> set h \<Longrightarrow> t' \<le> t" "window_of seconds t < w"
  shows "count_in seconds h k w = 0"
proof -
  have "window_of seconds t' \<noteq> w" if "(k, t') \<in> set h" for t'
    using window_of_mono [OF assms(1) assms(2) [OF that]] assms(3) by simp
  then show ?thesis
    by (auto simp: count_in_def filter_empty_conv)
qed

lemma set_forget: "set (forget recent k t h) \<subseteq> set h"
  by (induction recent k t h rule: forget.induct) auto

lemma check_tracks:
  assumes "fixed_window_tracks requests seconds t0 h l" "1 \<le> seconds" "t0 \<le> t" "check k t l = (r, l')"
  shows "succeeds r = (int (used (same_window seconds) h k t) < requests)
    \<and> fixed_window_tracks requests seconds t (if succeeds r then h @ [(k, t)] else h) l'"
proof -
  let ?w = "window_of seconds t"
  have tr: "fw_requests l = requests" "fw_window_seconds l = seconds" "\<And>k t'. (k, t') \<in> set h \<Longrightarrow> t' \<le> t"
    "\<And>k w. ?w \<le> w \<Longrightarrow> int (count_in seconds h k w) = stored_count (fw_windows l k) w"
    using assms(1,3) window_of_mono [OF assms(2,3)] unfolding fixed_window_tracks_def by force+
  have late: "count_in seconds h k w = 0" if "?w < w" for w
    using count_in_late [OF assms(2) tr(3) that] .
  have c: "check k t l =
     (if int (count_in seconds h k ?w) \<ge> requests
      then (Inl (RateLimitError ''rate_limit_exceeded'' (seconds_left seconds t)), l)
      else (Inr \<lparr>rd_limit = requests, rd_remaining = requests - (int (count_in seconds h k ?w) + 1),
                 rd_reset_after_seconds = seconds_left seconds t\<rparr>,
            l\<lparr>fw_windows := (fw_windows l)(k \<mapsto> (?w, int (count_in seconds h k ?w) + 1))\<rparr>))"
    unfolding check_def Let_def tr(1,2) tr(4) [OF order_refl] stored_count_def by (rule refl)
  have "fixed_window_tracks requests seconds t (h @ [(k, t)])
      (l\<lparr>fw_windows := (fw_windows l)(k \<mapsto> (?w, int (count_in seconds h k ?w) + 1))\<rparr>)"
  proof -
    have "int (count_in seconds (h @ [(k, t)]) k2 w)
        = stored_count (((fw_windows l)(k \<mapsto> (?w, int (count_in seconds h k ?w) + 1))) k2) w" if "?w \<le> w" for k2 w
      using late [of w] tr(4) [OF that, of k2] that
      by (cases "k2 = k"; cases "w = ?w") (simp_all add: count_in_append stored_count_def)
    then show ?thesis
      using tr(1-3) by (auto simp: fixed_window_tracks_def)
  qed
  moreover have "fixed_window_tracks requests seconds t h l"
    using tr by (auto simp: fixed_window_tracks_def)
  ultimately show ?thesis
    using assms(4) unfolding c by (auto simp: succeeds_def used_same_window split: if_splits)
qed

lemma release_tracks:
  assumes "fixed_window_tracks requests seconds t0 h l"
  shows "fixed_window_tracks requests seconds t0 (forget (same_window seconds) k t h) (release k t l)"
proof -
  have tr: "fw_requests l = requests" "fw_window_seconds l = seconds"
    "\<And>k w. window_of seconds t0 \<le> w \<Longrightarrow> int (count_in seconds h k w) = stored_count (fw_windows l k) w"
    using assms by (simp_all add: fixed_window_tracks_def)
  have "int (count_in seconds (forget (same_window seconds) k t h) k2 w) = stored_count (fw_windows (release k t l) k2) w"
    if "window_of seconds t0 \<le> w" for k2 w
    using tr(3) [OF that, of k2]
    by (auto simp: count_in_forget release_def tr(2) stored_count_def of_nat_diff split: option.splits if_splits)
  moreover have "fw_requests (release k t l) = requests" "fw_window_seconds (release k t l) = seconds"
    using tr(1,2) by (auto simp: release_def split: option.split)
  ultimately show ?thesis
    using assms set_forget [of "same_window seconds" k t h] unfolding fixed_window_tracks_def by blast
qed

text \<open>A window has at least one second: \<open>n + 1\<close> of them.\<close>

interpretation fixed_window: releasing_limiter requests "same_window (int n + 1)" check
    "\<lparr>fw_requests = requests, fw_window_seconds = int n + 1, fw_windows = Map.empty\<rparr>"
    "fixed_window_tracks requests (int n + 1)" release
  for requests n
proof
  show "fixed_window_tracks requests (int n + 1) t []
      \<lparr>fw_requests = requests, fw_window_seconds = int n + 1, fw_windows = Map.empty\<rparr>" for t
    by (simp add: fixed_window_tracks_def count_in_def stored_count_def)
qed (rule check_tracks release_tracks, simp_all)+

lemma release_check:
  assumes "check k t l = (Inr d, l')" "0 \<le> (case fw_windows l k of None \<Rightarrow> 0 | Some (w, n) \<Rightarrow> n)"
  shows "check k t (release k t l') = (Inr d, l')"
  using assms
  by (auto simp: check_def release_def Let_def fun_upd_idem split: option.splits if_splits)

section \<open>The table of attempts\<close>

text \<open>In the trailing window that ends now.\<close>

definition trailing_window :: "int \<Rightarrow> time \<Rightarrow> time \<Rightarrow> bool" where
  "trailing_window seconds t' t \<longleftrightarrow> t - seconds * microseconds \<le> t'"

lemma attempt_allowed_iff:
  "attempt_allowed k t l = Inr u \<longleftrightarrow>
     int (used (trailing_window (al_window_seconds l)) (al_events l) k t) < al_max_attempts l"
proof -
  have "filter (\<lambda>(k', t'). k' = k \<and> t' \<ge> window_start t l)
      (filter (\<lambda>(k', t'). \<not> (k' = k \<and> t' < window_start t l)) (al_events l))
    = filter (\<lambda>(k', t'). k' = k \<and> trailing_window (al_window_seconds l) t' t) (al_events l)"
    by (auto simp: trailing_window_def window_start_def intro!: filter_cong)
  then show ?thesis
    by (simp add: attempt_allowed_def Let_def used_def)
qed

lemma used_commit:
  assumes "t \<le> t2"
  shows "used (trailing_window (al_window_seconds l)) (al_events (commit_attempt gone k t l)) k2 t2
    = used (trailing_window (al_window_seconds l)) (al_events l @ [(k, t)]) k2 t2"
proof -
  have "filter (\<lambda>(k', t'). k' = k2 \<and> trailing_window (al_window_seconds l) t' t2)
      (filter (\<lambda>(k', t'). \<not> (k' = k \<and> t' < window_start t l \<and> gone (k', t'))) (al_events l))
    = filter (\<lambda>(k', t'). k' = k2 \<and> trailing_window (al_window_seconds l) t' t2) (al_events l)"
    using assms by (auto simp: trailing_window_def window_start_def intro!: filter_cong)
  then show ?thesis
    by (simp add: used_def commit_attempt_def)
qed

lemma commit_attempt_sel [simp]:
  "al_max_attempts (commit_attempt gone k t l) = al_max_attempts l"
  "al_window_seconds (commit_attempt gone k t l) = al_window_seconds l"
  by (simp_all add: commit_attempt_def)

subsection \<open>One call after the other\<close>

definition table_tracks :: "int \<Rightarrow> int \<Rightarrow> time \<Rightarrow> time attempts \<Rightarrow> attempt_limiter \<Rightarrow> bool" where
  "table_tracks attempts seconds t0 h l \<longleftrightarrow>
     al_max_attempts l = attempts \<and> al_window_seconds l = seconds \<and>
     (\<forall>k t. t0 \<le> t \<longrightarrow>
        used (trailing_window seconds) (al_events l) k t = used (trailing_window seconds) h k t)"

lemma used_append: "used recent (h @ [(k, t)]) k2 t2 = used recent h k2 t2 + (if k2 = k \<and> recent t t2 then 1 else 0)"
  by (auto simp: used_def)

lemma table_check_tracks:
  assumes "table_tracks attempts seconds t0 h l" "t0 \<le> t" "table_check_and_record k t l = (r, l')"
  shows "succeeds r = (int (used (trailing_window seconds) h k t) < attempts)
    \<and> table_tracks attempts seconds t (if succeeds r then h @ [(k, t)] else h) l'"
proof (cases "attempt_allowed k t l")
  case (Inl e)
  then have "\<not> int (used (trailing_window seconds) h k t) < attempts"
    using attempt_allowed_iff [of k t l "()"] assms(1,2) by (simp add: table_tracks_def)
  then show ?thesis
    using assms Inl by (auto simp: table_check_and_record_def table_tracks_def succeeds_def split: sum.splits)
next
  case (Inr u)
  then have "int (used (trailing_window seconds) h k t) < attempts"
    using attempt_allowed_iff [of k t l u] assms(1,2) by (simp add: table_tracks_def)
  moreover have "table_tracks attempts seconds t (h @ [(k, t)]) (commit_attempt (\<lambda>_. True) k t l)"
    using assms(1,2) used_commit [of t _ l] by (auto simp: table_tracks_def used_append)
  ultimately show ?thesis
    using assms(3) Inr by (auto simp: table_check_and_record_def succeeds_def split: sum.splits)
qed

interpretation attempt_table: rate_limiter attempts "trailing_window seconds" table_check_and_record
    "\<lparr>al_max_attempts = attempts, al_window_seconds = seconds, al_events = []\<rparr>" "table_tracks attempts seconds"
  for attempts seconds
  by unfold_locales (simp add: table_tracks_def, rule table_check_tracks)

subsection \<open>Overlapping calls\<close>

text \<open>
  What has been admitted and still counts is in the table or in progress.
\<close>

definition overlap_inv :: "nat \<Rightarrow> int \<Rightarrow> int \<Rightarrow> overlap_state \<Rightarrow> bool" where
  "overlap_inv c attempts seconds s \<longleftrightarrow>
     al_max_attempts (ov_table s) = attempts \<and> al_window_seconds (ov_table s) = seconds
     \<and> (\<forall>k t. (k, t) \<in> set (ov_flight s) \<longrightarrow> t \<le> ov_clock s)
     \<and> (\<forall>k t. ov_clock s \<le> t \<longrightarrow>
          used (trailing_window seconds) (ov_admitted s) k t
            = used (trailing_window seconds) (al_events (ov_table s)) k t
              + used (trailing_window seconds) (ov_flight s) k t)
     \<and> (\<forall>k. in_flight k s \<le> c)"

lemma used_split: "used recent (xs @ ys) k t = used recent xs k t + used recent ys k t"
  by (simp add: used_def)

lemma used_le: "used recent h k t \<le> length (filter (\<lambda>(k', t'). k' = k) h)"
  by (induction h) (auto simp: used_def)

lemma used_in_flight: "used recent (ov_flight s) k t \<le> in_flight k s"
  unfolding in_flight_def by (rule used_le)

lemma overlap_start_inv: "overlap_start attempts seconds s \<Longrightarrow> overlap_inv c attempts seconds s"
  by (simp add: overlap_start_def overlap_inv_def used_def in_flight_def)

lemma overlap_step_inv:
  assumes "overlap_step c s s'" "overlap_inv c attempts seconds s"
  shows "overlap_inv c attempts seconds s'"
  using assms
proof (cases rule: overlap_step.cases)
  case (counted t k)
  then show ?thesis
    using assms(2)
    by (auto simp: overlap_inv_def used_append in_flight_def) (meson order_trans)
next
  case (refused t k e)
  then show ?thesis
    using assms(2) by (auto simp: overlap_inv_def in_flight_def) (meson order_trans)
next
  case (committed pre k t post gone)
  have "used (trailing_window seconds) (ov_admitted s) k2 t2
      = used (trailing_window seconds) (al_events (commit_attempt gone k t (ov_table s))) k2 t2
        + used (trailing_window seconds) (pre @ post) k2 t2" if "ov_clock s \<le> t2" for k2 t2
  proof -
    have "t \<le> t2"
      using assms(2) committed(2) that by (force simp: overlap_inv_def)
    moreover have "used (trailing_window seconds) (ov_admitted s) k2 t2
        = used (trailing_window seconds) (al_events (ov_table s)) k2 t2
          + used (trailing_window seconds) (pre @ (k, t) # post) k2 t2"
      using assms(2) that by (simp add: overlap_inv_def committed(2) [symmetric])
    moreover have "used (trailing_window seconds) (pre @ (k, t) # post) k2 t2
        = used (trailing_window seconds) [(k, t)] k2 t2 + used (trailing_window seconds) (pre @ post) k2 t2"
      by (simp add: used_def)
    ultimately show ?thesis
      using assms(2) used_commit [of t t2 "ov_table s" gone k k2] by (simp add: overlap_inv_def used_split)
  qed
  moreover have "length (filter (\<lambda>(k', t). k' = k2) (pre @ post)) \<le> c" for k2
  proof -
    have "length (filter (\<lambda>(k', t). k' = k2) (pre @ (k, t) # post)) \<le> c"
      using assms(2) by (simp add: overlap_inv_def in_flight_def committed(2) [symmetric])
    then show ?thesis by (simp split: if_splits)
  qed
  ultimately show ?thesis
    using assms(2) unfolding committed(1) overlap_inv_def in_flight_def
    by (simp add: committed(2))
qed

interpretation overlap: machine_invariant "overlap_start attempts seconds" "overlap_step c"
    "overlap_inv c attempts seconds" for attempts seconds c
  by unfold_locales (auto intro: overlap_start_inv overlap_step_inv)

lemma overlap_decision:
  assumes "overlap_inv c attempts seconds s" "ov_clock s \<le> t"
  shows "attempt_allowed k t (ov_table s) = Inr () \<Longrightarrow> in_flight k s < c \<Longrightarrow>
      int (used (trailing_window seconds) (ov_admitted s) k t) < attempts + int c - 1"
    and "attempt_allowed k t (ov_table s) = Inl e \<Longrightarrow>
      attempts \<le> int (used (trailing_window seconds) (ov_admitted s) k t)"
proof -
  have u: "used (trailing_window seconds) (ov_admitted s) k t
      = used (trailing_window seconds) (al_events (ov_table s)) k t + used (trailing_window seconds) (ov_flight s) k t"
    using assms by (simp add: overlap_inv_def)
  have a: "attempt_allowed k t (ov_table s) = Inr () \<longleftrightarrow>
      int (used (trailing_window seconds) (al_events (ov_table s)) k t) < attempts"
    using attempt_allowed_iff assms(1) by (simp add: overlap_inv_def)
  show "int (used (trailing_window seconds) (ov_admitted s) k t) < attempts + int c - 1"
    if "attempt_allowed k t (ov_table s) = Inr ()" "in_flight k s < c"
    using u a that used_in_flight [of "trailing_window seconds" s k t] by linarith
  show "attempts \<le> int (used (trailing_window seconds) (ov_admitted s) k t)"
    if "attempt_allowed k t (ov_table s) = Inl e"
    using u a that by simp
qed

end
