(* ===== verification/Limit_Props.thy ===== *)
theory Limit_Props
  imports Rate_Limits
begin

text \<open>
  Properties of the rate limiters, against a reference that remembers every admitted attempt. Both
  need the attempts in the order of their clock readings: with a reading from an earlier window the
  in-memory limiter starts its counter anew.
\<close>

section \<open>Fixed windows\<close>

text \<open>
  C18. The fixed-window limiter keeps one counter per key. In every sequence of checks in the order of
  their clock readings, with releases at any times in between, it decides each check exactly as if it
  remembered all admitted attempts that were not released and counted those in the current window;
  and this reference never holds more attempts of a key in one window than the limit.
\<close>

theorem fixed_window_exact:
  assumes "FixedWindowRateLimiter_init requests seconds = Inr l" "sorted (attempt_times es)"
  shows "fst (limiter_run check release es l) = fst (reference_run requests (same_window seconds) es [])
    \<and> (\<forall>k t. int (used (same_window seconds) (snd (reference_run requests (same_window seconds) es [])) k t) \<le> requests)"
proof -
  have c: "1 \<le> seconds" "1 \<le> requests" and l: "l = \<lparr>fw_requests = requests, fw_window_seconds = seconds, fw_windows = Map.empty\<rparr>"
    using assms(1) by (auto simp: FixedWindowRateLimiter_init_def raise_if_eq_Inr)
  then obtain n where n: "seconds = int n + 1"
    by (metis add.commute nonneg_int_cases zle_iff_zadd)
  have "int (used (same_window seconds) (snd (reference_run requests (same_window seconds) es [])) k t) \<le> requests" for k t
    using c(2) by (intro reference_within_quota equivp_same_window) (simp add: used_def)
  then show ?thesis
    using fixed_window.decisions_exact [OF assms(2), of requests n] by (simp add: n l)
qed

lemma ex_windows:
  "window_of 60 1 = 0" "window_of 60 2 = 0" "window_of 60 4 = 0" "window_of 60 59 = 0" "window_of 60 61 = 1"
  "window_of 60 62 = 1"
  by (simp_all add: window_of_def floor_eq_iff)

theorem fixed_window_exact_witness:
  "\<exists>l. FixedWindowRateLimiter_init 1 60 = Inr l \<and>
     fst (limiter_run check release [Attempt ''a'' 1, Attempt ''a'' 2, Undo ''a'' 1, Attempt ''a'' 4, Attempt ''a'' 61] l)
       = [True, False, True, True]"
proof -
  let ?es = "[Attempt ''a'' 1, Attempt ''a'' 2, Undo ''a'' 1, Attempt ''a'' 4, Attempt ''a'' (61::rat)]"
  obtain l where l: "FixedWindowRateLimiter_init 1 60 = Inr l"
    by (simp add: FixedWindowRateLimiter_init_def)
  have s: "sorted (attempt_times ?es)"
    by (simp add: attempt_times_def)
  have r: "fst (reference_run 1 (same_window 60) ?es []) = [True, False, True, True]"
    by (simp add: used_def same_window_def ex_windows)
  show ?thesis
    using fixed_window_exact [OF l s, unfolded r] l by blast
qed

text \<open>With clock readings out of order the limit does not hold: two attempts at 61 and 62 seconds.\<close>

lemma fixed_window_out_of_order:
  "\<exists>l. FixedWindowRateLimiter_init 1 60 = Inr l \<and>
     fst (limiter_run check release [Attempt ''a'' 61, Attempt ''a'' 59, Attempt ''a'' 62] l) = [True, True, True]"
  by (simp add: FixedWindowRateLimiter_init_def check_def ex_windows succeeds_def Let_def)

section \<open>The table of attempts\<close>

text \<open>Calls one after the other decide as if no row had ever been deleted.\<close>

lemma attempt_table_serial:
  assumes "sorted (map snd as)"
  shows "fst (limiter_run table_check_and_record undo (map (\<lambda>(k, t). Attempt k t) as)
        \<lparr>al_max_attempts = quota, al_window_seconds = seconds, al_events = []\<rparr>)
      = fst (reference_run quota (trailing_window seconds) (map (\<lambda>(k, t). Attempt k t) as) [])"
proof (cases as)
  case (Cons a as')
  then show ?thesis
    using attempt_table.attempts_reference [OF attempt_table.start_tracks [of quota seconds "snd a"] assms] assms
    by simp
qed simp

text \<open>
  C19. The table of authentication attempts with overlapping calls. Calls count the rows of the table
  in the order of their clock readings, and commit their own row later, in any order, while at most
  \<open>c\<close> calls for one key are between these two points. Then a call that goes on has fewer than limit
  plus \<open>c - 1\<close> attempts of its key admitted before it in the trailing window, and a call is refused
  only if at least the limit of them were; deleting old rows changes no decision. With \<open>c = 1\<close>, that
  is without overlap, a call goes on exactly if fewer than the limit were admitted.
\<close>

theorem attempt_table_overlap:
  assumes "reachable (overlap_start attempts seconds) (overlap_step c) s" "ov_clock s \<le> t"
  shows "(attempt_allowed k t (ov_table s) = Inr () \<longrightarrow> in_flight k s < c \<longrightarrow>
        int (used (trailing_window seconds) (ov_admitted s) k t) < attempts + int c - 1)
    \<and> (\<forall>e. attempt_allowed k t (ov_table s) = Inl e \<longrightarrow>
        attempts \<le> int (used (trailing_window seconds) (ov_admitted s) k t))"
  using overlap_decision [OF overlap.reachable_inv [OF assms(1)] assms(2)] by blast

text \<open>Two overlapping calls under a limit of one are both admitted; a third one, later, is refused.\<close>

definition ex_overlap :: overlap_state where
  "ex_overlap =
     \<lparr>ov_table = \<lparr>al_max_attempts = 1, al_window_seconds = 60, al_events = []\<rparr>,
      ov_flight = [], ov_admitted = [], ov_clock = 0\<rparr>"

definition ex_overlapped :: overlap_state where
  "ex_overlapped =
     \<lparr>ov_table = \<lparr>al_max_attempts = 1, al_window_seconds = 60, al_events = [(''a'', 2)]\<rparr>,
      ov_flight = [(''a'', 1)], ov_admitted = [(''a'', 1), (''a'', 2)], ov_clock = 2\<rparr>"

lemma ex_overlapped_reachable: "reachable (overlap_start 1 60) (overlap_step 2) ex_overlapped"
proof -
  let ?s1 = "ex_overlap\<lparr>ov_flight := [(''a'', 1)], ov_admitted := [(''a'', 1)], ov_clock := 1\<rparr>"
  let ?s2 = "?s1\<lparr>ov_flight := [(''a'', 1), (''a'', 2)], ov_admitted := [(''a'', 1), (''a'', 2)], ov_clock := 2\<rparr>"
  have "overlap_step 2 ex_overlap ?s1"
    using overlap_step.counted [of ex_overlap 1 "''a''" 2]
    by (simp add: ex_overlap_def in_flight_def attempt_allowed_def)
  moreover have "overlap_step 2 ?s1 ?s2"
    using overlap_step.counted [of ?s1 2 "''a''" 2]
    by (simp add: ex_overlap_def in_flight_def attempt_allowed_def)
  moreover have "overlap_step 2 ?s2 ex_overlapped"
    using overlap_step.committed [of ?s2 "[(''a'', 1)]" "''a''" 2 "[]" 2 "\<lambda>_. True"]
    by (simp add: ex_overlap_def ex_overlapped_def commit_attempt_def)
  moreover have "overlap_start 1 60 ex_overlap"
    by (simp add: overlap_start_def ex_overlap_def)
  ultimately show ?thesis
    by (meson reachable_init reachable_step)
qed

theorem attempt_table_overlap_witness:
  "attempt_allowed ''a'' 3 (ov_table ex_overlapped) = Inl (RateLimitError ''auth_rate_limit_exceeded'' 60)
   \<and> 1 \<le> int (used (trailing_window 60) (ov_admitted ex_overlapped) ''a'' 3)"
proof -
  have r: "attempt_allowed ''a'' 3 (ov_table ex_overlapped) = Inl (RateLimitError ''auth_rate_limit_exceeded'' 60)"
    by (simp add: attempt_allowed_def window_start_def ex_overlapped_def microseconds_def)
  have "ov_clock ex_overlapped \<le> 3"
    by (simp add: ex_overlapped_def)
  then show ?thesis
    using attempt_table_overlap [OF ex_overlapped_reachable, of 3 "''a''"] r by blast
qed

end
