(* ===== verification/Py_Url.thy ===== *)
theory Py_Url
  imports Owned_Targets
begin

text \<open>
  More of Python's standard library, after the CPython 3.12 sources: \<^verbatim>\<open>urljoin\<close>,
  \<^verbatim>\<open>urlunsplit\<close> and \<^verbatim>\<open>unquote\<close> of \<^verbatim>\<open>urllib.parse\<close>,
  \<^verbatim>\<open>posixpath.normpath\<close>, and from \<^verbatim>\<open>ipaddress\<close> the classification of addresses and
  their compressed notation.
\<close>

section \<open>Joining URLs\<close>

definition uses_relative :: "string list" where
  "uses_relative =
     ['''', ''ftp'', ''http'', ''gopher'', ''nntp'', ''imap'', ''wais'', ''file'', ''https'', ''shttp'', ''mms'',
      ''prospero'', ''rtsp'', ''rtsps'', ''rtspu'', ''sftp'', ''svn'', ''svn+ssh'', ''ws'', ''wss'']"

definition uses_netloc :: "string list" where
  "uses_netloc =
     ['''', ''ftp'', ''http'', ''gopher'', ''nntp'', ''telnet'', ''imap'', ''wais'', ''file'', ''mms'', ''https'',
      ''shttp'', ''snews'', ''prospero'', ''rtsp'', ''rtsps'', ''rtspu'', ''rsync'', ''svn'', ''svn+ssh'', ''sftp'',
      ''nfs'', ''git'', ''git+ssh'', ''ws'', ''wss'', ''itms-services'']"

definition uses_params :: "string list" where
  "uses_params =
     ['''', ''ftp'', ''hdl'', ''prospero'', ''http'', ''imap'', ''https'', ''shttp'', ''rtsp'', ''rtsps'', ''rtspu'',
      ''sip'', ''sips'', ''mms'', ''sftp'', ''tel'']"

definition urlunsplit :: "string \<Rightarrow> string \<Rightarrow> string \<Rightarrow> string \<Rightarrow> string \<Rightarrow> string" where
  "urlunsplit scheme netloc path query fragment =
     (let url1 = (if netloc \<noteq> [] \<or> scheme \<noteq> [] \<and> scheme \<in> set uses_netloc \<and> take 2 path \<noteq> ''//''
                  then ''//'' @ netloc @ (if path \<noteq> [] \<and> take 1 path \<noteq> ''/'' then ''/'' else []) @ path
                  else path);
          url2 = (if scheme \<noteq> [] then scheme @ '':'' @ url1 else url1);
          url3 = (if query \<noteq> [] then url2 @ ''?'' @ query else url2)
      in if fragment \<noteq> [] then url3 @ ''#'' @ fragment else url3)"

text \<open>\<^verbatim>\<open>_splitparams\<close>: the parameters of the last segment, after its first semicolon.\<close>

definition split_params :: "string \<Rightarrow> string \<Rightarrow> string \<times> string" where
  "split_params scheme path =
     (if scheme \<in> set uses_params \<and> CHR '';'' \<in> set path
      then (case str_rpartition (CHR ''/'') path of (before, slash, segment) \<Rightarrow>
            case str_partition (CHR '';'') segment of (name, found, params) \<Rightarrow>
              if found then (before @ (if slash then ''/'' else []) @ name, params) else (path, []))
      else (path, []))"

definition urlunparse :: "string \<Rightarrow> string \<Rightarrow> string \<Rightarrow> string \<Rightarrow> string \<Rightarrow> string \<Rightarrow> string" where
  "urlunparse scheme netloc path params query fragment =
     urlunsplit scheme netloc (if params \<noteq> [] then path @ '';'' @ params else path) query fragment"

text \<open>The loop over the segments, with the path resolved so far in reverse.\<close>

fun resolve_segments :: "string list \<Rightarrow> string list \<Rightarrow> string list" where
  "resolve_segments [] acc = acc"
| "resolve_segments (seg # segs) acc =
     (if seg = ''..'' then resolve_segments segs (drop 1 acc)
      else if seg = ''.'' then resolve_segments segs acc
      else resolve_segments segs (seg # acc))"

definition join_segments :: "string \<Rightarrow> string \<Rightarrow> string list" where
  "join_segments bpath path =
     (let parts = py_split (CHR ''/'') bpath;
          base_parts = (if last parts \<noteq> [] then butlast parts else parts)
      in if take 1 path = ''/'' then py_split (CHR ''/'') path
         else (let segments = base_parts @ py_split (CHR ''/'') path
               in if length segments \<le> 2 then segments
                  else hd segments # filter (\<lambda>s. s \<noteq> []) (butlast (tl segments)) @ [last segments]))"

definition resolved_path :: "string \<Rightarrow> string \<Rightarrow> string" where
  "resolved_path bpath path =
     (let segments = join_segments bpath path;
          resolved = rev (resolve_segments segments []);
          final = (if last segments \<in> {''.'', ''..''} then resolved @ [[]] else resolved);
          joined = py_join (CHR ''/'') final
      in if joined = [] then ''/'' else joined)"

text \<open>\<open>None\<close> is the \<^verbatim>\<open>ValueError\<close> of \<^verbatim>\<open>urlsplit\<close>.\<close>

definition urljoin :: "string \<Rightarrow> string \<Rightarrow> string option" where
  "urljoin base url =
     (if base = [] then Some url
      else if url = [] then Some base
      else (case (urlsplit base, urlsplit url) of
              (Some b, Some u) \<Rightarrow>
                (let scheme = (if u_scheme u = [] then u_scheme b else u_scheme u);
                     (bpath, bparams) = split_params (u_scheme b) (u_path b);
                     (path, params) = split_params scheme (u_path u);
                     netloc = (if scheme \<in> set uses_netloc then u_netloc b else u_netloc u)
                 in if scheme \<noteq> u_scheme b \<or> scheme \<notin> set uses_relative then Some url
                    else if scheme \<in> set uses_netloc \<and> u_netloc u \<noteq> []
                    then Some (urlunparse scheme (u_netloc u) path params (u_query u) (u_fragment u))
                    else if path = [] \<and> params = []
                    then Some (urlunparse scheme netloc bpath bparams
                                (if u_query u = [] then u_query b else u_query u) (u_fragment u))
                    else Some (urlunparse scheme netloc (resolved_path bpath path) params (u_query u) (u_fragment u)))
            | _ \<Rightarrow> None))"

section \<open>Normal paths\<close>

text \<open>The loop of \<^verbatim>\<open>normpath\<close>, with the components kept so far in reverse.\<close>

fun norm_comps :: "bool \<Rightarrow> string list \<Rightarrow> string list \<Rightarrow> string list" where
  "norm_comps rooted [] acc = acc"
| "norm_comps rooted (part # parts) acc =
     (if part = [] \<or> part = ''.'' then norm_comps rooted parts acc
      else if part \<noteq> ''..'' \<or> \<not> rooted \<and> acc = [] \<or> acc \<noteq> [] \<and> hd acc = ''..''
      then norm_comps rooted parts (part # acc)
      else norm_comps rooted parts (drop 1 acc))"

definition initial_slashes :: "string \<Rightarrow> string" where
  "initial_slashes path =
     (if take 1 path \<noteq> ''/'' then []
      else if take 2 path = ''//'' \<and> take 3 path \<noteq> ''///'' then ''//'' else ''/'')"

definition normpath :: "string \<Rightarrow> string" where
  "normpath path =
     (if path = [] then ''.''
      else (let slashes = initial_slashes path;
                comps = rev (norm_comps (slashes \<noteq> []) (py_split (CHR ''/'') (drop (length slashes) path)) []);
                result = slashes @ py_join (CHR ''/'') comps
            in if result = [] then ''.'' else result))"

section \<open>Percent escapes\<close>

text \<open>
  \<^verbatim>\<open>unquote\<close> decodes the escapes of each run of ASCII characters as UTF-8 and replaces what is
  no valid encoding by U+FFFD. The result is a list of code points; each byte of an invalid sequence
  is replaced by itself, where CPython may join some of them into one replacement.
\<close>

definition two_hex :: "string \<Rightarrow> nat option" where
  "two_hex s =
     (case s of [a, b] \<Rightarrow>
        (if is_hex (lower_char a) \<and> is_hex (lower_char b) then Some (hex_nat (py_lower s) 0) else None)
      | _ \<Rightarrow> None)"

fun unquote_bytes :: "string \<Rightarrow> nat list" where
  "unquote_bytes [] = []"
| "unquote_bytes (c # cs) =
     (if c = CHR ''%''
      then (case two_hex (take 2 cs) of
              Some n \<Rightarrow> n # unquote_bytes (drop 2 cs)
            | None \<Rightarrow> of_char c # unquote_bytes cs)
      else of_char c # unquote_bytes cs)"

definition replacement :: nat where
  "replacement = 65533"

definition continuation :: "nat \<Rightarrow> bool" where
  "continuation b \<longleftrightarrow> 128 \<le> b \<and> b < 192"

text \<open>A valid sequence at the front: its code point and its length.\<close>

definition utf8_head :: "nat list \<Rightarrow> (nat \<times> nat) option" where
  "utf8_head bs =
     (case bs of [] \<Rightarrow> None
      | b0 # r0 \<Rightarrow>
        if b0 < 128 then Some (b0, 1)
        else (case r0 of [] \<Rightarrow> None
              | b1 # r1 \<Rightarrow>
                if \<not> continuation b1 then None
                else if 194 \<le> b0 \<and> b0 < 224 then Some ((b0 - 192) * 64 + (b1 - 128), 2)
                else (case r1 of [] \<Rightarrow> None
                      | b2 # r2 \<Rightarrow>
                        let n = (b0 - 224) * 4096 + (b1 - 128) * 64 + (b2 - 128) in
                        if \<not> continuation b2 then None
                        else if 224 \<le> b0 \<and> b0 < 240
                        then (if 2048 \<le> n \<and> \<not> (55296 \<le> n \<and> n < 57344) then Some (n, 3) else None)
                        else (case r2 of [] \<Rightarrow> None
                              | b3 # r3 \<Rightarrow>
                                let n = (b0 - 240) * 262144 + (b1 - 128) * 4096 + (b2 - 128) * 64 + (b3 - 128) in
                                if continuation b3 \<and> 240 \<le> b0 \<and> b0 < 245 \<and> 65536 \<le> n \<and> n < 1114112
                                then Some (n, 4) else None))))"

fun utf8_decode_from :: "nat \<Rightarrow> nat list \<Rightarrow> nat list" where
  "utf8_decode_from skip [] = []"
| "utf8_decode_from (Suc skip) (b # bs) = utf8_decode_from skip bs"
| "utf8_decode_from 0 (b # bs) =
     (case utf8_head (b # bs) of
        Some (n, k) \<Rightarrow> n # utf8_decode_from (k - 1) bs
      | None \<Rightarrow> replacement # utf8_decode_from 0 bs)"

definition utf8_decode :: "nat list \<Rightarrow> nat list" where
  "utf8_decode bs = utf8_decode_from 0 bs"

fun ascii_runs :: "string \<Rightarrow> string \<Rightarrow> nat list" where
  "ascii_runs run [] = utf8_decode (unquote_bytes (rev run))"
| "ascii_runs run (c # cs) =
     (if (of_char c :: nat) < 128 then ascii_runs (c # run) cs
      else utf8_decode (unquote_bytes (rev run)) @ of_char c # ascii_runs [] cs)"

definition unquote :: "string \<Rightarrow> nat list" where
  "unquote s = ascii_runs [] s"

text \<open>
  \<^verbatim>\<open>lower\<close> of a code point, as far as a comparison with Latin-1 text can tell: besides the
  Latin-1 letters, the four letters outside it that have a Latin-1 lower case.
\<close>

definition lower_code :: "nat \<Rightarrow> nat" where
  "lower_code n =
     (if n < 256 then of_char (lower_char (char_of n))
      else if n = 376 then 255 else if n = 7838 then 223
      else if n = 8490 then 107 else if n = 8491 then 229 else n)"

section \<open>Classes of addresses\<close>

definition in_network :: "nat \<Rightarrow> nat \<Rightarrow> nat \<Rightarrow> nat \<Rightarrow> bool" where
  "in_network width base prefix n \<longleftrightarrow> n div 2 ^ (width - prefix) = base div 2 ^ (width - prefix)"

definition ip4 :: "nat \<Rightarrow> nat \<Rightarrow> nat \<Rightarrow> nat \<Rightarrow> nat" where
  "ip4 a b c d = ((a * 256 + b) * 256 + c) * 256 + d"

definition in4 :: "nat \<Rightarrow> nat \<times> nat \<Rightarrow> bool" where
  "in4 n net = (case net of (base, prefix) \<Rightarrow> in_network 32 base prefix n)"

definition v4_private_networks :: "(nat \<times> nat) list" where
  "v4_private_networks =
     [(ip4 0 0 0 0, 8), (ip4 10 0 0 0, 8), (ip4 127 0 0 0, 8), (ip4 169 254 0 0, 16), (ip4 172 16 0 0, 12),
      (ip4 192 0 0 0, 24), (ip4 192 0 0 170, 31), (ip4 192 0 2 0, 24), (ip4 192 168 0 0, 16),
      (ip4 198 18 0 0, 15), (ip4 198 51 100 0, 24), (ip4 203 0 113 0, 24), (ip4 240 0 0 0, 4),
      (ip4 255 255 255 255, 32)]"

definition v4_private_exceptions :: "(nat \<times> nat) list" where
  "v4_private_exceptions = [(ip4 192 0 0 9, 32), (ip4 192 0 0 10, 32)]"

text \<open>An IPv6 network by its leading hextets.\<close>

definition ip6 :: "nat list \<Rightarrow> nat" where
  "ip6 hs = hextets_value (hs @ replicate (8 - length hs) 0)"

definition in6 :: "nat \<Rightarrow> nat list \<times> nat \<Rightarrow> bool" where
  "in6 n net = (case net of (hs, prefix) \<Rightarrow> in_network 128 (ip6 hs) prefix n)"

definition v6_private_networks :: "(nat list \<times> nat) list" where
  "v6_private_networks =
     [([0, 0, 0, 0, 0, 0, 0, 1], 128), ([], 128), ([0, 0, 0, 0, 0, 0xFFFF], 96), ([0x64, 0xFF9B, 1], 48),
      ([0x100], 64), ([0x2001], 23), ([0x2001, 0xDB8], 32), ([0x2002], 16), ([0xFC00], 7), ([0xFE80], 10)]"

definition v6_private_exceptions :: "(nat list \<times> nat) list" where
  "v6_private_exceptions =
     [([0x2001, 1, 0, 0, 0, 0, 0, 1], 128), ([0x2001, 1, 0, 0, 0, 0, 0, 2], 128), ([0x2001, 3], 32),
      ([0x2001, 4, 0x112], 48), ([0x2001, 0x20], 28), ([0x2001, 0x30], 28)]"

definition v6_reserved_networks :: "(nat list \<times> nat) list" where
  "v6_reserved_networks =
     [([], 8), ([0x100], 8), ([0x200], 7), ([0x400], 6), ([0x800], 5), ([0x1000], 4), ([0x4000], 3),
      ([0x6000], 3), ([0x8000], 3), ([0xA000], 3), ([0xC000], 3), ([0xE000], 4), ([0xF000], 5),
      ([0xF800], 6), ([0xFE00], 9)]"

definition ipv4_mapped :: "nat \<Rightarrow> nat option" where
  "ipv4_mapped n = (if n div 2 ^ 32 = 0xFFFF then Some (n mod 2 ^ 32) else None)"

definition v4_is_private :: "nat \<Rightarrow> bool" where
  "v4_is_private n \<longleftrightarrow> list_ex (in4 n) v4_private_networks \<and> \<not> list_ex (in4 n) v4_private_exceptions"

fun is_private :: "ip_address \<Rightarrow> bool" where
  "is_private (IPv4 n) = v4_is_private n"
| "is_private (IPv6 n) =
     (case ipv4_mapped n of
        Some m \<Rightarrow> v4_is_private m
      | None \<Rightarrow> list_ex (in6 n) v6_private_networks \<and> \<not> list_ex (in6 n) v6_private_exceptions)"

fun is_global :: "ip_address \<Rightarrow> bool" where
  "is_global (IPv4 n) = (\<not> in4 n (ip4 100 64 0 0, 10) \<and> \<not> v4_is_private n)"
| "is_global (IPv6 n) = (\<not> is_private (IPv6 n))"

fun is_loopback :: "ip_address \<Rightarrow> bool" where
  "is_loopback (IPv4 n) = in4 n (ip4 127 0 0 0, 8)"
| "is_loopback (IPv6 n) = (n = 1)"

fun is_link_local :: "ip_address \<Rightarrow> bool" where
  "is_link_local (IPv4 n) = in4 n (ip4 169 254 0 0, 16)"
| "is_link_local (IPv6 n) = in6 n ([0xFE80], 10)"

fun is_multicast :: "ip_address \<Rightarrow> bool" where
  "is_multicast (IPv4 n) = in4 n (ip4 224 0 0 0, 4)"
| "is_multicast (IPv6 n) = in6 n ([0xFF00], 8)"

fun is_reserved :: "ip_address \<Rightarrow> bool" where
  "is_reserved (IPv4 n) = in4 n (ip4 240 0 0 0, 4)"
| "is_reserved (IPv6 n) = list_ex (in6 n) v6_reserved_networks"

fun is_unspecified :: "ip_address \<Rightarrow> bool" where
  "is_unspecified (IPv4 n) = (n = 0)"
| "is_unspecified (IPv6 n) = (n = 0)"

section \<open>Compressed notation\<close>

definition ipv4_str :: "nat \<Rightarrow> string" where
  "ipv4_str n =
     py_join (CHR ''.'') (map dec_str [n div 2 ^ 24, n div 2 ^ 16 mod 256, n div 2 ^ 8 mod 256, n mod 256])"

fun hex_str :: "nat \<Rightarrow> string" where
  "hex_str n = (if n < 16 then [hex_char n] else hex_str (n div 16) @ [hex_char (n mod 16)])"

declare hex_str.simps [simp del]

definition hextets_of :: "nat \<Rightarrow> nat list" where
  "hextets_of n = map (\<lambda>i. n div 65536 ^ (7 - i) mod 65536) [0 ..< 8]"

text \<open>The first longest run of zeros: its start and its length.\<close>

fun best_zeros :: "nat \<Rightarrow> nat list \<Rightarrow> nat \<times> nat \<Rightarrow> nat \<times> nat \<Rightarrow> nat \<times> nat" where
  "best_zeros i [] current best = best"
| "best_zeros i (h # hs) (start, len) (bstart, blen) =
     (if h = 0
      then (let start' = (if len = 0 then i else start); len' = len + 1
            in best_zeros (i + 1) hs (start', len') (if len' > blen then (start', len') else (bstart, blen)))
      else best_zeros (i + 1) hs (0, 0) (bstart, blen))"

definition ipv6_str :: "nat \<Rightarrow> string" where
  "ipv6_str n =
     (let hs = hextets_of n; texts = map hex_str hs in
      case best_zeros 0 hs (0, 0) (0, 0) of (start, len) \<Rightarrow>
        if len > 1
        then (let shortened = take start texts @ [[]] @ drop (start + len) texts @ (if start + len = 8 then [[]] else [])
              in py_join (CHR '':'') ((if start = 0 then [[]] else []) @ shortened))
        else py_join (CHR '':'') texts)"

text \<open>\<^verbatim>\<open>ip_address(s).compressed\<close>, with the scope identifier of an IPv6 address.\<close>

definition ip_compressed :: "string \<Rightarrow> string option" where
  "ip_compressed s =
     (case parse_ip s of
        None \<Rightarrow> None
      | Some (IPv4 n) \<Rightarrow> Some (ipv4_str n)
      | Some (IPv6 n) \<Rightarrow>
          (case str_partition (CHR ''%'') s of (addr, found, zone) \<Rightarrow>
             Some (ipv6_str n @ (if found then ''%'' @ zone else []))))"

end
