(* ===== verification/Scope_Validator.thy ===== *)
theory Scope_Validator
  imports Py_Url
begin

text \<open>
  Validation of scan targets (\<^verbatim>\<open>webguard_scanner/scope_validator.py\<close>): the URL checks, the
  canonical host name, and the two policies that decide which resolved addresses may be contacted.
  Name resolution is a parameter.
\<close>

section \<open>Definitions\<close>

datatype validation_mode = COMMERCIAL | LAB

text \<open>The allowlist is given in the order in which Python iterates over the set.\<close>

record validation_policy =
  vp_mode :: validation_mode
  vp_allowed_lab_hosts :: "string list"
  vp_maximum_url_length :: int

record validated_target =
  vt_original_url :: string
  vt_normalised_url :: string
  vt_scheme :: string
  vt_hostname :: string
  vt_port :: nat
  vt_resolved_addresses :: "string list"

definition tv_error :: "string \<Rightarrow> exn" where
  "tv_error code = TargetValidationError code"

datatype resolver_outcome = Resolved "string list" | Resolver_Refused string | Resolver_OSError

text \<open>\<^verbatim>\<open>socket.getaddrinfo\<close> gives the address texts of its records, or a \<^verbatim>\<open>gaierror\<close>.\<close>

definition resolve_host :: "(string \<Rightarrow> nat \<Rightarrow> string list option) \<Rightarrow> string \<Rightarrow> nat \<Rightarrow> resolver_outcome" where
  "resolve_host getaddrinfo hostname port =
     (case ip_compressed hostname of
        Some literal \<Rightarrow> Resolved [literal]
      | None \<Rightarrow>
        (case getaddrinfo hostname port of
           None \<Rightarrow> Resolver_Refused ''dns_resolution_failed''
         | Some records \<Rightarrow>
             (let addresses = map (\<lambda>a. fst (str_partition (CHR ''%'') a)) records
              in if addresses = [] then Resolver_Refused ''dns_no_addresses''
                 else Resolved (sorted_unique addresses))))"

definition check_label :: "string \<Rightarrow> unit result" where
  "check_label label =
     raise_if (label = []) (tv_error ''hostname_invalid'')
     (raise_if (length label > 63) (tv_error ''hostname_label_too_long'')
     (raise_if (hd label = CHR ''-'' \<or> last label = CHR ''-'') (tv_error ''hostname_invalid'')
     (raise_if (\<not> list_all (\<lambda>c. is_alnum_ascii c \<or> c = CHR ''-'') label) (tv_error ''hostname_invalid'')
     (Inr ()))))"

definition normalise_hostname :: "py_env \<Rightarrow> string \<Rightarrow> string result" where
  "normalise_hostname E hostname =
     (let candidate = rstrip_dots (py_strip hostname) in
      raise_if (candidate = []) (tv_error ''hostname_missing'')
      (raise_if (CHR ''%'' \<in> set candidate) (tv_error ''ipv6_zone_not_allowed'')
      (case ip_compressed candidate of
         Some address \<Rightarrow> Inr address
       | None \<Rightarrow>
         (case idna_encode (env_idna E) candidate of
            None \<Rightarrow> Inl (tv_error ''hostname_invalid'')
          | Some encoded \<Rightarrow>
              let ascii_hostname = py_lower encoded in
              raise_if (length ascii_hostname > 253) (tv_error ''hostname_too_long'')
              (bindE (mapE check_label (py_split (CHR ''.'') ascii_hostname)) (\<lambda>_. Inr ascii_hostname))))))"

text \<open>The IPv4 address inside an IPv4-mapped IPv6 address.\<close>

fun classification_address :: "ip_address \<Rightarrow> ip_address" where
  "classification_address (IPv4 n) = IPv4 n"
| "classification_address (IPv6 n) = (case ipv4_mapped n of Some m \<Rightarrow> IPv4 m | None \<Rightarrow> IPv6 n)"

definition parse_address :: "string \<Rightarrow> (string \<times> ip_address) result" where
  "parse_address address_text =
     (case (parse_ip address_text, ip_compressed address_text) of
        (Some original, Some compressed) \<Rightarrow> Inr (compressed, classification_address original)
      | _ \<Rightarrow> Inl (tv_error ''dns_invalid_address''))"

definition commercial_ok :: "ip_address \<Rightarrow> bool" where
  "commercial_ok a \<longleftrightarrow>
     \<not> (\<not> is_global a \<or> is_private a \<or> is_loopback a \<or> is_link_local a \<or> is_multicast a
        \<or> is_reserved a \<or> is_unspecified a)"

definition validate_commercial_address :: "string \<Rightarrow> string result" where
  "validate_commercial_address address_text =
     bindE (parse_address address_text) (\<lambda>(compressed, classified).
       raise_if (\<not> commercial_ok classified) (tv_error ''non_public_address'') (Inr compressed))"

definition validate_lab_address :: "string \<Rightarrow> string result" where
  "validate_lab_address address_text =
     bindE (parse_address address_text) (\<lambda>(compressed, classified).
       raise_if (is_link_local classified \<or> is_multicast classified \<or> is_reserved classified
                 \<or> is_unspecified classified) (tv_error ''unsafe_lab_address'')
       (raise_if (\<not> (is_private classified \<or> is_loopback classified)) (tv_error ''public_lab_address'')
       (Inr compressed)))"

definition format_netloc :: "string \<Rightarrow> nat \<Rightarrow> string \<Rightarrow> string" where
  "format_netloc hostname port scheme =
     (let formatted_host = (case parse_ip hostname of Some (IPv6 n) \<Rightarrow> ''['' @ hostname @ '']'' | _ \<Rightarrow> hostname)
      in if port = (if scheme = ''https'' then 443 else 80) then formatted_host
         else formatted_host @ '':'' @ dec_str port)"

definition validate_addresses ::
  "py_env \<Rightarrow> validation_policy \<Rightarrow> string \<Rightarrow> string list \<Rightarrow> string list result" where
  "validate_addresses E policy hostname raw_addresses =
     (case vp_mode policy of
        COMMERCIAL \<Rightarrow>
          bindE (mapE validate_commercial_address raw_addresses) (\<lambda>addresses. Inr (sorted_unique addresses))
      | LAB \<Rightarrow>
          bindE (mapE (normalise_hostname E) (vp_allowed_lab_hosts policy)) (\<lambda>allowed_hosts.
          raise_if (allowed_hosts = []) (tv_error ''lab_allowlist_empty'')
          (raise_if (hostname \<notin> set allowed_hosts) (tv_error ''lab_host_not_allowed'')
          (bindE (mapE validate_lab_address raw_addresses) (\<lambda>addresses. Inr (sorted_unique addresses))))))"

definition validate_resolved ::
  "py_env \<Rightarrow> validation_policy \<Rightarrow> (string \<Rightarrow> nat \<Rightarrow> resolver_outcome) \<Rightarrow> string \<Rightarrow> nat \<Rightarrow> string list result" where
  "validate_resolved E policy resolver hostname port =
     (case resolver hostname port of
        Resolver_Refused code \<Rightarrow> Inl (tv_error code)
      | Resolver_OSError \<Rightarrow> Inl (tv_error ''dns_resolution_failed'')
      | Resolved raw_addresses \<Rightarrow>
          raise_if (raw_addresses = []) (tv_error ''dns_no_addresses'')
          (validate_addresses E policy hostname raw_addresses))"

definition validate_target_url ::
  "py_env \<Rightarrow> string \<Rightarrow> validation_policy \<Rightarrow> (string \<Rightarrow> nat \<Rightarrow> resolver_outcome) \<Rightarrow> validated_target result" where
  "validate_target_url E url policy resolver =
     (let candidate = py_strip url in
      raise_if (candidate = []) (tv_error ''url_empty'')
      (raise_if (int (length candidate) > vp_maximum_url_length policy) (tv_error ''url_too_long'')
      (raise_if (CHR 0x5C \<in> set candidate) (tv_error ''backslash_not_allowed'')
      (raise_if (list_ex is_control candidate) (tv_error ''control_character_not_allowed'')
      (case urlsplit candidate of
         None \<Rightarrow> Inl (tv_error ''url_invalid'')
       | Some parsed \<Rightarrow>
         let scheme = py_lower (u_scheme parsed) in
         raise_if (scheme \<notin> {''http'', ''https''}) (tv_error ''scheme_not_allowed'')
         (raise_if (has_userinfo parsed) (tv_error ''credentials_not_allowed'')
         (raise_if (u_query parsed \<noteq> []) (tv_error ''query_not_allowed'')
         (raise_if (u_fragment parsed \<noteq> []) (tv_error ''fragment_not_allowed'')
         (case url_hostname parsed of
            None \<Rightarrow> Inl (tv_error ''hostname_missing'')
          | Some raw_hostname \<Rightarrow>
            bindE (normalise_hostname E raw_hostname) (\<lambda>hostname.
              case url_port parsed of
                Inl _ \<Rightarrow> Inl (tv_error ''port_invalid'')
              | Inr given_port \<Rightarrow>
                let port = (case given_port of Some p \<Rightarrow> p | None \<Rightarrow> if scheme = ''https'' then 443 else 80) in
                bindE (validate_resolved E policy resolver hostname port) (\<lambda>addresses.
                  Inr \<lparr>vt_original_url = candidate,
                       vt_normalised_url = urlunsplit scheme (format_netloc hostname port scheme)
                         (if u_path parsed = [] then ''/'' else u_path parsed) [] [],
                       vt_scheme = scheme, vt_hostname = hostname, vt_port = port,
                       vt_resolved_addresses = addresses\<rparr>)))))))))))"

section \<open>What the policies accept\<close>

lemma check_label_Inr: "check_label l = Inr u \<longleftrightarrow>
    l \<noteq> [] \<and> length l \<le> 63 \<and> hd l \<noteq> CHR ''-'' \<and> last l \<noteq> CHR ''-'' \<and> list_all (\<lambda>c. is_alnum_ascii c \<or> c = CHR ''-'') l"
  by (auto simp: check_label_def raise_if_eq_Inr)

lemma validate_target_url_Inr:
  assumes "validate_target_url E url policy resolver = Inr t"
  obtains raw where "resolver (vt_hostname t) (vt_port t) = Resolved raw" "raw \<noteq> []"
    "validate_addresses E policy (vt_hostname t) raw = Inr (vt_resolved_addresses t)"
    "vt_scheme t = ''http'' \<or> vt_scheme t = ''https''"
proof -
  obtain parsed raw_host given_port where "urlsplit (py_strip url) = Some parsed"
    "url_hostname parsed = Some raw_host" "url_port parsed = Inr given_port"
    using assms
    by (cases "urlsplit (py_strip url)"; cases "url_hostname (the (urlsplit (py_strip url)))";
        cases "url_port (the (urlsplit (py_strip url)))")
      (auto simp: validate_target_url_def Let_def bindE_eq_Inr raise_if_eq_Inr)
  then obtain addresses where "validate_resolved E policy resolver (vt_hostname t) (vt_port t) = Inr addresses"
    "vt_resolved_addresses t = addresses" "vt_scheme t \<in> {''http'', ''https''}"
    using assms by (auto simp: validate_target_url_def Let_def bindE_eq_Inr raise_if_eq_Inr)
  then show ?thesis
    using that by (auto simp: validate_resolved_def raise_if_eq_Inr split: resolver_outcome.splits)
qed

lemma set_sorted_unique [simp]: "set (sorted_unique xs) = set xs"
  by (simp add: sorted_unique_def)

lemma mapE_set: "mapE f xs = Inr ys \<Longrightarrow> y \<in> set ys \<Longrightarrow> \<exists>x \<in> set xs. f x = Inr y"
  by (induction xs arbitrary: ys) (auto simp: bindE_eq_Inr)

end
