(* ===== verification/Target_Props.thy ===== *)
theory Target_Props
  imports Scope_Validator "HOL-Library.Code_Target_Nat"
begin

text \<open>
  Which addresses a commercial scan can be pointed at: for every target that validation accepts,
  every address its name resolves to lies outside the private, local, shared and special-purpose
  ranges. One deprecated range is not refused: site-local addresses, fec0::/10.
\<close>

section \<open>Parsed addresses are in range\<close>










section \<open>Public addresses\<close>






lemma replicate_zeros:
  "replicate 2 (0::nat) = [0, 0]" "replicate 5 (0::nat) = [0, 0, 0, 0, 0]" "replicate 6 (0::nat) = [0, 0, 0, 0, 0, 0]"
  "replicate 7 (0::nat) = [0, 0, 0, 0, 0, 0, 0]" "replicate 8 (0::nat) = [0, 0, 0, 0, 0, 0, 0, 0]"
  by (simp_all add: numeral_eq_Suc)










section \<open>The property\<close>







text \<open>Deprecated site-local addresses (fec0::/10) pass the commercial policy.\<close>

lemma site_local_accepted: "commercial_ok (IPv6 (0xFEC0 * 2 ^ 112 + 1))"
  by (simp add: commercial_ok_def v6_private_networks_def v6_private_exceptions_def v6_reserved_networks_def
      in6_def in_network_def ip6_def hextets_value_def replicate_zeros ipv4_mapped_def)

end
