(* ===== verification/Retry_Policy.thy ===== *)
theory Retry_Policy
  imports WG_Prelude
begin

text \<open>
  When a failed request may be repeated and after which delay: the classification of error codes
  (\<^verbatim>\<open>webguard_scanner/error_taxonomy.py\<close>) and the bounded retry policy
  (\<^verbatim>\<open>webguard_scanner/retry_policy.py\<close>).
\<close>

section \<open>Definitions\<close>

subsection \<open>Error codes\<close>

datatype error_category =
    CAT_CONFIGURATION
  | CAT_TARGET_INTEGRITY
  | CAT_NETWORK_TRANSIENT
  | CAT_TLS
  | CAT_HTTP_PROTOCOL
  | CAT_RESPONSE_POLICY
  | CAT_RESPONSE_LIMIT
  | CAT_RESPONSE_FORMAT
  | CAT_REQUEST_LIMIT
  | CAT_ANALYSIS
  | CAT_MIXED
  | CAT_UNKNOWN

text \<open>A category, and whether the error may be retried.\<close>

type_synonym error_policy = "error_category \<times> bool"

definition REQUEST_POLICIES :: "(string \<times> error_policy) list" where
  "REQUEST_POLICIES =
     [(''timeout_invalid'', (CAT_CONFIGURATION, False)),
      (''body_limit_invalid'', (CAT_CONFIGURATION, False)),
      (''header_limit_invalid'', (CAT_CONFIGURATION, False)),
      (''request_body_limit_invalid'', (CAT_CONFIGURATION, False)),
      (''header_count_invalid'', (CAT_CONFIGURATION, False)),
      (''validated_address_invalid'', (CAT_TARGET_INTEGRITY, False)),
      (''validated_addresses_empty'', (CAT_TARGET_INTEGRITY, False)),
      (''validated_target_mismatch'', (CAT_TARGET_INTEGRITY, False)),
      (''fragment_not_allowed'', (CAT_TARGET_INTEGRITY, False)),
      (''scheme_not_allowed'', (CAT_TARGET_INTEGRITY, False)),
      (''method_not_allowed'', (CAT_TARGET_INTEGRITY, False)),
      (''proxy_tunnel_not_allowed'', (CAT_TARGET_INTEGRITY, False)),
      (''connection_timeout'', (CAT_NETWORK_TRANSIENT, True)),
      (''connection_refused'', (CAT_NETWORK_TRANSIENT, True)),
      (''connection_interrupted'', (CAT_NETWORK_TRANSIENT, True)),
      (''network_unreachable'', (CAT_NETWORK_TRANSIENT, True)),
      (''connection_failed'', (CAT_NETWORK_TRANSIENT, True)),
      (''tls_certificate_invalid'', (CAT_TLS, False)),
      (''tls_handshake_failed'', (CAT_TLS, False)),
      (''tls_context_insecure'', (CAT_TLS, False)),
      (''tls_metadata_unavailable'', (CAT_TLS, False)),
      (''tls_certificate_metadata_invalid'', (CAT_TLS, False)),
      (''tls_certificate_metadata_too_large'', (CAT_TLS, False)),
      (''http_protocol_error'', (CAT_HTTP_PROTOCOL, False)),
      (''connection_failed_mixed'', (CAT_MIXED, False)),
      (''redirect_blocked'', (CAT_RESPONSE_POLICY, False)),
      (''response_body_too_large'', (CAT_RESPONSE_LIMIT, False)),
      (''response_headers_too_many'', (CAT_RESPONSE_LIMIT, False)),
      (''response_headers_too_large'', (CAT_RESPONSE_LIMIT, False)),
      (''request_body_too_large'', (CAT_REQUEST_LIMIT, False)),
      (''forbidden_request_header'', (CAT_CONFIGURATION, False)),
      (''content_length_invalid'', (CAT_RESPONSE_FORMAT, False)),
      (''content_length_ambiguous'', (CAT_RESPONSE_FORMAT, False))]"

definition ANALYSIS_POLICIES :: "(string \<times> error_policy) list" where
  "ANALYSIS_POLICIES =
     [(''validated_target_mismatch'', (CAT_ANALYSIS, False)),
      (''tls_metadata_missing'', (CAT_ANALYSIS, False)),
      (''tls_metadata_inconsistent'', (CAT_ANALYSIS, False)),
      (''tls_certificate_time_invalid'', (CAT_ANALYSIS, False)),
      (''tls_target_not_https'', (CAT_ANALYSIS, False))]"

definition UNKNOWN_POLICY :: error_policy where
  "UNKNOWN_POLICY = (CAT_UNKNOWN, False)"

definition policy_of :: "(string \<times> error_policy) list \<Rightarrow> string \<Rightarrow> error_policy" where
  "policy_of table code = (case map_of table code of Some p \<Rightarrow> p | None \<Rightarrow> UNKNOWN_POLICY)"

definition classify_error :: "string \<Rightarrow> string \<Rightarrow> error_policy" where
  "classify_error stage code =
     (let stage' = py_lower (py_strip stage); code' = py_lower (py_strip code) in
      if stage' = ''request'' then policy_of REQUEST_POLICIES code'
      else if stage' = ''analysis'' then policy_of ANALYSIS_POLICIES code'
      else UNKNOWN_POLICY)"

definition is_retryable_error :: "string \<Rightarrow> string \<Rightarrow> bool" where
  "is_retryable_error stage code = snd (classify_error stage code)"

definition known_error_codes :: "string \<Rightarrow> string list" where
  "known_error_codes stage =
     (let stage' = py_lower (py_strip stage) in
      if stage' = ''request'' then sort (map fst REQUEST_POLICIES)
      else if stage' = ''analysis'' then sort (map fst ANALYSIS_POLICIES)
      else [])"

subsection \<open>The retry policy\<close>

definition MAXIMUM_REQUEST_ATTEMPTS :: int where
  "MAXIMUM_REQUEST_ATTEMPTS = 3"

definition MAXIMUM_BACKOFF_SECONDS :: rat where
  "MAXIMUM_BACKOFF_SECONDS = 5"

definition MAXIMUM_BACKOFF_MULTIPLIER :: rat where
  "MAXIMUM_BACKOFF_MULTIPLIER = 4"

record retry_policy =
  rt_maximum_attempts :: int
  rt_initial_backoff_seconds :: rat
  rt_backoff_multiplier :: rat
  rt_maximum_backoff_seconds :: rat

definition RetryPolicy_default :: retry_policy where
  "RetryPolicy_default =
     \<lparr>rt_maximum_attempts = 1, rt_initial_backoff_seconds = 1 / 4, rt_backoff_multiplier = 2,
      rt_maximum_backoff_seconds = 2\<rparr>"

definition RetryPolicy_post_init :: "retry_policy \<Rightarrow> retry_policy result" where
  "RetryPolicy_post_init p =
     raise_if (\<not> (1 \<le> rt_maximum_attempts p \<and> rt_maximum_attempts p \<le> MAXIMUM_REQUEST_ATTEMPTS)) ValueError
     (raise_if (rt_initial_backoff_seconds p < 0) ValueError
     (raise_if (\<not> (1 \<le> rt_backoff_multiplier p \<and> rt_backoff_multiplier p \<le> MAXIMUM_BACKOFF_MULTIPLIER)) ValueError
     (raise_if (\<not> (0 \<le> rt_maximum_backoff_seconds p \<and> rt_maximum_backoff_seconds p \<le> MAXIMUM_BACKOFF_SECONDS)) ValueError
     (raise_if (rt_initial_backoff_seconds p > rt_maximum_backoff_seconds p) ValueError
     (Inr p)))))"

definition retries_enabled :: "retry_policy \<Rightarrow> bool" where
  "retries_enabled p \<longleftrightarrow> rt_maximum_attempts p > 1"

definition delay_after_failure :: "retry_policy \<Rightarrow> int \<Rightarrow> rat result" where
  "delay_after_failure p failed_attempt_number =
     raise_if (failed_attempt_number < 1 \<or> failed_attempt_number \<ge> rt_maximum_attempts p) ValueError
     (Inr (min (rt_initial_backoff_seconds p * rt_backoff_multiplier p ^ nat (failed_attempt_number - 1))
               (rt_maximum_backoff_seconds p)))"

section \<open>Bounds\<close>

definition retry_wf :: "retry_policy \<Rightarrow> bool" where
  "retry_wf p \<longleftrightarrow>
     1 \<le> rt_maximum_attempts p \<and> rt_maximum_attempts p \<le> 3
     \<and> 0 \<le> rt_initial_backoff_seconds p \<and> rt_initial_backoff_seconds p \<le> rt_maximum_backoff_seconds p
     \<and> 1 \<le> rt_backoff_multiplier p \<and> rt_backoff_multiplier p \<le> 4 \<and> rt_maximum_backoff_seconds p \<le> 5"

lemma RetryPolicy_Inr: "RetryPolicy_post_init p = Inr p' \<longleftrightarrow> p' = p \<and> retry_wf p"
  by (auto simp: RetryPolicy_post_init_def retry_wf_def raise_if_eq_Inr MAXIMUM_REQUEST_ATTEMPTS_def
      MAXIMUM_BACKOFF_SECONDS_def MAXIMUM_BACKOFF_MULTIPLIER_def)

lemma delay_after_failure_bound:
  assumes "retry_wf p" "delay_after_failure p k = Inr d"
  shows "0 \<le> d" and "d \<le> 5"
proof -
  have d: "d = min (rt_initial_backoff_seconds p * rt_backoff_multiplier p ^ nat (k - 1)) (rt_maximum_backoff_seconds p)"
    using assms(2) by (auto simp: delay_after_failure_def raise_if_eq_Inr)
  show "0 \<le> d" "d \<le> 5"
    using assms(1) unfolding d retry_wf_def by auto
qed

lemma delay_after_failure_defined:
  "1 \<le> k \<Longrightarrow> k < rt_maximum_attempts p \<Longrightarrow> \<exists>d. delay_after_failure p k = Inr d"
  by (simp add: delay_after_failure_def)

end
