(* ===== verification/Crawl_Records.thy ===== *)
theory Crawl_Records
  imports Py_Url Retry_Policy
begin

text \<open>
  The records of the crawler (\<^verbatim>\<open>webguard_scanner/crawler.py\<close>) and the request attempt of
  the result contract (\<^verbatim>\<open>webguard_contracts/scans.py\<close>), each with every check of its
  constructor. Sets of texts are lists; type checks hold by the types.
\<close>

section \<open>Definitions\<close>

subsection \<open>Request attempts\<close>

datatype request_attempt_outcome = ATTEMPT_SUCCEEDED | ATTEMPT_FAILED

record request_attempt =
  ra_attempt_number :: int
  ra_started_at :: time
  ra_completed_at :: time
  ra_outcome :: request_attempt_outcome
  ra_connected_address :: "string option"
  ra_http_status :: "int option"
  ra_error_code :: "string option"
  ra_retryable :: "bool option"
  ra_retry_scheduled :: bool
  ra_backoff_seconds :: rat

definition sc_error :: "string \<Rightarrow> exn" where
  "sc_error code = ScanContractValidationError code"

definition scans_required_text :: "nat \<Rightarrow> string \<Rightarrow> string \<Rightarrow> string result" where
  "scans_required_text maximum name value =
     (let cleaned = py_strip value in
      raise_if (cleaned = [] \<or> length cleaned > maximum \<or> CHR 0x00 \<in> set cleaned)
        (sc_error (name @ ''_invalid'')) (Inr cleaned))"

definition scans_identifier :: "string \<Rightarrow> string \<Rightarrow> string result" where
  "scans_identifier name value =
     bindE (scans_required_text 128 name value) (\<lambda>text.
       let cleaned = py_lower text in
       raise_if (\<not> error_code_match cleaned) (sc_error (name @ ''_invalid'')) (Inr cleaned))"

definition attempt_address :: "string \<Rightarrow> string result" where
  "attempt_address value =
     (case scans_required_text 128 ''request_attempt_connected_address'' value of
        Inl _ \<Rightarrow> Inl (sc_error ''request_attempt_connected_address_invalid'')
      | Inr text \<Rightarrow>
          (case ip_compressed text of
             None \<Rightarrow> Inl (sc_error ''request_attempt_connected_address_invalid'')
           | Some c \<Rightarrow> Inr c))"

definition attempt_outcome_check :: "request_attempt \<Rightarrow> unit result" where
  "attempt_outcome_check a =
     (case ra_outcome a of
        ATTEMPT_SUCCEEDED \<Rightarrow>
          raise_if (ra_connected_address a = None \<or> ra_http_status a = None)
            (sc_error ''request_attempt_success_metadata_required'')
          (raise_if (ra_error_code a \<noteq> None \<or> ra_retryable a \<noteq> None)
            (sc_error ''request_attempt_success_error_invalid'')
          (raise_if (ra_retry_scheduled a \<or> ra_backoff_seconds a \<noteq> 0)
            (sc_error ''request_attempt_success_retry_invalid'')
          (Inr ())))
      | ATTEMPT_FAILED \<Rightarrow>
          raise_if (ra_error_code a = None \<or> ra_retryable a = None)
            (sc_error ''request_attempt_failure_error_required'')
          (raise_if (ra_retry_scheduled a \<and> ra_retryable a \<noteq> Some True)
            (sc_error ''request_attempt_retry_not_allowed'')
          (raise_if (\<not> ra_retry_scheduled a \<and> ra_backoff_seconds a \<noteq> 0)
            (sc_error ''request_attempt_backoff_without_retry'')
          (Inr ()))))"

definition RequestAttempt_post_init :: "request_attempt \<Rightarrow> request_attempt result" where
  "RequestAttempt_post_init a =
     raise_if (ra_attempt_number a < 1) (sc_error ''request_attempt_number_invalid'')
     (raise_if (ra_completed_at a < ra_started_at a) (sc_error ''request_attempt_time_invalid'')
     (bindE (mapE_option attempt_address (ra_connected_address a)) (\<lambda>address.
      raise_if (case ra_http_status a of None \<Rightarrow> False | Some s \<Rightarrow> \<not> (100 \<le> s \<and> s \<le> 599))
        (sc_error ''request_attempt_http_status_invalid'')
      (bindE (mapE_option (scans_identifier ''request_attempt_error_code'') (ra_error_code a)) (\<lambda>error_code.
       raise_if (\<not> (0 \<le> ra_backoff_seconds a \<and> ra_backoff_seconds a \<le> 3600))
         (sc_error ''request_attempt_backoff_invalid'')
       (let a' = a\<lparr>ra_connected_address := address, ra_error_code := error_code\<rparr>
        in bindE (attempt_outcome_check a') (\<lambda>_. Inr a')))))))"

subsection \<open>Policies\<close>

datatype crawl_query_mode = QUERY_DROP | QUERY_REJECT
datatype crawl_page_outcome = PAGE_SUCCEEDED | PAGE_FAILED
datatype crawl_skip_reason =
    DESTRUCTIVE_PATH | DUPLICATE | EXTERNAL_ORIGIN | FRAGMENT_ONLY | LINK_LIMIT | MALFORMED_URL
  | PAGE_LIMIT | QUERY_REJECTED | UNSUPPORTED_SCHEME | USERINFO_NOT_ALLOWED
datatype crawl_termination_reason =
    COMPLETED | PAGE_LIMIT_REACHED | ROOT_REQUEST_FAILED | TIME_LIMIT_REACHED
  | REQUEST_ATTEMPT_LIMIT_REACHED | CANCELLED

primrec skip_reason_value :: "crawl_skip_reason \<Rightarrow> string" where
  "skip_reason_value DESTRUCTIVE_PATH = ''destructive_path''"
| "skip_reason_value DUPLICATE = ''duplicate''"
| "skip_reason_value EXTERNAL_ORIGIN = ''external_origin''"
| "skip_reason_value FRAGMENT_ONLY = ''fragment_only''"
| "skip_reason_value LINK_LIMIT = ''link_limit''"
| "skip_reason_value MALFORMED_URL = ''malformed_url''"
| "skip_reason_value PAGE_LIMIT = ''page_limit''"
| "skip_reason_value QUERY_REJECTED = ''query_rejected''"
| "skip_reason_value UNSUPPORTED_SCHEME = ''unsupported_scheme''"
| "skip_reason_value USERINFO_NOT_ALLOWED = ''userinfo_not_allowed''"

definition MAXIMUM_CRAWL_PAGES :: int where "MAXIMUM_CRAWL_PAGES = 50"
definition MAXIMUM_CRAWL_DEPTH :: int where "MAXIMUM_CRAWL_DEPTH = 3"
definition MAXIMUM_LINKS_PER_PAGE :: int where "MAXIMUM_LINKS_PER_PAGE = 500"
definition MAXIMUM_CRAWL_URL_LENGTH :: int where "MAXIMUM_CRAWL_URL_LENGTH = 2048"
definition MAXIMUM_CRAWL_REQUEST_ATTEMPTS :: int where "MAXIMUM_CRAWL_REQUEST_ATTEMPTS = 150"

record crawl_policy =
  cp_maximum_pages :: int
  cp_maximum_depth :: int
  cp_maximum_links_per_page :: int
  cp_minimum_delay_seconds :: rat
  cp_query_mode :: crawl_query_mode
  cp_maximum_url_length :: int
  cp_maximum_execution_seconds :: rat
  cp_maximum_request_attempts :: int
  cp_allowed_content_types :: "string list"
  cp_blocked_path_segments :: "string list"

definition ce_error :: "string \<Rightarrow> exn" where
  "ce_error code = CrawlPolicyError code"

definition crawl_bounded_integer :: "string \<Rightarrow> int \<Rightarrow> int \<Rightarrow> int \<Rightarrow> int result" where
  "crawl_bounded_integer name minimum maximum value =
     raise_if (\<not> (minimum \<le> value \<and> value \<le> maximum)) (ce_error (name @ ''_invalid'')) (Inr value)"

text \<open>\<^verbatim>\<open>[\x00-\x20\x7f]\<close>.\<close>

definition control_or_space :: "char \<Rightarrow> bool" where
  "control_or_space c \<longleftrightarrow> (of_char c :: nat) \<le> 32 \<or> (of_char c :: nat) = 127"

definition media_char :: "char \<Rightarrow> bool" where
  "media_char c \<longleftrightarrow> is_lower_alnum c \<or> c \<in> set ''!#$&^_.+-''"

definition media_type_match :: "string \<Rightarrow> bool" where
  "media_type_match s \<longleftrightarrow>
     (case py_split (CHR ''/'') s of
        [a, b] \<Rightarrow> a \<noteq> [] \<and> b \<noteq> [] \<and> list_all media_char a \<and> list_all media_char b
      | _ \<Rightarrow> False)"

definition normalise_media_type :: "string \<Rightarrow> string \<Rightarrow> string result" where
  "normalise_media_type field_name value =
     (let cleaned = py_lower (py_strip value) in
      raise_if (\<not> media_type_match cleaned) (ce_error (field_name @ ''_invalid'')) (Inr cleaned))"

definition normalise_media_types :: "string list \<Rightarrow> string list result" where
  "normalise_media_types values =
     raise_if (values = []) (ce_error ''allowed_content_types_invalid'')
     (mapE (normalise_media_type ''allowed_content_type'') values)"

definition normalise_blocked_segment :: "string \<Rightarrow> string result" where
  "normalise_blocked_segment value =
     (let segment = py_lower (py_strip value) in
      raise_if (segment = [] \<or> length segment > 64 \<or> CHR ''/'' \<in> set segment \<or> CHR 0x5C \<in> set segment
                \<or> list_ex control_or_space segment)
        (ce_error ''blocked_path_segment_invalid'') (Inr segment))"

definition normalise_blocked_segments :: "string list \<Rightarrow> string list result" where
  "normalise_blocked_segments values =
     raise_if (values = []) (ce_error ''blocked_path_segments_invalid'')
     (mapE normalise_blocked_segment values)"

definition CrawlPolicy_post_init :: "crawl_policy \<Rightarrow> crawl_policy result" where
  "CrawlPolicy_post_init p =
     bindE (crawl_bounded_integer ''maximum_pages'' 1 MAXIMUM_CRAWL_PAGES (cp_maximum_pages p)) (\<lambda>_.
     bindE (crawl_bounded_integer ''maximum_depth'' 0 MAXIMUM_CRAWL_DEPTH (cp_maximum_depth p)) (\<lambda>_.
     bindE (crawl_bounded_integer ''maximum_links_per_page'' 1 MAXIMUM_LINKS_PER_PAGE (cp_maximum_links_per_page p)) (\<lambda>_.
     bindE (crawl_bounded_integer ''maximum_url_length'' 128 MAXIMUM_CRAWL_URL_LENGTH (cp_maximum_url_length p)) (\<lambda>_.
     bindE (crawl_bounded_integer ''maximum_request_attempts'' 1 MAXIMUM_CRAWL_REQUEST_ATTEMPTS
       (cp_maximum_request_attempts p)) (\<lambda>_.
     raise_if (\<not> (0 < cp_maximum_execution_seconds p \<and> cp_maximum_execution_seconds p \<le> 3600))
       (ce_error ''maximum_execution_seconds_invalid'')
     (raise_if (\<not> (0 \<le> cp_minimum_delay_seconds p \<and> cp_minimum_delay_seconds p \<le> 5))
       (ce_error ''minimum_delay_invalid'')
     (bindE (normalise_media_types (cp_allowed_content_types p)) (\<lambda>allowed_types.
      bindE (normalise_blocked_segments (cp_blocked_path_segments p)) (\<lambda>blocked_segments.
        Inr (p\<lparr>cp_allowed_content_types := allowed_types, cp_blocked_path_segments := blocked_segments\<rparr>))))))))))"

subsection \<open>Pages and executions\<close>

record crawl_skip_summary =
  sk_reason :: crawl_skip_reason
  sk_count :: int

definition CrawlSkipSummary_post_init :: "crawl_skip_summary \<Rightarrow> crawl_skip_summary result" where
  "CrawlSkipSummary_post_init s =
     bindE (crawl_bounded_integer ''skip_count'' 1 2147483647 (sk_count s)) (\<lambda>_. Inr s)"

definition audit_url :: "string \<Rightarrow> string \<Rightarrow> string result" where
  "audit_url field_name value =
     (let cleaned = py_strip value; invalid = ce_error (field_name @ ''_invalid'') in
      raise_if (cleaned = [] \<or> int (length cleaned) > MAXIMUM_CRAWL_URL_LENGTH \<or> list_ex control_or_space cleaned)
        invalid
      (case urlsplit cleaned of
         None \<Rightarrow> Inl ValueError
       | Some parsed \<Rightarrow>
           raise_if (u_scheme parsed \<notin> {''http'', ''https''} \<or> url_hostname parsed = None \<or> has_userinfo parsed
                     \<or> u_query parsed \<noteq> [] \<or> u_fragment parsed \<noteq> []) invalid
           (Inr cleaned)))"

definition crawl_identifier_match :: "string \<Rightarrow> bool" where
  "crawl_identifier_match s \<longleftrightarrow>
     (case s of [] \<Rightarrow> False
      | c # cs \<Rightarrow> is_lower_alnum c \<and> \<not> is_digit c \<and> list_all (\<lambda>x. is_lower_alnum x \<or> x \<in> set ''._-'') cs)"

definition crawl_identifier :: "string \<Rightarrow> string \<Rightarrow> string result" where
  "crawl_identifier field_name value =
     (let cleaned = py_lower (py_strip value) in
      raise_if (cleaned = [] \<or> length cleaned > 128 \<or> \<not> crawl_identifier_match cleaned)
        (ce_error (field_name @ ''_invalid'')) (Inr cleaned))"

record crawl_page_record =
  pg_url :: string
  pg_depth :: int
  pg_parent_url :: "string option"
  pg_outcome :: crawl_page_outcome
  pg_attempts :: "request_attempt list"
  pg_content_type :: "string option"
  pg_connected_address :: "string option"
  pg_http_status :: "int option"
  pg_error_code :: "string option"
  pg_retryable :: "bool option"
  pg_discovered_links :: int
  pg_queued_links :: int

definition page_address :: "string \<Rightarrow> string result" where
  "page_address value =
     (case ip_compressed value of
        None \<Rightarrow> Inl (ce_error ''page_connected_address_invalid'') | Some c \<Rightarrow> Inr c)"

text \<open>The checks that tie the metadata of a page to its last attempt, on the normalised fields.\<close>

definition page_outcome_check :: "crawl_page_record \<Rightarrow> unit result" where
  "page_outcome_check p =
     (let final = last (pg_attempts p) in
      case pg_outcome p of
        PAGE_SUCCEEDED \<Rightarrow>
          raise_if (pg_connected_address p = None \<or> pg_http_status p = None
                    \<or> ra_outcome final \<noteq> ATTEMPT_SUCCEEDED
                    \<or> ra_connected_address final \<noteq> pg_connected_address p
                    \<or> ra_http_status final \<noteq> pg_http_status p)
            (ce_error ''page_success_metadata_required'')
          (raise_if (pg_error_code p \<noteq> None \<or> pg_retryable p \<noteq> None) (ce_error ''page_success_error_invalid'')
          (Inr ()))
      | PAGE_FAILED \<Rightarrow>
          raise_if (pg_error_code p = None \<or> pg_retryable p = None \<or> ra_outcome final \<noteq> ATTEMPT_FAILED
                    \<or> ra_error_code final \<noteq> pg_error_code p \<or> ra_retryable final \<noteq> pg_retryable p)
            (ce_error ''page_failure_metadata_required'')
          (raise_if (pg_connected_address p \<noteq> None \<or> pg_http_status p \<noteq> None \<or> pg_content_type p \<noteq> None
                     \<or> pg_discovered_links p \<noteq> 0 \<or> pg_queued_links p \<noteq> 0)
            (ce_error ''page_failure_response_invalid'')
          (Inr ())))"

definition CrawlPageRecord_post_init :: "crawl_page_record \<Rightarrow> crawl_page_record result" where
  "CrawlPageRecord_post_init p =
     bindE (audit_url ''page_url'' (pg_url p)) (\<lambda>url.
     bindE (mapE_option (audit_url ''parent_url'') (pg_parent_url p)) (\<lambda>parent_url.
     bindE (crawl_bounded_integer ''page_depth'' 0 MAXIMUM_CRAWL_DEPTH (pg_depth p)) (\<lambda>_.
     raise_if (pg_attempts p = []) (ce_error ''page_attempts_invalid'')
     (raise_if (map ra_attempt_number (pg_attempts p) \<noteq> [1 .. int (length (pg_attempts p))])
       (ce_error ''page_attempt_sequence_invalid'')
     (bindE (crawl_bounded_integer ''discovered_links'' 0 MAXIMUM_LINKS_PER_PAGE (pg_discovered_links p)) (\<lambda>_.
      bindE (crawl_bounded_integer ''queued_links'' 0 MAXIMUM_LINKS_PER_PAGE (pg_queued_links p)) (\<lambda>_.
      raise_if (pg_queued_links p > pg_discovered_links p) (ce_error ''queued_links_invalid'')
      (bindE (mapE_option (normalise_media_type ''page_content_type'') (pg_content_type p)) (\<lambda>content_type.
       bindE (mapE_option page_address (pg_connected_address p)) (\<lambda>address.
       raise_if (case pg_http_status p of None \<Rightarrow> False | Some s \<Rightarrow> \<not> (100 \<le> s \<and> s \<le> 599))
         (ce_error ''page_http_status_invalid'')
       (bindE (mapE_option (crawl_identifier ''page_error_code'') (pg_error_code p)) (\<lambda>error_code.
        let p' = p\<lparr>pg_url := url, pg_parent_url := parent_url, pg_content_type := content_type,
                   pg_connected_address := address, pg_error_code := error_code\<rparr>
        in bindE (page_outcome_check p') (\<lambda>_. Inr p')))))))))))))"

record crawl_execution =
  cx_root_url :: string
  cx_pages :: "crawl_page_record list"
  cx_skipped_links :: "crawl_skip_summary list"
  cx_termination_reason :: crawl_termination_reason
  cx_pages_pending :: int

definition early_reasons :: "crawl_termination_reason list" where
  "early_reasons = [TIME_LIMIT_REACHED, REQUEST_ATTEMPT_LIMIT_REACHED, CANCELLED]"

definition CrawlExecution_post_init :: "crawl_execution \<Rightarrow> crawl_execution result" where
  "CrawlExecution_post_init x =
     bindE (audit_url ''crawl_root_url'' (cx_root_url x)) (\<lambda>root_url.
     bindE (crawl_bounded_integer ''crawl_pages_pending'' 0 MAXIMUM_CRAWL_PAGES (cx_pages_pending x)) (\<lambda>_.
     raise_if (cx_pages x = [] \<and> cx_termination_reason x \<notin> set early_reasons)
       (ce_error ''crawl_empty_pages_invalid'')
     (raise_if (cx_pages x \<noteq> [] \<and> pg_url (hd (cx_pages x)) \<noteq> root_url) (ce_error ''crawl_root_page_mismatch'')
     (raise_if (\<not> distinct (map pg_url (cx_pages x))) (ce_error ''crawl_page_duplicate'')
     (raise_if (\<not> distinct (map sk_reason (cx_skipped_links x))) (ce_error ''crawl_skip_duplicate'')
     (raise_if (cx_termination_reason x \<in> {COMPLETED, ROOT_REQUEST_FAILED} \<and> cx_pages_pending x \<noteq> 0)
       (ce_error ''crawl_pending_pages_invalid'')
     (raise_if (cx_termination_reason x = ROOT_REQUEST_FAILED
                \<and> (length (cx_pages x) \<noteq> 1 \<or> pg_outcome (hd (cx_pages x)) \<noteq> PAGE_FAILED))
       (ce_error ''crawl_root_failure_invalid'')
     (raise_if (cx_pages x \<noteq> [] \<and> pg_outcome (hd (cx_pages x)) = PAGE_FAILED
                \<and> cx_termination_reason x \<notin> set (ROOT_REQUEST_FAILED # early_reasons))
       (ce_error ''crawl_root_failure_termination_missing'')
     (Inr (x\<lparr>cx_root_url := root_url,
             cx_skipped_links := sort_key (\<lambda>s. skip_reason_value (sk_reason s)) (cx_skipped_links x)\<rparr>))))))))))"

definition successful_pages :: "crawl_execution \<Rightarrow> crawl_page_record list" where
  "successful_pages x = filter (\<lambda>p. pg_outcome p = PAGE_SUCCEEDED) (cx_pages x)"

definition failed_pages :: "crawl_execution \<Rightarrow> crawl_page_record list" where
  "failed_pages x = filter (\<lambda>p. pg_outcome p = PAGE_FAILED) (cx_pages x)"

definition requests_attempted :: "crawl_execution \<Rightarrow> nat" where
  "requests_attempted x = sum_list (map (\<lambda>p. length (pg_attempts p)) (cx_pages x))"

definition requests_succeeded :: "crawl_execution \<Rightarrow> nat" where
  "requests_succeeded x = length (successful_pages x)"

definition terminated_early :: "crawl_execution \<Rightarrow> bool" where
  "terminated_early x \<longleftrightarrow> cx_termination_reason x \<in> set early_reasons"

subsection \<open>Resumption\<close>

record crawl_pending_page =
  pd_url :: string
  pd_depth :: int
  pd_parent_url :: "string option"

definition CrawlPendingPage_post_init :: "crawl_pending_page \<Rightarrow> crawl_pending_page result" where
  "CrawlPendingPage_post_init p =
     bindE (audit_url ''pending_page_url'' (pd_url p)) (\<lambda>url.
     bindE (mapE_option (audit_url ''pending_parent_url'') (pd_parent_url p)) (\<lambda>parent_url.
     bindE (crawl_bounded_integer ''pending_page_depth'' 0 MAXIMUM_CRAWL_DEPTH (pd_depth p)) (\<lambda>_.
     raise_if (pd_depth p = 0 \<and> parent_url \<noteq> None) (ce_error ''pending_root_parent_invalid'')
     (raise_if (pd_depth p > 0 \<and> parent_url = None) (ce_error ''pending_parent_required'')
     (Inr (p\<lparr>pd_url := url, pd_parent_url := parent_url\<rparr>))))))"

record crawl_resume_state =
  rs_root_url :: string
  rs_pages :: "crawl_page_record list"
  rs_pending_pages :: "crawl_pending_page list"
  rs_visited_urls :: "string list"
  rs_skipped_links :: "crawl_skip_summary list"
  rs_elapsed_execution_seconds :: rat
  rs_attempts_used :: int

definition CrawlResumeState_post_init :: "crawl_resume_state \<Rightarrow> crawl_resume_state result" where
  "CrawlResumeState_post_init r =
     bindE (audit_url ''resume_root_url'' (rs_root_url r)) (\<lambda>root_url.
     let attempted_urls = map pg_url (rs_pages r); pending_urls = map pd_url (rs_pending_pages r) in
     raise_if (\<not> distinct attempted_urls) (ce_error ''resume_page_duplicate'')
     (raise_if (\<not> distinct pending_urls) (ce_error ''resume_pending_duplicate'')
     (raise_if (set attempted_urls \<inter> set pending_urls \<noteq> {}) (ce_error ''resume_page_overlap'')
     (raise_if (rs_pages r \<noteq> [] \<and> (pg_url (hd (rs_pages r)) \<noteq> root_url \<or> pg_depth (hd (rs_pages r)) \<noteq> 0
                 \<or> pg_parent_url (hd (rs_pages r)) \<noteq> None)) (ce_error ''resume_root_page_invalid'')
     (raise_if (rs_pages r = [] \<and> rs_pending_pages r \<noteq> []
                 \<and> (pd_url (hd (rs_pending_pages r)) \<noteq> root_url \<or> pd_depth (hd (rs_pending_pages r)) \<noteq> 0
                    \<or> pd_parent_url (hd (rs_pending_pages r)) \<noteq> None)) (ce_error ''resume_pending_root_invalid'')
     (raise_if (rs_visited_urls r \<noteq> sorted_unique (attempted_urls @ pending_urls))
       (ce_error ''resume_visited_inconsistent'')
     (raise_if (rs_elapsed_execution_seconds r < 0) (ce_error ''resume_elapsed_invalid'')
     (raise_if (rs_attempts_used r \<noteq> int (sum_list (map (\<lambda>p. length (pg_attempts p)) (rs_pages r))))
       (ce_error ''resume_attempts_inconsistent'')
     (Inr (r\<lparr>rs_root_url := root_url,
             rs_skipped_links := sort_key (\<lambda>s. skip_reason_value (sk_reason s)) (rs_skipped_links r)\<rparr>))))))))))"

end
