(* ===== verification/Crawl_Urls.thy ===== *)
theory Crawl_Urls
  imports Crawl_Records Scope_Validator
begin

text \<open>
  What the crawler does with the pages it is given (\<^verbatim>\<open>webguard_scanner/crawler.py\<close>): the links of
  a page, and the canonical URL inside the origin that a link stands for, or the reason why it is
  skipped.
\<close>

section \<open>Responses and links\<close>

record http_response =
  hr_status :: int
  hr_headers :: "(string \<times> string) list"
  hr_body :: "nat list"
  hr_connected_address :: string

type_synonym start_tag = "string \<times> (string \<times> string option) list"

text \<open>The only media type that the headers name.\<close>

definition response_content_type :: "http_response \<Rightarrow> string option" where
  "response_content_type response =
     (let values = remdups (map (\<lambda>(name, value). py_lower (py_strip (fst (str_partition (CHR '';'') value))))
            (filter (\<lambda>(name, value). py_lower name = ''content-type'' \<and> py_strip value \<noteq> []) (hr_headers response)))
      in case values of
           [media_type] \<Rightarrow> if media_type_match media_type then Some media_type else None
         | _ \<Rightarrow> None)"

record anchor_parser =
  ap_maximum_links :: int
  ap_hrefs :: "string list"
  ap_omitted :: int

definition first_href :: "(string \<times> string option) list \<Rightarrow> string option" where
  "first_href attrs =
     (case filter (\<lambda>(name, value). py_lower name = ''href'' \<and> value \<noteq> None) attrs of
        [] \<Rightarrow> None | (_, value) # _ \<Rightarrow> value)"

definition handle_starttag :: "start_tag \<Rightarrow> anchor_parser \<Rightarrow> anchor_parser" where
  "handle_starttag = (\<lambda>(tag, attrs) p.
     if py_lower tag \<noteq> ''a'' then p
     else (case first_href attrs of
             None \<Rightarrow> p
           | Some href \<Rightarrow>
               if int (length (ap_hrefs p)) < ap_maximum_links p then p\<lparr>ap_hrefs := ap_hrefs p @ [href]\<rparr>
               else p\<lparr>ap_omitted := ap_omitted p + 1\<rparr>))"

definition parse_anchors :: "int \<Rightarrow> start_tag list \<Rightarrow> anchor_parser" where
  "parse_anchors maximum_links tags =
     fold handle_starttag tags \<lparr>ap_maximum_links = maximum_links, ap_hrefs = [], ap_omitted = 0\<rparr>"

section \<open>Canonical URLs\<close>

definition effective_port :: "split_url \<Rightarrow> nat result" where
  "effective_port parsed =
     (case url_port parsed of
        Inl _ \<Rightarrow> Inl (ce_error ''crawl_url_port_invalid'')
      | Inr (Some p) \<Rightarrow> Inr p
      | Inr None \<Rightarrow> Inr (if py_lower (u_scheme parsed) = ''https'' then 443 else 80))"

definition authority :: "string \<Rightarrow> nat \<Rightarrow> string \<Rightarrow> string" where
  "authority hostname port scheme =
     (let rendered_host =
            (case (parse_ip hostname, ip_compressed hostname) of
               (Some (IPv6 _), Some c) \<Rightarrow> ''['' @ c @ '']''
             | (Some (IPv4 _), Some c) \<Rightarrow> c
             | _ \<Rightarrow> py_lower hostname)
      in if port = (if scheme = ''https'' then 443 else 80) then rendered_host
         else rendered_host @ '':'' @ dec_str port)"

type_synonym origin = "string \<times> string \<times> nat"

definition root_origin :: "validated_target \<Rightarrow> origin result" where
  "root_origin target =
     (case urlsplit (vt_normalised_url target) of
        None \<Rightarrow> Inl ValueError
      | Some parsed \<Rightarrow>
          (let mismatch = ce_error ''validated_target_mismatch'' in
           raise_if (u_scheme parsed \<noteq> vt_scheme target \<or> url_hostname parsed \<noteq> Some (vt_hostname target)) mismatch
           (bindE (effective_port parsed) (\<lambda>port.
            raise_if (port \<noteq> vt_port target \<or> has_userinfo parsed \<or> u_fragment parsed \<noteq> []) mismatch
            (Inr (py_lower (vt_scheme target), py_lower (vt_hostname target), vt_port target))))))"

definition normalise_path :: "string \<Rightarrow> string result" where
  "normalise_path path =
     raise_if (CHR 0x5C \<in> set path \<or> list_ex control_or_space path) (ce_error ''crawl_path_invalid'')
     (Inr (if path = [] then ''/''
           else (let n1 = normpath path;
                     n2 = (if take 1 path = ''/'' \<and> take 1 n1 \<noteq> ''/'' then CHR ''/'' # n1 else n1);
                     n3 = (if last path = CHR ''/'' \<and> n2 \<noteq> ''/'' then n2 @ ''/'' else n2)
                 in if take 1 n3 \<noteq> ''/'' then CHR ''/'' # n3 else n3)))"

text \<open>\<^verbatim>\<open>str.split("/")\<close> on code points.\<close>

fun split_codes :: "nat \<Rightarrow> nat list \<Rightarrow> nat list list" where
  "split_codes c [] = [[]]"
| "split_codes c (x # xs) =
     (if x = c then [] # split_codes c xs
      else (case split_codes c xs of [] \<Rightarrow> [[x]] | w # ws \<Rightarrow> (x # w) # ws))"

definition is_destructive_path :: "string \<Rightarrow> string list \<Rightarrow> bool" where
  "is_destructive_path path blocked_segments \<longleftrightarrow>
     (let decoded = map lower_code (unquote path) in
      92 \<in> set decoded \<or> list_ex (\<lambda>c. c \<le> 32 \<or> c = 127) decoded
      \<or> list_ex (\<lambda>segment. segment \<in> set (map (map of_char) blocked_segments))
           (filter (\<lambda>segment. segment \<noteq> []) (split_codes 47 decoded)))"

text \<open>\<open>Inr\<close> is the canonical URL, \<open>Inl\<close> the reason to skip the link.\<close>

definition skip_if :: "bool \<Rightarrow> crawl_skip_reason \<Rightarrow> crawl_skip_reason + 'a \<Rightarrow> crawl_skip_reason + 'a" where
  "skip_if b reason k = (if b then Inl reason else k)"

definition canonical_in_origin ::
  "origin \<Rightarrow> crawl_policy \<Rightarrow> split_url \<Rightarrow> crawl_skip_reason + string" where
  "canonical_in_origin origin policy parsed =
     (case normalise_path (u_path parsed) of
        Inl _ \<Rightarrow> Inl MALFORMED_URL
      | Inr path \<Rightarrow>
          skip_if (is_destructive_path path (cp_blocked_path_segments policy)) DESTRUCTIVE_PATH
          (skip_if (u_query parsed \<noteq> [] \<and> cp_query_mode policy = QUERY_REJECT) QUERY_REJECTED
          (case origin of (scheme, host, port) \<Rightarrow>
             let canonical = urlunsplit scheme (authority host port scheme) path [] [] in
             skip_if (int (length canonical) > cp_maximum_url_length policy) MALFORMED_URL (Inr canonical))))"

definition canonical_candidate ::
  "string \<Rightarrow> string \<Rightarrow> origin \<Rightarrow> crawl_policy \<Rightarrow> crawl_skip_reason + string" where
  "canonical_candidate raw_href base_url origin policy =
     (let href = py_strip raw_href in
      skip_if (href = []) FRAGMENT_ONLY
      (skip_if (int (length href) > cp_maximum_url_length policy \<or> list_ex control_or_space href) MALFORMED_URL
      (skip_if (hd href = CHR ''#'') FRAGMENT_ONLY
      (case Option.bind (urljoin base_url href) urlsplit of
         None \<Rightarrow> Inl MALFORMED_URL
       | Some parsed \<Rightarrow>
           let scheme = py_lower (u_scheme parsed) in
           skip_if (scheme \<notin> {''http'', ''https''}) UNSUPPORTED_SCHEME
           (skip_if (has_userinfo parsed) USERINFO_NOT_ALLOWED
           (case url_hostname parsed of
              None \<Rightarrow> Inl MALFORMED_URL
            | Some hostname \<Rightarrow>
                (case effective_port parsed of
                   Inl _ \<Rightarrow> Inl MALFORMED_URL
                 | Inr port \<Rightarrow>
                     skip_if ((scheme, py_lower hostname, port) \<noteq> origin) EXTERNAL_ORIGIN
                     (canonical_in_origin origin policy parsed))))))))"

end
