(* ===== verification/Crawler.thy ===== *)
theory Crawler
  imports Crawl_Urls
begin

text \<open>
  The crawler (\<^verbatim>\<open>webguard_scanner/crawler.py\<close>): a breadth-first crawl of one origin under
  limits of pages, depth, links, requests and time, which can be resumed from the checkpoints it emits.

  Everything outside is a world: what the clocks say, whether the crawl has been cancelled, what a
  request returns, and the hooks around a request, at the \<open>n\<close>-th interaction. The tags of a page
  come from Python's HTML parser, which is a parameter too. Callbacks act on a state of their own
  and may raise; a callback that is not given does nothing, and without \<^verbatim>\<open>on_checkpoint\<close>
  no checkpoint is built. The requests that were sent are logged. The crawl is one without
  authentication material.
\<close>

section \<open>The world\<close>

record 'h crawl_world =
  cw_monotonic :: "nat \<Rightarrow> rat"
  cw_cancelled :: "nat \<Rightarrow> bool"
  cw_utc_now :: "nat \<Rightarrow> time"
  cw_fetch_once :: "nat \<Rightarrow> string \<Rightarrow> string + http_response"
  cw_before_request :: "nat \<Rightarrow> string \<Rightarrow> 'h \<Rightarrow> unit result \<times> 'h"
  cw_after_request :: "nat \<Rightarrow> string \<Rightarrow> http_response option \<Rightarrow> string option \<Rightarrow> 'h \<Rightarrow> unit result \<times> 'h"
  cw_on_page :: "nat \<Rightarrow> string \<Rightarrow> http_response \<Rightarrow> int \<Rightarrow> string option \<Rightarrow> 'h \<Rightarrow> unit result \<times> 'h"
  cw_on_checkpoint :: "(nat \<Rightarrow> crawl_resume_state \<Rightarrow> 'h \<Rightarrow> unit result \<times> 'h) option"
  cw_start_tags :: "nat list \<Rightarrow> start_tag list"

section \<open>The execution budget\<close>

record execution_budget =
  bg_deadline :: rat
  bg_maximum_request_attempts :: int
  bg_attempts_used :: int

definition stop_reason :: "'h crawl_world \<Rightarrow> execution_budget \<Rightarrow> nat \<Rightarrow> crawl_termination_reason option \<times> nat" where
  "stop_reason W b n =
     (if cw_cancelled W n then (Some CANCELLED, n + 1)
      else if bg_attempts_used b \<ge> bg_maximum_request_attempts b then (Some REQUEST_ATTEMPT_LIMIT_REACHED, n + 1)
      else if cw_monotonic W (n + 1) \<ge> bg_deadline b then (Some TIME_LIMIT_REACHED, n + 2)
      else (None, n + 2))"

definition reserve_attempt ::
  "'h crawl_world \<Rightarrow> execution_budget \<Rightarrow> nat \<Rightarrow> crawl_termination_reason option \<times> execution_budget \<times> nat" where
  "reserve_attempt W b n =
     (case stop_reason W b n of
        (Some r, n') \<Rightarrow> (Some r, b, n')
      | (None, n') \<Rightarrow> (None, b\<lparr>bg_attempts_used := bg_attempts_used b + 1\<rparr>, n'))"

definition budget_wait ::
  "'h crawl_world \<Rightarrow> execution_budget \<Rightarrow> rat \<Rightarrow> nat \<Rightarrow> crawl_termination_reason option \<times> nat" where
  "budget_wait W b seconds n =
     (case stop_reason W b n of
        (Some r, n') \<Rightarrow> (Some r, n')
      | (None, n') \<Rightarrow>
          if seconds \<le> 0 then (None, n')
          else if bg_deadline b - cw_monotonic W n' \<le> seconds then (Some TIME_LIMIT_REACHED, n' + 1)
          else stop_reason W b (n' + 1))"

section \<open>Fetching with retries\<close>

record fetch_outcome =
  fo_response :: "http_response option"
  fo_attempts :: "request_attempt list"
  fo_error_code :: "string option"
  fo_retryable :: "bool option"
  fo_termination_reason :: "crawl_termination_reason option"

definition failed_attempt :: "int \<Rightarrow> time \<Rightarrow> time \<Rightarrow> string \<Rightarrow> bool \<Rightarrow> bool \<Rightarrow> rat \<Rightarrow> request_attempt" where
  "failed_attempt number started completed code retryable scheduled backoff =
     \<lparr>ra_attempt_number = number, ra_started_at = started, ra_completed_at = completed, ra_outcome = ATTEMPT_FAILED,
      ra_connected_address = None, ra_http_status = None, ra_error_code = Some code,
      ra_retryable = Some retryable, ra_retry_scheduled = scheduled, ra_backoff_seconds = backoff\<rparr>"

definition succeeded_attempt :: "int \<Rightarrow> time \<Rightarrow> time \<Rightarrow> http_response \<Rightarrow> request_attempt" where
  "succeeded_attempt number started completed response =
     \<lparr>ra_attempt_number = number, ra_started_at = started, ra_completed_at = completed, ra_outcome = ATTEMPT_SUCCEEDED,
      ra_connected_address = Some (hr_connected_address response), ra_http_status = Some (hr_status response),
      ra_error_code = None, ra_retryable = None, ra_retry_scheduled = False, ra_backoff_seconds = 0\<rparr>"

text \<open>No further attempt may begin: the retry that was scheduled last does not happen.\<close>

definition unschedule_last :: "request_attempt list \<Rightarrow> request_attempt list result" where
  "unschedule_last attempts =
     (if attempts \<noteq> [] \<and> ra_retry_scheduled (last attempts)
      then bindE (RequestAttempt_post_init ((last attempts)\<lparr>ra_retry_scheduled := False, ra_backoff_seconds := 0\<rparr>))
             (\<lambda>a. Inr (butlast attempts @ [a]))
      else Inr attempts)"

definition stopped_outcome :: "request_attempt list \<Rightarrow> crawl_termination_reason \<Rightarrow> fetch_outcome" where
  "stopped_outcome attempts reason =
     \<lparr>fo_response = None, fo_attempts = attempts,
      fo_error_code = (if attempts = [] then None else ra_error_code (last attempts)),
      fo_retryable = (if attempts = [] then None else ra_retryable (last attempts)),
      fo_termination_reason = Some reason\<rparr>"

definition failed_outcome ::
  "request_attempt list \<Rightarrow> string \<Rightarrow> bool \<Rightarrow> crawl_termination_reason option \<Rightarrow> fetch_outcome" where
  "failed_outcome attempts code retryable reason =
     \<lparr>fo_response = None, fo_attempts = attempts, fo_error_code = Some code, fo_retryable = Some retryable,
      fo_termination_reason = reason\<rparr>"

definition succeeded_outcome :: "request_attempt list \<Rightarrow> http_response \<Rightarrow> fetch_outcome" where
  "succeeded_outcome attempts response =
     \<lparr>fo_response = Some response, fo_attempts = attempts, fo_error_code = None, fo_retryable = None,
      fo_termination_reason = None\<rparr>"

text \<open>
  The state that a fetch works on: the budget, the interaction count, the state of the callbacks and
  the URLs that were requested, the latest first.
\<close>

record 'h fetch_state =
  fs_budget :: execution_budget
  fs_now :: nat
  fs_hooks :: 'h
  fs_sent :: "string list"

text \<open>How one turn of the retry loop ends: the loop returns, or another attempt is made.\<close>

datatype 'h turn = Return "fetch_outcome result" "'h fetch_state" | Again "request_attempt list" "'h fetch_state"

definition after_failure ::
  "'h crawl_world \<Rightarrow> retry_policy \<Rightarrow> request_attempt list \<Rightarrow> time \<Rightarrow> time \<Rightarrow> string \<Rightarrow> 'h fetch_state \<Rightarrow> 'h turn" where
  "after_failure W rp attempts started completed code s =
     (let number = int (length attempts) + 1;
          retryable = is_retryable_error ''request'' code
      in if \<not> (retryable \<and> number < rt_maximum_attempts rp)
         then Return (bindE (RequestAttempt_post_init (failed_attempt number started completed code retryable False 0))
                (\<lambda>a. Inr (failed_outcome (attempts @ [a]) code retryable None))) s
         else (case delay_after_failure rp number of
                 Inl e \<Rightarrow> Return (Inl e) s
               | Inr delay \<Rightarrow>
                 (case budget_wait W (fs_budget s) delay (fs_now s) of
                    (Some reason, n) \<Rightarrow>
                      Return (bindE (RequestAttempt_post_init (failed_attempt number started completed code retryable False 0))
                        (\<lambda>a. Inr (failed_outcome (attempts @ [a]) code retryable (Some reason)))) (s\<lparr>fs_now := n\<rparr>)
                  | (None, n) \<Rightarrow>
                      (case RequestAttempt_post_init (failed_attempt number started completed code retryable True delay) of
                         Inl e \<Rightarrow> Return (Inl e) (s\<lparr>fs_now := n\<rparr>)
                       | Inr a \<Rightarrow> Again (attempts @ [a]) (s\<lparr>fs_now := n\<rparr>)))))"

definition fetch_turn ::
  "'h crawl_world \<Rightarrow> retry_policy \<Rightarrow> string \<Rightarrow> request_attempt list \<Rightarrow> 'h fetch_state \<Rightarrow> 'h turn" where
  "fetch_turn W rp url attempts s =
     (case reserve_attempt W (fs_budget s) (fs_now s) of
        (Some reason, b, n) \<Rightarrow>
          Return (bindE (unschedule_last attempts) (\<lambda>attempts'. Inr (stopped_outcome attempts' reason)))
            (s\<lparr>fs_budget := b, fs_now := n\<rparr>)
      | (None, b, n) \<Rightarrow>
          (let started = cw_utc_now W n in
           case cw_before_request W (n + 1) url (fs_hooks s) of
             (Inl e, h) \<Rightarrow> Return (Inl e) (s\<lparr>fs_budget := b, fs_now := n + 2, fs_hooks := h\<rparr>)
           | (Inr _, h) \<Rightarrow>
               (let result = cw_fetch_once W (n + 2) url;
                    completed = cw_utc_now W (n + 3)
                in case cw_after_request W (n + 4) url
                      (case result of Inl _ \<Rightarrow> None | Inr response \<Rightarrow> Some response)
                      (case result of Inl code \<Rightarrow> Some code | Inr _ \<Rightarrow> None) h of
                   (answer, h') \<Rightarrow>
                     (let s' = \<lparr>fs_budget = b, fs_now = n + 5, fs_hooks = h', fs_sent = url # fs_sent s\<rparr> in
                      case answer of
                        Inl e \<Rightarrow> Return (Inl e) s'
                      | Inr _ \<Rightarrow>
                        (case result of
                           Inl code \<Rightarrow> after_failure W rp attempts started completed code s'
                         | Inr response \<Rightarrow>
                             Return (bindE (RequestAttempt_post_init
                                 (succeeded_attempt (int (length attempts) + 1) started completed response))
                               (\<lambda>a. Inr (succeeded_outcome (attempts @ [a]) response))) s')))))"

lemma stop_reason_budget: "stop_reason W b n = (None, n') \<Longrightarrow> bg_attempts_used b < bg_maximum_request_attempts b"
  by (auto simp: stop_reason_def split: if_splits)

lemma reserve_attempt_None:
  "reserve_attempt W b n = (None, b', n') \<Longrightarrow>
     bg_attempts_used b < bg_maximum_request_attempts b \<and> b' = b\<lparr>bg_attempts_used := bg_attempts_used b + 1\<rparr>"
  by (auto simp: reserve_attempt_def dest: stop_reason_budget split: prod.splits option.splits)

lemma after_failure_state:
  "after_failure W rp attempts t0 t1 code s = Again as s' \<Longrightarrow>
     fs_budget s' = fs_budget s \<and> length as = length attempts + 1 \<and> int (length attempts) + 1 < rt_maximum_attempts rp"
  by (auto simp: after_failure_def Let_def split: if_splits sum.splits prod.splits option.splits)

lemma fetch_turn_Again:
  assumes "fetch_turn W rp url attempts s = Again as s'"
  shows "bg_attempts_used (fs_budget s) < bg_maximum_request_attempts (fs_budget s)
    \<and> fs_budget s' = (fs_budget s)\<lparr>bg_attempts_used := bg_attempts_used (fs_budget s) + 1\<rparr>
    \<and> length as = length attempts + 1 \<and> int (length attempts) + 1 < rt_maximum_attempts rp"
  using assms
  by (auto simp: fetch_turn_def Let_def dest!: reserve_attempt_None after_failure_state
      split: prod.splits option.splits sum.splits)

text \<open>
  \<^verbatim>\<open>while True\<close>: the loop ends because every turn that repeats has used up one attempt of the
  budget.
\<close>

function fetch_loop ::
  "'h crawl_world \<Rightarrow> retry_policy \<Rightarrow> string \<Rightarrow> request_attempt list \<Rightarrow> 'h fetch_state \<Rightarrow> fetch_outcome result \<times> 'h fetch_state" where
  "fetch_loop W rp url attempts s =
     (case fetch_turn W rp url attempts s of
        Return r s' \<Rightarrow> (r, s')
      | Again attempts' s' \<Rightarrow> fetch_loop W rp url attempts' s')"
  by pat_completeness auto

termination
  by (relation "measure (\<lambda>(W, rp, url, attempts, s).
        nat (bg_maximum_request_attempts (fs_budget s) - bg_attempts_used (fs_budget s)))")
    (auto dest!: fetch_turn_Again)

declare fetch_loop.simps [simp del]

definition fetch_with_retry ::
  "'h crawl_world \<Rightarrow> retry_policy \<Rightarrow> string \<Rightarrow> 'h fetch_state \<Rightarrow> fetch_outcome result \<times> 'h fetch_state" where
  "fetch_with_retry W rp url s = fetch_loop W rp url [] s"

end
