(* ===== verification/Crawl_Run.thy ===== *)
theory Crawl_Run
  imports Crawler
begin

text \<open>
  \<^verbatim>\<open>crawl_same_origin\<close> of \<^verbatim>\<open>webguard_scanner/crawler.py\<close>: the crawl itself, with its
  queue, its page records, its skip counters and its checkpoints.
\<close>

section \<open>Counting skipped links\<close>

text \<open>A \<^verbatim>\<open>Counter\<close> as its items in the order of insertion.\<close>

type_synonym skip_counter = "(crawl_skip_reason \<times> int) list"

definition counter_get :: "skip_counter \<Rightarrow> crawl_skip_reason \<Rightarrow> int" where
  "counter_get c reason = (case map_of c reason of None \<Rightarrow> 0 | Some n \<Rightarrow> n)"

definition counter_set :: "crawl_skip_reason \<Rightarrow> int \<Rightarrow> skip_counter \<Rightarrow> skip_counter" where
  "counter_set reason n c =
     (if reason \<in> fst ` set c then map (\<lambda>(r, m). if r = reason then (r, n) else (r, m)) c else c @ [(reason, n)])"

definition counter_add :: "crawl_skip_reason \<Rightarrow> int \<Rightarrow> skip_counter \<Rightarrow> skip_counter" where
  "counter_add reason n c = counter_set reason (counter_get c reason + n) c"

definition counter_of :: "crawl_skip_summary list \<Rightarrow> skip_counter" where
  "counter_of items = fold (\<lambda>i. counter_set (sk_reason i) (sk_count i)) items []"

definition skip_summaries :: "skip_counter \<Rightarrow> crawl_skip_summary list result" where
  "skip_summaries c =
     mapE (\<lambda>(r, n). CrawlSkipSummary_post_init \<lparr>sk_reason = r, sk_count = n\<rparr>) (filter (\<lambda>(r, n). n > 0) c)"

section \<open>The state of a crawl\<close>

text \<open>\<open>cs_checkpoints\<close> logs the checkpoints that were handed to \<^verbatim>\<open>on_checkpoint\<close>.\<close>

record 'h crawl_state =
  cs_queue :: "crawl_pending_page list"
  cs_visited :: "string list"
  cs_pages :: "crawl_page_record list"
  cs_skips :: skip_counter
  cs_fetch :: "'h fetch_state"
  cs_checkpoints :: "crawl_resume_state list"

text \<open>What stays fixed during one run.\<close>

record crawl_run =
  cr_policy :: crawl_policy
  cr_retry :: retry_policy
  cr_origin :: origin
  cr_root_url :: string
  cr_elapsed_before :: rat
  cr_run_started :: rat

abbreviation cs_budget :: "'h crawl_state \<Rightarrow> execution_budget" where
  "cs_budget s \<equiv> fs_budget (cs_fetch s)"

definition set_now :: "nat \<Rightarrow> 'h crawl_state \<Rightarrow> 'h crawl_state" where
  "set_now n s = s\<lparr>cs_fetch := (cs_fetch s)\<lparr>fs_now := n\<rparr>\<rparr>"

definition set_hooks :: "'h \<Rightarrow> 'h crawl_state \<Rightarrow> 'h crawl_state" where
  "set_hooks h s = s\<lparr>cs_fetch := (cs_fetch s)\<lparr>fs_hooks := h\<rparr>\<rparr>"

definition snapshot :: "'h crawl_world \<Rightarrow> crawl_run \<Rightarrow> 'h crawl_state \<Rightarrow> crawl_resume_state result" where
  "snapshot W c s =
     bindE (skip_summaries (cs_skips s)) (\<lambda>skipped.
       CrawlResumeState_post_init
         \<lparr>rs_root_url = cr_root_url c, rs_pages = cs_pages s, rs_pending_pages = cs_queue s,
          rs_visited_urls = sorted_unique (cs_visited s), rs_skipped_links = skipped,
          rs_elapsed_execution_seconds =
            cr_elapsed_before c + max 0 (cw_monotonic W (fs_now (cs_fetch s)) - cr_run_started c),
          rs_attempts_used = bg_attempts_used (cs_budget s)\<rparr>)"

definition emit_checkpoint :: "'h crawl_world \<Rightarrow> crawl_run \<Rightarrow> 'h crawl_state \<Rightarrow> unit result \<times> 'h crawl_state" where
  "emit_checkpoint W c s =
     (case cw_on_checkpoint W of
        None \<Rightarrow> (Inr (), s)
      | Some on_checkpoint \<Rightarrow>
          (let n = fs_now (cs_fetch s) in
           case snapshot W c s of
             Inl e \<Rightarrow> (Inl e, set_now (n + 1) s)
           | Inr r \<Rightarrow>
               (case on_checkpoint (n + 1) r (fs_hooks (cs_fetch s)) of
                  (answer, h) \<Rightarrow>
                    (answer, set_hooks h (set_now (n + 2) (s\<lparr>cs_checkpoints := cs_checkpoints s @ [r]\<rparr>))))))"

section \<open>Links of a page\<close>

fun collect_candidates ::
  "crawl_run \<Rightarrow> string \<Rightarrow> string list \<Rightarrow> string list \<Rightarrow> string list \<Rightarrow> skip_counter \<Rightarrow> string list \<times> skip_counter" where
  "collect_candidates c base visited [] candidates skips = (candidates, skips)"
| "collect_candidates c base visited (href # hrefs) candidates skips =
     (case canonical_candidate href base (cr_origin c) (cr_policy c) of
        Inl reason \<Rightarrow> collect_candidates c base visited hrefs candidates (counter_add reason 1 skips)
      | Inr candidate \<Rightarrow>
          if candidate \<in> set visited \<or> candidate \<in> set candidates
          then collect_candidates c base visited hrefs candidates (counter_add DUPLICATE 1 skips)
          else collect_candidates c base visited hrefs (candidate # candidates) skips)"

text \<open>The second component counts the links that were queued.\<close>

fun queue_candidates ::
  "crawl_policy \<Rightarrow> crawl_pending_page \<Rightarrow> string list \<Rightarrow> int \<Rightarrow> 'h crawl_state \<Rightarrow> int result \<times> 'h crawl_state" where
  "queue_candidates policy page [] queued s = (Inr queued, s)"
| "queue_candidates policy page (candidate # candidates) queued s =
     (if int (length (cs_pages s)) + 1 + int (length (cs_queue s)) \<ge> cp_maximum_pages policy
      then queue_candidates policy page candidates queued (s\<lparr>cs_skips := counter_add PAGE_LIMIT 1 (cs_skips s)\<rparr>)
      else (case CrawlPendingPage_post_init
                   \<lparr>pd_url = candidate, pd_depth = pd_depth page + 1, pd_parent_url = Some (pd_url page)\<rparr> of
              Inl e \<Rightarrow> (Inl e, s)
            | Inr pending \<Rightarrow>
                queue_candidates policy page candidates (queued + 1)
                  (s\<lparr>cs_queue := cs_queue s @ [pending], cs_visited := candidate # cs_visited s\<rparr>)))"

text \<open>The numbers of discovered and of queued links.\<close>

definition follow_links ::
  "'h crawl_world \<Rightarrow> crawl_run \<Rightarrow> crawl_pending_page \<Rightarrow> http_response \<Rightarrow> 'h crawl_state
    \<Rightarrow> (int \<times> int) result \<times> 'h crawl_state" where
  "follow_links W c page response s =
     (let policy = cr_policy c; content_type = response_content_type response in
      if \<not> (content_type \<in> Some ` set (cp_allowed_content_types policy) \<and> pd_depth page < cp_maximum_depth policy)
      then (Inr (0, 0), s)
      else (let parser = parse_anchors (cp_maximum_links_per_page policy) (cw_start_tags W (hr_body response));
                skips = (if ap_omitted parser \<noteq> 0 then counter_add LINK_LIMIT (ap_omitted parser) (cs_skips s)
                         else cs_skips s)
            in case collect_candidates c (pd_url page) (cs_visited s) (ap_hrefs parser) [] skips of
                 (candidates, skips') \<Rightarrow>
                   (case queue_candidates policy page (sorted_unique candidates) 0 (s\<lparr>cs_skips := skips'\<rparr>) of
                      (Inl e, s') \<Rightarrow> (Inl e, s')
                    | (Inr queued, s') \<Rightarrow> (Inr (int (length (ap_hrefs parser)), queued), s'))))"

section \<open>One page\<close>

definition failed_page :: "crawl_pending_page \<Rightarrow> fetch_outcome \<Rightarrow> crawl_page_record" where
  "failed_page page outcome =
     \<lparr>pg_url = pd_url page, pg_depth = pd_depth page, pg_parent_url = pd_parent_url page,
      pg_outcome = PAGE_FAILED, pg_attempts = fo_attempts outcome, pg_content_type = None,
      pg_connected_address = None, pg_http_status = None, pg_error_code = fo_error_code outcome,
      pg_retryable = fo_retryable outcome, pg_discovered_links = 0, pg_queued_links = 0\<rparr>"

definition succeeded_page ::
  "crawl_pending_page \<Rightarrow> fetch_outcome \<Rightarrow> http_response \<Rightarrow> int \<Rightarrow> int \<Rightarrow> crawl_page_record" where
  "succeeded_page page outcome response discovered queued =
     \<lparr>pg_url = pd_url page, pg_depth = pd_depth page, pg_parent_url = pd_parent_url page,
      pg_outcome = PAGE_SUCCEEDED, pg_attempts = fo_attempts outcome,
      pg_content_type = response_content_type response,
      pg_connected_address = Some (hr_connected_address response), pg_http_status = Some (hr_status response),
      pg_error_code = None, pg_retryable = None, pg_discovered_links = discovered, pg_queued_links = queued\<rparr>"

text \<open>How one iteration of the crawl ends.\<close>

datatype 'h crawl_step =
    Continue "'h crawl_state"
  | Break crawl_termination_reason "'h crawl_state"
  | Raise exn "'h crawl_state"

definition append_page :: "crawl_page_record \<Rightarrow> 'h crawl_state \<Rightarrow> ('h crawl_state \<Rightarrow> 'h crawl_step) \<Rightarrow> 'h crawl_step" where
  "append_page page s k =
     (case CrawlPageRecord_post_init page of
        Inl e \<Rightarrow> Raise e s
      | Inr p \<Rightarrow> k (s\<lparr>cs_pages := cs_pages s @ [p]\<rparr>))"

definition checkpoint_then ::
  "'h crawl_world \<Rightarrow> crawl_run \<Rightarrow> 'h crawl_state \<Rightarrow> ('h crawl_state \<Rightarrow> 'h crawl_step) \<Rightarrow> 'h crawl_step" where
  "checkpoint_then W c s k =
     (case emit_checkpoint W c s of (Inl e, s') \<Rightarrow> Raise e s' | (Inr _, s') \<Rightarrow> k s')"

definition page_failed ::
  "'h crawl_world \<Rightarrow> crawl_run \<Rightarrow> crawl_pending_page \<Rightarrow> fetch_outcome \<Rightarrow> 'h crawl_state \<Rightarrow> 'h crawl_step" where
  "page_failed W c page outcome s =
     (let finish = (\<lambda>s. checkpoint_then W c s (\<lambda>s.
            case fo_termination_reason outcome of
              Some reason \<Rightarrow> Break reason s
            | None \<Rightarrow> if pd_depth page = 0 then Break ROOT_REQUEST_FAILED s else Continue s))
      in if fo_attempts outcome \<noteq> [] then append_page (failed_page page outcome) s finish
         else if fo_termination_reason outcome \<noteq> None then finish (s\<lparr>cs_queue := page # cs_queue s\<rparr>)
         else finish s)"

definition page_succeeded ::
  "'h crawl_world \<Rightarrow> crawl_run \<Rightarrow> crawl_pending_page \<Rightarrow> fetch_outcome \<Rightarrow> http_response \<Rightarrow> 'h crawl_state \<Rightarrow> 'h crawl_step" where
  "page_succeeded W c page outcome response s =
     (case cw_on_page W (fs_now (cs_fetch s)) (pd_url page) response (pd_depth page) (pd_parent_url page)
             (fs_hooks (cs_fetch s)) of
        (answer, h) \<Rightarrow>
          (let s1 = set_hooks h (set_now (fs_now (cs_fetch s) + 1) s) in
           case answer of
             Inl e \<Rightarrow> Raise e s1
           | Inr _ \<Rightarrow>
               (case follow_links W c page response s1 of
                  (Inl e, s2) \<Rightarrow> Raise e s2
                | (Inr (discovered, queued), s2) \<Rightarrow>
                    append_page (succeeded_page page outcome response discovered queued) s2 (\<lambda>s3.
                      checkpoint_then W c s3 Continue))))"

definition visit_page ::
  "'h crawl_world \<Rightarrow> crawl_run \<Rightarrow> crawl_pending_page \<Rightarrow> 'h crawl_state \<Rightarrow> 'h crawl_step" where
  "visit_page W c page s =
     (case fetch_with_retry W (cr_retry c) (pd_url page) (cs_fetch s) of
        (result, f) \<Rightarrow>
          (let s1 = s\<lparr>cs_fetch := f\<rparr> in
           case result of
             Inl e \<Rightarrow> Raise e s1
           | Inr outcome \<Rightarrow>
               (case fo_response outcome of
                  None \<Rightarrow> page_failed W c page outcome s1
                | Some response \<Rightarrow> page_succeeded W c page outcome response s1)))"

definition crawl_iteration :: "'h crawl_world \<Rightarrow> crawl_run \<Rightarrow> 'h crawl_state \<Rightarrow> 'h crawl_step" where
  "crawl_iteration W c s =
     (case stop_reason W (cs_budget s) (fs_now (cs_fetch s)) of
        (Some reason, n) \<Rightarrow> Break reason (set_now n s)
      | (None, n) \<Rightarrow>
          (case (if cs_pages s \<noteq> [] \<and> cp_minimum_delay_seconds (cr_policy c) > 0
                 then budget_wait W (cs_budget s) (cp_minimum_delay_seconds (cr_policy c)) n
                 else (None, n)) of
             (Some reason, n') \<Rightarrow> Break reason (set_now n' s)
           | (None, n') \<Rightarrow>
               visit_page W c (hd (cs_queue s)) (set_now n' (s\<lparr>cs_queue := tl (cs_queue s)\<rparr>))))"

section \<open>The loop\<close>

lemma set_now_simps [simp]:
  "cs_queue (set_now n s) = cs_queue s" "cs_visited (set_now n s) = cs_visited s"
  "cs_pages (set_now n s) = cs_pages s" "cs_skips (set_now n s) = cs_skips s"
  "cs_budget (set_now n s) = cs_budget s" "fs_sent (cs_fetch (set_now n s)) = fs_sent (cs_fetch s)"
  "cs_checkpoints (set_now n s) = cs_checkpoints s"
  by (simp_all add: set_now_def)

lemma set_hooks_simps [simp]:
  "cs_queue (set_hooks h s) = cs_queue s" "cs_visited (set_hooks h s) = cs_visited s"
  "cs_pages (set_hooks h s) = cs_pages s" "cs_skips (set_hooks h s) = cs_skips s"
  "cs_budget (set_hooks h s) = cs_budget s" "fs_sent (cs_fetch (set_hooks h s)) = fs_sent (cs_fetch s)"
  "cs_checkpoints (set_hooks h s) = cs_checkpoints s"
  by (simp_all add: set_hooks_def)

definition same_crawl :: "'h crawl_state \<Rightarrow> 'h crawl_state \<Rightarrow> bool" where
  "same_crawl s s' \<longleftrightarrow>
     cs_queue s' = cs_queue s \<and> cs_visited s' = cs_visited s \<and> cs_pages s' = cs_pages s \<and> cs_skips s' = cs_skips s
     \<and> cs_budget s' = cs_budget s \<and> fs_sent (cs_fetch s') = fs_sent (cs_fetch s)"

lemma emit_checkpoint_same: "emit_checkpoint W c s = (a, s') \<Longrightarrow> same_crawl s s'"
  by (auto simp: emit_checkpoint_def same_crawl_def Let_def split: option.splits sum.splits prod.splits)

lemma queue_candidates_frame:
  "queue_candidates policy page cands queued s = (r, s') \<Longrightarrow> cs_pages s' = cs_pages s \<and> cs_fetch s' = cs_fetch s
     \<and> cs_checkpoints s' = cs_checkpoints s"
proof (induction policy page cands queued s arbitrary: s' rule: queue_candidates.induct)
  case (2 policy page candidate candidates queued s)
  show ?case
  proof (cases "int (length (cs_pages s)) + 1 + int (length (cs_queue s)) \<ge> cp_maximum_pages policy")
    case True
    then show ?thesis using 2(1) [OF True] 2(3) by simp
  next
    case False
    then show ?thesis
      using 2(2) [OF False] 2(3) by (auto split: sum.splits)
  qed
qed simp

lemma follow_links_frame:
  "follow_links W c page response s = (r, s') \<Longrightarrow> cs_pages s' = cs_pages s \<and> cs_fetch s' = cs_fetch s
     \<and> cs_checkpoints s' = cs_checkpoints s"
  by (auto simp: follow_links_def Let_def dest!: queue_candidates_frame split: if_splits prod.splits sum.splits)

lemma checkpoint_then_Continue:
  "checkpoint_then W c s k = Continue s' \<Longrightarrow> \<exists>t. same_crawl s t \<and> k t = Continue s'"
  by (auto simp: checkpoint_then_def split: prod.splits sum.splits dest: emit_checkpoint_same)

lemma page_failed_Continue:
  "page_failed W c page outcome s = Continue s' \<Longrightarrow>
     length (cs_pages s') = Suc (length (cs_pages s)) \<or> cs_pages s' = cs_pages s \<and> cs_queue s' = cs_queue s"
  by (auto simp: page_failed_def append_page_def Let_def same_crawl_def dest!: checkpoint_then_Continue
      split: if_splits option.splits sum.splits)

lemma page_succeeded_Continue:
  "page_succeeded W c page outcome response s = Continue s' \<Longrightarrow> length (cs_pages s') = Suc (length (cs_pages s))"
  by (auto simp: page_succeeded_def append_page_def Let_def same_crawl_def dest!: checkpoint_then_Continue follow_links_frame
      split: option.splits sum.splits prod.splits)

lemma crawl_iteration_Continue:
  assumes "crawl_iteration W c s = Continue s'"
  shows "length (cs_pages s') = Suc (length (cs_pages s)) \<or> cs_pages s' = cs_pages s \<and> cs_queue s' = tl (cs_queue s)"
  using assms
  by (auto simp: crawl_iteration_def visit_page_def Let_def dest!: page_failed_Continue page_succeeded_Continue
      split: prod.splits option.splits sum.splits if_splits)

text \<open>
  \<^verbatim>\<open>while queue and len(pages) < maximum_pages\<close>, with the termination reason so far. Every
  iteration either records a page or shortens the queue.
\<close>

function crawl_loop ::
  "'h crawl_world \<Rightarrow> crawl_run \<Rightarrow> 'h crawl_state \<Rightarrow> crawl_termination_reason result \<times> 'h crawl_state" where
  "crawl_loop W c s =
     (if cs_queue s \<noteq> [] \<and> int (length (cs_pages s)) < cp_maximum_pages (cr_policy c)
      then (case crawl_iteration W c s of
              Raise e s' \<Rightarrow> (Inl e, s')
            | Break reason s' \<Rightarrow> (Inr reason, s')
            | Continue s' \<Rightarrow> crawl_loop W c s')
      else (Inr COMPLETED, s))"
  by pat_completeness auto

termination
  by (relation "measures [\<lambda>(W, c, s). nat (cp_maximum_pages (cr_policy c) - int (length (cs_pages s))),
        \<lambda>(W, c, s). length (cs_queue s)]")
    (auto dest!: crawl_iteration_Continue)

declare crawl_loop.simps [simp del]

text \<open>What follows the loop: the projections of the queue and the final reason.\<close>

definition finish_crawl ::
  "crawl_termination_reason \<Rightarrow> 'h crawl_state \<Rightarrow> crawl_termination_reason \<times> int \<times> 'h crawl_state" where
  "finish_crawl reason s =
     (if reason \<in> set early_reasons then (reason, int (length (cs_queue s)), s)
      else if cs_queue s \<noteq> []
      then (PAGE_LIMIT_REACHED, 0,
            s\<lparr>cs_skips := counter_add PAGE_LIMIT (int (length (cs_queue s))) (cs_skips s),
              cs_visited := filter (\<lambda>u. u \<notin> pd_url ` set (cs_queue s)) (cs_visited s), cs_queue := []\<rparr>)
      else if counter_get (cs_skips s) PAGE_LIMIT > 0 then (PAGE_LIMIT_REACHED, 0, s)
      else (reason, 0, s))"

definition crawl_from ::
  "'h crawl_world \<Rightarrow> crawl_run \<Rightarrow> 'h crawl_state \<Rightarrow> crawl_execution result \<times> 'h crawl_state" where
  "crawl_from W c s =
     (case emit_checkpoint W c s of
        (Inl e, s1) \<Rightarrow> (Inl e, s1)
      | (Inr _, s1) \<Rightarrow>
        (case crawl_loop W c s1 of
           (Inl e, s2) \<Rightarrow> (Inl e, s2)
         | (Inr reason, s2) \<Rightarrow>
           (case finish_crawl reason s2 of
              (reason', pages_pending, s3) \<Rightarrow>
                (case emit_checkpoint W c s3 of
                   (Inl e, s4) \<Rightarrow> (Inl e, s4)
                 | (Inr _, s4) \<Rightarrow>
                     (bindE (skip_summaries (cs_skips s4)) (\<lambda>skipped.
                        CrawlExecution_post_init
                          \<lparr>cx_root_url = cr_root_url c, cx_pages = cs_pages s4, cx_skipped_links = skipped,
                           cx_termination_reason = reason', cx_pages_pending = pages_pending\<rparr>), s4)))))"

text \<open>The queue, pages and counters a crawl starts with, and the time and attempts used before.\<close>

definition resume_check :: "crawl_policy \<Rightarrow> string \<Rightarrow> crawl_resume_state \<Rightarrow> unit result" where
  "resume_check policy root_url r =
     raise_if (rs_root_url r \<noteq> root_url) (ce_error ''resume_root_mismatch'')
     (raise_if (int (length (rs_pages r)) + int (length (rs_pending_pages r)) > cp_maximum_pages policy)
       (ce_error ''resume_page_limit_exceeded'')
     (raise_if (list_ex (\<lambda>p. pg_depth p > cp_maximum_depth policy) (rs_pages r)
                \<or> list_ex (\<lambda>p. pd_depth p > cp_maximum_depth policy) (rs_pending_pages r))
       (ce_error ''resume_depth_limit_exceeded'')
     (raise_if (rs_attempts_used r > cp_maximum_request_attempts policy) (ce_error ''resume_attempt_budget_exceeded'')
     (Inr ()))))"

definition initial_state ::
  "crawl_policy \<Rightarrow> string \<Rightarrow> crawl_resume_state option
    \<Rightarrow> (crawl_pending_page list \<times> string list \<times> crawl_page_record list \<times> skip_counter \<times> rat \<times> int) result" where
  "initial_state policy root_url resume =
     (case resume of
        None \<Rightarrow>
          bindE (CrawlPendingPage_post_init \<lparr>pd_url = root_url, pd_depth = 0, pd_parent_url = None\<rparr>) (\<lambda>page.
            Inr ([page], [root_url], [], [], 0, 0))
      | Some r \<Rightarrow>
          bindE (resume_check policy root_url r) (\<lambda>_.
            Inr (rs_pending_pages r, rs_visited_urls r, rs_pages r, counter_of (rs_skipped_links r),
                 rs_elapsed_execution_seconds r, rs_attempts_used r)))"

definition crawl_root_url :: "validated_target \<Rightarrow> crawl_policy \<Rightarrow> (origin \<times> string) result" where
  "crawl_root_url target policy =
     bindE (root_origin target) (\<lambda>origin.
       case canonical_candidate (vt_normalised_url target) (vt_normalised_url target) origin policy of
         Inl reason \<Rightarrow>
           Inl (ce_error (if reason = QUERY_REJECTED then ''root_query_rejected'' else ''root_url_invalid''))
       | Inr root_url \<Rightarrow> Inr (origin, root_url))"

text \<open>The crawl, from interaction \<open>n\<close> and the state \<open>h\<close> of the callbacks.\<close>

definition crawl_same_origin ::
  "'h crawl_world \<Rightarrow> validated_target \<Rightarrow> crawl_policy \<Rightarrow> retry_policy \<Rightarrow> crawl_resume_state option \<Rightarrow> nat \<Rightarrow> 'h
    \<Rightarrow> crawl_execution result \<times> 'h crawl_state" where
  "crawl_same_origin W target policy retry resume n h =
     (case bindE (crawl_root_url target policy) (\<lambda>(origin, root_url).
             bindE (initial_state policy root_url resume) (\<lambda>start. Inr (origin, root_url, start))) of
        Inl e \<Rightarrow>
          (Inl e, \<lparr>cs_queue = [], cs_visited = [], cs_pages = [], cs_skips = [],
             cs_fetch = \<lparr>fs_budget = \<lparr>bg_deadline = 0, bg_maximum_request_attempts = 0, bg_attempts_used = 0\<rparr>,
               fs_now = n, fs_hooks = h, fs_sent = []\<rparr>, cs_checkpoints = []\<rparr>)
      | Inr (origin, root_url, queue, visited, pages, skips, elapsed_before, attempts_before) \<Rightarrow>
          (let run_started = cw_monotonic W n;
               remaining = max 0 (cp_maximum_execution_seconds policy - elapsed_before);
               f = \<lparr>fs_budget = \<lparr>bg_deadline = run_started + remaining,
                      bg_maximum_request_attempts = cp_maximum_request_attempts policy,
                      bg_attempts_used = attempts_before\<rparr>,
                    fs_now = n + 1, fs_hooks = h, fs_sent = []\<rparr>;
               c = \<lparr>cr_policy = policy, cr_retry = retry, cr_origin = origin, cr_root_url = root_url,
                    cr_elapsed_before = elapsed_before, cr_run_started = run_started\<rparr>;
               s = \<lparr>cs_queue = queue, cs_visited = visited, cs_pages = pages, cs_skips = skips, cs_fetch = f,
                    cs_checkpoints = []\<rparr>
           in crawl_from W c s))"

end
