(* ===== verification/Crawl_Invariant.thy ===== *)
theory Crawl_Invariant
  imports Crawl_Run
begin

text \<open>
  What every crawl maintains: the budget of requests is never exceeded, every request is for a URL
  from the queue, and between pages the records account for every attempt, within the limits of
  pages and depth.
\<close>

section \<open>Fetching\<close>

text \<open>
  \<open>fetched url f f' exact k\<close>: a fetch of \<open>url\<close> reserved \<open>k\<close> attempts and sent at most that many
  requests, or just as many when it is \<open>exact\<close>.
\<close>

definition fetched :: "string \<Rightarrow> 'h fetch_state \<Rightarrow> 'h fetch_state \<Rightarrow> bool \<Rightarrow> nat \<Rightarrow> bool" where
  "fetched url f f' exact k \<longleftrightarrow>
     fs_budget f' = (fs_budget f)\<lparr>bg_attempts_used := bg_attempts_used (fs_budget f) + int k\<rparr>
     \<and> (k = 0 \<or> bg_attempts_used (fs_budget f') \<le> bg_maximum_request_attempts (fs_budget f))
     \<and> (\<exists>j \<le> k. fs_sent f' = replicate j url @ fs_sent f \<and> (exact \<longrightarrow> j = k))"

definition outcome_counts :: "fetch_outcome result \<Rightarrow> nat \<Rightarrow> bool" where
  "outcome_counts r k \<longleftrightarrow>
     (\<forall>outcome. r = Inr outcome \<longrightarrow>
        length (fo_attempts outcome) = k
        \<and> (k = 0 \<longrightarrow> fo_response outcome = None \<and> fo_termination_reason outcome \<noteq> None))"

lemma fetched_0: "fs_budget f' = fs_budget f \<Longrightarrow> fs_sent f' = fs_sent f \<Longrightarrow> fetched url f f' exact 0"
  by (simp add: fetched_def)

lemma fetched_trans:
  assumes "fetched url f g True 1" "fetched url g h exact k"
  shows "fetched url f h exact (Suc k)"
proof -
  obtain j where "j \<le> k" "fs_sent g = url # fs_sent f" "fs_sent h = replicate j url @ fs_sent g" "exact \<Longrightarrow> j = k"
    using assms by (auto simp: fetched_def)
  then have "Suc j \<le> Suc k" "fs_sent h = replicate (Suc j) url @ fs_sent f" "exact \<Longrightarrow> Suc j = Suc k"
    by (simp_all add: replicate_app_Cons_same)
  then show ?thesis
    using assms(1,2) by (auto simp: fetched_def simp del: replicate.simps)
qed

lemma unschedule_last_length: "unschedule_last attempts = Inr as \<Longrightarrow> length as = length attempts"
  by (auto simp: unschedule_last_def exn_simps split: if_splits)

lemma after_failure_Return:
  assumes "after_failure W rp attempts t0 t1 code s = Return r s'"
  shows "fs_budget s' = fs_budget s \<and> fs_sent s' = fs_sent s \<and> outcome_counts r (length attempts + 1)"
  using assms
  by (auto simp: after_failure_def Let_def exn_simps outcome_counts_def failed_outcome_def
      split: if_splits sum.splits prod.splits option.splits)

lemma after_failure_Again:
  "after_failure W rp attempts t0 t1 code s = Again as s' \<Longrightarrow> fs_sent s' = fs_sent s"
  by (auto simp: after_failure_def Let_def split: if_splits sum.splits prod.splits option.splits)

lemma reserve_attempt_Some: "reserve_attempt W b n = (Some r, b', n') \<Longrightarrow> b' = b"
  by (auto simp: reserve_attempt_def split: prod.splits option.splits)

lemma fetch_turn_Return:
  assumes "fetch_turn W rp url attempts s = Return r s'"
  shows "\<exists>k \<le> 1. fetched url s s' (succeeds r) k \<and> outcome_counts r (length attempts + k)"
proof (cases "reserve_attempt W (fs_budget s) (fs_now s)")
  case (fields reason b n)
  show ?thesis
  proof (cases reason)
    case (Some x)
    then have "fetched url s s' (succeeds r) 0" "outcome_counts r (length attempts)"
      using assms fields reserve_attempt_Some [of W "fs_budget s" "fs_now s" x b n]
      by (auto simp: fetch_turn_def exn_simps outcome_counts_def stopped_outcome_def dest!: unschedule_last_length
          intro!: fetched_0)
    then show ?thesis by (intro exI [of _ 0]) simp
  next
    case None
    then have b: "b = (fs_budget s)\<lparr>bg_attempts_used := bg_attempts_used (fs_budget s) + 1\<rparr>"
      "bg_attempts_used (fs_budget s) < bg_maximum_request_attempts (fs_budget s)"
      using reserve_attempt_None [of W "fs_budget s" "fs_now s" b n] fields by auto
    have "fs_budget s' = b \<and> (\<not> succeeds r \<and> fs_sent s' = fs_sent s \<or> fs_sent s' = url # fs_sent s)
        \<and> outcome_counts r (length attempts + 1)"
      using assms fields None
      by (auto simp: fetch_turn_def Let_def exn_simps succeeded_outcome_def outcome_counts_def
          dest!: after_failure_Return split: prod.splits sum.splits)
    then have "fetched url s s' (succeeds r) 1 \<and> outcome_counts r (length attempts + 1)"
      using b by (auto simp: fetched_def intro: exI [of _ 0] exI [of _ 1])
    then show ?thesis by (intro exI [of _ 1]) simp
  qed
qed

lemma fetch_turn_Again_fetched:
  assumes "fetch_turn W rp url attempts s = Again as s'"
  shows "fetched url s s' True 1"
proof -
  have "fs_sent s' = url # fs_sent s"
    using assms by (auto simp: fetch_turn_def Let_def dest!: after_failure_Again split: prod.splits option.splits sum.splits)
  then show ?thesis
    using fetch_turn_Again [OF assms] by (auto simp: fetched_def intro: exI [of _ 1])
qed

lemma fetch_loop_counts:
  assumes "fetch_loop W rp url attempts s = (r, s')"
  shows "\<exists>k. fetched url s s' (succeeds r) k \<and> outcome_counts r (length attempts + k)
    \<and> int (length attempts + k) \<le> max (int (length attempts) + 1) (rt_maximum_attempts rp)"
  using assms
proof (induction W rp url attempts s rule: fetch_loop.induct)
  case (1 W rp url attempts s)
  show ?case
  proof (cases "fetch_turn W rp url attempts s")
    case (Return r0 s0)
    then obtain k where "k \<le> 1" "fetched url s s' (succeeds r) k" "outcome_counts r (length attempts + k)"
      using 1(2) fetch_turn_Return [OF Return] by (auto simp: fetch_loop.simps [of W rp url attempts s])
    then show ?thesis
      by (intro exI [of _ k]) auto
  next
    case (Again as s0)
    have len: "length as = length attempts + 1" "int (length attempts) + 1 < rt_maximum_attempts rp"
      using fetch_turn_Again [OF Again] by auto
    obtain k where k: "fetched url s0 s' (succeeds r) k" "outcome_counts r (length as + k)"
      "int (length as + k) \<le> max (int (length as) + 1) (rt_maximum_attempts rp)"
      using 1(1) [OF Again] 1(2) Again by (auto simp: fetch_loop.simps [of W rp url attempts s])
    have "fetched url s s' (succeeds r) (Suc k)"
      using fetched_trans [OF fetch_turn_Again_fetched [OF Again] k(1)] .
    then show ?thesis
      using k len by (intro exI [of _ "Suc k"]) auto
  qed
qed

lemma fetch_with_retry_counts:
  assumes "fetch_with_retry W rp url s = (r, s')"
  obtains k where "fetched url s s' (succeeds r) k" "outcome_counts r k" "int k \<le> max 1 (rt_maximum_attempts rp)"
  using fetch_loop_counts [of W rp url "[]" s r s'] assms by (auto simp: fetch_with_retry_def)

section \<open>The invariant\<close>

definition page_attempts :: "crawl_page_record list \<Rightarrow> nat" where
  "page_attempts pages = sum_list (map (\<lambda>p. length (pg_attempts p)) pages)"

text \<open>What a crawl relies on of the state that it resumes; the constructors guarantee it.\<close>

definition resume_wf :: "crawl_resume_state option \<Rightarrow> bool" where
  "resume_wf resume \<longleftrightarrow>
     (case resume of None \<Rightarrow> True
      | Some r \<Rightarrow> rs_attempts_used r = int (page_attempts (rs_pages r))
          \<and> list_all (\<lambda>p. 0 \<le> pg_depth p) (rs_pages r) \<and> list_all (\<lambda>p. 0 \<le> pd_depth p) (rs_pending_pages r))"

text \<open>
  What is known of a checkpoint of the crawl \<open>c\<close>, which asks for checkpoints: it records the root of
  the crawl, a crawl of that root under the same policy accepts it, and its queue is within \<open>G\<close>.
\<close>

definition resumable :: "'h crawl_world \<Rightarrow> crawl_run \<Rightarrow> (string \<Rightarrow> bool) \<Rightarrow> crawl_resume_state \<Rightarrow> bool" where
  "resumable W c G r \<longleftrightarrow>
     cw_on_checkpoint W \<noteq> None \<and> resume_wf (Some r) \<and> rs_root_url r = py_strip (cr_root_url c)
     \<and> resume_check (cr_policy c) (rs_root_url r) r = Inr () \<and> (\<forall>u \<in> pd_url ` set (rs_pending_pages r). G u)"

text \<open>
  \<open>tally\<close> holds even of a crawl that an exception has cut short; \<open>G\<close> is what is known of the URLs
  of the queue, and \<open>before\<close> the number of attempts that earlier runs have used.
\<close>

definition tally ::
  "'h crawl_world \<Rightarrow> crawl_run \<Rightarrow> int \<Rightarrow> (string \<Rightarrow> bool) \<Rightarrow> 'h crawl_state \<Rightarrow> bool" where
  "tally W c before G s \<longleftrightarrow>
     bg_maximum_request_attempts (cs_budget s) = cp_maximum_request_attempts (cr_policy c)
     \<and> int (length (fs_sent (cs_fetch s))) + before \<le> bg_attempts_used (cs_budget s)
     \<and> bg_attempts_used (cs_budget s) \<le> cp_maximum_request_attempts (cr_policy c)
     \<and> (\<forall>u \<in> set (fs_sent (cs_fetch s)). G u)
     \<and> (\<forall>r \<in> set (cs_checkpoints s). resumable W c G r)"

definition depth_ok :: "crawl_policy \<Rightarrow> int \<Rightarrow> bool" where
  "depth_ok policy d \<longleftrightarrow> 0 \<le> d \<and> d \<le> cp_maximum_depth policy"

definition pending_ok :: "crawl_policy \<Rightarrow> (string \<Rightarrow> bool) \<Rightarrow> crawl_pending_page \<Rightarrow> bool" where
  "pending_ok policy G p \<longleftrightarrow> G (pd_url p) \<and> depth_ok policy (pd_depth p)"

text \<open>\<open>room\<close> is the number of pages that are neither recorded nor queued, but under way.\<close>

definition crawl_inv ::
  "crawl_policy \<Rightarrow> (string \<Rightarrow> bool) \<Rightarrow> int \<Rightarrow> 'h crawl_state \<Rightarrow> bool" where
  "crawl_inv policy G room s \<longleftrightarrow>
     (\<forall>p \<in> set (cs_queue s). pending_ok policy G p)
     \<and> (\<forall>p \<in> set (cs_pages s). depth_ok policy (pg_depth p))
     \<and> int (length (cs_pages s)) + int (length (cs_queue s)) + room \<le> cp_maximum_pages policy"

text \<open>\<open>balanced before k\<close>: but for \<open>k\<close> attempts under way, the pages account for all that were made.\<close>

definition balanced :: "int \<Rightarrow> nat \<Rightarrow> 'h crawl_state \<Rightarrow> bool" where
  "balanced before k s \<longleftrightarrow>
     int (page_attempts (cs_pages s)) + int k = bg_attempts_used (cs_budget s)
     \<and> int (length (fs_sent (cs_fetch s))) + before = bg_attempts_used (cs_budget s)"

definition crawl_ok :: "'h crawl_world \<Rightarrow> crawl_run \<Rightarrow> int \<Rightarrow> (string \<Rightarrow> bool) \<Rightarrow> 'h crawl_state \<Rightarrow> bool" where
  "crawl_ok W c before G s \<longleftrightarrow> tally W c before G s \<and> crawl_inv (cr_policy c) G 0 s \<and> balanced before 0 s"

definition step_ok :: "'h crawl_world \<Rightarrow> crawl_run \<Rightarrow> int \<Rightarrow> (string \<Rightarrow> bool) \<Rightarrow> 'h crawl_step \<Rightarrow> bool" where
  "step_ok W c before G st \<longleftrightarrow>
     (case st of
        Continue s \<Rightarrow> crawl_ok W c before G s
      | Break reason s \<Rightarrow> crawl_ok W c before G s
      | Raise e s \<Rightarrow> tally W c before G s)"

text \<open>Every link that is followed stays within what is known of the queue.\<close>

definition links_within :: "crawl_run \<Rightarrow> (string \<Rightarrow> bool) \<Rightarrow> bool" where
  "links_within c G \<longleftrightarrow>
     (\<forall>href base u. canonical_candidate href base (cr_origin c) (cr_policy c) = Inr u \<longrightarrow> G (py_strip u))"

lemma crawl_ok_tally: "crawl_ok W c before G s \<Longrightarrow> tally W c before G s"
  by (simp add: crawl_ok_def)

lemma crawl_ok_set_now [simp]: "crawl_ok W c before G (set_now n s) = crawl_ok W c before G s"
  by (simp add: crawl_ok_def tally_def crawl_inv_def balanced_def)

lemma audit_url_Inr: "audit_url name u = Inr v \<Longrightarrow> v = py_strip u"
  by (auto simp: audit_url_def exn_simps Let_def split: option.splits)

lemma snapshot_resumable:
  assumes "snapshot W c s = Inr r" "crawl_ok W c before G s"
  shows "cw_on_checkpoint W \<noteq> None \<Longrightarrow> resumable W c G r"
proof -
  obtain skipped where r: "CrawlResumeState_post_init
      \<lparr>rs_root_url = cr_root_url c, rs_pages = cs_pages s, rs_pending_pages = cs_queue s,
       rs_visited_urls = sorted_unique (cs_visited s), rs_skipped_links = skipped,
       rs_elapsed_execution_seconds =
         cr_elapsed_before c + max 0 (cw_monotonic W (fs_now (cs_fetch s)) - cr_run_started c),
       rs_attempts_used = bg_attempts_used (cs_budget s)\<rparr> = Inr r"
    using assms(1) by (auto simp: snapshot_def exn_simps)
  then have "rs_pages r = cs_pages s" "rs_pending_pages r = cs_queue s"
    "rs_attempts_used r = bg_attempts_used (cs_budget s)" "rs_root_url r = py_strip (cr_root_url c)"
    by (auto simp: CrawlResumeState_post_init_def exn_simps Let_def dest: audit_url_Inr)
  moreover assume "cw_on_checkpoint W \<noteq> None"
  ultimately show "resumable W c G r"
    using assms(2)
    by (auto simp: resumable_def resume_wf_def resume_check_def exn_simps crawl_ok_def tally_def crawl_inv_def
        balanced_def pending_ok_def depth_ok_def list_all_iff list_ex_iff)
qed

lemma emit_checkpoint_ok:
  assumes "emit_checkpoint W c s = (a, s')" "crawl_ok W c before G s"
  shows "crawl_ok W c before G s'"
proof -
  have "crawl_ok W c before G (s\<lparr>cs_checkpoints := cs_checkpoints s @ [r]\<rparr>)"
    if "snapshot W c s = Inr r" "cw_on_checkpoint W \<noteq> None" for r
    using assms(2) snapshot_resumable [OF that(1) assms(2) that(2)]
    by (auto simp: crawl_ok_def tally_def crawl_inv_def balanced_def)
  then show ?thesis
    using assms
    by (auto simp: emit_checkpoint_def Let_def crawl_ok_def tally_def crawl_inv_def balanced_def
        split: option.splits sum.splits prod.splits)
qed

lemma checkpoint_then_ok:
  assumes "crawl_ok W c before G s" "\<And>t. crawl_ok W c before G t \<Longrightarrow> step_ok W c before G (k t)"
  shows "step_ok W c before G (checkpoint_then W c s k)"
  using assms
  by (auto simp: checkpoint_then_def step_ok_def crawl_ok_tally dest!: emit_checkpoint_ok split: prod.splits sum.splits)

lemma CrawlPageRecord_keeps:
  "CrawlPageRecord_post_init p = Inr q \<Longrightarrow> pg_depth q = pg_depth p \<and> pg_attempts q = pg_attempts p"
  by (auto simp: CrawlPageRecord_post_init_def exn_simps Let_def)

lemma CrawlPendingPage_keeps:
  "CrawlPendingPage_post_init p = Inr q \<Longrightarrow> pd_depth q = pd_depth p \<and> pd_url q = py_strip (pd_url p)"
  by (auto simp: CrawlPendingPage_post_init_def bindE_eq_Inr raise_if_eq_Inr dest: audit_url_Inr)

lemma CrawlPageRecord_depth: "CrawlPageRecord_post_init q = Inr p \<Longrightarrow> 0 \<le> pg_depth p"
  by (auto simp: CrawlPageRecord_post_init_def crawl_bounded_integer_def exn_simps Let_def)

lemma CrawlPendingPage_depth: "CrawlPendingPage_post_init q = Inr p \<Longrightarrow> 0 \<le> pd_depth p"
  by (auto simp: CrawlPendingPage_post_init_def crawl_bounded_integer_def bindE_eq_Inr raise_if_eq_Inr)

lemma resume_wf_constructed:
  assumes "CrawlResumeState_post_init r0 = Inr r"
    and "\<forall>p \<in> set (rs_pages r). \<exists>q. CrawlPageRecord_post_init q = Inr p"
    and "\<forall>p \<in> set (rs_pending_pages r). \<exists>q. CrawlPendingPage_post_init q = Inr p"
  shows "resume_wf (Some r)"
  using assms CrawlPageRecord_depth CrawlPendingPage_depth
  by (fastforce simp: resume_wf_def CrawlResumeState_post_init_def exn_simps Let_def page_attempts_def list_all_iff)

text \<open>A page is recorded: its attempts are those the budget has been charged with.\<close>

lemma append_page_ok:
  assumes "tally W c before G s" "crawl_inv (cr_policy c) G 1 s" "depth_ok (cr_policy c) (pg_depth page)"
    and "balanced before (length (pg_attempts page)) s"
    and "\<And>t. crawl_ok W c before G t \<Longrightarrow> step_ok W c before G (k t)"
  shows "step_ok W c before G (append_page page s k)"
proof (cases "CrawlPageRecord_post_init page")
  case (Inl e)
  then show ?thesis
    using assms(1) by (simp add: append_page_def step_ok_def)
next
  case (Inr p)
  then have "crawl_ok W c before G (s\<lparr>cs_pages := cs_pages s @ [p]\<rparr>)"
    using assms(1-4) CrawlPageRecord_keeps [OF Inr]
    by (auto simp: crawl_ok_def tally_def crawl_inv_def balanced_def page_attempts_def)
  then show ?thesis
    using Inr assms(5) by (simp add: append_page_def)
qed

lemma collect_candidates_canonical:
  assumes "collect_candidates c base visited hrefs cands skips = (cands', skips')" "u \<in> set cands'"
  shows "u \<in> set cands \<or> (\<exists>href. canonical_candidate href base (cr_origin c) (cr_policy c) = Inr u)"
  using assms
  by (induction c base visited hrefs cands skips rule: collect_candidates.induct)
    (auto split: sum.splits if_splits)

lemma queue_candidates_inv:
  assumes "queue_candidates policy page cands queued s = (r, s')"
    and "crawl_inv policy G 1 s" "\<forall>u \<in> set cands. G (py_strip u)" "depth_ok policy (pd_depth page + 1)"
  shows "crawl_inv policy G 1 s'"
  using assms
proof (induction policy page cands queued s rule: queue_candidates.induct)
  case (2 policy page candidate candidates queued s)
  show ?case
  proof (cases "int (length (cs_pages s)) + 1 + int (length (cs_queue s)) \<ge> cp_maximum_pages policy")
    case True
    have "crawl_inv policy G 1 (s\<lparr>cs_skips := counter_add PAGE_LIMIT 1 (cs_skips s)\<rparr>)"
      using 2(4) by (simp add: crawl_inv_def)
    then show ?thesis
      using 2(1) [OF True] 2(3,5,6) True by simp
  next
    case False
    show ?thesis
    proof (cases "CrawlPendingPage_post_init
        \<lparr>pd_url = candidate, pd_depth = pd_depth page + 1, pd_parent_url = Some (pd_url page)\<rparr>")
      case (Inl e)
      then show ?thesis using 2(3,4) False by simp
    next
      case (Inr pending)
      have "crawl_inv policy G 1 (s\<lparr>cs_queue := cs_queue s @ [pending], cs_visited := candidate # cs_visited s\<rparr>)"
        using 2(4-6) False CrawlPendingPage_keeps [OF Inr] by (auto simp: crawl_inv_def pending_ok_def)
      then show ?thesis
        using 2(2) [OF False Inr] 2(3,5,6) Inr False by simp
    qed
  qed
qed simp

lemma follow_links_inv:
  assumes "follow_links W c page response s = (r, s')"
    and "crawl_inv (cr_policy c) G 1 s" "links_within c G" "depth_ok (cr_policy c) (pd_depth page)"
  shows "crawl_inv (cr_policy c) G 1 s'"
proof (cases "response_content_type response \<in> Some ` set (cp_allowed_content_types (cr_policy c))
    \<and> pd_depth page < cp_maximum_depth (cr_policy c)")
  case True
  define parser where "parser = parse_anchors (cp_maximum_links_per_page (cr_policy c)) (cw_start_tags W (hr_body response))"
  define skips where "skips = (if ap_omitted parser \<noteq> 0 then counter_add LINK_LIMIT (ap_omitted parser) (cs_skips s) else cs_skips s)"
  obtain cands skips' where coll: "collect_candidates c (pd_url page) (cs_visited s) (ap_hrefs parser) [] skips = (cands, skips')"
    by (cases "collect_candidates c (pd_url page) (cs_visited s) (ap_hrefs parser) [] skips")
  obtain r' where q: "queue_candidates (cr_policy c) page (sorted_unique cands) 0 (s\<lparr>cs_skips := skips'\<rparr>) = (r', s')"
    using assms(1) True coll
    by (auto simp: follow_links_def Let_def parser_def [symmetric] skips_def [symmetric] split: prod.splits sum.splits)
  have "\<forall>u \<in> set (sorted_unique cands). G (py_strip u)"
    using collect_candidates_canonical [OF coll] assms(3) by (auto simp: links_within_def)
  moreover have "crawl_inv (cr_policy c) G 1 (s\<lparr>cs_skips := skips'\<rparr>)"
    using assms(2) by (simp add: crawl_inv_def)
  moreover have "depth_ok (cr_policy c) (pd_depth page + 1)"
    using assms(4) True by (simp add: depth_ok_def)
  ultimately show ?thesis
    using queue_candidates_inv [OF q] by blast
next
  case False
  then show ?thesis using assms(1,2) by (auto simp: follow_links_def Let_def)
qed

section \<open>Pages\<close>

lemma page_failed_ok:
  assumes "tally W c before G s" "crawl_inv (cr_policy c) G 1 s" "pending_ok (cr_policy c) G page"
    and "balanced before (length (fo_attempts outcome)) s"
    and "fo_attempts outcome = [] \<Longrightarrow> fo_termination_reason outcome \<noteq> None"
  shows "step_ok W c before G (page_failed W c page outcome s)"
proof -
  have finish: "step_ok W c before G (checkpoint_then W c t (\<lambda>s.
      case fo_termination_reason outcome of
        Some reason \<Rightarrow> Break reason s
      | None \<Rightarrow> if pd_depth page = 0 then Break ROOT_REQUEST_FAILED s else Continue s))"
    if "crawl_ok W c before G t" for t
    using that by (intro checkpoint_then_ok) (auto simp: step_ok_def split: option.splits)
  show ?thesis
  proof (cases "fo_attempts outcome = []")
    case True
    then have "crawl_ok W c before G (s\<lparr>cs_queue := page # cs_queue s\<rparr>)"
      using assms(1-4) by (auto simp: crawl_ok_def tally_def crawl_inv_def balanced_def)
    then show ?thesis
      using True assms(5) finish by (simp add: page_failed_def Let_def)
  next
    case False
    then show ?thesis
      using assms(1-4) finish
      by (auto simp: page_failed_def Let_def failed_page_def pending_ok_def intro!: append_page_ok)
  qed
qed

lemma page_succeeded_ok:
  assumes "tally W c before G s" "crawl_inv (cr_policy c) G 1 s" "pending_ok (cr_policy c) G page"
    and "balanced before (length (fo_attempts outcome)) s"
    and "links_within c G"
  shows "step_ok W c before G (page_succeeded W c page outcome response s)"
proof -
  obtain answer h where "cw_on_page W (fs_now (cs_fetch s)) (pd_url page) response (pd_depth page) (pd_parent_url page)
             (fs_hooks (cs_fetch s)) = (answer, h)" by fastforce
  note page = this
  define s1 where "s1 = set_hooks h (set_now (Suc (fs_now (cs_fetch s))) s)"
  have same: "same_crawl s s1" "cs_checkpoints s1 = cs_checkpoints s"
    by (simp_all add: same_crawl_def s1_def)
  obtain r s2 where links: "follow_links W c page response s1 = (r, s2)"
    by fastforce
  have depth: "depth_ok (cr_policy c) (pd_depth page)"
    using assms(3) by (simp add: pending_ok_def)
  have frame: "cs_pages s2 = cs_pages s1" "cs_fetch s2 = cs_fetch s1" "cs_checkpoints s2 = cs_checkpoints s1"
    using follow_links_frame [OF links] by auto
  have tally: "tally W c before G s1" "tally W c before G s2"
    using assms(1) same frame by (simp_all add: same_crawl_def tally_def)
  have inv1: "crawl_inv (cr_policy c) G 1 s1"
    using assms(2) same by (simp add: same_crawl_def crawl_inv_def)
  have inv: "crawl_inv (cr_policy c) G 1 s2"
    using follow_links_inv [OF links inv1 assms(5) depth] .
  have attempts: "balanced before (length (fo_attempts outcome)) s2"
    using assms(4) same frame by (simp add: same_crawl_def balanced_def)
  have "step_ok W c before G (append_page (succeeded_page page outcome response d q) s2
      (\<lambda>s3. checkpoint_then W c s3 Continue))" for d q
    using tally(2) inv depth attempts
    by (intro append_page_ok checkpoint_then_ok)
      (auto simp: succeeded_page_def step_ok_def)
  then show ?thesis
    using tally links page
    by (auto simp: page_succeeded_def Let_def s1_def [symmetric] step_ok_def split: sum.splits prod.splits)
qed

lemma fetched_tally:
  assumes "fetched (pd_url page) (cs_fetch s) f exact k" "tally W c before G s" "G (pd_url page)"
  shows "tally W c before G (s\<lparr>cs_fetch := f\<rparr>)"
  using assms by (auto simp: fetched_def tally_def)

lemma visit_page_ok:
  assumes "tally W c before G s" "crawl_inv (cr_policy c) G 1 s" "balanced before 0 s"
    and "pending_ok (cr_policy c) G page" "links_within c G"
  shows "step_ok W c before G (visit_page W c page s)"
proof -
  obtain r f where fetch: "fetch_with_retry W (cr_retry c) (pd_url page) (cs_fetch s) = (r, f)"
    by fastforce
  then obtain k where k: "fetched (pd_url page) (cs_fetch s) f (succeeds r) k" "outcome_counts r k"
    by (rule fetch_with_retry_counts)
  define s1 where "s1 = s\<lparr>cs_fetch := f\<rparr>"
  have tally: "tally W c before G s1"
    using fetched_tally [OF k(1) assms(1)] assms(4) by (simp add: s1_def pending_ok_def)
  have inv: "crawl_inv (cr_policy c) G 1 s1"
    using assms(2) by (simp add: s1_def crawl_inv_def)
  have attempts: "balanced before k s1" if "succeeds r"
    using assms(3) k(1) that by (auto simp: s1_def balanced_def fetched_def)
  show ?thesis
  proof (cases r)
    case (Inl e)
    then show ?thesis
      using fetch tally by (simp add: visit_page_def Let_def s1_def [symmetric] step_ok_def)
  next
    case (Inr outcome)
    then have "length (fo_attempts outcome) = k" "k = 0 \<Longrightarrow> fo_termination_reason outcome \<noteq> None"
      and attempts': "balanced before k s1"
      using k(2) attempts by (auto simp: outcome_counts_def succeeds_iff)
    then show ?thesis
      using fetch Inr tally inv attempts' assms(4,5)
      by (auto simp: visit_page_def Let_def s1_def [symmetric] split: option.splits
          intro!: page_failed_ok page_succeeded_ok)
  qed
qed

lemma crawl_iteration_ok:
  assumes "crawl_ok W c before G s" "links_within c G" "cs_queue s \<noteq> []"
  shows "step_ok W c before G (crawl_iteration W c s)"
proof -
  have stop: "step_ok W c before G (Break reason (set_now n s))" for reason n
    using assms(1) by (simp add: step_ok_def)
  have "step_ok W c before G
      (visit_page W c (hd (cs_queue s)) (set_now n (s\<lparr>cs_queue := tl (cs_queue s)\<rparr>)))" for n
    using assms
    by (intro visit_page_ok) (cases "cs_queue s"; auto simp: crawl_ok_def tally_def crawl_inv_def balanced_def)+
  then show ?thesis
    using stop by (auto simp: crawl_iteration_def split: prod.splits option.splits)
qed

lemma crawl_loop_ok:
  assumes "crawl_loop W c s = (r, s')" "crawl_ok W c before G s" "links_within c G"
  shows "tally W c before G s' \<and> (\<forall>reason. r = Inr reason \<longrightarrow> crawl_ok W c before G s')"
  using assms
proof (induction W c s rule: crawl_loop.induct)
  case (1 W c s)
  show ?case
  proof (cases "cs_queue s \<noteq> [] \<and> int (length (cs_pages s)) < cp_maximum_pages (cr_policy c)")
    case True
    have step: "step_ok W c before G (crawl_iteration W c s)"
      using crawl_iteration_ok 1(3,4) True by blast
    show ?thesis
      using step 1(1) [OF True] 1(2,4) True
      by (cases "crawl_iteration W c s") (auto simp: crawl_loop.simps [of W c s] step_ok_def crawl_ok_def)
  next
    case False
    then show ?thesis
      using 1(2,3) by (auto simp: crawl_loop.simps [of W c s] crawl_ok_def)
  qed
qed

lemma finish_crawl_ok:
  "finish_crawl reason s = (reason', pending, s') \<Longrightarrow> crawl_ok W c before G s \<Longrightarrow> crawl_ok W c before G s'"
  by (auto simp: finish_crawl_def crawl_ok_def tally_def crawl_inv_def balanced_def split: if_splits)

lemma crawl_from_ok:
  assumes "crawl_from W c s = (r, s')" "crawl_ok W c before G s" "links_within c G"
  shows "tally W c before G s'
    \<and> (\<forall>x. r = Inr x \<longrightarrow> crawl_ok W c before G s' \<and> cx_pages x = cs_pages s')"
proof -
  obtain r1 s1 where e1: "emit_checkpoint W c s = (r1, s1)" by fastforce
  obtain r2 s2 where l: "crawl_loop W c s1 = (r2, s2)" by fastforce
  obtain reason pending s3 where f: "finish_crawl (projr r2) s2 = (reason, pending, s3)" by (metis prod_cases3)
  obtain r4 s4 where e2: "emit_checkpoint W c s3 = (r4, s4)" by fastforce
  have ok1: "crawl_ok W c before G s1"
    using emit_checkpoint_ok [OF e1 assms(2)] .
  have ok2: "tally W c before G s2" "r2 = Inr x \<Longrightarrow> crawl_ok W c before G s2" for x
    using crawl_loop_ok [OF l ok1 assms(3)] by auto
  have ok3: "crawl_ok W c before G s4" if "r2 = Inr x" for x
    using that emit_checkpoint_ok [OF e2] finish_crawl_ok [OF f] ok2(2) by blast
  show ?thesis
    using assms(1) e1 l f e2 ok1 ok2 ok3
    by (auto simp: crawl_from_def crawl_ok_def CrawlExecution_post_init_def exn_simps split: sum.splits prod.splits)
qed

end
