(* ===== verification/Crawl_Props.thy ===== *)
theory Crawl_Props
  imports Crawl_Invariant "HOL-Library.Code_Target_Nat"
begin

text \<open>
  The properties of the crawler: it stays within the origin of its target, within its budgets of
  requests, pages and depth, and the checkpoints it emits pass the checks of a resumption.
\<close>

section \<open>An example site\<close>

definition example_target :: validated_target where
  "example_target =
     \<lparr>vt_original_url = ''https://a.example/'', vt_normalised_url = ''https://a.example/'', vt_scheme = ''https'',
      vt_hostname = ''a.example'', vt_port = 443, vt_resolved_addresses = [''93.184.216.34'']\<rparr>"

definition example_policy :: crawl_policy where
  "example_policy =
     \<lparr>cp_maximum_pages = 5, cp_maximum_depth = 1, cp_maximum_links_per_page = 10, cp_minimum_delay_seconds = 0,
      cp_query_mode = QUERY_DROP, cp_maximum_url_length = 2048, cp_maximum_execution_seconds = 60,
      cp_maximum_request_attempts = 4, cp_allowed_content_types = [''text/html''],
      cp_blocked_path_segments = [''delete'', ''logout'']\<rparr>"

definition example_page :: "nat list \<Rightarrow> http_response" where
  "example_page body =
     \<lparr>hr_status = 200, hr_headers = [(''Content-Type'', ''text/html; charset=utf-8'')], hr_body = body,
      hr_connected_address = ''93.184.216.34''\<rparr>"

text \<open>The root page links to \<open>hrefs\<close>; no other page has links. The callbacks do nothing.\<close>

definition example_world :: "string list \<Rightarrow> unit crawl_world" where
  "example_world hrefs =
     \<lparr>cw_monotonic = (\<lambda>_. 0), cw_cancelled = (\<lambda>_. False), cw_utc_now = (\<lambda>_. 0),
      cw_fetch_once = (\<lambda>_ url. Inr (example_page (if url = ''https://a.example/'' then [1] else []))),
      cw_before_request = (\<lambda>_ _ h. (Inr (), h)), cw_after_request = (\<lambda>_ _ _ _ h. (Inr (), h)),
      cw_on_page = (\<lambda>_ _ _ _ _ h. (Inr (), h)), cw_on_checkpoint = None,
      cw_start_tags = (\<lambda>body. if body = [] then [] else map (\<lambda>href. (''a'', [(''href'', Some href)])) hrefs)\<rparr>"

definition example_sent :: "string list \<Rightarrow> string list" where
  "example_sent hrefs =
     rev (fs_sent (cs_fetch (snd (crawl_same_origin (example_world hrefs) example_target example_policy RetryPolicy_default None 0 ()))))"

section \<open>Inside the origin\<close>

definition py_rstrip :: "string \<Rightarrow> string" where
  "py_rstrip s = rev (dropWhile py_isspace (rev s))"

lemma py_strip_path:
  assumes "\<not> py_isspace c"
  shows "py_strip (c # pre @ CHR ''/'' # path) = c # pre @ CHR ''/'' # py_rstrip path"
proof -
  have "dropWhile py_isspace (rev path @ CHR ''/'' # rev pre @ [c])
      = dropWhile py_isspace (rev path) @ CHR ''/'' # rev pre @ [c]"
    using assms by (auto simp: dropWhile_append py_isspace_def)
  then show ?thesis
    using assms by (simp add: py_strip_def py_rstrip_def)
qed

lemma take_one_iff: "take (Suc 0) s = [c] \<longleftrightarrow> (\<exists>t. s = c # t)"
  by (cases s) auto

lemma normalise_path_slash: "normalise_path p = Inr q \<Longrightarrow> \<exists>q'. q = CHR ''/'' # q'"
  by (auto simp: normalise_path_def Let_def exn_simps take_one_iff split: if_splits)

lemma hostinfo_hostname_not_Nil: "url_hostname u = Some h \<Longrightarrow> h \<noteq> []"
  by (auto simp: url_hostname_def py_lower_def str_partition_def split: prod.splits if_splits)

lemma ipv4_str_not_Nil: "ipv4_str n \<noteq> []"
  by (simp add: ipv4_str_def)

lemma authority_not_Nil:
  assumes "host \<noteq> []"
  shows "authority host port scheme \<noteq> []"
  using assms
  by (auto simp: authority_def Let_def ip_compressed_def ipv4_str_not_Nil py_lower_def
      split: option.splits ip_address.splits prod.splits)

lemma skip_if_eq_Inr [simp]: "skip_if b reason k = Inr u \<longleftrightarrow> \<not> b \<and> k = Inr u"
  by (simp add: skip_if_def)

lemma canonical_in_origin_Inr:
  assumes "canonical_in_origin (scheme, host, port) policy parsed = Inr u" "host \<noteq> []"
    and "scheme = ''http'' \<or> scheme = ''https''"
  obtains path where "u = scheme @ ''://'' @ authority host port scheme @ CHR ''/'' # path"
    "\<not> is_destructive_path (CHR ''/'' # path) (cp_blocked_path_segments policy)"
    "int (length u) \<le> cp_maximum_url_length policy"
proof -
  obtain q where q: "normalise_path (u_path parsed) = Inr q"
    using assms(1) by (auto simp: canonical_in_origin_def split: sum.splits)
  then obtain q' where "q = CHR ''/'' # q'"
    using normalise_path_slash by blast
  then show ?thesis
    using that [of q'] assms q authority_not_Nil [OF assms(2), of port scheme]
    by (auto simp: canonical_in_origin_def Let_def urlunsplit_def)
qed

lemma canonical_candidate_Inr:
  assumes "canonical_candidate href base (scheme, host, port) policy = Inr u"
  obtains path where "scheme = ''http'' \<or> scheme = ''https''"
    "u = scheme @ ''://'' @ authority host port scheme @ CHR ''/'' # path"
    "\<not> is_destructive_path (CHR ''/'' # path) (cp_blocked_path_segments policy)"
    "int (length u) \<le> cp_maximum_url_length policy"
proof -
  obtain parsed where parsed: "Option.bind (urljoin base (py_strip href)) urlsplit = Some parsed"
    using assms by (cases "Option.bind (urljoin base (py_strip href)) urlsplit") (auto simp: canonical_candidate_def Let_def)
  obtain hostname where host: "url_hostname parsed = Some hostname"
    using assms parsed by (cases "url_hostname parsed") (auto simp: canonical_candidate_def Let_def)
  obtain p where port: "effective_port parsed = Inr p"
    using assms parsed host by (cases "effective_port parsed") (auto simp: canonical_candidate_def Let_def)
  have eqs: "scheme = ''http'' \<or> scheme = ''https''" "py_lower hostname = host"
    "canonical_in_origin (scheme, host, port) policy parsed = Inr u"
    using assms parsed host port by (auto simp: canonical_candidate_def Let_def)
  moreover have "host \<noteq> []"
    using hostinfo_hostname_not_Nil [OF host] eqs(2) by (auto simp: py_lower_def)
  ultimately show ?thesis
    using that canonical_in_origin_Inr [of scheme host port policy parsed u] by metis
qed

text \<open>
  The URLs of an origin that a policy lets the crawler request. White space at the end of the path is
  stripped only after the path has been checked.
\<close>

definition within_origin :: "origin \<Rightarrow> crawl_policy \<Rightarrow> string \<Rightarrow> bool" where
  "within_origin origin policy u \<longleftrightarrow>
     (\<exists>scheme host port path. origin = (scheme, host, port) \<and> (scheme = ''http'' \<or> scheme = ''https'')
        \<and> u = scheme @ ''://'' @ authority host port scheme @ CHR ''/'' # py_rstrip path
        \<and> \<not> is_destructive_path (CHR ''/'' # path) (cp_blocked_path_segments policy))"

lemma canonical_candidate_within:
  assumes "canonical_candidate href base origin policy = Inr u"
  shows "within_origin origin policy (py_strip u)"
proof -
  obtain scheme host port where origin: "origin = (scheme, host, port)"
    by (cases origin)
  obtain path where path: "scheme = ''http'' \<or> scheme = ''https''"
    "u = scheme @ ''://'' @ authority host port scheme @ CHR ''/'' # path"
    "\<not> is_destructive_path (CHR ''/'' # path) (cp_blocked_path_segments policy)"
    using canonical_candidate_Inr [OF assms [unfolded origin]] by blast
  have "py_strip u = scheme @ ''://'' @ authority host port scheme @ CHR ''/'' # py_rstrip path"
    using path(1) py_strip_path [of "CHR ''h''" "drop 1 scheme @ ''://'' @ authority host port scheme" path]
    by (auto simp: path(2) py_isspace_def)
  then show ?thesis
    using origin path by (auto simp: within_origin_def)
qed

section \<open>Whole crawls\<close>

definition attempts_before :: "crawl_resume_state option \<Rightarrow> int" where
  "attempts_before resume = (case resume of None \<Rightarrow> 0 | Some r \<Rightarrow> rs_attempts_used r)"

definition resumed_urls :: "crawl_resume_state option \<Rightarrow> string set" where
  "resumed_urls resume = (case resume of None \<Rightarrow> {} | Some r \<Rightarrow> pd_url ` set (rs_pending_pages r))"

lemma crawl_root_url_origin:
  assumes "crawl_root_url target policy = Inr (origin, root_url)"
  shows "root_origin target = Inr origin \<and> within_origin origin policy (py_strip root_url)"
proof -
  obtain o' where o': "root_origin target = Inr o'"
    using assms by (cases "root_origin target") (auto simp: crawl_root_url_def)
  then show ?thesis
    using assms canonical_candidate_within [of "vt_normalised_url target" "vt_normalised_url target" o' policy]
    by (cases "canonical_candidate (vt_normalised_url target) (vt_normalised_url target) o' policy")
      (auto simp: crawl_root_url_def)
qed

lemma initial_state_inv:
  assumes "initial_state policy root_url resume = Inr (queue, visited, pages, skips, elapsed, attempts)"
    and "resume_wf resume" "1 \<le> cp_maximum_pages policy" "0 \<le> cp_maximum_depth policy" "0 \<le> cp_maximum_request_attempts policy"
    and "G (py_strip root_url)" "\<forall>u \<in> resumed_urls resume. G u"
  shows "attempts = attempts_before resume \<and> int (page_attempts pages) = attempts
    \<and> attempts \<le> cp_maximum_request_attempts policy
    \<and> crawl_inv policy G 0 \<lparr>cs_queue = queue, cs_visited = visited, cs_pages = pages, cs_skips = skips,
         cs_fetch = f, cs_checkpoints = cps\<rparr>"
proof (cases resume)
  case None
  then show ?thesis
    using assms(1,3-6)
    by (auto simp: initial_state_def exn_simps attempts_before_def page_attempts_def crawl_inv_def pending_ok_def
        depth_ok_def dest!: CrawlPendingPage_keeps)
next
  case (Some r)
  then show ?thesis
    using assms(1,2,7)
    by (auto simp: initial_state_def resume_check_def exn_simps attempts_before_def resume_wf_def resumed_urls_def
        crawl_inv_def pending_ok_def depth_ok_def list_all_iff list_ex_iff)
qed

lemma CrawlPolicy_bounds:
  assumes "CrawlPolicy_post_init p = Inr policy"
  shows "1 \<le> cp_maximum_pages policy \<and> cp_maximum_pages policy \<le> 50
    \<and> 0 \<le> cp_maximum_depth policy \<and> cp_maximum_depth policy \<le> 3
    \<and> 1 \<le> cp_maximum_request_attempts policy \<and> cp_maximum_request_attempts policy \<le> 150"
  using assms
  by (auto simp: CrawlPolicy_post_init_def crawl_bounded_integer_def exn_simps MAXIMUM_CRAWL_PAGES_def
      MAXIMUM_CRAWL_DEPTH_def MAXIMUM_CRAWL_REQUEST_ATTEMPTS_def)

text \<open>What a crawl may request: what it resumes with, and the URLs of its origin.\<close>

definition requestable :: "validated_target \<Rightarrow> crawl_policy \<Rightarrow> crawl_resume_state option \<Rightarrow> string \<Rightarrow> bool" where
  "requestable target policy resume u \<longleftrightarrow>
     u \<in> resumed_urls resume \<or> (\<exists>origin. root_origin target = Inr origin \<and> within_origin origin policy u)"

text \<open>The first checkpoint of a first run is only built if the root URL has no white space to strip.\<close>

lemma first_snapshot_root:
  assumes "snapshot W c s = Inr r" "cs_visited s = [cr_root_url c]" "cs_pages s = []"
    and "map pd_url (cs_queue s) = [py_strip (cr_root_url c)]"
  shows "py_strip (cr_root_url c) = cr_root_url c"
proof -
  have "sorted_unique [cr_root_url c] = sorted_unique [py_strip (cr_root_url c)]"
    using assms by (auto simp: snapshot_def CrawlResumeState_post_init_def exn_simps Let_def)
  then show ?thesis
    by (simp add: sorted_unique_def)
qed

lemma crawl_from_root:
  assumes "crawl_from W c s = (r, s')" "cw_on_checkpoint W \<noteq> None" "cs_checkpoints s = []" "cs_checkpoints s' \<noteq> []"
    and "cs_visited s = [cr_root_url c]" "cs_pages s = []" "map pd_url (cs_queue s) = [py_strip (cr_root_url c)]"
  shows "py_strip (cr_root_url c) = cr_root_url c"
proof (cases "snapshot W c s")
  case (Inl e)
  then have "cs_checkpoints s' = []"
    using assms(1-3) by (auto simp: crawl_from_def emit_checkpoint_def Let_def)
  then show ?thesis
    using assms(4) by simp
next
  case (Inr k)
  then show ?thesis
    using first_snapshot_root [OF Inr] assms by blast
qed

text \<open>A crawl either is refused before it starts, or maintains its invariant to the end.\<close>

lemma crawl_same_origin_run:
  assumes "crawl_same_origin W target policy retry resume n h = (r, s)"
    and "CrawlPolicy_post_init p = Inr policy" "resume_wf resume"
  shows "(\<exists>e. r = Inl e) \<and> fs_sent (cs_fetch s) = [] \<and> cs_checkpoints s = []
    \<or> (\<exists>c. cr_policy c = policy \<and> crawl_root_url target policy = Inr (cr_origin c, cr_root_url c)
        \<and> (resume = None \<longrightarrow> cs_checkpoints s \<noteq> [] \<longrightarrow> py_strip (cr_root_url c) = cr_root_url c)
        \<and> (\<forall>k. resume = Some k \<longrightarrow> rs_root_url k = cr_root_url c)
        \<and> tally W c (attempts_before resume) (requestable target policy resume) s
        \<and> (\<forall>x. r = Inr x \<longrightarrow> crawl_ok W c (attempts_before resume) (requestable target policy resume) s
                \<and> cx_pages x = cs_pages s))"
proof (cases "bindE (crawl_root_url target policy) (\<lambda>(origin, root_url).
     bindE (initial_state policy root_url resume) (\<lambda>start. Inr (origin, root_url, start)))")
  case (Inl e)
  then show ?thesis
    using assms(1) by (auto simp: crawl_same_origin_def)
next
  case (Inr start)
  obtain origin root_url queue visited pages skips elapsed attempts where
    start: "start = (origin, root_url, queue, visited, pages, skips, elapsed, attempts)"
    by (cases start rule: prod_cases7) (metis surj_pair)
  have root: "crawl_root_url target policy = Inr (origin, root_url)"
    and init: "initial_state policy root_url resume = Inr (queue, visited, pages, skips, elapsed, attempts)"
    using Inr start by (auto simp: exn_simps split: prod.splits)
  define f where "f = \<lparr>fs_budget = \<lparr>bg_deadline = cw_monotonic W n + max 0 (cp_maximum_execution_seconds policy - elapsed),
      bg_maximum_request_attempts = cp_maximum_request_attempts policy, bg_attempts_used = attempts\<rparr>,
      fs_now = n + 1, fs_hooks = h, fs_sent = []\<rparr>"
  define c where "c = \<lparr>cr_policy = policy, cr_retry = retry, cr_origin = origin, cr_root_url = root_url,
      cr_elapsed_before = elapsed, cr_run_started = cw_monotonic W n\<rparr>"
  define s0 where "s0 = \<lparr>cs_queue = queue, cs_visited = visited, cs_pages = pages, cs_skips = skips, cs_fetch = f,
      cs_checkpoints = []\<rparr>"
  let ?G = "requestable target policy resume"
  have origin: "root_origin target = Inr origin" "?G (py_strip root_url)"
    using crawl_root_url_origin [OF root] by (auto simp: requestable_def)
  have run: "crawl_from W c s0 = (r, s)" and c: "cr_policy c = policy" "cr_origin c = origin" "cr_root_url c = root_url"
    using assms(1) Inr start by (simp_all add: crawl_same_origin_def c_def s0_def f_def Let_def)
  have "links_within c ?G"
    using canonical_candidate_within origin by (auto simp: links_within_def c requestable_def)
  moreover have "crawl_ok W c (attempts_before resume) ?G s0"
    using initial_state_inv [OF init assms(3), of ?G f "[]"] CrawlPolicy_bounds [OF assms(2)] origin
    by (auto simp: crawl_ok_def tally_def balanced_def s0_def f_def requestable_def c)
  ultimately have ok: "tally W c (attempts_before resume) ?G s"
    "\<And>x. r = Inr x \<Longrightarrow> crawl_ok W c (attempts_before resume) ?G s \<and> cx_pages x = cs_pages s"
    using crawl_from_ok [OF run, of "attempts_before resume" ?G] by auto
  have "py_strip (cr_root_url c) = cr_root_url c" if "resume = None" "cs_checkpoints s \<noteq> []"
  proof (rule crawl_from_root [OF run])
    show "cw_on_checkpoint W \<noteq> None"
      using ok(1) that(2) by (cases "cs_checkpoints s") (auto simp: tally_def resumable_def)
  qed (use that init in \<open>auto simp: s0_def c initial_state_def exn_simps dest!: CrawlPendingPage_keeps\<close>)
  moreover have "rs_root_url k = cr_root_url c" if "resume = Some k" for k
    using init that by (auto simp: initial_state_def resume_check_def exn_simps c)
  ultimately show ?thesis
    using ok root c by (intro disjI2 exI [of _ c]) auto
qed

lemma crawl_same_origin_tally:
  assumes "crawl_same_origin W target policy retry resume n h = (r, s)"
    and "CrawlPolicy_post_init p = Inr policy" "resume_wf resume"
  shows "\<forall>u \<in> set (fs_sent (cs_fetch s)). requestable target policy resume u"
    "\<forall>k \<in> set (cs_checkpoints s). \<forall>u \<in> pd_url ` set (rs_pending_pages k). requestable target policy resume u"
  using crawl_same_origin_run [OF assms] by (auto simp: tally_def resumable_def)

section \<open>Examples and edge cases\<close>

abbreviation example_crawl :: "unit crawl_world \<Rightarrow> crawl_resume_state option \<Rightarrow> crawl_execution result \<times> unit crawl_state" where
  "example_crawl W resume \<equiv> crawl_same_origin W example_target example_policy RetryPolicy_default resume 0 ()"

definition with_checkpoints :: "unit crawl_world \<Rightarrow> unit crawl_world" where
  "with_checkpoints W = W\<lparr>cw_on_checkpoint := Some (\<lambda>_ _ h. (Inr (), h))\<rparr>"

text \<open>The root cannot be reached, and the crawl is cancelled while it waits for its second attempt.\<close>

definition failing_world :: "unit crawl_world" where
  "failing_world = (with_checkpoints (example_world []))
     \<lparr>cw_fetch_once := (\<lambda>_ _. Inl ''connection_timeout''), cw_cancelled := (\<lambda>n. n \<ge> 12)\<rparr>"

lemma example_policy_ok: "CrawlPolicy_post_init example_policy = Inr example_policy"
  by code_simp

lemma example_sent_about: "example_sent [''/about''] = [''https://a.example/'', ''https://a.example/about'']"
  by code_simp

text \<open>
  The path of a link is checked before white space is stripped from its end, so a no-break space in
  front of a query hides a blocked segment: the crawler requests \<^verbatim>\<open>/logout\<close>.
\<close>

lemma destructive_path_requested:
  "''https://a.example/logout'' \<in> set (example_sent [''/logout'' @ [CHR 0xA0] @ ''?x''])
   \<and> is_destructive_path ''/logout'' (cp_blocked_path_segments example_policy)"
  by code_simp

text \<open>With checkpoints the same link ends the crawl with an error of its own bookkeeping.\<close>

lemma stripped_link_breaks_checkpoint:
  "fst (example_crawl (with_checkpoints (example_world [''/a'' @ [CHR 0xA0] @ ''?x''])) None)
     = Inl (CrawlPolicyError ''resume_visited_inconsistent'')"
  by code_simp

text \<open>
  A crawl that stops early during the retries of its root page leaves a checkpoint with a failed root
  page and an empty queue. Resuming it raises an error, because a crawl with a failed root page must
  not be complete.
\<close>

lemma failed_root_not_resumable:
  "succeeds (fst (crawl_same_origin failing_world example_target example_policy
       (RetryPolicy_default\<lparr>rt_maximum_attempts := 2\<rparr>) None 0 ()))
   \<and> fst (example_crawl (example_world []) (Some (last (cs_checkpoints (snd
       (crawl_same_origin failing_world example_target example_policy
          (RetryPolicy_default\<lparr>rt_maximum_attempts := 2\<rparr>) None 0 ()))))))
     = Inl (CrawlPolicyError ''crawl_root_failure_termination_missing'')"
  by code_simp

section \<open>Properties\<close>

text \<open>
  C20. Whatever the pages, the servers and the callbacks do, a first run of a crawl requests only URLs
  of its own origin: scheme and authority are those of the validated target, and the path is one in
  which no blocked segment occurs, with white space at its end stripped after this check. A
  checkpoint that is resumed is not checked for this; but if the URLs it has still to request are of
  that kind, then so are all that the resumed crawl requests, and all that every checkpoint it hands
  out has still to request, which those of a first run are.
\<close>

theorem crawl_stays_in_origin:
  assumes "crawl_same_origin W target policy retry resume n h = (r, s)"
    and "CrawlPolicy_post_init p = Inr policy" "resume_wf resume"
    and "\<forall>u \<in> resumed_urls resume. \<exists>origin. root_origin target = Inr origin \<and> within_origin origin policy u"
    and "u \<in> set (fs_sent (cs_fetch s)) \<union> (\<Union>k \<in> set (cs_checkpoints s). pd_url ` set (rs_pending_pages k))"
  shows "\<exists>scheme host port path. root_origin target = Inr (scheme, host, port)
         \<and> (scheme = ''http'' \<or> scheme = ''https'')
         \<and> u = scheme @ ''://'' @ authority host port scheme @ CHR ''/'' # py_rstrip path
         \<and> \<not> is_destructive_path (CHR ''/'' # path) (cp_blocked_path_segments policy)"
proof -
  have "requestable target policy resume u"
    using crawl_same_origin_tally [OF assms(1-3)] assms(5) by blast
  then show ?thesis
    using assms(4) by (fastforce simp: requestable_def within_origin_def)
qed

theorem crawl_stays_in_origin_witness:
  "CrawlPolicy_post_init example_policy = Inr example_policy \<and> resume_wf None \<and> resumed_urls None = {}
   \<and> ''https://a.example/about'' \<in> set (fs_sent (cs_fetch (snd (example_crawl (example_world [''/about'']) None))))
   \<and> (\<exists>scheme host port path. root_origin example_target = Inr (scheme, host, port)
         \<and> (scheme = ''http'' \<or> scheme = ''https'')
         \<and> ''https://a.example/about'' = scheme @ ''://'' @ authority host port scheme @ CHR ''/'' # py_rstrip path
         \<and> \<not> is_destructive_path (CHR ''/'' # path) (cp_blocked_path_segments example_policy))"
proof -
  have wf: "resume_wf None" "resumed_urls None = {}"
    by (simp_all add: resume_wf_def resumed_urls_def)
  have sent: "''https://a.example/about'' \<in> set (fs_sent (cs_fetch (snd (example_crawl (example_world [''/about'']) None))))"
    using example_sent_about by (simp add: example_sent_def rev_swap)
  show ?thesis
    using crawl_stays_in_origin [OF prod.collapse [symmetric] example_policy_ok wf(1) _ UnI1 [OF sent]]
      example_policy_ok wf sent by simp
qed

text \<open>
  C21. A crawl never exceeds its budgets, earlier runs included: the requests it sends together with
  the attempts made before stay within the policy's limit, which is at most 150, even if an exception
  cuts it short. If it returns, every request that was sent is an attempt of exactly one page record,
  there are at most as many records as the policy allows pages, and none is deeper than allowed.
\<close>

theorem crawl_within_budgets:
  assumes "crawl_same_origin W target policy retry resume n h = (r, s)"
    and "CrawlPolicy_post_init p = Inr policy" "resume_wf resume"
  shows "(fs_sent (cs_fetch s) = []
        \<or> int (length (fs_sent (cs_fetch s))) + attempts_before resume \<le> cp_maximum_request_attempts policy)
    \<and> cp_maximum_request_attempts policy \<le> 150
    \<and> (\<forall>x. r = Inr x \<longrightarrow>
         int (requests_attempted x) = int (length (fs_sent (cs_fetch s))) + attempts_before resume
         \<and> int (length (cx_pages x)) \<le> cp_maximum_pages policy
         \<and> (\<forall>page \<in> set (cx_pages x). 0 \<le> pg_depth page \<and> pg_depth page \<le> cp_maximum_depth policy))"
  using crawl_same_origin_run [OF assms] CrawlPolicy_bounds [OF assms(2)]
  by (auto simp: crawl_ok_def tally_def crawl_inv_def balanced_def depth_ok_def requests_attempted_def page_attempts_def)

theorem crawl_within_budgets_witness:
  "CrawlPolicy_post_init example_policy = Inr example_policy \<and> resume_wf None
   \<and> length (fs_sent (cs_fetch (snd (example_crawl (example_world [''/about'']) None)))) = 2
   \<and> int (length (fs_sent (cs_fetch (snd (example_crawl (example_world [''/about'']) None))))) + attempts_before None
        \<le> cp_maximum_request_attempts example_policy"
proof -
  have wf: "resume_wf None"
    by (simp add: resume_wf_def)
  have "length (fs_sent (cs_fetch (snd (example_crawl (example_world [''/about'']) None)))) = 2"
    using example_sent_about by (simp add: example_sent_def rev_swap)
  then show ?thesis
    using crawl_within_budgets [OF prod.collapse [symmetric] example_policy_ok wf,
        of "example_world [''/about'']" example_target RetryPolicy_default 0 "()"] example_policy_ok wf
    by auto
qed

text \<open>
  C22. Every checkpoint that a crawl hands out records the root URL of that crawl, and a crawl of the
  same target under the same policy accepts it: it passes the checks of a resumption and the crawl
  goes on with the queue, the visited URLs, the pages, the skipped links, the elapsed time and the
  attempts of the checkpoint. Whether the resumed crawl then returns is another matter: the last
  checkpoint of a crawl that stopped early during the retries of its root page has a failed root page
  and no queue, and the crawl that resumes it ends with an error.
\<close>

theorem checkpoints_resume:
  assumes "crawl_same_origin W target policy retry resume n h = (r, s)"
    and "CrawlPolicy_post_init p = Inr policy" "resume_wf resume"
    and "\<forall>k. resume = Some k \<longrightarrow> (\<exists>k0. CrawlResumeState_post_init k0 = Inr k)"
    and "crawl_root_url target policy = Inr (origin, root_url)"
    and "k \<in> set (cs_checkpoints s)"
  shows "resume_wf (Some k) \<and> rs_root_url k = root_url
    \<and> initial_state policy root_url (Some k)
        = Inr (rs_pending_pages k, rs_visited_urls k, rs_pages k, counter_of (rs_skipped_links k),
               rs_elapsed_execution_seconds k, rs_attempts_used k)"
proof -
  obtain c where c: "cr_policy c = policy" "cr_root_url c = root_url"
    "resume = None \<Longrightarrow> py_strip root_url = root_url" "\<And>k. resume = Some k \<Longrightarrow> rs_root_url k = root_url"
    and k: "resumable W c (requestable target policy resume) k"
    using crawl_same_origin_run [OF assms(1-3)] assms(5,6) by (fastforce simp: tally_def)
  have "py_strip root_url = root_url"
  proof (cases resume)
    case (Some k1)
    then obtain k0 where "CrawlResumeState_post_init k0 = Inr k1"
      using assms(4) by blast
    then have "rs_root_url k1 = py_strip (rs_root_url k0)"
      by (auto simp: CrawlResumeState_post_init_def exn_simps Let_def dest: audit_url_Inr)
    then show ?thesis
      using c(4) [OF Some] by (metis py_strip_idem)
  qed (use c(3) in simp)
  then show ?thesis
    using k c(1,2) by (auto simp: resumable_def initial_state_def)
qed

theorem checkpoints_resume_witness:
  "length (cs_checkpoints (snd (example_crawl (with_checkpoints (example_world [''/about''])) None))) = 4
   \<and> rs_root_url (last (cs_checkpoints (snd (example_crawl (with_checkpoints (example_world [''/about''])) None))))
       = ''https://a.example/''"
proof -
  have n: "length (cs_checkpoints (snd (example_crawl (with_checkpoints (example_world [''/about''])) None))) = 4"
    by code_simp
  then have k: "last (cs_checkpoints (snd (example_crawl (with_checkpoints (example_world [''/about''])) None)))
      \<in> set (cs_checkpoints (snd (example_crawl (with_checkpoints (example_world [''/about''])) None)))"
    by (intro last_in_set) auto
  have wf: "resume_wf None"
    by (simp add: resume_wf_def)
  have root: "crawl_root_url example_target example_policy = Inr ((''https'', ''a.example'', 443), ''https://a.example/'')"
    by code_simp
  show ?thesis
    using n checkpoints_resume [OF prod.collapse [symmetric] example_policy_ok wf _ root k] by simp
qed

text \<open>
  C23. Fetching one page returns whatever the server does: it sends the same request at most as often
  as the retry policy allows, which is three times at most, never beyond the budget, and the attempts
  it records are numbered by the requests it sent.
\<close>

theorem fetch_with_retry_bounded:
  assumes "fetch_with_retry W rp url s = (r, s')" "RetryPolicy_post_init p = Inr rp"
  shows "\<exists>k \<le> 3. int k \<le> rt_maximum_attempts rp
    \<and> (\<exists>j \<le> k. fs_sent s' = replicate j url @ fs_sent s \<and> (\<forall>outcome. r = Inr outcome \<longrightarrow> j = k \<and> length (fo_attempts outcome) = k))
    \<and> bg_attempts_used (fs_budget s') = bg_attempts_used (fs_budget s) + int k
    \<and> (k = 0 \<or> bg_attempts_used (fs_budget s') \<le> bg_maximum_request_attempts (fs_budget s'))"
proof -
  obtain k where k: "fetched url s s' (succeeds r) k" "outcome_counts r k" "int k \<le> max 1 (rt_maximum_attempts rp)"
    using fetch_with_retry_counts [OF assms(1)] .
  have "retry_wf rp"
    using assms(2) by (simp add: RetryPolicy_Inr)
  then have "k \<le> 3" "int k \<le> rt_maximum_attempts rp"
    using k(3) by (auto simp: retry_wf_def)
  then show ?thesis
    using k(1,2) by (intro exI [of _ k]) (auto simp: fetched_def outcome_counts_def succeeds_iff)
qed

theorem fetch_with_retry_bounded_witness:
  "RetryPolicy_post_init RetryPolicy_default = Inr RetryPolicy_default
   \<and> (\<exists>k \<le> 3. int k \<le> rt_maximum_attempts RetryPolicy_default
        \<and> bg_attempts_used (fs_budget (snd (fetch_with_retry (example_world []) RetryPolicy_default ''https://a.example/''
             \<lparr>fs_budget = \<lparr>bg_deadline = 1, bg_maximum_request_attempts = 4, bg_attempts_used = 0\<rparr>, fs_now = 0,
              fs_hooks = (), fs_sent = []\<rparr>))) = 0 + int k)"
proof -
  have ok: "RetryPolicy_post_init RetryPolicy_default = Inr RetryPolicy_default"
    by code_simp
  have "bg_attempts_used (fs_budget
      \<lparr>fs_budget = \<lparr>bg_deadline = 1, bg_maximum_request_attempts = 4, bg_attempts_used = 0\<rparr>, fs_now = 0,
       fs_hooks = (), fs_sent = []\<rparr>) = 0"
    by simp
  then show ?thesis
    using fetch_with_retry_bounded [OF prod.collapse [symmetric] ok] ok by metis
qed

end
