(* ===== verification/Crawl_Safety.thy ===== *)
theory Crawl_Safety
  imports Crawl_Run Safety_Props
begin

text \<open>
  A crawl under the runtime safety engine: the executor passes the engine's
  \<^verbatim>\<open>before_request\<close> and \<^verbatim>\<open>after_request\<close> to the crawler as its hooks
  (\<^verbatim>\<open>webguard_api/executor.py\<close>).
\<close>

section \<open>What callbacks and requests do together\<close>

text \<open>What can be observed of a fetch: the state of the callbacks and the requests sent.\<close>

definition observed :: "'h fetch_state \<Rightarrow> 'h \<times> string list" where
  "observed f = (fs_hooks f, fs_sent f)"

text \<open>The state in which an iteration leaves the crawl.\<close>

definition step_state :: "'h crawl_step \<Rightarrow> 'h crawl_state" where
  "step_state st = (case st of Continue s \<Rightarrow> s | Break reason s \<Rightarrow> s | Raise e s \<Rightarrow> s)"

definition progresses ::
  "('h \<times> string list \<Rightarrow> 'h \<times> string list \<Rightarrow> bool) \<Rightarrow> 'h fetch_state \<Rightarrow> 'h crawl_step \<Rightarrow> bool" where
  "progresses R f st \<longleftrightarrow> R (observed f) (observed (cs_fetch (step_state st)))"

lemma progresses_simps [simp]:
  "progresses R f (Continue t) = R (observed f) (observed (cs_fetch t))"
  "progresses R f (Break reason t) = R (observed f) (observed (cs_fetch t))"
  "progresses R f (Raise e t) = R (observed f) (observed (cs_fetch t))"
  by (simp_all add: progresses_def step_state_def)

text \<open>
  A preorder on observations that holds across every callback, and across a request together with
  the hooks around it, holds across a whole crawl.
\<close>

locale crawl_progress =
  fixes W :: "'h crawl_world" and R :: "'h \<times> string list \<Rightarrow> 'h \<times> string list \<Rightarrow> bool"
  assumes refl: "R x x"
    and trans: "R x y \<Longrightarrow> R y z \<Longrightarrow> R x z"
    and refused: "cw_before_request W n url h = (Inl e, h') \<Longrightarrow> R (h, sent) (h', sent)"
    and request: "cw_before_request W n url h = (Inr u, h1) \<Longrightarrow> cw_after_request W m url resp err h1 = (a, h2) \<Longrightarrow>
       R (h, sent) (h2, url # sent)"
    and page: "cw_on_page W n url response d parent h = (a, h') \<Longrightarrow> R (h, sent) (h', sent)"
    and checkpoint: "cw_on_checkpoint W = Some f \<Longrightarrow> f n r h = (a, h') \<Longrightarrow> R (h, sent) (h', sent)"
begin

lemma after_failure_observed:
  "after_failure W rp attempts t0 t1 code s = Return r s' \<Longrightarrow> observed s' = observed s"
  "after_failure W rp attempts t0 t1 code s = Again as s' \<Longrightarrow> observed s' = observed s"
  by (auto simp: after_failure_def observed_def Let_def split: if_splits sum.splits prod.splits option.splits)

lemma fetch_turn_progress:
  "fetch_turn W rp url attempts s = Return r s' \<Longrightarrow> R (observed s) (observed s')"
  "fetch_turn W rp url attempts s = Again as s' \<Longrightarrow> R (observed s) (observed s')"
  by (auto simp: fetch_turn_def Let_def observed_def [of s] refl refused request
      dest!: after_failure_observed split: prod.splits option.splits sum.splits)
    (auto simp: observed_def refl refused request)

lemma fetch_loop_progress: "fetch_loop W rp url attempts s = (r, s') \<Longrightarrow> R (observed s) (observed s')"
proof (induction "nat (bg_maximum_request_attempts (fs_budget s) - bg_attempts_used (fs_budget s))"
    arbitrary: attempts s rule: less_induct)
  case less
  show ?case
  proof (cases "fetch_turn W rp url attempts s")
    case (Return r0 s0)
    then show ?thesis
      using less(2) fetch_turn_progress(1) by (simp add: fetch_loop.simps [of W rp url attempts s])
  next
    case (Again as s0)
    have "R (observed s0) (observed s')"
      using less(1) [of s0 as] less(2) fetch_turn_Again [OF Again] Again
      by (simp add: fetch_loop.simps [of W rp url attempts s])
    then show ?thesis
      using fetch_turn_progress(2) [OF Again] trans by blast
  qed
qed

lemma emit_checkpoint_progress:
  "emit_checkpoint W c s = (a, s') \<Longrightarrow> R (observed (cs_fetch s)) (observed (cs_fetch s'))"
  by (auto simp: emit_checkpoint_def observed_def Let_def set_now_def set_hooks_def refl checkpoint
      split: option.splits sum.splits prod.splits)

lemma checkpoint_then_progresses:
  assumes "cs_fetch s = f" "\<And>t. progresses R (cs_fetch t) (k t)"
  shows "progresses R f (checkpoint_then W c s k)"
proof (cases "emit_checkpoint W c s")
  case (Pair a t)
  then show ?thesis
    using emit_checkpoint_progress [OF Pair] assms(2) [of t] trans
    by (auto simp: checkpoint_then_def progresses_def assms(1) [symmetric] step_state_def split: sum.splits)
qed

lemma append_page_progresses:
  assumes "cs_fetch s = f" "\<And>t. cs_fetch t = f \<Longrightarrow> progresses R f (k t)"
  shows "progresses R f (append_page p s k)"
  using assms by (auto simp: append_page_def refl split: sum.splits)

lemma page_failed_progresses: "progresses R (cs_fetch s) (page_failed W c p outcome s)"
  unfolding page_failed_def Let_def
  by (auto intro!: append_page_progresses checkpoint_then_progresses simp: refl split: option.splits)

lemma page_succeeded_progresses: "progresses R (cs_fetch s) (page_succeeded W c p outcome response s)"
proof -
  obtain a h where page: "cw_on_page W (fs_now (cs_fetch s)) (pd_url p) response (pd_depth p) (pd_parent_url p)
      (fs_hooks (cs_fetch s)) = (a, h)"
    by fastforce
  define s1 where "s1 = set_hooks h (set_now (Suc (fs_now (cs_fetch s))) s)"
  obtain r s2 where links: "follow_links W c p response s1 = (r, s2)"
    by fastforce
  have s2: "cs_fetch s2 = cs_fetch s1"
    using follow_links_frame [OF links] by simp
  have R1: "R (observed (cs_fetch s)) (observed (cs_fetch s1))"
    using page crawl_progress_axioms by (simp add: observed_def s1_def set_hooks_def set_now_def crawl_progress.page)
  have "progresses R (cs_fetch s1) (append_page q s2 (\<lambda>s3. checkpoint_then W c s3 Continue))" for q
    using s2 by (intro append_page_progresses checkpoint_then_progresses) (simp_all add: refl)
  then have "progresses R (cs_fetch s) (append_page q s2 (\<lambda>s3. checkpoint_then W c s3 Continue))" for q
    using R1 trans unfolding progresses_def by blast
  then show ?thesis
    using page links R1 s2
    by (auto simp: page_succeeded_def Let_def s1_def [symmetric] split: sum.splits prod.splits)
qed

lemma visit_page_progresses:
  assumes "cs_fetch s = f"
  shows "progresses R f (visit_page W c p s)"
proof -
  obtain r g where fetch: "fetch_with_retry W (cr_retry c) (pd_url p) f = (r, g)"
    by fastforce
  then have g: "R (observed f) (observed g)"
    by (simp add: fetch_with_retry_def fetch_loop_progress)
  have "progresses R f (page_failed W c p outcome (s\<lparr>cs_fetch := g\<rparr>))"
    "progresses R f (page_succeeded W c p outcome response (s\<lparr>cs_fetch := g\<rparr>))" for outcome response
    using page_failed_progresses [where s = "s\<lparr>cs_fetch := g\<rparr>" and c = c and p = p and outcome = outcome]
      page_succeeded_progresses [where s = "s\<lparr>cs_fetch := g\<rparr>" and c = c and p = p and outcome = outcome
        and response = response] g trans
    by (auto simp: progresses_def)
  then show ?thesis
    using fetch g assms by (auto simp: visit_page_def Let_def split: sum.splits option.splits)
qed

lemma crawl_iteration_progresses: "progresses R (cs_fetch s) (crawl_iteration W c s)"
proof -
  have now: "observed (cs_fetch (set_now n t)) = observed (cs_fetch t)" for n t
    by (simp add: observed_def set_now_def)
  have "progresses R (cs_fetch s) (visit_page W c p (set_now n (s\<lparr>cs_queue := q\<rparr>)))" for p n q
    using visit_page_progresses [OF HOL.refl, where c = c and p = p and s = "set_now n (s\<lparr>cs_queue := q\<rparr>)"]
    by (simp add: progresses_def now)
  then show ?thesis
    by (auto simp: crawl_iteration_def now refl split: prod.splits option.splits)
qed

lemma crawl_loop_progress:
  assumes "crawl_loop V c s = (r, s')" "V = W"
  shows "R (observed (cs_fetch s)) (observed (cs_fetch s'))"
  using assms
proof (induction V c s rule: crawl_loop.induct)
  case (1 V c s)
  show ?case
  proof (cases "cs_queue s \<noteq> [] \<and> int (length (cs_pages s)) < cp_maximum_pages (cr_policy c)")
    case True
    then show ?thesis
      using 1(1) [OF True] 1(2,3) crawl_iteration_progresses [where s = s and c = c] trans
      by (cases "crawl_iteration W c s") (auto simp: crawl_loop.simps [of W c s])
  next
    case False
    then show ?thesis
      using 1(2,3) by (auto simp: crawl_loop.simps [of W c s] refl)
  qed
qed

lemma crawl_from_progress:
  assumes "crawl_from W c s = (r, s')"
  shows "R (observed (cs_fetch s)) (observed (cs_fetch s'))"
proof -
  obtain r1 s1 where e1: "emit_checkpoint W c s = (r1, s1)" by fastforce
  obtain r2 s2 where l: "crawl_loop W c s1 = (r2, s2)" by fastforce
  obtain reason pending s3 where f: "finish_crawl (projr r2) s2 = (reason, pending, s3)" by (metis prod_cases3)
  obtain r4 s4 where e2: "emit_checkpoint W c s3 = (r4, s4)" by fastforce
  have s3: "cs_fetch s3 = cs_fetch s2"
    using f by (auto simp: finish_crawl_def split: if_splits)
  note steps = emit_checkpoint_progress [OF e1] crawl_loop_progress [OF l HOL.refl]
    emit_checkpoint_progress [OF e2, unfolded s3]
  have "s' = s1 \<or> s' = s2 \<or> s' = s4"
    using assms e1 l f e2 by (auto simp: crawl_from_def split: sum.splits prod.splits)
  then show ?thesis
    using steps trans by blast
qed

lemma crawl_observed:
  assumes "crawl_same_origin W target policy retry resume n h = (r, s)"
  shows "R (h, []) (observed (cs_fetch s))"
proof (cases "bindE (crawl_root_url target policy) (\<lambda>(origin, root_url).
     bindE (initial_state policy root_url resume) (\<lambda>start. Inr (origin, root_url, start)))")
  case (Inl e)
  then show ?thesis
    using assms by (auto simp: crawl_same_origin_def observed_def refl)
next
  case (Inr start)
  then obtain c s0 where "crawl_from W c s0 = (r, s)" "observed (cs_fetch s0) = (h, [])"
    using assms by (cases start rule: prod_cases7) (auto simp: crawl_same_origin_def Let_def observed_def split: prod.splits)
  then show ?thesis
    using crawl_from_progress by metis
qed

end

section \<open>The engine as the crawler's hooks\<close>

text \<open>
  What the engine meets at the \<open>n\<close>-th interaction: the results of the revalidations, the monotonic
  clock, and by how much a pause exceeds what was asked for.
\<close>

record supervision =
  sv_revalidation :: "nat \<Rightarrow> unit result"
  sv_monotonic :: "nat \<Rightarrow> rat"
  sv_second_revalidation :: "nat \<Rightarrow> unit result"
  sv_overshoot :: "nat \<Rightarrow> rat"

definition boundary_at :: "supervision \<Rightarrow> nat \<Rightarrow> safety_engine \<Rightarrow> boundary" where
  "boundary_at V n e =
     (let t = sv_monotonic V n in
      \<lparr>bd_revalidation = sv_revalidation V n, bd_now = t, bd_second_revalidation = sv_second_revalidation V n,
       bd_after_pause = t + max 0 (throttle_delay t e) + \<bar>sv_overshoot V n\<bar>\<rparr>)"

text \<open>The crawl that the executor starts: the engine's hooks around every request; other callbacks do not touch it.\<close>

definition supervise :: "supervision \<Rightarrow> safety_engine crawl_world \<Rightarrow> safety_engine crawl_world" where
  "supervise V W =
     W\<lparr>cw_before_request := (\<lambda>n url e. before_request url ''GET'' (boundary_at V n e) e),
       cw_after_request := (\<lambda>n url response error_code e.
         (Inr (), after_request (map_option hr_status response) error_code e)),
       cw_on_page := (\<lambda>n url response depth parent e. (fst (cw_on_page W n url response depth parent e), e)),
       cw_on_checkpoint := map_option (\<lambda>f n r e. (fst (f n r e), e)) (cw_on_checkpoint W)\<rparr>"

definition engine_grows :: "safety_engine \<times> string list \<Rightarrow> safety_engine \<times> string list \<Rightarrow> bool" where
  "engine_grows x y \<longleftrightarrow>
     (engine_inv (fst x) \<longrightarrow>
        engine_step\<^sup>*\<^sup>* (fst x) (fst y) \<and> se_in_flight (fst y) = se_in_flight (fst x)
        \<and> se_root_origin (fst y) = se_root_origin (fst x)
        \<and> (\<exists>l. snd y = l @ snd x \<and> se_requests_permitted (fst y) = se_requests_permitted (fst x) + int (length l)
              \<and> (\<forall>u \<in> set l. origin u = Inr (se_root_origin (fst x)))))"

lemma engine_grows_refl: "engine_grows x x"
  by (simp add: engine_grows_def)

lemma engine_grows_trans:
  assumes "engine_grows x y" "engine_grows y z"
  shows "engine_grows x z"
  unfolding engine_grows_def
proof
  assume inv: "engine_inv (fst x)"
  then obtain l where xy: "engine_step\<^sup>*\<^sup>* (fst x) (fst y)" "se_in_flight (fst y) = se_in_flight (fst x)"
    "se_root_origin (fst y) = se_root_origin (fst x)" "snd y = l @ snd x"
    "se_requests_permitted (fst y) = se_requests_permitted (fst x) + int (length l)"
    "\<forall>u \<in> set l. origin u = Inr (se_root_origin (fst x))"
    using assms(1) unfolding engine_grows_def by blast
  moreover have "engine_inv (fst y)"
    using engine.steps_inv [OF xy(1) inv] .
  then obtain m where "engine_step\<^sup>*\<^sup>* (fst y) (fst z)" "se_in_flight (fst z) = se_in_flight (fst y)"
    "se_root_origin (fst z) = se_root_origin (fst y)" "snd z = m @ snd y"
    "se_requests_permitted (fst z) = se_requests_permitted (fst y) + int (length m)"
    "\<forall>u \<in> set m. origin u = Inr (se_root_origin (fst y))"
    using assms(2) unfolding engine_grows_def by blast
  ultimately show "engine_step\<^sup>*\<^sup>* (fst x) (fst z) \<and> se_in_flight (fst z) = se_in_flight (fst x)
      \<and> se_root_origin (fst z) = se_root_origin (fst x)
      \<and> (\<exists>l. snd z = l @ snd x \<and> se_requests_permitted (fst z) = se_requests_permitted (fst x) + int (length l)
            \<and> (\<forall>u \<in> set l. origin u = Inr (se_root_origin (fst x))))"
    by (auto intro: rtranclp_trans intro!: exI [of _ "m @ l"])
qed

lemma before_step: "before_request url verb (boundary_at V n e) e = (r, e') \<Longrightarrow> engine_step e e'"
  by (rule engine_step.Before) (auto simp: boundary_at_def Let_def)

lemma refused_grows:
  assumes "before_request url verb (boundary_at V n e) e = (Inl x, e')"
  shows "engine_grows (e, sent) (e', sent)"
proof -
  have "refused e e'"
    using before_request_Inl [OF assms] .
  then show ?thesis
    using before_step [OF assms] by (auto simp: engine_grows_def refused_def charge_def)
qed

lemma request_grows:
  assumes "before_request url verb (boundary_at V n e) e = (Inr u, e')"
  shows "engine_grows (e, sent) (after_request status err e', url # sent)"
  unfolding engine_grows_def
proof
  assume "engine_inv (fst (e, sent))"
  then have flight: "0 \<le> se_in_flight e"
    by (simp add: engine_inv_def budget_inv_def)
  obtain t revalidated paused seconds where
    e': "e' = permit_request t (charge 0 0 revalidated paused seconds e)"
    using before_request_Inr [OF assms] unfolding passed_def Let_def by (metis (no_types))
  have origin: "origin url = Inr (se_root_origin e)"
    using before_request_Inr [OF assms] by (simp add: may_pass_def)
  have "engine_step e' (after_request status err e')"
    using flight by (intro engine_step.After) (simp add: e' permit_request_def charge_def)
  then have steps: "engine_step\<^sup>*\<^sup>* e (after_request status err e')"
    using before_step [OF assms] by (meson converse_rtranclp_into_rtranclp r_into_rtranclp)
  have "se_in_flight (after_request status err e') = se_in_flight e"
    "se_root_origin (after_request status err e') = se_root_origin e"
    "se_requests_permitted (after_request status err e') = se_requests_permitted e + 1"
    using flight
    by (auto simp: e' after_request_def count_response_def Let_def permit_request_def charge_def split: option.splits)
  then show "engine_step\<^sup>*\<^sup>* (fst (e, sent)) (fst (after_request status err e', url # sent))
      \<and> se_in_flight (fst (after_request status err e', url # sent)) = se_in_flight (fst (e, sent))
      \<and> se_root_origin (fst (after_request status err e', url # sent)) = se_root_origin (fst (e, sent))
      \<and> (\<exists>l. snd (after_request status err e', url # sent) = l @ snd (e, sent)
            \<and> se_requests_permitted (fst (after_request status err e', url # sent))
                = se_requests_permitted (fst (e, sent)) + int (length l)
            \<and> (\<forall>u \<in> set l. origin u = Inr (se_root_origin (fst (e, sent)))))"
    using steps origin by (auto intro!: exI [of _ "[url]"])
qed

interpretation supervised: crawl_progress "supervise V W" engine_grows for V W
  by unfold_locales
    (auto simp: supervise_def engine_grows_refl intro: engine_grows_trans refused_grows request_grows)

section \<open>A supervised crawl\<close>

definition ex_site_world :: "safety_engine crawl_world" where
  "ex_site_world =
     \<lparr>cw_monotonic = (\<lambda>_. 0), cw_cancelled = (\<lambda>_. False), cw_utc_now = (\<lambda>_. 0),
      cw_fetch_once = (\<lambda>_ _. Inl ''connection_timeout''),
      cw_before_request = (\<lambda>_ _ e. (Inr (), e)), cw_after_request = (\<lambda>_ _ _ _ e. (Inr (), e)),
      cw_on_page = (\<lambda>_ _ _ _ _ e. (Inr (), e)), cw_on_checkpoint = None, cw_start_tags = (\<lambda>_. [])\<rparr>"

definition ex_supervision :: supervision where
  "ex_supervision =
     \<lparr>sv_revalidation = (\<lambda>_. Inr ()), sv_monotonic = of_nat, sv_second_revalidation = (\<lambda>_. Inr ()),
      sv_overshoot = (\<lambda>_. 0)\<rparr>"

abbreviation ex_supervised_crawl :: "crawl_execution result \<times> safety_engine crawl_state" where
  "ex_supervised_crawl \<equiv>
     crawl_same_origin (supervise ex_supervision ex_site_world)
       \<lparr>vt_original_url = ''https://example.com/'', vt_normalised_url = ''https://example.com/'', vt_scheme = ''https'',
        vt_hostname = ''example.com'', vt_port = 443, vt_resolved_addresses = [''93.184.216.34'']\<rparr>
       \<lparr>cp_maximum_pages = 2, cp_maximum_depth = 1, cp_maximum_links_per_page = 10, cp_minimum_delay_seconds = 0,
        cp_query_mode = QUERY_DROP, cp_maximum_url_length = 2048, cp_maximum_execution_seconds = 60,
        cp_maximum_request_attempts = 4, cp_allowed_content_types = [''text/html''],
        cp_blocked_path_segments = [''logout'']\<rparr>
       (RetryPolicy_default\<lparr>rt_maximum_attempts := 2\<rparr>) None 0 ex_engine"

lemma ex_supervised_sent: "length (fs_sent (cs_fetch (snd ex_supervised_crawl))) = 2"
  by code_simp

section \<open>Supervised crawls\<close>

text \<open>
  C26. A crawl whose requests pass the safety engine respects the permit as well as its own policy: the
  engine ends in a state that its calls can produce, with every request accounted for and none in
  flight that was not before, each request that was sent is one that the engine permitted, so that there are no more
  than the permit grants, and every URL lies on the origin the permit names.
\<close>

theorem supervised_crawl:
  assumes "crawl_same_origin (supervise V W) target policy retry resume n e0 = (r, s)"
    and "reachable engine_start engine_step e0"
  shows "reachable engine_start engine_step (fs_hooks (cs_fetch s))
    \<and> se_in_flight (fs_hooks (cs_fetch s)) = se_in_flight e0
    \<and> int (length (fs_sent (cs_fetch s))) = se_requests_permitted (fs_hooks (cs_fetch s)) - se_requests_permitted e0
    \<and> se_requests_permitted (fs_hooks (cs_fetch s)) \<le> pc_maximum_request_attempts (engine_claims e0)
    \<and> (\<forall>u \<in> set (fs_sent (cs_fetch s)). origin u = Inr (se_root_origin e0))"
proof -
  let ?e = "fs_hooks (cs_fetch s)"
  have inv: "engine_inv e0"
    using engine.reachable_inv [OF assms(2)] .
  have grows: "engine_grows (e0, []) (?e, fs_sent (cs_fetch s))"
    using supervised.crawl_observed [OF assms(1)] by (simp add: observed_def)
  then have steps: "engine_step\<^sup>*\<^sup>* e0 ?e"
    using inv by (simp add: engine_grows_def)
  have "reachable engine_start engine_step ?e"
    using assms(2) steps unfolding reachable_def by (meson rtranclp_trans)
  moreover have "engine_inv ?e" "engine_later e0 ?e"
    using engine.steps_inv [OF steps inv] engine.steps_rel [OF steps inv] .
  ultimately show ?thesis
    using grows inv by (auto simp: engine_grows_def engine_inv_def budget_inv_def engine_later_def)
qed

theorem supervised_crawl_witness:
  "int (length (fs_sent (cs_fetch (snd ex_supervised_crawl)))) = 2
   \<and> se_requests_permitted (fs_hooks (cs_fetch (snd ex_supervised_crawl))) - se_requests_permitted ex_engine = 2"
proof -
  have reach: "reachable engine_start engine_step ex_engine"
    by (rule reachable_init) (rule ex_engine_start)
  show ?thesis
    using supervised_crawl [OF prod.collapse [symmetric] reach, where V = ex_supervision and W = ex_site_world]
      ex_supervised_sent
    by (metis of_nat_numeral)
qed

end
