(* ===== verification/Tenancy.thy ===== *)
theory Tenancy
  imports Contract_Text
begin

text \<open>
  The tenancy contracts (\<^verbatim>\<open>webguard_contracts/tenancy.py\<close>): organizations, principals, the metadata
  of API tokens, module entitlements and security audit events, each with every check of its
  constructor. Checks of Python types hold by the types.

  Case folding leaves Latin-1: a folded text is a list of code points.
\<close>

section \<open>Definitions\<close>

definition tn_error :: "string \<Rightarrow> exn" where
  "tn_error code = TenancyContractError code"

definition tenancy_uuid :: "string \<Rightarrow> string result" where
  "tenancy_uuid value = canonical_uuid tn_error ''tenancy'' value"

definition tenancy_text :: "nat \<Rightarrow> string \<Rightarrow> string result" where
  "tenancy_text maximum value = bounded_text tn_error ''tenancy'' maximum value"

subsection \<open>Folded text and e-mail addresses\<close>

type_synonym codes = "nat list"

definition codes :: "string \<Rightarrow> codes" where
  "codes s = map of_char s"

definition code_isspace :: "nat \<Rightarrow> bool" where
  "code_isspace n \<longleftrightarrow> 9 \<le> n \<and> n \<le> 13 \<or> 28 \<le> n \<and> n \<le> 32 \<or> n = 133 \<or> n = 160"

definition strip_codes :: "codes \<Rightarrow> codes" where
  "strip_codes s = rev (dropWhile code_isspace (rev (dropWhile code_isspace s)))"

text \<open>\<^verbatim>\<open>str.casefold\<close>: the sharp s becomes two letters and the micro sign a Greek letter.\<close>

definition casefold_code :: "nat \<Rightarrow> codes" where
  "casefold_code n =
     (if n = 223 then [115, 115] else if n = 181 then [956]
      else if 65 \<le> n \<and> n \<le> 90 \<or> 192 \<le> n \<and> n \<le> 222 \<and> n \<noteq> 215 then [n + 32] else [n])"

definition casefold :: "codes \<Rightarrow> codes" where
  "casefold s = concat (map casefold_code s)"

text \<open>\<^verbatim>\<open>[^\s@]+@[^\s@]+\.[^\s@]+\<close>.\<close>

definition email_match :: "codes \<Rightarrow> bool" where
  "email_match s \<longleftrightarrow>
     (let local_part = takeWhile (\<lambda>c. c \<noteq> 64) s; domain = drop (length local_part + 1) s in
      local_part \<noteq> [] \<and> 64 \<in> set s \<and> 64 \<notin> set domain \<and> \<not> list_ex code_isspace s
      \<and> length domain \<ge> 3 \<and> 46 \<in> set (butlast (tl domain)))"

definition MAXIMUM_EMAIL_LENGTH :: nat where
  "MAXIMUM_EMAIL_LENGTH = 254"

definition tenancy_email :: "codes \<Rightarrow> codes result" where
  "tenancy_email value =
     (let cleaned = casefold (strip_codes value) in
      raise_if (cleaned = [] \<or> length cleaned > MAXIMUM_EMAIL_LENGTH \<or> \<not> email_match cleaned)
        (tn_error ''tenancy_email_invalid'') (Inr cleaned))"

definition tenancy_identifier :: "nat \<Rightarrow> string \<Rightarrow> string result" where
  "tenancy_identifier maximum value =
     bindE (tenancy_text maximum value) (\<lambda>text.
       let cleaned = py_lower text in
       raise_if (\<not> error_code_match cleaned) (tn_error ''tenancy_identifier_invalid'') (Inr cleaned))"

subsection \<open>Organizations and principals\<close>

datatype organization_status = ORG_ACTIVE | ORG_DISABLED
datatype principal_type = USER | SERVICE_ACCOUNT
datatype organization_role = OWNER | ADMINISTRATOR | ANALYST | VIEWER
datatype audit_outcome = AUDIT_SUCCEEDED | AUDIT_DENIED | AUDIT_FAILED

record organization =
  og_organization_id :: string
  og_name :: string
  og_status :: organization_status
  og_created_at :: time

definition Organization_post_init :: "organization \<Rightarrow> organization result" where
  "Organization_post_init o1 =
     bindE (tenancy_uuid (og_organization_id o1)) (\<lambda>_.
     bindE (tenancy_text 120 (og_name o1)) (\<lambda>name.
       Inr (o1\<lparr>og_name := name\<rparr>)))"

record principal =
  pn_principal_id :: string
  pn_organization_id :: string
  pn_display_name :: string
  pn_principal_type :: principal_type
  pn_role :: organization_role
  pn_active :: bool
  pn_created_at :: time
  pn_email :: "codes option"
  pn_email_verified_at :: "time option"
  pn_last_login_at :: "time option"

definition Principal_post_init :: "principal \<Rightarrow> principal result" where
  "Principal_post_init p =
     bindE (tenancy_uuid (pn_principal_id p)) (\<lambda>_.
     bindE (tenancy_uuid (pn_organization_id p)) (\<lambda>_.
     bindE (tenancy_text 120 (pn_display_name p)) (\<lambda>display_name.
     bindE (mapE_option tenancy_email (pn_email p)) (\<lambda>email.
       Inr (p\<lparr>pn_display_name := display_name, pn_email := email\<rparr>)))))"

subsection \<open>API tokens\<close>

record api_token_metadata =
  at_token_id :: string
  at_organization_id :: string
  at_principal_id :: string
  at_label :: string
  at_created_at :: time
  at_expires_at :: time
  at_revoked_at :: "time option"
  at_last_used_at :: "time option"

definition ApiTokenMetadata_post_init :: "api_token_metadata \<Rightarrow> api_token_metadata result" where
  "ApiTokenMetadata_post_init t =
     bindE (tenancy_uuid (at_token_id t)) (\<lambda>_.
     bindE (tenancy_uuid (at_organization_id t)) (\<lambda>_.
     bindE (tenancy_uuid (at_principal_id t)) (\<lambda>_.
     bindE (tenancy_text 120 (at_label t)) (\<lambda>label.
     raise_if (at_expires_at t \<le> at_created_at t) (tn_error ''token_expiry_invalid'')
     (Inr (t\<lparr>at_label := label\<rparr>))))))"

definition api_token_active :: "api_token_metadata \<Rightarrow> bool" where
  "api_token_active t \<longleftrightarrow> at_revoked_at t = None"

subsection \<open>Module entitlements\<close>

datatype platform_module = WEBGUARD | SOC | COMPLIANCE
datatype entitlement_status = ENTITLEMENT_ENABLED | ENTITLEMENT_DISABLED | ENTITLEMENT_TRIAL

record module_entitlement =
  me_organization_id :: string
  me_module :: platform_module
  me_status :: entitlement_status
  me_updated_at :: time
  me_enabled_at :: "time option"
  me_enabled_by :: "string option"
  me_disabled_at :: "time option"
  me_disabled_by :: "string option"

definition ModuleEntitlement_post_init :: "module_entitlement \<Rightarrow> module_entitlement result" where
  "ModuleEntitlement_post_init e =
     bindE (tenancy_uuid (me_organization_id e)) (\<lambda>_.
     bindE (mapE_option tenancy_uuid (me_enabled_by e)) (\<lambda>_.
     bindE (mapE_option tenancy_uuid (me_disabled_by e)) (\<lambda>_. Inr e)))"

subsection \<open>Audit events\<close>

record audit_event =
  ae_event_id :: string
  ae_request_id :: string
  ae_organization_id :: string
  ae_principal_id :: string
  ae_token_id :: string
  ae_action :: string
  ae_resource_type :: string
  ae_resource_id :: string
  ae_outcome :: audit_outcome
  ae_occurred_at :: time
  ae_detail_code :: "string option"

definition SecurityAuditEvent_post_init :: "audit_event \<Rightarrow> audit_event result" where
  "SecurityAuditEvent_post_init e =
     bindE (mapE tenancy_uuid [ae_event_id e, ae_request_id e, ae_organization_id e, ae_principal_id e, ae_token_id e]) (\<lambda>_.
     bindE (tenancy_identifier 128 (ae_action e)) (\<lambda>action.
     bindE (tenancy_identifier 128 (ae_resource_type e)) (\<lambda>resource_type.
     bindE (tenancy_text 128 (ae_resource_id e)) (\<lambda>resource_id.
     bindE (mapE_option (tenancy_identifier 128) (ae_detail_code e)) (\<lambda>detail_code.
       Inr (e\<lparr>ae_action := action, ae_resource_type := resource_type, ae_resource_id := resource_id,
              ae_detail_code := detail_code\<rparr>))))))"

subsection \<open>Public documents\<close>

primrec org_status_value :: "organization_status \<Rightarrow> string" where
  "org_status_value ORG_ACTIVE = ''active''"
| "org_status_value ORG_DISABLED = ''disabled''"

primrec role_value :: "organization_role \<Rightarrow> string" where
  "role_value OWNER = ''owner''"
| "role_value ADMINISTRATOR = ''administrator''"
| "role_value ANALYST = ''analyst''"
| "role_value VIEWER = ''viewer''"

primrec audit_outcome_value :: "audit_outcome \<Rightarrow> string" where
  "audit_outcome_value AUDIT_SUCCEEDED = ''succeeded''"
| "audit_outcome_value AUDIT_DENIED = ''denied''"
| "audit_outcome_value AUDIT_FAILED = ''failed''"

primrec module_value :: "platform_module \<Rightarrow> string" where
  "module_value WEBGUARD = ''webguard''"
| "module_value SOC = ''soc''"
| "module_value COMPLIANCE = ''compliance''"

primrec entitlement_status_value :: "entitlement_status \<Rightarrow> string" where
  "entitlement_status_value ENTITLEMENT_ENABLED = ''enabled''"
| "entitlement_status_value ENTITLEMENT_DISABLED = ''disabled''"
| "entitlement_status_value ENTITLEMENT_TRIAL = ''trial''"

definition json_time :: "time option \<Rightarrow> json" where
  "json_time t = (case t of None \<Rightarrow> JNull | Some x \<Rightarrow> JStr (timestamp_text x))"

definition json_text :: "string option \<Rightarrow> json" where
  "json_text t = (case t of None \<Rightarrow> JNull | Some x \<Rightarrow> JStr x)"

definition Organization_to_dict :: "organization \<Rightarrow> json" where
  "Organization_to_dict o1 =
     JObj [(''type'', JStr ''organization''), (''schema_version'', JStr ''1.0''),
           (''organization_id'', JStr (og_organization_id o1)), (''name'', JStr (og_name o1)),
           (''status'', JStr (org_status_value (og_status o1))),
           (''created_at'', JStr (timestamp_text (og_created_at o1)))]"

definition ApiTokenMetadata_to_dict :: "api_token_metadata \<Rightarrow> json" where
  "ApiTokenMetadata_to_dict t =
     JObj [(''type'', JStr ''api_token_metadata''), (''schema_version'', JStr ''1.0''),
           (''token_id'', JStr (at_token_id t)), (''organization_id'', JStr (at_organization_id t)),
           (''principal_id'', JStr (at_principal_id t)), (''label'', JStr (at_label t)),
           (''created_at'', JStr (timestamp_text (at_created_at t))),
           (''expires_at'', JStr (timestamp_text (at_expires_at t))),
           (''revoked_at'', json_time (at_revoked_at t)), (''last_used_at'', json_time (at_last_used_at t))]"

definition ModuleEntitlement_to_dict :: "module_entitlement \<Rightarrow> json" where
  "ModuleEntitlement_to_dict e =
     JObj [(''type'', JStr ''module_entitlement''), (''schema_version'', JStr ''1.0''),
           (''organization_id'', JStr (me_organization_id e)), (''module'', JStr (module_value (me_module e))),
           (''status'', JStr (entitlement_status_value (me_status e))),
           (''updated_at'', JStr (timestamp_text (me_updated_at e))),
           (''enabled_at'', json_time (me_enabled_at e)), (''enabled_by'', json_text (me_enabled_by e)),
           (''disabled_at'', json_time (me_disabled_at e)), (''disabled_by'', json_text (me_disabled_by e))]"

definition SecurityAuditEvent_to_dict :: "audit_event \<Rightarrow> json" where
  "SecurityAuditEvent_to_dict e =
     JObj [(''type'', JStr ''security_audit_event''), (''schema_version'', JStr ''1.0''),
           (''event_id'', JStr (ae_event_id e)), (''request_id'', JStr (ae_request_id e)),
           (''organization_id'', JStr (ae_organization_id e)), (''principal_id'', JStr (ae_principal_id e)),
           (''token_id'', JStr (ae_token_id e)), (''action'', JStr (ae_action e)),
           (''resource_type'', JStr (ae_resource_type e)), (''resource_id'', JStr (ae_resource_id e)),
           (''outcome'', JStr (audit_outcome_value (ae_outcome e))),
           (''occurred_at'', JStr (timestamp_text (ae_occurred_at e))), (''detail_code'', json_text (ae_detail_code e))]"

section \<open>A stored value is accepted again\<close>

text \<open>What a constructor returns, it accepts unchanged; so every row a store writes can be read back.\<close>

lemma tenancy_uuid_Inr [exn_simps]: "tenancy_uuid v = Inr w \<longleftrightarrow> w = v \<and> uuid_shape v"
  by (simp add: tenancy_uuid_def canonical_uuid_Inr)

lemma tenancy_text_idem: "tenancy_text m v = Inr w \<Longrightarrow> tenancy_text m w = Inr w"
  unfolding tenancy_text_def by (rule bounded_text_idem)

lemma dropWhile_none: "\<forall>x \<in> set s. \<not> P x \<Longrightarrow> dropWhile P s = s"
  by (cases s) auto

lemma strip_codes_id: "\<not> list_ex code_isspace s \<Longrightarrow> strip_codes s = s"
  by (simp add: strip_codes_def list_ex_iff dropWhile_none)

lemma casefold_code_idem: "m \<in> set (casefold_code n) \<Longrightarrow> casefold_code m = [m]"
  by (auto simp: casefold_code_def split: if_splits)

lemma concat_singletons: "(\<And>x. x \<in> set xs \<Longrightarrow> f x = [x]) \<Longrightarrow> concat (map f xs) = xs"
  by (induction xs) auto

lemma casefold_idem: "casefold (casefold s) = casefold s"
  unfolding casefold_def by (rule concat_singletons) (auto dest: casefold_code_idem)

lemma tenancy_email_idem: "tenancy_email v = Inr w \<Longrightarrow> tenancy_email w = Inr w"
  by (auto simp: tenancy_email_def Let_def exn_simps email_match_def strip_codes_id casefold_idem)

lemma tenancy_identifier_error_code:
  "tenancy_identifier 128 v = Inr w \<longleftrightarrow> error_code_text tn_error ''tenancy'' v = Inr w"
  by (auto simp: tenancy_identifier_def error_code_text_def tenancy_text_def Let_def exn_simps)

lemma tenancy_identifier_idem: "tenancy_identifier 128 v = Inr w \<Longrightarrow> tenancy_identifier 128 w = Inr w"
  unfolding tenancy_identifier_error_code by (rule error_code_text_idem)

lemma Organization_idem: "Organization_post_init r = Inr v \<Longrightarrow> Organization_post_init v = Inr v"
  by (auto simp: Organization_post_init_def exn_simps dest: tenancy_text_idem)

lemma Principal_idem:
  assumes "Principal_post_init r = Inr v"
  shows "Principal_post_init v = Inr v"
proof -
  obtain name email where v: "tenancy_text 120 (pn_display_name r) = Inr name"
    "mapE_option tenancy_email (pn_email r) = Inr email" "uuid_shape (pn_principal_id r)" "uuid_shape (pn_organization_id r)"
    "v = r\<lparr>pn_display_name := name, pn_email := email\<rparr>"
    using assms by (auto simp: Principal_post_init_def bindE_eq_Inr tenancy_uuid_Inr)
  have "mapE_option tenancy_email email = Inr email"
    using mapE_option_idem [OF tenancy_email_idem v(2)] .
  then show ?thesis
    using v tenancy_text_idem [OF v(1)] by (simp add: Principal_post_init_def tenancy_uuid_Inr [THEN iffD2])
qed

lemma ApiTokenMetadata_idem: "ApiTokenMetadata_post_init r = Inr v \<Longrightarrow> ApiTokenMetadata_post_init v = Inr v"
  by (auto simp: ApiTokenMetadata_post_init_def exn_simps dest: tenancy_text_idem)

lemma SecurityAuditEvent_idem:
  assumes "SecurityAuditEvent_post_init r = Inr v"
  shows "SecurityAuditEvent_post_init v = Inr v"
proof -
  obtain action type1 resource detail where v: "tenancy_identifier 128 (ae_action r) = Inr action"
    "tenancy_identifier 128 (ae_resource_type r) = Inr type1" "tenancy_text 128 (ae_resource_id r) = Inr resource"
    "mapE_option (tenancy_identifier 128) (ae_detail_code r) = Inr detail"
    "v = r\<lparr>ae_action := action, ae_resource_type := type1, ae_resource_id := resource, ae_detail_code := detail\<rparr>"
    and ids: "\<exists>us. mapE tenancy_uuid [ae_event_id r, ae_request_id r, ae_organization_id r, ae_principal_id r, ae_token_id r] = Inr us"
    using assms by (auto simp: SecurityAuditEvent_post_init_def bindE_eq_Inr)
  have "mapE_option (tenancy_identifier 128) detail = Inr detail"
    using mapE_option_idem [OF tenancy_identifier_idem v(4)] .
  then show ?thesis
    using v(5) ids tenancy_identifier_idem [OF v(1)] tenancy_identifier_idem [OF v(2)] tenancy_text_idem [OF v(3)]
    by (auto simp: SecurityAuditEvent_post_init_def)
qed

end
