(* ===== verification/Identity_Store.thy ===== *)
theory Identity_Store
  imports Tenancy Py_Net
begin

text \<open>
  The identity store (\<^verbatim>\<open>webguard_api/identity.py\<close>): organizations, principals, password hashes,
  single-use identity tokens, API tokens, assigned authorizations and the audit log, as tables of one
  SQLite database. Every statement is a transaction of its own, so an operation that reads and then
  writes is given with its two parts. Random bytes, fresh identifiers and the clock are arguments; a
  failure of SQLite other than a violated constraint is not modelled.

  A secret hash \<^verbatim>\<open>scrypt$n$r$p$salt$digest\<close> is the record of its fields.
\<close>

section \<open>Secrets and tokens\<close>

type_synonym kdf = "string \<Rightarrow> nat list \<Rightarrow> nat \<Rightarrow> nat \<Rightarrow> nat \<Rightarrow> nat \<Rightarrow> nat list"

record secret_hash =
  sh_n :: nat
  sh_r :: nat
  sh_p :: nat
  sh_salt :: "nat list"
  sh_digest :: "nat list"

definition is_error :: "string \<Rightarrow> exn" where
  "is_error code = IdentityStoreError code"

definition hash_secret :: "kdf \<Rightarrow> nat list \<Rightarrow> string \<Rightarrow> secret_hash" where
  "hash_secret scrypt salt secret =
     \<lparr>sh_n = 16384, sh_r = 8, sh_p = 1, sh_salt = salt, sh_digest = scrypt secret salt 16384 8 1 32\<rparr>"

definition verify_secret :: "kdf \<Rightarrow> string \<Rightarrow> secret_hash \<Rightarrow> bool" where
  "verify_secret scrypt secret h \<longleftrightarrow>
     scrypt secret (sh_salt h) (sh_n h) (sh_r h) (sh_p h) (length (sh_digest h)) = sh_digest h"

text \<open>\<^verbatim>\<open>split("_", 2)\<close>.\<close>

definition split_token :: "string \<Rightarrow> string list" where
  "split_token token =
     (case str_partition (CHR ''_'') token of
        (a, False, _) \<Rightarrow> [a]
      | (a, True, rest) \<Rightarrow>
          (case str_partition (CHR ''_'') rest of
             (b, False, _) \<Rightarrow> [a, b]
           | (b, True, c) \<Rightarrow> [a, b, c]))"

definition token_parts :: "string \<Rightarrow> (string \<times> string) result" where
  "token_parts token =
     (case split_token token of
        [prefix, token_id, secret] \<Rightarrow>
          raise_if (prefix \<noteq> ''wgt'' \<or> secret = []) (is_error ''api_token_invalid'')
          (case ApiTokenMetadata_post_init
                 \<lparr>at_token_id = token_id, at_organization_id = ''00000000-0000-0000-0000-000000000000'',
                  at_principal_id = ''00000000-0000-0000-0000-000000000000'', at_label = ''validation'',
                  at_created_at = 946684800 * microseconds, at_expires_at = 946771200 * microseconds,
                  at_revoked_at = None, at_last_used_at = None\<rparr> of
             Inl _ \<Rightarrow> Inl (is_error ''api_token_invalid'')
           | Inr metadata \<Rightarrow> Inr (at_token_id metadata, secret))
      | _ \<Rightarrow> Inl (is_error ''api_token_invalid''))"

definition parse_prefixed_secret :: "string \<Rightarrow> string \<Rightarrow> string \<Rightarrow> (string \<times> string) result" where
  "parse_prefixed_secret prefix error_code token =
     (case split_token token of
        [p, identifier, secret] \<Rightarrow>
          raise_if (p \<noteq> prefix \<or> secret = []) (is_error error_code)
          (case canonical_uuid is_error error_code identifier of
             Inl _ \<Rightarrow> Inl (is_error error_code)
           | Inr canonical \<Rightarrow> Inr (canonical, secret))
      | _ \<Rightarrow> Inl (is_error error_code))"

section \<open>The database\<close>

datatype token_purpose = EMAIL_VERIFICATION | PASSWORD_RESET | INVITATION

record organization_row = organization +
  og_name_key :: codes

record api_token_row = api_token_metadata +
  at_secret_hash :: secret_hash

record identity_token =
  it_token_id :: string
  it_principal_id :: string
  it_organization_id :: string
  it_purpose :: token_purpose
  it_secret_hash :: secret_hash
  it_created_at :: time
  it_expires_at :: time
  it_used_at :: "time option"

record password_row =
  pw_principal_id :: string
  pw_algorithm :: string
  pw_password_hash :: string
  pw_created_at :: time
  pw_updated_at :: time

record identity_db =
  organizations :: "organization_row list"
  principals :: "principal list"
  password_credentials :: "password_row list"
  identity_tokens :: "identity_token list"
  api_tokens :: "api_token_row list"
  assigned_authorizations :: "(string \<times> string \<times> string \<times> time) list"
  audit_events :: "audit_event list"

definition empty_identity_db :: identity_db where
  "empty_identity_db =
     \<lparr>organizations = [], principals = [], password_credentials = [], identity_tokens = [], api_tokens = [],
      assigned_authorizations = [], audit_events = []\<rparr>"

type_synonym 'a idop = "identity_db \<Rightarrow> 'a result \<times> identity_db"

definition find_organization :: "string \<Rightarrow> identity_db \<Rightarrow> organization_row option" where
  "find_organization i db = sql_find (\<lambda>o1. og_organization_id o1 = i) (organizations db)"

definition find_principal :: "string \<Rightarrow> identity_db \<Rightarrow> principal option" where
  "find_principal i db = sql_find (\<lambda>p. pn_principal_id p = i) (principals db)"

definition find_api_token :: "string \<Rightarrow> identity_db \<Rightarrow> api_token_row option" where
  "find_api_token i db = sql_find (\<lambda>t. at_token_id t = i) (api_tokens db)"

definition find_identity_token :: "string \<Rightarrow> identity_db \<Rightarrow> identity_token option" where
  "find_identity_token i db = sql_find (\<lambda>t. it_token_id t = i) (identity_tokens db)"

text \<open>A row that its contract rejects.\<close>

definition persisted :: "'a result \<Rightarrow> 'a result" where
  "persisted m = (case m of Inl _ \<Rightarrow> Inl (is_error ''identity_persisted_state_invalid'') | Inr x \<Rightarrow> Inr x)"

definition organization_from_row :: "organization_row \<Rightarrow> organization result" where
  "organization_from_row r = persisted (Organization_post_init (organization.truncate r))"

definition principal_from_row :: "principal \<Rightarrow> principal result" where
  "principal_from_row r = persisted (Principal_post_init r)"

definition token_metadata :: "api_token_row \<Rightarrow> api_token_metadata result" where
  "token_metadata r = persisted (ApiTokenMetadata_post_init (api_token_metadata.truncate r))"

definition audit_event_from_row :: "audit_event \<Rightarrow> audit_event result" where
  "audit_event_from_row r = persisted (SecurityAuditEvent_post_init r)"

section \<open>Organizations and principals\<close>

definition create_organization :: "string \<Rightarrow> string \<Rightarrow> time \<Rightarrow> organization idop" where
  "create_organization organization_id name now db =
     (case Organization_post_init
             \<lparr>og_organization_id = organization_id, og_name = name, og_status = ORG_ACTIVE, og_created_at = now\<rparr> of
        Inl e \<Rightarrow> (Inl e, db)
      | Inr value \<Rightarrow>
          (let key = casefold (codes (og_name value)) in
           if list_ex (\<lambda>o1. og_organization_id o1 = og_organization_id value \<or> og_name_key o1 = key) (organizations db)
           then (Inl (is_error ''organization_conflict''), db)
           else (Inr value, db\<lparr>organizations := organizations db @
                   [organization.extend value (organization_row.fields key)]\<rparr>)))"

definition get_organization :: "string \<Rightarrow> identity_db \<Rightarrow> organization result" where
  "get_organization organization_id db =
     (case find_organization organization_id db of
        None \<Rightarrow> Inl (is_error ''organization_not_found'')
      | Some row \<Rightarrow> organization_from_row row)"

definition principal_conflict :: "principal \<Rightarrow> identity_db \<Rightarrow> bool" where
  "principal_conflict value db \<longleftrightarrow>
     list_ex (\<lambda>p. pn_principal_id p = pn_principal_id value
                  \<or> pn_email value \<noteq> None \<and> pn_email p = pn_email value) (principals db)
     \<or> find_organization (pn_organization_id value) db = None"

definition create_principal ::
  "string \<Rightarrow> string \<Rightarrow> string \<Rightarrow> principal_type \<Rightarrow> organization_role \<Rightarrow> time \<Rightarrow> codes option \<Rightarrow> principal idop" where
  "create_principal principal_id organization_id display_name ptype role now email db =
     (case bindE (get_organization organization_id db) (\<lambda>organization.
             raise_if (og_status organization \<noteq> ORG_ACTIVE) (is_error ''organization_disabled'')
             (Principal_post_init
               \<lparr>pn_principal_id = principal_id, pn_organization_id = og_organization_id organization,
                pn_display_name = display_name, pn_principal_type = ptype, pn_role = role, pn_active = True,
                pn_created_at = now, pn_email = email, pn_email_verified_at = None, pn_last_login_at = None\<rparr>)) of
        Inl e \<Rightarrow> (Inl e, db)
      | Inr value \<Rightarrow>
          if principal_conflict value db
          then (Inl (is_error (if pn_email value \<noteq> None then ''principal_email_conflict'' else ''principal_conflict'')), db)
          else (Inr value, db\<lparr>principals := principals db @ [value]\<rparr>))"

definition get_principal :: "string \<Rightarrow> identity_db \<Rightarrow> principal result" where
  "get_principal principal_id db =
     (case find_principal principal_id db of
        None \<Rightarrow> Inl (is_error ''principal_not_found'')
      | Some row \<Rightarrow> principal_from_row row)"

definition get_principal_scoped :: "string \<Rightarrow> string \<Rightarrow> identity_db \<Rightarrow> principal result" where
  "get_principal_scoped principal_id organization_id db =
     bindE (get_principal principal_id db) (\<lambda>p.
       raise_if (pn_organization_id p \<noteq> organization_id) (is_error ''principal_not_found'') (Inr p))"

definition list_principals :: "string \<Rightarrow> identity_db \<Rightarrow> principal list result" where
  "list_principals organization_id db =
     mapE principal_from_row
       (sql_order pn_created_at (filter (\<lambda>p. pn_organization_id p = organization_id) (principals db)))"

definition update_principal ::
  "string \<Rightarrow> string \<Rightarrow> (principal \<Rightarrow> principal) \<Rightarrow> principal idop" where
  "update_principal principal_id organization_id change db =
     (case get_principal_scoped principal_id organization_id db of
        Inl e \<Rightarrow> (Inl e, db)
      | Inr p \<Rightarrow>
          (Principal_post_init (change p),
           db\<lparr>principals := sql_update (\<lambda>r. pn_principal_id r = principal_id \<and> pn_organization_id r = organization_id)
                 change (principals db)\<rparr>))"

definition update_principal_role :: "string \<Rightarrow> string \<Rightarrow> organization_role \<Rightarrow> principal idop" where
  "update_principal_role principal_id organization_id role =
     update_principal principal_id organization_id (\<lambda>p. p\<lparr>pn_role := role\<rparr>)"

definition set_principal_active :: "string \<Rightarrow> string \<Rightarrow> bool \<Rightarrow> principal idop" where
  "set_principal_active principal_id organization_id active =
     update_principal principal_id organization_id (\<lambda>p. p\<lparr>pn_active := active\<rparr>)"

definition get_principal_by_email :: "codes \<Rightarrow> identity_db \<Rightarrow> principal option result" where
  "get_principal_by_email email db =
     (case sql_find (\<lambda>p. pn_email p = Some (casefold (strip_codes email))) (principals db) of
        None \<Rightarrow> Inr None
      | Some row \<Rightarrow> bindE (principal_from_row row) (\<lambda>p. Inr (Some p)))"

definition set_principal_email_verified :: "string \<Rightarrow> time \<Rightarrow> principal idop" where
  "set_principal_email_verified principal_id now db =
     (case get_principal principal_id db of
        Inl e \<Rightarrow> (Inl e, db)
      | Inr p \<Rightarrow>
          (Principal_post_init (p\<lparr>pn_email_verified_at := Some now\<rparr>),
           db\<lparr>principals := sql_update (\<lambda>r. pn_principal_id r = principal_id)
                 (\<lambda>r. r\<lparr>pn_email_verified_at := Some now\<rparr>) (principals db)\<rparr>))"

definition touch_last_login :: "string \<Rightarrow> time \<Rightarrow> unit idop" where
  "touch_last_login principal_id now db =
     (Inr (), db\<lparr>principals := sql_update (\<lambda>r. pn_principal_id r = principal_id)
                 (\<lambda>r. r\<lparr>pn_last_login_at := Some now\<rparr>) (principals db)\<rparr>)"

definition set_password_hash :: "string \<Rightarrow> string \<Rightarrow> string \<Rightarrow> time \<Rightarrow> unit idop" where
  "set_password_hash principal_id algorithm password_hash now db =
     (if find_principal principal_id db = None then (Inl (is_error ''password_credential_write_failed''), db)
      else if list_ex (\<lambda>r. pw_principal_id r = principal_id) (password_credentials db)
      then (Inr (), db\<lparr>password_credentials := sql_update (\<lambda>r. pw_principal_id r = principal_id)
             (\<lambda>r. r\<lparr>pw_algorithm := algorithm, pw_password_hash := password_hash, pw_updated_at := now\<rparr>)
             (password_credentials db)\<rparr>)
      else (Inr (), db\<lparr>password_credentials := password_credentials db @
             [\<lparr>pw_principal_id = principal_id, pw_algorithm = algorithm, pw_password_hash = password_hash,
               pw_created_at = now, pw_updated_at = now\<rparr>]\<rparr>))"

definition get_password_hash :: "string \<Rightarrow> identity_db \<Rightarrow> string option" where
  "get_password_hash principal_id db =
     map_option pw_password_hash (sql_find (\<lambda>r. pw_principal_id r = principal_id) (password_credentials db))"

section \<open>Identity tokens\<close>

definition create_identity_token ::
  "kdf \<Rightarrow> nat list \<Rightarrow> string \<Rightarrow> string \<Rightarrow> string \<Rightarrow> string \<Rightarrow> token_purpose \<Rightarrow> time \<Rightarrow> time \<Rightarrow> (identity_token \<times> string) idop" where
  "create_identity_token scrypt salt secret token_id principal_id organization_id purpose ttl now db =
     (let row = \<lparr>it_token_id = token_id, it_principal_id = principal_id, it_organization_id = organization_id,
                 it_purpose = purpose, it_secret_hash = hash_secret scrypt salt secret, it_created_at = now,
                 it_expires_at = now + ttl, it_used_at = None\<rparr> in
      if find_identity_token token_id db \<noteq> None \<or> find_principal principal_id db = None
         \<or> find_organization organization_id db = None
      then (Inl (is_error ''identity_token_create_failed''), db)
      else (Inr (row, ''wgi_'' @ token_id @ ''_'' @ secret), db\<lparr>identity_tokens := identity_tokens db @ [row]\<rparr>))"

text \<open>The two statements of \<^verbatim>\<open>consume_identity_token\<close>: the read with its checks, and the write.\<close>

definition check_identity_token :: "kdf \<Rightarrow> string \<Rightarrow> token_purpose \<Rightarrow> time \<Rightarrow> identity_db \<Rightarrow> identity_token result" where
  "check_identity_token scrypt token purpose now db =
     bindE (parse_prefixed_secret ''wgi'' ''identity_token_invalid'' token) (\<lambda>(token_id, secret).
       case find_identity_token token_id db of
         None \<Rightarrow> Inl (is_error ''identity_token_invalid'')
       | Some row \<Rightarrow>
           raise_if (\<not> verify_secret scrypt secret (it_secret_hash row)) (is_error ''identity_token_invalid'')
           (raise_if (it_purpose row \<noteq> purpose) (is_error ''identity_token_invalid'')
           (raise_if (it_used_at row \<noteq> None) (is_error ''identity_token_used'')
           (raise_if (now \<ge> it_expires_at row) (is_error ''identity_token_expired'')
           (Inr row)))))"

definition mark_identity_token :: "string \<Rightarrow> time \<Rightarrow> identity_db \<Rightarrow> identity_db" where
  "mark_identity_token token_id now db =
     db\<lparr>identity_tokens := sql_update (\<lambda>t. it_token_id t = token_id) (\<lambda>t. t\<lparr>it_used_at := Some now\<rparr>)
          (identity_tokens db)\<rparr>"

definition consume_identity_token :: "kdf \<Rightarrow> string \<Rightarrow> token_purpose \<Rightarrow> time \<Rightarrow> identity_token idop" where
  "consume_identity_token scrypt token purpose now db =
     (case check_identity_token scrypt token purpose now db of
        Inl e \<Rightarrow> (Inl e, db)
      | Inr row \<Rightarrow> (Inr (row\<lparr>it_used_at := Some now\<rparr>), mark_identity_token (it_token_id row) now db))"

definition invalidate_identity_tokens :: "string \<Rightarrow> token_purpose \<Rightarrow> time \<Rightarrow> unit idop" where
  "invalidate_identity_tokens principal_id purpose now db =
     (Inr (), db\<lparr>identity_tokens := sql_update
        (\<lambda>t. it_principal_id t = principal_id \<and> it_purpose t = purpose \<and> it_used_at t = None)
        (\<lambda>t. t\<lparr>it_used_at := Some now\<rparr>) (identity_tokens db)\<rparr>)"

section \<open>API tokens\<close>

definition create_token ::
  "kdf \<Rightarrow> nat list \<Rightarrow> string \<Rightarrow> string \<Rightarrow> string \<Rightarrow> string \<Rightarrow> int \<Rightarrow> time \<Rightarrow> (api_token_metadata \<times> string) idop" where
  "create_token scrypt salt secret token_id principal_id label validity_days now db =
     (case raise_if (\<not> (1 \<le> validity_days \<and> validity_days \<le> 366)) (is_error ''token_validity_invalid'')
           (bindE (get_principal principal_id db) (\<lambda>principal.
            raise_if (\<not> pn_active principal) (is_error ''principal_disabled'')
            (bindE (get_organization (pn_organization_id principal) db) (\<lambda>organization.
             raise_if (og_status organization \<noteq> ORG_ACTIVE) (is_error ''organization_disabled'')
             (ApiTokenMetadata_post_init
               \<lparr>at_token_id = token_id, at_organization_id = pn_organization_id principal,
                at_principal_id = pn_principal_id principal, at_label = label, at_created_at = now,
                at_expires_at = now + validity_days * 86400 * microseconds, at_revoked_at = None,
                at_last_used_at = None\<rparr>))))) of
        Inl e \<Rightarrow> (Inl e, db)
      | Inr metadata \<Rightarrow>
          if find_api_token (at_token_id metadata) db \<noteq> None then (Inl (is_error ''api_token_conflict''), db)
          else (Inr (metadata, ''wgt_'' @ token_id @ ''_'' @ secret),
                db\<lparr>api_tokens := api_tokens db @
                  [api_token_metadata.extend metadata (api_token_row.fields (hash_secret scrypt salt secret))]\<rparr>))"

text \<open>The checks of \<^verbatim>\<open>authenticate_token\<close>, before it records the use.\<close>

definition check_api_token ::
  "kdf \<Rightarrow> string \<Rightarrow> time \<Rightarrow> identity_db \<Rightarrow> (api_token_metadata \<times> principal \<times> organization) result" where
  "check_api_token scrypt token now db =
     bindE (token_parts token) (\<lambda>(token_id, secret).
       case find_api_token token_id db of
         None \<Rightarrow> Inl (is_error ''api_token_invalid'')
       | Some row \<Rightarrow>
           raise_if (\<not> verify_secret scrypt secret (at_secret_hash row)) (is_error ''api_token_invalid'')
           (bindE (token_metadata row) (\<lambda>metadata.
            raise_if (at_revoked_at metadata \<noteq> None) (is_error ''api_token_revoked'')
            (raise_if (now \<ge> at_expires_at metadata) (is_error ''api_token_expired'')
            (case (find_principal (at_principal_id metadata) db, find_organization (at_organization_id metadata) db) of
               (Some principal_row, Some organization_row) \<Rightarrow>
                 bindE (principal_from_row principal_row) (\<lambda>principal.
                 bindE (organization_from_row organization_row) (\<lambda>organization.
                 raise_if (\<not> pn_active principal) (is_error ''principal_disabled'')
                 (raise_if (og_status organization \<noteq> ORG_ACTIVE) (is_error ''organization_disabled'')
                 (Inr (metadata, principal, organization)))))
             | _ \<Rightarrow> Inl (is_error ''api_token_invalid''))))))"

definition authenticate_token ::
  "kdf \<Rightarrow> string \<Rightarrow> time \<Rightarrow> (api_token_metadata \<times> principal \<times> organization) idop" where
  "authenticate_token scrypt token now db =
     (case check_api_token scrypt token now db of
        Inl e \<Rightarrow> (Inl e, db)
      | Inr (metadata, owner, organization) \<Rightarrow>
          (bindE (ApiTokenMetadata_post_init (metadata\<lparr>at_last_used_at := Some now\<rparr>)) (\<lambda>updated.
             Inr (updated, owner, organization)),
           db\<lparr>api_tokens := sql_update (\<lambda>t. at_token_id t = at_token_id metadata)
                (\<lambda>t. t\<lparr>at_last_used_at := Some now\<rparr>) (api_tokens db)\<rparr>))"

definition revoke_row :: "string \<Rightarrow> time \<Rightarrow> api_token_row \<Rightarrow> api_token_metadata idop" where
  "revoke_row token_id now row db =
     (case token_metadata row of
        Inl e \<Rightarrow> (Inl e, db)
      | Inr metadata \<Rightarrow>
          if at_revoked_at metadata = None
          then (ApiTokenMetadata_post_init (metadata\<lparr>at_revoked_at := Some now\<rparr>),
                db\<lparr>api_tokens := sql_update (\<lambda>t. at_token_id t = token_id) (\<lambda>t. t\<lparr>at_revoked_at := Some now\<rparr>)
                     (api_tokens db)\<rparr>)
          else (Inr metadata, db))"

definition revoke_token :: "string \<Rightarrow> time \<Rightarrow> api_token_metadata idop" where
  "revoke_token token_id now db =
     (case find_api_token token_id db of
        None \<Rightarrow> (Inl (is_error ''api_token_not_found''), db)
      | Some row \<Rightarrow> revoke_row token_id now row db)"

definition revoke_token_owned :: "string \<Rightarrow> string \<Rightarrow> time \<Rightarrow> api_token_metadata idop" where
  "revoke_token_owned token_id principal_id now db =
     (case find_api_token token_id db of
        None \<Rightarrow> (Inl (is_error ''api_token_not_found''), db)
      | Some row \<Rightarrow>
          if at_principal_id row \<noteq> principal_id then (Inl (is_error ''api_token_not_found''), db)
          else revoke_row token_id now row db)"

definition list_tokens_for_principal :: "string \<Rightarrow> identity_db \<Rightarrow> api_token_metadata list result" where
  "list_tokens_for_principal principal_id db =
     mapE token_metadata
       (sql_order (\<lambda>t. - at_created_at t) (filter (\<lambda>t. at_principal_id t = principal_id) (api_tokens db)))"

section \<open>Authorizations and the audit log\<close>

definition assign_authorization :: "string \<Rightarrow> string \<Rightarrow> string \<Rightarrow> time \<Rightarrow> unit idop" where
  "assign_authorization organization_id authorization_id assigned_by now db =
     (case get_principal assigned_by db of
        Inl e \<Rightarrow> (Inl e, db)
      | Inr p \<Rightarrow>
          if pn_organization_id p \<noteq> organization_id then (Inl (is_error ''cross_tenant_assignment_rejected''), db)
          else if list_ex (\<lambda>(o1, a, _). o1 = organization_id \<and> a = authorization_id) (assigned_authorizations db)
          then (Inr (), db)
          else if find_organization organization_id db = None
          then (Inl (is_error ''authorization_assignment_invalid''), db)
          else (Inr (), db\<lparr>assigned_authorizations := assigned_authorizations db @
                  [(organization_id, authorization_id, assigned_by, now)]\<rparr>))"

definition list_assigned_authorization_ids :: "string \<Rightarrow> identity_db \<Rightarrow> string list" where
  "list_assigned_authorization_ids organization_id db =
     map (\<lambda>(_, a, _). a) (filter (\<lambda>(o1, _). o1 = organization_id) (assigned_authorizations db))"

definition record_audit_event :: "audit_event \<Rightarrow> unit idop" where
  "record_audit_event event db =
     (if list_ex (\<lambda>e. ae_event_id e = ae_event_id event) (audit_events db)
         \<or> find_organization (ae_organization_id event) db = None \<or> find_principal (ae_principal_id event) db = None
      then (Inl (is_error ''audit_event_conflict''), db)
      else (Inr (), db\<lparr>audit_events := audit_events db @ [event]\<rparr>))"

definition audit_filter ::
  "string \<Rightarrow> (time \<times> string) option \<Rightarrow> audit_outcome option \<Rightarrow> audit_event \<Rightarrow> bool" where
  "audit_filter organization_id after outcome e \<longleftrightarrow>
     ae_organization_id e = organization_id
     \<and> (case outcome of None \<Rightarrow> True | Some x \<Rightarrow> ae_outcome e = x)
     \<and> (case after of None \<Rightarrow> True
        | Some (t, i) \<Rightarrow> ae_occurred_at e < t \<or> ae_occurred_at e = t \<and> ae_event_id e < i)"

definition list_audit_events_page ::
  "string \<Rightarrow> int \<Rightarrow> (time \<times> string) option \<Rightarrow> audit_outcome option \<Rightarrow> identity_db \<Rightarrow> (audit_event list \<times> bool) result" where
  "list_audit_events_page organization_id limit after outcome db =
     raise_if (\<not> (1 \<le> limit \<and> limit \<le> 100)) (is_error ''audit_limit_invalid'')
     (raise_if (case after of None \<Rightarrow> False | Some (t, i) \<Rightarrow> i = []) (is_error ''audit_cursor_invalid'')
     (let rows = take (nat limit + 1) (rev (sql_order (\<lambda>e. (ae_occurred_at e, ae_event_id e))
                   (filter (audit_filter organization_id after outcome) (audit_events db))))
      in bindE (mapE audit_event_from_row (take (nat limit) rows)) (\<lambda>events.
           Inr (events, length rows > nat limit))))"

definition list_audit_events :: "string \<Rightarrow> int \<Rightarrow> identity_db \<Rightarrow> audit_event list result" where
  "list_audit_events organization_id limit db =
     bindE (list_audit_events_page organization_id (min limit 100) None None db) (\<lambda>(events, _). Inr events)"

section \<open>Issued tokens\<close>

lemma str_partition_hit: "c \<notin> set a \<Longrightarrow> str_partition c (a @ c # b) = (a, True, b)"
  by (induction a) (auto simp: str_partition_def split: if_splits)

lemma uuid_shape_chars: "uuid_shape i \<Longrightarrow> CHR ''_'' \<notin> set i"
  unfolding uuid_shape_def using dash_uuid_set by (auto simp: is_hex_def hex_alphabet_def)

lemma split_token_issued:
  "CHR ''_'' \<notin> set p \<Longrightarrow> uuid_shape i \<Longrightarrow> split_token (p @ ''_'' @ i @ ''_'' @ secret) = [p, i, secret]"
  by (simp add: split_token_def str_partition_hit uuid_shape_chars)

lemma parse_prefixed_secret_issued:
  "CHR ''_'' \<notin> set p \<Longrightarrow> uuid_shape i \<Longrightarrow> secret \<noteq> [] \<Longrightarrow>
     parse_prefixed_secret p code (p @ ''_'' @ i @ ''_'' @ secret) = Inr (i, secret)"
  using canonical_uuid_Inr [of is_error code i i] split_token_issued [of p i secret]
  by (simp add: parse_prefixed_secret_def)

lemma token_parts_issued:
  assumes "uuid_shape i" "secret \<noteq> []"
  shows "token_parts (''wgt_'' @ i @ ''_'' @ secret) = Inr (i, secret)"
proof -
  have "uuid_shape ''00000000-0000-0000-0000-000000000000''"
    unfolding uuid_shape_def by (rule exI [of _ "replicate 32 (CHR ''0'')"]) code_simp
  moreover have "tenancy_text 120 ''validation'' = Inr ''validation''"
    by code_simp
  ultimately show ?thesis
    using assms split_token_issued [of "''wgt''" i secret]
    by (simp add: token_parts_def ApiTokenMetadata_post_init_def tenancy_uuid_Inr [THEN iffD2] raise_if_def
        microseconds_def)
qed

lemma verify_hash_secret:
  "length (scrypt secret salt 16384 8 1 32) = 32 \<Longrightarrow> verify_secret scrypt secret (hash_secret scrypt salt secret)"
  by (simp add: verify_secret_def hash_secret_def)

end
