(* ===== verification/Sessions.thy ===== *)
theory Sessions
  imports Identity_Store
begin

text \<open>
  Browser sessions (\<^verbatim>\<open>webguard_api/sessions.py\<close>, the in-memory repository), roles and
  permissions, and the two authenticators that turn a credential into the context of a request
  (\<^verbatim>\<open>webguard_api/auth.py\<close>).
\<close>

section \<open>Sessions\<close>

record browser_session =
  bs_session_id :: string
  bs_principal_id :: string
  bs_organization_id :: string
  bs_assurance_level :: string
  bs_issued_at :: time
  bs_idle_expires_at :: time
  bs_absolute_expires_at :: time
  bs_last_used_at :: "time option"
  bs_revoked_at :: "time option"
  bs_user_agent :: "string option"
  bs_ip_address :: "string option"

definition is_usable :: "time \<Rightarrow> browser_session \<Rightarrow> bool" where
  "is_usable now s \<longleftrightarrow> bs_revoked_at s = None \<and> now < bs_idle_expires_at s \<and> now < bs_absolute_expires_at s"

record session_state =
  ss_record :: browser_session
  ss_secret_hash :: secret_hash
  ss_csrf_hash :: secret_hash

text \<open>The dictionary of sessions in the order of insertion.\<close>

type_synonym sessions = "(string \<times> session_state) list"

definition sessions_get :: "string \<Rightarrow> sessions \<Rightarrow> session_state option" where
  "sessions_get i ss = map_of ss i"

definition sessions_put :: "string \<Rightarrow> session_state \<Rightarrow> sessions \<Rightarrow> sessions" where
  "sessions_put i s ss =
     (if i \<in> fst ` set ss then map (\<lambda>(j, t). if j = i then (j, s) else (j, t)) ss else ss @ [(i, s)])"

definition create_session ::
  "kdf \<Rightarrow> nat list \<Rightarrow> nat list \<Rightarrow> string \<Rightarrow> string \<Rightarrow> string \<Rightarrow> string \<Rightarrow> string \<Rightarrow> time \<Rightarrow> time \<Rightarrow> time \<Rightarrow> string
    \<Rightarrow> string option \<Rightarrow> string option \<Rightarrow> sessions \<Rightarrow> (browser_session \<times> string \<times> string) \<times> sessions" where
  "create_session scrypt salt csrf_salt session_id secret csrf_token principal_id organization_id now idle_ttl absolute_ttl
     level user_agent ip_address ss =
     (let r = \<lparr>bs_session_id = session_id, bs_principal_id = principal_id, bs_organization_id = organization_id,
               bs_assurance_level = level, bs_issued_at = now, bs_idle_expires_at = now + idle_ttl,
               bs_absolute_expires_at = now + absolute_ttl, bs_last_used_at = None, bs_revoked_at = None,
               bs_user_agent = user_agent, bs_ip_address = ip_address\<rparr>
      in ((r, ''wgs_'' @ session_id @ ''_'' @ secret, csrf_token),
          sessions_put session_id
            \<lparr>ss_record = r, ss_secret_hash = hash_secret scrypt salt secret,
             ss_csrf_hash = hash_secret scrypt csrf_salt csrf_token\<rparr> ss))"

definition authenticate_session ::
  "kdf \<Rightarrow> string \<Rightarrow> time \<Rightarrow> time \<Rightarrow> string option \<Rightarrow> bool \<Rightarrow> sessions \<Rightarrow> browser_session result \<times> sessions" where
  "authenticate_session scrypt token now idle_ttl csrf_header require_csrf ss =
     (case parse_prefixed_secret ''wgs'' ''session_invalid'' token of
        Inl e \<Rightarrow> (Inl e, ss)
      | Inr (session_id, secret) \<Rightarrow>
          (case sessions_get session_id ss of
             None \<Rightarrow> (Inl (is_error ''session_invalid''), ss)
           | Some state \<Rightarrow>
               if \<not> verify_secret scrypt secret (ss_secret_hash state) then (Inl (is_error ''session_invalid''), ss)
               else if \<not> is_usable now (ss_record state) then (Inl (is_error ''session_expired''), ss)
               else if require_csrf \<and> (case csrf_header of None \<Rightarrow> True
                                        | Some h \<Rightarrow> \<not> verify_secret scrypt h (ss_csrf_hash state))
               then (Inl (is_error ''csrf_token_invalid''), ss)
               else (let r = ss_record state;
                         touched = r\<lparr>bs_idle_expires_at := min (now + idle_ttl) (bs_absolute_expires_at r),
                                     bs_last_used_at := Some now\<rparr>
                     in (Inr touched, sessions_put session_id (state\<lparr>ss_record := touched\<rparr>) ss))))"

definition get_session :: "string \<Rightarrow> sessions \<Rightarrow> browser_session option" where
  "get_session session_id ss = map_option ss_record (sessions_get session_id ss)"

definition revoke_session :: "string \<Rightarrow> string \<Rightarrow> time \<Rightarrow> sessions \<Rightarrow> sessions" where
  "revoke_session session_id principal_id now ss =
     (case sessions_get session_id ss of
        None \<Rightarrow> ss
      | Some state \<Rightarrow>
          if bs_principal_id (ss_record state) \<noteq> principal_id \<or> bs_revoked_at (ss_record state) \<noteq> None then ss
          else sessions_put session_id (state\<lparr>ss_record := (ss_record state)\<lparr>bs_revoked_at := Some now\<rparr>\<rparr>) ss)"

definition revoke_all_sessions_for_principal ::
  "string \<Rightarrow> time \<Rightarrow> string option \<Rightarrow> sessions \<Rightarrow> int \<times> sessions" where
  "revoke_all_sessions_for_principal principal_id now except_session_id ss =
     (let targets = map fst (filter (\<lambda>(sid, state). bs_principal_id (ss_record state) = principal_id
            \<and> bs_revoked_at (ss_record state) = None \<and> Some sid \<noteq> except_session_id) ss)
      in (int (length targets), fold (\<lambda>sid. revoke_session sid principal_id now) targets ss))"

definition list_sessions_for_principal :: "string \<Rightarrow> sessions \<Rightarrow> browser_session list" where
  "list_sessions_for_principal principal_id ss =
     filter (\<lambda>r. bs_principal_id r = principal_id) (map (\<lambda>(_, state). ss_record state) ss)"

section \<open>Passwords\<close>

definition validate_password_policy :: "string \<Rightarrow> string result" where
  "validate_password_policy password =
     raise_if (length password < 12) (PasswordPolicyError ''password_too_short'')
     (raise_if (length password > 256) (PasswordPolicyError ''password_too_long'') (Inr password))"

section \<open>Permissions\<close>

datatype api_permission =
    JOB_SUBMIT | JOB_READ | JOB_CANCEL | SCHEDULE_CREATE | SCHEDULE_READ | SCHEDULE_UPDATE | AUDIT_READ
  | IDENTITY_MANAGE | AUTHORIZATION_ASSIGN | PERMIT_ISSUE | PERMIT_ISSUE_ACTIVE | PERMIT_READ | PERMIT_REVOKE
  | AUTHENTICATION_CONTEXT_REGISTER | AUTHENTICATION_CONTEXT_READ | AUTHENTICATION_CONTEXT_REVOKE
  | AUTHORIZATION_COMPARISON_REGISTER | AUTHORIZATION_COMPARISON_READ | AUTHORIZATION_COMPARISON_REVOKE
  | FINDING_READ | FINDING_UPDATE | REPORT_CREATE | REPORT_READ | ASSET_READ | ASSET_MANAGE | TEAM_READ
  | TEAM_MANAGE | MODULE_ENTITLEMENTS_READ | MODULE_ENTITLEMENTS_MANAGE | SOC_CONNECTOR_READ
  | COMPLIANCE_CATALOG_READ | COMPLIANCE_ASSERTION_READ | COMPLIANCE_ASSERTION_COLLECT

fun role_permits :: "organization_role \<Rightarrow> api_permission \<Rightarrow> bool" where
  "role_permits OWNER permission = True"
| "role_permits ADMINISTRATOR permission =
     (permission \<notin> {PERMIT_ISSUE_ACTIVE, AUTHENTICATION_CONTEXT_REGISTER, AUTHENTICATION_CONTEXT_READ,
        AUTHENTICATION_CONTEXT_REVOKE, AUTHORIZATION_COMPARISON_REGISTER, AUTHORIZATION_COMPARISON_READ,
        AUTHORIZATION_COMPARISON_REVOKE, MODULE_ENTITLEMENTS_MANAGE})"
| "role_permits ANALYST permission =
     (permission \<in> {JOB_SUBMIT, JOB_READ, JOB_CANCEL, SCHEDULE_CREATE, SCHEDULE_READ, SCHEDULE_UPDATE, PERMIT_READ,
        FINDING_READ, FINDING_UPDATE, REPORT_CREATE, REPORT_READ, ASSET_READ, ASSET_MANAGE, TEAM_READ,
        MODULE_ENTITLEMENTS_READ, SOC_CONNECTOR_READ, COMPLIANCE_CATALOG_READ, COMPLIANCE_ASSERTION_READ,
        COMPLIANCE_ASSERTION_COLLECT})"
| "role_permits VIEWER permission =
     (permission \<in> {JOB_READ, SCHEDULE_READ, PERMIT_READ, FINDING_READ, REPORT_READ, ASSET_READ, TEAM_READ,
        MODULE_ENTITLEMENTS_READ, SOC_CONNECTOR_READ, COMPLIANCE_CATALOG_READ, COMPLIANCE_ASSERTION_READ})"

record auth_context =
  ac_organization_id :: string
  ac_organization_name :: string
  ac_principal_id :: string
  ac_principal_name :: string
  ac_role :: organization_role
  ac_token_id :: string
  ac_auth_method :: string

definition permits :: "auth_context \<Rightarrow> api_permission \<Rightarrow> bool" where
  "permits c permission = role_permits (ac_role c) permission"

definition require :: "auth_context \<Rightarrow> api_permission \<Rightarrow> unit result" where
  "require c permission =
     raise_if (\<not> permits c permission) (AuthenticationError ''permission_denied'' 403) (Inr ())"

section \<open>Authenticators\<close>

text \<open>An error of the identity store becomes an authentication error with its code.\<close>

definition auth_failure :: "int \<Rightarrow> exn \<Rightarrow> exn" where
  "auth_failure status e = (case e of IdentityStoreError code \<Rightarrow> AuthenticationError code status | _ \<Rightarrow> e)"

definition auth_result :: "'a result \<Rightarrow> 'a result" where
  "auth_result m = (case m of Inl e \<Rightarrow> Inl (auth_failure 401 e) | Inr x \<Rightarrow> Inr x)"

definition bearer_token :: "string list \<Rightarrow> string result" where
  "bearer_token headers =
     (case headers of
        [value] \<Rightarrow>
          (case str_partition (CHR '' '') value of (scheme, separator, token) \<Rightarrow>
             raise_if (\<not> separator \<or> py_lower scheme \<noteq> ''bearer'' \<or> token = [] \<or> py_strip token \<noteq> token)
               (AuthenticationError ''authorization_header_invalid'' 401) (Inr token))
      | _ \<Rightarrow> Inl (AuthenticationError ''authorization_header_required'' 401))"

definition context_of :: "principal \<Rightarrow> organization \<Rightarrow> string \<Rightarrow> string \<Rightarrow> auth_context" where
  "context_of owner organization token_id kind =
     \<lparr>ac_organization_id = og_organization_id organization, ac_organization_name = og_name organization,
      ac_principal_id = pn_principal_id owner, ac_principal_name = pn_display_name owner,
      ac_role = pn_role owner, ac_token_id = token_id, ac_auth_method = kind\<rparr>"

definition token_authenticate :: "kdf \<Rightarrow> string list \<Rightarrow> time \<Rightarrow> auth_context idop" where
  "token_authenticate scrypt headers now db =
     (case bearer_token headers of
        Inl e \<Rightarrow> (Inl e, db)
      | Inr token \<Rightarrow>
          (case authenticate_token scrypt token now db of
             (r, db') \<Rightarrow>
               (bindE (auth_result r) (\<lambda>(metadata, owner, organization).
                  Inr (context_of owner organization (at_token_id metadata) ''api_token'')), db')))"

definition session_authenticate ::
  "kdf \<Rightarrow> string \<Rightarrow> time \<Rightarrow> time \<Rightarrow> string option \<Rightarrow> bool \<Rightarrow> identity_db \<Rightarrow> sessions \<Rightarrow> auth_context result \<times> sessions" where
  "session_authenticate scrypt token now idle_ttl csrf_header require_csrf db ss =
     (case authenticate_session scrypt token now idle_ttl csrf_header require_csrf ss of
        (Inl e, ss') \<Rightarrow> (Inl (auth_failure (if e = IdentityStoreError ''csrf_token_invalid'' then 403 else 401) e), ss')
      | (Inr session, ss') \<Rightarrow>
          (bindE (auth_result (get_principal (bs_principal_id session) db)) (\<lambda>principal.
           bindE (auth_result (get_organization (bs_organization_id session) db)) (\<lambda>organization.
           raise_if (\<not> pn_active principal) (AuthenticationError ''principal_disabled'' 401)
           (raise_if (og_status organization \<noteq> ORG_ACTIVE) (AuthenticationError ''organization_disabled'' 401)
           (Inr (context_of principal organization (bs_session_id session) ''browser_session''))))), ss'))"

section \<open>The order of the roles\<close>

lemma role_order:
  "role_permits VIEWER permission \<Longrightarrow> role_permits ANALYST permission"
  "role_permits ANALYST permission \<Longrightarrow> role_permits ADMINISTRATOR permission"
  "role_permits ADMINISTRATOR permission \<Longrightarrow> role_permits OWNER permission"
  by (cases permission; simp)+

text \<open>Issuing permits for active checks and managing entitlements are reserved to owners.\<close>

lemma owner_only: "permission \<in> {PERMIT_ISSUE_ACTIVE, MODULE_ENTITLEMENTS_MANAGE} \<Longrightarrow> role_permits role permission \<longleftrightarrow> role = OWNER"
  by (cases role) auto

end
