(* ===== verification/Identity_Machine.thy ===== *)
theory Identity_Machine
  imports Sessions WG_Machine
begin

text \<open>
  The identity store as a machine whose steps are its single write statements. Every operation of the
  store makes at most one of them, so interleavings of operations, whose checks may have read an
  older state, are runs of the machine.
\<close>

section \<open>Write statements\<close>

text \<open>The columns of a principal that updates never touch.\<close>

definition same_principal :: "principal \<Rightarrow> principal \<Rightarrow> bool" where
  "same_principal p q \<longleftrightarrow>
     pn_principal_id q = pn_principal_id p \<and> pn_organization_id q = pn_organization_id p
     \<and> pn_display_name q = pn_display_name p \<and> pn_principal_type q = pn_principal_type p
     \<and> pn_created_at q = pn_created_at p \<and> pn_email q = pn_email p"

definition same_token :: "api_token_row \<Rightarrow> api_token_row \<Rightarrow> bool" where
  "same_token t u \<longleftrightarrow>
     at_token_id u = at_token_id t \<and> at_organization_id u = at_organization_id t
     \<and> at_principal_id u = at_principal_id t \<and> at_label u = at_label t \<and> at_created_at u = at_created_at t
     \<and> at_expires_at u = at_expires_at t \<and> at_secret_hash u = at_secret_hash t
     \<and> (at_revoked_at t \<noteq> None \<longrightarrow> at_revoked_at u \<noteq> None)"

definition same_identity_token :: "identity_token \<Rightarrow> identity_token \<Rightarrow> bool" where
  "same_identity_token t u \<longleftrightarrow>
     u = t\<lparr>it_used_at := it_used_at u\<rparr> \<and> (it_used_at t \<noteq> None \<longrightarrow> it_used_at u \<noteq> None)"

inductive identity_write :: "identity_db \<Rightarrow> identity_db \<Rightarrow> bool" where
  Insert_Organization:
    "Organization_post_init o0 = Inr value \<Longrightarrow> row = organization.extend value (organization_row.fields (casefold (codes (og_name value)))) \<Longrightarrow>
     \<not> list_ex (\<lambda>o1. og_organization_id o1 = og_organization_id value \<or> og_name_key o1 = og_name_key row) (organizations db) \<Longrightarrow>
     identity_write db (db\<lparr>organizations := organizations db @ [row]\<rparr>)"
| Insert_Principal:
    "Principal_post_init p0 = Inr value \<Longrightarrow> \<not> principal_conflict value db \<Longrightarrow>
     identity_write db (db\<lparr>principals := principals db @ [value]\<rparr>)"
| Update_Principals:
    "(\<And>p. same_principal p (f p)) \<Longrightarrow> identity_write db (db\<lparr>principals := sql_update P f (principals db)\<rparr>)"
| Write_Password:
    "identity_write db (db\<lparr>password_credentials := rows\<rparr>)"
| Insert_Identity_Token:
    "find_identity_token (it_token_id row) db = None \<Longrightarrow> find_principal (it_principal_id row) db \<noteq> None \<Longrightarrow>
     identity_write db (db\<lparr>identity_tokens := identity_tokens db @ [row]\<rparr>)"
| Update_Identity_Tokens:
    "(\<And>t. same_identity_token t (f t)) \<Longrightarrow>
     identity_write db (db\<lparr>identity_tokens := sql_update P f (identity_tokens db)\<rparr>)"
| Insert_Api_Token:
    "ApiTokenMetadata_post_init m0 = Inr metadata \<Longrightarrow> find_api_token (at_token_id metadata) db = None \<Longrightarrow>
     find_principal (at_principal_id metadata) db = Some p \<Longrightarrow> pn_organization_id p = at_organization_id metadata \<Longrightarrow>
     identity_write db (db\<lparr>api_tokens := api_tokens db @ [api_token_metadata.extend metadata (api_token_row.fields h)]\<rparr>)"
| Update_Api_Tokens:
    "(\<And>t. same_token t (f t)) \<Longrightarrow> identity_write db (db\<lparr>api_tokens := sql_update P f (api_tokens db)\<rparr>)"
| Insert_Assignment:
    "find_organization i db \<noteq> None \<Longrightarrow>
     identity_write db (db\<lparr>assigned_authorizations := assigned_authorizations db @ [(i, a, who, now)]\<rparr>)"
| Insert_Audit:
    "SecurityAuditEvent_post_init e0 = Inr event \<Longrightarrow>
     identity_write db (db\<lparr>audit_events := audit_events db @ [event]\<rparr>)"

inductive_cases identity_writeE: "identity_write db db'"

section \<open>The invariant\<close>

definition organizations_ok :: "identity_db \<Rightarrow> bool" where
  "organizations_ok db \<longleftrightarrow>
     distinct (map og_organization_id (organizations db)) \<and> distinct (map og_name_key (organizations db))
     \<and> (\<forall>r \<in> set (organizations db). Organization_post_init (organization.truncate r) = Inr (organization.truncate r))"

text \<open>A table of principals of existing organizations, with unique identifiers and addresses.\<close>

definition principal_table :: "string set \<Rightarrow> principal list \<Rightarrow> bool" where
  "principal_table orgs ps \<longleftrightarrow>
     distinct (map pn_principal_id ps) \<and> distinct (filter (\<lambda>e. e \<noteq> None) (map pn_email ps))
     \<and> (\<forall>p \<in> set ps. Principal_post_init p = Inr p \<and> pn_organization_id p \<in> orgs)"

definition principals_ok :: "identity_db \<Rightarrow> bool" where
  "principals_ok db \<longleftrightarrow> principal_table (og_organization_id ` set (organizations db)) (principals db)"

definition api_tokens_ok :: "identity_db \<Rightarrow> bool" where
  "api_tokens_ok db \<longleftrightarrow>
     distinct (map at_token_id (api_tokens db))
     \<and> (\<forall>t \<in> set (api_tokens db).
          ApiTokenMetadata_post_init (api_token_metadata.truncate t) = Inr (api_token_metadata.truncate t)
          \<and> (at_principal_id t, at_organization_id t)
              \<in> (\<lambda>p. (pn_principal_id p, pn_organization_id p)) ` set (principals db))"

definition identity_inv :: "identity_db \<Rightarrow> bool" where
  "identity_inv db \<longleftrightarrow>
     organizations_ok db \<and> principals_ok db \<and> api_tokens_ok db
     \<and> distinct (map it_token_id (identity_tokens db))
     \<and> (\<forall>e \<in> set (audit_events db). SecurityAuditEvent_post_init e = Inr e)"

lemmas identity_inv_defs = organizations_ok_def principals_ok_def api_tokens_ok_def

lemma empty_identity_inv: "identity_inv empty_identity_db"
  by (simp add: identity_inv_def identity_inv_defs principal_table_def empty_identity_db_def)

lemma Principal_fixed:
  "Principal_post_init p = Inr p \<longleftrightarrow>
     uuid_shape (pn_principal_id p) \<and> uuid_shape (pn_organization_id p)
     \<and> tenancy_text 120 (pn_display_name p) = Inr (pn_display_name p)
     \<and> mapE_option tenancy_email (pn_email p) = Inr (pn_email p)"
  by (cases p) (auto simp: Principal_post_init_def bindE_eq_Inr tenancy_uuid_Inr)

lemma Principal_post_init_columns:
  "same_principal p q \<Longrightarrow> Principal_post_init p = Inr p \<Longrightarrow> Principal_post_init q = Inr q"
  by (simp add: Principal_fixed same_principal_def)

lemma ApiTokenMetadata_fixed:
  "ApiTokenMetadata_post_init t = Inr t \<longleftrightarrow>
     uuid_shape (at_token_id t) \<and> uuid_shape (at_organization_id t) \<and> uuid_shape (at_principal_id t)
     \<and> tenancy_text 120 (at_label t) = Inr (at_label t) \<and> at_created_at t < at_expires_at t"
  by (cases t) (auto simp: ApiTokenMetadata_post_init_def bindE_eq_Inr raise_if_eq_Inr tenancy_uuid_Inr)

lemma truncate_columns [simp]:
  "at_token_id (api_token_metadata.truncate t) = at_token_id t"
  "at_organization_id (api_token_metadata.truncate t) = at_organization_id t"
  "at_principal_id (api_token_metadata.truncate t) = at_principal_id t"
  "at_label (api_token_metadata.truncate t) = at_label t"
  "at_created_at (api_token_metadata.truncate t) = at_created_at t"
  "at_expires_at (api_token_metadata.truncate t) = at_expires_at t"
  "at_revoked_at (api_token_metadata.truncate t) = at_revoked_at t"
  "og_organization_id (organization.truncate r) = og_organization_id r"
  "og_status (organization.truncate r) = og_status r"
  by (simp_all add: api_token_metadata.truncate_def organization.truncate_def)

lemma extend_columns [simp]:
  "at_token_id (api_token_metadata.extend m e) = at_token_id m"
  "at_organization_id (api_token_metadata.extend m e) = at_organization_id m"
  "at_principal_id (api_token_metadata.extend m e) = at_principal_id m"
  "api_token_metadata.truncate (api_token_metadata.extend m e) = m"
  "og_organization_id (organization.extend v x) = og_organization_id v"
  "organization.truncate (organization.extend v x) = v"
  "og_name_key (organization.extend v (organization_row.fields k)) = k"
  by (simp_all add: api_token_metadata.truncate_def organization.truncate_def api_token_metadata.extend_def
      organization.extend_def organization_row.fields_def)

lemma ApiTokenMetadata_post_init_columns:
  "same_token t u \<Longrightarrow> ApiTokenMetadata_post_init (api_token_metadata.truncate t) = Inr (api_token_metadata.truncate t) \<Longrightarrow>
     ApiTokenMetadata_post_init (api_token_metadata.truncate u) = Inr (api_token_metadata.truncate u)"
  by (simp add: ApiTokenMetadata_fixed same_token_def)

lemma image_sql_update: "(\<And>r. k (f r) = k r) \<Longrightarrow> k ` set (sql_update P f rows) = k ` set rows"
  using map_sql_update [of k f P rows] by (metis list.set_map)

lemma find_None_iff:
  "find_organization i db = None \<longleftrightarrow> i \<notin> og_organization_id ` set (organizations db)"
  "find_principal i db = None \<longleftrightarrow> i \<notin> pn_principal_id ` set (principals db)"
  "find_api_token i db = None \<longleftrightarrow> i \<notin> at_token_id ` set (api_tokens db)"
  "find_identity_token i db = None \<longleftrightarrow> i \<notin> it_token_id ` set (identity_tokens db)"
  by (auto simp: find_organization_def find_principal_def find_api_token_def find_identity_token_def sql_find_None)

section \<open>Every write keeps the invariant\<close>

lemma frames [simp]:
  "organizations_ok (db\<lparr>principals := ps\<rparr>) = organizations_ok db"
  "organizations_ok (db\<lparr>api_tokens := ts\<rparr>) = organizations_ok db"
  "organizations_ok (db\<lparr>identity_tokens := is\<rparr>) = organizations_ok db"
  "organizations_ok (db\<lparr>password_credentials := ws\<rparr>) = organizations_ok db"
  "organizations_ok (db\<lparr>assigned_authorizations := as\<rparr>) = organizations_ok db"
  "organizations_ok (db\<lparr>audit_events := es\<rparr>) = organizations_ok db"
  "principals_ok (db\<lparr>api_tokens := ts\<rparr>) = principals_ok db"
  "principals_ok (db\<lparr>identity_tokens := is\<rparr>) = principals_ok db"
  "principals_ok (db\<lparr>password_credentials := ws\<rparr>) = principals_ok db"
  "principals_ok (db\<lparr>assigned_authorizations := as\<rparr>) = principals_ok db"
  "principals_ok (db\<lparr>audit_events := es\<rparr>) = principals_ok db"
  "api_tokens_ok (db\<lparr>organizations := os\<rparr>) = api_tokens_ok db"
  "api_tokens_ok (db\<lparr>identity_tokens := is\<rparr>) = api_tokens_ok db"
  "api_tokens_ok (db\<lparr>password_credentials := ws\<rparr>) = api_tokens_ok db"
  "api_tokens_ok (db\<lparr>assigned_authorizations := as\<rparr>) = api_tokens_ok db"
  "api_tokens_ok (db\<lparr>audit_events := es\<rparr>) = api_tokens_ok db"
  by (simp_all add: identity_inv_defs)

lemma principal_table_mono: "principal_table orgs ps \<Longrightarrow> orgs \<subseteq> orgs' \<Longrightarrow> principal_table orgs' ps"
  by (auto simp: principal_table_def)

lemma insert_organization_inv:
  assumes "identity_inv db" "Organization_post_init o0 = Inr value"
    and row: "row = organization.extend value (organization_row.fields (casefold (codes (og_name value))))"
    and "\<not> list_ex (\<lambda>o1. og_organization_id o1 = og_organization_id value \<or> og_name_key o1 = og_name_key row) (organizations db)"
  shows "identity_inv (db\<lparr>organizations := organizations db @ [row]\<rparr>)"
proof -
  have "og_organization_id row \<notin> og_organization_id ` set (organizations db)"
    "og_name_key row \<notin> og_name_key ` set (organizations db)"
    using assms(4) by (auto simp: list_ex_iff row)
  then have "organizations_ok (db\<lparr>organizations := organizations db @ [row]\<rparr>)"
    using assms(1) Organization_idem [OF assms(2)] by (auto simp: identity_inv_def organizations_ok_def row)
  moreover have "principals_ok (db\<lparr>organizations := organizations db @ [row]\<rparr>)"
    using assms(1) by (auto simp: identity_inv_def principals_ok_def intro: principal_table_mono)
  ultimately show ?thesis
    using assms(1) by (simp add: identity_inv_def)
qed

lemma insert_principal_inv:
  assumes "identity_inv db" "Principal_post_init p0 = Inr value" "\<not> principal_conflict value db"
  shows "identity_inv (db\<lparr>principals := principals db @ [value]\<rparr>)"
proof -
  have "pn_principal_id value \<notin> pn_principal_id ` set (principals db)"
    "pn_email value \<noteq> None \<Longrightarrow> pn_email value \<notin> pn_email ` set (principals db)"
    "pn_organization_id value \<in> og_organization_id ` set (organizations db)"
    using assms(3) by (auto simp: principal_conflict_def list_ex_iff find_None_iff)
  then have "principals_ok (db\<lparr>principals := principals db @ [value]\<rparr>)"
    using assms(1) Principal_idem [OF assms(2)]
    by (auto simp: identity_inv_def principals_ok_def principal_table_def)
  moreover have "api_tokens_ok (db\<lparr>principals := principals db @ [value]\<rparr>)"
    using assms(1) by (auto simp: identity_inv_def api_tokens_ok_def)
  ultimately show ?thesis
    using assms(1) by (simp add: identity_inv_def)
qed

lemma update_principals_inv:
  assumes "identity_inv db" "\<And>p. same_principal p (f p)"
  shows "identity_inv (db\<lparr>principals := sql_update P f (principals db)\<rparr>)"
proof -
  have cols: "pn_principal_id (f p) = pn_principal_id p" "pn_organization_id (f p) = pn_organization_id p"
    "pn_email (f p) = pn_email p" for p
    using assms(2) [of p] by (auto simp: same_principal_def)
  have "principals_ok (db\<lparr>principals := sql_update P f (principals db)\<rparr>)"
    using assms(1) cols Principal_post_init_columns [OF assms(2)]
    by (auto simp: identity_inv_def principals_ok_def principal_table_def map_sql_update set_sql_update)
  moreover have "(\<lambda>p. (pn_principal_id p, pn_organization_id p)) ` set (sql_update P f (principals db))
      = (\<lambda>p. (pn_principal_id p, pn_organization_id p)) ` set (principals db)"
    by (rule image_sql_update) (simp add: cols)
  ultimately show ?thesis
    using assms(1) by (simp add: identity_inv_def api_tokens_ok_def)
qed

lemma insert_api_token_inv:
  assumes "identity_inv db" "ApiTokenMetadata_post_init m0 = Inr metadata" "find_api_token (at_token_id metadata) db = None"
    and "find_principal (at_principal_id metadata) db = Some p" "pn_organization_id p = at_organization_id metadata"
  shows "identity_inv (db\<lparr>api_tokens := api_tokens db @ [api_token_metadata.extend metadata (api_token_row.fields h)]\<rparr>)"
proof -
  have "p \<in> set (principals db)" "pn_principal_id p = at_principal_id metadata"
    using assms(4) by (auto simp: find_principal_def dest!: sql_find_Some)
  then have "(at_principal_id metadata, at_organization_id metadata)
      \<in> (\<lambda>p. (pn_principal_id p, pn_organization_id p)) ` set (principals db)"
    using assms(5) by (metis (mono_tags, lifting) image_eqI)
  then show ?thesis
    using assms(1,3) ApiTokenMetadata_idem [OF assms(2)]
    by (auto simp: identity_inv_def api_tokens_ok_def find_None_iff)
qed

lemma update_api_tokens_inv:
  assumes "identity_inv db" "\<And>t. same_token t (f t)"
  shows "identity_inv (db\<lparr>api_tokens := sql_update P f (api_tokens db)\<rparr>)"
proof -
  have cols: "at_token_id (f t) = at_token_id t" "at_organization_id (f t) = at_organization_id t"
    "at_principal_id (f t) = at_principal_id t" for t
    using assms(2) [of t] by (auto simp: same_token_def)
  have "api_tokens_ok (db\<lparr>api_tokens := sql_update P f (api_tokens db)\<rparr>)"
    using assms(1) cols ApiTokenMetadata_post_init_columns [OF assms(2)]
    by (auto simp: identity_inv_def api_tokens_ok_def map_sql_update set_sql_update)
  then show ?thesis
    using assms(1) by (simp add: identity_inv_def)
qed

lemma update_identity_tokens_inv:
  assumes "identity_inv db" "\<And>t. same_identity_token t (f t)"
  shows "identity_inv (db\<lparr>identity_tokens := sql_update P f (identity_tokens db)\<rparr>)"
proof -
  have "it_token_id (f t) = it_token_id t" for t
    using assms(2) [of t] unfolding same_identity_token_def by (metis identity_token.select_convs(1) identity_token.surjective identity_token.update_convs(8))
  then show ?thesis
    using assms(1) by (simp add: identity_inv_def map_sql_update)
qed

lemma identity_write_inv:
  assumes "identity_inv db" "identity_write db db'"
  shows "identity_inv db'"
  using assms(2)
proof cases
  case (Insert_Organization o0 v row)
  then show ?thesis using insert_organization_inv [OF assms(1)] by blast
next
  case (Insert_Principal p0 v)
  then show ?thesis using insert_principal_inv [OF assms(1)] by blast
next
  case (Update_Principals f P)
  then show ?thesis using update_principals_inv [OF assms(1)] by blast
next
  case (Write_Password rows)
  then show ?thesis using assms(1) by (simp add: identity_inv_def)
next
  case (Insert_Identity_Token row)
  then show ?thesis using assms(1) by (auto simp: identity_inv_def find_None_iff)
next
  case (Update_Identity_Tokens f P)
  then show ?thesis using update_identity_tokens_inv [OF assms(1)] by blast
next
  case (Insert_Api_Token m0 metadata p h)
  then show ?thesis using insert_api_token_inv [OF assms(1)] by blast
next
  case (Update_Api_Tokens f P)
  then show ?thesis using update_api_tokens_inv [OF assms(1)] by blast
next
  case (Insert_Assignment i a who now)
  then show ?thesis using assms(1) by (simp add: identity_inv_def)
next
  case (Insert_Audit e0 event)
  then show ?thesis
    using assms(1) SecurityAuditEvent_idem by (auto simp: identity_inv_def)
qed

section \<open>What every write keeps\<close>

lemma sql_find_update:
  "(\<And>r. k (f r) = k r) \<Longrightarrow>
     sql_find (\<lambda>r. k r = v) (sql_update P f rows)
     = map_option (\<lambda>r. if P r then f r else r) (sql_find (\<lambda>r. k r = v) rows)"
  by (induction rows) (auto simp: sql_find_def sql_update_def)

text \<open>
  Rows are never deleted. Principals stay in their organization, tokens keep their owner, secret and
  expiry, a revoked token stays revoked and a used one used.
\<close>

definition keeps_rows :: "('r \<Rightarrow> 'r \<Rightarrow> bool) \<Rightarrow> (string \<Rightarrow> identity_db \<Rightarrow> 'r option) \<Rightarrow> identity_db \<Rightarrow> identity_db \<Rightarrow> bool" where
  "keeps_rows R look db db' \<longleftrightarrow> (\<forall>i r. look i db = Some r \<longrightarrow> (\<exists>r'. look i db' = Some r' \<and> R r r'))"

definition identity_later :: "identity_db \<Rightarrow> identity_db \<Rightarrow> bool" where
  "identity_later db db' \<longleftrightarrow>
     keeps_rows (=) find_organization db db' \<and> keeps_rows same_principal find_principal db db'
     \<and> keeps_rows same_token find_api_token db db' \<and> keeps_rows same_identity_token find_identity_token db db'"

lemma keeps_rows_trans:
  "(\<And>r s t. R r s \<Longrightarrow> R s t \<Longrightarrow> R r t) \<Longrightarrow> keeps_rows R look a b \<Longrightarrow> keeps_rows R look b c \<Longrightarrow> keeps_rows R look a c"
  unfolding keeps_rows_def by meson

lemma same_refl [simp]: "same_principal p p" "same_token t t" "same_identity_token i i"
  by (simp_all add: same_principal_def same_token_def same_identity_token_def)

lemma same_principal_trans: "same_principal p q \<Longrightarrow> same_principal q r \<Longrightarrow> same_principal p r"
  by (simp add: same_principal_def)

lemma same_token_trans: "same_token t u \<Longrightarrow> same_token u v \<Longrightarrow> same_token t v"
  by (simp add: same_token_def)

lemma same_identity_token_iff:
  "same_identity_token t u \<longleftrightarrow>
     it_token_id u = it_token_id t \<and> it_principal_id u = it_principal_id t \<and> it_organization_id u = it_organization_id t
     \<and> it_purpose u = it_purpose t \<and> it_secret_hash u = it_secret_hash t \<and> it_created_at u = it_created_at t
     \<and> it_expires_at u = it_expires_at t \<and> (it_used_at t \<noteq> None \<longrightarrow> it_used_at u \<noteq> None)"
  by (cases t; cases u) (auto simp: same_identity_token_def)

lemma same_identity_token_trans: "same_identity_token t u \<Longrightarrow> same_identity_token u v \<Longrightarrow> same_identity_token t v"
  by (simp add: same_identity_token_iff)

lemma identity_later_refl: "identity_later db db"
  by (auto simp: identity_later_def keeps_rows_def)

lemma identity_later_trans:
  assumes "identity_later a b" "identity_later b c"
  shows "identity_later a c"
  using assms unfolding identity_later_def
  by (intro conjI; elim conjE)
    (erule (1) keeps_rows_trans [rotated]; metis same_principal_trans same_token_trans same_identity_token_trans)+

lemmas find_defs = find_organization_def find_principal_def find_api_token_def find_identity_token_def

lemma same_keys:
  "same_principal p q \<Longrightarrow> pn_principal_id q = pn_principal_id p"
  "same_token t u \<Longrightarrow> at_token_id u = at_token_id t"
  "same_identity_token i j \<Longrightarrow> it_token_id j = it_token_id i"
  by (simp_all add: same_principal_def same_token_def same_identity_token_iff)

lemma identity_write_later:
  assumes "identity_write db db'"
  shows "identity_later db db'"
  using assms
  by cases (auto simp: identity_later_def keeps_rows_def find_defs sql_find_append sql_find_update same_keys)

interpretation identity: machine_progress "\<lambda>db. db = empty_identity_db" identity_write identity_inv identity_later
  by unfold_locales
    (auto intro: identity_write_inv identity_later_refl identity_later_trans identity_write_later empty_identity_inv)

section \<open>The operations make at most one write\<close>

lemma reflclp_cases: "db' = db \<or> R db db' \<Longrightarrow> R\<^sup>=\<^sup>= db db'"
  by auto

lemma persisted_Inr: "persisted m = Inr x \<longleftrightarrow> m = Inr x"
  by (auto simp: persisted_def split: sum.splits)

lemma get_principal_Inr:
  "get_principal i db = Inr p \<Longrightarrow>
     \<exists>row. find_principal i db = Some row \<and> Principal_post_init row = Inr p
           \<and> pn_principal_id p = i \<and> pn_organization_id p = pn_organization_id row"
  by (auto simp: get_principal_def principal_from_row_def persisted_Inr Principal_post_init_def bindE_eq_Inr find_principal_def
      split: option.splits dest: sql_find_Some)

lemma get_organization_Inr:
  "get_organization i db = Inr v \<Longrightarrow>
     \<exists>row. find_organization i db = Some row \<and> Organization_post_init (organization.truncate row) = Inr v
           \<and> og_organization_id v = i"
  by (auto simp: get_organization_def organization_from_row_def persisted_Inr Organization_post_init_def bindE_eq_Inr
      find_organization_def split: option.splits dest: sql_find_Some)

lemma create_organization_write: "identity_write\<^sup>=\<^sup>= db (snd (create_organization i name now db))"
  by (rule reflclp_cases) (auto simp: create_organization_def Let_def split: sum.splits intro!: Insert_Organization)

lemma create_principal_write: "identity_write\<^sup>=\<^sup>= db (snd (create_principal i oid name t r now email db))"
  by (rule reflclp_cases)
    (auto simp: create_principal_def bindE_eq_Inr raise_if_eq_Inr split: sum.splits intro!: Insert_Principal)

lemma update_principal_write:
  "(\<And>p. same_principal p (f p)) \<Longrightarrow> identity_write\<^sup>=\<^sup>= db (snd (update_principal i oid f db))"
  by (rule reflclp_cases) (auto simp: update_principal_def split: sum.splits intro: Update_Principals)

lemma same_principal_updates [simp]:
  "same_principal p (p\<lparr>pn_role := r\<rparr>)" "same_principal p (p\<lparr>pn_active := a\<rparr>)"
  "same_principal p (p\<lparr>pn_email_verified_at := t\<rparr>)" "same_principal p (p\<lparr>pn_last_login_at := t\<rparr>)"
  by (simp_all add: same_principal_def)

lemma principal_writes:
  "identity_write\<^sup>=\<^sup>= db (snd (update_principal_role i oid r db))"
  "identity_write\<^sup>=\<^sup>= db (snd (set_principal_active i oid a db))"
  "identity_write\<^sup>=\<^sup>= db (snd (set_principal_email_verified i now db))"
  "identity_write\<^sup>=\<^sup>= db (snd (touch_last_login i now db))"
  using update_principal_write [of "\<lambda>p. p\<lparr>pn_role := r\<rparr>" db i oid]
    update_principal_write [of "\<lambda>p. p\<lparr>pn_active := a\<rparr>" db i oid]
  by (auto simp: update_principal_role_def set_principal_active_def set_principal_email_verified_def touch_last_login_def
      intro: Update_Principals split: sum.splits)

lemma set_password_hash_write: "identity_write\<^sup>=\<^sup>= db (snd (set_password_hash i a h now db))"
  by (auto simp: set_password_hash_def intro: Write_Password)

lemma identity_token_writes:
  "identity_write\<^sup>=\<^sup>= db (snd (create_identity_token scrypt salt secret tid pid oid purpose ttl now db))"
  "identity_write\<^sup>=\<^sup>= db (snd (consume_identity_token scrypt token purpose now db))"
  "identity_write db (mark_identity_token tid now db)"
  "identity_write\<^sup>=\<^sup>= db (snd (invalidate_identity_tokens pid purpose now db))"
  by (auto simp: create_identity_token_def consume_identity_token_def mark_identity_token_def
      invalidate_identity_tokens_def Let_def same_identity_token_iff split: sum.splits
      intro!: Insert_Identity_Token Update_Identity_Tokens)

lemma ApiTokenMetadata_post_init_columns':
  "ApiTokenMetadata_post_init m0 = Inr m \<Longrightarrow>
     at_principal_id m = at_principal_id m0 \<and> at_organization_id m = at_organization_id m0 \<and> at_token_id m = at_token_id m0"
  by (auto simp: ApiTokenMetadata_post_init_def bindE_eq_Inr raise_if_eq_Inr)

lemma create_token_write: "identity_write\<^sup>=\<^sup>= db (snd (create_token scrypt salt secret tid pid label days now db))"
  by (rule reflclp_cases)
    (auto simp: create_token_def bindE_eq_Inr raise_if_eq_Inr split: sum.splits
      dest!: get_principal_Inr dest: ApiTokenMetadata_post_init_columns' intro!: Insert_Api_Token)

lemma token_writes:
  "identity_write\<^sup>=\<^sup>= db (snd (authenticate_token scrypt token now db))"
  "identity_write\<^sup>=\<^sup>= db (snd (revoke_token tid now db))"
  "identity_write\<^sup>=\<^sup>= db (snd (revoke_token_owned tid pid now db))"
  by (auto simp: authenticate_token_def revoke_token_def revoke_token_owned_def revoke_row_def same_token_def
      split: sum.splits option.splits intro!: Update_Api_Tokens)

lemma log_writes:
  "identity_write\<^sup>=\<^sup>= db (snd (assign_authorization oid aid who now db))"
  "SecurityAuditEvent_post_init e0 = Inr e \<Longrightarrow> identity_write\<^sup>=\<^sup>= db (snd (record_audit_event e db))"
  by (auto simp: assign_authorization_def record_audit_event_def split: sum.splits
      intro: Insert_Assignment Insert_Audit)

lemmas identity_op_writes =
  create_organization_write create_principal_write principal_writes set_password_hash_write identity_token_writes
  create_token_write token_writes log_writes

end
