(* ===== verification/Session_Props.thy ===== *)
theory Session_Props
  imports Sessions WG_Machine
begin

text \<open>
  Browser sessions as a machine whose steps are the calls that hold the repository's lock, and how
  long a session lives.
\<close>

section \<open>The machine\<close>

inductive session_step :: "sessions \<Rightarrow> sessions \<Rightarrow> bool" where
  Create:
    "session_id \<notin> fst ` set ss \<Longrightarrow>
     session_step ss (snd (create_session scrypt salt csrf_salt session_id secret csrf_token principal_id organization_id
       now idle_ttl absolute_ttl level user_agent ip_address ss))"
| Authenticate:
    "session_step ss (snd (authenticate_session scrypt token now idle_ttl csrf_header require_csrf ss))"
| Revoke:
    "session_step ss (revoke_session session_id principal_id now ss)"

text \<open>Identifiers are unique and every session is stored under its own.\<close>

definition sessions_inv :: "sessions \<Rightarrow> bool" where
  "sessions_inv ss \<longleftrightarrow> distinct (map fst ss) \<and> (\<forall>(i, s) \<in> set ss. bs_session_id (ss_record s) = i)"

text \<open>What no call changes of a session: its owner, its secrets and its absolute expiry; a revocation stays.\<close>

definition same_session :: "session_state \<Rightarrow> session_state \<Rightarrow> bool" where
  "same_session s t \<longleftrightarrow>
     ss_secret_hash t = ss_secret_hash s \<and> ss_csrf_hash t = ss_csrf_hash s
     \<and> bs_session_id (ss_record t) = bs_session_id (ss_record s)
     \<and> bs_principal_id (ss_record t) = bs_principal_id (ss_record s)
     \<and> bs_organization_id (ss_record t) = bs_organization_id (ss_record s)
     \<and> bs_issued_at (ss_record t) = bs_issued_at (ss_record s)
     \<and> bs_absolute_expires_at (ss_record t) = bs_absolute_expires_at (ss_record s)
     \<and> (bs_revoked_at (ss_record s) \<noteq> None \<longrightarrow> bs_revoked_at (ss_record t) \<noteq> None)"

definition sessions_later :: "sessions \<Rightarrow> sessions \<Rightarrow> bool" where
  "sessions_later ss ss' \<longleftrightarrow>
     (\<forall>i s. sessions_get i ss = Some s \<longrightarrow> (\<exists>t. sessions_get i ss' = Some t \<and> same_session s t))"

section \<open>The dictionary\<close>

lemma map_of_replace:
  "map_of (map (\<lambda>(j, t). if j = i then (j, s) else (j, t)) ss) k
   = (if k = i then map_option (\<lambda>_. s) (map_of ss k) else map_of ss k)"
  by (induction ss) auto

lemma map_of_mem: "i \<in> fst ` set ss \<Longrightarrow> \<exists>s. map_of ss i = Some s" "i \<notin> fst ` set ss \<Longrightarrow> map_of ss i = None"
  by (metis map_of_eq_None_iff not_None_eq) (simp add: map_of_eq_None_iff)

lemma sessions_get_put: "sessions_get i (sessions_put j s ss) = (if i = j then Some s else sessions_get i ss)"
  using map_of_mem [of j ss]
  by (auto simp: sessions_get_def sessions_put_def map_of_replace map_add_def split: option.splits)

lemma map_fst_replace: "map fst (map (\<lambda>(j, t). if j = i then (j, s) else (j, t)) ss) = map fst ss"
  by auto

lemma sessions_put_inv:
  assumes "sessions_inv ss" "bs_session_id (ss_record s) = i"
  shows "sessions_inv (sessions_put i s ss)"
proof (cases "i \<in> fst ` set ss")
  case True
  then show ?thesis
    using assms unfolding sessions_inv_def sessions_put_def by (auto simp: map_fst_replace simp del: map_map split: if_splits)
next
  case False
  then show ?thesis
    using assms by (auto simp: sessions_inv_def sessions_put_def)
qed

lemma sessions_get_inv: "sessions_inv ss \<Longrightarrow> sessions_get i ss = Some s \<Longrightarrow> bs_session_id (ss_record s) = i"
  by (auto simp: sessions_inv_def sessions_get_def dest!: map_of_SomeD)

lemma same_session_refl [simp]: "same_session s s"
  by (simp add: same_session_def)

lemma same_session_trans: "same_session s t \<Longrightarrow> same_session t u \<Longrightarrow> same_session s u"
  by (simp add: same_session_def)

lemma sessions_later_put:
  "(\<And>s. sessions_get i ss = Some s \<Longrightarrow> same_session s t) \<Longrightarrow> sessions_later ss (sessions_put i t ss)"
  by (auto simp: sessions_later_def sessions_get_put)

lemma sessions_later_refl [simp]: "sessions_later ss ss"
  by (auto simp: sessions_later_def)

lemma sessions_later_trans: "sessions_later a b \<Longrightarrow> sessions_later b c \<Longrightarrow> sessions_later a c"
  unfolding sessions_later_def by (meson same_session_trans)

section \<open>Steps\<close>

text \<open>An accepted session and what the repository then holds.\<close>

lemma authenticate_session_Inr:
  "authenticate_session scrypt token now ttl header csrf ss = (Inr r, ss') \<longleftrightarrow>
     (\<exists>i secret s. parse_prefixed_secret ''wgs'' ''session_invalid'' token = Inr (i, secret)
        \<and> sessions_get i ss = Some s \<and> verify_secret scrypt secret (ss_secret_hash s) \<and> is_usable now (ss_record s)
        \<and> (csrf \<longrightarrow> (\<exists>h. header = Some h \<and> verify_secret scrypt h (ss_csrf_hash s)))
        \<and> r = (ss_record s)\<lparr>bs_idle_expires_at := min (now + ttl) (bs_absolute_expires_at (ss_record s)),
                             bs_last_used_at := Some now\<rparr>
        \<and> ss' = sessions_put i (s\<lparr>ss_record := r\<rparr>) ss)"
  by (auto simp: authenticate_session_def Let_def split: sum.splits option.splits)

lemma authenticate_session_Inl: "authenticate_session scrypt token now ttl header csrf ss = (Inl e, ss') \<Longrightarrow> ss' = ss"
  by (auto simp: authenticate_session_def Let_def split: sum.splits option.splits if_splits)

lemma touched_session:
  assumes "sessions_inv ss" "sessions_get i ss = Some s" "same_session s t"
  shows "sessions_inv (sessions_put i t ss) \<and> sessions_later ss (sessions_put i t ss)"
  using assms sessions_get_inv [OF assms(1,2)]
  by (auto intro!: sessions_put_inv sessions_later_put simp: same_session_def)

lemma same_session_updates:
  "same_session s (s\<lparr>ss_record := (ss_record s)\<lparr>bs_idle_expires_at := t, bs_last_used_at := u\<rparr>\<rparr>)"
  "same_session s (s\<lparr>ss_record := (ss_record s)\<lparr>bs_revoked_at := Some v\<rparr>\<rparr>)"
  by (simp_all add: same_session_def)

lemma authenticate_session_keeps:
  assumes "sessions_inv ss" "authenticate_session scrypt token now ttl header csrf ss = (r, ss')"
  shows "sessions_inv ss' \<and> sessions_later ss ss'"
proof (cases r)
  case (Inl e)
  then show ?thesis
    using assms authenticate_session_Inl by (metis sessions_later_refl)
next
  case (Inr a)
  then obtain i s where "sessions_get i ss = Some s" "ss' = sessions_put i (s\<lparr>ss_record :=
      (ss_record s)\<lparr>bs_idle_expires_at := min (now + ttl) (bs_absolute_expires_at (ss_record s)),
                      bs_last_used_at := Some now\<rparr>\<rparr>) ss"
    using assms(2) unfolding Inr authenticate_session_Inr by blast
  then show ?thesis
    using touched_session [OF assms(1)] same_session_updates(1) by blast
qed

lemma session_step_inv:
  assumes "sessions_inv ss" "session_step ss ss'"
  shows "sessions_inv ss' \<and> sessions_later ss ss'"
  using assms(2)
proof cases
  case (Create session_id)
  then show ?thesis
    using assms(1)
    by (auto simp: create_session_def Let_def sessions_get_def map_of_mem(2) intro!: sessions_put_inv sessions_later_put)
next
  case (Authenticate scrypt token now ttl header csrf)
  then show ?thesis
    using authenticate_session_keeps [OF assms(1)] by (metis prod.collapse)
next
  case (Revoke session_id)
  then show ?thesis
    using assms(1) touched_session [OF assms(1) _ same_session_updates(2)]
    by (auto simp: revoke_session_def split: option.splits)
qed

interpretation browser: machine_progress "\<lambda>ss. ss = []" session_step sessions_inv sessions_later
proof
  show "ss = [] \<Longrightarrow> sessions_inv ss" for ss
    by (simp add: sessions_inv_def)
qed (simp_all add: session_step_inv, rule sessions_later_trans)

lemma fold_revoke_steps: "session_step\<^sup>*\<^sup>* ss (fold (\<lambda>sid. revoke_session sid principal_id now) targets ss)"
  by (induction targets arbitrary: ss) (auto intro: Revoke converse_rtranclp_into_rtranclp)

lemma revoke_all_steps: "session_step\<^sup>*\<^sup>* ss (snd (revoke_all_sessions_for_principal principal_id now except_id ss))"
  using fold_revoke_steps by (simp add: revoke_all_sessions_for_principal_def Let_def)

section \<open>The life of a session\<close>

text \<open>
  C29. A session ends: from any state on, whatever calls follow, no token authenticates a session that
  was revoked, or at or after the absolute expiry it was created with, and the refused attempt changes
  nothing. A session that is accepted was idle for less than its limit, carries the CSRF token when one
  is required, and is renewed to at most its absolute expiry.
\<close>

theorem session_lifetime:
  assumes "reachable (\<lambda>ss. ss = []) session_step ss" "sessions_get i ss = Some s" "session_step\<^sup>*\<^sup>* ss ss'"
    and "parse_prefixed_secret ''wgs'' ''session_invalid'' token = Inr (i, secret)"
  shows "(bs_absolute_expires_at (ss_record s) \<le> now \<or> bs_revoked_at (ss_record s) \<noteq> None \<longrightarrow>
           authenticate_session scrypt token now ttl header csrf ss'
           \<in> {(Inl (is_error ''session_invalid''), ss'), (Inl (is_error ''session_expired''), ss')})
    \<and> (authenticate_session scrypt token now ttl header csrf ss' = (Inr r, ss'') \<longrightarrow>
           bs_session_id r = i \<and> bs_principal_id r = bs_principal_id (ss_record s)
           \<and> bs_organization_id r = bs_organization_id (ss_record s)
           \<and> (\<exists>t. get_session i ss' = Some t \<and> bs_revoked_at t = None \<and> now < bs_idle_expires_at t)
           \<and> (csrf \<longrightarrow> (\<exists>h. header = Some h \<and> verify_secret scrypt h (ss_csrf_hash s)))
           \<and> bs_idle_expires_at r \<le> now + ttl \<and> bs_idle_expires_at r \<le> bs_absolute_expires_at (ss_record s)
           \<and> get_session i ss'' = Some r)"
proof -
  have inv: "sessions_inv ss"
    using browser.reachable_inv [OF assms(1)] .
  obtain t where t: "sessions_get i ss' = Some t" "same_session s t"
    using browser.steps_rel [OF assms(3) inv] assms(2) unfolding sessions_later_def by blast
  have "authenticate_session scrypt token now ttl header csrf ss'
      \<in> {(Inl (is_error ''session_invalid''), ss'), (Inl (is_error ''session_expired''), ss')}"
    if "bs_absolute_expires_at (ss_record s) \<le> now \<or> bs_revoked_at (ss_record s) \<noteq> None"
    using that t assms(4) by (auto simp: authenticate_session_def is_usable_def same_session_def)
  then show ?thesis
    using t assms(4) sessions_get_inv [OF inv assms(2)]
    by (auto simp: authenticate_session_Inr is_usable_def same_session_def get_session_def sessions_get_put)
qed

text \<open>Revoking a session, or all sessions of its owner, is such a revocation.\<close>

lemma revoke_session_revokes:
  "sessions_get i ss = Some s \<Longrightarrow> bs_principal_id (ss_record s) = p \<Longrightarrow>
     \<exists>t. sessions_get i (revoke_session i p now ss) = Some t \<and> bs_revoked_at (ss_record t) \<noteq> None"
  by (auto simp: revoke_session_def sessions_get_put)

lemma revoke_all_revokes:
  assumes "sessions_inv ss" "sessions_get i ss = Some s" "bs_principal_id (ss_record s) = p" "Some i \<noteq> except_id"
  shows "\<exists>t. sessions_get i (snd (revoke_all_sessions_for_principal p now except_id ss)) = Some t
             \<and> bs_revoked_at (ss_record t) \<noteq> None"
proof (cases "bs_revoked_at (ss_record s) = None")
  case False
  then show ?thesis
    using browser.steps_rel [OF revoke_all_steps assms(1)] assms(2) unfolding sessions_later_def same_session_def by blast
next
  case True
  define targets where "targets = map fst (filter (\<lambda>(sid, state). bs_principal_id (ss_record state) = p
    \<and> bs_revoked_at (ss_record state) = None \<and> Some sid \<noteq> except_id) ss)"
  let ?revoke = "\<lambda>sid. revoke_session sid p now"
  have "(i, s) \<in> set ss"
    using assms(2) by (auto simp: sessions_get_def dest: map_of_SomeD)
  then have "i \<in> set targets"
    using True assms(3,4) by (force simp: targets_def)
  then obtain xs ys where targets: "targets = xs @ i # ys"
    by (auto simp: in_set_conv_decomp)
  have inv: "sessions_inv (fold ?revoke xs ss)"
    using browser.steps_inv [OF fold_revoke_steps assms(1)] .
  obtain t where t: "sessions_get i (fold ?revoke xs ss) = Some t" "same_session s t"
    using browser.steps_rel [OF fold_revoke_steps assms(1)] assms(2) unfolding sessions_later_def by blast
  then obtain u where u: "sessions_get i (?revoke i (fold ?revoke xs ss)) = Some u" "bs_revoked_at (ss_record u) \<noteq> None"
    using revoke_session_revokes [OF t(1), of p now] assms(3) by (auto simp: same_session_def)
  have "sessions_inv (?revoke i (fold ?revoke xs ss))"
    using session_step_inv [OF inv Revoke] by blast
  then obtain v where "sessions_get i (fold ?revoke targets ss) = Some v" "same_session u v"
    using browser.steps_rel [OF fold_revoke_steps] u(1) unfolding sessions_later_def targets by fastforce
  then show ?thesis
    using u(2) by (auto simp: revoke_all_sessions_for_principal_def Let_def targets_def [symmetric] same_session_def)
qed

section \<open>A session\<close>

text \<open>A key-derivation function of the right output length, for examples only.\<close>

definition sample_kdf :: kdf where
  "sample_kdf secret salt n r p dklen = take dklen (map of_char secret @ salt @ replicate dklen 0)"

definition sample_id :: string where
  "sample_id = dash_uuid (replicate 32 (CHR ''7''))"

lemma sample_id_shape: "uuid_shape sample_id"
  unfolding uuid_shape_def sample_id_def
  by (rule exI [of _ "replicate 32 (CHR ''7'')"]) (simp add: is_hex_def hex_alphabet_def list_all_iff)

lemma sample_verify: "verify_secret sample_kdf secret (hash_secret sample_kdf salt secret)"
  by (rule verify_hash_secret) (simp add: sample_kdf_def)

definition sample_record :: browser_session where
  "sample_record =
     \<lparr>bs_session_id = sample_id, bs_principal_id = ''p'', bs_organization_id = ''o'', bs_assurance_level = ''password'',
      bs_issued_at = 100, bs_idle_expires_at = 110, bs_absolute_expires_at = 120, bs_last_used_at = None,
      bs_revoked_at = None, bs_user_agent = None, bs_ip_address = None\<rparr>"

definition sample_session :: session_state where
  "sample_session =
     \<lparr>ss_record = sample_record, ss_secret_hash = hash_secret sample_kdf [3] ''s'',
      ss_csrf_hash = hash_secret sample_kdf [2] ''c''\<rparr>"

lemma sample_created:
  "create_session sample_kdf [3] [2] sample_id ''s'' ''c'' ''p'' ''o'' 100 10 20 ''password'' None None []
   = ((sample_record, ''wgs_'' @ sample_id @ ''_'' @ ''s'', ''c''), [(sample_id, sample_session)])"
  by (simp add: create_session_def Let_def sessions_put_def sample_session_def sample_record_def)

lemma sample_sessions_reachable: "reachable (\<lambda>ss. ss = []) session_step [(sample_id, sample_session)]"
proof (rule reachable_step)
  show "session_step [] [(sample_id, sample_session)]"
    using Create [of sample_id "[]" sample_kdf "[3]" "[2]" "''s''" "''c''" "''p''" "''o''" 100 10 20 "''password''" None None]
    by (simp add: sample_created)
qed (simp add: reachable_init)

lemma sample_token: "parse_prefixed_secret ''wgs'' ''session_invalid'' (''wgs_'' @ sample_id @ ''_s'') = Inr (sample_id, ''s'')"
  using parse_prefixed_secret_issued [OF _ sample_id_shape, of "''wgs''" "''s''"] by simp

lemma sample_session_facts:
  "verify_secret sample_kdf ''s'' (ss_secret_hash sample_session)" "verify_secret sample_kdf ''c'' (ss_csrf_hash sample_session)"
  "bs_absolute_expires_at (ss_record sample_session) = 120" "\<not> is_usable 120 (ss_record sample_session)"
  "is_usable 105 (ss_record sample_session)"
  by (simp_all add: sample_session_def sample_record_def sample_verify is_usable_def)

theorem session_lifetime_witness:
  "authenticate_session sample_kdf (''wgs_'' @ sample_id @ ''_s'') 120 10 None False [(sample_id, sample_session)]
     = (Inl (is_error ''session_expired''), [(sample_id, sample_session)])
   \<and> (\<exists>r ss''. authenticate_session sample_kdf (''wgs_'' @ sample_id @ ''_s'') 105 30 (Some ''c'') True
          [(sample_id, sample_session)] = (Inr r, ss'') \<and> bs_idle_expires_at r \<le> 120)"
proof -
  have get: "sessions_get sample_id [(sample_id, sample_session)] = Some sample_session"
    by (simp add: sessions_get_def)
  note life = session_lifetime [OF sample_sessions_reachable get rtranclp.rtrancl_refl sample_token]
  have "fst (authenticate_session sample_kdf (''wgs_'' @ sample_id @ ''_s'') 120 10 None False [(sample_id, sample_session)])
      \<noteq> Inl (is_error ''session_invalid'')"
    using sample_token
    by (simp add: authenticate_session_def get sample_session_facts is_error_def)
  then have "authenticate_session sample_kdf (''wgs_'' @ sample_id @ ''_s'') 120 10 None False [(sample_id, sample_session)]
     = (Inl (is_error ''session_expired''), [(sample_id, sample_session)])"
    using life [THEN conjunct1, of 120 sample_kdf 10 None False] by (auto simp: sample_session_facts)
  moreover obtain r ss'' where "authenticate_session sample_kdf (''wgs_'' @ sample_id @ ''_s'') 105 30 (Some ''c'') True
      [(sample_id, sample_session)] = (Inr r, ss'')"
    using sample_token
    by (simp add: authenticate_session_def get sample_session_facts Let_def)
  ultimately show ?thesis
    using life [THEN conjunct2, of sample_kdf 105 30 "Some ''c''" True r ss''] by (auto simp: sample_session_facts)
qed

end
