(* ===== verification/Identity_Props.thy ===== *)
theory Identity_Props
  imports Identity_Machine Session_Props
begin

text \<open>
  What the identity store promises: who an API token authenticates as, that revocation is
  final, that a used identity token is refused, and how long a browser session lives.
\<close>

section \<open>API tokens\<close>

abbreviation identity_reachable :: "identity_db \<Rightarrow> bool" where
  "identity_reachable \<equiv> reachable (\<lambda>db. db = empty_identity_db) identity_write"

lemma keeps_rowsD: "keeps_rows R look db db' \<Longrightarrow> look i db = Some r \<Longrightarrow> \<exists>r'. look i db' = Some r' \<and> R r r'"
  by (auto simp: keeps_rows_def)

lemma identity_laterD:
  assumes "identity_write\<^sup>*\<^sup>* db db'" "identity_inv db"
  shows "find_api_token i db = Some t \<Longrightarrow> \<exists>u. find_api_token i db' = Some u \<and> same_token t u"
    and "find_identity_token i db = Some v \<Longrightarrow> \<exists>u. find_identity_token i db' = Some u \<and> same_identity_token v u"
  using identity.steps_rel [OF assms] unfolding identity_later_def by (auto dest: keeps_rowsD)

lemma readable_rows:
  assumes "identity_inv db"
  shows "find_api_token i db = Some t \<Longrightarrow> token_metadata t = Inr (api_token_metadata.truncate t) \<and> at_token_id t = i"
    and "find_principal i db = Some p \<Longrightarrow> principal_from_row p = Inr p \<and> pn_principal_id p = i"
    and "find_organization i db = Some r \<Longrightarrow>
           organization_from_row r = Inr (organization.truncate r) \<and> og_organization_id r = i"
  using assms
  by (auto simp: find_defs identity_inv_def identity_inv_defs principal_table_def token_metadata_def
      principal_from_row_def organization_from_row_def persisted_def dest!: sql_find_Some)

text \<open>The owner of a token is a principal of the token's organization.\<close>

lemma token_owner:
  assumes "identity_inv db" "find_api_token i db = Some t"
  shows "\<exists>p r. find_principal (at_principal_id t) db = Some p \<and> pn_organization_id p = at_organization_id t
           \<and> find_organization (at_organization_id t) db = Some r"
proof -
  have "t \<in> set (api_tokens db)"
    using assms(2) by (auto simp: find_api_token_def dest: sql_find_Some)
  then have "(at_principal_id t, at_organization_id t)
      \<in> (\<lambda>p. (pn_principal_id p, pn_organization_id p)) ` set (principals db)"
    using assms(1) by (simp add: identity_inv_def api_tokens_ok_def)
  then obtain p where p: "p \<in> set (principals db)" "pn_principal_id p = at_principal_id t"
    "pn_organization_id p = at_organization_id t"
    by auto
  moreover have "distinct (map pn_principal_id (principals db))"
    using assms(1) by (simp add: identity_inv_def principals_ok_def principal_table_def)
  ultimately have "find_principal (at_principal_id t) db = Some p"
    by (auto simp: find_principal_def sql_find_key)
  moreover have "pn_organization_id p \<in> og_organization_id ` set (organizations db)"
    using assms(1) p(1) by (simp add: identity_inv_def principals_ok_def principal_table_def)
  then have "find_organization (at_organization_id t) db \<noteq> None"
    using find_None_iff(1) p(3) by metis
  ultimately show ?thesis
    using p by auto
qed

lemma check_api_token_row:
  assumes "identity_inv db" "token_parts token = Inr (token_id, secret)" "find_api_token token_id db = Some row"
    and "find_principal (at_principal_id row) db = Some p" "find_organization (at_organization_id row) db = Some r"
  shows "check_api_token scrypt token now db =
     raise_if (\<not> verify_secret scrypt secret (at_secret_hash row)) (is_error ''api_token_invalid'')
     (raise_if (at_revoked_at row \<noteq> None) (is_error ''api_token_revoked'')
     (raise_if (now \<ge> at_expires_at row) (is_error ''api_token_expired'')
     (raise_if (\<not> pn_active p) (is_error ''principal_disabled'')
     (raise_if (og_status r \<noteq> ORG_ACTIVE) (is_error ''organization_disabled'')
     (Inr (api_token_metadata.truncate row, p, organization.truncate r))))))"
  using assms(2-) readable_rows [OF assms(1)] by (simp add: check_api_token_def)

lemma check_api_token_revoked:
  assumes "identity_inv db" "token_parts token = Inr (token_id, secret)" "find_api_token token_id db = Some row"
    and "at_revoked_at row \<noteq> None"
  shows "check_api_token scrypt token now db = Inl (is_error ''api_token_revoked'')
         \<or> check_api_token scrypt token now db = Inl (is_error ''api_token_invalid'')"
  using token_owner [OF assms(1,3)] check_api_token_row [OF assms(1-3)] assms(4) by (auto simp: raise_if_def)

lemma revoke_token_revokes:
  assumes "revoke_token token_id t db = (Inr metadata, db1)"
  obtains row where "find_api_token token_id db1 = Some row" "at_revoked_at row \<noteq> None"
proof -
  obtain row0 where row0: "find_api_token token_id db = Some row0" "revoke_row token_id t row0 db = (Inr metadata, db1)"
    using assms by (auto simp: revoke_token_def split: option.splits)
  moreover have "at_token_id row0 = token_id"
    using row0(1) by (auto simp: find_api_token_def dest: sql_find_Some)
  ultimately show thesis
    using that
    by (auto simp: revoke_row_def find_api_token_def sql_find_update token_metadata_def persisted_Inr
        ApiTokenMetadata_post_init_def bindE_eq_Inr raise_if_eq_Inr split: sum.splits if_splits)
qed

text \<open>
  C27. An API token is refused for ever after its revocation: once \<^verbatim>\<open>revoke_token\<close> has returned,
  no later interleaving of writes lets any secret authenticate under that token identifier, and the
  refused attempt writes nothing.
\<close>

theorem revoked_token_refused:
  assumes "identity_reachable db" "revoke_token token_id t db = (Inr metadata, db1)" "identity_write\<^sup>*\<^sup>* db1 db2"
    and "token_parts token = Inr (token_id, secret)"
  shows "authenticate_token scrypt token now db2 = (Inl (is_error ''api_token_revoked''), db2)
         \<or> authenticate_token scrypt token now db2 = (Inl (is_error ''api_token_invalid''), db2)"
proof -
  have "identity_write\<^sup>=\<^sup>= db db1"
    using token_writes(2) [of db token_id t] assms(2) by simp
  then have inv1: "identity_inv db1"
    using identity.reachable_inv [OF assms(1)] identity_write_inv by auto
  have inv2: "identity_inv db2"
    using identity.steps_inv [OF assms(3) inv1] .
  obtain row where row: "find_api_token token_id db1 = Some row" "at_revoked_at row \<noteq> None"
    using revoke_token_revokes [OF assms(2)] .
  obtain u where "find_api_token token_id db2 = Some u" "at_revoked_at u \<noteq> None"
    using identity_laterD(1) [OF assms(3) inv1 row(1)] row(2) by (auto simp: same_token_def)
  then show ?thesis
    using check_api_token_revoked [OF inv2 assms(4), of u scrypt now] by (auto simp: authenticate_token_def)
qed

text \<open>
  The exact conditions under which a bearer token authenticates, and as whom: its secret must be
  the one of an unrevoked, unexpired token whose owner and organization are active, and the context
  carries the owner's current role and the one organization that the owner belongs to.
\<close>

theorem token_authenticate_exact:
  assumes "identity_reachable db"
  shows "(\<exists>db'. token_authenticate scrypt headers now db = (Inr c, db')) \<longleftrightarrow>
    (\<exists>token secret row p r. bearer_token headers = Inr token \<and> token_parts token = Inr (at_token_id row, secret)
       \<and> find_api_token (at_token_id row) db = Some row \<and> verify_secret scrypt secret (at_secret_hash row)
       \<and> at_revoked_at row = None \<and> now < at_expires_at row
       \<and> find_principal (at_principal_id row) db = Some p \<and> pn_active p
       \<and> find_organization (pn_organization_id p) db = Some r \<and> og_status r = ORG_ACTIVE
       \<and> c = \<lparr>ac_organization_id = pn_organization_id p, ac_organization_name = og_name r,
              ac_principal_id = pn_principal_id p, ac_principal_name = pn_display_name p,
              ac_role = pn_role p, ac_token_id = at_token_id row, ac_auth_method = ''api_token''\<rparr>)"
    (is "?lhs = ?rhs")
proof -
  have inv: "identity_inv db"
    using identity.reachable_inv [OF assms] .
  have touch: "ApiTokenMetadata_post_init ((api_token_metadata.truncate row)\<lparr>at_last_used_at := Some now\<rparr>)
      = Inr ((api_token_metadata.truncate row)\<lparr>at_last_used_at := Some now\<rparr>)"
    if "find_api_token i db = Some row" for i row
    using readable_rows(1) [OF inv that] by (auto simp: ApiTokenMetadata_fixed token_metadata_def persisted_Inr)
  have ctx: "\<lparr>ac_organization_id = i, ac_organization_name = og_name r, ac_principal_id = pn_principal_id p,
      ac_principal_name = pn_display_name p, ac_role = pn_role p, ac_token_id = t, ac_auth_method = k\<rparr>
      = context_of p (organization.truncate r) t k" if "find_organization i db = Some r" for i r p t k
    using readable_rows(3) [OF inv that] by (simp add: context_of_def organization.truncate_def)
  show ?thesis
  proof
    assume ?lhs
    then obtain token m p v where "bearer_token headers = Inr token" and
      chk: "check_api_token scrypt token now db = Inr (m, p, v)" and
      c: "c = context_of p v (at_token_id m) ''api_token''"
      by (auto simp: token_authenticate_def authenticate_token_def auth_result_def bindE_eq_Inr split: sum.splits
          dest!: ApiTokenMetadata_post_init_columns')
    moreover obtain i secret row where parts: "token_parts token = Inr (i, secret)" "find_api_token i db = Some row"
      using chk by (auto simp: check_api_token_def bindE_eq_Inr split: option.splits)
    moreover obtain q r where "find_principal (at_principal_id row) db = Some q" "pn_organization_id q = at_organization_id row"
      "find_organization (at_organization_id row) db = Some r"
      using token_owner [OF inv parts(2)] by blast
    ultimately have "bearer_token headers = Inr token \<and> token_parts token = Inr (at_token_id row, secret)
       \<and> find_api_token (at_token_id row) db = Some row \<and> verify_secret scrypt secret (at_secret_hash row)
       \<and> at_revoked_at row = None \<and> now < at_expires_at row
       \<and> find_principal (at_principal_id row) db = Some q \<and> pn_active q
       \<and> find_organization (pn_organization_id q) db = Some r \<and> og_status r = ORG_ACTIVE
       \<and> c = context_of q (organization.truncate r) (at_token_id row) ''api_token''"
      using check_api_token_row [OF inv parts, of q r scrypt now] readable_rows(1) [OF inv]
      by (auto simp: raise_if_eq_Inr)
    then show ?rhs
      using ctx by metis
  next
    assume ?rhs
    then obtain token secret row p r where r: "bearer_token headers = Inr token" "token_parts token = Inr (at_token_id row, secret)"
      "find_api_token (at_token_id row) db = Some row" "verify_secret scrypt secret (at_secret_hash row)"
      "at_revoked_at row = None" "now < at_expires_at row" "find_principal (at_principal_id row) db = Some p" "pn_active p"
      "find_organization (pn_organization_id p) db = Some r" "og_status r = ORG_ACTIVE"
      and c: "c = context_of p (organization.truncate r) (at_token_id row) ''api_token''"
      using ctx by metis
    moreover have "pn_organization_id p = at_organization_id row"
      using token_owner [OF inv r(3)] r(7) by auto
    ultimately show ?lhs
      using check_api_token_row [OF inv r(2,3), of p r scrypt now] touch [OF r(3)]
      by (simp add: token_authenticate_def authenticate_token_def auth_result_def raise_if_def)
  qed
qed

section \<open>Identity tokens\<close>

lemma check_identity_token_Inr:
  "check_identity_token scrypt token purpose now db = Inr row \<longleftrightarrow>
     (\<exists>secret. parse_prefixed_secret ''wgi'' ''identity_token_invalid'' token = Inr (it_token_id row, secret)
        \<and> find_identity_token (it_token_id row) db = Some row \<and> verify_secret scrypt secret (it_secret_hash row))
     \<and> it_purpose row = purpose \<and> it_used_at row = None \<and> now < it_expires_at row"
  by (auto simp: check_identity_token_def bindE_eq_Inr raise_if_eq_Inr find_identity_token_def split: option.splits
      dest: sql_find_Some)

text \<open>
  C28. A call that accepts an e-mail verification, password-reset or invitation token does so by a read
  and a later write, with any statements of other calls before, between and after them. What it accepts
  is the token's own secret and purpose, before the expiry and unused. Once the write is done, every
  call that reads the token afterwards is refused and writes nothing, whatever else is written: a token
  is accepted twice only by calls that overlap, each of which reads before the other one writes.
\<close>

theorem identity_token_single_use:
  assumes "identity_reachable db" "check_identity_token scrypt token purpose now db = Inr row"
    and "identity_write\<^sup>*\<^sup>* db db1" "db2 = mark_identity_token (it_token_id row) now db1" "identity_write\<^sup>*\<^sup>* db2 db3"
  shows "(\<exists>secret. parse_prefixed_secret ''wgi'' ''identity_token_invalid'' token = Inr (it_token_id row, secret)
           \<and> verify_secret scrypt secret (it_secret_hash row))
    \<and> find_identity_token (it_token_id row) db = Some row
    \<and> it_purpose row = purpose \<and> it_used_at row = None \<and> now < it_expires_at row
    \<and> find_identity_token (it_token_id row) db2 = Some (row\<lparr>it_used_at := Some now\<rparr>)
    \<and> consume_identity_token scrypt token other later db3 =
        (Inl (is_error (if other = purpose then ''identity_token_used'' else ''identity_token_invalid'')), db3)"
proof -
  obtain secret where row: "parse_prefixed_secret ''wgi'' ''identity_token_invalid'' token = Inr (it_token_id row, secret)"
    "find_identity_token (it_token_id row) db = Some row" "verify_secret scrypt secret (it_secret_hash row)"
    "it_purpose row = purpose" "it_used_at row = None" "now < it_expires_at row"
    using assms(2) unfolding check_identity_token_Inr by blast
  have inv: "identity_inv db"
    by (rule identity.reachable_inv [OF assms(1)])
  obtain u where u: "find_identity_token (it_token_id row) db1 = Some u" "same_identity_token row u"
    using identity_laterD(2) [OF assms(3) inv row(2)] by blast
  have "u\<lparr>it_used_at := Some now\<rparr> = row\<lparr>it_used_at := Some now\<rparr>" "it_token_id u = it_token_id row"
    using u(2) by (cases row, cases u, simp add: same_identity_token_def)+
  then have hit: "find_identity_token (it_token_id row) db2 = Some (row\<lparr>it_used_at := Some now\<rparr>)"
    using u(1) by (simp add: assms(4) mark_identity_token_def find_identity_token_def sql_find_update)
  have "identity_inv db1"
    using assms(3) inv by (induction rule: rtranclp_induct) (auto intro: identity_write_inv)
  then have "identity_inv db2"
    using identity_token_writes(3) identity_write_inv by (auto simp: assms(4))
  then obtain v where "find_identity_token (it_token_id row) db3 = Some v" "same_identity_token (row\<lparr>it_used_at := Some now\<rparr>) v"
    using identity_laterD(2) [OF assms(5) _ hit] by blast
  then have "consume_identity_token scrypt token other later db3 =
      (Inl (is_error (if other = purpose then ''identity_token_used'' else ''identity_token_invalid'')), db3)"
    using row by (simp add: consume_identity_token_def check_identity_token_def same_identity_token_iff raise_if_def)
  then show ?thesis
    using row hit by blast
qed

text \<open>
  Overlapping calls are a real exception: the update is not conditional on the token being unused, so
  two calls whose reads both precede the first write both succeed.
\<close>

lemma consume_race:
  assumes "check_identity_token scrypt token purpose now db = Inr row" "now' < it_expires_at row"
  shows "check_identity_token scrypt token purpose now' db = Inr row"
    and "identity_write\<^sup>*\<^sup>* db (mark_identity_token (it_token_id row) now' (mark_identity_token (it_token_id row) now db))"
proof -
  show "check_identity_token scrypt token purpose now' db = Inr row"
    using assms by (auto simp: check_identity_token_Inr)
  show "identity_write\<^sup>*\<^sup>* db (mark_identity_token (it_token_id row) now' (mark_identity_token (it_token_id row) now db))"
    using identity_token_writes(3) by (meson converse_rtranclp_into_rtranclp r_into_rtranclp)
qed

section \<open>A store\<close>

definition sample_org :: string where
  "sample_org = dash_uuid (replicate 32 (CHR ''a''))"

definition sample_user :: string where
  "sample_user = dash_uuid (replicate 32 (CHR ''b''))"

definition acme :: organization where
  "acme = \<lparr>og_organization_id = sample_org, og_name = ''acme'', og_status = ORG_ACTIVE, og_created_at = 0\<rparr>"

definition acme_row :: organization_row where
  "acme_row = organization.extend acme (organization_row.fields (casefold (codes ''acme'')))"

definition alice :: principal where
  "alice =
     \<lparr>pn_principal_id = sample_user, pn_organization_id = sample_org, pn_display_name = ''alice'', pn_principal_type = USER,
      pn_role = ANALYST, pn_active = True, pn_created_at = 0, pn_email = None, pn_email_verified_at = None,
      pn_last_login_at = None\<rparr>"

definition sample_metadata :: api_token_metadata where
  "sample_metadata =
     \<lparr>at_token_id = sample_id, at_organization_id = sample_org, at_principal_id = sample_user, at_label = ''ci'',
      at_created_at = 0, at_expires_at = 100, at_revoked_at = None, at_last_used_at = None\<rparr>"

definition sample_row :: api_token_row where
  "sample_row = api_token_metadata.extend sample_metadata (api_token_row.fields (hash_secret sample_kdf [3] ''s''))"

definition sample_reset :: identity_token where
  "sample_reset =
     \<lparr>it_token_id = sample_id, it_principal_id = sample_user, it_organization_id = sample_org,
      it_purpose = PASSWORD_RESET, it_secret_hash = hash_secret sample_kdf [3] ''s'', it_created_at = 0,
      it_expires_at = 100, it_used_at = None\<rparr>"

definition sample_identity :: identity_db where
  "sample_identity =
     \<lparr>organizations = [acme_row], principals = [alice], password_credentials = [], identity_tokens = [sample_reset],
      api_tokens = [sample_row], assigned_authorizations = [], audit_events = []\<rparr>"

lemma sample_shapes: "uuid_shape sample_org" "uuid_shape sample_user"
  unfolding uuid_shape_def sample_org_def sample_user_def
  by (rule exI [of _ "replicate 32 (CHR ''a'')"], simp add: is_hex_def hex_alphabet_def list_all_iff)
    (rule exI [of _ "replicate 32 (CHR ''b'')"], simp add: is_hex_def hex_alphabet_def list_all_iff)

lemma sample_texts: "tenancy_text 120 ''acme'' = Inr ''acme''" "tenancy_text 120 ''alice'' = Inr ''alice''"
  "tenancy_text 120 ''ci'' = Inr ''ci''"
  by code_simp+

lemma sample_contracts:
  "Organization_post_init acme = Inr acme" "Principal_post_init alice = Inr alice"
  "ApiTokenMetadata_post_init sample_metadata = Inr sample_metadata"
  by (simp_all add: Organization_post_init_def Principal_fixed ApiTokenMetadata_fixed acme_def alice_def sample_metadata_def
      sample_shapes sample_id_shape sample_texts tenancy_uuid_Inr [THEN iffD2])

lemma sample_identity_reachable: "identity_reachable sample_identity"
proof -
  let ?db1 = "empty_identity_db\<lparr>organizations := [acme_row]\<rparr>"
  let ?db2 = "?db1\<lparr>principals := [alice]\<rparr>"
  let ?db3 = "?db2\<lparr>identity_tokens := [sample_reset]\<rparr>"
  have "identity_write empty_identity_db ?db1"
    using Insert_Organization [OF sample_contracts(1), of acme_row empty_identity_db]
    by (simp add: empty_identity_db_def acme_row_def) (simp add: acme_def)
  moreover have "identity_write ?db1 ?db2"
    using Insert_Principal [OF sample_contracts(2), of ?db1]
    by (simp add: empty_identity_db_def principal_conflict_def find_organization_def sql_find_def acme_row_def)
      (simp add: acme_def alice_def)
  moreover have "identity_write ?db2 ?db3"
    using Insert_Identity_Token [of sample_reset ?db2]
    by (simp add: empty_identity_db_def find_defs sql_find_def alice_def sample_reset_def)
  moreover have "identity_write ?db3 sample_identity"
    using Insert_Api_Token [OF sample_contracts(3), of ?db3 alice "hash_secret sample_kdf [3] ''s''"]
    by (simp add: empty_identity_db_def find_defs sql_find_def alice_def sample_metadata_def sample_identity_def sample_row_def)
  ultimately have "identity_write\<^sup>*\<^sup>* empty_identity_db sample_identity"
    by (meson rtranclp.rtrancl_refl rtranclp.rtrancl_into_rtrancl)
  then show ?thesis
    by (auto simp: reachable_def)
qed

definition sample_bearer :: string where
  "sample_bearer = ''wgt_'' @ sample_id @ ''_s''"

lemma sample_bearer_parts: "token_parts sample_bearer = Inr (sample_id, ''s'')"
  using token_parts_issued [OF sample_id_shape, of "''s''"] by (simp add: sample_bearer_def)

lemma sample_bearer_header: "bearer_token [''Bearer '' @ sample_bearer] = Inr sample_bearer"
  by code_simp

lemma sample_rows:
  "find_api_token sample_id sample_identity = Some sample_row" "find_principal sample_user sample_identity = Some alice"
  "find_organization sample_org sample_identity = Some acme_row"
  "find_identity_token sample_id sample_identity = Some sample_reset"
  by (simp_all add: find_defs sql_find_def sample_identity_def sample_row_def acme_row_def alice_def sample_reset_def)
    (simp_all add: sample_metadata_def acme_def)

lemma sample_columns:
  "at_token_id sample_row = sample_id" "at_principal_id sample_row = sample_user" "at_revoked_at sample_row = None"
  "at_expires_at sample_row = 100" "at_secret_hash sample_row = hash_secret sample_kdf [3] ''s''"
  "pn_active alice" "pn_organization_id alice = sample_org" "og_status acme_row = ORG_ACTIVE"
  "it_token_id sample_reset = sample_id" "it_expires_at sample_reset = 100" "it_purpose sample_reset = PASSWORD_RESET"
  "it_used_at sample_reset = None" "it_secret_hash sample_reset = hash_secret sample_kdf [3] ''s''"
  by (simp_all add: sample_row_def sample_metadata_def acme_row_def acme_def alice_def sample_reset_def
      api_token_metadata.extend_def api_token_row.fields_def organization.extend_def)

theorem revoked_token_refused_witness:
  "\<exists>m db1. revoke_token sample_id 50 sample_identity = (Inr m, db1)
     \<and> (authenticate_token sample_kdf sample_bearer 60 db1 = (Inl (is_error ''api_token_revoked''), db1)
        \<or> authenticate_token sample_kdf sample_bearer 60 db1 = (Inl (is_error ''api_token_invalid''), db1))"
proof -
  have "token_metadata sample_row = Inr (api_token_metadata.truncate sample_row)"
    using readable_rows(1) [OF identity.reachable_inv [OF sample_identity_reachable] sample_rows(1)] by blast
  moreover have "ApiTokenMetadata_post_init ((api_token_metadata.truncate sample_row)\<lparr>at_revoked_at := Some 50\<rparr>)
      = Inr ((api_token_metadata.truncate sample_row)\<lparr>at_revoked_at := Some 50\<rparr>)"
    using calculation by (simp add: token_metadata_def persisted_Inr ApiTokenMetadata_fixed)
  ultimately have "\<exists>m. fst (revoke_token sample_id 50 sample_identity) = Inr m"
    by (simp add: revoke_token_def revoke_row_def sample_rows sample_columns)
  then obtain m db1 where "revoke_token sample_id 50 sample_identity = (Inr m, db1)"
    by (metis prod.collapse)
  then show ?thesis
    using revoked_token_refused [OF sample_identity_reachable _ rtranclp.rtrancl_refl sample_bearer_parts] by blast
qed

theorem token_authenticate_exact_witness:
  "\<exists>db'. token_authenticate sample_kdf [''Bearer '' @ sample_bearer] 60 sample_identity =
     (Inr \<lparr>ac_organization_id = sample_org, ac_organization_name = ''acme'', ac_principal_id = sample_user,
            ac_principal_name = ''alice'', ac_role = ANALYST, ac_token_id = sample_id, ac_auth_method = ''api_token''\<rparr>, db')"
proof -
  have names: "og_name acme_row = ''acme''" "pn_principal_id alice = sample_user" "pn_display_name alice = ''alice''"
    "pn_role alice = ANALYST"
    by (simp_all add: acme_row_def acme_def alice_def organization.extend_def)
  show ?thesis
    unfolding token_authenticate_exact [OF sample_identity_reachable]
    by (rule exI [of _ sample_bearer], rule exI [of _ "''s''"], rule exI [of _ sample_row], rule exI [of _ alice],
        rule exI [of _ acme_row])
      (simp add: sample_bearer_parts sample_bearer_header [simplified] sample_rows sample_columns sample_verify names)
qed

theorem identity_token_single_use_witness:
  "\<exists>db2. consume_identity_token sample_kdf (''wgi_'' @ sample_id @ ''_s'') PASSWORD_RESET 50 sample_identity
       = (Inr (sample_reset\<lparr>it_used_at := Some 50\<rparr>), db2)
     \<and> find_identity_token sample_id db2 = Some (sample_reset\<lparr>it_used_at := Some 50\<rparr>)
     \<and> consume_identity_token sample_kdf (''wgi_'' @ sample_id @ ''_s'') PASSWORD_RESET 51 db2
         = (Inl (is_error ''identity_token_used''), db2)"
proof -
  have c: "check_identity_token sample_kdf (''wgi_'' @ sample_id @ ''_s'') PASSWORD_RESET 50 sample_identity = Inr sample_reset"
    using parse_prefixed_secret_issued [OF _ sample_id_shape, of "''wgi''" "''s''"]
    by (simp add: check_identity_token_Inr sample_rows sample_columns sample_verify)
  then have "consume_identity_token sample_kdf (''wgi_'' @ sample_id @ ''_s'') PASSWORD_RESET 50 sample_identity
      = (Inr (sample_reset\<lparr>it_used_at := Some 50\<rparr>), mark_identity_token sample_id 50 sample_identity)"
    by (simp add: consume_identity_token_def sample_columns)
  then show ?thesis
    using identity_token_single_use [OF sample_identity_reachable c rtranclp.rtrancl_refl refl rtranclp.rtrancl_refl,
        of PASSWORD_RESET 51] by (auto simp: sample_columns)
qed

end
