(* ===== verification/Worker.thy ===== *)
theory Worker
  imports Job_Store
begin

text \<open>
  The background worker (\<^verbatim>\<open>webguard_api/worker.py\<close>): it recovers expired leases, claims a job,
  runs it while a second thread renews the lease and watches for cancellation, and records the result.

  What surrounds the worker is a \<open>world\<close> indexed by a counter of interactions: what the other users
  of the store did before each call, whether the call met a database outage (it raises
  \<^verbatim>\<open>DatabaseError\<close> and has no effect), the readings of the two clocks, the fresh lease tokens, how
  many cycles the monitor makes during an execution, and what the executor returns for a job when the
  cancellation token is in the given state at the end. A monitor that outlives the one second for which
  it is joined counts among the other users of the store.
\<close>

section \<open>The worker and its world\<close>

record worker_config =
  wc_poll_seconds :: rat
  wc_worker_id :: string
  wc_lease_seconds :: rat
  wc_heartbeat_seconds :: rat
  wc_maximum_attempts :: int
  wc_persist_attempts :: int
  wc_persist_backoff :: rat
  wc_heartbeat_backoff :: rat

definition validate_worker_config :: "worker_config \<Rightarrow> unit result" where
  "validate_worker_config c =
     raise_if (\<not> (1 / 100 \<le> wc_poll_seconds c \<and> wc_poll_seconds c \<le> 5)) ValueError
     (bindE (check_worker_id (wc_worker_id c)) (\<lambda>_.
      bindE (check_lease_seconds (wc_lease_seconds c)) (\<lambda>_.
      bindE (check_maximum_attempts (wc_maximum_attempts c)) (\<lambda>_.
      raise_if (\<not> (1 / 20 \<le> wc_heartbeat_seconds c \<and> wc_heartbeat_seconds c < wc_lease_seconds c)) ValueError
      (raise_if (wc_persist_attempts c < 1) ValueError
      (raise_if (wc_persist_backoff c < 0) ValueError
      (raise_if (wc_heartbeat_backoff c < 0) ValueError (Inr ()))))))))"

record job_outcome =
  jo_scan_id :: string
  jo_status :: scan_status
  jo_report_ref :: string
  jo_audit_ref :: string
  jo_receipt_ref :: "string option"
  jo_receipt_sha256 :: "string option"

record worker_world =
  ww_others :: "nat \<Rightarrow> job_db \<Rightarrow> job_db"
  ww_outage :: "nat \<Rightarrow> bool"
  ww_clock :: "nat \<Rightarrow> time"
  ww_monotonic :: "nat \<Rightarrow> rat"
  ww_lease_token :: "nat \<Rightarrow> string"
  ww_cycles :: "nat \<Rightarrow> nat"
  ww_execute :: "nat \<Rightarrow> scan_job_record \<Rightarrow> bool \<Rightarrow> job_outcome result"

record worker_state =
  wk_db :: job_db
  wk_tick :: nat
  wk_last_progress :: rat
  wk_in_outage :: bool
  wk_last_recovery :: recovery_summary
  wk_log :: "string list"

definition tick :: "worker_state \<Rightarrow> worker_state" where
  "tick s = s\<lparr>wk_tick := Suc (wk_tick s)\<rparr>"

definition log_event :: "string \<Rightarrow> worker_state \<Rightarrow> worker_state" where
  "log_event event s = s\<lparr>wk_log := wk_log s @ [event]\<rparr>"

definition read_monotonic :: "worker_world \<Rightarrow> worker_state \<Rightarrow> rat \<times> worker_state" where
  "read_monotonic W s = (ww_monotonic W (wk_tick s), tick s)"

definition store_call :: "worker_world \<Rightarrow> (time \<Rightarrow> 'a dbop) \<Rightarrow> worker_state \<Rightarrow> 'a result \<times> worker_state" where
  "store_call W op s =
     (let n = wk_tick s; db = ww_others W n (wk_db s) in
      if ww_outage W n then (Inl DatabaseError, (tick s)\<lparr>wk_db := db\<rparr>)
      else (case op (ww_clock W n) db of (r, db') \<Rightarrow> (r, (tick s)\<lparr>wk_db := db'\<rparr>)))"

section \<open>Progress\<close>

definition touch_progress :: "worker_world \<Rightarrow> worker_state \<Rightarrow> worker_state" where
  "touch_progress W s = (case read_monotonic W s of (t, s') \<Rightarrow> s'\<lparr>wk_last_progress := t\<rparr>)"

definition worker_stale_after_seconds :: "worker_config \<Rightarrow> rat" where
  "worker_stale_after_seconds c = max (max (wc_poll_seconds c * 6) 3) 7"

definition worker_progress_healthy :: "worker_config \<Rightarrow> rat option \<Rightarrow> rat \<Rightarrow> worker_state \<Rightarrow> bool" where
  "worker_progress_healthy c stale_after_seconds monotonic s \<longleftrightarrow>
     monotonic - wk_last_progress s
     \<le> (case stale_after_seconds of None \<Rightarrow> worker_stale_after_seconds c | Some t \<Rightarrow> t)"

section \<open>Recording the end of a job\<close>

definition is_stale_lease_code :: "string \<Rightarrow> bool" where
  "is_stale_lease_code code \<longleftrightarrow> code \<in> {''job_lease_expired'', ''job_lease_lost'', ''job_lease_required''}"

text \<open>The attempts that are left, of the configured number; the pauses between them take no step.\<close>

fun persist_attempts ::
  "worker_world \<Rightarrow> (time \<Rightarrow> 'a dbop) \<Rightarrow> nat \<Rightarrow> worker_state \<Rightarrow> bool result \<times> worker_state" where
  "persist_attempts W op 0 s = (Inr False, s)"
| "persist_attempts W op (Suc k) s =
     (case store_call W op s of
        (Inr _, s') \<Rightarrow> (Inr True, s')
      | (Inl DatabaseError, s') \<Rightarrow>
          if k = 0 then (Inr False, log_event ''terminal_persistence_exhausted'' s')
          else persist_attempts W op k (log_event ''terminal_persistence_retry'' s')
      | (Inl e, s') \<Rightarrow> (Inl e, s'))"

definition persist_terminal_state ::
  "worker_config \<Rightarrow> worker_world \<Rightarrow> (time \<Rightarrow> 'a dbop) \<Rightarrow> worker_state \<Rightarrow> bool result \<times> worker_state" where
  "persist_terminal_state c W op s = persist_attempts W op (nat (wc_persist_attempts c)) s"

definition worker_finish_result ::
  "py_env \<Rightarrow> worker_config \<Rightarrow> worker_world \<Rightarrow> leased_job \<Rightarrow> job_outcome \<Rightarrow> worker_state \<Rightarrow> bool result \<times> worker_state" where
  "worker_finish_result E c W lease out =
     persist_terminal_state c W (\<lambda>now.
       finish_result_leased E (jb_job_id (lj_record lease)) (lj_worker_id lease) (lj_lease_token lease)
         (jo_scan_id out) (jo_status out) (jo_report_ref out) (jo_audit_ref out) now
         (jo_receipt_ref out) (jo_receipt_sha256 out))"

definition worker_fail ::
  "py_env \<Rightarrow> worker_config \<Rightarrow> worker_world \<Rightarrow> leased_job \<Rightarrow> string \<Rightarrow> string \<Rightarrow> string option \<Rightarrow> string option
   \<Rightarrow> worker_state \<Rightarrow> bool result \<times> worker_state" where
  "worker_fail E c W lease code message receipt_ref receipt_sha256 =
     persist_terminal_state c W (\<lambda>now.
       fail_leased E (jb_job_id (lj_record lease)) (lj_worker_id lease) (lj_lease_token lease) code message now
         receipt_ref receipt_sha256)"

definition worker_cancel ::
  "py_env \<Rightarrow> worker_config \<Rightarrow> worker_world \<Rightarrow> leased_job \<Rightarrow> worker_state \<Rightarrow> bool result \<times> worker_state" where
  "worker_cancel E c W lease =
     persist_terminal_state c W (\<lambda>now.
       cancel_running_leased E (jb_job_id (lj_record lease)) (lj_worker_id lease) (lj_lease_token lease) now)"

text \<open>
  The handler around a terminal write: an event for a successful one, nothing for a stale lease or an
  exhausted retry, and every other error goes on.
\<close>

definition settle :: "string \<Rightarrow> bool result \<times> worker_state \<Rightarrow> bool result \<times> worker_state" where
  "settle event r =
     (case r of
        (Inr True, s) \<Rightarrow> (Inr True, if event = [] then s else log_event event s)
      | (Inr False, s) \<Rightarrow> (Inr True, s)
      | (Inl (JobStoreError code), s) \<Rightarrow>
          if is_stale_lease_code code then (Inr True, s) else (Inl (JobStoreError code), s)
      | (Inl e, s) \<Rightarrow> (Inl e, s))"

section \<open>The monitor of a running job\<close>

definition is_cancellation_requested :: "py_env \<Rightarrow> string \<Rightarrow> bool dbop" where
  "is_cancellation_requested E job_id db =
     (bindE (get_job E job_id db) (\<lambda>r. Inr (jb_cancellation_requested r)), db)"

record job_monitor =
  jm_cancelled :: bool
  jm_lease_lost :: bool
  jm_next_heartbeat :: rat
  jm_stopped :: bool

text \<open>
  A store error is a lost lease and ends the monitor, an outage postpones the next heartbeat, and any
  other exception ends the thread.
\<close>

definition monitor_failure ::
  "worker_config \<Rightarrow> worker_world \<Rightarrow> exn \<Rightarrow> job_monitor \<times> worker_state \<Rightarrow> job_monitor \<times> worker_state" where
  "monitor_failure c W e ms =
     (case ms of (m, s) \<Rightarrow>
        (case e of
           JobStoreError _ \<Rightarrow> (m\<lparr>jm_lease_lost := True, jm_cancelled := True, jm_stopped := True\<rparr>, s)
         | DatabaseError \<Rightarrow>
             (case read_monotonic W s of (t, s') \<Rightarrow> (m\<lparr>jm_next_heartbeat := t + wc_heartbeat_backoff c\<rparr>, s'))
         | _ \<Rightarrow> (m\<lparr>jm_stopped := True\<rparr>, s)))"

definition monitor_renew ::
  "py_env \<Rightarrow> worker_config \<Rightarrow> worker_world \<Rightarrow> leased_job \<Rightarrow> job_monitor \<times> worker_state \<Rightarrow> job_monitor \<times> worker_state" where
  "monitor_renew E c W lease ms =
     (case ms of (m, s) \<Rightarrow>
        (case store_call W (\<lambda>now. renew_lease E (jb_job_id (lj_record lease)) (lj_worker_id lease)
                 (lj_lease_token lease) now (wc_lease_seconds c)) s of
           (Inl e, s') \<Rightarrow> monitor_failure c W e (m, s')
         | (Inr _, s') \<Rightarrow>
             (case read_monotonic W s' of (t, s'') \<Rightarrow> (m\<lparr>jm_next_heartbeat := t + wc_heartbeat_seconds c\<rparr>, s''))))"

definition monitor_cycle ::
  "py_env \<Rightarrow> worker_config \<Rightarrow> worker_world \<Rightarrow> leased_job \<Rightarrow> job_monitor \<times> worker_state \<Rightarrow> job_monitor \<times> worker_state" where
  "monitor_cycle E c W lease ms =
     (case ms of (m, s) \<Rightarrow>
        (case store_call W (\<lambda>_. is_cancellation_requested E (jb_job_id (lj_record lease))) (touch_progress W s) of
           (Inl e, s') \<Rightarrow> monitor_failure c W e (m, s')
         | (Inr requested, s') \<Rightarrow>
             (case read_monotonic W s' of (t, s'') \<Rightarrow>
                let m' = (if requested then m\<lparr>jm_cancelled := True\<rparr> else m) in
                if t \<ge> jm_next_heartbeat m' then monitor_renew E c W lease (m', s'') else (m', s''))))"

fun monitor_job ::
  "py_env \<Rightarrow> worker_config \<Rightarrow> worker_world \<Rightarrow> leased_job \<Rightarrow> nat \<Rightarrow> job_monitor \<times> worker_state \<Rightarrow> job_monitor \<times> worker_state" where
  "monitor_job E c W lease 0 ms = ms"
| "monitor_job E c W lease (Suc k) ms =
     (if jm_stopped (fst ms) then ms else monitor_job E c W lease k (monitor_cycle E c W lease ms))"

section \<open>One pass\<close>

text \<open>What happens with the result of the execution, by the clauses of the \<^verbatim>\<open>try\<close> statement.\<close>

definition internal_failure ::
  "py_env \<Rightarrow> worker_config \<Rightarrow> worker_world \<Rightarrow> leased_job \<Rightarrow> worker_state \<Rightarrow> bool result \<times> worker_state" where
  "internal_failure E c W lease s =
     settle ''job_failed'' (worker_fail E c W lease ''worker_internal_error''
       ''The scanner worker encountered an unexpected internal error.'' None None s)"

definition execution_ended ::
  "py_env \<Rightarrow> worker_config \<Rightarrow> worker_world \<Rightarrow> leased_job \<Rightarrow> job_outcome result \<Rightarrow> job_monitor \<times> worker_state
   \<Rightarrow> bool result \<times> worker_state" where
  "execution_ended E c W lease outcome ms =
     (case ms of (m, s) \<Rightarrow>
        (case outcome of
           Inl (JobStoreError code) \<Rightarrow> (Inl (JobStoreError code), s)
         | Inl e \<Rightarrow>
             if jm_lease_lost m then (Inr True, s)
             else (case e of
                JobExecutionError code message receipt_ref receipt_sha256 \<Rightarrow>
                  if jm_cancelled m \<or> code = ''job_cancelled_before_execution''
                  then settle [] (worker_cancel E c W lease s)
                  else settle ''job_failed'' (worker_fail E c W lease code message receipt_ref receipt_sha256 s)
              | _ \<Rightarrow> internal_failure E c W lease s)
         | Inr out \<Rightarrow>
             if jm_lease_lost m then (Inr True, s)
             else (case settle ''job_completed'' (worker_finish_result E c W lease out s) of
                (Inr b, s') \<Rightarrow> (Inr b, s')
              | (Inl (JobStoreError code), s') \<Rightarrow> (Inl (JobStoreError code), s')
              | (Inl _, s') \<Rightarrow> internal_failure E c W lease s')))"

definition run_claimed ::
  "py_env \<Rightarrow> worker_config \<Rightarrow> worker_world \<Rightarrow> leased_job \<Rightarrow> worker_state \<Rightarrow> bool result \<times> worker_state" where
  "run_claimed E c W lease s =
     (case read_monotonic W (log_event ''job_claimed'' s) of (t, s1) \<Rightarrow>
        let m = \<lparr>jm_cancelled = jb_cancellation_requested (lj_record lease), jm_lease_lost = False,
                 jm_next_heartbeat = t + wc_heartbeat_seconds c, jm_stopped = False\<rparr>;
            ms = monitor_job E c W lease (ww_cycles W (wk_tick s)) (m, s1)
        in execution_ended E c W lease (ww_execute W (wk_tick s) (lj_record lease) (jm_cancelled (fst ms))) ms)"

definition worker_run_once :: "py_env \<Rightarrow> worker_config \<Rightarrow> worker_world \<Rightarrow> worker_state \<Rightarrow> bool result \<times> worker_state" where
  "worker_run_once E c W s =
     (case store_call W (\<lambda>now. recover_expired_leases now (wc_maximum_attempts c)) s of
        (Inl e, s1) \<Rightarrow> (Inl e, s1)
      | (Inr summary, s1) \<Rightarrow>
          (case store_call W (\<lambda>now. claim_next_leased E now (wc_worker_id c) (wc_lease_seconds c)
                   (ww_lease_token W (wk_tick s1))) (s1\<lparr>wk_last_recovery := summary\<rparr>) of
             (Inl e, s2) \<Rightarrow> (Inl e, s2)
           | (Inr None, s2) \<Rightarrow> (Inr False, s2)
           | (Inr (Some lease), s2) \<Rightarrow> run_claimed E c W lease s2))"

section \<open>The loop\<close>

text \<open>
  Iterations until the stop event is set; the waits take no step. \<open>Some e\<close> is an exception that ends
  the loop.
\<close>

fun worker_loop :: "py_env \<Rightarrow> worker_config \<Rightarrow> worker_world \<Rightarrow> nat \<Rightarrow> worker_state \<Rightarrow> exn option \<times> worker_state" where
  "worker_loop E c W 0 s = (None, s)"
| "worker_loop E c W (Suc k) s =
     (case worker_run_once E c W s of
        (Inl DatabaseError, s') \<Rightarrow>
          worker_loop E c W k (touch_progress W
            (if wk_in_outage s' then s' else log_event ''database_outage_detected'' (s'\<lparr>wk_in_outage := True\<rparr>)))
      | (Inl e, s') \<Rightarrow> (Some e, s')
      | (Inr _, s') \<Rightarrow>
          worker_loop E c W k (touch_progress W
            (if wk_in_outage s' then log_event ''database_outage_recovered'' (s'\<lparr>wk_in_outage := False\<rparr>) else s')))"

definition worker_run_forever ::
  "py_env \<Rightarrow> worker_config \<Rightarrow> worker_world \<Rightarrow> nat \<Rightarrow> worker_state \<Rightarrow> exn option \<times> worker_state" where
  "worker_run_forever E c W iterations s =
     (case worker_loop E c W iterations (log_event ''worker_started'' s) of
        (e, s') \<Rightarrow> (e, log_event ''worker_stopped'' s'))"

end
