(* ===== verification/Worker_Props.thy ===== *)
theory Worker_Props
  imports Worker Queue_Lemmas Store_Examples
begin

text \<open>
  What the worker achieves: left alone it finishes every claimable job, renewing the lease while an
  execution goes on, an outage never ends its loop, and the one error that does.
\<close>

section \<open>A held lease\<close>

text \<open>The job \<open>i\<close> runs under the given lease, until \<open>x\<close> at least, and nobody asked to cancel it.\<close>

definition held :: "string \<Rightarrow> string \<Rightarrow> string \<Rightarrow> time \<Rightarrow> time \<Rightarrow> job_db \<Rightarrow> bool" where
  "held i w tok start x db \<longleftrightarrow>
     (\<exists>r y. fetch_job i db = Some r \<and> jb_state r = JOB_RUNNING \<and> jr_worker_id r = Some w \<and> jr_lease_token r = Some tok
        \<and> jr_lease_expires_at r = Some y \<and> x \<le> y \<and> jb_started_at r = Some start \<and> \<not> jb_cancellation_requested r)"

text \<open>Only the row of the job \<open>i\<close> and the receipts change.\<close>

definition only_job :: "string \<Rightarrow> job_db \<Rightarrow> job_db \<Rightarrow> bool" where
  "only_job i db db' \<longleftrightarrow>
     list_all2 (\<lambda>r r'. r' = r \<or> jb_job_id r = i \<and> jb_job_id r' = i \<and> jb_request r' = jb_request r)
       (scan_jobs db) (scan_jobs db')
     \<and> job_scopes db' = job_scopes db \<and> job_permits db' = job_permits db \<and> scan_permits db' = scan_permits db
     \<and> organization_authorizations db' = organization_authorizations db
     \<and> scan_schedules db' = scan_schedules db"

lemma only_job_refl: "only_job i db db"
  by (simp add: only_job_def list_all2_refl)

lemma only_job_trans:
  assumes "only_job i a b" "only_job i b c"
  shows "only_job i a c"
  using assms list_all2_trans [of "\<lambda>r r'. r' = r \<or> jb_job_id r = i \<and> jb_job_id r' = i \<and> jb_request r' = jb_request r"]
  unfolding only_job_def by (smt (verit, best))

lemma only_job_update:
  assumes "\<And>r. P r \<Longrightarrow> jb_job_id r = i \<and> jb_job_id (f r) = i \<and> jb_request (f r) = jb_request r"
  shows "only_job i db (update_jobs P f db)"
  using assms by (auto simp: only_job_def sql_update_def list_all2_conv_all_nth)

lemma only_job_receipts: "only_job i a b \<Longrightarrow> only_job i a (b\<lparr>job_safety_receipts := rs\<rparr>)"
  by (simp add: only_job_def)

lemma check_worker_id_again: "check_worker_id w0 = Inr w \<Longrightarrow> check_worker_id w = Inr w"
  by (auto simp: check_worker_id_def Let_def raise_if_eq_Inr)

section \<open>Terminal writes succeed under a held lease\<close>

definition receipt_ok :: "string option \<Rightarrow> string option \<Rightarrow> bool" where
  "receipt_ok ref sha \<longleftrightarrow>
     (case (ref, sha) of
        (None, None) \<Rightarrow> True
      | (Some f, Some d) \<Rightarrow> f \<noteq> [] \<and> take 1 f \<noteq> ''/'' \<and> ''..'' \<notin> set (py_split (CHR ''/'') f) \<and> hex64 d
      | _ \<Rightarrow> False)"

lemma receipt_ok_check:
  "receipt_ok (oc_receipt_ref out) (oc_receipt_sha256 out) \<Longrightarrow>
     (oc_receipt_ref out = None) = (oc_receipt_sha256 out = None) \<and> receipt_check out = Inr ()"
  by (auto simp: receipt_ok_def receipt_check_def raise_if_def split: option.splits)

lemma terminal_update_succeeds:
  assumes inv: "db_inv E db" and held: "held i w tok start x db" and now: "now < x" and w: "check_worker_id w = Inr w"
    and out: "outcome_wf out" "outcome_shape out" "receipt_ok (oc_receipt_ref out) (oc_receipt_sha256 out)"
    and fresh: "keyed i (job_safety_receipts db) = None"
  shows "\<exists>rec db' r. terminal_update E i (Some w) (Some tok) out now db = (Inr rec, db') \<and> only_job i db db'
           \<and> fetch_job i db' = Some r \<and> is_terminal (jb_state r)
           \<and> fst ` set (job_safety_receipts db') \<subseteq> insert i (fst ` set (job_safety_receipts db))"
proof -
  obtain row y where row: "fetch_job i db = Some row" "jb_state row = JOB_RUNNING" "jr_worker_id row = Some w"
    "jr_lease_token row = Some tok" "jr_lease_expires_at row = Some y" "x \<le> y"
    using held by (auto simp: held_def)
  have mem: "row \<in> set (scan_jobs db)" "jb_job_id row = i" and ok: "row_ok E row"
    using fetch_job_SomeD [OF row(1)] db_inv_row_ok [OF inv] by auto
  obtain rec where rec: "record_from_row E row = Inr rec"
    using record_from_row_ok [OF ok] .
  note same = record_from_row_fields [OF rec]
  let ?t = "terminal_timestamp rec now"
  let ?P = "terminal_cas rec (Some w) (Some tok)" and ?f = "terminal_row rec out ?t"
  have P: "?P row" and Pid: "?P r \<Longrightarrow> jb_job_id r = jb_job_id row" for r
    using row same mem by (auto simp: terminal_cas_def)
  have "fetch_job (jb_job_id row) (update_jobs ?P ?f db) = Some (?f row)"
    by (rule fetch_updated [OF inv mem(1)], rule P, erule Pid) simp
  then have fetch: "fetch_job i (update_jobs ?P ?f db) = Some (?f row)"
    by (simp only: mem(2))
  have fok: "row_ok E (?f row)"
    using ok row same out
    by (intro row_ok_terminal) (auto simp: row_ok_revision terminal_timestamp_def no_earlier_than_max)
  obtain rec' where rec': "record_from_row E (?f row) = Inr rec'"
    using record_from_row_ok [OF fok] .
  have count: "sql_rowcount ?P (scan_jobs db) = 1"
    using single_rowcount [of E db row ?P] inv mem(1) P Pid by blast
  have "terminal_update E i (Some w) (Some tok) out now db = (Inr rec', add_receipt i out ?t (update_jobs ?P ?f db))"
    using row same rec rec' w now count fetch fresh receipt_ok_check [OF out(3)]
    by (simp add: terminal_update_def terminal_write_def Let_def terminal_lease_check_def require_active_lease_def
        raise_if_def add_receipt_def fetch_job_def split: option.splits)
  moreover have "only_job i db (update_jobs ?P ?f db)"
    using mem(2) Pid by (intro only_job_update) auto
  moreover have "fetch_job i (add_receipt i out ?t (update_jobs ?P ?f db)) = Some (?f row)"
    using fetch by (auto simp: add_receipt_def fetch_job_def split: option.splits)
  moreover have "is_terminal (jb_state (?f row))"
    using outcome_shape_terminal [OF out(2)] by simp
  ultimately show ?thesis
    by (auto simp: add_receipt_def only_job_receipts split: option.splits)
qed

section \<open>The monitor keeps the lease\<close>

lemma check_lease_seconds_same: "check_lease_seconds d = Inr d' \<Longrightarrow> d' = d"
  by (auto simp: check_lease_seconds_def raise_if_eq_Inr)

lemma renew_lease_held:
  assumes inv: "db_inv E db" and held: "held i w tok start x db" and now: "now < x" "start \<le> now"
    and w: "check_worker_id w = Inr w" and d: "check_lease_seconds d = Inr d"
  shows "\<exists>l db'. renew_lease E i w tok now d db = (Inr l, db') \<and> only_job i db db'
           \<and> held i w tok start (now + timedelta_seconds d) db'
           \<and> job_safety_receipts db' = job_safety_receipts db \<and> db_inv E db'"
proof -
  obtain row y where row: "fetch_job i db = Some row" "jb_state row = JOB_RUNNING" "jr_worker_id row = Some w"
    "jr_lease_token row = Some tok" "jr_lease_expires_at row = Some y" "x \<le> y" "jb_started_at row = Some start"
    "\<not> jb_cancellation_requested row"
    using held by (auto simp: held_def)
  have mem: "row \<in> set (scan_jobs db)" "jb_job_id row = i" and ok: "row_ok E row"
    using fetch_job_SomeD [OF row(1)] db_inv_row_ok [OF inv] by auto
  let ?t = "max now (rq_submitted_at (jb_request row))"
  let ?P = "lease_cas row w tok" and ?f = "renew_row row ?t d"
  have P: "?P row" and Pid: "?P r \<Longrightarrow> jb_job_id r = jb_job_id row" for r
    using row mem by (auto simp: lease_cas_def cas_def)
  have "fetch_job (jb_job_id row) (update_jobs ?P ?f db) = Some (?f row)"
    by (rule fetch_updated [OF inv mem(1)], rule P, erule Pid) (simp add: renew_row_def)
  then have fetch: "fetch_job i (update_jobs ?P ?f db) = Some (?f row)"
    by (simp only: mem(2))
  have count: "sql_rowcount ?P (scan_jobs db) = 1"
    using single_rowcount [of E db row ?P] inv mem(1) P Pid by blast
  have "row_ok E (?f row)"
    using ok row now check_lease_seconds_pos [OF d] by (intro row_ok_renew) (auto simp: row_ok_revision)
  then obtain rec where "record_from_row E (?f row) = Inr rec"
    by (rule record_from_row_ok)
  then have "renew_lease E i w tok now d db =
      (Inr \<lparr>lj_record = rec, lj_worker_id = w, lj_lease_token = tok, lj_lease_expires_at = ?t + timedelta_seconds d,
            lj_attempt_count = jr_attempt_count row\<rparr>, update_jobs ?P ?f db)"
    using row w d now count fetch
    by (simp add: renew_lease_def Let_def require_active_lease_def raise_if_def no_earlier_than_max lease_from_row_def)
      (simp add: renew_row_def)
  moreover have "only_job i db (update_jobs ?P ?f db)"
    using mem(2) Pid by (intro only_job_update) (auto simp: renew_row_def)
  moreover have "held i w tok start (now + timedelta_seconds d) (update_jobs ?P ?f db)"
    using fetch row by (auto simp: held_def renew_row_def)
  moreover have "db_inv E (update_jobs ?P ?f db)"
    using effect_inv [OF renew_lease_effect [OF inv, of i now w tok d] inv] row now calculation(1)
    by (simp add: clock_after_start_def)
  ultimately show ?thesis
    by auto
qed

lemma held_not_cancelled:
  assumes "db_inv E db" "held i w tok start x db"
  shows "is_cancellation_requested E i db = (Inr False, db)"
proof -
  obtain row where row: "fetch_job i db = Some row" "\<not> jb_cancellation_requested row"
    using assms(2) by (auto simp: held_def)
  then obtain rec where "record_from_row E row = Inr rec"
    using record_from_row_ok [OF db_inv_row_ok [OF assms(1)]] fetch_job_SomeD by metis
  then show ?thesis
    using row record_from_row_fields(7) by (simp add: is_cancellation_requested_def get_job_def)
qed

section \<open>A quiet world\<close>

text \<open>
  No outage, no other user of the store, and a clock that does not run back. The wall clock does not
  run ahead of the monotonic one, and the worker is not held up: between two of its interactions with
  the world so little time passes that five of them and a heartbeat interval fit into a lease. An
  execution may go on for any number of heartbeats. Its result is one that the record accepts.
\<close>

definition quiet_world :: "worker_world \<Rightarrow> bool" where
  "quiet_world W \<longleftrightarrow>
     (\<forall>n db. ww_others W n db = db) \<and> (\<forall>n. \<not> ww_outage W n) \<and> (\<forall>m n. m \<le> n \<longrightarrow> ww_clock W m \<le> ww_clock W n)"

definition timely :: "worker_config \<Rightarrow> worker_world \<Rightarrow> bool" where
  "timely c W \<longleftrightarrow>
     (\<forall>m n. m \<le> n \<longrightarrow>
        of_int (ww_clock W n - ww_clock W m) \<le> of_int microseconds * (ww_monotonic W n - ww_monotonic W m))
     \<and> (\<exists>step. (\<forall>n. ww_monotonic W (Suc n) - ww_monotonic W n \<le> step)
          \<and> of_int microseconds * (wc_heartbeat_seconds c + 5 * step) < of_int (timedelta_seconds (wc_lease_seconds c)))"

fun execution_ok :: "job_outcome result \<Rightarrow> bool" where
  "execution_ok (Inr out) \<longleftrightarrow>
     result_fields_ok (jo_scan_id out) (jo_report_ref out) (jo_audit_ref out)
     \<and> expected_result_state (jo_status out) \<noteq> None \<and> receipt_ok (jo_receipt_ref out) (jo_receipt_sha256 out)"
| "execution_ok (Inl (JobExecutionError code message ref sha)) \<longleftrightarrow> failure_fields_ok code message \<and> receipt_ok ref sha"
| "execution_ok (Inl (JobStoreError code)) \<longleftrightarrow> False"
| "execution_ok (Inl e) \<longleftrightarrow> True"

definition sound_executor :: "worker_world \<Rightarrow> bool" where
  "sound_executor W \<longleftrightarrow> (\<forall>n rec cancelled. execution_ok (ww_execute W n rec cancelled))"

lemma store_call_quiet:
  "quiet_world W \<Longrightarrow>
     store_call W op s = (case op (ww_clock W (wk_tick s)) (wk_db s) of (r, db) \<Rightarrow> (r, (tick s)\<lparr>wk_db := db\<rparr>))"
  by (simp add: store_call_def quiet_world_def)

lemma worker_sel [simp]:
  "wk_db (tick s) = wk_db s" "wk_tick (tick s) = Suc (wk_tick s)"
  "wk_db (log_event e s) = wk_db s" "wk_tick (log_event e s) = wk_tick s"
  "read_monotonic W s = (ww_monotonic W (wk_tick s), tick s)"
  "wk_db (touch_progress W s) = wk_db s" "wk_tick (touch_progress W s) = Suc (wk_tick s)"
  by (simp_all add: tick_def log_event_def read_monotonic_def touch_progress_def)

text \<open>
  The monitor of an undisturbed job. The lease was taken or renewed at the interaction \<open>k\<close>, and the
  heartbeat that is due next was set at the one after it.
\<close>

definition leased_since :: "worker_config \<Rightarrow> worker_world \<Rightarrow> leased_job \<Rightarrow> time \<Rightarrow> nat \<Rightarrow> job_monitor \<times> worker_state \<Rightarrow> bool" where
  "leased_since c W lease start k ms \<longleftrightarrow>
     Suc k < wk_tick (snd ms) \<and> start \<le> ww_clock W k
     \<and> jm_next_heartbeat (fst ms) = ww_monotonic W (Suc k) + wc_heartbeat_seconds c
     \<and> ww_monotonic W (wk_tick (snd ms) - 1) < jm_next_heartbeat (fst ms)
     \<and> held (jb_job_id (lj_record lease)) (lj_worker_id lease) (lj_lease_token lease) start
         (ww_clock W k + timedelta_seconds (wc_lease_seconds c)) (wk_db (snd ms))"

definition watching :: "py_env \<Rightarrow> worker_config \<Rightarrow> worker_world \<Rightarrow> leased_job \<Rightarrow> time \<Rightarrow> job_monitor \<times> worker_state \<Rightarrow> bool" where
  "watching E c W lease start ms \<longleftrightarrow>
     \<not> jm_cancelled (fst ms) \<and> \<not> jm_lease_lost (fst ms) \<and> \<not> jm_stopped (fst ms) \<and> db_inv E (wk_db (snd ms))
     \<and> (\<exists>k. leased_since c W lease start k ms)"

definition monitored :: "string \<Rightarrow> worker_state \<Rightarrow> worker_state \<Rightarrow> bool" where
  "monitored i s s' \<longleftrightarrow>
     only_job i (wk_db s) (wk_db s') \<and> job_safety_receipts (wk_db s') = job_safety_receipts (wk_db s)
     \<and> wk_tick s \<le> wk_tick s'"

lemma monitored_trans: "monitored i a b \<Longrightarrow> monitored i b c \<Longrightarrow> monitored i a c"
  by (auto simp: monitored_def intro: only_job_trans)

text \<open>Within the next three interactions the lease does not end.\<close>

lemma lease_lasts:
  assumes t: "timely c W" and k: "leased_since c W lease start k (m, s)" and j: "j \<le> 3" and q: "quiet_world W"
  shows "ww_clock W (wk_tick s + j) < ww_clock W k + timedelta_seconds (wc_lease_seconds c)"
proof -
  obtain step where step: "\<And>n. ww_monotonic W (Suc n) - ww_monotonic W n \<le> step"
    "of_int microseconds * (wc_heartbeat_seconds c + 5 * step) < of_int (timedelta_seconds (wc_lease_seconds c))"
    using t by (auto simp: timely_def)
  obtain n where n: "wk_tick s = Suc n" "k < n"
    using k by (cases "wk_tick s") (auto simp: leased_since_def)
  let ?n = "Suc (Suc (Suc (Suc n)))"
  have "ww_monotonic W n < ww_monotonic W (Suc k) + wc_heartbeat_seconds c"
    using k by (simp add: leased_since_def n(1))
  then have "ww_monotonic W ?n - ww_monotonic W k < wc_heartbeat_seconds c + 5 * step"
    using step(1) [of k] step(1) [of n] step(1) [of "Suc n"] step(1) [of "Suc (Suc n)"]
      step(1) [of "Suc (Suc (Suc n))"] by simp
  then have "of_int microseconds * (ww_monotonic W ?n - ww_monotonic W k)
      \<le> of_int microseconds * (wc_heartbeat_seconds c + 5 * step)"
    by (intro mult_left_mono) (simp_all add: microseconds_def)
  moreover have "of_int (ww_clock W ?n - ww_clock W k)
      \<le> of_int microseconds * (ww_monotonic W ?n - ww_monotonic W k)"
    using t n(2) by (simp add: timely_def)
  ultimately have "(of_int (ww_clock W ?n - ww_clock W k) :: rat) < of_int (timedelta_seconds (wc_lease_seconds c))"
    using step(2) by linarith
  then have "ww_clock W ?n < ww_clock W k + timedelta_seconds (wc_lease_seconds c)"
    by linarith
  moreover have "ww_clock W (wk_tick s + j) \<le> ww_clock W ?n"
    using q j by (simp add: quiet_world_def n(1))
  ultimately show ?thesis
    by simp
qed

lemma monitor_renew_quiet:
  assumes q: "quiet_world W" and t: "timely c W" and ok: "watching E c W lease start (m, s)"
    and w: "check_worker_id (lj_worker_id lease) = Inr (lj_worker_id lease)"
    and d: "check_lease_seconds (wc_lease_seconds c) = Inr (wc_lease_seconds c)" and hb: "0 < wc_heartbeat_seconds c"
    and s: "wk_db s' = wk_db s" "wk_tick s' = wk_tick s + 3"
  shows "\<exists>m' s''. monitor_renew E c W lease (m, s') = (m', s'') \<and> watching E c W lease start (m', s'')
           \<and> monitored (jb_job_id (lj_record lease)) s s''"
proof -
  let ?i = "jb_job_id (lj_record lease)" and ?now = "ww_clock W (wk_tick s')"
  obtain k where k: "leased_since c W lease start k (m, s)"
    using ok by (auto simp: watching_def)
  have inv: "db_inv E (wk_db s)"
    using ok by (simp add: watching_def)
  have held: "held ?i (lj_worker_id lease) (lj_lease_token lease) start
      (ww_clock W k + timedelta_seconds (wc_lease_seconds c)) (wk_db s)"
    using k by (simp add: leased_since_def)
  have alive: "?now < ww_clock W k + timedelta_seconds (wc_lease_seconds c)"
    using lease_lasts [OF t k _ q, of 3] by (simp add: s)
  have "ww_clock W k \<le> ?now"
    using q k by (simp add: quiet_world_def leased_since_def s)
  then have start: "start \<le> ?now"
    using k by (simp add: leased_since_def)
  obtain l db' where r: "renew_lease E ?i (lj_worker_id lease) (lj_lease_token lease) ?now (wc_lease_seconds c) (wk_db s)
        = (Inr l, db')" "only_job ?i (wk_db s) db'"
      "held ?i (lj_worker_id lease) (lj_lease_token lease) start (?now + timedelta_seconds (wc_lease_seconds c)) db'"
      "job_safety_receipts db' = job_safety_receipts (wk_db s)" "db_inv E db'"
    using renew_lease_held [OF inv held alive start w d] by blast
  let ?m = "m\<lparr>jm_next_heartbeat := ww_monotonic W (Suc (wk_tick s')) + wc_heartbeat_seconds c\<rparr>"
  let ?s = "tick ((tick s')\<lparr>wk_db := db'\<rparr>)"
  have "monitor_renew E c W lease (m, s') = (?m, ?s)"
    using r(1) by (simp add: monitor_renew_def store_call_quiet [OF q] s)
  moreover have "leased_since c W lease start (wk_tick s') (?m, ?s)"
    using r(3) start hb by (simp add: leased_since_def)
  moreover have "monitored ?i s ?s"
    using r(2,4) by (simp add: monitored_def s)
  ultimately show ?thesis
    using ok r(5) by (auto simp: watching_def)
qed

lemma monitor_cycle_quiet:
  assumes q: "quiet_world W" and t: "timely c W" and ok: "watching E c W lease start (m, s)"
    and w: "check_worker_id (lj_worker_id lease) = Inr (lj_worker_id lease)"
    and d: "check_lease_seconds (wc_lease_seconds c) = Inr (wc_lease_seconds c)" and hb: "0 < wc_heartbeat_seconds c"
  shows "\<exists>m' s'. monitor_cycle E c W lease (m, s) = (m', s') \<and> watching E c W lease start (m', s')
           \<and> monitored (jb_job_id (lj_record lease)) s s'"
proof -
  let ?i = "jb_job_id (lj_record lease)"
  let ?s = "tick (tick (touch_progress W s))"
  obtain k where k: "leased_since c W lease start k (m, s)"
    using ok by (auto simp: watching_def)
  have inv: "db_inv E (wk_db s)"
    using ok by (simp add: watching_def)
  have held: "held ?i (lj_worker_id lease) (lj_lease_token lease) start
      (ww_clock W k + timedelta_seconds (wc_lease_seconds c)) (wk_db s)"
    using k by (simp add: leased_since_def)
  have state: "(tick (touch_progress W s))\<lparr>wk_db := wk_db s\<rparr> = tick (touch_progress W s)"
    by (simp add: tick_def touch_progress_def read_monotonic_def)
  have cyc: "monitor_cycle E c W lease (m, s) =
      (if ww_monotonic W (Suc (Suc (wk_tick s))) \<ge> jm_next_heartbeat m then monitor_renew E c W lease (m, ?s) else (m, ?s))"
    using held_not_cancelled [OF inv held] by (simp add: monitor_cycle_def store_call_quiet [OF q] state Let_def)
  show ?thesis
  proof (cases "ww_monotonic W (Suc (Suc (wk_tick s))) \<ge> jm_next_heartbeat m")
    case True
    then show ?thesis
      using monitor_renew_quiet [OF q t ok w d hb, of ?s] cyc by simp
  next
    case False
    then have "leased_since c W lease start k (m, ?s)"
      using k by (simp add: leased_since_def)
    then have "watching E c W lease start (m, ?s) \<and> monitored ?i s ?s"
      using ok by (auto simp: watching_def monitored_def only_job_refl)
    then show ?thesis
      using False cyc by auto
  qed
qed

lemma monitor_job_quiet:
  assumes q: "quiet_world W" and t: "timely c W" and w: "check_worker_id (lj_worker_id lease) = Inr (lj_worker_id lease)"
    and d: "check_lease_seconds (wc_lease_seconds c) = Inr (wc_lease_seconds c)" and hb: "0 < wc_heartbeat_seconds c"
  shows "watching E c W lease start (m, s) \<Longrightarrow>
    \<exists>m' s'. monitor_job E c W lease k (m, s) = (m', s') \<and> watching E c W lease start (m', s')
       \<and> monitored (jb_job_id (lj_record lease)) s s'"
proof (induction k arbitrary: m s)
  case 0
  then show ?case
    by (simp add: monitored_def only_job_refl)
next
  case (Suc k)
  obtain m1 s1 where one: "monitor_cycle E c W lease (m, s) = (m1, s1)" "watching E c W lease start (m1, s1)"
    "monitored (jb_job_id (lj_record lease)) s s1"
    using monitor_cycle_quiet [OF q t Suc.prems w d hb] by blast
  obtain m2 s2 where "monitor_job E c W lease k (m1, s1) = (m2, s2)" "watching E c W lease start (m2, s2)"
    "monitored (jb_job_id (lj_record lease)) s1 s2"
    using Suc.IH [OF one(2)] by blast
  moreover have "\<not> jm_stopped m"
    using Suc.prems by (simp add: watching_def)
  ultimately show ?case
    using one monitored_trans [OF one(3)] by auto
qed

section \<open>A quiet pass\<close>

definition finished :: "py_env \<Rightarrow> string \<Rightarrow> worker_state \<Rightarrow> worker_state \<Rightarrow> bool" where
  "finished E i s s' \<longleftrightarrow>
     only_job i (wk_db s) (wk_db s') \<and> db_inv E (wk_db s') \<and> (\<exists>r. fetch_job i (wk_db s') = Some r \<and> is_terminal (jb_state r))
     \<and> fst ` set (job_safety_receipts (wk_db s')) \<subseteq> insert i (fst ` set (job_safety_receipts (wk_db s)))
     \<and> wk_tick s \<le> wk_tick s'"

lemma settle_quiet:
  assumes q: "quiet_world W" and tm: "timely c W" and n: "1 \<le> wc_persist_attempts c"
    and ok: "watching E c W lease start (m, s)"
    and w: "check_worker_id (lj_worker_id lease) = Inr (lj_worker_id lease)"
    and out: "outcome_wf out" "outcome_shape out" "receipt_ok (oc_receipt_ref out) (oc_receipt_sha256 out)"
    and fresh: "keyed (jb_job_id (lj_record lease)) (job_safety_receipts (wk_db s)) = None"
    and op: "\<And>now. op now = terminal_update E (jb_job_id (lj_record lease)) (Some (lj_worker_id lease))
               (Some (lj_lease_token lease)) out now"
  shows "\<exists>s'. settle event (persist_terminal_state c W op s) = (Inr True, s') \<and> finished E (jb_job_id (lj_record lease)) s s'"
proof -
  let ?i = "jb_job_id (lj_record lease)" and ?now = "ww_clock W (wk_tick s)"
  obtain k0 where k0: "leased_since c W lease start k0 (m, s)"
    using ok by (auto simp: watching_def)
  have inv: "db_inv E (wk_db s)" and held: "held ?i (lj_worker_id lease) (lj_lease_token lease) start
      (ww_clock W k0 + timedelta_seconds (wc_lease_seconds c)) (wk_db s)"
    using ok k0 by (simp_all add: watching_def leased_since_def)
  have x: "?now < ww_clock W k0 + timedelta_seconds (wc_lease_seconds c)"
    using lease_lasts [OF tm k0 _ q, of 0] by simp
  obtain rec db' r where t: "op ?now (wk_db s) = (Inr rec, db')" "only_job ?i (wk_db s) db'" "fetch_job ?i db' = Some r"
      "is_terminal (jb_state r)" "fst ` set (job_safety_receipts db') \<subseteq> insert ?i (fst ` set (job_safety_receipts (wk_db s)))"
    using terminal_update_succeeds [OF inv held x w out fresh] unfolding op by blast
  obtain k where k: "nat (wc_persist_attempts c) = Suc k"
    using n by (cases "nat (wc_persist_attempts c)") auto
  have "db_inv E db'"
    using effect_inv [OF terminal_update_effect [OF inv out(1,2)] inv] t(1) unfolding op by (metis snd_conv)
  then show ?thesis
    using t k by (auto simp: settle_def persist_terminal_state_def store_call_quiet [OF q] finished_def)
qed

lemma internal_failure_fields:
  "failure_fields_ok ''worker_internal_error'' ''The scanner worker encountered an unexpected internal error.''"
  by code_simp

lemma failure_receipt:
  "oc_receipt_ref (failure_outcome code message ref sha) = ref" "oc_receipt_sha256 (failure_outcome code message ref sha) = sha"
  "receipt_ok (oc_receipt_ref cancel_outcome) (oc_receipt_sha256 cancel_outcome)"
  by (simp_all add: failure_outcome_def cancel_outcome_def receipt_ok_def)

lemma execution_ended_quiet:
  assumes q: "quiet_world W" and tm: "timely c W" and n: "1 \<le> wc_persist_attempts c"
    and ok: "watching E c W lease start (m, s)"
    and w: "check_worker_id (lj_worker_id lease) = Inr (lj_worker_id lease)"
    and fresh: "keyed (jb_job_id (lj_record lease)) (job_safety_receipts (wk_db s)) = None"
    and res: "execution_ok res"
  shows "\<exists>s'. execution_ended E c W lease res (m, s) = (Inr True, s') \<and> finished E (jb_job_id (lj_record lease)) s s'"
proof -
  note settle = settle_quiet [OF q tm n ok w _ _ _ fresh]
  have m: "\<not> jm_lease_lost m" "\<not> jm_cancelled m"
    using ok by (simp_all add: watching_def)
  have fail: "\<exists>s'. settle ev (worker_fail E c W lease code message ref sha s) = (Inr True, s')
      \<and> finished E (jb_job_id (lj_record lease)) s s'"
    if "failure_fields_ok code message" "receipt_ok ref sha" for ev code message ref sha
    unfolding worker_fail_def using outcome_failure [OF that(1), of ref sha] that(2)
    by (intro settle [of "failure_outcome code message ref sha"]) (simp_all add: fail_leased_def fun_eq_iff failure_receipt)
  have internal: "\<exists>s'. internal_failure E c W lease s = (Inr True, s') \<and> finished E (jb_job_id (lj_record lease)) s s'"
    using fail [OF internal_failure_fields] by (simp add: internal_failure_def receipt_ok_def)
  have cancel: "\<exists>s'. settle ev (worker_cancel E c W lease s) = (Inr True, s') \<and> finished E (jb_job_id (lj_record lease)) s s'" for ev
    unfolding worker_cancel_def using outcome_cancel
    by (intro settle [of cancel_outcome]) (simp_all add: cancel_running_leased_def fun_eq_iff failure_receipt)
  show ?thesis
  proof (cases res)
    case (Inl e)
    then show ?thesis
      using res m fail internal cancel by (cases e) (auto simp: execution_ended_def)
  next
    case (Inr out)
    obtain o1 where o1: "result_outcome (jo_scan_id out) (jo_status out) (jo_report_ref out) (jo_audit_ref out)
        (jo_receipt_ref out) (jo_receipt_sha256 out) = Inr o1"
      "oc_receipt_ref o1 = jo_receipt_ref out" "oc_receipt_sha256 o1 = jo_receipt_sha256 out"
      using res Inr by (auto simp: result_outcome_def)
    have "outcome_wf o1 \<and> outcome_shape o1"
      using outcome_result [OF o1(1)] res Inr by simp
    then have "\<exists>s'. settle ''job_completed'' (worker_finish_result E c W lease out s) = (Inr True, s')
        \<and> finished E (jb_job_id (lj_record lease)) s s'"
      unfolding worker_finish_result_def using o1 res Inr
      by (intro settle [of o1]) (simp_all add: finish_result_leased_def fun_eq_iff)
    then show ?thesis
      using Inr m by (auto simp: execution_ended_def)
  qed
qed

section \<open>What a pass does to the table\<close>

definition pass_row :: "job_row \<Rightarrow> job_row \<Rightarrow> bool" where
  "pass_row r r' \<longleftrightarrow>
     jb_job_id r' = jb_job_id r \<and> jb_request r' = jb_request r
     \<and> (r' = r \<or> is_terminal (jb_state r') \<or> jb_state r = JOB_RUNNING \<and> jb_state r' = JOB_QUEUED)"

text \<open>Jobs end or are queued again after a lost lease; nothing else of the database changes but receipts.\<close>

definition passes :: "job_db \<Rightarrow> job_db \<Rightarrow> bool" where
  "passes db db' \<longleftrightarrow>
     list_all2 pass_row (scan_jobs db) (scan_jobs db')
     \<and> job_scopes db' = job_scopes db \<and> job_permits db' = job_permits db \<and> scan_permits db' = scan_permits db
     \<and> organization_authorizations db' = organization_authorizations db"

definition open_jobs :: "job_row list \<Rightarrow> nat" where
  "open_jobs rows = length (filter (\<lambda>r. \<not> is_terminal (jb_state r)) rows)"

definition receipts_terminal :: "job_db \<Rightarrow> bool" where
  "receipts_terminal db \<longleftrightarrow>
     (\<forall>r \<in> set (scan_jobs db). jb_job_id r \<in> fst ` set (job_safety_receipts db) \<longrightarrow> is_terminal (jb_state r))"

lemma pass_row_refl [simp]: "pass_row r r"
  by (simp add: pass_row_def)

lemma pass_row_trans: "pass_row r s \<Longrightarrow> pass_row s t \<Longrightarrow> pass_row r t"
  by (auto simp: pass_row_def is_terminal_def)

lemma pass_row_terminal: "pass_row r r' \<Longrightarrow> is_terminal (jb_state r) \<Longrightarrow> is_terminal (jb_state r')"
  by (auto simp: pass_row_def is_terminal_def)

lemma passes_refl: "passes db db"
  by (simp add: passes_def list_all2_refl)

lemma passes_trans: "passes a b \<Longrightarrow> passes b c \<Longrightarrow> passes a c"
  unfolding passes_def using list_all2_trans [of pass_row pass_row pass_row] pass_row_trans by (metis (no_types, lifting))

lemma open_jobs_le: "list_all2 pass_row xs ys \<Longrightarrow> open_jobs ys \<le> open_jobs xs"
  by (induction rule: list_all2_induct) (auto simp: open_jobs_def dest: pass_row_terminal)

lemma open_jobs_less:
  assumes "list_all2 pass_row xs ys" "distinct (map jb_job_id xs)" "r \<in> set xs" "\<not> is_terminal (jb_state r)"
    and "r' \<in> set ys" "jb_job_id r' = jb_job_id r" "is_terminal (jb_state r')"
  shows "open_jobs ys < open_jobs xs"
  using assms
proof (induction arbitrary: r r' rule: list_all2_induct)
  case (Cons x xs y ys)
  have ids: "map jb_job_id ys = map jb_job_id xs"
    using Cons.hyps(2) by (induction rule: list_all2_induct) (auto simp: pass_row_def)
  have xy: "jb_job_id y = jb_job_id x"
    using Cons.hyps(1) by (simp add: pass_row_def)
  show ?case
  proof (cases "r = x")
    case True
    then have "r' = y"
      using Cons.prems ids xy by (metis distinct.simps(2) image_eqI list.simps(9) set_ConsD set_map)
    then show ?thesis
      using True Cons.prems open_jobs_le [OF Cons.hyps(2)] by (simp add: open_jobs_def)
  next
    case False
    then have "r \<in> set xs" "r' \<noteq> y"
      using Cons.prems xy by (auto simp: image_iff)
    then have "open_jobs ys < open_jobs xs"
      using Cons.IH [of r r'] Cons.prems by auto
    then show ?thesis
      using pass_row_terminal [OF Cons.hyps(1)] by (auto simp: open_jobs_def)
  qed
qed simp

lemma passes_member:
  assumes "list_all2 pass_row xs ys" "r' \<in> set ys"
  obtains r where "r \<in> set xs" "pass_row r r'"
  using assms by (metis in_set_conv_nth list_all2_conv_all_nth)

lemma receipts_terminal_passes:
  assumes "passes db db'" "receipts_terminal db"
    and "\<And>r. r \<in> set (scan_jobs db') \<Longrightarrow> jb_job_id r \<in> fst ` set (job_safety_receipts db') \<Longrightarrow>
           jb_job_id r \<in> fst ` set (job_safety_receipts db) \<or> is_terminal (jb_state r)"
  shows "receipts_terminal db'"
  unfolding receipts_terminal_def
proof (intro ballI impI)
  fix r' assume r': "r' \<in> set (scan_jobs db')" "jb_job_id r' \<in> fst ` set (job_safety_receipts db')"
  obtain r where "r \<in> set (scan_jobs db)" "pass_row r r'"
    using passes_member r'(1) assms(1) unfolding passes_def by blast
  then show "is_terminal (jb_state r')"
    using assms(2,3) r' pass_row_terminal unfolding receipts_terminal_def pass_row_def by metis
qed

lemma recover_passes:
  assumes "db_inv E db"
  shows "passes db (update_jobs (lease_expired t) (recover_update t limit) db)"
proof -
  have "pass_row r (recover_update t limit r)" if "lease_expired t r" for r
  proof -
    have "jb_request (recover_update t limit r) = jb_request r"
      by (simp add: recover_update_def)
    then show ?thesis
      using that by (auto simp: pass_row_def recover_update_state lease_expired_def is_terminal_def)
  qed
  then show ?thesis
    by (auto simp: passes_def sql_update_def list_all2_conv_all_nth)
qed

text \<open>A job that the worker has run to its end.\<close>

lemma finished_passes:
  assumes "only_job i db db'" "db_inv E db'" "fetch_job i db' = Some r" "is_terminal (jb_state r)"
  shows "passes db db'"
proof -
  have "pass_row x y" if "y \<in> set (scan_jobs db')" "y = x \<or> jb_job_id x = i \<and> jb_job_id y = i \<and> jb_request y = jb_request x" for x y
    using that db_inv_id_unique [OF assms(2), of y r] fetch_job_SomeD [OF assms(3)] assms(4) by (auto simp: pass_row_def)
  then show ?thesis
    using assms(1) unfolding only_job_def passes_def by (auto simp: list_all2_conv_all_nth)
qed

section \<open>A pass in a quiet world\<close>

definition worker_inv :: "py_env \<Rightarrow> worker_world \<Rightarrow> worker_state \<Rightarrow> bool" where
  "worker_inv E W s \<longleftrightarrow>
     db_inv E (wk_db s) \<and> receipts_terminal (wk_db s)
     \<and> (\<forall>r \<in> set (scan_jobs (wk_db s)). rq_submitted_at (jb_request r) \<le> ww_clock W (wk_tick s))"

lemma passes_submitted:
  assumes "passes db db'" "\<forall>r \<in> set (scan_jobs db). rq_submitted_at (jb_request r) \<le> t" "t \<le> t'"
  shows "\<forall>r \<in> set (scan_jobs db'). rq_submitted_at (jb_request r) \<le> t'"
proof
  fix r' assume "r' \<in> set (scan_jobs db')"
  then obtain r where "r \<in> set (scan_jobs db)" "pass_row r r'"
    using passes_member assms(1) unfolding passes_def by blast
  then show "rq_submitted_at (jb_request r') \<le> t'"
    using assms(2,3) by (fastforce simp: pass_row_def)
qed

lemma run_claimed_quiet:
  assumes q: "quiet_world W" and t: "timely c W" and e: "sound_executor W" and v: "validate_worker_config c = Inr ()"
    and inv: "db_inv E db" "receipts_terminal db" and row: "row \<in> set (scan_jobs db)" "claimable db now row"
    and now: "now = ww_clock W n" "rq_submitted_at (jb_request row) \<le> now"
    and claim: "claim_next_leased E now (wc_worker_id c) (wc_lease_seconds c) tok db = (Inr (Some lease), db2)"
    and sel: "select_claimable_row db now = Some row"
    and s: "wk_db s = db2" "wk_tick s = Suc n"
  shows "\<exists>s' r. run_claimed E c W lease s = (Inr True, s') \<and> only_job (jb_job_id row) db (wk_db s') \<and> db_inv E (wk_db s')
    \<and> fetch_job (jb_job_id row) (wk_db s') = Some r \<and> is_terminal (jb_state r)
    \<and> fst ` set (job_safety_receipts (wk_db s')) \<subseteq> insert (jb_job_id row) (fst ` set (job_safety_receipts db))
    \<and> wk_tick s \<le> wk_tick s'"
proof -
  obtain w where w: "check_worker_id (wc_worker_id c) = Inr w"
    and d: "check_lease_seconds (wc_lease_seconds c) = Inr (wc_lease_seconds c)" and n: "1 \<le> wc_persist_attempts c"
    and hb: "0 < wc_heartbeat_seconds c"
    using v check_lease_seconds_same by (auto simp: validate_worker_config_def bindE_eq_Inr raise_if_eq_Inr)
  let ?d = "timedelta_seconds (wc_lease_seconds c)" and ?i = "jb_job_id row"
  let ?f = "lease_row row now w tok (wc_lease_seconds c)"
  have mx: "max now (rq_submitted_at (jb_request row)) = now"
    using now(2) by simp
  obtain rec where c: "lease = \<lparr>lj_record = rec, lj_worker_id = w, lj_lease_token = tok,
         lj_lease_expires_at = now + ?d, lj_attempt_count = jr_attempt_count row + 1\<rparr>"
    and db2: "db2 = update_jobs (cas row JOB_QUEUED) ?f db" and rec: "record_from_row E (?f row) = Inr rec"
    using claim_next_leased_cases [OF inv(1) w d sel, of tok] claim unfolding mx by auto
  have i: "jb_job_id rec = ?i" and canc: "\<not> jb_cancellation_requested rec"
    using record_from_row_fields [OF rec] row(2) by (simp_all add: lease_row_def claim_row_def claimable_def)
  have "cas row JOB_QUEUED row"
    using row(2) by (simp add: cas_def claimable_def)
  then have fetch: "fetch_job ?i db2 = Some (?f row)"
    unfolding db2 by (intro fetch_updated [OF inv(1) row(1)]) (auto dest: cas_id simp: lease_row_def claim_row_def)
  then have held: "held ?i w tok now (now + ?d) db2"
    using row(2) by (auto simp: held_def lease_row_def claim_row_def claimable_def)
  have inv2: "db_inv E db2"
    using effect_inv [OF claim_next_leased_effect [OF inv(1)] inv(1)] claim by (metis snd_conv)
  have only: "only_job ?i db db2"
    unfolding db2 by (rule only_job_update) (auto dest: cas_id simp: lease_row_def claim_row_def)
  define s1 where "s1 = tick (log_event ''job_claimed'' s)"
  define m where "m = \<lparr>jm_cancelled = False, jm_lease_lost = False,
      jm_next_heartbeat = ww_monotonic W (Suc n) + wc_heartbeat_seconds c, jm_stopped = False\<rparr>"
  have s1: "wk_db s1 = db2" "wk_tick s1 = n + 2"
    by (simp_all add: s1_def s)
  have lw: "check_worker_id (lj_worker_id lease) = Inr (lj_worker_id lease)"
    using check_worker_id_again [OF w] by (simp add: c)
  have li: "jb_job_id (lj_record lease) = ?i"
    by (simp add: c i)
  have "leased_since c W lease now n (m, s1)"
    using held hb by (simp add: leased_since_def m_def s1 li now(1) [symmetric]) (simp add: c)
  then have watch: "watching E c W lease now (m, s1)"
    using inv2 by (auto simp: watching_def m_def s1)
  obtain m2 s2 where mon: "monitor_job E c W lease (ww_cycles W (Suc n)) (m, s1) = (m2, s2)"
      "watching E c W lease now (m2, s2)" "monitored ?i s1 s2"
    using monitor_job_quiet [OF q t lw d hb watch] unfolding li by blast
  have "keyed ?i (job_safety_receipts (wk_db s2)) = None"
  proof -
    have "\<not> is_terminal (jb_state row)"
      using row(2) by (simp add: claimable_def is_terminal_def)
    then have "?i \<notin> fst ` set (job_safety_receipts db)"
      using inv(2) row(1) by (auto simp: receipts_terminal_def)
    moreover have "job_safety_receipts (wk_db s2) = job_safety_receipts db"
      using mon(3) by (simp add: monitored_def s1 db2)
    ultimately show ?thesis
      by (simp add: keyed_def map_of_eq_None_iff)
  qed
  moreover have "execution_ok (ww_execute W (Suc n) rec False)"
    using e by (simp add: sound_executor_def)
  ultimately obtain s3 where fin: "execution_ended E c W lease (ww_execute W (Suc n) rec False) (m2, s2) = (Inr True, s3)"
      "finished E ?i s2 s3"
    using execution_ended_quiet [OF q t n mon(2) lw] unfolding li by blast
  have "run_claimed E c W lease s = (Inr True, s3)"
    using mon(1,2) fin(1) canc
    by (simp add: run_claimed_def Let_def s s1_def [symmetric] m_def [symmetric] c watching_def)
  moreover have "only_job ?i db (wk_db s3)"
  proof (rule only_job_trans [OF only], rule only_job_trans)
    show "only_job ?i db2 (wk_db s2)" "only_job ?i (wk_db s2) (wk_db s3)"
      using mon(3) fin(2) by (simp_all add: monitored_def finished_def s1)
  qed
  moreover have "job_safety_receipts (wk_db s2) = job_safety_receipts db"
    using mon(3) by (simp add: monitored_def s1 db2)
  ultimately show ?thesis
    using fin(2) mon(3) by (auto simp: finished_def monitored_def s1 s)
qed

lemma worker_run_once_quiet:
  assumes q: "quiet_world W" and t: "timely c W" and e: "sound_executor W" and v: "validate_worker_config c = Inr ()"
    and inv: "worker_inv E W s"
  shows "\<exists>b s'. worker_run_once E c W s = (Inr b, s') \<and> worker_inv E W s' \<and> passes (wk_db s) (wk_db s') \<and> wk_tick s \<le> wk_tick s'
    \<and> (b \<longrightarrow> open_jobs (scan_jobs (wk_db s')) < open_jobs (scan_jobs (wk_db s)))
    \<and> (\<not> b \<longrightarrow> (\<forall>r \<in> set (scan_jobs (wk_db s')). \<not> claimable (wk_db s') (ww_clock W (Suc (wk_tick s))) r))"
proof -
  obtain w limit where w: "check_worker_id (wc_worker_id c) = Inr w" and limit: "check_maximum_attempts (wc_maximum_attempts c) = Inr limit"
    and d: "check_lease_seconds (wc_lease_seconds c) = Inr (wc_lease_seconds c)"
    using v check_lease_seconds_same by (auto simp: validate_worker_config_def bindE_eq_Inr raise_if_eq_Inr)
  have db: "db_inv E (wk_db s)" "receipts_terminal (wk_db s)"
    and sub: "\<forall>r \<in> set (scan_jobs (wk_db s)). rq_submitted_at (jb_request r) \<le> ww_clock W (wk_tick s)"
    using inv by (simp_all add: worker_inv_def)
  have mono: "ww_clock W a \<le> ww_clock W b" if "a \<le> b" for a b
    using q that by (simp add: quiet_world_def)
  let ?t = "ww_clock W (wk_tick s)" and ?n = "Suc (wk_tick s)"
  define db1 where "db1 = update_jobs (lease_expired ?t) (recover_update ?t limit) (wk_db s)"
  define sm where "sm = summary_of limit (sql_order expired_key (filter (lease_expired ?t) (scan_jobs (wk_db s))))
      \<lparr>rs_requeued = 0, rs_cancelled = 0, rs_failed = 0\<rparr>"
  define s1 where "s1 = (tick s)\<lparr>wk_db := db1, wk_last_recovery := sm\<rparr>"
  define now where "now = ww_clock W ?n"
  define tok where "tok = ww_lease_token W ?n"
  have p1: "passes (wk_db s) db1"
    unfolding db1_def by (rule recover_passes [OF db(1)])
  have inv1: "db_inv E db1"
    using effect_inv [OF recover_effect [OF db(1)] db(1), of ?t "wc_maximum_attempts c"]
    by (simp add: recover_jobs [OF db(1) limit] db1_def)
  have rt1: "receipts_terminal db1"
    by (rule receipts_terminal_passes [OF p1 db(2)]) (simp add: db1_def)
  have sub1: "\<forall>r \<in> set (scan_jobs db1). rq_submitted_at (jb_request r) \<le> now"
    using passes_submitted [OF p1 sub] mono [of "wk_tick s" ?n] by (simp add: now_def)
  have run: "worker_run_once E c W s =
      (case claim_next_leased E now (wc_worker_id c) (wc_lease_seconds c) tok db1 of
         (Inl e, db2) \<Rightarrow> (Inl e, (tick s1)\<lparr>wk_db := db2\<rparr>)
       | (Inr None, db2) \<Rightarrow> (Inr False, (tick s1)\<lparr>wk_db := db2\<rparr>)
       | (Inr (Some lease), db2) \<Rightarrow> run_claimed E c W lease ((tick s1)\<lparr>wk_db := db2\<rparr>))"
    by (simp add: worker_run_once_def store_call_quiet [OF q] recover_jobs [OF db(1) limit] db1_def [symmetric] sm_def [symmetric]
        s1_def now_def tok_def split: prod.splits sum.splits option.splits)
  show ?thesis
  proof (cases "select_claimable_row db1 now")
    case None
    then have "worker_run_once E c W s = (Inr False, (tick s1)\<lparr>wk_db := db1\<rparr>)"
      using w d by (simp add: run claim_next_leased_def)
    moreover have "worker_inv E W ((tick s1)\<lparr>wk_db := db1\<rparr>)"
      using inv1 rt1 sub1 mono [of ?n "Suc ?n"] unfolding worker_inv_def now_def
      by (auto simp: s1_def intro: order_trans)
    ultimately show ?thesis
      using p1 None by (auto simp: select_claimable_row_None now_def s1_def)
  next
    case (Some row)
    note row = select_claimable_row_SomeD [OF Some]
    obtain lease db2 where claim: "claim_next_leased E now (wc_worker_id c) (wc_lease_seconds c) tok db1 = (Inr (Some lease), db2)"
      using claim_next_leased_cases [OF inv1 w d Some, of tok] by blast
    obtain s' r where r: "run_claimed E c W lease ((tick s1)\<lparr>wk_db := db2\<rparr>) = (Inr True, s')"
        "only_job (jb_job_id row) db1 (wk_db s')" "db_inv E (wk_db s')" "fetch_job (jb_job_id row) (wk_db s') = Some r"
        "is_terminal (jb_state r)"
        "fst ` set (job_safety_receipts (wk_db s')) \<subseteq> insert (jb_job_id row) (fst ` set (job_safety_receipts db1))"
        "Suc ?n \<le> wk_tick s'"
      using run_claimed_quiet [OF q t e v inv1 rt1 row(1,2) _ _ claim Some, of ?n "(tick s1)\<lparr>wk_db := db2\<rparr>"] sub1 row(1)
      by (auto simp: now_def s1_def)
    have p2: "passes db1 (wk_db s')"
      by (rule finished_passes [OF r(2-5)])
    have rr: "r \<in> set (scan_jobs (wk_db s'))" "jb_job_id r = jb_job_id row"
      using fetch_job_SomeD [OF r(4)] by auto
    have "receipts_terminal (wk_db s')"
    proof (rule receipts_terminal_passes [OF p2 rt1])
      fix x assume x: "x \<in> set (scan_jobs (wk_db s'))" "jb_job_id x \<in> fst ` set (job_safety_receipts (wk_db s'))"
      show "jb_job_id x \<in> fst ` set (job_safety_receipts db1) \<or> is_terminal (jb_state x)"
        using x r(5,6) db_inv_id_unique [OF r(3) x(1) rr(1)] rr(2) by auto
    qed
    moreover have "\<forall>r \<in> set (scan_jobs (wk_db s')). rq_submitted_at (jb_request r) \<le> ww_clock W (wk_tick s')"
      by (rule passes_submitted [OF p2 sub1]) (use mono r(7) in \<open>simp add: now_def\<close>)
    moreover have "open_jobs (scan_jobs (wk_db s')) < open_jobs (scan_jobs db1)"
      using p2 db_inv_distinct [OF inv1] row rr r(5)
      by (intro open_jobs_less [of _ _ row r]) (auto simp: passes_def claimable_def is_terminal_def)
    moreover have "open_jobs (scan_jobs db1) \<le> open_jobs (scan_jobs (wk_db s))"
      using p1 open_jobs_le by (simp add: passes_def)
    ultimately show ?thesis
      using r(1,3,7) claim passes_trans [OF p1 p2] by (auto simp: run worker_inv_def)
  qed
qed

section \<open>The loop\<close>

text \<open>A claimable job stays claimable until it has ended.\<close>

lemma claimable_passes:
  assumes p: "passes db db'" and r: "claimable db t r"
  shows "claimable db' t r"
proof -
  have "permit_running db pid" if run: "permit_running db' pid" for pid
  proof -
    obtain x where x: "x \<in> set (scan_jobs db')" "jb_state x = JOB_RUNNING"
      "map_option fst (job_permit_of db' (jb_job_id x)) = Some pid"
      using run by (auto simp: permit_running_def list_ex_iff)
    obtain y where "y \<in> set (scan_jobs db)" "pass_row y x"
      using passes_member x(1) p unfolding passes_def by blast
    then show ?thesis
      using x p by (auto simp: pass_row_def is_terminal_def permit_running_def list_ex_iff passes_def job_permit_of_def)
  qed
  then show ?thesis
    using r p unfolding claimable_def permit_live_def job_permit_of_def job_scope_of_def passes_def
    by (auto split: option.splits prod.splits)
qed

lemma worker_inv_frame:
  assumes "quiet_world W" "worker_inv E W s" "wk_db s' = wk_db s" "wk_tick s \<le> wk_tick s'"
  shows "worker_inv E W s'"
proof -
  have "ww_clock W (wk_tick s) \<le> ww_clock W (wk_tick s')"
    using assms(1,4) by (simp add: quiet_world_def)
  then show ?thesis
    using assms(2,3) unfolding worker_inv_def by (auto intro: order_trans)
qed

lemma worker_loop_quiet:
  assumes q: "quiet_world W" and t: "timely c W" and e: "sound_executor W" and v: "validate_worker_config c = Inr ()"
  shows "worker_inv E W s \<Longrightarrow> r \<in> set (scan_jobs (wk_db s)) \<Longrightarrow>
    is_terminal (jb_state r)
    \<or> open_jobs (scan_jobs (wk_db s)) < k \<and> (\<forall>n \<ge> wk_tick s. claimable (wk_db s) (ww_clock W n) r) \<Longrightarrow>
    \<exists>s' r'. worker_loop E c W k s = (None, s') \<and> worker_inv E W s' \<and> r' \<in> set (scan_jobs (wk_db s'))
      \<and> jb_job_id r' = jb_job_id r \<and> is_terminal (jb_state r')"
proof (induction k arbitrary: s r)
  case 0
  then show ?case by auto
next
  case (Suc k)
  obtain b s1 where one: "worker_run_once E c W s = (Inr b, s1)" "worker_inv E W s1" "passes (wk_db s) (wk_db s1)"
      "wk_tick s \<le> wk_tick s1" "b \<Longrightarrow> open_jobs (scan_jobs (wk_db s1)) < open_jobs (scan_jobs (wk_db s))"
      "\<not> b \<Longrightarrow> \<forall>r \<in> set (scan_jobs (wk_db s1)). \<not> claimable (wk_db s1) (ww_clock W (Suc (wk_tick s))) r"
    using worker_run_once_quiet [OF q t e v Suc.prems(1)] by blast
  define s2 where "s2 = touch_progress W
      (if wk_in_outage s1 then log_event ''database_outage_recovered'' (s1\<lparr>wk_in_outage := False\<rparr>) else s1)"
  have s2: "wk_db s2 = wk_db s1" "wk_tick s1 \<le> wk_tick s2"
    by (simp_all add: s2_def)
  have inv2: "worker_inv E W s2"
    by (rule worker_inv_frame [OF q one(2) s2])
  obtain r1 where r1: "r1 \<in> set (scan_jobs (wk_db s1))" "pass_row r r1"
    using one(3) Suc.prems(2) unfolding passes_def by (metis in_set_conv_nth list_all2_conv_all_nth)
  have "is_terminal (jb_state r1)
      \<or> open_jobs (scan_jobs (wk_db s2)) < k \<and> (\<forall>n \<ge> wk_tick s2. claimable (wk_db s2) (ww_clock W n) r1)"
  proof (cases "is_terminal (jb_state r1)")
    case False
    then have c: "\<forall>n \<ge> wk_tick s. claimable (wk_db s) (ww_clock W n) r" "open_jobs (scan_jobs (wk_db s)) < Suc k"
      using Suc.prems(3) pass_row_terminal [OF r1(2)] by auto
    then have "jb_state r = JOB_QUEUED"
      by (auto simp: claimable_def)
    then have same: "r1 = r"
      using r1(2) False by (auto simp: pass_row_def)
    then have "\<forall>n \<ge> wk_tick s. claimable (wk_db s1) (ww_clock W n) r1"
      using c(1) claimable_passes [OF one(3)] by blast
    moreover from this have b
      using one(6) r1(1) by (meson le_SucI order_refl)
    ultimately show ?thesis
      using one(4,5) c(2) s2 by auto
  qed simp
  then obtain s' r' where "worker_loop E c W k s2 = (None, s')" "worker_inv E W s'" "r' \<in> set (scan_jobs (wk_db s'))"
    "jb_job_id r' = jb_job_id r1" "is_terminal (jb_state r')"
    using Suc.IH [OF inv2] r1(1) s2(1) by metis
  then show ?case
    using one(1) r1(2) by (auto simp: s2_def pass_row_def)
qed

text \<open>
  C25. A worker that is left alone finishes the jobs: if a job is claimable in the store at every later
  reading of the clock, then after more passes of the loop than there are unfinished jobs it is
  completed, failed or cancelled, and the loop has not ended by an exception. Executions may take any
  number of heartbeats: the monitor keeps the lease alive. Recovery of the leases of other workers, failed and crashed
  executions are included. Assumed is that nobody else uses the store and there is no outage, that
  the clock does not run back and not faster than the monotonic one, that between two interactions of the worker less time passes
  than a fifth of what a lease is longer than a heartbeat interval, that the database
  satisfies the invariant of the store, has receipts of finished jobs only and no job submitted in the
  future, and that the executor returns results which the records accept.
\<close>

theorem worker_finishes_jobs:
  assumes "quiet_world W" "timely c W" "sound_executor W" "validate_worker_config c = Inr ()" "worker_inv E W s"
    and "r \<in> set (scan_jobs (wk_db s))" "\<forall>n \<ge> wk_tick s. claimable (wk_db s) (ww_clock W n) r"
    and "open_jobs (scan_jobs (wk_db s)) < iterations"
  shows "\<exists>s' r'. worker_run_forever E c W iterations s = (None, s') \<and> r' \<in> set (scan_jobs (wk_db s'))
           \<and> jb_job_id r' = jb_job_id r \<and> is_terminal (jb_state r')"
proof -
  let ?s = "log_event ''worker_started'' s"
  have "worker_inv E W ?s"
    using worker_inv_frame [OF assms(1,5), of ?s] by simp
  then obtain s' r' where "worker_loop E c W iterations ?s = (None, s')" "r' \<in> set (scan_jobs (wk_db s'))"
    "jb_job_id r' = jb_job_id r" "is_terminal (jb_state r')"
    using worker_loop_quiet [OF assms(1-4), of E ?s r iterations] assms(6-8) by auto
  then show ?thesis
    by (auto simp: worker_run_forever_def)
qed

section \<open>Outages and late writes\<close>

text \<open>An outage alone never ends the loop, and each one is reported once.\<close>

lemma outage_survived:
  assumes "worker_run_once E c W s = (Inl DatabaseError, s')"
  shows "worker_loop E c W (Suc k) s = worker_loop E c W k (touch_progress W
           (if wk_in_outage s' then s' else log_event ''database_outage_detected'' (s'\<lparr>wk_in_outage := True\<rparr>)))"
  using assms by simp

text \<open>
  A job whose lease was lost without the monitor noticing and that is no longer running, because it was
  queued again or another worker has finished it: recording its result raises an error that is not in
  the list of stale-lease codes, and that ends the loop.
\<close>

lemma late_result_ends_loop:
  assumes "check_worker_id (lj_worker_id lease) = Inr w" "db = ww_others W (wk_tick s) (wk_db s)" "\<not> ww_outage W (wk_tick s)"
    and "fetch_job (jb_job_id (lj_record lease)) db = Some row" "record_from_row E row = Inr rec" "jb_state rec \<noteq> JOB_RUNNING"
    and "\<not> jm_lease_lost m" "execution_ok (Inr out)" "1 \<le> wc_persist_attempts c"
  shows "fst (execution_ended E c W lease (Inr out) (m, s)) = Inl (JobStoreError ''job_state_transition_invalid'')"
proof -
  obtain o1 where o1: "result_outcome (jo_scan_id out) (jo_status out) (jo_report_ref out) (jo_audit_ref out)
      (jo_receipt_ref out) (jo_receipt_sha256 out) = Inr o1" "receipt_ok (oc_receipt_ref o1) (oc_receipt_sha256 o1)"
    using assms(8) by (auto simp: result_outcome_def)
  obtain k where "nat (wc_persist_attempts c) = Suc k"
    using assms(9) by (cases "nat (wc_persist_attempts c)") auto
  then show ?thesis
    using assms(1-7) o1 receipt_ok_check [OF o1(2)]
    by (simp add: execution_ended_def settle_def worker_finish_result_def persist_terminal_state_def store_call_def
        finish_result_leased_def terminal_update_def is_stale_lease_code_def store_error_def)
qed

lemma store_error_ends_loop:
  "worker_run_once E c W s = (Inl (JobStoreError code), s') \<Longrightarrow> worker_loop E c W (Suc k) s = (Some (JobStoreError code), s')"
  by simp

section \<open>A worker at work\<close>

definition ex_config :: worker_config where
  "ex_config =
     \<lparr>wc_poll_seconds = 1 / 4, wc_worker_id = ''worker-1'', wc_lease_seconds = 60, wc_heartbeat_seconds = 20,
      wc_maximum_attempts = 3, wc_persist_attempts = 3, wc_persist_backoff = 1, wc_heartbeat_backoff = 1\<rparr>"

definition ex_world :: worker_world where
  "ex_world =
     \<lparr>ww_others = (\<lambda>n db. db), ww_outage = (\<lambda>n. False), ww_clock = (\<lambda>n. 30 + microseconds * int n),
      ww_monotonic = of_nat,
      ww_lease_token = (\<lambda>n. ''token''), ww_cycles = (\<lambda>n. 100),
      ww_execute = (\<lambda>n rec cancelled. Inr \<lparr>jo_scan_id = ex_uuid (CHR ''7''), jo_status = SCAN_COMPLETED,
        jo_report_ref = ''report.json'', jo_audit_ref = ''audit.json'', jo_receipt_ref = None, jo_receipt_sha256 = None\<rparr>)\<rparr>"

definition ex_worker :: worker_state where
  "ex_worker =
     \<lparr>wk_db = ex_one, wk_tick = 0, wk_last_progress = 0, wk_in_outage = False,
      wk_last_recovery = \<lparr>rs_requeued = 0, rs_cancelled = 0, rs_failed = 0\<rparr>, wk_log = []\<rparr>"

lemma ex_world_facts:
  "quiet_world ex_world" "timely ex_config ex_world" "sound_executor ex_world" "validate_worker_config ex_config = Inr ()"
proof -
  show "quiet_world ex_world"
    by (simp add: quiet_world_def ex_world_def microseconds_def)
  have "timedelta_seconds 60 = 60000000"
    by code_simp
  then show "timely ex_config ex_world"
    by (auto simp: timely_def ex_world_def ex_config_def microseconds_def intro!: exI [of _ 1])
  have "result_fields_ok (ex_uuid (CHR ''7'')) ''report.json'' ''audit.json''" "expected_result_state SCAN_COMPLETED \<noteq> None"
    by code_simp+
  then show "sound_executor ex_world"
    by (simp add: sound_executor_def ex_world_def receipt_ok_def)
  show "validate_worker_config ex_config = Inr ()"
    by code_simp
qed

lemma ex_worker_inv: "worker_inv ex_env2 ex_world ex_worker"
proof -
  have "db_inv ex_env2 ex_one"
    using ex_one_inv by (simp add: store_inv_def)
  moreover have "job_safety_receipts ex_one = []" "list_all (\<lambda>r. rq_submitted_at (jb_request r) \<le> 30) (scan_jobs ex_one)"
    by code_simp+
  ultimately show ?thesis
    by (simp add: worker_inv_def ex_worker_def ex_world_def receipts_terminal_def list_all_iff)
qed

text \<open>Each execution goes on for a hundred turns of the monitor, several times as long as the lease of a minute.\<close>

theorem worker_finishes_jobs_witness:
  "\<exists>s' r'. worker_run_forever ex_env2 ex_config ex_world 3 ex_worker = (None, s') \<and> r' \<in> set (scan_jobs (wk_db s'))
     \<and> jb_job_id r' = ex_uuid (CHR ''1'') \<and> is_terminal (jb_state r')"
proof -
  let ?r = "scan_jobs ex_one ! 0"
  have "jb_state ?r = JOB_QUEUED" "\<not> jb_cancellation_requested ?r" "organization_authorizations ex_one = None"
    "job_permit_of ex_one (jb_job_id ?r) = None"
    by code_simp+
  then have "\<forall>t. claimable ex_one t ?r"
    by (simp add: claimable_def)
  moreover have "open_jobs (scan_jobs ex_one) < 3" "jb_job_id ?r = ex_uuid (CHR ''1'')" "0 < length (scan_jobs ex_one)"
    by code_simp+
  moreover have "?r \<in> set (scan_jobs ex_one)"
    using calculation(4) by (rule nth_mem)
  ultimately show ?thesis
    using worker_finishes_jobs [OF ex_world_facts ex_worker_inv, of ?r 3] by (simp add: ex_worker_def)
qed

end
