(* ===== verification/Py_Dict.thy ===== *)
theory Py_Dict
  imports Contract_Text
begin

text \<open>
  A Python dictionary as the list of its items in the order of insertion, with distinct keys: writing
  to a key that is present keeps its place.
\<close>

definition dict_put :: "'k \<Rightarrow> 'v \<Rightarrow> ('k \<times> 'v) list \<Rightarrow> ('k \<times> 'v) list" where
  "dict_put k v d = (if k \<in> fst ` set d then map (\<lambda>(j, w). if j = k then (j, v) else (j, w)) d else d @ [(k, v)])"

definition dict_keys_distinct :: "('k \<times> 'v) list \<Rightarrow> bool" where
  "dict_keys_distinct d \<longleftrightarrow> distinct (map fst d)"

lemma map_of_dict_put [simp]: "map_of (dict_put k v d) i = (if i = k then Some v else map_of d i)"
proof -
  have "map_of (map (\<lambda>(j, w). if j = k then (j, v) else (j, w)) d) i
      = (if i = k then (if k \<in> fst ` set d then Some v else None) else map_of d i)"
    by (induction d) (auto, force)
  moreover have "k \<notin> fst ` set d \<Longrightarrow> map_of d k = None"
    by (simp add: map_of_eq_None_iff)
  ultimately show ?thesis
    by (cases "i = k") (simp_all add: dict_put_def map_add_def split: option.split)
qed

lemma dict_put_keys: "fst ` set (dict_put k v d) = insert k (fst ` set d)"
  by (force simp: dict_put_def image_iff)

lemma dict_put_distinct: "dict_keys_distinct d \<Longrightarrow> dict_keys_distinct (dict_put k v d)"
  by (auto simp: dict_keys_distinct_def dict_put_def o_def case_prod_unfold if_distrib [of fst] image_iff
      cong: if_cong)

lemma dict_put_values: "snd ` set (dict_put k v d) \<subseteq> insert v (snd ` set d)"
  by (auto simp: dict_put_def image_iff split: if_splits)

end
