(* ===== verification/Module_Entitlements.thy ===== *)
theory Module_Entitlements
  imports Tenancy Py_Dict
begin

text \<open>
  Module entitlements (\<^verbatim>\<open>webguard_api/module_entitlements.py\<close>, the in-memory repository): which of
  the modules an organization has access to.
\<close>

section \<open>Operations\<close>

type_synonym entitlements = "((string \<times> platform_module) \<times> module_entitlement) list"

definition DEFAULT_STATUS_BY_MODULE :: "(platform_module \<times> entitlement_status) list" where
  "DEFAULT_STATUS_BY_MODULE =
     [(WEBGUARD, ENTITLEMENT_ENABLED), (SOC, ENTITLEMENT_DISABLED), (COMPLIANCE, ENTITLEMENT_DISABLED)]"

definition default_entitlement :: "string \<Rightarrow> time \<Rightarrow> platform_module \<times> entitlement_status \<Rightarrow> module_entitlement" where
  "default_entitlement organization_id now = (\<lambda>(platform, status).
     \<lparr>me_organization_id = organization_id, me_module = platform, me_status = status, me_updated_at = now,
      me_enabled_at = (if status = ENTITLEMENT_ENABLED then Some now else None), me_enabled_by = None,
      me_disabled_at = None, me_disabled_by = None\<rparr>)"

text \<open>The loop stops at the first record its contract rejects, which is the first of all.\<close>

fun grant_modules ::
  "string \<Rightarrow> time \<Rightarrow> (platform_module \<times> entitlement_status) list \<Rightarrow> entitlements \<Rightarrow> module_entitlement list result \<times> entitlements" where
  "grant_modules organization_id now [] es = (Inr [], es)"
| "grant_modules organization_id now (m # ms) es =
     (case ModuleEntitlement_post_init (default_entitlement organization_id now m) of
        Inl e \<Rightarrow> (Inl e, es)
      | Inr v \<Rightarrow>
          (case grant_modules organization_id now ms (dict_put (organization_id, fst m) v es) of
             (Inl e, es') \<Rightarrow> (Inl e, es')
           | (Inr vs, es') \<Rightarrow> (Inr (v # vs), es')))"

definition grant_default_entitlements :: "string \<Rightarrow> time \<Rightarrow> entitlements \<Rightarrow> module_entitlement list result \<times> entitlements" where
  "grant_default_entitlements organization_id now es = grant_modules organization_id now DEFAULT_STATUS_BY_MODULE es"

definition set_entitlement ::
  "string \<Rightarrow> platform_module \<Rightarrow> entitlement_status \<Rightarrow> time \<Rightarrow> string option \<Rightarrow> entitlements
   \<Rightarrow> module_entitlement result \<times> entitlements" where
  "set_entitlement organization_id platform status now changed_by es =
     (case map_of es (organization_id, platform) of
        None \<Rightarrow> (Inl (ModuleEntitlementError ''module_entitlement_not_found''), es)
      | Some existing \<Rightarrow>
          (case ModuleEntitlement_post_init
                  (if status \<in> {ENTITLEMENT_ENABLED, ENTITLEMENT_TRIAL}
                   then existing\<lparr>me_status := status, me_updated_at := now, me_enabled_at := Some now, me_enabled_by := changed_by\<rparr>
                   else existing\<lparr>me_status := status, me_updated_at := now, me_disabled_at := Some now, me_disabled_by := changed_by\<rparr>) of
             Inl e \<Rightarrow> (Inl e, es)
           | Inr updated \<Rightarrow> (Inr updated, dict_put (organization_id, platform) updated es)))"

definition get_entitlement :: "string \<Rightarrow> platform_module \<Rightarrow> entitlements \<Rightarrow> module_entitlement result" where
  "get_entitlement organization_id platform es =
     (case map_of es (organization_id, platform) of
        None \<Rightarrow> Inl (ModuleEntitlementError ''module_entitlement_not_found'')
      | Some r \<Rightarrow> Inr r)"

definition list_entitlements :: "string \<Rightarrow> entitlements \<Rightarrow> module_entitlement list" where
  "list_entitlements organization_id es =
     sql_order (\<lambda>r. module_value (me_module r)) (map snd (filter (\<lambda>((o1, _), _). o1 = organization_id) es))"

definition has_module_access :: "string \<Rightarrow> platform_module \<Rightarrow> entitlements \<Rightarrow> bool" where
  "has_module_access organization_id platform es \<longleftrightarrow>
     (case map_of es (organization_id, platform) of
        None \<Rightarrow> False
      | Some r \<Rightarrow> me_status r \<in> {ENTITLEMENT_ENABLED, ENTITLEMENT_TRIAL})"

end
