(* ===== verification/Scan_Contexts.thy ===== *)
theory Scan_Contexts
  imports Tenancy Py_Dict
begin

text \<open>
  Authentication contexts (\<^verbatim>\<open>webguard_api/authentication_contexts.py\<close>) and
  authorization-comparison plans (\<^verbatim>\<open>webguard_api/authorization_comparison.py\<close>), the in-memory
  repositories: what a permit for an authenticated or a comparing scan refers to. The secret material of a context is
  an opaque value of the type variable.
\<close>

section \<open>Authentication contexts\<close>

datatype authentication_method = BEARER_TOKEN | COOKIE_SESSION | BASIC_AUTH | LOGIN_WORKFLOW
datatype scan_reference_status = REFERENCE_ACTIVE | REFERENCE_EXPIRED | REFERENCE_REVOKED

primrec reference_status_value :: "scan_reference_status \<Rightarrow> string" where
  "reference_status_value REFERENCE_ACTIVE = ''active''"
| "reference_status_value REFERENCE_EXPIRED = ''expired''"
| "reference_status_value REFERENCE_REVOKED = ''revoked''"

record scan_identity =
  si_authentication_context_id :: string
  si_organization_id :: string
  si_target :: string
  si_authorization_id :: string
  si_identity_label :: string
  si_method :: authentication_method
  si_created_at :: time
  si_expires_at :: time
  si_revoked_at :: "time option"
  si_secret_reference_id :: "string option"

definition reference_status :: "time option \<Rightarrow> time \<Rightarrow> time \<Rightarrow> scan_reference_status" where
  "reference_status revoked_at expires_at now =
     (if revoked_at \<noteq> None then REFERENCE_REVOKED else if now \<ge> expires_at then REFERENCE_EXPIRED else REFERENCE_ACTIVE)"

definition context_status_at :: "time \<Rightarrow> scan_identity \<Rightarrow> scan_reference_status" where
  "context_status_at now r = reference_status (si_revoked_at r) (si_expires_at r) now"

type_synonym scan_identities = "(string \<times> scan_identity) list"

definition ac_error :: "string \<Rightarrow> exn" where
  "ac_error code = AuthenticationContextError code"

definition context_create ::
  "string \<Rightarrow> string \<Rightarrow> string \<Rightarrow> string \<Rightarrow> string \<Rightarrow> authentication_method \<Rightarrow> 'm \<Rightarrow> time \<Rightarrow> time
   \<Rightarrow> scan_identities \<times> (string \<times> 'm) list \<Rightarrow> scan_identity result \<times> (scan_identities \<times> (string \<times> 'm) list)" where
  "context_create context_id organization_id target authorization_id identity_label kind secret expires_at now =
     (\<lambda>(metadata, secrets).
        if identity_label = [] then (Inl (ac_error ''authentication_context_identity_label_invalid''), metadata, secrets)
        else if expires_at \<le> now then (Inl (ac_error ''authentication_context_expiry_invalid''), metadata, secrets)
        else (let r = \<lparr>si_authentication_context_id = context_id, si_organization_id = organization_id,
                       si_target = target, si_authorization_id = authorization_id, si_identity_label = identity_label,
                       si_method = kind, si_created_at = now, si_expires_at = expires_at, si_revoked_at = None,
                       si_secret_reference_id = None\<rparr>
              in (Inr r, dict_put context_id r metadata, dict_put context_id secret secrets)))"

definition context_get_metadata :: "string \<Rightarrow> scan_identities \<Rightarrow> scan_identity result" where
  "context_get_metadata context_id metadata =
     (case map_of metadata context_id of
        None \<Rightarrow> Inl (ac_error ''authentication_context_not_found'') | Some r \<Rightarrow> Inr r)"

definition context_get_metadata_scoped :: "string \<Rightarrow> string \<Rightarrow> scan_identities \<Rightarrow> scan_identity result" where
  "context_get_metadata_scoped context_id organization_id metadata =
     (case map_of metadata context_id of
        None \<Rightarrow> Inl (ac_error ''authentication_context_not_found'')
      | Some r \<Rightarrow> raise_if (si_organization_id r \<noteq> organization_id) (ac_error ''authentication_context_not_found'') (Inr r))"

definition context_get_secret :: "string \<Rightarrow> (string \<times> 'm) list \<Rightarrow> 'm result" where
  "context_get_secret context_id secrets =
     (case map_of secrets context_id of
        None \<Rightarrow> Inl (ac_error ''authentication_context_not_found'') | Some secret \<Rightarrow> Inr secret)"

definition context_mark_revoked :: "string \<Rightarrow> time \<Rightarrow> scan_identity \<Rightarrow> scan_identities \<Rightarrow> scan_identity \<times> scan_identities" where
  "context_mark_revoked context_id now r metadata =
     (if si_revoked_at r = None
      then (let r' = r\<lparr>si_revoked_at := Some now\<rparr> in (r', dict_put context_id r' metadata))
      else (r, metadata))"

definition context_revoke :: "string \<Rightarrow> time \<Rightarrow> scan_identities \<Rightarrow> scan_identity result \<times> scan_identities" where
  "context_revoke context_id now metadata =
     (case map_of metadata context_id of
        None \<Rightarrow> (Inl (ac_error ''authentication_context_not_found''), metadata)
      | Some r \<Rightarrow> (case context_mark_revoked context_id now r metadata of (r', m) \<Rightarrow> (Inr r', m)))"

definition context_revoke_scoped :: "string \<Rightarrow> string \<Rightarrow> time \<Rightarrow> scan_identities \<Rightarrow> scan_identity result \<times> scan_identities" where
  "context_revoke_scoped context_id organization_id now metadata =
     (case context_get_metadata_scoped context_id organization_id metadata of
        Inl e \<Rightarrow> (Inl e, metadata)
      | Inr r \<Rightarrow> (case context_mark_revoked context_id now r metadata of (r', m) \<Rightarrow> (Inr r', m)))"

definition context_require_bound ::
  "string \<Rightarrow> string \<Rightarrow> string \<Rightarrow> string \<Rightarrow> time \<Rightarrow> scan_identities \<Rightarrow> scan_identity result" where
  "context_require_bound context_id organization_id target authorization_id now metadata =
     bindE (context_get_metadata context_id metadata) (\<lambda>r.
     raise_if (si_organization_id r \<noteq> organization_id) (ac_error ''authentication_context_organization_mismatch'')
     (raise_if (si_target r \<noteq> target) (ac_error ''authentication_context_target_mismatch'')
     (raise_if (si_authorization_id r \<noteq> authorization_id) (ac_error ''authentication_context_authorization_mismatch'')
     (raise_if (context_status_at now r \<noteq> REFERENCE_ACTIVE)
       (ac_error (''authentication_context_'' @ reference_status_value (context_status_at now r)))
     (Inr r)))))"

section \<open>Authorization-comparison plans\<close>

record resource_pair =
  rp_resource_type :: string
  rp_method :: string
  rp_primary_endpoint :: string
  rp_secondary_endpoint :: string
  rp_identifier_location :: string
  rp_identifier_name :: string
  rp_expected_access :: string

record comparison_plan =
  cp_comparison_plan_id :: string
  cp_organization_id :: string
  cp_target :: string
  cp_authorization_id :: string
  cp_primary_context_id :: string
  cp_secondary_context_id :: string
  cp_permitted_active_check :: string
  cp_allowed_http_methods :: "string list"
  cp_resource_scope :: "resource_pair list"
  cp_maximum_resources :: int
  cp_maximum_comparisons :: int
  cp_created_at :: time
  cp_expires_at :: time
  cp_revoked_at :: "time option"
  cp_enable_discovery :: bool
  cp_discovery_login_page_marker :: string

definition MAXIMUM_RESOURCE_PAIRS_PER_PLAN :: nat where
  "MAXIMUM_RESOURCE_PAIRS_PER_PLAN = 10"

definition MAXIMUM_COMPARISONS_PER_PLAN :: nat where
  "MAXIMUM_COMPARISONS_PER_PLAN = 20"

definition plan_status_at :: "time \<Rightarrow> comparison_plan \<Rightarrow> scan_reference_status" where
  "plan_status_at now r = reference_status (cp_revoked_at r) (cp_expires_at r) now"

type_synonym comparison_plans = "(string \<times> comparison_plan) list"

definition cp_error :: "string \<Rightarrow> exn" where
  "cp_error code = AuthorizationComparisonError code"

definition plan_create ::
  "string \<Rightarrow> string \<Rightarrow> string \<Rightarrow> string \<Rightarrow> string \<Rightarrow> string \<Rightarrow> string \<Rightarrow> string list \<Rightarrow> resource_pair list \<Rightarrow> time \<Rightarrow> time
   \<Rightarrow> bool \<Rightarrow> string \<Rightarrow> comparison_plans \<Rightarrow> comparison_plan result \<times> comparison_plans" where
  "plan_create plan_id organization_id target authorization_id primary_id secondary_id permitted_active_check
     allowed_http_methods resource_scope expires_at now enable_discovery marker plans =
     (case raise_if (primary_id = secondary_id) (cp_error ''authorization_comparison_identities_not_distinct'')
        (raise_if (resource_scope = [] \<and> \<not> enable_discovery) (cp_error ''authorization_comparison_resource_scope_empty'')
        (raise_if (length resource_scope > MAXIMUM_RESOURCE_PAIRS_PER_PLAN)
          (cp_error ''authorization_comparison_too_many_resources'')
        (raise_if (length resource_scope * 2 > MAXIMUM_COMPARISONS_PER_PLAN)
          (cp_error ''authorization_comparison_too_many_comparisons'')
        (raise_if (expires_at \<le> now) (cp_error ''authorization_comparison_expiry_invalid'')
        (Inr \<lparr>cp_comparison_plan_id = plan_id, cp_organization_id = organization_id, cp_target = target,
              cp_authorization_id = authorization_id, cp_primary_context_id = primary_id,
              cp_secondary_context_id = secondary_id, cp_permitted_active_check = permitted_active_check,
              cp_allowed_http_methods = allowed_http_methods, cp_resource_scope = resource_scope,
              cp_maximum_resources = int (length resource_scope), cp_maximum_comparisons = int (length resource_scope * 2),
              cp_created_at = now, cp_expires_at = expires_at, cp_revoked_at = None,
              cp_enable_discovery = enable_discovery, cp_discovery_login_page_marker = marker\<rparr>))))) of
        Inl e \<Rightarrow> (Inl e, plans)
      | Inr r \<Rightarrow> (Inr r, dict_put plan_id r plans))"

definition plan_get :: "string \<Rightarrow> comparison_plans \<Rightarrow> comparison_plan result" where
  "plan_get plan_id plans =
     (case map_of plans plan_id of
        None \<Rightarrow> Inl (cp_error ''authorization_comparison_plan_not_found'') | Some r \<Rightarrow> Inr r)"

definition plan_get_scoped :: "string \<Rightarrow> string \<Rightarrow> comparison_plans \<Rightarrow> comparison_plan result" where
  "plan_get_scoped plan_id organization_id plans =
     (case map_of plans plan_id of
        None \<Rightarrow> Inl (cp_error ''authorization_comparison_plan_not_found'')
      | Some r \<Rightarrow> raise_if (cp_organization_id r \<noteq> organization_id)
                    (cp_error ''authorization_comparison_plan_not_found'') (Inr r))"

definition plan_mark_revoked :: "string \<Rightarrow> time \<Rightarrow> comparison_plan \<Rightarrow> comparison_plans \<Rightarrow> comparison_plan \<times> comparison_plans" where
  "plan_mark_revoked plan_id now r plans =
     (if cp_revoked_at r = None
      then (let r' = r\<lparr>cp_revoked_at := Some now\<rparr> in (r', dict_put plan_id r' plans))
      else (r, plans))"

definition plan_revoke :: "string \<Rightarrow> time \<Rightarrow> comparison_plans \<Rightarrow> comparison_plan result \<times> comparison_plans" where
  "plan_revoke plan_id now plans =
     (case plan_get plan_id plans of
        Inl e \<Rightarrow> (Inl e, plans)
      | Inr r \<Rightarrow> (case plan_mark_revoked plan_id now r plans of (r', m) \<Rightarrow> (Inr r', m)))"

definition plan_revoke_scoped :: "string \<Rightarrow> string \<Rightarrow> time \<Rightarrow> comparison_plans \<Rightarrow> comparison_plan result \<times> comparison_plans" where
  "plan_revoke_scoped plan_id organization_id now plans =
     (case plan_get_scoped plan_id organization_id plans of
        Inl e \<Rightarrow> (Inl e, plans)
      | Inr r \<Rightarrow> (case plan_mark_revoked plan_id now r plans of (r', m) \<Rightarrow> (Inr r', m)))"

definition plan_require_bound ::
  "string \<Rightarrow> string \<Rightarrow> string \<Rightarrow> string \<Rightarrow> time \<Rightarrow> comparison_plans \<Rightarrow> comparison_plan result" where
  "plan_require_bound plan_id organization_id target authorization_id now plans =
     bindE (plan_get plan_id plans) (\<lambda>r.
     raise_if (cp_organization_id r \<noteq> organization_id) (cp_error ''authorization_comparison_organization_mismatch'')
     (raise_if (cp_target r \<noteq> target) (cp_error ''authorization_comparison_target_mismatch'')
     (raise_if (cp_authorization_id r \<noteq> authorization_id) (cp_error ''authorization_comparison_authorization_mismatch'')
     (raise_if (plan_status_at now r \<noteq> REFERENCE_ACTIVE)
       (cp_error (''authorization_comparison_plan_'' @ reference_status_value (plan_status_at now r)))
     (Inr r)))))"

section \<open>What a binding guarantees\<close>

lemma context_require_bound_Inr:
  "context_require_bound i oid target aid now metadata = Inr r \<longleftrightarrow>
     map_of metadata i = Some r \<and> si_organization_id r = oid \<and> si_target r = target \<and> si_authorization_id r = aid
     \<and> si_revoked_at r = None \<and> now < si_expires_at r"
  by (auto simp: context_require_bound_def context_get_metadata_def context_status_at_def reference_status_def
      bindE_eq_Inr raise_if_eq_Inr split: option.splits if_splits)

lemma plan_require_bound_Inr:
  "plan_require_bound i oid target aid now plans = Inr r \<longleftrightarrow>
     map_of plans i = Some r \<and> cp_organization_id r = oid \<and> cp_target r = target \<and> cp_authorization_id r = aid
     \<and> cp_revoked_at r = None \<and> now < cp_expires_at r"
  by (auto simp: plan_require_bound_def plan_get_def plan_status_at_def reference_status_def
      bindE_eq_Inr raise_if_eq_Inr split: option.splits if_splits)

end
