(* ===== verification/Memory_Pages.thy ===== *)
theory Memory_Pages
  imports Py_Dict
begin

text \<open>
  Pages of the in-memory repositories: \<^verbatim>\<open>list_targets_scoped_page\<close>, \<^verbatim>\<open>list_findings_scoped_page\<close>,
  \<^verbatim>\<open>list_scans_scoped_page\<close> and \<^verbatim>\<open>list_reports_scoped_page\<close> differ only in the records they
  select and in the two columns they are ordered by. The records are sorted in descending order and those that are
  not before the position of the cursor are skipped; this comparison is between texts.
\<close>

section \<open>Operations\<close>

text \<open>\<^verbatim>\<open>datetime.isoformat()\<close> of an instant in UTC: no fraction if there are no microseconds.\<close>

definition iso_seconds :: "time \<Rightarrow> string" where
  "iso_seconds t =
     (let secs = t div microseconds; sod = secs mod 86400
      in case civil_date (secs div 86400) of (y, m, d) \<Rightarrow>
         fixed_dec 4 (nat y) @ ''-'' @ fixed_dec 2 (nat m) @ ''-'' @ fixed_dec 2 (nat d) @ ''T'' @
         fixed_dec 2 (nat (sod div 3600)) @ '':'' @ fixed_dec 2 (nat (sod div 60 mod 60)) @ '':'' @
         fixed_dec 2 (nat (sod mod 60)))"

definition isoformat :: "time \<Rightarrow> string" where
  "isoformat t =
     iso_seconds t @ (if t mod microseconds = 0 then [] else ''.'' @ fixed_dec 6 (nat (t mod microseconds))) @ ''+00:00''"

text \<open>A stable sort with \<^verbatim>\<open>reverse=True\<close>.\<close>

definition sort_descending :: "('a \<Rightarrow> 'k :: linorder) \<Rightarrow> 'a list \<Rightarrow> 'a list" where
  "sort_descending key xs = rev (sort_key key (rev xs))"

definition before_cursor :: "('a \<Rightarrow> time) \<Rightarrow> ('a \<Rightarrow> string) \<Rightarrow> string \<times> string \<Rightarrow> 'a \<Rightarrow> bool" where
  "before_cursor instant ident position r \<longleftrightarrow> (isoformat (instant r), ident r) < position"

definition memory_page ::
  "('a \<Rightarrow> time) \<Rightarrow> ('a \<Rightarrow> string) \<Rightarrow> nat \<Rightarrow> (string \<times> string) option \<Rightarrow> 'a list \<Rightarrow> 'a list \<times> bool" where
  "memory_page instant ident limit after rows =
     (let ordered = sort_descending (\<lambda>r. (instant r, ident r)) rows;
          rest = (case after of None \<Rightarrow> ordered | Some position \<Rightarrow> filter (before_cursor instant ident position) ordered)
      in (take limit rest, length rest > limit))"

section \<open>Cursors of these pages\<close>

lemma set_sort_descending [simp]: "set (sort_descending key xs) = set xs"
  by (simp add: sort_descending_def)

lemma timestamp_iso: "timestamp_text t = iso_seconds t @ ''.'' @ fixed_dec 6 (nat (t mod microseconds)) @ ''Z''"
  by (simp add: timestamp_text_def iso_seconds_def Let_def split: prod.split)

text \<open>The text that the service puts into a cursor is greater than the one its position is compared with.\<close>

lemma append_less: "(xs :: string) @ ys < xs @ zs \<longleftrightarrow> ys < zs"
  by (induction xs) simp_all

lemma isoformat_less: "isoformat t < timestamp_text t"
proof -
  have "CHR ''+'' < CHR ''.''" "CHR ''+'' < CHR ''Z''"
    by code_simp+
  then show ?thesis
    by (simp add: isoformat_def timestamp_iso append_less)
qed

text \<open>A record keeps or lowers its place when records before it are skipped.\<close>

lemma take_filter:
  assumes "take n xs = ys @ [x]" "P x"
  shows "x \<in> set (take n (filter P xs))"
proof -
  have xs: "xs = ys @ x # drop n xs"
    using append_take_drop_id [of n xs] assms(1) by simp
  have "length (ys @ [x]) \<le> n"
    using assms(1) by (metis length_take min.cobounded2)
  then have "n - length (filter P ys) \<noteq> 0"
    using length_filter_le [of P ys] unfolding length_append_singleton by linarith
  then obtain m where "n - length (filter P ys) = Suc m"
    by (cases "n - length (filter P ys)") auto
  then show ?thesis
    using assms(2) by (subst xs) simp
qed

text \<open>
  The cursor that the service makes from the last record of a first page does not lead past that record: the following
  page contains it again, and if pages hold one record, it is the same page.
\<close>

theorem memory_page_repeats:
  assumes "memory_page instant ident limit None rows = (page @ [last_record], has_more)"
    and "after = (timestamp_text (instant last_record), ident last_record)"
  shows "last_record \<in> set (fst (memory_page instant ident limit (Some after) rows))
    \<and> (limit = 1 \<longrightarrow> fst (memory_page instant ident limit (Some after) rows) = page @ [last_record])"
proof -
  let ?next = "fst (memory_page instant ident limit (Some after) rows)"
  have "before_cursor instant ident after last_record"
    using isoformat_less by (simp add: before_cursor_def assms(2))
  then have member: "last_record \<in> set ?next"
    using assms(1) by (auto simp: memory_page_def Let_def intro: take_filter)
  moreover have "?next = page @ [last_record]" if "limit = 1"
  proof -
    have "length (fst (memory_page instant ident limit position rows)) \<le> 1" for position
      using that by (simp add: memory_page_def Let_def)
    from this [of "Some after"] this [of None] have "length ?next \<le> 1" "length (page @ [last_record]) \<le> 1"
      unfolding assms(1) by simp_all
    then show ?thesis
      using member by (cases ?next; cases page) auto
  qed
  ultimately show ?thesis
    by blast
qed

theorem memory_page_repeats_witness:
  "memory_page fst snd 1 (Some (timestamp_text 7, ''b'')) [(3, ''a''), (7, ''b'')] = ([(7, ''b'')], True)"
proof -
  have page: "memory_page fst snd 1 None [(3, ''a''), (7, ''b'')] = ([] @ [(7, ''b'')], True)"
    by code_simp
  moreover have "snd (memory_page fst snd 1 (Some (timestamp_text 7, ''b'')) [(3, ''a''), (7, ''b'')])"
    by code_simp
  ultimately show ?thesis
    using memory_page_repeats [OF page refl] by (simp add: prod_eq_iff)
qed

end
