(* ===== verification/Finding_Store.thy ===== *)
theory Finding_Store
  imports WG_Machine Memory_Pages
begin

text \<open>
  Findings and their lifecycle (\<^verbatim>\<open>webguard_api/finding_store.py\<close>, the in-memory repository): one finding per
  organization and fingerprint, a status that people change and that a new detection changes in one
  case only, and a history of all changes.
\<close>

section \<open>Records\<close>

datatype finding_status = OPEN | CONFIRMED | FALSE_POSITIVE | ACCEPTED_RISK | RESOLVED | REOPENED

primrec finding_status_value :: "finding_status \<Rightarrow> string" where
  "finding_status_value OPEN = ''open''"
| "finding_status_value CONFIRMED = ''confirmed''"
| "finding_status_value FALSE_POSITIVE = ''false_positive''"
| "finding_status_value ACCEPTED_RISK = ''accepted_risk''"
| "finding_status_value RESOLVED = ''resolved''"
| "finding_status_value REOPENED = ''reopened''"

definition finding_statuses :: "finding_status list" where
  "finding_statuses = [OPEN, CONFIRMED, FALSE_POSITIVE, ACCEPTED_RISK, RESOLVED, REOPENED]"

primrec ALLOWED_TRANSITIONS :: "finding_status \<Rightarrow> finding_status list" where
  "ALLOWED_TRANSITIONS OPEN = [CONFIRMED, FALSE_POSITIVE, ACCEPTED_RISK, RESOLVED]"
| "ALLOWED_TRANSITIONS CONFIRMED = [FALSE_POSITIVE, ACCEPTED_RISK, RESOLVED]"
| "ALLOWED_TRANSITIONS FALSE_POSITIVE = [OPEN, CONFIRMED]"
| "ALLOWED_TRANSITIONS ACCEPTED_RISK = [OPEN, RESOLVED]"
| "ALLOWED_TRANSITIONS RESOLVED = [REOPENED]"
| "ALLOWED_TRANSITIONS REOPENED = [CONFIRMED, FALSE_POSITIVE, ACCEPTED_RISK, RESOLVED]"

record finding_event =
  fe_event_id :: string
  fe_finding_id :: string
  fe_organization_id :: string
  fe_previous_status :: finding_status
  fe_new_status :: finding_status
  fe_created_at :: time
  fe_reason :: "string option"
  fe_changed_by :: "string option"

text \<open>What a scan reports; a finding adds its identity, its status and the two instants it was first and last seen.\<close>

record detection =
  fd_organization_id :: string
  fd_scan_id :: string
  fd_fingerprint :: string
  fd_check_id :: string
  fd_scanner_version :: string
  fd_title :: string
  fd_severity :: string
  fd_confidence :: string
  fd_asset :: string
  fd_endpoint :: string
  fd_http_method :: string
  fd_parameter :: "string option"
  fd_check_version :: "string option"
  fd_cwe_id :: "string option"
  fd_owasp_category :: "string option"
  fd_evidence :: "string option"
  fd_remediation :: "string option"
  fd_references :: "string list"

record finding = detection +
  fi_finding_id :: string
  fi_status :: finding_status
  fi_first_seen_at :: time
  fi_last_seen_at :: time

abbreviation fi_key :: "finding \<Rightarrow> string \<times> string" where
  "fi_key r \<equiv> (fd_organization_id r, fd_fingerprint r)"

record findings =
  fs_by_key :: "((string \<times> string) \<times> finding) list"
  fs_by_id :: "(string \<times> finding) list"
  fs_events :: "finding_event list"

definition no_findings :: findings where
  "no_findings = \<lparr>fs_by_key = [], fs_by_id = [], fs_events = []\<rparr>"

section \<open>Operations\<close>

definition assert_valid_transition :: "finding_status \<Rightarrow> finding_status \<Rightarrow> unit result" where
  "assert_valid_transition current target =
     raise_if (target \<notin> set (ALLOWED_TRANSITIONS current)) (FindingStoreError ''finding_status_transition_invalid'') (Inr ())"

text \<open>Both dictionaries get the record.\<close>

definition put_finding :: "finding \<Rightarrow> findings \<Rightarrow> findings" where
  "put_finding r fs = fs\<lparr>fs_by_key := dict_put (fi_key r) r (fs_by_key fs), fs_by_id := dict_put (fi_finding_id r) r (fs_by_id fs)\<rparr>"

text \<open>A finding seen again keeps its identity, its title, its place and everything but what \<^verbatim>\<open>replace\<close> names.\<close>

definition redetected :: "finding \<Rightarrow> detection \<Rightarrow> time \<Rightarrow> finding" where
  "redetected existing d now =
     existing\<lparr>fd_scan_id := fd_scan_id d, fd_scanner_version := fd_scanner_version d, fd_severity := fd_severity d,
              fd_confidence := fd_confidence d, fi_last_seen_at := now,
              fi_status := (if fi_status existing = RESOLVED then REOPENED else fi_status existing),
              fd_check_version := fd_check_version d, fd_evidence := fd_evidence d\<rparr>"

definition record_finding :: "string \<Rightarrow> string \<Rightarrow> detection \<Rightarrow> time \<Rightarrow> findings \<Rightarrow> finding \<times> findings" where
  "record_finding finding_id event_id d now fs =
     (case map_of (fs_by_key fs) (fd_organization_id d, fd_fingerprint d) of
        None \<Rightarrow>
          (let r = detection.extend d (finding.fields finding_id OPEN now now)
           in (r, put_finding r fs))
      | Some existing \<Rightarrow>
          (let r = redetected existing d now;
               events = (if fi_status r \<noteq> fi_status existing
                         then [\<lparr>fe_event_id = event_id, fe_finding_id = fi_finding_id r,
                                fe_organization_id = fd_organization_id d, fe_previous_status = fi_status existing,
                                fe_new_status = fi_status r, fe_created_at = now,
                                fe_reason = Some ''Re-detected on a subsequent scan.'', fe_changed_by = None\<rparr>]
                         else [])
           in (r, put_finding r (fs\<lparr>fs_events := fs_events fs @ events\<rparr>))))"

definition get_finding_scoped :: "string \<Rightarrow> string \<Rightarrow> findings \<Rightarrow> finding result" where
  "get_finding_scoped finding_id organization_id fs =
     (case map_of (fs_by_id fs) finding_id of
        None \<Rightarrow> Inl (FindingStoreError ''finding_not_found'')
      | Some r \<Rightarrow> raise_if (fd_organization_id r \<noteq> organization_id) (FindingStoreError ''finding_not_found'') (Inr r))"

definition update_status ::
  "string \<Rightarrow> string \<Rightarrow> string \<Rightarrow> finding_status \<Rightarrow> time \<Rightarrow> string option \<Rightarrow> string option \<Rightarrow> findings \<Rightarrow> finding result \<times> findings" where
  "update_status event_id finding_id organization_id new_status now reason changed_by fs =
     (case get_finding_scoped finding_id organization_id fs of
        Inl e \<Rightarrow> (Inl e, fs)
      | Inr r \<Rightarrow>
          if new_status = fi_status r then (Inr r, fs)
          else case assert_valid_transition (fi_status r) new_status of
            Inl e \<Rightarrow> (Inl e, fs)
          | Inr _ \<Rightarrow>
              (let updated = r\<lparr>fi_status := new_status\<rparr>
               in (Inr updated,
                   fs\<lparr>fs_by_id := dict_put finding_id updated (fs_by_id fs),
                      fs_by_key := dict_put (organization_id, fd_fingerprint r) updated (fs_by_key fs),
                      fs_events := fs_events fs @
                        [\<lparr>fe_event_id = event_id, fe_finding_id = finding_id, fe_organization_id = organization_id,
                          fe_previous_status = fi_status r, fe_new_status = new_status, fe_created_at = now,
                          fe_reason = reason, fe_changed_by = changed_by\<rparr>]\<rparr>)))"

definition list_events_scoped :: "string \<Rightarrow> string \<Rightarrow> findings \<Rightarrow> finding_event list result" where
  "list_events_scoped finding_id organization_id fs =
     bindE (get_finding_scoped finding_id organization_id fs) (\<lambda>_.
       Inr (sort_key fe_created_at (filter (\<lambda>e. fe_finding_id e = finding_id) (fs_events fs))))"

definition list_findings_scoped_page ::
  "string \<Rightarrow> nat \<Rightarrow> (string \<times> string) option \<Rightarrow> string option \<Rightarrow> finding_status option \<Rightarrow> string option \<Rightarrow> string option \<Rightarrow> string option
   \<Rightarrow> findings \<Rightarrow> finding list \<times> bool" where
  "list_findings_scoped_page organization_id limit after scan_id status severity cwe_id asset fs =
     memory_page fi_last_seen_at fi_finding_id limit after
       (filter (\<lambda>r. fd_organization_id r = organization_id \<and> (scan_id = None \<or> Some (fd_scan_id r) = scan_id)
                  \<and> (status = None \<or> Some (fi_status r) = status) \<and> (severity = None \<or> Some (fd_severity r) = severity)
                  \<and> (cwe_id = None \<or> fd_cwe_id r = cwe_id) \<and> (asset = None \<or> Some (fd_asset r) = asset))
          (map snd (fs_by_id fs)))"

section \<open>The machine\<close>

text \<open>A new finding gets an identifier that no finding has.\<close>

inductive finding_step :: "findings \<Rightarrow> findings \<Rightarrow> bool" where
  Record: "finding_id \<notin> fst ` set (fs_by_id fs) \<Longrightarrow> finding_step fs (snd (record_finding finding_id event_id d now fs))"
| Update: "finding_step fs (snd (update_status event_id finding_id organization_id new_status now reason changed_by fs))"

text \<open>The changes of one finding, and a sequence of changes that leads from a status to another along the graph.\<close>

definition history :: "string \<Rightarrow> findings \<Rightarrow> (finding_status \<times> finding_status) list" where
  "history i fs = map (\<lambda>e. (fe_previous_status e, fe_new_status e)) (filter (\<lambda>e. fe_finding_id e = i) (fs_events fs))"

fun lifecycle_path :: "finding_status \<Rightarrow> (finding_status \<times> finding_status) list \<Rightarrow> finding_status \<Rightarrow> bool" where
  "lifecycle_path s [] t \<longleftrightarrow> s = t"
| "lifecycle_path s ((a, b) # path) t \<longleftrightarrow> a = s \<and> b \<in> set (ALLOWED_TRANSITIONS a) \<and> lifecycle_path b path t"

lemma lifecycle_path_append:
  "lifecycle_path s (p @ q) t \<longleftrightarrow> (\<exists>u. lifecycle_path s p u \<and> lifecycle_path u q t)"
  by (induction p arbitrary: s) auto

definition findings_inv :: "findings \<Rightarrow> bool" where
  "findings_inv fs \<longleftrightarrow>
     (\<forall>i r. map_of (fs_by_id fs) i = Some r \<longrightarrow>
        fi_finding_id r = i \<and> map_of (fs_by_key fs) (fi_key r) = Some r \<and> lifecycle_path OPEN (history i fs) (fi_status r))
     \<and> (\<forall>k r. map_of (fs_by_key fs) k = Some r \<longrightarrow> fi_key r = k \<and> map_of (fs_by_id fs) (fi_finding_id r) = Some r)
     \<and> (\<forall>e \<in> set (fs_events fs). \<exists>r. map_of (fs_by_id fs) (fe_finding_id e) = Some r \<and> fd_organization_id r = fe_organization_id e)"

lemma findings_invD:
  assumes "findings_inv fs"
  shows "map_of (fs_by_id fs) i = Some r \<Longrightarrow> fi_finding_id r = i \<and> map_of (fs_by_key fs) (fi_key r) = Some r"
    and "map_of (fs_by_id fs) i = Some r \<Longrightarrow> lifecycle_path OPEN (history i fs) (fi_status r)"
    and "map_of (fs_by_key fs) k = Some r \<Longrightarrow> fi_key r = k \<and> map_of (fs_by_id fs) (fi_finding_id r) = Some r"
    and "e \<in> set (fs_events fs) \<Longrightarrow> \<exists>r. map_of (fs_by_id fs) (fe_finding_id e) = Some r \<and> fd_organization_id r = fe_organization_id e"
  using assms unfolding findings_inv_def by blast+

lemma extend_finding [simp]:
  "fi_finding_id (detection.extend d (finding.fields i s t u)) = i" "fi_status (detection.extend d (finding.fields i s t u)) = s"
  "fi_first_seen_at (detection.extend d (finding.fields i s t u)) = t" "fi_last_seen_at (detection.extend d (finding.fields i s t u)) = u"
  "fd_organization_id (detection.extend d (finding.fields i s t u)) = fd_organization_id d"
  "fd_fingerprint (detection.extend d (finding.fields i s t u)) = fd_fingerprint d"
  by (simp_all add: detection.extend_def finding.fields_def)

lemma redetected_columns [simp]:
  "fi_finding_id (redetected x d now) = fi_finding_id x" "fd_organization_id (redetected x d now) = fd_organization_id x"
  "fd_fingerprint (redetected x d now) = fd_fingerprint x"
  "fi_first_seen_at (redetected x d now) = fi_first_seen_at x" "fi_last_seen_at (redetected x d now) = now"
  "fi_status (redetected x d now) = (if fi_status x = RESOLVED then REOPENED else fi_status x)"
  by (simp_all add: redetected_def)

lemma history_append:
  "history i (fs\<lparr>fs_events := fs_events fs @ es\<rparr>) =
     history i fs @ map (\<lambda>e. (fe_previous_status e, fe_new_status e)) (filter (\<lambda>e. fe_finding_id e = i) es)"
  by (simp add: history_def)

lemma put_finding_columns [simp]:
  "fs_by_id (put_finding r fs) = dict_put (fi_finding_id r) r (fs_by_id fs)"
  "fs_by_key (put_finding r fs) = dict_put (fi_key r) r (fs_by_key fs)" "fs_events (put_finding r fs) = fs_events fs"
  by (simp_all add: put_finding_def)

lemma history_put [simp]: "history i (put_finding r fs) = history i fs"
  by (simp add: history_def put_finding_def)

text \<open>The invariant after a record was written, with the events that led to its status.\<close>

lemma findings_inv_put:
  assumes inv: "findings_inv fs"
    and known: "case map_of (fs_by_id fs) (fi_finding_id r) of
      Some x \<Rightarrow> fi_key x = fi_key r \<and> lifecycle_path (fi_status x) (map (\<lambda>e. (fe_previous_status e, fe_new_status e)) es) (fi_status r)
    | None \<Rightarrow> map_of (fs_by_key fs) (fi_key r) = None \<and> es = [] \<and> fi_status r = OPEN"
    and es: "\<And>e. e \<in> set es \<Longrightarrow> fe_finding_id e = fi_finding_id r \<and> fe_organization_id e = fd_organization_id r"
  shows "findings_inv (put_finding r (fs\<lparr>fs_events := fs_events fs @ es\<rparr>))"
proof -
  let ?i = "fi_finding_id r" and ?fs = "put_finding r (fs\<lparr>fs_events := fs_events fs @ es\<rparr>)"
  have key: "map_of (fs_by_key fs) (fi_key r) = Some x \<Longrightarrow> fi_finding_id x = ?i" for x
  proof (cases "map_of (fs_by_id fs) ?i")
    case (Some y)
    then show "map_of (fs_by_key fs) (fi_key r) = Some x \<Longrightarrow> fi_finding_id x = ?i"
      using known findings_invD(1) [OF inv Some] by auto
  qed (use known in auto)
  have other: "fi_key x \<noteq> fi_key r" if "map_of (fs_by_id fs) i = Some x" "i \<noteq> ?i" for i x
    using findings_invD(1) [OF inv that(1)] key [of x] that(2) by auto
  have same: "k = fi_key r" if "map_of (fs_by_key fs) k = Some x" "fi_finding_id x = ?i" for k x
    using findings_invD(3) [OF inv that(1)] that(2) known by auto
  have events: "filter (\<lambda>e. fe_finding_id e = i) es = (if i = ?i then es else [])" for i
    using es by (auto simp: filter_id_conv filter_empty_conv)
  have path: "lifecycle_path OPEN (history i ?fs) (fi_status x)" if "map_of (fs_by_id ?fs) i = Some x" for i x
  proof (cases "i = ?i")
    case True
    have none: "history ?i fs = []" if "map_of (fs_by_id fs) ?i = None"
      using that findings_invD(4) [OF inv] by (fastforce simp: history_def filter_empty_conv)
    show ?thesis
    proof (cases "map_of (fs_by_id fs) ?i")
      case None
      then show ?thesis
        using True that known none by (simp add: history_append)
    next
      case (Some y)
      then show ?thesis
        using True that known findings_invD(2) [OF inv Some] events
        by (auto simp: history_append lifecycle_path_append)
    qed
  next
    case False
    then show ?thesis
      using that findings_invD(2) [OF inv] events by (simp add: history_append)
  qed
  show ?thesis
    unfolding findings_inv_def
  proof (intro conjI)
    show "\<forall>i x. map_of (fs_by_id ?fs) i = Some x \<longrightarrow>
        fi_finding_id x = i \<and> map_of (fs_by_key ?fs) (fi_key x) = Some x \<and> lifecycle_path OPEN (history i ?fs) (fi_status x)"
      using path findings_invD(1) [OF inv] other by auto
  next
    show "\<forall>k x. map_of (fs_by_key ?fs) k = Some x \<longrightarrow> fi_key x = k \<and> map_of (fs_by_id ?fs) (fi_finding_id x) = Some x"
      using findings_invD(3) [OF inv] same by auto
  next
    show "\<forall>e \<in> set (fs_events ?fs). \<exists>x. map_of (fs_by_id ?fs) (fe_finding_id e) = Some x \<and> fd_organization_id x = fe_organization_id e"
      using findings_invD(1,4) [OF inv] known es by (fastforce split: option.splits)
  qed
qed

lemma record_finding_inv:
  assumes "findings_inv fs" "finding_id \<notin> fst ` set (fs_by_id fs)"
  shows "findings_inv (snd (record_finding finding_id event_id d now fs))"
proof (cases "map_of (fs_by_key fs) (fd_organization_id d, fd_fingerprint d)")
  case None
  moreover have "map_of (fs_by_id fs) finding_id = None"
    using assms(2) by (simp add: map_of_eq_None_iff)
  ultimately show ?thesis
    using findings_inv_put [OF assms(1), of "detection.extend d (finding.fields finding_id OPEN now now)" "[]"]
    by (simp add: record_finding_def Let_def)
next
  case (Some x)
  then have "fi_key x = (fd_organization_id d, fd_fingerprint d)" "map_of (fs_by_id fs) (fi_finding_id x) = Some x"
    using findings_invD(3) [OF assms(1)] by auto
  moreover define es where "es = (if fi_status x = RESOLVED
      then [\<lparr>fe_event_id = event_id, fe_finding_id = fi_finding_id x, fe_organization_id = fd_organization_id d,
             fe_previous_status = RESOLVED, fe_new_status = REOPENED, fe_created_at = now,
             fe_reason = Some ''Re-detected on a subsequent scan.'', fe_changed_by = None\<rparr>] else [])"
  moreover have "snd (record_finding finding_id event_id d now fs) = put_finding (redetected x d now) (fs\<lparr>fs_events := fs_events fs @ es\<rparr>)"
    using Some by (simp add: record_finding_def Let_def es_def)
  ultimately show ?thesis
    using findings_inv_put [OF assms(1), of "redetected x d now" es] by (auto split: if_splits)
qed

lemma update_status_inv:
  assumes "findings_inv fs"
  shows "findings_inv (snd (update_status event_id i oid new_status now reason changed_by fs))"
proof (cases "get_finding_scoped i oid fs")
  case (Inr r)
  then have r: "map_of (fs_by_id fs) i = Some r" "fd_organization_id r = oid"
    by (auto simp: get_finding_scoped_def raise_if_eq_Inr split: option.splits)
  then have "fi_finding_id r = i"
    using findings_invD(1) [OF assms] by blast
  then have "fs\<lparr>fs_by_id := dict_put i (r\<lparr>fi_status := new_status\<rparr>) (fs_by_id fs),
      fs_by_key := dict_put (oid, fd_fingerprint r) (r\<lparr>fi_status := new_status\<rparr>) (fs_by_key fs), fs_events := es\<rparr>
    = put_finding (r\<lparr>fi_status := new_status\<rparr>) (fs\<lparr>fs_events := es\<rparr>)" for es
    using r by (simp add: put_finding_def)
  moreover have "findings_inv (put_finding (r\<lparr>fi_status := new_status\<rparr>) (fs\<lparr>fs_events := fs_events fs @ [e]\<rparr>))"
    if "new_status \<in> set (ALLOWED_TRANSITIONS (fi_status r))" "fe_finding_id e = i" "fe_organization_id e = oid"
      "fe_previous_status e = fi_status r" "fe_new_status e = new_status" for e
    using that r \<open>fi_finding_id r = i\<close> findings_inv_put [OF assms, of "r\<lparr>fi_status := new_status\<rparr>" "[e]"] by simp
  ultimately show ?thesis
    using Inr assms by (simp add: update_status_def assert_valid_transition_def raise_if_def Let_def)
qed (simp add: update_status_def assms)

interpretation findings_machine: machine_invariant "\<lambda>fs. fs = no_findings" finding_step findings_inv
proof
  show "findings_inv fs" if "fs = no_findings" for fs
    using that by (simp add: findings_inv_def no_findings_def)
  show "findings_inv fs'" if "findings_inv fs" "finding_step fs fs'" for fs fs'
    using that(2,1) by cases (auto intro: record_finding_inv update_status_inv)
qed

section \<open>Promises\<close>

text \<open>
  C39. However often findings are detected and edited, an organization has at most one finding for a fingerprint, both
  indices agree on it, and its recorded changes lead without a gap from open to its present status, every one of them a
  transition of the lifecycle graph.
\<close>

theorem finding_history:
  assumes "reachable (\<lambda>fs. fs = no_findings) finding_step fs" "map_of (fs_by_id fs) i = Some r"
  shows "lifecycle_path OPEN (history i fs) (fi_status r)
    \<and> map_of (fs_by_key fs) (fi_key r) = Some r
    \<and> (\<forall>j x. map_of (fs_by_id fs) j = Some x \<and> fi_key x = fi_key r \<longrightarrow> j = i \<and> x = r)"
proof -
  have inv: "findings_inv fs"
    using findings_machine.reachable_inv [OF assms(1)] .
  note r = findings_invD(1,2) [OF inv assms(2)]
  have "j = i \<and> x = r" if "map_of (fs_by_id fs) j = Some x" "fi_key x = fi_key r" for j x
    using findings_invD(1) [OF inv that(1)] that(2) r(1) by auto
  then show ?thesis
    using r by blast
qed

text \<open>
  C40. Detecting a finding again never overrides a person's verdict: an existing finding keeps its identity, its first sighting
  and its status, except that a resolved one is reopened, which is recorded; only a fingerprint that the organization
  does not have yet makes a new, open finding.
\<close>

theorem redetection_keeps_verdict:
  assumes "reachable (\<lambda>fs. fs = no_findings) finding_step fs" "record_finding finding_id event_id d now fs = (r, fs')"
  shows "map_of (fs_by_key fs') (fd_organization_id d, fd_fingerprint d) = Some r \<and>
    (case map_of (fs_by_key fs) (fd_organization_id d, fd_fingerprint d) of
       None \<Rightarrow> fi_finding_id r = finding_id \<and> fi_status r = OPEN \<and> fs_events fs' = fs_events fs
     | Some x \<Rightarrow>
         fi_finding_id r = fi_finding_id x \<and> fi_first_seen_at r = fi_first_seen_at x \<and> fi_last_seen_at r = now
         \<and> (if fi_status x = RESOLVED
            then fi_status r = REOPENED \<and> (\<exists>e. fs_events fs' = fs_events fs @ [e] \<and> fe_finding_id e = fi_finding_id x
                   \<and> fe_previous_status e = RESOLVED \<and> fe_new_status e = REOPENED \<and> fe_changed_by e = None)
            else fi_status r = fi_status x \<and> fs_events fs' = fs_events fs))"
proof (cases "map_of (fs_by_key fs) (fd_organization_id d, fd_fingerprint d)")
  case None
  then show ?thesis
    using assms(2) by (auto simp: record_finding_def Let_def)
next
  case (Some x)
  then have "fi_key x = (fd_organization_id d, fd_fingerprint d)"
    using findings_invD(3) [OF findings_machine.reachable_inv [OF assms(1)]] by blast
  moreover have "r = redetected x d now" and "fs_by_key fs' = dict_put (fi_key (redetected x d now)) (redetected x d now) (fs_by_key fs)"
    using Some assms(2) by (auto simp: record_finding_def Let_def)
  moreover have "if fi_status x = RESOLVED
      then \<exists>e. fs_events fs' = fs_events fs @ [e] \<and> fe_finding_id e = fi_finding_id x
        \<and> fe_previous_status e = RESOLVED \<and> fe_new_status e = REOPENED \<and> fe_changed_by e = None
      else fs_events fs' = fs_events fs"
    using Some assms(2) by (auto simp: record_finding_def Let_def)
  ultimately show ?thesis
    using Some by (auto split: if_splits)
qed

section \<open>Example\<close>

definition ex_detection :: detection where
  "ex_detection =
     \<lparr>fd_organization_id = ''o'', fd_scan_id = ''s'', fd_fingerprint = ''x'', fd_check_id = ''c'', fd_scanner_version = ''1'',
      fd_title = ''t'', fd_severity = ''high'', fd_confidence = ''firm'', fd_asset = ''a'', fd_endpoint = ''/'', fd_http_method = ''GET'',
      fd_parameter = None, fd_check_version = None, fd_cwe_id = None, fd_owasp_category = None, fd_evidence = None,
      fd_remediation = None, fd_references = []\<rparr>"

definition ex_found :: findings where
  "ex_found = snd (record_finding ''f'' ''e'' ex_detection 0 no_findings)"

definition ex_fixed :: findings where
  "ex_fixed = snd (update_status ''e1'' ''f'' ''o'' RESOLVED 5 None (Some ''p'') ex_found)"

lemma ex_fixed_reachable: "reachable (\<lambda>fs. fs = no_findings) finding_step ex_fixed"
proof (rule reachable_step)
  show "finding_step ex_found ex_fixed"
    unfolding ex_fixed_def by (rule Update)
  have "finding_step no_findings ex_found"
    unfolding ex_found_def by (rule Record) (simp add: no_findings_def)
  then show "reachable (\<lambda>fs. fs = no_findings) finding_step ex_found"
    by (rule reachable_step [rotated]) (rule reachable_init, rule refl)
qed

theorem finding_history_witness:
  "\<exists>r. map_of (fs_by_id ex_fixed) ''f'' = Some r \<and> fi_status r = RESOLVED
     \<and> lifecycle_path OPEN (history ''f'' ex_fixed) RESOLVED \<and> history ''f'' ex_fixed = [(OPEN, RESOLVED)]"
proof -
  have "map_option fi_status (map_of (fs_by_id ex_fixed) ''f'') = Some RESOLVED" "history ''f'' ex_fixed = [(OPEN, RESOLVED)]"
    by code_simp+
  then show ?thesis
    using finding_history [OF ex_fixed_reachable, of "''f''"] by auto
qed

theorem redetection_keeps_verdict_witness:
  "\<exists>r fs. record_finding ''g'' ''e2'' ex_detection 9 ex_fixed = (r, fs) \<and> fi_finding_id r = ''f'' \<and> fi_status r = REOPENED
     \<and> map_of (fs_by_key fs) (''o'', ''x'') = Some r"
proof -
  obtain r fs where run: "record_finding ''g'' ''e2'' ex_detection 9 ex_fixed = (r, fs)"
    by fastforce
  moreover have "map_option (\<lambda>x. (fi_finding_id x, fi_status x)) (map_of (fs_by_key ex_fixed) (''o'', ''x'')) = Some (''f'', RESOLVED)"
    by code_simp
  ultimately show ?thesis
    using redetection_keeps_verdict [OF ex_fixed_reachable run] by (auto simp: ex_detection_def)
qed

end
