(* ===== verification/Asset_Stores.thy ===== *)
theory Asset_Stores
  imports Memory_Pages Tenancy Scope_Validator Py_Url
begin

text \<open>
  The in-memory repositories of registered targets, of the verification of their ownership, of scan records and of report
  metadata (\<^verbatim>\<open>webguard_api/targets.py\<close>, \<^verbatim>\<open>target_verification.py\<close>, \<^verbatim>\<open>scan_store.py\<close>,
  \<^verbatim>\<open>report_store.py\<close>). Each is a dictionary of records, kept in the order of insertion.
\<close>

section \<open>Targets\<close>

record target_record =
  tg_target_id :: string
  tg_organization_id :: string
  tg_url :: string
  tg_created_by :: string
  tg_created_at :: time
  tg_label :: "string option"
  tg_archived_at :: "time option"
  tg_default_mode :: "string option"

type_synonym targets = "(string \<times> target_record) list"

definition create_target ::
  "string \<Rightarrow> string \<Rightarrow> string \<Rightarrow> string \<Rightarrow> time \<Rightarrow> string option \<Rightarrow> string option \<Rightarrow> targets \<Rightarrow> target_record result \<times> targets" where
  "create_target target_id organization_id url created_by now label default_mode ts =
     (if list_ex (\<lambda>(_, r). tg_organization_id r = organization_id \<and> tg_url r = url) ts
      then (Inl (TargetRepositoryError ''target_conflict''), ts)
      else
        (let r = \<lparr>tg_target_id = target_id, tg_organization_id = organization_id, tg_url = url, tg_created_by = created_by,
                  tg_created_at = now, tg_label = label, tg_archived_at = None, tg_default_mode = default_mode\<rparr>
         in (Inr r, dict_put target_id r ts)))"

definition get_target :: "string \<Rightarrow> string \<Rightarrow> targets \<Rightarrow> target_record result" where
  "get_target target_id organization_id ts =
     (case map_of ts target_id of
        None \<Rightarrow> Inl (TargetRepositoryError ''target_not_found'')
      | Some r \<Rightarrow> raise_if (tg_organization_id r \<noteq> organization_id) (TargetRepositoryError ''target_not_found'') (Inr r))"

definition visible_targets :: "string \<Rightarrow> bool \<Rightarrow> targets \<Rightarrow> target_record list" where
  "visible_targets organization_id include_archived ts =
     filter (\<lambda>r. tg_organization_id r = organization_id \<and> (include_archived \<or> tg_archived_at r = None)) (map snd ts)"

definition list_targets :: "string \<Rightarrow> bool \<Rightarrow> targets \<Rightarrow> target_record list" where
  "list_targets organization_id include_archived ts = sort_key tg_created_at (visible_targets organization_id include_archived ts)"

definition list_targets_scoped_page ::
  "string \<Rightarrow> nat \<Rightarrow> (string \<times> string) option \<Rightarrow> bool \<Rightarrow> targets \<Rightarrow> target_record list \<times> bool" where
  "list_targets_scoped_page organization_id limit after include_archived ts =
     memory_page tg_created_at tg_target_id limit after (visible_targets organization_id include_archived ts)"

text \<open>An argument that was not given is \<^verbatim>\<open>...\<close> in the code and \<^const>\<open>None\<close> here.\<close>

definition update_target ::
  "string \<Rightarrow> string \<Rightarrow> string option option \<Rightarrow> string option option \<Rightarrow> targets \<Rightarrow> target_record result \<times> targets" where
  "update_target target_id organization_id label default_mode ts =
     (case get_target target_id organization_id ts of
        Inl e \<Rightarrow> (Inl e, ts)
      | Inr r \<Rightarrow>
          (let updated = r\<lparr>tg_label := (case label of None \<Rightarrow> tg_label r | Some v \<Rightarrow> v),
                           tg_default_mode := (case default_mode of None \<Rightarrow> tg_default_mode r | Some v \<Rightarrow> v)\<rparr>
           in (Inr updated, dict_put target_id updated ts)))"

text \<open>The archived record is rebuilt without its default mode.\<close>

definition archive_target :: "string \<Rightarrow> string \<Rightarrow> time \<Rightarrow> targets \<Rightarrow> target_record result \<times> targets" where
  "archive_target target_id organization_id now ts =
     (case get_target target_id organization_id ts of
        Inl e \<Rightarrow> (Inl e, ts)
      | Inr r \<Rightarrow>
          if tg_archived_at r \<noteq> None then (Inr r, ts)
          else (let archived = r\<lparr>tg_archived_at := Some now, tg_default_mode := None\<rparr>
                in (Inr archived, dict_put target_id archived ts)))"

section \<open>Verification of ownership\<close>

datatype verification_method = WELL_KNOWN_HTTP | DNS_TXT

datatype verification_status = VERIFICATION_PENDING | VERIFICATION_VERIFIED | VERIFICATION_FAILED | VERIFICATION_EXPIRED

definition VERIFICATION_TOKEN_TTL :: time where
  "VERIFICATION_TOKEN_TTL = 24 * 3600 * microseconds"

record verification =
  tv_verification_id :: string
  tv_target_id :: string
  tv_organization_id :: string
  tv_method :: verification_method
  tv_status :: verification_status
  tv_checked_at :: time
  tv_evidence :: "string option"
  tv_expires_at :: "time option"
  tv_expected_token :: "string option"

text \<open>By target: a new verification replaces the former one.\<close>

type_synonym verifications = "(string \<times> verification) list"

definition initiate ::
  "string \<Rightarrow> string \<Rightarrow> string \<Rightarrow> string \<Rightarrow> verification_method \<Rightarrow> time \<Rightarrow> verifications \<Rightarrow> verification \<times> verifications" where
  "initiate verification_id token target_id organization_id method now vs =
     (let r = \<lparr>tv_verification_id = verification_id, tv_target_id = target_id, tv_organization_id = organization_id,
               tv_method = method, tv_status = VERIFICATION_PENDING, tv_checked_at = now, tv_evidence = None,
               tv_expires_at = Some (now + VERIFICATION_TOKEN_TTL), tv_expected_token = Some token\<rparr>
      in (r, dict_put target_id r vs))"

definition without_token :: "verification \<Rightarrow> verification" where
  "without_token r = r\<lparr>tv_expected_token := None\<rparr>"

definition get_current :: "string \<Rightarrow> string \<Rightarrow> verifications \<Rightarrow> verification option" where
  "get_current target_id organization_id vs =
     (case map_of vs target_id of
        None \<Rightarrow> None
      | Some r \<Rightarrow>
          if tv_organization_id r \<noteq> organization_id then None
          else Some (if tv_status r = VERIFICATION_PENDING then r else without_token r))"

definition by_verification_id :: "string \<Rightarrow> verifications \<Rightarrow> verification option" where
  "by_verification_id verification_id vs = List.find (\<lambda>r. tv_verification_id r = verification_id) (map snd vs)"

definition get_pending_token :: "string \<Rightarrow> string \<Rightarrow> verifications \<Rightarrow> string result" where
  "get_pending_token verification_id organization_id vs =
     (case by_verification_id verification_id vs of
        None \<Rightarrow> Inl (TargetVerificationError ''target_verification_not_found'')
      | Some r \<Rightarrow>
          raise_if (tv_organization_id r \<noteq> organization_id \<or> tv_status r \<noteq> VERIFICATION_PENDING)
            (TargetVerificationError ''target_verification_not_found'')
          (case tv_expected_token r of
             None \<Rightarrow> Inl (TargetVerificationError ''target_verification_not_found'')
           | Some token \<Rightarrow> Inr token))"

definition record_result ::
  "string \<Rightarrow> string \<Rightarrow> verification_status \<Rightarrow> string \<Rightarrow> time \<Rightarrow> verifications \<Rightarrow> verification result \<times> verifications" where
  "record_result verification_id organization_id status detail now vs =
     (case by_verification_id verification_id vs of
        None \<Rightarrow> (Inl (TargetVerificationError ''target_verification_not_found''), vs)
      | Some r \<Rightarrow>
          if tv_organization_id r \<noteq> organization_id then (Inl (TargetVerificationError ''target_verification_not_found''), vs)
          else
            (let updated = r\<lparr>tv_status := status, tv_checked_at := now, tv_evidence := Some detail, tv_expected_token := None\<rparr>
             in (Inr updated, dict_put (tv_target_id r) updated vs)))"

subsection \<open>The checks\<close>

text \<open>
  The answers of the network: the status and the body of the file as bytes, or the code of a \<^verbatim>\<open>SafeRequestError\<close>;
  and the values of the TXT record, each as its bytes, or the exception of the resolver.
\<close>

datatype fetch_answer = Fetched int "nat list" | Fetch_Failed string
datatype txt_answer = Txt_Records "nat list list" | Txt_Missing | Txt_Timeout | Txt_Failure string

record network =
  nw_resolver :: "string \<Rightarrow> nat \<Rightarrow> resolver_outcome"
  nw_fetch :: "validated_target \<Rightarrow> fetch_answer"
  nw_txt :: "string \<Rightarrow> txt_answer"

definition well_known_verification_url :: "string \<Rightarrow> string result" where
  "well_known_verification_url target_url =
     (case urlsplit target_url of
        None \<Rightarrow> Inl ValueError
      | Some u \<Rightarrow> Inr (u_scheme u @ ''://'' @ u_netloc u @ ''/.well-known/webguard-verification.txt''))"

text \<open>\<^verbatim>\<open>.decode("utf-8", errors="replace").strip()\<close> compared with the token.\<close>

definition matches_token :: "nat list \<Rightarrow> string \<Rightarrow> bool" where
  "matches_token bytes token \<longleftrightarrow> strip_codes (utf8_decode bytes) = codes token"

definition check_well_known_token :: "py_env \<Rightarrow> network \<Rightarrow> string \<Rightarrow> string \<Rightarrow> (bool \<times> string) result" where
  "check_well_known_token E N target_url expected_token =
     bindE (well_known_verification_url target_url) (\<lambda>url.
     case validate_target_url E url \<lparr>vp_mode = COMMERCIAL, vp_allowed_lab_hosts = [], vp_maximum_url_length = 2048\<rparr> (nw_resolver N) of
       Inl (TargetValidationError code) \<Rightarrow> Inr (False, ''target-validation-failed.'' @ code)
     | Inl e \<Rightarrow> Inl e
     | Inr validated \<Rightarrow>
         Inr (case nw_fetch N validated of
                Fetch_Failed code \<Rightarrow> (False, ''fetch-failed.'' @ code)
              | Fetched status body \<Rightarrow>
                  if status \<noteq> 200 then (False, ''unexpected-status.'' @ (if status < 0 then ''-'' else []) @ dec_str (nat \<bar>status\<bar>))
                  else if \<not> matches_token body expected_token then (False, ''token-mismatch'')
                  else (True, ''verified-well-known-token-match'')))"

definition dns_txt_record_name :: "string \<Rightarrow> string result" where
  "dns_txt_record_name target_url =
     (case urlsplit target_url of
        None \<Rightarrow> Inl ValueError
      | Some u \<Rightarrow>
          (case url_hostname u of
             None \<Rightarrow> Inl (TargetVerificationError ''target_verification_invalid_url'')
           | Some host \<Rightarrow>
               raise_if (host = []) (TargetVerificationError ''target_verification_invalid_url'')
               (Inr (''_webguard-verification.'' @ host))))"

definition check_dns_txt_token :: "network \<Rightarrow> string \<Rightarrow> string \<Rightarrow> (bool \<times> string) result" where
  "check_dns_txt_token N target_url expected_token =
     (case dns_txt_record_name target_url of
        Inl (TargetVerificationError code) \<Rightarrow> Inr (False, ''target-validation-failed.'' @ code)
      | Inl e \<Rightarrow> Inl e
      | Inr name \<Rightarrow>
          Inr (case nw_txt N name of
                 Txt_Missing \<Rightarrow> (False, ''dns-record-not-found'')
               | Txt_Timeout \<Rightarrow> (False, ''dns-lookup-timed-out'')
               | Txt_Failure kind \<Rightarrow> (False, ''dns-lookup-failed.'' @ kind)
               | Txt_Records values \<Rightarrow>
                   if list_ex (\<lambda>v. matches_token v expected_token) values then (True, ''verified-dns-txt-match'')
                   else (False, ''token-mismatch'')))"

section \<open>Scan records\<close>

record scan_record =
  sn_scan_id :: string
  sn_organization_id :: string
  sn_job_id :: string
  sn_target :: string
  sn_authorization_id :: string
  sn_mode :: string
  sn_status :: string
  sn_scanner_version :: string
  sn_created_at :: time
  sn_permit_id :: "string option"
  sn_permit_fingerprint :: "string option"
  sn_requested_checks :: "string list"
  sn_started_at :: "time option"
  sn_completed_at :: "time option"
  sn_report_ref :: "string option"
  sn_cancellation_requested :: bool
  sn_cancelled_at :: "time option"
  sn_finding_count :: int

type_synonym scan_records = "(string \<times> scan_record) list"

definition create_scan ::
  "string \<Rightarrow> string \<Rightarrow> string \<Rightarrow> string \<Rightarrow> string \<Rightarrow> string \<Rightarrow> string \<Rightarrow> time \<Rightarrow> string option \<Rightarrow> string option \<Rightarrow> string list
   \<Rightarrow> scan_records \<Rightarrow> scan_record \<times> scan_records" where
  "create_scan scan_id organization_id job_id target authorization_id mode scanner_version now permit_id permit_fingerprint
     requested_checks ss =
     (let r = \<lparr>sn_scan_id = scan_id, sn_organization_id = organization_id, sn_job_id = job_id, sn_target = target,
               sn_authorization_id = authorization_id, sn_mode = mode, sn_status = ''running'',
               sn_scanner_version = scanner_version, sn_created_at = now, sn_permit_id = permit_id,
               sn_permit_fingerprint = permit_fingerprint, sn_requested_checks = requested_checks,
               sn_started_at = Some now, sn_completed_at = None, sn_report_ref = None, sn_cancellation_requested = False,
               sn_cancelled_at = None, sn_finding_count = 0\<rparr>
      in (r, dict_put scan_id r ss))"

definition get_scan_scoped :: "string \<Rightarrow> string \<Rightarrow> scan_records \<Rightarrow> scan_record result" where
  "get_scan_scoped scan_id organization_id ss =
     (case map_of ss scan_id of
        None \<Rightarrow> Inl (ScanStoreError ''scan_not_found'')
      | Some r \<Rightarrow> raise_if (sn_organization_id r \<noteq> organization_id) (ScanStoreError ''scan_not_found'') (Inr r))"

definition complete_scan ::
  "string \<Rightarrow> string \<Rightarrow> string \<Rightarrow> string option \<Rightarrow> int \<Rightarrow> time \<Rightarrow> scan_records \<Rightarrow> scan_record result \<times> scan_records" where
  "complete_scan scan_id organization_id status report_ref finding_count now ss =
     (case get_scan_scoped scan_id organization_id ss of
        Inl e \<Rightarrow> (Inl e, ss)
      | Inr r \<Rightarrow>
          (let updated = r\<lparr>sn_status := status, sn_completed_at := Some now, sn_report_ref := report_ref,
                           sn_finding_count := finding_count\<rparr>
           in (Inr updated, dict_put scan_id updated ss)))"

definition list_scans_scoped :: "string \<Rightarrow> scan_records \<Rightarrow> scan_record list" where
  "list_scans_scoped organization_id ss =
     sort_descending sn_created_at (filter (\<lambda>r. sn_organization_id r = organization_id) (map snd ss))"

definition list_scans_scoped_page ::
  "string \<Rightarrow> nat \<Rightarrow> (string \<times> string) option \<Rightarrow> string option \<Rightarrow> string option \<Rightarrow> scan_records \<Rightarrow> scan_record list \<times> bool" where
  "list_scans_scoped_page organization_id limit after target status ss =
     memory_page sn_created_at sn_scan_id limit after
       (filter (\<lambda>r. sn_organization_id r = organization_id \<and> (target = None \<or> Some (sn_target r) = target)
                  \<and> (status = None \<or> Some (sn_status r) = status)) (map snd ss))"

section \<open>Report metadata\<close>

record report_record =
  rr_report_id :: string
  rr_organization_id :: string
  rr_scan_id :: string
  rr_format :: string
  rr_state :: string
  rr_report_ref :: string
  rr_created_at :: time
  rr_checksum :: "string option"
  rr_completed_at :: "time option"

type_synonym report_records = "(string \<times> report_record) list"

definition store_report :: "report_record \<Rightarrow> report_records \<Rightarrow> report_record \<times> report_records" where
  "store_report r rs = (r, dict_put (rr_report_id r) r rs)"

definition get_report_scoped :: "string \<Rightarrow> string \<Rightarrow> report_records \<Rightarrow> report_record result" where
  "get_report_scoped report_id organization_id rs =
     (case map_of rs report_id of
        None \<Rightarrow> Inl (ReportStoreError ''report_not_found'')
      | Some r \<Rightarrow> raise_if (rr_organization_id r \<noteq> organization_id) (ReportStoreError ''report_not_found'') (Inr r))"

definition list_reports_scoped_page ::
  "string \<Rightarrow> nat \<Rightarrow> (string \<times> string) option \<Rightarrow> string option \<Rightarrow> report_records \<Rightarrow> report_record list \<times> bool" where
  "list_reports_scoped_page organization_id limit after scan_id rs =
     memory_page rr_created_at rr_report_id limit after
       (filter (\<lambda>r. rr_organization_id r = organization_id \<and> (scan_id = None \<or> Some (rr_scan_id r) = scan_id)) (map snd rs))"

end
