(* ===== verification/Pagination.thy ===== *)
theory Pagination
  imports Permit_Codec Py_Url Identity_Store
begin

text \<open>
  Page requests and signed cursors (\<^verbatim>\<open>webguard_api/pagination.py\<close>). The values of a query are decoded
  texts, lists of code points; the texts in a cursor are those of a JSON document. The keyed hash, the
  canonical JSON text of a document and its parser, \<^verbatim>\<open>datetime.fromisoformat\<close> and \<^verbatim>\<open>int\<close> are parameters.
\<close>

section \<open>Page requests\<close>

definition DEFAULT_PAGE_LIMIT :: string where
  "DEFAULT_PAGE_LIMIT = ''50''"

definition MAXIMUM_PAGE_LIMIT :: int where
  "MAXIMUM_PAGE_LIMIT = 100"

definition MAXIMUM_CURSOR_LENGTH :: nat where
  "MAXIMUM_CURSOR_LENGTH = 4096"

definition MAXIMUM_FREE_FORM_FILTER_VALUE_LENGTH :: nat where
  "MAXIMUM_FREE_FORM_FILTER_VALUE_LENGTH = 2048"

record page_request =
  pg_limit :: int
  pg_cursor :: "codes option"
  pg_filters :: "(string \<times> codes) list"

fun canonical_filters :: "string option \<Rightarrow> (string \<times> codes) list \<Rightarrow> bool" where
  "canonical_filters previous [] = True"
| "canonical_filters previous ((key, v) # fs) =
     (key \<noteq> [] \<and> v \<noteq> [] \<and> (case previous of None \<Rightarrow> True | Some p \<Rightarrow> p < key) \<and> canonical_filters (Some key) fs)"

definition PageRequest_post_init :: "page_request \<Rightarrow> page_request result" where
  "PageRequest_post_init p =
     raise_if (\<not> (1 \<le> pg_limit p \<and> pg_limit p \<le> MAXIMUM_PAGE_LIMIT)) (PaginationError ''page_limit_invalid'')
     (raise_if (pg_cursor p = Some []) (PaginationError ''page_cursor_invalid'')
     (raise_if (case pg_cursor p of None \<Rightarrow> False | Some c \<Rightarrow> length c > MAXIMUM_CURSOR_LENGTH)
       (PaginationError ''page_cursor_too_long'')
     (raise_if (\<not> canonical_filters None (pg_filters p)) (PaginationError ''page_filters_non_canonical'')
     (Inr p))))"

subsection \<open>From a query\<close>

type_synonym query = "(codes \<times> codes list) list"

definition single_value :: "codes list \<Rightarrow> codes result" where
  "single_value items =
     (case items of
        [v] \<Rightarrow> raise_if (v = []) (PaginationError ''page_query_parameter_empty'') (Inr v)
      | _ \<Rightarrow> Inl (PaginationError ''page_query_parameter_duplicate''))"

definition closed_filter :: "(codes \<rightharpoonup> codes) \<Rightarrow> string \<times> string list \<Rightarrow> (string \<times> codes) list result" where
  "closed_filter values f =
     (case f of (name, accepted) \<Rightarrow>
        case values (codes name) of
          None \<Rightarrow> Inr []
        | Some v \<Rightarrow> raise_if (v \<notin> codes ` set accepted) (PaginationError ''page_filter_invalid'') (Inr [(name, v)]))"

definition free_form_filter :: "(codes \<rightharpoonup> codes) \<Rightarrow> string \<Rightarrow> (string \<times> codes) list result" where
  "free_form_filter values name =
     (case values (codes name) of
        None \<Rightarrow> Inr []
      | Some v \<Rightarrow>
          raise_if (length v > MAXIMUM_FREE_FORM_FILTER_VALUE_LENGTH \<or> list_ex (\<lambda>c. c < 32 \<or> c = 127) v)
            (PaginationError ''page_filter_invalid'') (Inr [(name, v)]))"

definition parse_page_request ::
  "(codes \<Rightarrow> int option) \<Rightarrow> query \<Rightarrow> (string \<times> string list) list \<Rightarrow> string list \<Rightarrow> page_request result" where
  "parse_page_request int_of query allowed_filters free_form_filters =
     raise_if (list_ex (\<lambda>(k, _). k \<notin> codes ` set (''limit'' # ''cursor'' # map fst allowed_filters @ free_form_filters)) query)
       (PaginationError ''page_query_parameter_unknown'')
     (bindE (mapE (\<lambda>(k, items). bindE (single_value items) (\<lambda>v. Inr (k, v))) query) (\<lambda>pairs.
      let values = map_of pairs in
      bindE (case int_of (case values (codes ''limit'') of None \<Rightarrow> codes DEFAULT_PAGE_LIMIT | Some v \<Rightarrow> v) of
               None \<Rightarrow> Inl (PaginationError ''page_limit_invalid'') | Some n \<Rightarrow> Inr n) (\<lambda>limit.
      bindE (mapE (closed_filter values) (sort_key fst allowed_filters)) (\<lambda>closed.
      bindE (mapE (free_form_filter values) (sort free_form_filters)) (\<lambda>free.
        PageRequest_post_init
          \<lparr>pg_limit = limit, pg_cursor = values (codes ''cursor''),
           pg_filters = sort_key fst (concat closed @ concat free)\<rparr>)))))"

section \<open>Signed cursors\<close>

record cursor_codec =
  cc_mac :: "nat list \<Rightarrow> nat list"
  cc_validity_seconds :: int
  cc_dumps :: "json \<Rightarrow> nat list"
  cc_loads :: "nat list \<Rightarrow> json option"
  cc_fromisoformat :: "string \<Rightarrow> time option"

definition cursor_resource :: "string \<Rightarrow> bool" where
  "cursor_resource r \<longleftrightarrow>
     r \<noteq> [] \<and> length r \<le> 64 \<and> hd r \<in> set ''abcdefghijklmnopqrstuvwxyz''
     \<and> list_all (\<lambda>c. c \<in> set ''abcdefghijklmnopqrstuvwxyz0123456789._-'') (tl r)"

definition filters_document :: "(string \<times> string) list \<Rightarrow> json" where
  "filters_document filters = JObj (map (\<lambda>(k, v). (k, JStr v)) (sort_key fst filters))"

text \<open>The payload, with its keys in the order of the canonical text.\<close>

definition cursor_payload :: "string \<Rightarrow> string \<Rightarrow> (string \<times> string) list \<Rightarrow> string \<Rightarrow> string \<Rightarrow> time \<Rightarrow> json" where
  "cursor_payload organization_id resource filters ordered_at resource_id expires_at =
     JObj [(''expires_at'', JStr (timestamp_text expires_at)), (''filters'', filters_document filters),
           (''ordered_at'', JStr ordered_at), (''organization_id'', JStr organization_id),
           (''resource'', JStr resource), (''resource_id'', JStr resource_id), (''v'', JInt 1)]"

definition cursor_encode ::
  "cursor_codec \<Rightarrow> string \<Rightarrow> string \<Rightarrow> (string \<times> string) list \<Rightarrow> string \<Rightarrow> string \<Rightarrow> time \<Rightarrow> string result" where
  "cursor_encode C organization_id resource filters ordered_at resource_id now =
     raise_if (\<not> cursor_resource resource) (PaginationError ''page_cursor_resource_invalid'')
     (let raw = cc_dumps C (cursor_payload organization_id resource filters ordered_at resource_id
                  (now + cc_validity_seconds C * microseconds));
          token = b64url_encode raw @ ''.'' @ b64url_encode (cc_mac C raw)
      in raise_if (length token > MAXIMUM_CURSOR_LENGTH) (PaginationError ''page_cursor_too_long'') (Inr token))"

definition cursor_b64_decode :: "string \<Rightarrow> nat list result" where
  "cursor_b64_decode v =
     raise_if (v = [] \<or> \<not> is_ascii v) (PaginationError ''page_cursor_invalid'')
     (case b64decode_validate (v @ b64_padding v) of
        None \<Rightarrow> Inl (PaginationError ''page_cursor_invalid'')
      | Some decoded \<Rightarrow>
          raise_if (b64url_encode decoded \<noteq> v) (PaginationError ''page_cursor_non_canonical'') (Inr decoded))"

text \<open>The signed bytes of a cursor.\<close>

definition cursor_bytes :: "cursor_codec \<Rightarrow> string \<Rightarrow> nat list result" where
  "cursor_bytes C cursor =
     raise_if (cursor = [] \<or> length cursor > MAXIMUM_CURSOR_LENGTH) (PaginationError ''page_cursor_invalid'')
     (case str_partition (CHR ''.'') cursor of (encoded_payload, separator, encoded_signature) \<Rightarrow>
        raise_if (\<not> separator \<or> encoded_payload = [] \<or> encoded_signature = []) (PaginationError ''page_cursor_invalid'')
        (bindE (cursor_b64_decode encoded_payload) (\<lambda>raw.
         bindE (cursor_b64_decode encoded_signature) (\<lambda>supplied.
           raise_if (cc_mac C raw \<noteq> supplied) (PaginationError ''page_cursor_signature_invalid'') (Inr raw)))))"

definition cursor_fields :: "string list" where
  "cursor_fields = [''v'', ''organization_id'', ''resource'', ''filters'', ''ordered_at'', ''resource_id'', ''expires_at'']"

text \<open>Python compares booleans and floats with the version 1 as numbers.\<close>

definition cursor_version :: "json \<Rightarrow> bool" where
  "cursor_version v \<longleftrightarrow> v = JInt 1 \<or> v = JBool True \<or> v = JFloat 1"

definition same_object :: "json \<Rightarrow> json \<Rightarrow> bool" where
  "same_object a b = (case (a, b) of (JObj xs, JObj ys) \<Rightarrow> set xs = set ys | _ \<Rightarrow> False)"

definition nonempty_text :: "json option \<Rightarrow> string result" where
  "nonempty_text v =
     (case v of Some (JStr t) \<Rightarrow> raise_if (t = []) (PaginationError ''page_cursor_invalid'') (Inr t)
      | _ \<Rightarrow> Inl (PaginationError ''page_cursor_invalid''))"

definition cursor_expiry :: "cursor_codec \<Rightarrow> json option \<Rightarrow> time result" where
  "cursor_expiry C v =
     (case v of
        Some (JStr t) \<Rightarrow>
          raise_if (t = [] \<or> last t \<noteq> CHR ''Z'') (PaginationError ''page_cursor_invalid'')
          (case cc_fromisoformat C (butlast t @ ''+00:00'') of
             None \<Rightarrow> Inl (PaginationError ''page_cursor_invalid'')
           | Some expiry \<Rightarrow>
               raise_if (timestamp_text expiry \<noteq> t) (PaginationError ''page_cursor_non_canonical'') (Inr expiry))
      | _ \<Rightarrow> Inl (PaginationError ''page_cursor_invalid''))"

definition cursor_decode ::
  "cursor_codec \<Rightarrow> string \<Rightarrow> string \<Rightarrow> string \<Rightarrow> (string \<times> string) list \<Rightarrow> time \<Rightarrow> (string \<times> string) result" where
  "cursor_decode C cursor organization_id resource filters now =
     bindE (cursor_bytes C cursor) (\<lambda>raw.
     case cc_loads C raw of
       Some (JObj payload) \<Rightarrow>
         (let field = map_of payload in
          raise_if (fst ` set payload \<noteq> set cursor_fields) (PaginationError ''page_cursor_invalid'')
          (raise_if (cc_dumps C (JObj payload) \<noteq> raw) (PaginationError ''page_cursor_non_canonical'')
          (raise_if (\<not> cursor_version (the (field ''v''))) (PaginationError ''page_cursor_version_unsupported'')
          (raise_if (field ''organization_id'' \<noteq> Some (JStr organization_id)) (PaginationError ''page_cursor_scope_mismatch'')
          (raise_if (field ''resource'' \<noteq> Some (JStr resource)) (PaginationError ''page_cursor_resource_mismatch'')
          (raise_if (\<not> same_object (the (field ''filters'')) (filters_document filters))
            (PaginationError ''page_cursor_filter_mismatch'')
          (bindE (cursor_expiry C (field ''expires_at'')) (\<lambda>expiry.
           raise_if (now \<ge> expiry) (PaginationError ''page_cursor_expired'')
           (bindE (nonempty_text (field ''ordered_at'')) (\<lambda>ordered_at.
            bindE (nonempty_text (field ''resource_id'')) (\<lambda>resource_id.
              Inr (ordered_at, resource_id))))))))))))
     | _ \<Rightarrow> Inl (PaginationError ''page_cursor_invalid''))"

section \<open>What a cursor is good for\<close>

lemma cursor_b64_decode_Inr: "cursor_b64_decode v = Inr bs \<longleftrightarrow> b64url_decode_canonical v = Inr bs"
  by (simp add: cursor_b64_decode_def b64url_decode_canonical_def Let_def raise_if_eq_Inr split: option.split)

lemma str_partition_iff: "str_partition c s = (a, True, b) \<longleftrightarrow> s = a @ c # b \<and> c \<notin> set a"
proof
  assume split: "str_partition c s = (a, True, b)"
  then have "c \<in> set s"
    by (simp add: str_partition_def split: if_splits)
  then obtain us vs where "s = us @ c # vs" "c \<notin> set us"
    by (meson split_list_first)
  then show "s = a @ c # b \<and> c \<notin> set a"
    using split str_partition_hit [of c us vs] by simp
qed (use str_partition_hit in blast)

lemma b64_no_dot: "octets bs \<Longrightarrow> CHR ''.'' \<notin> set (b64url_encode bs)"
proof
  assume bs: "octets bs" and "CHR ''.'' \<in> set (b64url_encode bs)"
  then obtain n where "n < 64" "b64_char n = CHR ''.''"
    using b64_groups_small [OF bs] by (auto simp: b64url_encode_def list_all_iff)
  then have "b64_value (CHR ''.'') = Some n"
    using b64_char_props(1) [of n] by simp
  moreover have "b64_value (CHR ''.'') = None"
    by code_simp
  ultimately show False
    by simp
qed

lemma cursor_bytes_iff:
  assumes "octets raw" "octets (cc_mac C raw)" "raw \<noteq> []" "cc_mac C raw \<noteq> []"
  shows "cursor_bytes C cursor = Inr raw \<longleftrightarrow>
     cursor = b64url_encode raw @ ''.'' @ b64url_encode (cc_mac C raw) \<and> length cursor \<le> MAXIMUM_CURSOR_LENGTH"
proof
  assume "cursor_bytes C cursor = Inr raw"
  then obtain p s where "str_partition (CHR ''.'') cursor = (p, True, s)" "b64url_decode_canonical p = Inr raw"
      "b64url_decode_canonical s = Inr (cc_mac C raw)" "length cursor \<le> MAXIMUM_CURSOR_LENGTH"
    by (auto simp: cursor_bytes_def raise_if_eq_Inr bindE_eq_Inr cursor_b64_decode_Inr split: prod.splits)
  then show "cursor = b64url_encode raw @ ''.'' @ b64url_encode (cc_mac C raw) \<and> length cursor \<le> MAXIMUM_CURSOR_LENGTH"
    using b64url_decode_Inr by (auto simp: str_partition_iff)
next
  let ?p = "b64url_encode raw" and ?s = "b64url_encode (cc_mac C raw)"
  assume cursor: "cursor = ?p @ ''.'' @ ?s \<and> length cursor \<le> MAXIMUM_CURSOR_LENGTH"
  have "str_partition (CHR ''.'') cursor = (?p, True, ?s)"
    using cursor b64_no_dot [OF assms(1)] by (simp add: str_partition_iff)
  moreover have "cursor_b64_decode ?p = Inr raw" "cursor_b64_decode ?s = Inr (cc_mac C raw)"
    using assms b64url_decode_encode by (auto simp: cursor_b64_decode_Inr)
  moreover from this have "?p \<noteq> []" "?s \<noteq> []"
    by (auto simp: cursor_b64_decode_def raise_if_def)
  ultimately show "cursor_bytes C cursor = Inr raw"
    using cursor by (auto simp: cursor_bytes_def raise_if_def)
qed

lemma timestamp_text_Z: "\<exists>t'. timestamp_text t = t' @ ''Z''"
  by (simp add: timestamp_text_def Let_def split: prod.split)

lemma same_filters: "same_object (filters_document fs) (filters_document gs) \<longleftrightarrow> set fs = set gs"
proof -
  have "inj (\<lambda>(k :: string, v). (k, JStr v))"
    by (auto simp: inj_def)
  then show ?thesis
    by (simp add: same_object_def filters_document_def inj_image_eq_iff)
qed

text \<open>
  What a cursor needs from the parameters: the hash and the document are non-empty byte strings, the document is
  read back, and so is the time of expiry.
\<close>

definition codec_reads_back :: "cursor_codec \<Rightarrow> json \<Rightarrow> time \<Rightarrow> bool" where
  "codec_reads_back C payload expiry \<longleftrightarrow>
     (let raw = cc_dumps C payload in
      octets raw \<and> raw \<noteq> [] \<and> octets (cc_mac C raw) \<and> cc_mac C raw \<noteq> [] \<and> cc_loads C raw = Some payload
      \<and> cc_fromisoformat C (butlast (timestamp_text expiry) @ ''+00:00'') = Some expiry)"

text \<open>
  C37. A cursor is good for exactly what it was issued for: the position it holds is returned for the same organization,
  feed and filters until it expires, and any other use is refused, each with its own error.
\<close>

theorem cursor_round_trip:
  assumes "cursor_encode C organization resource filters ordered_at i now = Inr token"
    and "codec_reads_back C (cursor_payload organization resource filters ordered_at i
          (now + cc_validity_seconds C * microseconds)) (now + cc_validity_seconds C * microseconds)"
    and "ordered_at \<noteq> []" "i \<noteq> []"
  shows "cursor_decode C token organization' resource' filters' now' =
     (if organization' \<noteq> organization then Inl (PaginationError ''page_cursor_scope_mismatch'')
      else if resource' \<noteq> resource then Inl (PaginationError ''page_cursor_resource_mismatch'')
      else if set filters' \<noteq> set filters then Inl (PaginationError ''page_cursor_filter_mismatch'')
      else if now + cc_validity_seconds C * microseconds \<le> now' then Inl (PaginationError ''page_cursor_expired'')
      else Inr (ordered_at, i))"
proof -
  let ?expiry = "now + cc_validity_seconds C * microseconds"
  let ?payload = "cursor_payload organization resource filters ordered_at i ?expiry"
  let ?raw = "cc_dumps C ?payload"
  have "cursor_bytes C token = Inr ?raw"
    using assms(1,2) unfolding codec_reads_back_def Let_def
    by (subst cursor_bytes_iff) (auto simp: cursor_encode_def Let_def raise_if_eq_Inr)
  moreover have "cc_loads C ?raw = Some ?payload" "cursor_expiry C (Some (JStr (timestamp_text ?expiry))) = Inr ?expiry"
    using assms(2) timestamp_text_Z [of ?expiry] by (auto simp: codec_reads_back_def Let_def cursor_expiry_def raise_if_def)
  moreover have "fst ` set [(''expires_at'', a), (''filters'', b), (''ordered_at'', c), (''organization_id'', d),
       (''resource'', e), (''resource_id'', f), (''v'', g)] = set cursor_fields" for a b c d e f g :: json
    by (auto simp: cursor_fields_def)
  ultimately show ?thesis
    using assms(3,4)
    by (simp add: cursor_decode_def cursor_payload_def Let_def raise_if_def cursor_version_def same_filters nonempty_text_def)
qed

definition ex_payload :: json where
  "ex_payload = cursor_payload ''o'' ''jobs'' [] ''t'' ''i'' 300000000"

definition ex_codec :: cursor_codec where
  "ex_codec =
     \<lparr>cc_mac = (\<lambda>raw. [length raw, 7]), cc_validity_seconds = 300, cc_dumps = (\<lambda>j. if j = ex_payload then [1, 2, 3] else []),
      cc_loads = (\<lambda>raw. if raw = [1, 2, 3] then Some ex_payload else None),
      cc_fromisoformat = (\<lambda>t. if t = ''1970-01-01T00:05:00.000000+00:00'' then Some 300000000 else None)\<rparr>"

theorem cursor_round_trip_witness:
  "\<exists>token. cursor_encode ex_codec ''o'' ''jobs'' [] ''t'' ''i'' 0 = Inr token
     \<and> cursor_decode ex_codec token ''o'' ''jobs'' [] 5 = Inr (''t'', ''i'')
     \<and> cursor_decode ex_codec token ''p'' ''jobs'' [] 5 = Inl (PaginationError ''page_cursor_scope_mismatch'')"
proof -
  have "succeeds (cursor_encode ex_codec ''o'' ''jobs'' [] ''t'' ''i'' 0)"
    by code_simp
  then obtain token where token: "cursor_encode ex_codec ''o'' ''jobs'' [] ''t'' ''i'' 0 = Inr token"
    by (auto simp: succeeds_def split: sum.splits)
  have "codec_reads_back ex_codec (cursor_payload ''o'' ''jobs'' [] ''t'' ''i'' 300000000) 300000000"
    by code_simp
  then show ?thesis
    using token cursor_round_trip [OF token] by (simp add: ex_codec_def microseconds_def)
qed

end
