(* ===== verification/Service_Core.thy ===== *)
theory Service_Core
  imports Session_Props Identity_Machine Rate_Limits Schedule_Store Authorizations Module_Entitlements Scan_Contexts
    Finding_Store Asset_Stores Pagination
begin

text \<open>
  The frame of the service facade (\<^verbatim>\<open>webguard_api/service.py\<close>): the repositories it holds, the
  effects its handlers have, and the two steps every handler is made of, the check of a permission and
  the audit event.

  A handler takes the state of the service and returns its result, or the exception it ends with,
  together with the state it leaves, so what was written before an exception stays written. The
  clock, the generators of identifiers and secrets, the password hasher, the signing keys and the
  directory of authorizations are an environment; a counter in the state says how often it was asked
  for a fresh value. The mail provider is an outbox: a failed delivery
  is logged and forgotten. The answers of the network and of the artifact store are asked for like fresh
  values. The session repository, the rate limiter and the repositories of targets, findings, scans and
  reports are the in-memory ones, the identity store is the SQLite one. The limiter of the HTTP transport around the service, which no handler
  touches, is kept in the same record.
\<close>

section \<open>State and effects\<close>

record service_env =
  se_py :: py_env
  se_kdf :: kdf
  se_clock :: "nat \<Rightarrow> time"
  se_uuid :: "nat \<Rightarrow> string"
  se_secret :: "nat \<Rightarrow> string"
  se_salt :: "nat \<Rightarrow> nat list"
  se_hash_password :: "nat \<Rightarrow> string \<Rightarrow> string"
  se_verify_password :: "string \<Rightarrow> string \<Rightarrow> bool"
  se_sha256 :: "string \<Rightarrow> string"
  se_signer :: signing_registry
  se_authorizations :: auth_directory
  se_needs_rehash :: "string \<Rightarrow> bool"
  se_idle_timeout :: time
  se_absolute_timeout :: time
  se_web_app_base_url :: string
  se_cursor_codec :: cursor_codec
  se_network :: "nat \<Rightarrow> network"
  se_artifact_checksum :: "nat \<Rightarrow> string \<Rightarrow> string result"
  se_artifact_get :: "nat \<Rightarrow> string \<Rightarrow> string result"

record mail =
  ml_to :: codes
  ml_subject :: string
  ml_link :: "string option"
  ml_category :: string

record service =
  sv_identity :: identity_db
  sv_sessions :: sessions
  sv_limiter :: fixed_window_limiter
  sv_entitlements :: entitlements
  sv_store :: job_db
  sv_contexts :: scan_identities
  sv_plans :: comparison_plans
  sv_outbox :: "mail list"
  sv_targets :: targets
  sv_verifications :: verifications
  sv_findings :: findings
  sv_scans :: scan_records
  sv_reports :: report_records
  sv_api_limiter :: fixed_window_limiter
  sv_draws :: nat

type_synonym 'a svc = "service \<Rightarrow> 'a result \<times> service"

definition returnS :: "'a \<Rightarrow> 'a svc" where
  "returnS x s = (Inr x, s)"

definition raiseS :: "exn \<Rightarrow> 'a svc" where
  "raiseS e s = (Inl e, s)"

definition bindS :: "'a svc \<Rightarrow> ('a \<Rightarrow> 'b svc) \<Rightarrow> 'b svc" where
  "bindS m f s = (case m s of (Inl e, s') \<Rightarrow> (Inl e, s') | (Inr x, s') \<Rightarrow> f x s')"

definition guardS :: "bool \<Rightarrow> exn \<Rightarrow> 'a svc \<Rightarrow> 'a svc" where
  "guardS b e m = (if b then raiseS e else m)"

definition resultS :: "'a result \<Rightarrow> 'a svc" where
  "resultS r s = (r, s)"

text \<open>\<^verbatim>\<open>try: ... except ...\<close>: the handler decides what becomes of an exception.\<close>

definition catchS :: "'a svc \<Rightarrow> (exn \<Rightarrow> 'a svc) \<Rightarrow> 'a svc" where
  "catchS m h s = (case m s of (Inl e, s') \<Rightarrow> h e s' | (Inr x, s') \<Rightarrow> (Inr x, s'))"

definition drawS :: "(nat \<Rightarrow> 'a) \<Rightarrow> 'a svc" where
  "drawS f s = (Inr (f (sv_draws s)), s\<lparr>sv_draws := Suc (sv_draws s)\<rparr>)"

subsection \<open>Calls of the repositories\<close>

definition identityS :: "'a idop \<Rightarrow> 'a svc" where
  "identityS op s = (case op (sv_identity s) of (r, db) \<Rightarrow> (r, s\<lparr>sv_identity := db\<rparr>))"

definition identity_read :: "(identity_db \<Rightarrow> 'a result) \<Rightarrow> 'a svc" where
  "identity_read f s = (f (sv_identity s), s)"

definition sessionsS :: "(sessions \<Rightarrow> 'a \<times> sessions) \<Rightarrow> 'a svc" where
  "sessionsS op s = (case op (sv_sessions s) of (x, ss) \<Rightarrow> (Inr x, s\<lparr>sv_sessions := ss\<rparr>))"

definition limiterS :: "string \<Rightarrow> time \<Rightarrow> unit svc" where
  "limiterS key now s =
     (case in_memory_check_and_record key now (sv_limiter s) of (r, l) \<Rightarrow> (r, s\<lparr>sv_limiter := l\<rparr>))"

definition entitlementsS :: "(entitlements \<Rightarrow> 'a result \<times> entitlements) \<Rightarrow> 'a svc" where
  "entitlementsS op s = (case op (sv_entitlements s) of (r, es) \<Rightarrow> (r, s\<lparr>sv_entitlements := es\<rparr>))"

definition storeS :: "'a dbop \<Rightarrow> 'a svc" where
  "storeS op s = (case op (sv_store s) of (r, db) \<Rightarrow> (r, s\<lparr>sv_store := db\<rparr>))"

definition store_read :: "(job_db \<Rightarrow> 'a result) \<Rightarrow> 'a svc" where
  "store_read f s = (f (sv_store s), s)"

definition contextsS :: "(scan_identities \<Rightarrow> 'a result \<times> scan_identities) \<Rightarrow> 'a svc" where
  "contextsS op s = (case op (sv_contexts s) of (r, cs) \<Rightarrow> (r, s\<lparr>sv_contexts := cs\<rparr>))"

definition plansS :: "(comparison_plans \<Rightarrow> 'a result \<times> comparison_plans) \<Rightarrow> 'a svc" where
  "plansS op s = (case op (sv_plans s) of (r, ps) \<Rightarrow> (r, s\<lparr>sv_plans := ps\<rparr>))"

definition targetsS :: "(targets \<Rightarrow> 'a result \<times> targets) \<Rightarrow> 'a svc" where
  "targetsS op s = (case op (sv_targets s) of (r, ts) \<Rightarrow> (r, s\<lparr>sv_targets := ts\<rparr>))"

definition target_read :: "(targets \<Rightarrow> 'a result) \<Rightarrow> 'a svc" where
  "target_read f s = (f (sv_targets s), s)"

definition verificationsS :: "(verifications \<Rightarrow> 'a result \<times> verifications) \<Rightarrow> 'a svc" where
  "verificationsS op s = (case op (sv_verifications s) of (r, vs) \<Rightarrow> (r, s\<lparr>sv_verifications := vs\<rparr>))"

definition verification_read :: "(verifications \<Rightarrow> 'a result) \<Rightarrow> 'a svc" where
  "verification_read f s = (f (sv_verifications s), s)"

definition findingsS :: "(findings \<Rightarrow> 'a result \<times> findings) \<Rightarrow> 'a svc" where
  "findingsS op s = (case op (sv_findings s) of (r, fs) \<Rightarrow> (r, s\<lparr>sv_findings := fs\<rparr>))"

definition finding_read :: "(findings \<Rightarrow> 'a result) \<Rightarrow> 'a svc" where
  "finding_read f s = (f (sv_findings s), s)"

definition scan_read :: "(scan_records \<Rightarrow> 'a result) \<Rightarrow> 'a svc" where
  "scan_read f s = (f (sv_scans s), s)"

definition reportsS :: "(report_records \<Rightarrow> 'a result \<times> report_records) \<Rightarrow> 'a svc" where
  "reportsS op s = (case op (sv_reports s) of (r, rs) \<Rightarrow> (r, s\<lparr>sv_reports := rs\<rparr>))"

definition report_read :: "(report_records \<Rightarrow> 'a result) \<Rightarrow> 'a svc" where
  "report_read f s = (f (sv_reports s), s)"

definition send_mail_best_effort :: "codes \<Rightarrow> string \<Rightarrow> string option \<Rightarrow> string \<Rightarrow> unit svc" where
  "send_mail_best_effort to subject link category s =
     (Inr (), s\<lparr>sv_outbox := sv_outbox s @
        [\<lparr>ml_to = to, ml_subject = subject, ml_link = link, ml_category = category\<rparr>]\<rparr>)"

subsection \<open>Translation of exceptions\<close>

definition api_error :: "string \<Rightarrow> int \<Rightarrow> 'a svc" where
  "api_error code status = raiseS (ApiServiceError code status)"

definition on_identity_error :: "(string \<Rightarrow> 'a svc) \<Rightarrow> 'a svc \<Rightarrow> 'a svc" where
  "on_identity_error h m = catchS m (\<lambda>e. case e of IdentityStoreError code \<Rightarrow> h code | _ \<Rightarrow> raiseS e)"

definition on_store_error :: "(string \<Rightarrow> 'a svc) \<Rightarrow> 'a svc \<Rightarrow> 'a svc" where
  "on_store_error h m = catchS m (\<lambda>e. case e of JobStoreError code \<Rightarrow> h code | _ \<Rightarrow> raiseS e)"

definition on_rate_limit :: "'a svc \<Rightarrow> 'a svc" where
  "on_rate_limit m = catchS m (\<lambda>e. case e of RateLimitError code _ \<Rightarrow> api_error code 429 | _ \<Rightarrow> raiseS e)"

definition on_password_policy :: "'a svc \<Rightarrow> 'a svc" where
  "on_password_policy m = catchS m (\<lambda>e. case e of PasswordPolicyError code \<Rightarrow> api_error code 400 | _ \<Rightarrow> raiseS e)"

section \<open>Audit events and permissions\<close>

definition record_event ::
  "service_env \<Rightarrow> string \<Rightarrow> string \<Rightarrow> string \<Rightarrow> string \<Rightarrow> string \<Rightarrow> string \<Rightarrow> string \<Rightarrow> audit_outcome \<Rightarrow> string option \<Rightarrow> unit svc" where
  "record_event V organization_id principal_id token_id request_id action resource_type resource_id out detail_code =
     bindS (drawS (se_uuid V)) (\<lambda>event_id.
     bindS (drawS (se_clock V)) (\<lambda>now.
     on_identity_error (\<lambda>_. api_error ''audit_persistence_failed'' 500)
       (bindS (resultS (SecurityAuditEvent_post_init
            \<lparr>ae_event_id = event_id, ae_request_id = request_id, ae_organization_id = organization_id,
             ae_principal_id = principal_id, ae_token_id = token_id, ae_action = action,
             ae_resource_type = resource_type, ae_resource_id = resource_id, ae_outcome = out,
             ae_occurred_at = now, ae_detail_code = detail_code\<rparr>)) (\<lambda>event.
        identityS (record_audit_event event)))))"

definition audit ::
  "service_env \<Rightarrow> auth_context \<Rightarrow> string \<Rightarrow> string \<Rightarrow> string \<Rightarrow> string \<Rightarrow> audit_outcome \<Rightarrow> string option \<Rightarrow> unit svc" where
  "audit V context request_id action resource_type resource_id out detail_code =
     record_event V (ac_organization_id context) (ac_principal_id context) (ac_token_id context) request_id
       action resource_type resource_id out detail_code"

definition audit_identity_event ::
  "service_env \<Rightarrow> string \<Rightarrow> string \<Rightarrow> string \<Rightarrow> string \<Rightarrow> string \<Rightarrow> string \<Rightarrow> audit_outcome \<Rightarrow> string option \<Rightarrow> unit svc" where
  "audit_identity_event V organization_id principal_id request_id action resource_type resource_id out detail_code =
     bindS (drawS (se_uuid V)) (\<lambda>token_id.
       record_event V organization_id principal_id token_id request_id action resource_type resource_id out detail_code)"

definition require_permission ::
  "service_env \<Rightarrow> auth_context \<Rightarrow> api_permission \<Rightarrow> string \<Rightarrow> string \<Rightarrow> string \<Rightarrow> string \<Rightarrow> unit svc" where
  "require_permission V context permission request_id action resource_type resource_id =
     catchS (resultS (require context permission)) (\<lambda>e.
       case e of
         AuthenticationError code status \<Rightarrow>
           bindS (audit V context request_id action resource_type resource_id AUDIT_DENIED (Some code)) (\<lambda>_.
             api_error code status)
       | _ \<Rightarrow> raiseS e)"

subsection \<open>Request bodies\<close>

definition body_get :: "string \<Rightarrow> json \<Rightarrow> json option" where
  "body_get key body = (case body of JObj pairs \<Rightarrow> map_of pairs key | _ \<Rightarrow> None)"

definition body_str :: "string \<Rightarrow> json \<Rightarrow> string option" where
  "body_str key body = (case body_get key body of Some (JStr text) \<Rightarrow> Some text | _ \<Rightarrow> None)"

text \<open>A field that must be a text with a character that is not white space.\<close>

definition body_text :: "string \<Rightarrow> json \<Rightarrow> string option" where
  "body_text key body =
     (case body_str key body of None \<Rightarrow> None
      | Some text \<Rightarrow> if py_strip text = [] then None else Some (py_strip text))"

definition require_field :: "'a option \<Rightarrow> string \<Rightarrow> ('a \<Rightarrow> 'b svc) \<Rightarrow> 'b svc" where
  "require_field field code k = (case field of None \<Rightarrow> api_error code 400 | Some x \<Rightarrow> k x)"

end
