(* ===== verification/Service_Accounts.thy ===== *)
theory Service_Accounts
  imports Service_Core
begin

text \<open>
  The handlers of the service that deal with accounts: registration, sessions, passwords, e-mail
  verification, invitations, the team, API keys and module entitlements. A handler that returns a
  dictionary returns here the record that the dictionary prints.
\<close>

section \<open>Accounts and sessions\<close>

text \<open>The text of an address \<^verbatim>\<open>None\<close> in a bucket key, and a folded text as the bytes of its UTF-8 form.\<close>

definition ip_text :: "string option \<Rightarrow> string" where
  "ip_text ip = (case ip of None \<Rightarrow> ''None'' | Some a \<Rightarrow> a)"

definition utf8 :: "codes \<Rightarrow> string" where
  "utf8 s = concat (map (\<lambda>n. if n < 128 then [char_of n] else [char_of (192 + n div 64), char_of (128 + n mod 64)]) s)"

definition EMAIL_VERIFICATION_TOKEN_TTL :: time where
  "EMAIL_VERIFICATION_TOKEN_TTL = 24 * 3600 * microseconds"

definition PASSWORD_RESET_TOKEN_TTL :: time where
  "PASSWORD_RESET_TOKEN_TTL = 3600 * microseconds"

definition INVITATION_TOKEN_TTL :: time where
  "INVITATION_TOKEN_TTL = 7 * 86400 * microseconds"

definition check_attempts :: "string \<Rightarrow> time \<Rightarrow> unit svc" where
  "check_attempts key now = on_rate_limit (limiterS key now)"

definition check_password :: "string \<Rightarrow> string svc" where
  "check_password password = on_password_policy (resultS (validate_password_policy password))"

definition store_password :: "service_env \<Rightarrow> string \<Rightarrow> string \<Rightarrow> time \<Rightarrow> unit svc" where
  "store_password V principal_id password now =
     bindS (drawS (\<lambda>n. se_hash_password V n password)) (\<lambda>h.
       identityS (set_password_hash principal_id ''argon2id'' h now))"

definition issue_identity_token ::
  "service_env \<Rightarrow> string \<Rightarrow> string \<Rightarrow> token_purpose \<Rightarrow> time \<Rightarrow> time \<Rightarrow> (identity_token \<times> string) svc" where
  "issue_identity_token V principal_id organization_id purpose ttl now =
     bindS (drawS (se_salt V)) (\<lambda>salt.
     bindS (drawS (se_secret V)) (\<lambda>secret.
     bindS (drawS (se_uuid V)) (\<lambda>token_id.
       identityS (create_identity_token (se_kdf V) salt secret token_id principal_id organization_id purpose ttl now))))"

text \<open>A new session with the context it stands for, the cookie and the token against request forgery.\<close>

record issued_session =
  ib_record :: browser_session
  ib_token :: string
  ib_csrf_token :: string

definition issue_session ::
  "service_env \<Rightarrow> principal \<Rightarrow> organization \<Rightarrow> time \<Rightarrow> string option \<Rightarrow> string option \<Rightarrow> issued_session svc" where
  "issue_session V account organization now user_agent ip_address =
     bindS (drawS (se_salt V)) (\<lambda>salt.
     bindS (drawS (se_salt V)) (\<lambda>csrf_salt.
     bindS (drawS (se_uuid V)) (\<lambda>session_id.
     bindS (drawS (se_secret V)) (\<lambda>secret.
     bindS (drawS (se_secret V)) (\<lambda>csrf_token.
     bindS (sessionsS (create_session (se_kdf V) salt csrf_salt session_id secret csrf_token (pn_principal_id account)
              (og_organization_id organization) now (se_idle_timeout V) (se_absolute_timeout V) ''password''
              user_agent ip_address)) (\<lambda>(record, token, csrf).
       returnS \<lparr>ib_record = record, ib_token = token, ib_csrf_token = csrf\<rparr>))))))"

definition issue_session_context :: "principal \<Rightarrow> organization \<Rightarrow> issued_session \<Rightarrow> auth_context" where
  "issue_session_context account organization issued =
     \<lparr>ac_organization_id = og_organization_id organization, ac_organization_name = og_name organization,
      ac_principal_id = pn_principal_id account, ac_principal_name = pn_display_name account,
      ac_role = pn_role account, ac_token_id = bs_session_id (ib_record issued),
      ac_auth_method = ''browser_session''\<rparr>"

text \<open>The end of \<^verbatim>\<open>register_account\<close>, \<^verbatim>\<open>login\<close> and \<^verbatim>\<open>accept_invitation\<close>.\<close>

definition sign_in ::
  "service_env \<Rightarrow> principal \<Rightarrow> organization \<Rightarrow> time \<Rightarrow> string option \<Rightarrow> string option \<Rightarrow> string \<Rightarrow> string
   \<Rightarrow> (auth_context \<times> issued_session) svc" where
  "sign_in V account organization now user_agent ip_address request_id action =
     bindS (issue_session V account organization now user_agent ip_address) (\<lambda>issued.
     bindS (identityS (touch_last_login (pn_principal_id account) now)) (\<lambda>_.
     let context = issue_session_context account organization issued in
     bindS (audit V context request_id action ''principal'' (pn_principal_id account) AUDIT_SUCCEEDED None) (\<lambda>_.
       returnS (context, issued))))"

definition register_account ::
  "service_env \<Rightarrow> json \<Rightarrow> string \<Rightarrow> string option \<Rightarrow> string option \<Rightarrow> (auth_context \<times> issued_session) svc" where
  "register_account V body request_id user_agent ip_address =
     require_field (body_text ''organization_name'' body) ''register_body_invalid'' (\<lambda>organization_name.
     require_field (body_text ''display_name'' body) ''register_body_invalid'' (\<lambda>display_name.
     require_field (body_text ''email'' body) ''register_body_invalid'' (\<lambda>email.
     require_field (body_str ''password'' body) ''password_invalid'' (\<lambda>password.
     bindS (check_password password) (\<lambda>_.
     bindS (drawS (se_clock V)) (\<lambda>now.
     bindS (check_attempts (''register:'' @ ip_text ip_address) now) (\<lambda>_.
     bindS (identity_read (get_principal_by_email (codes email))) (\<lambda>existing.
     guardS (existing \<noteq> None) (ApiServiceError ''register_email_in_use'' 409)
     (bindS (on_identity_error (\<lambda>code. api_error code 400)
        (bindS (drawS (se_uuid V)) (\<lambda>organization_id.
         bindS (identityS (create_organization organization_id organization_name now)) (\<lambda>organization.
         bindS (drawS (se_uuid V)) (\<lambda>principal_id.
         bindS (identityS (create_principal principal_id (og_organization_id organization) display_name USER OWNER now
                  (Some (codes email)))) (\<lambda>principal.
           returnS (organization, principal))))))) (\<lambda>(organization, principal).
     bindS (entitlementsS (\<lambda>es.
              if list_entitlements (og_organization_id organization) es = []
              then grant_default_entitlements (og_organization_id organization) now es else (Inr [], es))) (\<lambda>_.
     bindS (store_password V (pn_principal_id principal) password now) (\<lambda>_.
     bindS (issue_identity_token V (pn_principal_id principal) (og_organization_id organization) EMAIL_VERIFICATION
              EMAIL_VERIFICATION_TOKEN_TTL now) (\<lambda>(_, token).
     bindS (send_mail_best_effort (the (pn_email principal)) ''Verify your WebGuard email address''
              (Some (se_web_app_base_url V @ ''/verify-email?token='' @ token)) ''email_verification'') (\<lambda>_.
       sign_in V principal organization now user_agent ip_address request_id ''auth.register''))))))))))))))"

definition login ::
  "service_env \<Rightarrow> json \<Rightarrow> string \<Rightarrow> string option \<Rightarrow> string option \<Rightarrow> (auth_context \<times> issued_session) svc" where
  "login V body request_id user_agent ip_address =
     require_field (body_str ''email'' body) ''login_body_invalid'' (\<lambda>raw_email.
     require_field (body_str ''password'' body) ''login_body_invalid'' (\<lambda>password.
     let email = codes (py_strip raw_email) in
     bindS (drawS (se_clock V)) (\<lambda>now.
     bindS (check_attempts (''login:'' @ ip_text ip_address @ '':'' @ utf8 (casefold email)) now) (\<lambda>_.
     bindS (identity_read (get_principal_by_email email)) (\<lambda>found.
     case found of
       None \<Rightarrow> api_error ''invalid_credentials'' 401
     | Some account \<Rightarrow>
         bindS (identity_read (\<lambda>db. Inr (get_password_hash (pn_principal_id account) db))) (\<lambda>stored_hash.
         if (case stored_hash of None \<Rightarrow> True
             | Some h \<Rightarrow> \<not> pn_active account \<or> \<not> se_verify_password V password h)
         then bindS (audit_identity_event V (pn_organization_id account) (pn_principal_id account) request_id
                       ''auth.login'' ''principal'' (pn_principal_id account) AUDIT_FAILED
                       (Some ''invalid-credentials'')) (\<lambda>_.
                api_error ''invalid_credentials'' 401)
         else bindS (if se_needs_rehash V (the stored_hash)
                     then store_password V (pn_principal_id account) password now else returnS ()) (\<lambda>_.
              bindS (identity_read (get_organization (pn_organization_id account))) (\<lambda>organization.
                sign_in V account organization now user_agent ip_address request_id ''auth.login''))))))))"

definition logout :: "service_env \<Rightarrow> auth_context \<Rightarrow> string \<Rightarrow> unit svc" where
  "logout V context request_id =
     bindS (drawS (se_clock V)) (\<lambda>now.
     bindS (sessionsS (\<lambda>ss. ((), revoke_session (ac_token_id context) (ac_principal_id context) now ss))) (\<lambda>_.
       audit V context request_id ''auth.logout'' ''session'' (ac_token_id context) AUDIT_SUCCEEDED None))"

definition logout_all_sessions :: "service_env \<Rightarrow> auth_context \<Rightarrow> string \<Rightarrow> int svc" where
  "logout_all_sessions V context request_id =
     bindS (drawS (se_clock V)) (\<lambda>now.
     bindS (sessionsS (revoke_all_sessions_for_principal (ac_principal_id context) now None)) (\<lambda>count.
     bindS (audit V context request_id ''auth.logout_all'' ''principal'' (ac_principal_id context) AUDIT_SUCCEEDED None) (\<lambda>_.
       returnS count)))"

definition get_session_info :: "service_env \<Rightarrow> auth_context \<Rightarrow> string \<Rightarrow> (auth_context \<times> browser_session option) svc" where
  "get_session_info V context request_id =
     bindS (if ac_auth_method context = ''browser_session''
            then sessionsS (\<lambda>ss. (get_session (ac_token_id context) ss, ss)) else returnS None) (\<lambda>session.
     bindS (audit V context request_id ''auth.session.read'' ''principal'' (ac_principal_id context) AUDIT_SUCCEEDED None) (\<lambda>_.
       returnS (context, session)))"

section \<open>Passwords and addresses\<close>

definition mail_if_address :: "principal \<Rightarrow> string \<Rightarrow> string option \<Rightarrow> string \<Rightarrow> unit svc" where
  "mail_if_address account subject link category =
     (case pn_email account of
        None \<Rightarrow> returnS ()
      | Some email \<Rightarrow> if email = [] then returnS () else send_mail_best_effort email subject link category)"

definition change_password :: "service_env \<Rightarrow> auth_context \<Rightarrow> json \<Rightarrow> string \<Rightarrow> unit svc" where
  "change_password V context body request_id =
     require_field (body_str ''current_password'' body) ''password_change_body_invalid'' (\<lambda>current_password.
     require_field (body_str ''new_password'' body) ''password_change_body_invalid'' (\<lambda>new_password.
     bindS (identity_read (\<lambda>db. Inr (get_password_hash (ac_principal_id context) db))) (\<lambda>stored_hash.
     if (case stored_hash of None \<Rightarrow> True | Some h \<Rightarrow> \<not> se_verify_password V current_password h)
     then bindS (audit V context request_id ''auth.password_change'' ''principal'' (ac_principal_id context)
                   AUDIT_FAILED (Some ''current-password-incorrect'')) (\<lambda>_.
            api_error ''current_password_incorrect'' 401)
     else
     bindS (check_password new_password) (\<lambda>_.
     bindS (drawS (se_clock V)) (\<lambda>now.
     bindS (store_password V (ac_principal_id context) new_password now) (\<lambda>_.
     bindS (sessionsS (revoke_all_sessions_for_principal (ac_principal_id context) now
              (if ac_auth_method context = ''browser_session'' then Some (ac_token_id context) else None))) (\<lambda>_.
     bindS (identity_read (get_principal (ac_principal_id context))) (\<lambda>principal.
     bindS (mail_if_address principal ''Your WebGuard password was changed''
              (Some (se_web_app_base_url V @ ''/forgot-password'')) ''password_changed'') (\<lambda>_.
       audit V context request_id ''auth.password_change'' ''principal'' (ac_principal_id context) AUDIT_SUCCEEDED None)))))))))"

text \<open>The answer of a request for a reset is a fixed text.\<close>

definition request_password_reset :: "service_env \<Rightarrow> json \<Rightarrow> string \<Rightarrow> string option \<Rightarrow> unit svc" where
  "request_password_reset V body request_id ip_address =
     require_field (body_text ''email'' body) ''password_reset_body_invalid'' (\<lambda>email_text.
     let email = codes email_text in
     bindS (drawS (se_clock V)) (\<lambda>now.
     bindS (check_attempts (''password_reset:'' @ ip_text ip_address @ '':'' @ utf8 (casefold email)) now) (\<lambda>_.
     bindS (identity_read (get_principal_by_email email)) (\<lambda>found.
     case found of
       None \<Rightarrow> returnS ()
     | Some account \<Rightarrow>
         if \<not> pn_active account then returnS ()
         else
         bindS (identityS (invalidate_identity_tokens (pn_principal_id account) PASSWORD_RESET now)) (\<lambda>_.
         bindS (issue_identity_token V (pn_principal_id account) (pn_organization_id account) PASSWORD_RESET
                  PASSWORD_RESET_TOKEN_TTL now) (\<lambda>(_, token).
         bindS (send_mail_best_effort (the (pn_email account)) ''Reset your WebGuard password''
                  (Some (se_web_app_base_url V @ ''/reset-password?token='' @ token)) ''password_reset'') (\<lambda>_.
         bindS (audit_identity_event V (pn_organization_id account) (pn_principal_id account) request_id
                  ''auth.password_reset_requested'' ''principal'' (pn_principal_id account) AUDIT_SUCCEEDED None) (\<lambda>_.
           returnS ()))))))))"

text \<open>The token of a link is used up first.\<close>

definition consume_link_token :: "service_env \<Rightarrow> string \<Rightarrow> token_purpose \<Rightarrow> time \<Rightarrow> identity_token svc" where
  "consume_link_token V token purpose now =
     on_identity_error (\<lambda>code. api_error code 400) (identityS (consume_identity_token (se_kdf V) token purpose now))"

definition confirm_password_reset :: "service_env \<Rightarrow> json \<Rightarrow> string \<Rightarrow> string option \<Rightarrow> unit svc" where
  "confirm_password_reset V body request_id ip_address =
     require_field (body_str ''token'' body) ''password_reset_confirm_body_invalid'' (\<lambda>token.
     require_field (body_str ''new_password'' body) ''password_reset_confirm_body_invalid'' (\<lambda>new_password.
     bindS (check_password new_password) (\<lambda>_.
     bindS (drawS (se_clock V)) (\<lambda>now.
     bindS (check_attempts (''password_reset_confirm:'' @ ip_text ip_address) now) (\<lambda>_.
     bindS (consume_link_token V token PASSWORD_RESET now) (\<lambda>record.
     bindS (store_password V (it_principal_id record) new_password now) (\<lambda>_.
     bindS (sessionsS (revoke_all_sessions_for_principal (it_principal_id record) now None)) (\<lambda>_.
     bindS (identity_read (get_principal (it_principal_id record))) (\<lambda>principal.
     bindS (mail_if_address principal ''Your WebGuard password was reset'' None ''password_changed'') (\<lambda>_.
       audit_identity_event V (it_organization_id record) (it_principal_id record) request_id
         ''auth.password_reset_completed'' ''principal'' (it_principal_id record) AUDIT_SUCCEEDED None))))))))))"

text \<open>Whether a message was sent.\<close>

definition request_email_verification :: "service_env \<Rightarrow> auth_context \<Rightarrow> string \<Rightarrow> bool svc" where
  "request_email_verification V context request_id =
     bindS (drawS (se_clock V)) (\<lambda>now.
     bindS (check_attempts (''email_verify:'' @ ac_principal_id context) now) (\<lambda>_.
     bindS (identity_read (get_principal (ac_principal_id context))) (\<lambda>principal.
     case pn_email principal of
       None \<Rightarrow> api_error ''no_email_on_file'' 400
     | Some email \<Rightarrow>
         if pn_email_verified_at principal \<noteq> None then returnS False
         else
         bindS (identityS (invalidate_identity_tokens (pn_principal_id principal) EMAIL_VERIFICATION now)) (\<lambda>_.
         bindS (issue_identity_token V (pn_principal_id principal) (ac_organization_id context) EMAIL_VERIFICATION
                  EMAIL_VERIFICATION_TOKEN_TTL now) (\<lambda>(_, token).
         bindS (send_mail_best_effort email ''Verify your WebGuard email address''
                  (Some (se_web_app_base_url V @ ''/verify-email?token='' @ token)) ''email_verification'') (\<lambda>_.
         bindS (audit V context request_id ''auth.email_verification_requested'' ''principal''
                  (ac_principal_id context) AUDIT_SUCCEEDED None) (\<lambda>_.
           returnS True)))))))"

definition confirm_email_verification :: "service_env \<Rightarrow> json \<Rightarrow> string \<Rightarrow> string option \<Rightarrow> unit svc" where
  "confirm_email_verification V body request_id ip_address =
     require_field (body_str ''token'' body) ''email_verification_body_invalid'' (\<lambda>token.
     bindS (drawS (se_clock V)) (\<lambda>now.
     bindS (check_attempts (''email_verify_confirm:'' @ ip_text ip_address) now) (\<lambda>_.
     bindS (consume_link_token V token EMAIL_VERIFICATION now) (\<lambda>record.
     bindS (identityS (set_principal_email_verified (it_principal_id record) now)) (\<lambda>_.
       audit_identity_event V (it_organization_id record) (it_principal_id record) request_id ''auth.email_verified''
         ''principal'' (it_principal_id record) AUDIT_SUCCEEDED None)))))"

definition accept_invitation ::
  "service_env \<Rightarrow> json \<Rightarrow> string \<Rightarrow> string option \<Rightarrow> string option \<Rightarrow> (auth_context \<times> issued_session) svc" where
  "accept_invitation V body request_id user_agent ip_address =
     require_field (body_str ''token'' body) ''invitation_accept_body_invalid'' (\<lambda>token.
     require_field (body_str ''password'' body) ''invitation_accept_body_invalid'' (\<lambda>password.
     bindS (check_password password) (\<lambda>_.
     bindS (drawS (se_clock V)) (\<lambda>now.
     bindS (check_attempts (''invitation_accept:'' @ ip_text ip_address) now) (\<lambda>_.
     bindS (consume_link_token V token INVITATION now) (\<lambda>record.
     bindS (store_password V (it_principal_id record) password now) (\<lambda>_.
     bindS (identityS (set_principal_email_verified (it_principal_id record) now)) (\<lambda>_.
     bindS (identity_read (get_principal (it_principal_id record))) (\<lambda>principal.
     bindS (identity_read (get_organization (it_organization_id record))) (\<lambda>organization.
       sign_in V principal organization now user_agent ip_address request_id ''auth.invitation_accepted''))))))))))"

section \<open>The team\<close>

definition role_of :: "string \<Rightarrow> organization_role option" where
  "role_of text =
     (if text = ''owner'' then Some OWNER else if text = ''administrator'' then Some ADMINISTRATOR
      else if text = ''analyst'' then Some ANALYST else if text = ''viewer'' then Some VIEWER else None)"

definition invited_role :: "json \<Rightarrow> organization_role option" where
  "invited_role body =
     (case body_get ''role'' body of None \<Rightarrow> Some VIEWER | Some (JStr text) \<Rightarrow> role_of text | Some _ \<Rightarrow> None)"

definition list_team :: "service_env \<Rightarrow> auth_context \<Rightarrow> string \<Rightarrow> principal list svc" where
  "list_team V context request_id =
     bindS (require_permission V context TEAM_READ request_id ''team.list'' ''organization'' (ac_organization_id context)) (\<lambda>_.
     bindS (identity_read (list_principals (ac_organization_id context))) (\<lambda>members.
     bindS (audit V context request_id ''team.list'' ''organization'' (ac_organization_id context) AUDIT_SUCCEEDED None) (\<lambda>_.
       returnS members)))"

definition invite_team_member :: "service_env \<Rightarrow> auth_context \<Rightarrow> json \<Rightarrow> string \<Rightarrow> principal svc" where
  "invite_team_member V context body request_id =
     bindS (require_permission V context TEAM_MANAGE request_id ''team.invite'' ''principal'' ''pending'') (\<lambda>_.
     require_field (body_text ''display_name'' body) ''team_invite_body_invalid'' (\<lambda>display_name.
     require_field (body_text ''email'' body) ''team_invite_body_invalid'' (\<lambda>email.
     require_field (invited_role body) ''team_invite_role_invalid'' (\<lambda>role.
     guardS (role = OWNER \<and> ac_role context \<noteq> OWNER) (ApiServiceError ''team_owner_role_requires_owner'' 403)
     (bindS (drawS (se_clock V)) (\<lambda>now.
     bindS (drawS (se_uuid V)) (\<lambda>principal_id.
     bindS (on_identity_error (\<lambda>code. api_error code 400)
              (identityS (create_principal principal_id (ac_organization_id context) display_name USER role now
                 (Some (codes email))))) (\<lambda>principal.
     bindS (issue_identity_token V (pn_principal_id principal) (ac_organization_id context) INVITATION
              INVITATION_TOKEN_TTL now) (\<lambda>(_, token).
     bindS (send_mail_best_effort (the (pn_email principal)) ''You've been invited to WebGuard''
              (Some (se_web_app_base_url V @ ''/accept-invitation?token='' @ token)) ''invitation'') (\<lambda>_.
     bindS (audit V context request_id ''team.invite'' ''principal'' (pn_principal_id principal) AUDIT_SUCCEEDED None) (\<lambda>_.
       returnS principal)))))))))))"

definition update_team_member :: "service_env \<Rightarrow> auth_context \<Rightarrow> string \<Rightarrow> json \<Rightarrow> string \<Rightarrow> principal svc" where
  "update_team_member V context principal_id body request_id =
     bindS (require_permission V context TEAM_MANAGE request_id ''team.update'' ''principal'' principal_id) (\<lambda>_.
     guardS (principal_id = ac_principal_id context) (ApiServiceError ''team_cannot_modify_self'' 403)
     (require_field (body_str ''role'' body) ''team_update_body_invalid'' (\<lambda>text.
     require_field (role_of text) ''team_update_role_invalid'' (\<lambda>role.
     bindS (on_identity_error (\<lambda>code. api_error code 404)
              (identity_read (get_principal_scoped principal_id (ac_organization_id context)))) (\<lambda>current.
     guardS ((role = OWNER \<or> pn_role current = OWNER) \<and> ac_role context \<noteq> OWNER)
       (ApiServiceError ''team_owner_role_requires_owner'' 403)
     (bindS (on_identity_error (\<lambda>code. api_error code 404)
               (identityS (update_principal_role principal_id (ac_organization_id context) role))) (\<lambda>updated.
     bindS (drawS (se_clock V)) (\<lambda>now.
     bindS (sessionsS (revoke_all_sessions_for_principal principal_id now None)) (\<lambda>_.
     bindS (audit V context request_id ''team.update'' ''principal'' principal_id AUDIT_SUCCEEDED None) (\<lambda>_.
       returnS updated))))))))))"

definition remove_team_member :: "service_env \<Rightarrow> auth_context \<Rightarrow> string \<Rightarrow> string \<Rightarrow> principal svc" where
  "remove_team_member V context principal_id request_id =
     bindS (require_permission V context TEAM_MANAGE request_id ''team.remove'' ''principal'' principal_id) (\<lambda>_.
     guardS (principal_id = ac_principal_id context) (ApiServiceError ''team_cannot_modify_self'' 403)
     (bindS (on_identity_error (\<lambda>code. api_error code 404)
              (identity_read (get_principal_scoped principal_id (ac_organization_id context)))) (\<lambda>current.
     guardS (pn_role current = OWNER \<and> ac_role context \<noteq> OWNER)
       (ApiServiceError ''team_owner_role_requires_owner'' 403)
     (bindS (on_identity_error (\<lambda>code. api_error code 404)
               (identityS (set_principal_active principal_id (ac_organization_id context) False))) (\<lambda>updated.
     bindS (drawS (se_clock V)) (\<lambda>now.
     bindS (sessionsS (revoke_all_sessions_for_principal principal_id now None)) (\<lambda>_.
     bindS (audit V context request_id ''team.remove'' ''principal'' principal_id AUDIT_SUCCEEDED None) (\<lambda>_.
       returnS updated))))))))"

section \<open>API keys and modules\<close>

definition list_api_keys :: "service_env \<Rightarrow> auth_context \<Rightarrow> string \<Rightarrow> api_token_metadata list svc" where
  "list_api_keys V context request_id =
     bindS (identity_read (list_tokens_for_principal (ac_principal_id context))) (\<lambda>tokens.
     bindS (audit V context request_id ''api_keys.list'' ''principal'' (ac_principal_id context) AUDIT_SUCCEEDED None) (\<lambda>_.
       returnS tokens))"

text \<open>Ninety days, or the integer of the body.\<close>

definition validity_days :: "json \<Rightarrow> int option" where
  "validity_days body =
     (case body_get ''validity_days'' body of
        None \<Rightarrow> Some 90 | Some JNull \<Rightarrow> Some 90 | Some (JInt days) \<Rightarrow> Some days | Some _ \<Rightarrow> None)"

definition create_api_key :: "service_env \<Rightarrow> auth_context \<Rightarrow> json \<Rightarrow> string \<Rightarrow> (api_token_metadata \<times> string) svc" where
  "create_api_key V context body request_id =
     require_field (body_text ''label'' body) ''api_key_body_invalid'' (\<lambda>label.
     require_field (validity_days body) ''api_key_validity_invalid'' (\<lambda>days.
     bindS (drawS (se_clock V)) (\<lambda>now.
     bindS (drawS (se_salt V)) (\<lambda>salt.
     bindS (drawS (se_secret V)) (\<lambda>secret.
     bindS (drawS (se_uuid V)) (\<lambda>token_id.
     bindS (on_identity_error (\<lambda>code. api_error code 400)
              (identityS (create_token (se_kdf V) salt secret token_id (ac_principal_id context) label days now))) (\<lambda>issued.
     bindS (audit V context request_id ''api_keys.create'' ''principal'' (ac_principal_id context) AUDIT_SUCCEEDED None) (\<lambda>_.
       returnS issued))))))))"

definition revoke_api_key :: "service_env \<Rightarrow> auth_context \<Rightarrow> string \<Rightarrow> string \<Rightarrow> api_token_metadata svc" where
  "revoke_api_key V context token_id request_id =
     bindS (drawS (se_clock V)) (\<lambda>now.
     bindS (on_identity_error (\<lambda>code.
              bindS (audit V context request_id ''api_keys.revoke'' ''principal'' (ac_principal_id context)
                       AUDIT_DENIED (Some code)) (\<lambda>_.
                api_error code 404))
              (identityS (revoke_token_owned token_id (ac_principal_id context) now))) (\<lambda>metadata.
     bindS (audit V context request_id ''api_keys.revoke'' ''principal'' (ac_principal_id context) AUDIT_SUCCEEDED None) (\<lambda>_.
       returnS metadata)))"

definition get_settings :: "service_env \<Rightarrow> auth_context \<Rightarrow> string \<Rightarrow> (organization \<times> principal) svc" where
  "get_settings V context request_id =
     bindS (identity_read (get_organization (ac_organization_id context))) (\<lambda>organization.
     bindS (identity_read (get_principal (ac_principal_id context))) (\<lambda>principal.
     bindS (audit V context request_id ''settings.get'' ''organization'' (ac_organization_id context) AUDIT_SUCCEEDED None) (\<lambda>_.
       returnS (organization, principal))))"

definition me :: "service_env \<Rightarrow> auth_context \<Rightarrow> string \<Rightarrow> auth_context svc" where
  "me V context request_id =
     bindS (audit V context request_id ''identity.me.read'' ''principal'' (ac_principal_id context) AUDIT_SUCCEEDED None) (\<lambda>_.
       returnS context)"

definition list_module_entitlements :: "service_env \<Rightarrow> auth_context \<Rightarrow> string \<Rightarrow> module_entitlement list svc" where
  "list_module_entitlements V context request_id =
     bindS (require_permission V context MODULE_ENTITLEMENTS_READ request_id ''module_entitlements.list'' ''organization''
              (ac_organization_id context)) (\<lambda>_.
     bindS (entitlementsS (\<lambda>es. (Inr (list_entitlements (ac_organization_id context) es), es))) (\<lambda>entitlements.
     bindS (audit V context request_id ''module_entitlements.list'' ''organization'' (ac_organization_id context)
              AUDIT_SUCCEEDED None) (\<lambda>_.
       returnS entitlements)))"

definition refuse_module :: "service_env \<Rightarrow> auth_context \<Rightarrow> string \<Rightarrow> string \<Rightarrow> string \<Rightarrow> int \<Rightarrow> 'a svc" where
  "refuse_module V context request_id module_id code status =
     bindS (audit V context request_id ''module_entitlements.manage'' ''module_entitlement'' module_id
              AUDIT_DENIED (Some code)) (\<lambda>_.
       api_error code status)"

definition managed_module :: "string \<Rightarrow> platform_module option" where
  "managed_module module_id =
     (if module_id = ''soc'' then Some SOC else if module_id = ''compliance'' then Some COMPLIANCE else None)"

definition managed_status :: "json \<Rightarrow> entitlement_status option" where
  "managed_status body =
     (if body_str ''status'' body = Some ''enabled'' then Some ENTITLEMENT_ENABLED
      else if body_str ''status'' body = Some ''disabled'' then Some ENTITLEMENT_DISABLED else None)"

definition set_module_entitlement :: "service_env \<Rightarrow> auth_context \<Rightarrow> string \<Rightarrow> json \<Rightarrow> string \<Rightarrow> module_entitlement svc" where
  "set_module_entitlement V context module_id body request_id =
     bindS (require_permission V context MODULE_ENTITLEMENTS_MANAGE request_id ''module_entitlements.manage''
              ''organization'' (ac_organization_id context)) (\<lambda>_.
     if module_id = ''webguard'' then refuse_module V context request_id module_id ''module_entitlement_not_manageable'' 400
     else case managed_module module_id of
       None \<Rightarrow> refuse_module V context request_id module_id ''module_entitlement_unknown'' 400
     | Some platform \<Rightarrow>
         (case managed_status body of
            None \<Rightarrow> refuse_module V context request_id module_id ''module_entitlement_body_invalid'' 400
          | Some status \<Rightarrow>
              bindS (drawS (se_clock V)) (\<lambda>now.
              bindS (catchS (entitlementsS (set_entitlement (ac_organization_id context) platform status now
                               (Some (ac_principal_id context)))) (\<lambda>e.
                       case e of
                         ModuleEntitlementError code \<Rightarrow> refuse_module V context request_id module_id code 404
                       | _ \<Rightarrow> raiseS e)) (\<lambda>entitlement.
              bindS (audit V context request_id ''module_entitlements.manage'' ''module_entitlement'' module_id
                       AUDIT_SUCCEEDED (Some (entitlement_status_value (me_status entitlement)))) (\<lambda>_.
                returnS entitlement)))))"

end
