(* ===== verification/Service_Jobs.thy ===== *)
theory Service_Jobs
  imports Service_Core
begin

text \<open>
  The handlers of the service that deal with scans: permits, jobs, schedules, and the revocation of
  authentication contexts and comparison plans. A handler that loads a document takes what the
  loader of the contract package makes of it, a submission or its error. A handler that returns a
  dictionary returns here the records that the dictionary prints.
\<close>

section \<open>Common steps\<close>

definition authorization_assigned_to :: "string \<Rightarrow> string \<Rightarrow> identity_db \<Rightarrow> bool" where
  "authorization_assigned_to organization_id authorization_id db \<longleftrightarrow>
     list_ex (\<lambda>(o1, a, _). o1 = organization_id \<and> a = authorization_id) (assigned_authorizations db)"

definition on_authorization_error :: "'a svc \<Rightarrow> 'a svc" where
  "on_authorization_error m =
     catchS m (\<lambda>e. case e of
         AuthorizationRepositoryError code \<Rightarrow> api_error code (if code = ''authorization_not_found'' then 404 else 500)
       | _ \<Rightarrow> raiseS e)"

text \<open>The authorization of a submission: assigned to the organization, present, and for the target.\<close>

definition find_authorization :: "service_env \<Rightarrow> string \<Rightarrow> owned_target_authorization svc" where
  "find_authorization V authorization_id =
     on_authorization_error (resultS (authorization_get (se_authorizations V) authorization_id))"

definition find_permit_record :: "service_env \<Rightarrow> auth_context \<Rightarrow> string \<Rightarrow> persisted_permit svc" where
  "find_permit_record V context permit_id =
     on_store_error (\<lambda>code. api_error code (if code = ''trustscan_permit_not_found'' then 404 else 500))
       (store_read (get_scan_permit_scoped (se_py V) permit_id (ac_organization_id context)))"

definition permit_error_status :: "string \<Rightarrow> int" where
  "permit_error_status code =
     (if code = ''trustscan_permit_organization_mismatch'' then 404
      else if code \<in> {''trustscan_permit_revoked'', ''trustscan_permit_pending'', ''trustscan_permit_expired'',
                      ''trustscan_permit_mode_not_allowed''} then 403
      else 400)"

definition on_permit_error :: "(string \<Rightarrow> int) \<Rightarrow> 'a svc \<Rightarrow> 'a svc" where
  "on_permit_error status m =
     catchS m (\<lambda>e. case e of TrustScanPermitError code \<Rightarrow> api_error code (status code) | _ \<Rightarrow> raiseS e)"

definition validate_permit_now ::
  "service_env \<Rightarrow> auth_context \<Rightarrow> string \<Rightarrow> owned_target_authorization \<Rightarrow> string \<Rightarrow> scan_job_mode \<Rightarrow> persisted_permit svc" where
  "validate_permit_now V context permit_id authorization target mode =
     bindS (find_permit_record V context permit_id) (\<lambda>record.
     bindS (drawS (se_clock V)) (\<lambda>now.
     bindS (on_permit_error permit_error_status (resultS (validate_permit_use (se_py V) (se_signer V) record
              (ac_organization_id context) authorization target mode now))) (\<lambda>_.
       returnS record)))"

definition internal_idempotency_key :: "service_env \<Rightarrow> auth_context \<Rightarrow> string \<Rightarrow> string" where
  "internal_idempotency_key V context client_key =
     ''tenant-'' @ se_sha256 V (ac_organization_id context @ '':'' @ client_key)"

section \<open>Permits\<close>

record permit_submission =
  ps_target :: string
  ps_authorization_id :: string
  ps_confirmation :: string
  ps_permitted_modes :: "scan_job_mode list"
  ps_allowed_http_methods :: "string list"
  ps_not_before :: time
  ps_expires_at :: time
  ps_maximum_request_attempts :: int
  ps_maximum_requests_per_second :: rat
  ps_maximum_concurrency :: int
  ps_active_checks :: "string list"
  ps_authentication_context_id :: "string option"
  ps_authorization_comparison_plan_id :: "string option"

definition TrustScanPermitSubmission_post_init :: "py_env \<Rightarrow> permit_submission \<Rightarrow> permit_submission result" where
  "TrustScanPermitSubmission_post_init E p =
     bindE (permit_target E (ps_target p)) (\<lambda>target.
     bindE (permit_uuid (ps_authorization_id p)) (\<lambda>authorization_id.
     bindE (permit_uuid (ps_confirmation p)) (\<lambda>confirmation.
     raise_if (confirmation \<noteq> authorization_id) (pv_error ''trustscan_permit_authorization_confirmation_mismatch'')
     (bindE (permit_modes (ps_permitted_modes p)) (\<lambda>modes.
      bindE (permit_http_methods (ps_allowed_http_methods p)) (\<lambda>methods.
      raise_if (ps_expires_at p \<le> ps_not_before p) (pv_error ''trustscan_permit_window_invalid'')
      (raise_if (ps_expires_at p - ps_not_before p > maximum_permit_validity) (pv_error ''trustscan_permit_window_too_long'')
      (bindE (permit_positive_integer 150 (ps_maximum_request_attempts p)) (\<lambda>attempts.
       bindE (permit_requests_per_second (ps_maximum_requests_per_second p)) (\<lambda>rate.
       bindE (permit_positive_integer 1 (ps_maximum_concurrency p)) (\<lambda>concurrency.
       bindE (permit_active_checks (ps_active_checks p)) (\<lambda>checks.
       bindE (mapE_option permit_uuid (ps_authentication_context_id p)) (\<lambda>context_id.
       bindE (mapE_option permit_uuid (ps_authorization_comparison_plan_id p)) (\<lambda>plan_id.
         Inr (p\<lparr>ps_target := target, ps_authorization_id := authorization_id, ps_confirmation := confirmation,
                ps_permitted_modes := modes, ps_allowed_http_methods := methods,
                ps_maximum_request_attempts := attempts, ps_maximum_requests_per_second := rate,
                ps_maximum_concurrency := concurrency, ps_active_checks := checks,
                ps_authentication_context_id := context_id, ps_authorization_comparison_plan_id := plan_id\<rparr>)))))))))))))))"

text \<open>The parts of \<^verbatim>\<open>issue_permit\<close>: the loading of the body, with an audit event for a failure.\<close>

definition load_or_fail ::
  "service_env \<Rightarrow> auth_context \<Rightarrow> string \<Rightarrow> string \<Rightarrow> string \<Rightarrow> (exn \<Rightarrow> string option) \<Rightarrow> 'a result \<Rightarrow> 'a svc" where
  "load_or_fail V context request_id action resource_type code_of loaded =
     catchS (resultS loaded) (\<lambda>e.
       case code_of e of
         None \<Rightarrow> raiseS e
       | Some code \<Rightarrow>
           bindS (audit V context request_id action resource_type ''pending'' AUDIT_FAILED (Some code)) (\<lambda>_.
             api_error code 400))"

definition permit_load_code :: "exn \<Rightarrow> string option" where
  "permit_load_code e = (case e of TrustScanPermitLoadError code \<Rightarrow> Some code | _ \<Rightarrow> None)"

definition job_load_code :: "exn \<Rightarrow> string option" where
  "job_load_code e = (case e of ScanJobLoadError code \<Rightarrow> Some code | _ \<Rightarrow> None)"

definition schedule_load_code :: "exn \<Rightarrow> string option" where
  "schedule_load_code e = (case e of ScanScheduleLoadError code \<Rightarrow> Some code | _ \<Rightarrow> None)"

definition require_issue_rights :: "service_env \<Rightarrow> auth_context \<Rightarrow> string \<Rightarrow> permit_submission \<Rightarrow> unit svc" where
  "require_issue_rights V context request_id submission =
     bindS (if ps_active_checks submission = [] then returnS ()
            else require_permission V context PERMIT_ISSUE_ACTIVE request_id ''permits.issue_active''
                   ''trustscan_permit'' ''pending'') (\<lambda>_.
     bindS (if ps_authentication_context_id submission = None then returnS ()
            else require_permission V context AUTHENTICATION_CONTEXT_REGISTER request_id ''permits.issue_authenticated''
                   ''trustscan_permit'' ''pending'') (\<lambda>_.
     if ps_authorization_comparison_plan_id submission = None then returnS ()
     else require_permission V context AUTHORIZATION_COMPARISON_REGISTER request_id
            ''permits.issue_authorization_comparison'' ''trustscan_permit'' ''pending''))"

definition check_issue_limits :: "permit_submission \<Rightarrow> owned_target_authorization \<Rightarrow> time \<Rightarrow> unit svc" where
  "check_issue_limits submission authorization now =
     guardS (oa_target authorization \<noteq> ps_target submission) (ApiServiceError ''authorization_target_mismatch'' 400)
     (guardS (\<not> (oa_issued_at authorization \<le> now \<and> now < oa_expires_at authorization))
       (ApiServiceError ''authorization_not_current'' 400)
     (guardS (ps_not_before submission < now) (ApiServiceError ''trustscan_permit_start_in_past'' 400)
     (guardS (ps_expires_at submission > oa_expires_at authorization)
       (ApiServiceError ''trustscan_permit_exceeds_authorization'' 400)
     (guardS (ps_maximum_request_attempts submission > lim_maximum_request_attempts (oa_limits authorization))
       (ApiServiceError ''trustscan_permit_request_budget_too_high'' 400)
     (guardS (ps_maximum_requests_per_second submission
              > 1 / lim_minimum_delay_seconds (oa_limits authorization) + 1 / 10 ^ 12)
       (ApiServiceError ''trustscan_permit_rate_too_high'' 400)
     (returnS ()))))))"

definition check_issue_references ::
  "auth_context \<Rightarrow> permit_submission \<Rightarrow> owned_target_authorization \<Rightarrow> time \<Rightarrow> unit svc" where
  "check_issue_references context submission authorization now =
     bindS (case ps_authentication_context_id submission of
              None \<Rightarrow> returnS ()
            | Some i \<Rightarrow>
                catchS (contextsS (\<lambda>cs. (bindE (context_require_bound i (ac_organization_id context) (ps_target submission)
                            (oa_authorization_id authorization) now cs) (\<lambda>_. Inr ()), cs)))
                  (\<lambda>e. case e of AuthenticationContextError code \<Rightarrow> api_error code 400 | _ \<Rightarrow> raiseS e)) (\<lambda>_.
     case ps_authorization_comparison_plan_id submission of
       None \<Rightarrow> returnS ()
     | Some i \<Rightarrow>
         bindS (catchS (plansS (\<lambda>ps. (plan_require_bound i (ac_organization_id context) (ps_target submission)
                            (oa_authorization_id authorization) now ps, ps)))
                  (\<lambda>e. case e of AuthorizationComparisonError code \<Rightarrow> api_error code 400 | _ \<Rightarrow> raiseS e)) (\<lambda>plan.
         guardS (cp_permitted_active_check plan \<notin> set (ps_active_checks submission))
           (ApiServiceError ''authorization_comparison_check_not_requested'' 400) (returnS ())))"

definition issued_claims ::
  "service_env \<Rightarrow> auth_context \<Rightarrow> permit_submission \<Rightarrow> owned_target_authorization \<Rightarrow> string \<Rightarrow> time \<Rightarrow> permit_claims" where
  "issued_claims V context submission authorization permit_id now =
     \<lparr>pc_permit_id = permit_id, pc_organization_id = ac_organization_id context,
      pc_authorization_id = oa_authorization_id authorization,
      pc_authorization_sha256 = authorization_fingerprint (se_py V) authorization, pc_target = ps_target submission,
      pc_issued_by = ac_principal_id context, pc_issued_at = now, pc_not_before = ps_not_before submission,
      pc_expires_at = ps_expires_at submission, pc_permitted_modes = ps_permitted_modes submission,
      pc_allowed_http_methods = ps_allowed_http_methods submission,
      pc_maximum_request_attempts = ps_maximum_request_attempts submission,
      pc_maximum_requests_per_second = ps_maximum_requests_per_second submission,
      pc_maximum_concurrency = ps_maximum_concurrency submission,
      pc_prohibited_operations = TRUSTSCAN_PROHIBITED_OPERATIONS, pc_active_checks = ps_active_checks submission,
      pc_authentication_context_id = ps_authentication_context_id submission,
      pc_authorization_comparison_plan_id = ps_authorization_comparison_plan_id submission\<rparr>"

definition sign_and_store :: "service_env \<Rightarrow> permit_claims \<Rightarrow> (permit_claims \<times> persisted_permit) svc" where
  "sign_and_store V claims0 =
     catchS (bindS (resultS (TrustScanPermitClaims_post_init (se_py V) claims0)) (\<lambda>claims.
             bindS (resultS (signer_sign (se_signer V) claims)) (\<lambda>signed.
             bindS (storeS (create_scan_permit (se_py V) signed)) (\<lambda>record.
               returnS (claims, record)))))
       (\<lambda>e. case e of
           TrustScanPermitValidationError code \<Rightarrow> api_error code 400
         | TrustScanPermitError code \<Rightarrow> api_error code 400
         | JobStoreError code \<Rightarrow> api_error code (if code = ''trustscan_permit_conflict'' then 409 else 500)
         | _ \<Rightarrow> raiseS e)"

text \<open>\<^verbatim>\<open>_active_checks_audit_detail\<close> and the suffixes for the references of a permit.\<close>

fun join_text :: "string \<Rightarrow> string list \<Rightarrow> string" where
  "join_text separator [] = []"
| "join_text separator [x] = x"
| "join_text separator (x # y # ys) = x @ separator @ join_text separator (y # ys)"

definition active_checks_audit_detail :: "string list \<Rightarrow> string option" where
  "active_checks_audit_detail checks =
     (if checks = [] then None
      else (let detail = ''active_checks_'' @ join_text ''_and_'' (sort checks) in
            Some (if length detail > 128 then ''active_checks_authorized'' else detail)))"

definition with_suffix :: "bool \<Rightarrow> string \<Rightarrow> string \<Rightarrow> string option \<Rightarrow> string option" where
  "with_suffix b suffix alone detail =
     (if \<not> b then detail
      else Some (case detail of None \<Rightarrow> alone | Some d \<Rightarrow> if d = [] then alone else d @ suffix))"

definition issue_detail :: "permit_claims \<Rightarrow> string option" where
  "issue_detail claims =
     with_suffix (pc_authorization_comparison_plan_id claims \<noteq> None) ''_and_comparison'' ''authorization_comparison_authorized''
       (with_suffix (pc_authentication_context_id claims \<noteq> None) ''_and_authenticated'' ''authenticated_scan_authorized''
         (active_checks_audit_detail (pc_active_checks claims)))"

definition issue_permit ::
  "service_env \<Rightarrow> auth_context \<Rightarrow> permit_submission result \<Rightarrow> string \<Rightarrow> persisted_permit svc" where
  "issue_permit V context loaded request_id =
     bindS (require_permission V context PERMIT_ISSUE request_id ''permits.issue'' ''trustscan_permit'' ''pending'') (\<lambda>_.
     bindS (load_or_fail V context request_id ''permits.issue'' ''trustscan_permit'' permit_load_code loaded) (\<lambda>submission.
     bindS (require_issue_rights V context request_id submission) (\<lambda>_.
     bindS (identity_read (\<lambda>db. Inr (authorization_assigned_to (ac_organization_id context) (ps_authorization_id submission) db))) (\<lambda>ok.
     guardS (\<not> ok) (ApiServiceError ''authorization_not_found'' 404)
     (bindS (find_authorization V (ps_authorization_id submission)) (\<lambda>authorization.
     bindS (drawS (se_clock V)) (\<lambda>now.
     bindS (check_issue_limits submission authorization now) (\<lambda>_.
     bindS (check_issue_references context submission authorization now) (\<lambda>_.
     bindS (drawS (se_uuid V)) (\<lambda>permit_id.
     bindS (sign_and_store V (issued_claims V context submission authorization permit_id now)) (\<lambda>(claims, record).
     bindS (audit V context request_id ''permits.issue'' ''trustscan_permit'' (pc_permit_id claims) AUDIT_SUCCEEDED
              (issue_detail claims)) (\<lambda>_.
       returnS record))))))))))))"

definition get_permit :: "service_env \<Rightarrow> auth_context \<Rightarrow> string \<Rightarrow> string \<Rightarrow> persisted_permit svc" where
  "get_permit V context permit_id request_id =
     bindS (require_permission V context PERMIT_READ request_id ''permits.read'' ''trustscan_permit'' permit_id) (\<lambda>_.
     bindS (find_permit_record V context permit_id) (\<lambda>record.
     bindS (on_permit_error (\<lambda>_. 500) (resultS (signer_verify (se_signer V) (pp_permit record)))) (\<lambda>_.
     bindS (audit V context request_id ''permits.read'' ''trustscan_permit'' permit_id AUDIT_SUCCEEDED None) (\<lambda>_.
       returnS record))))"

definition revoke_permit :: "service_env \<Rightarrow> auth_context \<Rightarrow> string \<Rightarrow> string \<Rightarrow> persisted_permit svc" where
  "revoke_permit V context permit_id request_id =
     bindS (require_permission V context PERMIT_REVOKE request_id ''permits.revoke'' ''trustscan_permit'' permit_id) (\<lambda>_.
     bindS (drawS (se_clock V)) (\<lambda>now.
     bindS (on_store_error (\<lambda>code. api_error code (if code = ''trustscan_permit_not_found'' then 404 else 500))
              (storeS (revoke_scan_permit_scoped (se_py V) permit_id (ac_organization_id context)
                 (ac_principal_id context) now))) (\<lambda>record.
     bindS (audit V context request_id ''permits.revoke'' ''trustscan_permit'' permit_id AUDIT_SUCCEEDED None) (\<lambda>_.
       returnS record))))"

definition revoke_authentication_context :: "service_env \<Rightarrow> auth_context \<Rightarrow> string \<Rightarrow> string \<Rightarrow> scan_identity svc" where
  "revoke_authentication_context V context context_id request_id =
     bindS (require_permission V context AUTHENTICATION_CONTEXT_REVOKE request_id ''authentication_contexts.revoke''
              ''authentication_context'' context_id) (\<lambda>_.
     bindS (drawS (se_clock V)) (\<lambda>now.
     bindS (catchS (contextsS (context_revoke_scoped context_id (ac_organization_id context) now)) (\<lambda>e.
              case e of
                AuthenticationContextError code \<Rightarrow>
                  api_error code (if code = ''authentication_context_not_found'' then 404 else 400)
              | _ \<Rightarrow> raiseS e)) (\<lambda>record.
     bindS (audit V context request_id ''authentication_contexts.revoke'' ''authentication_context'' context_id
              AUDIT_SUCCEEDED None) (\<lambda>_.
       returnS record))))"

definition revoke_authorization_comparison_plan ::
  "service_env \<Rightarrow> auth_context \<Rightarrow> string \<Rightarrow> string \<Rightarrow> comparison_plan svc" where
  "revoke_authorization_comparison_plan V context plan_id request_id =
     bindS (require_permission V context AUTHORIZATION_COMPARISON_REVOKE request_id ''authorization_comparisons.revoke''
              ''authorization_comparison_plan'' plan_id) (\<lambda>_.
     bindS (drawS (se_clock V)) (\<lambda>now.
     bindS (catchS (plansS (plan_revoke_scoped plan_id (ac_organization_id context) now)) (\<lambda>e.
              case e of
                AuthorizationComparisonError code \<Rightarrow>
                  api_error code (if code = ''authorization_comparison_plan_not_found'' then 404 else 400)
              | _ \<Rightarrow> raiseS e)) (\<lambda>record.
     bindS (audit V context request_id ''authorization_comparisons.revoke'' ''authorization_comparison_plan'' plan_id
              AUDIT_SUCCEEDED None) (\<lambda>_.
       returnS record))))"

section \<open>Jobs\<close>

text \<open>A record with the permit it is bound to.\<close>

definition public_job :: "scan_job_record \<Rightarrow> auth_context \<Rightarrow> (scan_job_record \<times> (string \<times> string) option) svc" where
  "public_job record context =
     store_read (\<lambda>db. Inr (record, get_job_permit_binding_scoped (jb_job_id record) (ac_organization_id context) db))"

definition public_schedule :: "schedule_record \<Rightarrow> auth_context \<Rightarrow> (schedule_record \<times> (string \<times> string) option) svc" where
  "public_schedule record context =
     store_read (\<lambda>db. Inr (record, get_schedule_permit_binding_scoped (sc_schedule_id record) (ac_organization_id context) db))"

text \<open>The request under the client's key, which is only checked, and under the key of the tenant.\<close>

definition job_request ::
  "service_env \<Rightarrow> scan_job_submission \<Rightarrow> owned_target_authorization \<Rightarrow> time \<Rightarrow> string \<Rightarrow> scan_job_request result" where
  "job_request V submission authorization submitted_at key =
     ScanJobRequest_post_init (se_py V)
       \<lparr>rq_idempotency_key = key, rq_target = ss_target submission, rq_authorization_id = ss_authorization_id submission,
        rq_authorization_sha256 = authorization_fingerprint (se_py V) authorization, rq_mode = ss_mode submission,
        rq_submitted_at = submitted_at\<rparr>"

definition tenant_request ::
  "service_env \<Rightarrow> auth_context \<Rightarrow> scan_job_submission \<Rightarrow> owned_target_authorization \<Rightarrow> time \<Rightarrow> string \<Rightarrow> scan_job_request svc" where
  "tenant_request V context submission authorization submitted_at client_key =
     catchS (bindS (resultS (job_request V submission authorization submitted_at client_key)) (\<lambda>_.
               resultS (job_request V submission authorization submitted_at (internal_idempotency_key V context client_key))))
       (\<lambda>e. case e of ScanJobValidationError code \<Rightarrow> api_error code 400 | _ \<Rightarrow> raiseS e)"

definition submit_scan ::
  "service_env \<Rightarrow> auth_context \<Rightarrow> scan_job_submission result \<Rightarrow> string \<Rightarrow> string \<Rightarrow> string
   \<Rightarrow> ((scan_job_record \<times> (string \<times> string) option) \<times> bool) svc" where
  "submit_scan V context loaded idempotency_key permit_id request_id =
     bindS (require_permission V context JOB_SUBMIT request_id ''jobs.submit'' ''scan_job'' ''pending'') (\<lambda>_.
     bindS (load_or_fail V context request_id ''jobs.submit'' ''scan_job'' job_load_code loaded) (\<lambda>submission.
     bindS (identity_read (\<lambda>db. Inr (authorization_assigned_to (ac_organization_id context) (ss_authorization_id submission) db))) (\<lambda>ok.
     if \<not> ok
     then bindS (audit V context request_id ''jobs.submit'' ''authorization'' (ss_authorization_id submission)
                   AUDIT_DENIED (Some ''authorization_not_assigned'')) (\<lambda>_.
            api_error ''authorization_not_found'' 404)
     else
     bindS (find_authorization V (ss_authorization_id submission)) (\<lambda>authorization.
     guardS (oa_target authorization \<noteq> ss_target submission) (ApiServiceError ''authorization_target_mismatch'' 400)
     (bindS (validate_permit_now V context permit_id authorization (ss_target submission) (ss_mode submission)) (\<lambda>permit.
     bindS (drawS (se_clock V)) (\<lambda>submitted_at.
     bindS (tenant_request V context submission authorization submitted_at idempotency_key) (\<lambda>request.
     bindS (drawS (se_uuid V)) (\<lambda>job_id.
     bindS (on_store_error (\<lambda>code. api_error code (if code = ''job_idempotency_conflict'' then 409 else 500))
              (storeS (submit (se_py V) request job_id (Some (ac_organization_id context)) (Some (ac_principal_id context))
                 (Some (pc_permit_id (sp_claims (pp_permit permit))))
                 (Some (permit_fingerprint (se_py V) (sp_claims (pp_permit permit))))))) (\<lambda>(record, created).
     bindS (audit V context request_id ''jobs.submit'' ''scan_job'' (jb_job_id record) AUDIT_SUCCEEDED None) (\<lambda>_.
     bindS (public_job record context) (\<lambda>payload.
       returnS (payload, created)))))))))))))"

definition get_scan :: "service_env \<Rightarrow> auth_context \<Rightarrow> string \<Rightarrow> string \<Rightarrow> (scan_job_record \<times> (string \<times> string) option) svc" where
  "get_scan V context job_id request_id =
     bindS (require_permission V context JOB_READ request_id ''jobs.read'' ''scan_job'' job_id) (\<lambda>_.
     bindS (on_store_error (\<lambda>code.
              bindS (audit V context request_id ''jobs.read'' ''scan_job'' job_id
                       (if code = ''job_not_found'' then AUDIT_DENIED else AUDIT_FAILED) (Some code)) (\<lambda>_.
                api_error code (if code = ''job_not_found'' then 404 else 500)))
              (store_read (get_scoped (se_py V) job_id (ac_organization_id context)))) (\<lambda>record.
     bindS (audit V context request_id ''jobs.read'' ''scan_job'' job_id AUDIT_SUCCEEDED None) (\<lambda>_.
       public_job record context)))"

definition cancel_scan :: "service_env \<Rightarrow> auth_context \<Rightarrow> string \<Rightarrow> string \<Rightarrow> (scan_job_record \<times> (string \<times> string) option) svc" where
  "cancel_scan V context job_id request_id =
     bindS (require_permission V context JOB_CANCEL request_id ''jobs.cancel'' ''scan_job'' job_id) (\<lambda>_.
     bindS (drawS (se_clock V)) (\<lambda>now.
     bindS (on_store_error (\<lambda>code. api_error code (if code = ''job_not_found'' then 404 else 500))
              (storeS (request_cancellation_scoped (se_py V) job_id (ac_organization_id context) now))) (\<lambda>record.
     bindS (audit V context request_id ''jobs.cancel'' ''scan_job'' job_id AUDIT_SUCCEEDED None) (\<lambda>_.
       public_job record context))))"

definition scan_result ::
  "service_env \<Rightarrow> auth_context \<Rightarrow> string \<Rightarrow> string
   \<Rightarrow> (scan_job_record \<times> (string \<times> string) option \<times> (string \<times> string) option) svc" where
  "scan_result V context job_id request_id =
     bindS (require_permission V context JOB_READ request_id ''jobs.result.read'' ''scan_job'' job_id) (\<lambda>_.
     bindS (on_store_error (\<lambda>code. api_error code (if code = ''job_not_found'' then 404 else 500))
              (store_read (get_scoped (se_py V) job_id (ac_organization_id context)))) (\<lambda>record.
     guardS (\<not> is_terminal (jb_state record)) (ApiServiceError ''job_result_not_ready'' 409)
     (bindS (audit V context request_id ''jobs.result.read'' ''scan_job'' job_id AUDIT_SUCCEEDED None) (\<lambda>_.
       store_read (\<lambda>db. Inr (record, get_job_permit_binding_scoped job_id (ac_organization_id context) db,
                             get_job_safety_receipt_scoped job_id (ac_organization_id context) db))))))"

section \<open>Schedules\<close>

record schedule_submission =
  sb_name :: string
  sb_target :: string
  sb_authorization_id :: string
  sb_confirmation :: string
  sb_mode :: scan_job_mode
  sb_interval_seconds :: int
  sb_starts_at :: time

definition ScanScheduleSubmission_post_init :: "py_env \<Rightarrow> schedule_submission \<Rightarrow> schedule_submission result" where
  "ScanScheduleSubmission_post_init E p =
     bindE (schedule_required_text 120 (sb_name p)) (\<lambda>name.
     bindE (schedule_target E (sb_target p)) (\<lambda>target.
     bindE (schedule_uuid (sb_authorization_id p)) (\<lambda>authorization_id.
     bindE (schedule_uuid (sb_confirmation p)) (\<lambda>confirmation.
     raise_if (confirmation \<noteq> authorization_id) (sv_error ''scan_schedule_authorization_confirmation_mismatch'')
     (bindE (schedule_interval (sb_interval_seconds p)) (\<lambda>interval.
       Inr (p\<lparr>sb_name := name, sb_target := target, sb_authorization_id := authorization_id,
              sb_confirmation := confirmation, sb_interval_seconds := interval\<rparr>)))))))"

definition create_scan_schedule ::
  "service_env \<Rightarrow> auth_context \<Rightarrow> schedule_submission result \<Rightarrow> string \<Rightarrow> string
   \<Rightarrow> (schedule_record \<times> (string \<times> string) option) svc" where
  "create_scan_schedule V context loaded permit_id request_id =
     bindS (require_permission V context SCHEDULE_CREATE request_id ''schedules.create'' ''scan_schedule'' ''pending'') (\<lambda>_.
     bindS (load_or_fail V context request_id ''schedules.create'' ''scan_schedule'' schedule_load_code loaded) (\<lambda>submission.
     bindS (identity_read (\<lambda>db. Inr (authorization_assigned_to (ac_organization_id context) (sb_authorization_id submission) db))) (\<lambda>ok.
     guardS (\<not> ok) (ApiServiceError ''authorization_not_found'' 404)
     (bindS (find_authorization V (sb_authorization_id submission)) (\<lambda>authorization.
     guardS (oa_target authorization \<noteq> sb_target submission) (ApiServiceError ''authorization_target_mismatch'' 400)
     (bindS (find_permit_record V context permit_id) (\<lambda>permit.
     bindS (on_permit_error permit_error_status (resultS (validate_permit_scope (se_py V) (se_signer V) permit
              (ac_organization_id context) authorization (sb_target submission) (sb_mode submission)))) (\<lambda>_.
     bindS (drawS (se_clock V)) (\<lambda>now.
     guardS (sb_starts_at submission < now) (ApiServiceError ''schedule_start_in_past'' 400)
     (guardS (sb_starts_at submission > now + 365 * 86400 * microseconds) (ApiServiceError ''schedule_start_too_distant'' 400)
     (guardS (\<not> (pc_not_before (sp_claims (pp_permit permit)) \<le> sb_starts_at submission
                  \<and> sb_starts_at submission < pc_expires_at (sp_claims (pp_permit permit))))
       (ApiServiceError ''trustscan_schedule_outside_permit_window'' 400)
     (bindS (drawS (se_uuid V)) (\<lambda>schedule_id.
     bindS (catchS (storeS (create_schedule (se_py V) (ac_organization_id context) (ac_principal_id context)
                (sb_name submission) (sb_target submission) (sb_authorization_id submission)
                (authorization_fingerprint (se_py V) authorization) (sb_mode submission) (sb_interval_seconds submission)
                (sb_starts_at submission) now schedule_id (Some (pc_permit_id (sp_claims (pp_permit permit))))
                (Some (permit_fingerprint (se_py V) (sp_claims (pp_permit permit)))))) (\<lambda>e.
              case e of
                JobStoreError code \<Rightarrow> api_error code (if code = ''schedule_conflict'' then 409 else 500)
              | ScanScheduleValidationError code \<Rightarrow> api_error code (if code = ''schedule_conflict'' then 409 else 500)
              | _ \<Rightarrow> raiseS e)) (\<lambda>record.
     bindS (audit V context request_id ''schedules.create'' ''scan_schedule'' (sc_schedule_id record) AUDIT_SUCCEEDED None) (\<lambda>_.
       public_schedule record context)))))))))))))))"

definition get_scan_schedule ::
  "service_env \<Rightarrow> auth_context \<Rightarrow> string \<Rightarrow> string \<Rightarrow> (schedule_record \<times> (string \<times> string) option) svc" where
  "get_scan_schedule V context schedule_id request_id =
     bindS (require_permission V context SCHEDULE_READ request_id ''schedules.read'' ''scan_schedule'' schedule_id) (\<lambda>_.
     bindS (on_store_error (\<lambda>code. api_error code (if code = ''schedule_not_found'' then 404 else 500))
              (store_read (get_schedule_scoped (se_py V) schedule_id (ac_organization_id context)))) (\<lambda>record.
     bindS (audit V context request_id ''schedules.read'' ''scan_schedule'' schedule_id AUDIT_SUCCEEDED None) (\<lambda>_.
       public_schedule record context)))"

definition update_schedule_state ::
  "service_env \<Rightarrow> auth_context \<Rightarrow> string \<Rightarrow> string \<Rightarrow> string \<Rightarrow> bool \<Rightarrow> (schedule_record \<times> (string \<times> string) option) svc" where
  "update_schedule_state V context schedule_id request_id action resume =
     bindS (require_permission V context SCHEDULE_UPDATE request_id action ''scan_schedule'' schedule_id) (\<lambda>_.
     bindS (drawS (se_clock V)) (\<lambda>now.
     bindS (on_store_error (\<lambda>code. api_error code (if code = ''schedule_not_found'' then 404 else 500))
              (storeS (if resume then resume_schedule_scoped (se_py V) schedule_id (ac_organization_id context) now
                       else pause_schedule_scoped (se_py V) schedule_id (ac_organization_id context) now))) (\<lambda>record.
     bindS (audit V context request_id action ''scan_schedule'' schedule_id AUDIT_SUCCEEDED None) (\<lambda>_.
       public_schedule record context))))"

definition pause_scan_schedule where
  "pause_scan_schedule V context schedule_id request_id =
     update_schedule_state V context schedule_id request_id ''schedules.pause'' False"

definition resume_scan_schedule where
  "resume_scan_schedule V context schedule_id request_id =
     update_schedule_state V context schedule_id request_id ''schedules.resume'' True"

end
