(* ===== verification/Service_Assets.thy ===== *)
theory Service_Assets
  imports Service_Jobs
begin

text \<open>
  The handlers of the service for assets and the verification of their ownership, findings, scan records and reports. As
  everywhere, a handler returns the records that its dictionary prints.
\<close>

section \<open>Common steps\<close>

fun target_code :: "exn \<Rightarrow> string option" where
  "target_code (TargetRepositoryError code) = Some code"
| "target_code _ = None"

fun finding_code :: "exn \<Rightarrow> string option" where
  "finding_code (FindingStoreError code) = Some code"
| "finding_code _ = None"

fun scan_code :: "exn \<Rightarrow> string option" where
  "scan_code (ScanStoreError code) = Some code"
| "scan_code _ = None"

fun report_code :: "exn \<Rightarrow> string option" where
  "report_code (ReportStoreError code) = Some code"
| "report_code _ = None"

fun artifact_code :: "exn \<Rightarrow> string option" where
  "artifact_code (ArtifactStoreError code) = Some code"
| "artifact_code _ = None"

fun verification_code :: "exn \<Rightarrow> string option" where
  "verification_code (TargetVerificationError code) = Some code"
| "verification_code _ = None"

text \<open>An exception of a repository becomes an error of the service, with or without an audit event.\<close>

definition translated :: "(exn \<Rightarrow> string option) \<Rightarrow> (string \<Rightarrow> int) \<Rightarrow> 'a svc \<Rightarrow> 'a svc" where
  "translated code_of status m =
     catchS m (\<lambda>e. case code_of e of None \<Rightarrow> raiseS e | Some code \<Rightarrow> api_error code (status code))"

definition audited ::
  "service_env \<Rightarrow> auth_context \<Rightarrow> string \<Rightarrow> string \<Rightarrow> string \<Rightarrow> string \<Rightarrow> (exn \<Rightarrow> string option) \<Rightarrow> (string \<Rightarrow> int) \<Rightarrow> 'a svc \<Rightarrow> 'a svc" where
  "audited V context request_id action resource_type resource_id code_of status m =
     catchS m (\<lambda>e. case code_of e of
         None \<Rightarrow> raiseS e
       | Some code \<Rightarrow>
           bindS (audit V context request_id action resource_type resource_id AUDIT_DENIED (Some code)) (\<lambda>_.
             api_error code (status code)))"

subsection \<open>Feeds\<close>

text \<open>A page request whose texts are Latin-1.\<close>

record text_page =
  tp_limit :: nat
  tp_cursor :: "string option"
  tp_filters :: "(string \<times> string) list"

definition decode_page :: "service_env \<Rightarrow> auth_context \<Rightarrow> text_page \<Rightarrow> string \<Rightarrow> (string \<times> string) option svc" where
  "decode_page V context page resource =
     (case tp_cursor page of
        None \<Rightarrow> returnS None
      | Some cursor \<Rightarrow>
          bindS (drawS (se_clock V)) (\<lambda>now.
          bindS (catchS (resultS (cursor_decode (se_cursor_codec V) cursor (ac_organization_id context) resource (tp_filters page) now))
                   (\<lambda>e. case e of PaginationError code \<Rightarrow> api_error code 400 | _ \<Rightarrow> raiseS e)) (\<lambda>position.
            returnS (Some position))))"

definition next_cursor :: "service_env \<Rightarrow> auth_context \<Rightarrow> text_page \<Rightarrow> string \<Rightarrow> time \<Rightarrow> string \<Rightarrow> string svc" where
  "next_cursor V context page resource ordered_at resource_id =
     bindS (drawS (se_clock V)) (\<lambda>now.
     catchS (resultS (cursor_encode (se_cursor_codec V) (ac_organization_id context) resource (tp_filters page)
               (timestamp_text ordered_at) resource_id now))
       (\<lambda>e. case e of PaginationError code \<Rightarrow> api_error code 500 | _ \<Rightarrow> raiseS e))"

text \<open>What follows the permission in every feed.\<close>

definition feed ::
  "service_env \<Rightarrow> auth_context \<Rightarrow> text_page \<Rightarrow> string \<Rightarrow> string \<Rightarrow> string \<Rightarrow> (exn \<Rightarrow> string option)
   \<Rightarrow> ((string \<times> string) option \<Rightarrow> ('a list \<times> bool) svc) \<Rightarrow> ('a \<Rightarrow> time) \<Rightarrow> ('a \<Rightarrow> string) \<Rightarrow> ('a list \<times> string option) svc" where
  "feed V context page request_id action resource code_of rows instant ident =
     bindS (translated code_of (\<lambda>_. 500) (bindS (decode_page V context page resource) rows)) (\<lambda>(records, has_more).
     bindS (if has_more \<and> records \<noteq> []
            then bindS (next_cursor V context page resource (instant (last records)) (ident (last records))) (\<lambda>c. returnS (Some c))
            else returnS None) (\<lambda>cursor.
     bindS (audit V context request_id action ''organization'' (ac_organization_id context) AUDIT_SUCCEEDED None) (\<lambda>_.
       returnS (records, cursor))))"

section \<open>Findings\<close>

definition finding_status_of :: "string \<Rightarrow> finding_status option" where
  "finding_status_of v = List.find (\<lambda>s. finding_status_value s = v) finding_statuses"

definition list_findings :: "service_env \<Rightarrow> auth_context \<Rightarrow> text_page \<Rightarrow> string \<Rightarrow> (finding list \<times> string option) svc" where
  "list_findings V context page request_id =
     (let value_of = map_of (tp_filters page) in
      bindS (require_permission V context FINDING_READ request_id ''findings.list'' ''organization'' (ac_organization_id context)) (\<lambda>_.
      bindS (case value_of ''status'' of
               None \<Rightarrow> returnS None
             | Some v \<Rightarrow> (case finding_status_of v of None \<Rightarrow> raiseS ValueError | Some status \<Rightarrow> returnS (Some status))) (\<lambda>status.
        feed V context page request_id ''findings.list'' ''findings'' finding_code
          (\<lambda>after. finding_read (\<lambda>fs. Inr (list_findings_scoped_page (ac_organization_id context) (tp_limit page) after
             (value_of ''scan_id'') status (value_of ''severity'') (value_of ''cwe_id'') (value_of ''asset'') fs)))
          fi_last_seen_at fi_finding_id)))"

definition get_finding :: "service_env \<Rightarrow> auth_context \<Rightarrow> string \<Rightarrow> string \<Rightarrow> finding svc" where
  "get_finding V context finding_id request_id =
     bindS (require_permission V context FINDING_READ request_id ''findings.get'' ''finding'' finding_id) (\<lambda>_.
     bindS (audited V context request_id ''findings.get'' ''finding'' finding_id finding_code (\<lambda>_. 404)
              (finding_read (get_finding_scoped finding_id (ac_organization_id context)))) (\<lambda>r.
     bindS (audit V context request_id ''findings.get'' ''finding'' finding_id AUDIT_SUCCEEDED None) (\<lambda>_.
       returnS r)))"

definition CLIENT_SETTABLE_FINDING_STATUSES :: "finding_status list" where
  "CLIENT_SETTABLE_FINDING_STATUSES = [CONFIRMED, FALSE_POSITIVE, ACCEPTED_RISK, RESOLVED]"

text \<open>The optional reason: a text of at most 2000 characters.\<close>

definition status_reason :: "json \<Rightarrow> string option result" where
  "status_reason body =
     (case body_get ''reason'' body of
        None \<Rightarrow> Inr None
      | Some JNull \<Rightarrow> Inr None
      | Some (JStr text) \<Rightarrow> raise_if (length text > 2000) (ApiServiceError ''finding_status_reason_invalid'' 400) (Inr (Some text))
      | Some _ \<Rightarrow> Inl (ApiServiceError ''finding_status_reason_invalid'' 400))"

definition update_finding_status :: "service_env \<Rightarrow> auth_context \<Rightarrow> string \<Rightarrow> json \<Rightarrow> string \<Rightarrow> finding svc" where
  "update_finding_status V context finding_id body request_id =
     bindS (require_permission V context FINDING_UPDATE request_id ''findings.update_status'' ''finding'' finding_id) (\<lambda>_.
     require_field (body_str ''status'' body) ''finding_status_body_invalid'' (\<lambda>text.
     require_field (finding_status_of text) ''finding_status_invalid'' (\<lambda>new_status.
     if new_status \<notin> set CLIENT_SETTABLE_FINDING_STATUSES
     then bindS (audit V context request_id ''findings.update_status'' ''finding'' finding_id AUDIT_DENIED
                   (Some ''finding_status_not_client_settable'')) (\<lambda>_.
            api_error ''finding_status_not_client_settable'' 400)
     else
     bindS (resultS (status_reason body)) (\<lambda>reason.
     bindS (drawS (se_clock V)) (\<lambda>now.
     bindS (drawS (se_uuid V)) (\<lambda>event_id.
     bindS (audited V context request_id ''findings.update_status'' ''finding'' finding_id finding_code
              (\<lambda>code. if code = ''finding_not_found'' then 404 else 409)
              (findingsS (update_status event_id finding_id (ac_organization_id context) new_status now reason
                 (Some (ac_principal_id context))))) (\<lambda>r.
     bindS (audit V context request_id ''findings.update_status'' ''finding'' finding_id AUDIT_SUCCEEDED None) (\<lambda>_.
       returnS r))))))))"

definition list_finding_events :: "service_env \<Rightarrow> auth_context \<Rightarrow> string \<Rightarrow> string \<Rightarrow> finding_event list svc" where
  "list_finding_events V context finding_id request_id =
     bindS (require_permission V context FINDING_READ request_id ''findings.list_events'' ''finding'' finding_id) (\<lambda>_.
     bindS (audited V context request_id ''findings.list_events'' ''finding'' finding_id finding_code (\<lambda>_. 404)
              (bindS (finding_read (get_finding_scoped finding_id (ac_organization_id context))) (\<lambda>_.
                 finding_read (list_events_scoped finding_id (ac_organization_id context))))) (\<lambda>events.
     bindS (audit V context request_id ''findings.list_events'' ''finding'' finding_id AUDIT_SUCCEEDED None) (\<lambda>_.
       returnS events)))"

section \<open>Reports and scan records\<close>

definition create_report :: "service_env \<Rightarrow> auth_context \<Rightarrow> json \<Rightarrow> string \<Rightarrow> report_record svc" where
  "create_report V context body request_id =
     bindS (require_permission V context REPORT_CREATE request_id ''reports.create'' ''report'' ''-'') (\<lambda>_.
     require_field (body_str ''scan_id'' body) ''report_body_invalid'' (\<lambda>scan_id.
     bindS (audited V context request_id ''reports.create'' ''scan'' scan_id scan_code (\<lambda>_. 404)
              (scan_read (get_scan_scoped scan_id (ac_organization_id context)))) (\<lambda>scan.
     case (sn_completed_at scan, sn_report_ref scan) of
       (Some _, Some (c # cs)) \<Rightarrow>
         bindS (translated artifact_code (\<lambda>_. 500) (bindS (drawS (se_artifact_checksum V)) (\<lambda>checksum. resultS (checksum (c # cs))))) (\<lambda>checksum.
         bindS (drawS (se_clock V)) (\<lambda>now.
         bindS (drawS (se_clock V)) (\<lambda>completed_at.
         bindS (drawS (se_uuid V)) (\<lambda>report_id.
         bindS (reportsS (\<lambda>rs. case store_report
                  \<lparr>rr_report_id = report_id, rr_organization_id = ac_organization_id context, rr_scan_id = scan_id,
                   rr_format = ''json'', rr_state = ''completed'', rr_report_ref = c # cs, rr_created_at = now,
                   rr_checksum = Some checksum, rr_completed_at = Some completed_at\<rparr> rs of (r, rs') \<Rightarrow> (Inr r, rs'))) (\<lambda>r.
         bindS (audit V context request_id ''reports.create'' ''report'' (rr_report_id r) AUDIT_SUCCEEDED None) (\<lambda>_.
           returnS r))))))
     | _ \<Rightarrow> api_error ''report_scan_not_completed'' 409)))"

definition get_report :: "service_env \<Rightarrow> auth_context \<Rightarrow> string \<Rightarrow> string \<Rightarrow> report_record svc" where
  "get_report V context report_id request_id =
     bindS (require_permission V context REPORT_READ request_id ''reports.get'' ''report'' report_id) (\<lambda>_.
     bindS (audited V context request_id ''reports.get'' ''report'' report_id report_code (\<lambda>_. 404)
              (report_read (get_report_scoped report_id (ac_organization_id context)))) (\<lambda>r.
     bindS (audit V context request_id ''reports.get'' ''report'' report_id AUDIT_SUCCEEDED None) (\<lambda>_.
       returnS r)))"

definition list_reports :: "service_env \<Rightarrow> auth_context \<Rightarrow> text_page \<Rightarrow> string \<Rightarrow> (report_record list \<times> string option) svc" where
  "list_reports V context page request_id =
     bindS (require_permission V context REPORT_READ request_id ''reports.list'' ''organization'' (ac_organization_id context)) (\<lambda>_.
       feed V context page request_id ''reports.list'' ''reports'' report_code
         (\<lambda>after. report_read (\<lambda>rs. Inr (list_reports_scoped_page (ac_organization_id context) (tp_limit page) after
            (map_of (tp_filters page) ''scan_id'') rs)))
         rr_created_at rr_report_id)"

text \<open>The bytes of a report, checked against the checksum that was stored with it.\<close>

definition download_report :: "service_env \<Rightarrow> auth_context \<Rightarrow> string \<Rightarrow> string \<Rightarrow> (string \<times> report_record) svc" where
  "download_report V context report_id request_id =
     bindS (require_permission V context REPORT_READ request_id ''reports.download'' ''report'' report_id) (\<lambda>_.
     bindS (audited V context request_id ''reports.download'' ''report'' report_id report_code (\<lambda>_. 404)
              (report_read (get_report_scoped report_id (ac_organization_id context)))) (\<lambda>r.
     bindS (audited V context request_id ''reports.download'' ''report'' report_id artifact_code
              (\<lambda>code. if code = ''artifact_not_found'' then 404 else 503)
              (bindS (drawS (se_artifact_get V)) (\<lambda>get. resultS (get (rr_report_ref r))))) (\<lambda>content.
     if rr_checksum r \<noteq> None \<and> rr_checksum r \<noteq> Some (se_sha256 V content)
     then bindS (audit V context request_id ''reports.download'' ''report'' report_id AUDIT_DENIED
                   (Some ''report_integrity_check_failed'')) (\<lambda>_.
            api_error ''report_integrity_check_failed'' 500)
     else bindS (audit V context request_id ''reports.download'' ''report'' report_id AUDIT_SUCCEEDED None) (\<lambda>_.
            returnS (content, r)))))"

definition list_scan_records :: "service_env \<Rightarrow> auth_context \<Rightarrow> text_page \<Rightarrow> string \<Rightarrow> (scan_record list \<times> string option) svc" where
  "list_scan_records V context page request_id =
     bindS (require_permission V context JOB_READ request_id ''scans.list'' ''organization'' (ac_organization_id context)) (\<lambda>_.
       feed V context page request_id ''scans.list'' ''scans'' scan_code
         (\<lambda>after. scan_read (\<lambda>ss. Inr (list_scans_scoped_page (ac_organization_id context) (tp_limit page) after
            (map_of (tp_filters page) ''target'') (map_of (tp_filters page) ''status'') ss)))
         sn_created_at sn_scan_id)"

definition get_scan_record :: "service_env \<Rightarrow> auth_context \<Rightarrow> string \<Rightarrow> string \<Rightarrow> scan_record svc" where
  "get_scan_record V context scan_id request_id =
     bindS (require_permission V context JOB_READ request_id ''scans.get'' ''scan'' scan_id) (\<lambda>_.
     bindS (audited V context request_id ''scans.get'' ''scan'' scan_id scan_code (\<lambda>_. 404)
              (scan_read (get_scan_scoped scan_id (ac_organization_id context)))) (\<lambda>r.
     bindS (audit V context request_id ''scans.get'' ''scan'' scan_id AUDIT_SUCCEEDED None) (\<lambda>_.
       returnS r)))"

section \<open>Assets\<close>

text \<open>A path that is empty becomes \<^verbatim>\<open>/\<close>.\<close>

definition canonicalize_asset_url :: "string \<Rightarrow> string result" where
  "canonicalize_asset_url url =
     (case urlsplit url of
        None \<Rightarrow> Inl ValueError
      | Some u \<Rightarrow>
          raise_if (u_scheme u = [] \<or> url_hostname u = None \<or> url_hostname u = Some []) ValueError
          (Inr (urlunsplit (u_scheme u) (u_netloc u) (if u_path u = [] then ''/'' else u_path u) (u_query u) (u_fragment u))))"

fun authorization_for_url :: "auth_directory \<Rightarrow> string \<Rightarrow> string list \<Rightarrow> owned_target_authorization option result" where
  "authorization_for_url directory url [] = Inr None"
| "authorization_for_url directory url (i # ids) =
     (case authorization_get directory i of
        Inl (AuthorizationRepositoryError _) \<Rightarrow> authorization_for_url directory url ids
      | Inl e \<Rightarrow> Inl e
      | Inr a \<Rightarrow> if oa_target a = url then Inr (Some a) else authorization_for_url directory url ids)"

definition find_authorization_for_asset :: "service_env \<Rightarrow> string \<Rightarrow> string \<Rightarrow> owned_target_authorization option svc" where
  "find_authorization_for_asset V organization_id url =
     identity_read (\<lambda>db. authorization_for_url (se_authorizations V) url (list_assigned_authorization_ids organization_id db))"

definition authorization_state :: "time \<Rightarrow> owned_target_authorization \<Rightarrow> string" where
  "authorization_state now a =
     (if now \<ge> oa_expires_at a then ''expired''
      else if oa_expires_at a - now \<le> 7 * 86400 * microseconds then ''expiring_soon''
      else ''active'')"

text \<open>The details of an asset; without them a dictionary prints the record itself.\<close>

record asset_details =
  ad_target :: target_record
  ad_verification :: "verification option"
  ad_authorization :: "(owned_target_authorization \<times> string) option"
  ad_last_scan :: "scan_record option"
  ad_finding_counts :: "(string \<times> nat) list"
  ad_finding_count_is_capped :: bool

definition count_up :: "string \<Rightarrow> (string \<times> nat) list \<Rightarrow> (string \<times> nat) list" where
  "count_up key counts = dict_put key ((case map_of counts key of None \<Rightarrow> 0 | Some n \<Rightarrow> n) + 1) counts"

definition asset_public_details :: "service_env \<Rightarrow> auth_context \<Rightarrow> target_record \<Rightarrow> asset_details svc" where
  "asset_public_details V context target =
     (let organization_id = ac_organization_id context in
      bindS (verification_read (\<lambda>vs. Inr (get_current (tg_target_id target) organization_id vs))) (\<lambda>verification.
      bindS (find_authorization_for_asset V organization_id (tg_url target)) (\<lambda>found.
      bindS (case found of
               None \<Rightarrow> returnS None
             | Some a \<Rightarrow> bindS (drawS (se_clock V)) (\<lambda>now. returnS (Some (a, authorization_state now a)))) (\<lambda>authorization.
      bindS (scan_read (\<lambda>ss. Inr (fst (list_scans_scoped_page organization_id 1 None (Some (tg_url target)) None ss)))) (\<lambda>scans.
      bindS (finding_read (\<lambda>fs. Inr (fst (list_findings_scoped_page organization_id 100 None None None None None
               (Some (tg_url target)) fs)))) (\<lambda>found_there.
        returnS \<lparr>ad_target = target, ad_verification = verification, ad_authorization = authorization,
                 ad_last_scan = (case scans of [] \<Rightarrow> None | scan # _ \<Rightarrow> Some scan),
                 ad_finding_counts = fold (\<lambda>f. count_up (fd_severity f)) found_there [],
                 ad_finding_count_is_capped = (length found_there \<ge> 100)\<rparr>))))))"

definition ASSET_MODES :: "string list" where
  "ASSET_MODES = [''single_page'', ''crawl'']"

text \<open>An optional label, and an optional mode: a value that cannot be hashed is no member of a frozen set.\<close>

definition asset_label :: "json option \<Rightarrow> string option result" where
  "asset_label field =
     (case field of
        None \<Rightarrow> Inr None
      | Some JNull \<Rightarrow> Inr None
      | Some (JStr text) \<Rightarrow> Inr (Some text)
      | Some _ \<Rightarrow> Inl (ApiServiceError ''asset_label_invalid'' 400))"

definition asset_default_mode :: "json option \<Rightarrow> string option result" where
  "asset_default_mode field =
     (case field of
        None \<Rightarrow> Inr None
      | Some JNull \<Rightarrow> Inr None
      | Some (JStr text) \<Rightarrow>
          raise_if (text \<notin> set ASSET_MODES) (ApiServiceError ''asset_default_mode_invalid'' 400) (Inr (Some text))
      | Some (JArr _) \<Rightarrow> Inl TypeError
      | Some (JObj _) \<Rightarrow> Inl TypeError
      | Some _ \<Rightarrow> Inl (ApiServiceError ''asset_default_mode_invalid'' 400))"

definition create_asset :: "service_env \<Rightarrow> auth_context \<Rightarrow> json \<Rightarrow> string \<Rightarrow> target_record svc" where
  "create_asset V context body request_id =
     bindS (require_permission V context ASSET_MANAGE request_id ''assets.create'' ''target'' ''pending'') (\<lambda>_.
     require_field (body_text ''url'' body) ''asset_body_invalid'' (\<lambda>url.
     bindS (resultS (asset_label (body_get ''label'' body))) (\<lambda>label.
     bindS (resultS (asset_default_mode (body_get ''default_mode'' body))) (\<lambda>default_mode.
     case canonicalize_asset_url url of
       Inl _ \<Rightarrow>
         bindS (audit V context request_id ''assets.create'' ''target'' ''pending'' AUDIT_DENIED (Some ''asset_url_invalid'')) (\<lambda>_.
           api_error ''asset_url_invalid'' 400)
     | Inr canonical_url \<Rightarrow>
         bindS (drawS (se_clock V)) (\<lambda>now.
         bindS (drawS (se_uuid V)) (\<lambda>target_id.
         bindS (audited V context request_id ''assets.create'' ''target'' ''pending'' target_code
                  (\<lambda>code. if code = ''target_conflict'' then 409 else 400)
                  (targetsS (create_target target_id (ac_organization_id context) canonical_url (ac_principal_id context) now
                     label default_mode))) (\<lambda>r.
         bindS (audit V context request_id ''assets.create'' ''target'' (tg_target_id r) AUDIT_SUCCEEDED None) (\<lambda>_.
           returnS r))))))))"

definition list_assets :: "service_env \<Rightarrow> auth_context \<Rightarrow> text_page \<Rightarrow> string \<Rightarrow> (target_record list \<times> string option) svc" where
  "list_assets V context page request_id =
     bindS (require_permission V context ASSET_READ request_id ''assets.list'' ''organization'' (ac_organization_id context)) (\<lambda>_.
       feed V context page request_id ''assets.list'' ''assets'' target_code
         (\<lambda>after. target_read (\<lambda>ts. Inr (list_targets_scoped_page (ac_organization_id context) (tp_limit page) after False ts)))
         tg_created_at tg_target_id)"

definition get_asset :: "service_env \<Rightarrow> auth_context \<Rightarrow> string \<Rightarrow> string \<Rightarrow> asset_details svc" where
  "get_asset V context target_id request_id =
     bindS (require_permission V context ASSET_READ request_id ''assets.get'' ''target'' target_id) (\<lambda>_.
     bindS (audited V context request_id ''assets.get'' ''target'' target_id target_code (\<lambda>_. 404)
              (target_read (get_target target_id (ac_organization_id context)))) (\<lambda>r.
     bindS (audit V context request_id ''assets.get'' ''target'' target_id AUDIT_SUCCEEDED None) (\<lambda>_.
       asset_public_details V context r)))"

text \<open>A field that the body does not have is not changed.\<close>

definition given_field :: "(json option \<Rightarrow> 'a result) \<Rightarrow> string \<Rightarrow> json \<Rightarrow> 'a option result" where
  "given_field read key body =
     (case body_get key body of None \<Rightarrow> Inr None | Some v \<Rightarrow> bindE (read (Some v)) (\<lambda>x. Inr (Some x)))"

definition update_asset :: "service_env \<Rightarrow> auth_context \<Rightarrow> string \<Rightarrow> json \<Rightarrow> string \<Rightarrow> asset_details svc" where
  "update_asset V context target_id body request_id =
     bindS (require_permission V context ASSET_MANAGE request_id ''assets.update'' ''target'' target_id) (\<lambda>_.
     guardS (\<not> (case body of JObj _ \<Rightarrow> True | _ \<Rightarrow> False)) (ApiServiceError ''asset_body_invalid'' 400)
     (bindS (resultS (given_field asset_label ''label'' body)) (\<lambda>label.
     bindS (resultS (given_field asset_default_mode ''default_mode'' body)) (\<lambda>default_mode.
     bindS (audited V context request_id ''assets.update'' ''target'' target_id target_code (\<lambda>_. 404)
              (targetsS (update_target target_id (ac_organization_id context) label default_mode))) (\<lambda>r.
     bindS (audit V context request_id ''assets.update'' ''target'' target_id AUDIT_SUCCEEDED None) (\<lambda>_.
       asset_public_details V context r))))))"

subsection \<open>Verification\<close>

primrec verification_method_value :: "verification_method \<Rightarrow> string" where
  "verification_method_value WELL_KNOWN_HTTP = ''well_known_http''"
| "verification_method_value DNS_TXT = ''dns_txt''"

definition requested_method :: "json \<Rightarrow> verification_method result" where
  "requested_method body =
     (case body_get ''method'' body of
        Some (JStr text) \<Rightarrow>
          (case List.find (\<lambda>m. verification_method_value m = text) [WELL_KNOWN_HTTP, DNS_TXT] of
             None \<Rightarrow> Inl (ApiServiceError ''asset_verification_method_invalid'' 400)
           | Some m \<Rightarrow> Inr m)
      | Some (JArr _) \<Rightarrow> Inl TypeError
      | Some (JObj _) \<Rightarrow> Inl TypeError
      | _ \<Rightarrow> Inl (ApiServiceError ''asset_verification_method_invalid'' 400))"

definition start_asset_verification :: "service_env \<Rightarrow> auth_context \<Rightarrow> string \<Rightarrow> json \<Rightarrow> string \<Rightarrow> verification svc" where
  "start_asset_verification V context target_id body request_id =
     bindS (require_permission V context ASSET_MANAGE request_id ''assets.verification.start'' ''target'' target_id) (\<lambda>_.
     bindS (resultS (requested_method body)) (\<lambda>method.
     bindS (translated target_code (\<lambda>_. 404) (target_read (get_target target_id (ac_organization_id context)))) (\<lambda>_.
     bindS (drawS (se_clock V)) (\<lambda>now.
     bindS (drawS (se_secret V)) (\<lambda>token.
     bindS (drawS (se_uuid V)) (\<lambda>verification_id.
     bindS (verificationsS (\<lambda>vs. case initiate verification_id token target_id (ac_organization_id context) method now vs of
              (r, vs') \<Rightarrow> (Inr r, vs'))) (\<lambda>r.
     bindS (audit V context request_id ''assets.verification.start'' ''target'' target_id AUDIT_SUCCEEDED None) (\<lambda>_.
       returnS r))))))))"

text \<open>
  The check of a pending verification: the outcome is stored when the token has expired or matched, and otherwise only
  told to the caller, with the instant of the check.
\<close>

definition performed_check :: "service_env \<Rightarrow> verification \<Rightarrow> string \<Rightarrow> string \<Rightarrow> (bool \<times> string) svc" where
  "performed_check V current target_url token =
     bindS (drawS (se_network V)) (\<lambda>N.
       resultS (if tv_method current = DNS_TXT then check_dns_txt_token N target_url token
                else check_well_known_token (se_py V) N target_url token))"

definition check_asset_verification ::
  "service_env \<Rightarrow> auth_context \<Rightarrow> string \<Rightarrow> string \<Rightarrow> (verification \<times> (string \<times> time) option) svc" where
  "check_asset_verification V context target_id request_id =
     (let organization_id = ac_organization_id context;
          tell = (\<lambda>out code. audit V context request_id ''assets.verification.check'' ''target'' target_id out (Some code)) in
     bindS (require_permission V context ASSET_MANAGE request_id ''assets.verification.check'' ''target'' target_id) (\<lambda>_.
     bindS (translated target_code (\<lambda>_. 404) (target_read (get_target target_id organization_id))) (\<lambda>target.
     bindS (verification_read (\<lambda>vs. Inr (get_current target_id organization_id vs))) (\<lambda>found.
     case found of
       None \<Rightarrow> api_error ''target_verification_not_pending'' 409
     | Some current \<Rightarrow>
         guardS (tv_status current \<noteq> VERIFICATION_PENDING) (ApiServiceError ''target_verification_not_pending'' 409)
         (bindS (drawS (se_clock V)) (\<lambda>now.
          if (case tv_expires_at current of None \<Rightarrow> False | Some t \<Rightarrow> now \<ge> t)
          then
            bindS (verificationsS (record_result (tv_verification_id current) organization_id VERIFICATION_EXPIRED
                     ''verification_token_expired'' now)) (\<lambda>r.
            bindS (tell AUDIT_FAILED ''verification_token_expired'') (\<lambda>_.
              returnS (r, None)))
          else
            bindS (translated verification_code (\<lambda>_. 409)
                     (verification_read (get_pending_token (tv_verification_id current) organization_id))) (\<lambda>token.
            bindS (performed_check V current (tg_url target) token) (\<lambda>(matched, detail).
            if matched
            then
              bindS (verificationsS (record_result (tv_verification_id current) organization_id VERIFICATION_VERIFIED detail now)) (\<lambda>r.
              bindS (tell AUDIT_SUCCEEDED detail) (\<lambda>_.
                returnS (r, None)))
            else
              bindS (tell AUDIT_FAILED detail) (\<lambda>_.
                returnS (current, Some (detail, now)))))))))))"

subsection \<open>The dashboard\<close>

record dashboard =
  db_total_assets :: nat
  db_verified_assets :: nat
  db_active_scans :: nat
  db_completed_scans :: nat
  db_failed_scans :: nat
  db_findings_by_severity :: "(string \<times> nat) list"
  db_findings_by_status :: "(string \<times> nat) list"
  db_recent_scans :: "scan_record list"
  db_recent_high_or_critical_findings :: "finding list"

definition dashboard_summary :: "service_env \<Rightarrow> auth_context \<Rightarrow> string \<Rightarrow> dashboard svc" where
  "dashboard_summary V context request_id =
     (let organization_id = ac_organization_id context;
          having = (\<lambda>statuses scans. length (filter (\<lambda>s. sn_status s \<in> set statuses) scans)) in
      bindS (require_permission V context JOB_READ request_id ''dashboard.summary'' ''organization'' organization_id) (\<lambda>_.
      bindS (target_read (\<lambda>ts. Inr (list_targets organization_id False ts))) (\<lambda>assets.
      bindS (verification_read (\<lambda>vs. Inr (filter (\<lambda>a. case get_current (tg_target_id a) organization_id vs of
               None \<Rightarrow> False | Some v \<Rightarrow> tv_status v = VERIFICATION_VERIFIED) assets))) (\<lambda>verified.
      bindS (scan_read (\<lambda>ss. Inr (fst (list_scans_scoped_page organization_id 100 None None None ss)))) (\<lambda>scans.
      bindS (finding_read (\<lambda>fs. Inr (fst (list_findings_scoped_page organization_id 100 None None None None None None fs)))) (\<lambda>found.
      bindS (audit V context request_id ''dashboard.summary'' ''organization'' organization_id AUDIT_SUCCEEDED None) (\<lambda>_.
        returnS \<lparr>db_total_assets = length assets, db_verified_assets = length verified,
                 db_active_scans = having [''running'', ''queued''] scans,
                 db_completed_scans = having [''completed''] scans,
                 db_failed_scans = having [''failed'', ''completed_with_errors''] scans,
                 db_findings_by_severity = fold (\<lambda>f. count_up (fd_severity f)) found [],
                 db_findings_by_status = fold (\<lambda>f. count_up (finding_status_value (fi_status f))) found [],
                 db_recent_scans = take 5 scans,
                 db_recent_high_or_critical_findings =
                   take 5 (filter (\<lambda>f. fd_severity f \<in> {''high'', ''critical''}) found)\<rparr>)))))))"

end
