(* ===== verification/Service_Rules.thy ===== *)
theory Service_Rules
  imports Service_Accounts Service_Assets
begin

text \<open>
  What a handler does to the state of the service, from what its calls do. A relation that holds
  between equal states and composes is kept by every combinator of handlers (the locale
  \<open>handler_frame\<close>); one that also tolerates everything but writes to the identity store, and the writes
  of credentials and audit events there, by the handlers that make no other (\<open>credential_frame\<close>); one
  that tolerates the writes of principals too, by every handler (\<open>account_frame\<close>).
\<close>

section \<open>Relations kept by handlers\<close>

definition keeps :: "(service \<Rightarrow> service \<Rightarrow> bool) \<Rightarrow> 'a svc \<Rightarrow> bool" where
  "keeps R m \<longleftrightarrow> (\<forall>s. R s (snd (m s)))"

named_theorems keep_rules "introduction rules for relations kept by handlers"

locale handler_frame =
  fixes R :: "service \<Rightarrow> service \<Rightarrow> bool"
  assumes refl: "R s s"
    and trans: "R s t \<Longrightarrow> R t u \<Longrightarrow> R s u"
begin

lemma keeps_simple [keep_rules]:
  "keeps R (returnS x)" "keeps R (raiseS e)" "keeps R (resultS r)" "keeps R (api_error code status)"
  "keeps R (identity_read f)" "keeps R (store_read g)"
  by (simp_all add: keeps_def returnS_def raiseS_def resultS_def api_error_def identity_read_def store_read_def refl)

lemma keeps_reads [keep_rules]:
  "keeps R (target_read f)" "keeps R (verification_read g)" "keeps R (finding_read h)" "keeps R (scan_read j)" "keeps R (report_read k)"
  by (simp_all add: keeps_def target_read_def verification_read_def finding_read_def scan_read_def report_read_def refl)

lemma keeps_bind [keep_rules]: "keeps R m \<Longrightarrow> (\<And>x. keeps R (f x)) \<Longrightarrow> keeps R (bindS m f)"
  unfolding keeps_def bindS_def by (auto split: prod.splits sum.splits) (metis snd_conv trans)+

lemma keeps_catch [keep_rules]: "keeps R m \<Longrightarrow> (\<And>e. keeps R (h e)) \<Longrightarrow> keeps R (catchS m h)"
  unfolding keeps_def catchS_def by (auto split: prod.splits sum.splits) (metis snd_conv trans)+

lemma keeps_guard [keep_rules]: "keeps R m \<Longrightarrow> keeps R (guardS b e m)"
  by (simp add: guardS_def keeps_simple)

lemma keeps_field [keep_rules]: "(\<And>x. keeps R (k x)) \<Longrightarrow> keeps R (require_field field code k)"
  by (simp add: require_field_def keeps_simple split: option.split)

lemma keeps_handlers [keep_rules]:
  "(\<And>code. keeps R (h code)) \<Longrightarrow> keeps R m \<Longrightarrow> keeps R (on_identity_error h m)"
  "(\<And>code. keeps R (h code)) \<Longrightarrow> keeps R m \<Longrightarrow> keeps R (on_store_error h m)"
  "keeps R m \<Longrightarrow> keeps R (on_rate_limit m)"
  "keeps R m \<Longrightarrow> keeps R (on_password_policy m)"
  by (auto simp: on_identity_error_def on_store_error_def on_rate_limit_def on_password_policy_def
      intro!: keeps_catch keeps_simple split: exn.split)

lemma keeps_translated [keep_rules]: "keeps R m \<Longrightarrow> keeps R (translated code_of status m)"
  by (auto simp: translated_def intro!: keeps_catch keeps_simple split: option.split)

lemma keeps_cases [keep_rules]:
  "(\<And>x. keeps R (f x)) \<Longrightarrow> keeps R n \<Longrightarrow> keeps R (case v of None \<Rightarrow> n | Some x \<Rightarrow> f x)"
  "keeps R m \<Longrightarrow> keeps R n \<Longrightarrow> keeps R (if b then m else n)"
  "(\<And>x y. keeps R (g x y)) \<Longrightarrow> keeps R (case p of (x, y) \<Rightarrow> g x y)"
  "(\<And>x. keeps R (k x)) \<Longrightarrow> keeps R (let x = t in k x)"
  "(\<And>e. keeps R (i e)) \<Longrightarrow> (\<And>y. keeps R (j y)) \<Longrightarrow> keeps R (case z of Inl e \<Rightarrow> i e | Inr y \<Rightarrow> j y)"
  by (simp_all split: option.split prod.split sum.split)

text \<open>The same from a given state, for handlers whose guards speak about it.\<close>

lemma kept_from: "keeps R m \<Longrightarrow> R s (snd (m s))"
  by (simp add: keeps_def)

lemma bind_from: "R s (snd (m s)) \<Longrightarrow> (\<And>x t. m s = (Inr x, t) \<Longrightarrow> R t (snd (f x t))) \<Longrightarrow> R s (snd (bindS m f s))"
  unfolding bindS_def by (auto split: prod.splits sum.splits) (metis snd_conv trans)+

lemma guard_from: "(\<not> b \<Longrightarrow> R s (snd (m s))) \<Longrightarrow> R s (snd (guardS b e m s))"
  by (simp add: guardS_def raiseS_def refl)

lemma field_from: "(\<And>x. field = Some x \<Longrightarrow> R s (snd (k x s))) \<Longrightarrow> R s (snd (require_field field code k s))"
  by (cases field) (simp_all add: require_field_def api_error_def raiseS_def refl)

lemma cases_from:
  "(v = None \<Longrightarrow> R s (snd (n s))) \<Longrightarrow> (\<And>x. v = Some x \<Longrightarrow> R s (snd (f x s))) \<Longrightarrow>
     R s (snd ((case v of None \<Rightarrow> n | Some x \<Rightarrow> f x) s))"
  "(b \<Longrightarrow> R s (snd (m s))) \<Longrightarrow> (\<not> b \<Longrightarrow> R s (snd (k s))) \<Longrightarrow> R s (snd ((if b then m else k) s))"
  "(\<And>x y. p = (x, y) \<Longrightarrow> R s (snd (g x y s))) \<Longrightarrow> R s (snd ((case p of (x, y) \<Rightarrow> g x y) s))"
  by (simp_all split: option.split prod.split)

end

section \<open>The writes of the service\<close>

text \<open>
  The calls with which the service, and the authenticators in front of it, write to the identity store:
  those that write credentials and the audit log, and those that write organizations and principals.
\<close>

inductive credential_write :: "identity_db \<Rightarrow> identity_db \<Rightarrow> bool" where
  Call_Set_Password: "credential_write db (snd (set_password_hash i algorithm h now db))"
| Call_Create_Identity_Token:
    "credential_write db (snd (create_identity_token scrypt salt secret tid i oid purpose ttl now db))"
| Call_Consume_Identity_Token: "credential_write db (snd (consume_identity_token scrypt token purpose now db))"
| Call_Invalidate_Identity_Tokens: "credential_write db (snd (invalidate_identity_tokens i purpose now db))"
| Call_Create_Token: "credential_write db (snd (create_token scrypt salt secret tid i label days now db))"
| Call_Revoke_Token: "credential_write db (snd (revoke_token_owned tid i now db))"
| Call_Authenticate: "credential_write db (snd (authenticate_token scrypt token now db))"
| Call_Audit: "SecurityAuditEvent_post_init e0 = Inr e \<Longrightarrow> credential_write db (snd (record_audit_event e db))"

inductive principal_write :: "identity_db \<Rightarrow> identity_db \<Rightarrow> bool" where
  Call_Create_Organization: "principal_write db (snd (create_organization i name now db))"
| Call_Create_Principal: "principal_write db (snd (create_principal i oid name USER role now email db))"
| Call_Update_Role: "principal_write db (snd (update_principal_role i oid role db))"
| Call_Deactivate: "principal_write db (snd (set_principal_active i oid False db))"
| Call_Email_Verified: "principal_write db (snd (set_principal_email_verified i now db))"
| Call_Touch_Login: "principal_write db (snd (touch_last_login i now db))"

text \<open>The writes of verifications that do not verify anything.\<close>

inductive unverified_write :: "verifications \<Rightarrow> verifications \<Rightarrow> bool" where
  Call_Initiate: "unverified_write vs (snd (initiate i token target_id oid method now vs))"
| Call_Expire: "unverified_write vs (snd (record_result i oid VERIFICATION_EXPIRED detail now vs))"

lemma service_writes:
  "credential_write db db' \<Longrightarrow> identity_write\<^sup>=\<^sup>= db db'"
  "principal_write db db' \<Longrightarrow> identity_write\<^sup>=\<^sup>= db db'"
  by (erule credential_write.cases principal_write.cases; simp only:; rule identity_op_writes; assumption?)+

locale credential_frame = handler_frame +
  assumes elsewhere: "sv_identity t = sv_identity s \<Longrightarrow> sv_verifications t = sv_verifications s \<Longrightarrow> R s t"
    and written: "credential_write (sv_identity s) db \<Longrightarrow> R s (s\<lparr>sv_identity := db\<rparr>)"
    and unverified: "unverified_write (sv_verifications s) vs \<Longrightarrow> R s (s\<lparr>sv_verifications := vs\<rparr>)"
begin

lemma keeps_elsewhere [keep_rules]:
  "keeps R (drawS f)" "keeps R (sessionsS op)" "keeps R (limiterS key now)" "keeps R (entitlementsS eop)"
  "keeps R (storeS sop)" "keeps R (contextsS cop)" "keeps R (plansS pop)" "keeps R (send_mail_best_effort to subject link category)"
  "keeps R (targetsS gop)" "keeps R (findingsS fop)" "keeps R (reportsS rop)"
  by (auto simp: keeps_def drawS_def sessionsS_def limiterS_def entitlementsS_def storeS_def contextsS_def plansS_def send_mail_best_effort_def
      targetsS_def findingsS_def reportsS_def intro!: elsewhere split: prod.splits)

lemma keeps_verifications: "(\<And>vs. unverified_write vs (snd (op vs))) \<Longrightarrow> keeps R (verificationsS op)"
  unfolding keeps_def verificationsS_def by (auto split: prod.splits intro!: unverified) (metis snd_conv)

lemma keeps_initiate [keep_rules]:
  "keeps R (verificationsS (\<lambda>vs. case initiate i token target_id oid method now vs of (r, vs') \<Rightarrow> (Inr r, vs')))"
  by (rule keeps_verifications) (metis (no_types, lifting) Call_Initiate case_prod_unfold snd_conv)

lemma keeps_expire [keep_rules]: "keeps R (verificationsS (record_result i oid VERIFICATION_EXPIRED detail now))"
  by (rule keeps_verifications) (rule Call_Expire)

lemma keeps_identity: "(\<And>db. credential_write db (snd (op db))) \<Longrightarrow> keeps R (identityS op)"
  unfolding keeps_def identityS_def by (auto split: prod.splits intro!: written) (metis snd_conv)

lemmas keeps_calls [keep_rules] =
  keeps_identity [OF Call_Set_Password]
  keeps_identity [OF Call_Create_Identity_Token] keeps_identity [OF Call_Consume_Identity_Token]
  keeps_identity [OF Call_Invalidate_Identity_Tokens] keeps_identity [OF Call_Create_Token]
  keeps_identity [OF Call_Revoke_Token] keeps_identity [OF Call_Authenticate]

lemma keeps_event: "keeps R (record_event V o1 p t request_id action rtype rid out detail)"
proof -
  have event: "keeps R (bindS (resultS (SecurityAuditEvent_post_init e0)) (\<lambda>e. identityS (record_audit_event e)))" for e0
  proof (cases "SecurityAuditEvent_post_init e0")
    case (Inl e)
    then show ?thesis
      by (simp add: keeps_def bindS_def resultS_def refl)
  next
    case (Inr e)
    then have "keeps R (identityS (record_audit_event e))"
      by (rule keeps_identity [OF Call_Audit])
    then show ?thesis
      using Inr by (simp add: keeps_def bindS_def resultS_def)
  qed
  show ?thesis
    unfolding record_event_def by (intro keep_rules event)
qed

lemma keeps_audit [keep_rules]:
  "keeps R (audit V context request_id action rtype rid out detail)"
  "keeps R (audit_identity_event V o1 p request_id action rtype rid out detail)"
  "keeps R (require_permission V context permission request_id action rtype rid)"
proof -
  show audit: "keeps R (audit V context request_id action rtype rid out detail)" for action rtype rid out detail
    unfolding audit_def by (rule keeps_event)
  show "keeps R (audit_identity_event V o1 p request_id action rtype rid out detail)"
    unfolding audit_identity_event_def by (intro keep_rules keeps_event)
  show "keeps R (require_permission V context permission request_id action rtype rid)"
    unfolding require_permission_def by (intro keep_rules; auto split: exn.split intro!: keep_rules audit)
qed

lemma keeps_audited [keep_rules]:
  "keeps R m \<Longrightarrow> keeps R (audited V context request_id action rtype rid code_of status m)"
  unfolding audited_def by (intro keep_rules)

lemma keeps_helpers [keep_rules]:
  "keeps R (check_attempts key now)" "keeps R (check_password password)" "keeps R (store_password V i password now)"
  "keeps R (issue_identity_token V i oid purpose ttl now)" "keeps R (issue_session V account organization now agent ip)"
  "keeps R (consume_link_token V token purpose now)" "keeps R (mail_if_address account subject link category)"
  "keeps R (refuse_module V context request_id module_id code status)"
  unfolding check_attempts_def check_password_def store_password_def issue_identity_token_def issue_session_def
    consume_link_token_def mail_if_address_def refuse_module_def
  by (intro keep_rules)+

lemma keeps_credentials [keep_rules]:
  "keeps R (logout V context request_id)" "keeps R (logout_all_sessions V context request_id)"
  "keeps R (get_session_info V context request_id)" "keeps R (change_password V context body request_id)"
  "keeps R (request_password_reset V body request_id ip)" "keeps R (confirm_password_reset V body request_id ip)"
  "keeps R (request_email_verification V context request_id)" "keeps R (list_team V context request_id)"
  unfolding logout_def logout_all_sessions_def get_session_info_def change_password_def
    request_password_reset_def confirm_password_reset_def request_email_verification_def list_team_def
  by (intro keep_rules)+

lemma keeps_keys [keep_rules]:
  "keeps R (list_api_keys V context request_id)" "keeps R (create_api_key V context body request_id)"
  "keeps R (revoke_api_key V context i request_id)" "keeps R (get_settings V context request_id)"
  "keeps R (me V context request_id)" "keeps R (list_module_entitlements V context request_id)"
  "keeps R (set_module_entitlement V context i body request_id)"
  unfolding list_api_keys_def create_api_key_def revoke_api_key_def get_settings_def me_def list_module_entitlements_def
    set_module_entitlement_def
  by (intro keep_rules; auto split: exn.split intro!: keep_rules)+

lemma keeps_steps [keep_rules]:
  "keeps R (find_authorization V i)" "keeps R (find_permit_record V context i)"
  "keeps R m \<Longrightarrow> keeps R (on_permit_error status m)"
  "keeps R (load_or_fail V context request_id action rtype code_of loaded)"
  "keeps R (sign_and_store V claims)" "keeps R (tenant_request V context submission authorization now key)"
  "keeps R (check_issue_limits permit authorization now)" "keeps R (check_issue_references context permit authorization now)"
  "keeps R (public_job record context)" "keeps R (public_schedule schedule context)"
  unfolding find_authorization_def on_authorization_error_def find_permit_record_def on_permit_error_def load_or_fail_def
    sign_and_store_def tenant_request_def check_issue_limits_def check_issue_references_def public_job_def public_schedule_def
  by (intro keep_rules; auto split: exn.split option.split intro!: keep_rules)+

lemma keeps_rights [keep_rules]:
  "keeps R (require_issue_rights V context request_id permit)"
  "keeps R (validate_permit_now V context i authorization target mode)"
  unfolding require_issue_rights_def validate_permit_now_def by (intro keep_rules)+

lemma keeps_permits [keep_rules]:
  "keeps R (issue_permit V context loaded request_id)" "keeps R (get_permit V context i request_id)"
  "keeps R (revoke_permit V context i request_id)" "keeps R (revoke_authentication_context V context i request_id)"
  "keeps R (revoke_authorization_comparison_plan V context i request_id)"
  unfolding issue_permit_def get_permit_def revoke_permit_def revoke_authentication_context_def
    revoke_authorization_comparison_plan_def
  by (intro keep_rules; auto split: exn.split intro!: keep_rules)+

lemma keeps_jobs [keep_rules]:
  "keeps R (submit_scan V context job key i request_id)" "keeps R (get_scan V context i request_id)"
  "keeps R (cancel_scan V context i request_id)" "keeps R (scan_result V context i request_id)"
  "keeps R (create_scan_schedule V context schedule i request_id)" "keeps R (get_scan_schedule V context i request_id)"
  "keeps R (pause_scan_schedule V context i request_id)" "keeps R (resume_scan_schedule V context i request_id)"
  unfolding submit_scan_def get_scan_def cancel_scan_def scan_result_def create_scan_schedule_def get_scan_schedule_def
    pause_scan_schedule_def resume_scan_schedule_def update_schedule_state_def
  by (intro keep_rules; auto split: exn.split intro!: keep_rules)+

lemma keeps_feed [keep_rules]:
  "(\<And>after. keeps R (rows after)) \<Longrightarrow> keeps R (feed V context page request_id action resource code_of rows instant ident)"
proof -
  have "keeps R (decode_page V context page resource)" "keeps R (next_cursor V context page resource ordered_at i)" for ordered_at i
    unfolding decode_page_def next_cursor_def by (intro keep_rules; auto split: exn.split intro!: keep_rules)+
  then show "(\<And>after. keeps R (rows after)) \<Longrightarrow> ?thesis"
    unfolding feed_def by (intro keep_rules)
qed

lemma keeps_records [keep_rules]:
  "keeps R (list_findings V context page request_id)" "keeps R (get_finding V context i request_id)"
  "keeps R (update_finding_status V context i body request_id)" "keeps R (list_finding_events V context i request_id)"
  "keeps R (create_report V context body request_id)" "keeps R (get_report V context i request_id)"
  "keeps R (list_reports V context page request_id)" "keeps R (download_report V context i request_id)"
  "keeps R (list_scan_records V context page request_id)" "keeps R (get_scan_record V context i request_id)"
  unfolding list_findings_def get_finding_def update_finding_status_def list_finding_events_def create_report_def get_report_def
    list_reports_def download_report_def list_scan_records_def get_scan_record_def
  by (intro keep_rules; auto split: option.split list.split intro!: keep_rules)+

lemma keeps_assets [keep_rules]:
  "keeps R (create_asset V context body request_id)" "keeps R (list_assets V context page request_id)"
  "keeps R (get_asset V context i request_id)" "keeps R (update_asset V context i body request_id)"
  "keeps R (start_asset_verification V context i body request_id)" "keeps R (dashboard_summary V context request_id)"
  unfolding create_asset_def list_assets_def get_asset_def update_asset_def start_asset_verification_def dashboard_summary_def
    asset_public_details_def find_authorization_for_asset_def
  by (intro keep_rules)+

end

locale account_frame = credential_frame +
  assumes principal_written: "principal_write (sv_identity s) db \<Longrightarrow> R s (s\<lparr>sv_identity := db\<rparr>)"
begin

lemma keeps_principal: "(\<And>db. principal_write db (snd (op db))) \<Longrightarrow> keeps R (identityS op)"
  unfolding keeps_def identityS_def by (auto split: prod.splits intro!: principal_written) (metis snd_conv)

lemmas keeps_principal_calls [keep_rules] =
  keeps_principal [OF Call_Create_Organization] keeps_principal [OF Call_Create_Principal]
  keeps_principal [OF Call_Update_Role] keeps_principal [OF Call_Deactivate] keeps_principal [OF Call_Email_Verified]
  keeps_principal [OF Call_Touch_Login]

lemma keeps_sign_in [keep_rules]: "keeps R (sign_in V account organization now agent ip request_id action)"
  unfolding sign_in_def by (intro keep_rules)

lemma keeps_accounts [keep_rules]:
  "keeps R (register_account V body request_id agent ip)" "keeps R (login V body request_id agent ip)"
  "keeps R (confirm_email_verification V body request_id ip)" "keeps R (accept_invitation V body request_id agent ip)"
  unfolding register_account_def login_def confirm_email_verification_def accept_invitation_def
  by (intro keep_rules)+

lemma keeps_team [keep_rules]:
  "keeps R (invite_team_member V context body request_id)"
  "keeps R (update_team_member V context i body request_id)" "keeps R (remove_team_member V context i request_id)"
  unfolding invite_team_member_def update_team_member_def remove_team_member_def
  by (intro keep_rules)+

end

text \<open>A relation that tolerates that an asset becomes verified is kept by the check of its verification too.\<close>

locale verifying_frame = credential_frame +
  assumes verified: "R s (s\<lparr>sv_verifications := vs\<rparr>)"
begin

lemma keeps_check [keep_rules]: "keeps R (check_asset_verification V context i request_id)"
proof -
  have "keeps R (verificationsS op)" for op :: "verifications \<Rightarrow> 'b result \<times> verifications"
    by (simp add: keeps_def verificationsS_def verified split: prod.split)
  then show ?thesis
    unfolding check_asset_verification_def performed_check_def Let_def by (intro keep_rules)
qed

end

text \<open>Every handler of the service.\<close>

locale service_frame = account_frame + verifying_frame

end
