(* ===== verification/Service_Requests.thy ===== *)
theory Service_Requests
  imports Service_Rules
begin

text \<open>
  The service as a machine: a request is one call of a handler with its arguments, after the context of
  the caller was established. The two authenticators are steps of their own.
\<close>

section \<open>Requests\<close>

datatype request =
    Register_Account json "string option" "string option"
  | Login json "string option" "string option"
  | Request_Password_Reset json "string option"
  | Confirm_Password_Reset json "string option"
  | Confirm_Email_Verification json "string option"
  | Accept_Invitation json "string option" "string option"
  | Logout auth_context
  | Logout_All_Sessions auth_context
  | Get_Session_Info auth_context
  | Change_Password auth_context json
  | Request_Email_Verification auth_context
  | Me auth_context
  | List_Api_Keys auth_context
  | Create_Api_Key auth_context json
  | Revoke_Api_Key auth_context string
  | Get_Settings auth_context
  | List_Team auth_context
  | Invite_Team_Member auth_context json
  | Update_Team_Member auth_context string json
  | Remove_Team_Member auth_context string
  | List_Module_Entitlements auth_context
  | Set_Module_Entitlement auth_context string json
  | Issue_Permit auth_context "permit_submission result"
  | Get_Permit auth_context string
  | Revoke_Permit auth_context string
  | Revoke_Authentication_Context auth_context string
  | Revoke_Authorization_Comparison_Plan auth_context string
  | Submit_Scan auth_context "scan_job_submission result" string string
  | Get_Scan auth_context string
  | Cancel_Scan auth_context string
  | Scan_Result auth_context string
  | Create_Scan_Schedule auth_context "schedule_submission result" string
  | Get_Scan_Schedule auth_context string
  | Pause_Scan_Schedule auth_context string
  | Resume_Scan_Schedule auth_context string
  | List_Findings auth_context text_page
  | Get_Finding auth_context string
  | Update_Finding_Status auth_context string json
  | List_Finding_Events auth_context string
  | Create_Report auth_context json
  | Get_Report auth_context string
  | List_Reports auth_context text_page
  | Download_Report auth_context string
  | List_Scan_Records auth_context text_page
  | Get_Scan_Record auth_context string
  | Create_Asset auth_context json
  | List_Assets auth_context text_page
  | Get_Asset auth_context string
  | Update_Asset auth_context string json
  | Start_Asset_Verification auth_context string json
  | Check_Asset_Verification auth_context string
  | Dashboard_Summary auth_context

definition ignoreS :: "'a svc \<Rightarrow> unit svc" where
  "ignoreS m = bindS m (\<lambda>_. returnS ())"

text \<open>The handler of a request, without the value it returns.\<close>

primrec serve :: "service_env \<Rightarrow> request \<Rightarrow> string \<Rightarrow> unit svc" where
  "serve V (Register_Account body agent ip) rid = ignoreS (register_account V body rid agent ip)"
| "serve V (Login body agent ip) rid = ignoreS (login V body rid agent ip)"
| "serve V (Request_Password_Reset body ip) rid = request_password_reset V body rid ip"
| "serve V (Confirm_Password_Reset body ip) rid = confirm_password_reset V body rid ip"
| "serve V (Confirm_Email_Verification body ip) rid = confirm_email_verification V body rid ip"
| "serve V (Accept_Invitation body agent ip) rid = ignoreS (accept_invitation V body rid agent ip)"
| "serve V (Logout c) rid = logout V c rid"
| "serve V (Logout_All_Sessions c) rid = ignoreS (logout_all_sessions V c rid)"
| "serve V (Get_Session_Info c) rid = ignoreS (get_session_info V c rid)"
| "serve V (Change_Password c body) rid = change_password V c body rid"
| "serve V (Request_Email_Verification c) rid = ignoreS (request_email_verification V c rid)"
| "serve V (Me c) rid = ignoreS (me V c rid)"
| "serve V (List_Api_Keys c) rid = ignoreS (list_api_keys V c rid)"
| "serve V (Create_Api_Key c body) rid = ignoreS (create_api_key V c body rid)"
| "serve V (Revoke_Api_Key c i) rid = ignoreS (revoke_api_key V c i rid)"
| "serve V (Get_Settings c) rid = ignoreS (get_settings V c rid)"
| "serve V (List_Team c) rid = ignoreS (list_team V c rid)"
| "serve V (Invite_Team_Member c body) rid = ignoreS (invite_team_member V c body rid)"
| "serve V (Update_Team_Member c i body) rid = ignoreS (update_team_member V c i body rid)"
| "serve V (Remove_Team_Member c i) rid = ignoreS (remove_team_member V c i rid)"
| "serve V (List_Module_Entitlements c) rid = ignoreS (list_module_entitlements V c rid)"
| "serve V (Set_Module_Entitlement c i body) rid = ignoreS (set_module_entitlement V c i body rid)"
| "serve V (Issue_Permit c loaded) rid = ignoreS (issue_permit V c loaded rid)"
| "serve V (Get_Permit c i) rid = ignoreS (get_permit V c i rid)"
| "serve V (Revoke_Permit c i) rid = ignoreS (revoke_permit V c i rid)"
| "serve V (Revoke_Authentication_Context c i) rid = ignoreS (revoke_authentication_context V c i rid)"
| "serve V (Revoke_Authorization_Comparison_Plan c i) rid = ignoreS (revoke_authorization_comparison_plan V c i rid)"
| "serve V (Submit_Scan c loaded key i) rid = ignoreS (submit_scan V c loaded key i rid)"
| "serve V (Get_Scan c i) rid = ignoreS (get_scan V c i rid)"
| "serve V (Cancel_Scan c i) rid = ignoreS (cancel_scan V c i rid)"
| "serve V (Scan_Result c i) rid = ignoreS (scan_result V c i rid)"
| "serve V (Create_Scan_Schedule c loaded i) rid = ignoreS (create_scan_schedule V c loaded i rid)"
| "serve V (Get_Scan_Schedule c i) rid = ignoreS (get_scan_schedule V c i rid)"
| "serve V (Pause_Scan_Schedule c i) rid = ignoreS (pause_scan_schedule V c i rid)"
| "serve V (Resume_Scan_Schedule c i) rid = ignoreS (resume_scan_schedule V c i rid)"
| "serve V (List_Findings c page) rid = ignoreS (list_findings V c page rid)"
| "serve V (Get_Finding c i) rid = ignoreS (get_finding V c i rid)"
| "serve V (Update_Finding_Status c i body) rid = ignoreS (update_finding_status V c i body rid)"
| "serve V (List_Finding_Events c i) rid = ignoreS (list_finding_events V c i rid)"
| "serve V (Create_Report c body) rid = ignoreS (create_report V c body rid)"
| "serve V (Get_Report c i) rid = ignoreS (get_report V c i rid)"
| "serve V (List_Reports c page) rid = ignoreS (list_reports V c page rid)"
| "serve V (Download_Report c i) rid = ignoreS (download_report V c i rid)"
| "serve V (List_Scan_Records c page) rid = ignoreS (list_scan_records V c page rid)"
| "serve V (Get_Scan_Record c i) rid = ignoreS (get_scan_record V c i rid)"
| "serve V (Create_Asset c body) rid = ignoreS (create_asset V c body rid)"
| "serve V (List_Assets c page) rid = ignoreS (list_assets V c page rid)"
| "serve V (Get_Asset c i) rid = ignoreS (get_asset V c i rid)"
| "serve V (Update_Asset c i body) rid = ignoreS (update_asset V c i body rid)"
| "serve V (Start_Asset_Verification c i body) rid = ignoreS (start_asset_verification V c i body rid)"
| "serve V (Check_Asset_Verification c i) rid = ignoreS (check_asset_verification V c i rid)"
| "serve V (Dashboard_Summary c) rid = ignoreS (dashboard_summary V c rid)"

text \<open>The caller and the permission a handler asks for first.\<close>

fun required_permission :: "request \<Rightarrow> (auth_context \<times> api_permission) option" where
  "required_permission (List_Team c) = Some (c, TEAM_READ)"
| "required_permission (Invite_Team_Member c _) = Some (c, TEAM_MANAGE)"
| "required_permission (Update_Team_Member c _ _) = Some (c, TEAM_MANAGE)"
| "required_permission (Remove_Team_Member c _) = Some (c, TEAM_MANAGE)"
| "required_permission (List_Module_Entitlements c) = Some (c, MODULE_ENTITLEMENTS_READ)"
| "required_permission (Set_Module_Entitlement c _ _) = Some (c, MODULE_ENTITLEMENTS_MANAGE)"
| "required_permission (Issue_Permit c _) = Some (c, PERMIT_ISSUE)"
| "required_permission (Get_Permit c _) = Some (c, PERMIT_READ)"
| "required_permission (Revoke_Permit c _) = Some (c, PERMIT_REVOKE)"
| "required_permission (Revoke_Authentication_Context c _) = Some (c, AUTHENTICATION_CONTEXT_REVOKE)"
| "required_permission (Revoke_Authorization_Comparison_Plan c _) = Some (c, AUTHORIZATION_COMPARISON_REVOKE)"
| "required_permission (Submit_Scan c _ _ _) = Some (c, JOB_SUBMIT)"
| "required_permission (Get_Scan c _) = Some (c, JOB_READ)"
| "required_permission (Cancel_Scan c _) = Some (c, JOB_CANCEL)"
| "required_permission (Scan_Result c _) = Some (c, JOB_READ)"
| "required_permission (Create_Scan_Schedule c _ _) = Some (c, SCHEDULE_CREATE)"
| "required_permission (Get_Scan_Schedule c _) = Some (c, SCHEDULE_READ)"
| "required_permission (Pause_Scan_Schedule c _) = Some (c, SCHEDULE_UPDATE)"
| "required_permission (Resume_Scan_Schedule c _) = Some (c, SCHEDULE_UPDATE)"
| "required_permission (List_Findings c _) = Some (c, FINDING_READ)"
| "required_permission (Get_Finding c _) = Some (c, FINDING_READ)"
| "required_permission (Update_Finding_Status c _ _) = Some (c, FINDING_UPDATE)"
| "required_permission (List_Finding_Events c _) = Some (c, FINDING_READ)"
| "required_permission (Create_Report c _) = Some (c, REPORT_CREATE)"
| "required_permission (Get_Report c _) = Some (c, REPORT_READ)"
| "required_permission (List_Reports c _) = Some (c, REPORT_READ)"
| "required_permission (Download_Report c _) = Some (c, REPORT_READ)"
| "required_permission (List_Scan_Records c _) = Some (c, JOB_READ)"
| "required_permission (Get_Scan_Record c _) = Some (c, JOB_READ)"
| "required_permission (Create_Asset c _) = Some (c, ASSET_MANAGE)"
| "required_permission (List_Assets c _) = Some (c, ASSET_READ)"
| "required_permission (Get_Asset c _) = Some (c, ASSET_READ)"
| "required_permission (Update_Asset c _ _) = Some (c, ASSET_MANAGE)"
| "required_permission (Start_Asset_Verification c _ _) = Some (c, ASSET_MANAGE)"
| "required_permission (Check_Asset_Verification c _) = Some (c, ASSET_MANAGE)"
| "required_permission (Dashboard_Summary c) = Some (c, JOB_READ)"
| "required_permission _ = None"

inductive service_step :: "service_env \<Rightarrow> service \<Rightarrow> service \<Rightarrow> bool" for V where
  Serve: "service_step V s (snd (serve V r rid s))"
| Authenticate_Token: "service_step V s (s\<lparr>sv_identity := snd (token_authenticate (se_kdf V) headers now (sv_identity s))\<rparr>)"
| Authenticate_Session:
    "service_step V s (s\<lparr>sv_sessions := snd (session_authenticate (se_kdf V) token now idle_ttl header csrf
       (sv_identity s) (sv_sessions s))\<rparr>)"

section \<open>What every request keeps\<close>

lemma snd_ignore: "snd (ignoreS m s) = snd (m s)"
  by (simp add: ignoreS_def bindS_def returnS_def split: prod.split sum.split)

context account_frame
begin

lemma keeps_ignore: "keeps R m \<Longrightarrow> keeps R (ignoreS m)"
  unfolding ignoreS_def by (intro keep_rules)

lemma keeps_unverified: "\<forall>c i. r \<noteq> Check_Asset_Verification c i \<Longrightarrow> keeps R (serve V r rid)"
  by (cases r) (simp only: serve.simps; (rule keeps_ignore)?, (rule keep_rules | blast))+

lemma token_written: "R s (s\<lparr>sv_identity := snd (token_authenticate K headers now (sv_identity s))\<rparr>)"
proof (cases "bearer_token headers")
  case (Inl e)
  then show ?thesis
    by (simp add: token_authenticate_def refl)
next
  case (Inr token)
  then have "snd (token_authenticate K headers now (sv_identity s)) = snd (authenticate_token K token now (sv_identity s))"
    by (simp add: token_authenticate_def split: prod.splits)
  then show ?thesis
    using written [OF Call_Authenticate] by simp
qed

end

context service_frame
begin

lemma keeps_serve: "keeps R (serve V r rid)"
proof (cases "\<exists>c i. r = Check_Asset_Verification c i")
  case True
  then show ?thesis
    by (auto intro!: keeps_ignore keeps_check)
qed (simp add: keeps_unverified)

lemma step_kept: "service_step V s t \<Longrightarrow> R s t"
  by (erule service_step.cases) (use keeps_serve in \<open>auto simp: keeps_def intro: token_written elsewhere\<close>)

lemma steps_kept: "(service_step V)\<^sup>*\<^sup>* s t \<Longrightarrow> R s t"
  by (induction rule: rtranclp_induct) (auto intro: refl trans step_kept)

end

text \<open>Every request is a run of the identity machine.\<close>

interpretation identity_run: service_frame "\<lambda>s t. identity_write\<^sup>*\<^sup>* (sv_identity s) (sv_identity t)"
  by unfold_locales (auto dest: service_writes)

text \<open>No request reactivates a principal.\<close>

definition deactivated :: "string \<Rightarrow> identity_db \<Rightarrow> bool" where
  "deactivated i db \<longleftrightarrow> (\<exists>p. find_principal i db = Some p \<and> \<not> pn_active p)"

lemma deactivated_update:
  assumes "deactivated i db" "\<And>p. pn_principal_id (f p) = pn_principal_id p" "\<And>p. pn_active (f p) \<longrightarrow> pn_active p"
  shows "deactivated i (db\<lparr>principals := sql_update P f (principals db)\<rparr>)"
proof -
  obtain p where "find_principal i db = Some p" "\<not> pn_active p"
    using assms(1) by (auto simp: deactivated_def)
  then show ?thesis
    using assms(2,3) by (auto simp: deactivated_def find_principal_def sql_find_update)
qed

lemma deactivated_append: "deactivated i db \<Longrightarrow> deactivated i (db\<lparr>principals := principals db @ ps\<rparr>)"
  by (auto simp: deactivated_def find_principal_def sql_find_append)

lemma deactivated_elsewhere: "principals db' = principals db \<Longrightarrow> deactivated i db' = deactivated i db"
  by (simp add: deactivated_def find_principal_def)

lemma principals_untouched:
  "principals (snd (create_organization i name now db)) = principals db"
  "principals (snd (set_password_hash i algorithm h now db)) = principals db"
  "principals (snd (create_identity_token scrypt salt secret tid i oid purpose ttl now db)) = principals db"
  "principals (snd (consume_identity_token scrypt token purpose now db)) = principals db"
  "principals (snd (invalidate_identity_tokens i purpose now db)) = principals db"
  "principals (snd (create_token scrypt salt secret tid i label days now db)) = principals db"
  "principals (snd (revoke_token_owned tid i now db)) = principals db"
  "principals (snd (authenticate_token scrypt token now db)) = principals db"
  "principals (snd (record_audit_event e db)) = principals db"
  by (simp_all add: create_organization_def set_password_hash_def create_identity_token_def consume_identity_token_def
    mark_identity_token_def invalidate_identity_tokens_def create_token_def revoke_token_owned_def revoke_row_def
    authenticate_token_def record_audit_event_def Let_def split: sum.split option.split prod.split)

lemma credentials_elsewhere: "credential_write db db' \<Longrightarrow> principals db' = principals db"
  by (induction rule: credential_write.induct) (simp_all add: principals_untouched)

lemma deactivated_stays: "principal_write db db' \<Longrightarrow> deactivated i db \<Longrightarrow> deactivated i db'"
proof (induction rule: principal_write.induct)
  case (Call_Update_Role db i oid role)
  then show ?case
    by (auto simp: update_principal_role_def update_principal_def intro!: deactivated_update split: sum.splits)
next
  case (Call_Deactivate db i oid)
  then show ?case
    by (auto simp: set_principal_active_def update_principal_def intro!: deactivated_update split: sum.splits)
next
  case (Call_Email_Verified db i now)
  then show ?case
    by (auto simp: set_principal_email_verified_def intro!: deactivated_update split: sum.splits)
next
  case (Call_Touch_Login db i now)
  then show ?case
    by (auto simp: touch_last_login_def intro!: deactivated_update)
next
  case (Call_Create_Principal db i oid name role now email)
  then show ?case
    by (auto simp: create_principal_def intro!: deactivated_append split: sum.splits)
qed (simp add: principals_untouched [THEN deactivated_elsewhere])

interpretation removal: service_frame "\<lambda>s t. \<forall>i. deactivated i (sv_identity s) \<longrightarrow> deactivated i (sv_identity t)"
  by unfold_locales (auto dest: deactivated_stays simp: credentials_elsewhere [THEN deactivated_elsewhere])

end
