(* ===== verification/Service_Success.thy ===== *)
theory Service_Success
  imports Service_Requests
begin

text \<open>
  What a handler that succeeds has done: the chain of its steps, each with its result and its state
  (the collection \<open>svc_simps\<close>).
\<close>

named_theorems svc_simps "steps of handlers that succeed"

lemma svc_basic [svc_simps]:
  "returnS x s = (Inr y, t) \<longleftrightarrow> y = x \<and> t = s"
  "raiseS e s = (Inr y, t) \<longleftrightarrow> False"
  "api_error code status s = (Inr y, t) \<longleftrightarrow> False"
  "resultS r s = (Inr y, t) \<longleftrightarrow> r = Inr y \<and> t = s"
  "identity_read f s = (Inr y, t) \<longleftrightarrow> f (sv_identity s) = Inr y \<and> t = s"
  "store_read g s = (Inr y, t) \<longleftrightarrow> g (sv_store s) = Inr y \<and> t = s"
  "drawS h s = (Inr y, t) \<longleftrightarrow> y = h (sv_draws s) \<and> t = s\<lparr>sv_draws := Suc (sv_draws s)\<rparr>"
  by (auto simp: returnS_def raiseS_def api_error_def resultS_def identity_read_def store_read_def drawS_def)

lemma svc_bind [svc_simps]: "bindS m f s = (Inr y, t) \<longleftrightarrow> (\<exists>x u. m s = (Inr x, u) \<and> f x u = (Inr y, t))"
  by (auto simp: bindS_def split: prod.splits sum.splits)

lemma svc_catch: "(\<And>e u. h e u \<noteq> (Inr y, t)) \<Longrightarrow> catchS m h s = (Inr y, t) \<longleftrightarrow> m s = (Inr y, t)"
  by (auto simp: catchS_def split: prod.splits sum.splits)

lemma svc_guard [svc_simps]: "guardS b e m s = (Inr y, t) \<longleftrightarrow> \<not> b \<and> m s = (Inr y, t)"
  by (auto simp: guardS_def raiseS_def)

lemma svc_field [svc_simps]: "require_field field code k s = (Inr y, t) \<longleftrightarrow> (\<exists>x. field = Some x \<and> k x s = (Inr y, t))"
  by (auto simp: require_field_def svc_basic split: option.splits)

lemma svc_calls [svc_simps]:
  "identityS op s = (Inr y, t) \<longleftrightarrow> (\<exists>db. op (sv_identity s) = (Inr y, db) \<and> t = s\<lparr>sv_identity := db\<rparr>)"
  "storeS dop s = (Inr y, t) \<longleftrightarrow> (\<exists>d. dop (sv_store s) = (Inr y, d) \<and> t = s\<lparr>sv_store := d\<rparr>)"
  "sessionsS sop s = (Inr z, t) \<longleftrightarrow> (\<exists>ss. sop (sv_sessions s) = (z, ss) \<and> t = s\<lparr>sv_sessions := ss\<rparr>)"
  "contextsS cop s = (Inr y, t) \<longleftrightarrow> (\<exists>cs. cop (sv_contexts s) = (Inr y, cs) \<and> t = s\<lparr>sv_contexts := cs\<rparr>)"
  "plansS pop s = (Inr y, t) \<longleftrightarrow> (\<exists>ps. pop (sv_plans s) = (Inr y, ps) \<and> t = s\<lparr>sv_plans := ps\<rparr>)"
  "send_mail_best_effort to subject link category s = (Inr u, t) \<longleftrightarrow>
     t = s\<lparr>sv_outbox := sv_outbox s @ [\<lparr>ml_to = to, ml_subject = subject, ml_link = link, ml_category = category\<rparr>]\<rparr>"
  by (auto simp: identityS_def storeS_def sessionsS_def contextsS_def plansS_def send_mail_best_effort_def split: prod.splits)

lemma svc_handlers [svc_simps]:
  "on_identity_error (\<lambda>code. api_error (f code) (g code)) m s = (Inr y, t) \<longleftrightarrow> m s = (Inr y, t)"
  "on_store_error (\<lambda>code. api_error (f code) (g code)) m s = (Inr y, t) \<longleftrightarrow> m s = (Inr y, t)"
  "on_rate_limit m s = (Inr y, t) \<longleftrightarrow> m s = (Inr y, t)"
  "on_password_policy m s = (Inr y, t) \<longleftrightarrow> m s = (Inr y, t)"
  "on_authorization_error m s = (Inr y, t) \<longleftrightarrow> m s = (Inr y, t)"
  "on_permit_error status m s = (Inr y, t) \<longleftrightarrow> m s = (Inr y, t)"
  unfolding on_identity_error_def on_store_error_def on_rate_limit_def on_password_policy_def on_authorization_error_def
    on_permit_error_def
  by (rule svc_catch; simp add: svc_basic split: exn.split)+

lemma svc_reads [svc_simps]:
  "target_read f s = (Inr y, t) \<longleftrightarrow> f (sv_targets s) = Inr y \<and> t = s"
  "verification_read g s = (Inr y, t) \<longleftrightarrow> g (sv_verifications s) = Inr y \<and> t = s"
  "finding_read h s = (Inr y, t) \<longleftrightarrow> h (sv_findings s) = Inr y \<and> t = s"
  "scan_read j s = (Inr y, t) \<longleftrightarrow> j (sv_scans s) = Inr y \<and> t = s"
  "report_read k s = (Inr y, t) \<longleftrightarrow> k (sv_reports s) = Inr y \<and> t = s"
  by (auto simp: target_read_def verification_read_def finding_read_def scan_read_def report_read_def)

lemma svc_translated [svc_simps]:
  "translated code_of status m s = (Inr y, t) \<longleftrightarrow> m s = (Inr y, t)"
  "audited V context request_id action rtype i code_of status m s = (Inr y, t) \<longleftrightarrow> m s = (Inr y, t)"
  unfolding translated_def audited_def by (rule svc_catch; simp add: svc_basic svc_bind split: option.split)+

lemma svc_require [svc_simps]:
  "require_permission V c p rid action rtype i s = (Inr u, t) \<longleftrightarrow> permits c p \<and> t = s"
  by (cases "permits c p")
    (auto simp: require_permission_def require_def catchS_def resultS_def svc_bind svc_basic)

text \<open>A successful audit call appends one event and draws two values.\<close>

lemma record_event_Inr [svc_simps]:
  "record_event V o1 p tid rid action rtype i out detail s = (Inr u, t) \<longleftrightarrow>
     (\<exists>e. SecurityAuditEvent_post_init
            \<lparr>ae_event_id = se_uuid V (sv_draws s), ae_request_id = rid, ae_organization_id = o1, ae_principal_id = p,
             ae_token_id = tid, ae_action = action, ae_resource_type = rtype, ae_resource_id = i, ae_outcome = out,
             ae_occurred_at = se_clock V (Suc (sv_draws s)), ae_detail_code = detail\<rparr> = Inr e
          \<and> record_audit_event e (sv_identity s)
            = (Inr (), (sv_identity s)\<lparr>audit_events := audit_events (sv_identity s) @ [e]\<rparr>)
          \<and> t = s\<lparr>sv_identity := (sv_identity s)\<lparr>audit_events := audit_events (sv_identity s) @ [e]\<rparr>,
                   sv_draws := Suc (Suc (sv_draws s))\<rparr>)"
  unfolding record_event_def svc_simps by (auto simp: record_audit_event_def split: if_splits)

text \<open>A call that fails ends its handler.\<close>

lemma bind_Inl: "m s = (Inl e, t) \<Longrightarrow> bindS m f s = (Inl e, t)"
  by (simp add: bindS_def)

lemma bind_assoc: "bindS (bindS m f) g = bindS m (\<lambda>x. bindS (f x) g)"
  by (rule ext) (simp add: bindS_def split: prod.split sum.split)

lemmas audit_simps = audit_def audit_identity_event_def

end
