(* ===== verification/Service_Examples.thy ===== *)
theory Service_Examples
  imports Service_Success Scheduler_Props Identity_Props
begin

text \<open>
  Concrete states of the service: an organization with an owner,
  an analyst who has an API key, an assigned authorization and a permit under it. The environment counts its draws;
  the digest is constant, the password hash is a prefix.
\<close>

section \<open>Definitions\<close>

definition ex_fresh :: "nat \<Rightarrow> string" where
  "ex_fresh n = dash_uuid (replicate 30 (CHR ''0'') @ [hex_alphabet ! (n div 16 mod 16), hex_alphabet ! (n mod 16)])"

text \<open>A network where every host has a public address and publishes the token \<open>s\<close> in both ways.\<close>

definition ex_network :: network where
  "ex_network =
     \<lparr>nw_resolver = (\<lambda>host port. Resolved [''93.184.216.34'']), nw_fetch = (\<lambda>target. Fetched 200 [115, 10]),
      nw_txt = (\<lambda>name. Txt_Records [[115]])\<rparr>"

definition ex_service_env :: service_env where
  "ex_service_env =
     \<lparr>se_py = ex_env, se_kdf = sample_kdf, se_clock = int, se_uuid = ex_fresh, se_secret = (\<lambda>n. ''s''),
      se_salt = (\<lambda>n. [n]), se_hash_password = (\<lambda>n p. ''h'' @ p), se_verify_password = (\<lambda>p h. h = ''h'' @ p),
      se_sha256 = (\<lambda>s. ex_sha), se_signer = ex_registry, se_authorizations = ex_directory,
      se_needs_rehash = (\<lambda>h. False), se_idle_timeout = 1000, se_absolute_timeout = 10000,
      se_web_app_base_url = ''https://app'', se_cursor_codec = ex_codec,
      se_network = (\<lambda>n. ex_network), se_artifact_checksum = (\<lambda>n ref. Inr ex_sha), se_artifact_get = (\<lambda>n ref. Inr ''{}'')\<rparr>"

definition ex_empty_service :: service where
  "ex_empty_service =
     \<lparr>sv_identity = empty_identity_db, sv_sessions = [],
      sv_limiter = \<lparr>fw_requests = 10, fw_window_seconds = 60, fw_windows = Map.empty\<rparr>,
      sv_entitlements = [], sv_store = empty_db, sv_contexts = [], sv_plans = [], sv_outbox = [],
      sv_targets = [], sv_verifications = [], sv_findings = no_findings, sv_scans = [], sv_reports = [],
      sv_api_limiter = \<lparr>fw_requests = 60, fw_window_seconds = 60, fw_windows = Map.empty\<rparr>, sv_draws = 0\<rparr>"

definition ex_rid :: string where
  "ex_rid = ex_uuid (CHR ''8'')"

text \<open>An organization with its owner and an analyst.\<close>

definition ex_member :: "char \<Rightarrow> string \<Rightarrow> organization_role \<Rightarrow> principal" where
  "ex_member c name role =
     \<lparr>pn_principal_id = ex_uuid c, pn_organization_id = ex_org, pn_display_name = name, pn_principal_type = USER,
      pn_role = role, pn_active = True, pn_created_at = 0, pn_email = Some (codes (name @ ''@acme.io'')),
      pn_email_verified_at = None, pn_last_login_at = None\<rparr>"

definition ex_context :: "char \<Rightarrow> string \<Rightarrow> organization_role \<Rightarrow> auth_context" where
  "ex_context c name role =
     \<lparr>ac_organization_id = ex_org, ac_organization_name = ''acme'', ac_principal_id = ex_uuid c, ac_principal_name = name,
      ac_role = role, ac_token_id = ex_uuid (CHR ''7''), ac_auth_method = ''api_token''\<rparr>"

definition ex_owner :: auth_context where
  "ex_owner = ex_context (CHR ''9'') ''olive'' OWNER"

definition ex_analyst :: auth_context where
  "ex_analyst = ex_context (CHR ''b'') ''alice'' ANALYST"

definition ex_team :: identity_db where
  "ex_team =
     empty_identity_db
       \<lparr>organizations := [\<lparr>og_organization_id = ex_org, og_name = ''acme'', og_status = ORG_ACTIVE, og_created_at = 0,
                           og_name_key = codes ''acme''\<rparr>],
        principals := [ex_member (CHR ''9'') ''olive'' OWNER, ex_member (CHR ''b'') ''alice'' ANALYST],
        api_tokens := [\<lparr>at_token_id = ex_uuid (CHR ''7''), at_organization_id = ex_org, at_principal_id = ex_uuid (CHR ''b''),
                        at_label = ''ci'', at_created_at = 0, at_expires_at = 100, at_revoked_at = None, at_last_used_at = None,
                        at_secret_hash = hash_secret sample_kdf [3] ''s''\<rparr>],
        assigned_authorizations := [(ex_org, ex_uuid (CHR ''d''), ex_uuid (CHR ''9''), 0)]\<rparr>"

definition ex_service :: service where
  "ex_service = ex_empty_service\<lparr>sv_identity := ex_team\<rparr>"

definition ex_permit_submission :: permit_submission where
  "ex_permit_submission =
     \<lparr>ps_target = ''https://example.com/'', ps_authorization_id = ex_uuid (CHR ''d''), ps_confirmation = ex_uuid (CHR ''d''),
      ps_permitted_modes = [CRAWL], ps_allowed_http_methods = [''GET''], ps_not_before = 10, ps_expires_at = 1000000,
      ps_maximum_request_attempts = 10, ps_maximum_requests_per_second = 1, ps_maximum_concurrency = 1,
      ps_active_checks = [], ps_authentication_context_id = None, ps_authorization_comparison_plan_id = None\<rparr>"

text \<open>The permit that the owner is issued, and the service that stores it.\<close>

definition ex_issued :: permit_claims where
  "ex_issued = issued_claims ex_service_env ex_owner ex_permit_submission ex_authorization (ex_fresh (Suc 0)) 0"

definition ex_signed :: signed_permit where
  "ex_signed = ex_permit\<lparr>sp_claims := ex_issued\<rparr>"

definition ex_issued_row :: permit_row where
  "ex_issued_row = new_permit_row ex_env ex_signed"

definition ex_permitted :: service where
  "ex_permitted = ex_service\<lparr>sv_draws := 2, sv_store := empty_db\<lparr>scan_permits := [ex_issued_row]\<rparr>\<rparr>"

definition ex_granted :: service where
  "ex_granted = ex_permitted\<lparr>sv_draws := 20\<rparr>"

definition ex_scan_submission :: scan_job_submission where
  "ex_scan_submission =
     \<lparr>ss_target = ''https://example.com/'', ss_authorization_id = ex_uuid (CHR ''d''), ss_confirmation = ex_uuid (CHR ''d''),
      ss_mode = CRAWL\<rparr>"

definition ex_scan_request :: scan_job_request where
  "ex_scan_request =
     \<lparr>rq_idempotency_key = ''tenant-'' @ ex_sha, rq_target = ''https://example.com/'', rq_authorization_id = ex_uuid (CHR ''d''),
      rq_authorization_sha256 = ex_sha, rq_mode = CRAWL, rq_submitted_at = 21\<rparr>"

section \<open>Results\<close>

lemma succeeded: "\<not> isl (fst x) \<Longrightarrow> \<exists>y t. x = (Inr y, t)"
  by (cases x; cases "fst x") auto

end
