(* ===== verification/Service_Props.thy ===== *)
theory Service_Props
  imports Service_Examples
begin

text \<open>
  Theorems about the service facade: refused requests, the team, and how they compose with the identity
  store, the sessions and the authenticators.
\<close>

section \<open>Refused requests\<close>

lemma guarded_request:
  assumes "required_permission r = Some (c, p)"
  shows "\<exists>action rtype i k. serve V r rid = bindS (require_permission V c p rid action rtype i) k"
  using assms
  by (cases r; simp only: required_permission.simps option.inject prod.inject option.distinct serve.simps ignoreS_def
      list_team_def invite_team_member_def update_team_member_def remove_team_member_def list_module_entitlements_def
      set_module_entitlement_def issue_permit_def get_permit_def revoke_permit_def revoke_authentication_context_def
      revoke_authorization_comparison_plan_def submit_scan_def get_scan_def cancel_scan_def scan_result_def
      create_scan_schedule_def get_scan_schedule_def pause_scan_schedule_def resume_scan_schedule_def
      update_schedule_state_def list_findings_def get_finding_def update_finding_status_def list_finding_events_def
      create_report_def get_report_def list_reports_def download_report_def list_scan_records_def get_scan_record_def
      create_asset_def list_assets_def get_asset_def
      update_asset_def start_asset_verification_def check_asset_verification_def dashboard_summary_def Let_def bind_assoc)
    (elim conjE; hypsubst; intro exI; rule refl)+

definition refused_by :: "auth_context \<Rightarrow> exn \<Rightarrow> audit_event list \<Rightarrow> bool" where
  "refused_by c e events \<longleftrightarrow>
     (if e = ApiServiceError ''permission_denied'' 403
      then \<exists>x. events = [x] \<and> ae_outcome x = AUDIT_DENIED \<and> ae_detail_code x = Some ''permission_denied''
               \<and> ae_organization_id x = ac_organization_id c \<and> ae_principal_id x = ac_principal_id c
               \<and> ae_token_id x = ac_token_id c
      else events = [])"

lemma bindE_Inl_iff: "bindE m f = Inl e \<longleftrightarrow> m = Inl e \<or> (\<exists>x. m = Inr x \<and> f x = Inl e)"
  by (cases m) auto

lemma mapE_Inl: "mapE f xs = Inl e \<Longrightarrow> \<exists>x. f x = Inl e"
  by (induction xs) (auto simp: bindE_Inl_iff)

lemma tenancy_errors:
  "tenancy_uuid v \<noteq> Inl (ApiServiceError code status)"
  "tenancy_text m v \<noteq> Inl (ApiServiceError code status)"
  "tenancy_identifier m v \<noteq> Inl (ApiServiceError code status)"
proof -
  show "tenancy_uuid v \<noteq> Inl (ApiServiceError code status)"
    by (simp add: tenancy_uuid_def canonical_uuid_def tn_error_def raise_if_def Let_def split: option.split)
  show plain: "tenancy_text m v \<noteq> Inl (ApiServiceError code status)"
    by (simp add: tenancy_text_def bounded_text_def tn_error_def raise_if_def Let_def)
  then show "tenancy_identifier m v \<noteq> Inl (ApiServiceError code status)"
    by (auto simp: tenancy_identifier_def bindE_Inl_iff tn_error_def raise_if_def Let_def)
qed

lemma audit_contract_error: "SecurityAuditEvent_post_init v \<noteq> Inl (ApiServiceError code status)"
  using tenancy_errors
  by (auto simp: SecurityAuditEvent_post_init_def bindE_Inl_iff mapE_option_def split: option.splits dest!: mapE_Inl)

lemma denial_code: "tenancy_identifier 128 ''permission_denied'' = Inr ''permission_denied''"
  by code_simp

lemma record_event_Inl:
  assumes "record_event V o1 p tid rid action rtype i out detail s = (Inl e, t)"
  shows "t = s\<lparr>sv_draws := Suc (Suc (sv_draws s))\<rparr> \<and> e \<noteq> ApiServiceError ''permission_denied'' 403"
  using assms audit_contract_error
  by (auto simp: record_event_def bindS_def drawS_def on_identity_error_def catchS_def resultS_def identityS_def
      api_error_def raiseS_def record_audit_event_def is_error_def
      split: sum.splits prod.splits if_splits exn.splits)

lemma denied_event:
  assumes "\<not> permits c p"
  shows "\<exists>e events. require_permission V c p rid action rtype i s
      = (Inl e, s\<lparr>sv_identity := (sv_identity s)\<lparr>audit_events := audit_events (sv_identity s) @ events\<rparr>,
                  sv_draws := Suc (Suc (sv_draws s))\<rparr>) \<and> refused_by c e events"
proof -
  let ?a = "audit V c rid action rtype i AUDIT_DENIED (Some ''permission_denied'')"
  have r: "require_permission V c p rid action rtype i s = bindS ?a (\<lambda>_. api_error ''permission_denied'' 403) s"
    using assms by (simp add: require_permission_def require_def catchS_def resultS_def)
  show ?thesis
  proof (cases "?a s")
    case (Pair x t)
    show ?thesis
    proof (cases x)
      case (Inl e)
      with Pair have "t = s\<lparr>sv_draws := Suc (Suc (sv_draws s))\<rparr>" "e \<noteq> ApiServiceError ''permission_denied'' 403"
        using record_event_Inl by (simp_all add: audit_def)
      then show ?thesis
        using Pair Inl r by (intro exI [of _ e] exI [of _ "[]"]) (simp add: bindS_def refused_by_def)
    next
      case (Inr u)
      then obtain v where "SecurityAuditEvent_post_init
            \<lparr>ae_event_id = se_uuid V (sv_draws s), ae_request_id = rid, ae_organization_id = ac_organization_id c,
             ae_principal_id = ac_principal_id c, ae_token_id = ac_token_id c, ae_action = action,
             ae_resource_type = rtype, ae_resource_id = i, ae_outcome = AUDIT_DENIED,
             ae_occurred_at = se_clock V (Suc (sv_draws s)), ae_detail_code = Some ''permission_denied''\<rparr> = Inr v"
        and t: "t = s\<lparr>sv_identity := (sv_identity s)\<lparr>audit_events := audit_events (sv_identity s) @ [v]\<rparr>,
                   sv_draws := Suc (Suc (sv_draws s))\<rparr>"
        using Pair by (auto simp: audit_def record_event_Inr)
      then have "refused_by c (ApiServiceError ''permission_denied'' 403) [v]"
        by (auto simp: refused_by_def SecurityAuditEvent_post_init_def bindE_eq_Inr denial_code)
      then show ?thesis
        using Pair Inr r t by (auto simp: bindS_def api_error_def raiseS_def)
    qed
  qed
qed

text \<open>
  C30. A request whose caller's role lacks the permission of its handler fails and leaves every
  repository as it was, but for the audit log: the caller is told that permission is denied exactly
  when one event, with the outcome denied and the caller's organization, principal and credential,
  was added; if the event cannot be recorded, the request fails with another error.
\<close>

theorem denied_request_recorded:
  assumes "required_permission r = Some (c, p)" "\<not> permits c p"
  shows "\<exists>e events. serve V r rid s
      = (Inl e, s\<lparr>sv_identity := (sv_identity s)\<lparr>audit_events := audit_events (sv_identity s) @ events\<rparr>,
                  sv_draws := Suc (Suc (sv_draws s))\<rparr>) \<and> refused_by c e events"
proof -
  obtain action rtype i k where "serve V r rid = bindS (require_permission V c p rid action rtype i) k"
    using guarded_request [OF assms(1)] by blast
  then show ?thesis
    using denied_event [OF assms(2), of V rid action rtype i s] bind_Inl by metis
qed

theorem denied_request_recorded_witness:
  "\<exists>e events. serve ex_service_env (Cancel_Scan (ex_context (CHR ''b'') ''vic'' VIEWER) (ex_fresh 22)) ex_rid ex_service
      = (Inl e, ex_service\<lparr>sv_identity := ex_team\<lparr>audit_events := events\<rparr>, sv_draws := 2\<rparr>)
    \<and> refused_by (ex_context (CHR ''b'') ''vic'' VIEWER) e events"
  using denied_request_recorded [of "Cancel_Scan (ex_context (CHR ''b'') ''vic'' VIEWER) (ex_fresh 22)" "ex_context (CHR ''b'') ''vic'' VIEWER"
      JOB_CANCEL ex_service_env ex_rid ex_service]
  by (simp add: permits_def ex_context_def ex_service_def ex_empty_service_def ex_team_def empty_identity_db_def numeral_2_eq_2)

section \<open>The team\<close>

text \<open>The relation a handler's tail keeps holds between its states.\<close>

lemma keepsD: "keeps R m \<Longrightarrow> m s = (r, t) \<Longrightarrow> R s t"
  unfolding keeps_def by (metis snd_conv)

lemma deactivate_deactivates:
  assumes "set_principal_active i oid False db = (Inr p, db')"
  shows "deactivated i db'"
proof -
  have scoped: "\<exists>q. get_principal_scoped i oid db = Inr q"
    and db': "db' = db\<lparr>principals := sql_update (\<lambda>r. pn_principal_id r = i \<and> pn_organization_id r = oid)
        (\<lambda>p. p\<lparr>pn_active := False\<rparr>) (principals db)\<rparr>"
    using assms by (auto simp: set_principal_active_def update_principal_def split: sum.splits)
  then obtain row where row: "find_principal i db = Some row" "pn_organization_id row = oid"
    by (auto simp: get_principal_scoped_def bindE_eq_Inr raise_if_eq_Inr dest!: get_principal_Inr)
  then have "pn_principal_id row = i"
    by (auto simp: find_principal_def dest: sql_find_Some)
  then show ?thesis
    using row by (simp add: deactivated_def db' find_principal_def sql_find_update)
qed

lemma remove_deactivates:
  assumes "remove_team_member V c i rid s = (Inr m, t)"
  shows "deactivated i (sv_identity t)"
proof -
  obtain db u where u: "set_principal_active i (ac_organization_id c) False (sv_identity s) = (Inr m, db)"
    and tail: "bindS (drawS (se_clock V)) (\<lambda>now.
      bindS (sessionsS (revoke_all_sessions_for_principal i now None)) (\<lambda>_.
      bindS (audit V c rid ''team.remove'' ''principal'' i AUDIT_SUCCEEDED None) (\<lambda>_. returnS m))) (s\<lparr>sv_identity := db\<rparr>)
      = (Inr m, t)"
    using assms unfolding remove_team_member_def by (auto simp: svc_simps)
  have "keeps (\<lambda>s t. \<forall>i. deactivated i (sv_identity s) \<longrightarrow> deactivated i (sv_identity t))
      (bindS (drawS (se_clock V)) (\<lambda>now.
      bindS (sessionsS (revoke_all_sessions_for_principal i now None)) (\<lambda>_.
      bindS (audit V c rid ''team.remove'' ''principal'' i AUDIT_SUCCEEDED None) (\<lambda>_. returnS m))))"
    by (intro keep_rules)
  from keepsD [OF this tail] show ?thesis
    using deactivate_deactivates [OF u] by simp
qed

lemma deactivated_reads:
  assumes "deactivated i db"
  shows "get_principal i db = Inr p \<Longrightarrow> \<not> pn_active p"
  using assms
  by (auto simp: deactivated_def get_principal_def principal_from_row_def persisted_Inr Principal_post_init_def bindE_eq_Inr)

lemma check_api_token_owner:
  "check_api_token K token now db = Inr (metadata, owner, organization) \<Longrightarrow>
     pn_active owner \<and> (\<exists>j row. find_principal j db = Some row \<and> principal_from_row row = Inr owner)"
  by (auto simp: check_api_token_def bindE_eq_Inr raise_if_eq_Inr split: option.splits)

lemma deactivated_token:
  assumes "deactivated i db" "fst (token_authenticate K headers now db) = Inr ctx"
  shows "ac_principal_id ctx \<noteq> i"
proof -
  obtain token metadata owner organization where
    "check_api_token K token now db = Inr (metadata, owner, organization)"
    and ctx: "ctx = context_of owner organization (at_token_id metadata) ''api_token''"
    using assms(2)
    by (auto simp: token_authenticate_def authenticate_token_def auth_result_def bindE_eq_Inr ApiTokenMetadata_post_init_def
        raise_if_eq_Inr split: sum.splits prod.splits)
  then have "pn_active owner" and owner: "\<exists>j row. find_principal j db = Some row \<and> principal_from_row row = Inr owner"
    using check_api_token_owner by blast+
  from owner obtain j row where j: "find_principal j db = Some row" "principal_from_row row = Inr owner"
    by blast
  then have "pn_principal_id owner = j"
    by (auto simp: principal_from_row_def persisted_Inr Principal_post_init_def bindE_eq_Inr find_principal_def
        dest: sql_find_Some)
  with j have "get_principal (pn_principal_id owner) db = Inr owner"
    by (simp add: get_principal_def)
  then show ?thesis
    using deactivated_reads [OF assms(1)] ctx \<open>pn_active owner\<close> by (auto simp: context_of_def)
qed

lemma deactivated_session:
  assumes "deactivated i db" "fst (session_authenticate K token now ttl header csrf db ss) = Inr ctx"
  shows "ac_principal_id ctx \<noteq> i"
proof -
  obtain j p organization x where "get_principal j db = Inr p" "pn_active p" "ctx = context_of p organization x ''browser_session''"
    using assms(2)
    by (auto simp: session_authenticate_def auth_result_def bindE_eq_Inr raise_if_eq_Inr split: sum.splits prod.splits)
  then show ?thesis
    using deactivated_reads [OF assms(1)] get_principal_Inr by (force simp: context_of_def)
qed

text \<open>
  C31. Removing a member locks them out for good: whatever requests follow, no API token and no session
  cookie, old or new, gives anyone a context of the removed principal again.
\<close>

theorem removed_member_locked_out:
  assumes "remove_team_member V c i rid s = (Inr m, s1)" "(service_step V)\<^sup>*\<^sup>* s1 s2"
  shows "fst (token_authenticate K headers now (sv_identity s2)) = Inr ctx
         \<or> fst (session_authenticate K token now ttl header csrf (sv_identity s2) (sv_sessions s2)) = Inr ctx
      \<longrightarrow> ac_principal_id ctx \<noteq> i"
proof -
  have "deactivated i (sv_identity s2)"
    using removal.steps_kept [OF assms(2)] remove_deactivates [OF assms(1)] by blast
  then show ?thesis
    using deactivated_token deactivated_session by blast
qed

theorem removed_member_locked_out_witness:
  "fst (token_authenticate sample_kdf [''Bearer wgt_'' @ ex_uuid (CHR ''7'') @ ''_s''] 10 ex_team) = Inr ex_analyst
   \<and> (\<exists>m s. remove_team_member ex_service_env ex_owner (ac_principal_id ex_analyst) ex_rid ex_service = (Inr m, s)
      \<and> fst (token_authenticate sample_kdf [''Bearer wgt_'' @ ex_uuid (CHR ''7'') @ ''_s''] 10 (sv_identity s)) \<noteq> Inr ex_analyst)"
proof -
  have "\<not> isl (fst (remove_team_member ex_service_env ex_owner (ac_principal_id ex_analyst) ex_rid ex_service))"
    by code_simp
  then obtain m s where removed:
    "remove_team_member ex_service_env ex_owner (ac_principal_id ex_analyst) ex_rid ex_service = (Inr m, s)"
    using succeeded by blast
  moreover have "fst (token_authenticate sample_kdf [''Bearer wgt_'' @ ex_uuid (CHR ''7'') @ ''_s''] 10 ex_team) = Inr ex_analyst"
    by code_simp
  ultimately show ?thesis
    using removed_member_locked_out [OF removed rtranclp.rtrancl_refl, of sample_kdf _ 10 ex_analyst] by blast
qed

section \<open>Owners\<close>

definition owners :: "identity_db \<Rightarrow> principal list" where
  "owners db = filter (\<lambda>p. pn_role p = OWNER) (principals db)"

lemma owners_elsewhere: "principals db' = principals db \<Longrightarrow> owners db' = owners db"
  by (simp add: owners_def)

interpretation ownership: verifying_frame "\<lambda>s t. owners (sv_identity t) = owners (sv_identity s)"
  by unfold_locales (auto dest: credentials_elsewhere [THEN owners_elsewhere])

abbreviation keeps_owners :: "'a svc \<Rightarrow> bool" where
  "keeps_owners \<equiv> keeps (\<lambda>s t. owners (sv_identity t) = owners (sv_identity s))"

lemma owners_update:
  assumes "\<And>p. p \<in> set (principals db) \<Longrightarrow> P p \<Longrightarrow> pn_role p \<noteq> OWNER \<and> pn_role (f p) \<noteq> OWNER"
  shows "owners (db\<lparr>principals := sql_update P f (principals db)\<rparr>) = owners db"
proof -
  have "filter (\<lambda>p. pn_role p = OWNER) (sql_update P f ps) = filter (\<lambda>p. pn_role p = OWNER) ps"
    if "\<And>p. p \<in> set ps \<Longrightarrow> P p \<Longrightarrow> pn_role p \<noteq> OWNER \<and> pn_role (f p) \<noteq> OWNER" for ps
    using that by (induction ps) (auto simp: sql_update_def)
  then show ?thesis
    using assms by (simp add: owners_def)
qed

text \<open>The row behind a scoped read is the only one with its identifier.\<close>

lemma scoped_row:
  assumes "identity_inv db" "get_principal_scoped i oid db = Inr current" "p \<in> set (principals db)" "pn_principal_id p = i"
  shows "pn_role p = pn_role current"
proof -
  obtain row where row: "find_principal i db = Some row" "pn_role row = pn_role current"
    using assms(2)
    by (auto simp: get_principal_scoped_def get_principal_def principal_from_row_def persisted_Inr Principal_post_init_def
        bindE_eq_Inr raise_if_eq_Inr split: option.splits)
  have "row \<in> set (principals db)" "pn_principal_id row = i"
    using row(1) by (auto simp: find_principal_def dest: sql_find_Some)
  then have "row = p"
    using assms(1,3,4) by (auto simp: identity_inv_def principals_ok_def principal_table_def distinct_map inj_on_def)
  then show ?thesis
    using row(2) by simp
qed

lemma create_principal_owners:
  "role \<noteq> OWNER \<Longrightarrow> keeps_owners (identityS (create_principal i oid name USER role now email))"
  by (auto simp: keeps_def identityS_def create_principal_def Principal_post_init_def bindE_eq_Inr raise_if_eq_Inr owners_def
      split: prod.splits sum.splits if_splits)

lemma invite_keeps_owners:
  assumes "ac_role c \<noteq> OWNER"
  shows "keeps_owners (invite_team_member V c body rid)"
proof -
  have guarded: "(\<not> b \<Longrightarrow> keeps_owners m) \<Longrightarrow> keeps_owners (guardS b e m)" for b e and m :: "'b svc"
    by (cases b) (auto simp: guardS_def intro: ownership.keeps_simple)
  show ?thesis
    unfolding invite_team_member_def
    by (intro ownership.keeps_bind ownership.keeps_field guarded ownership.keeps_audit ownership.keeps_elsewhere
        ownership.keeps_handlers ownership.keeps_simple ownership.keeps_helpers ownership.keeps_cases create_principal_owners)
      (use assms in auto)
qed

lemma principal_update_owners:
  assumes "identity_inv db" "get_principal_scoped i oid db = Inr current" "pn_role current \<noteq> OWNER"
    and "\<And>p. pn_role p \<noteq> OWNER \<Longrightarrow> pn_role (f p) \<noteq> OWNER"
  shows "owners (snd (update_principal i oid f db)) = owners db"
  using scoped_row [OF assms(1,2)] assms(2-4) by (auto simp: update_principal_def intro!: owners_update)

lemma snd_on_identity_error:
  "snd (on_identity_error (\<lambda>code. api_error (g code) (h code)) (identityS op) s) = s\<lparr>sv_identity := snd (op (sv_identity s))\<rparr>"
  by (auto simp: on_identity_error_def catchS_def identityS_def api_error_def raiseS_def split: prod.splits sum.splits exn.splits)

lemmas owners_leaves =
  ownership.keeps_audit [THEN ownership.kept_from] ownership.keeps_elsewhere [THEN ownership.kept_from]
  ownership.keeps_simple [THEN ownership.kept_from]
  ownership.keeps_handlers(1) [OF ownership.keeps_simple(4) ownership.keeps_simple(5), THEN ownership.kept_from]

lemma update_keeps_owners:
  assumes "identity_inv (sv_identity s)" "ac_role c \<noteq> OWNER"
  shows "owners (sv_identity (snd (update_team_member V c i body rid s))) = owners (sv_identity s)"
  unfolding update_team_member_def
  by (intro ownership.bind_from ownership.field_from ownership.guard_from)
    (use assms in \<open>auto simp: svc_simps owners_leaves snd_on_identity_error update_principal_role_def
       intro!: principal_update_owners\<close>)

lemma remove_keeps_owners:
  assumes "identity_inv (sv_identity s)" "ac_role c \<noteq> OWNER"
  shows "owners (sv_identity (snd (remove_team_member V c i rid s))) = owners (sv_identity s)"
  unfolding remove_team_member_def
  by (intro ownership.bind_from ownership.field_from ownership.guard_from)
    (use assms in \<open>auto simp: svc_simps owners_leaves snd_on_identity_error set_principal_active_def
       intro!: principal_update_owners\<close>)

text \<open>The caller of a request that comes with a credential.\<close>

fun request_context :: "request \<Rightarrow> auth_context option" where
  "request_context (Register_Account _ _ _) = None"
| "request_context (Login _ _ _) = None"
| "request_context (Request_Password_Reset _ _) = None"
| "request_context (Confirm_Password_Reset _ _) = None"
| "request_context (Confirm_Email_Verification _ _) = None"
| "request_context (Accept_Invitation _ _ _) = None"
| "request_context (Logout c) = Some c"
| "request_context (Logout_All_Sessions c) = Some c"
| "request_context (Get_Session_Info c) = Some c"
| "request_context (Change_Password c _) = Some c"
| "request_context (Request_Email_Verification c) = Some c"
| "request_context (Me c) = Some c"
| "request_context (List_Api_Keys c) = Some c"
| "request_context (Create_Api_Key c _) = Some c"
| "request_context (Revoke_Api_Key c _) = Some c"
| "request_context (Get_Settings c) = Some c"
| "request_context r = map_option fst (required_permission r)"

lemma serve_keeps_owners:
  assumes "identity_inv (sv_identity s)" "request_context r = Some c" "ac_role c \<noteq> OWNER"
  shows "owners (sv_identity (snd (serve V r rid s))) = owners (sv_identity s)"
  using assms
  by (cases r; simp add: snd_ignore update_keeps_owners remove_keeps_owners invite_keeps_owners [THEN ownership.kept_from]
      ownership.keeps_credentials [THEN ownership.kept_from] ownership.keeps_keys [THEN ownership.kept_from]
      ownership.keeps_permits [THEN ownership.kept_from] ownership.keeps_jobs [THEN ownership.kept_from]
      ownership.keeps_records [THEN ownership.kept_from] ownership.keeps_assets [THEN ownership.kept_from]
      ownership.keeps_check [THEN ownership.kept_from])

text \<open>
  C32. Only owners make or unmake owners: a request of a caller with any other role leaves the rows of
  all owners, of every organization, exactly as they are and adds none, whatever the request and its body.
\<close>

theorem owners_only_by_owners:
  assumes "identity_reachable (sv_identity s)" "request_context r = Some c" "ac_role c \<noteq> OWNER"
  shows "owners (sv_identity (snd (serve V r rid s))) = owners (sv_identity s)"
  using serve_keeps_owners identity.reachable_inv [OF assms(1)] assms(2,3) by blast

definition olive :: principal where
  "olive = alice\<lparr>pn_principal_id := dash_uuid (replicate 32 (CHR ''c'')), pn_role := OWNER\<rparr>"

definition owned_service :: service where
  "owned_service = ex_service\<lparr>sv_identity := sample_identity\<lparr>principals := [alice, olive]\<rparr>\<rparr>"

lemma owned_service_reachable: "identity_reachable (sv_identity owned_service)"
proof -
  have "Principal_post_init olive = Inr olive"
    by code_simp
  from Insert_Principal [OF this, of sample_identity] have "identity_write sample_identity (sample_identity\<lparr>principals := [alice, olive]\<rparr>)"
    by (simp add: sample_identity_def principal_conflict_def find_organization_def sql_find_def olive_def alice_def acme_row_def)
      (simp add: acme_def sample_user_def dash_uuid_def)
  then show ?thesis
    using sample_identity_reachable unfolding reachable_def
    by (auto simp: owned_service_def intro: rtranclp.rtrancl_into_rtrancl)
qed

theorem owners_only_by_owners_witness:
  "owners (sv_identity (snd (serve ex_service_env (Remove_Team_Member (ex_context (CHR ''b'') ''adam'' ADMINISTRATOR)
      (pn_principal_id olive)) ex_rid owned_service))) = [olive]"
proof -
  have "ac_role (ex_context (CHR ''b'') ''adam'' ADMINISTRATOR) \<noteq> OWNER"
    by (simp add: ex_context_def)
  moreover have "owners (sv_identity owned_service) = [olive]"
    by (simp add: owners_def owned_service_def) (simp add: olive_def alice_def)
  ultimately show ?thesis
    using owners_only_by_owners [OF owned_service_reachable, of "Remove_Team_Member (ex_context (CHR ''b'') ''adam'' ADMINISTRATOR)
      (pn_principal_id olive)" _ ex_service_env ex_rid] by simp
qed

end
