(* ===== verification/Service_Scan_Props.thy ===== *)
theory Service_Scan_Props
  imports Service_Examples Contract_Props
begin

text \<open>
  Theorems about the handlers for permits, jobs and schedules: what a permit that was issued is bounded
  by, and under which conditions a scan is accepted.
\<close>

section \<open>Issuing a permit\<close>

lemma svc_load [svc_simps]:
  "load_or_fail V c rid action rtype code_of loaded s = (Inr x, t) \<longleftrightarrow> loaded = Inr x \<and> t = s"
  unfolding load_or_fail_def
  by (subst svc_catch) (auto simp: svc_simps split: option.splits)

lemma svc_authorization [svc_simps]:
  "find_authorization V i s = (Inr a, t) \<longleftrightarrow> authorization_get (se_authorizations V) i = Inr a \<and> t = s"
  by (simp add: find_authorization_def svc_simps)

lemma svc_permit_record [svc_simps]:
  "find_permit_record V c i s = (Inr r, t) \<longleftrightarrow>
     get_scan_permit_scoped (se_py V) i (ac_organization_id c) (sv_store s) = Inr r \<and> t = s"
  by (simp add: find_permit_record_def svc_simps)

text \<open>What the checks of a submission amount to.\<close>

definition issue_rights :: "auth_context \<Rightarrow> permit_submission \<Rightarrow> bool" where
  "issue_rights c p \<longleftrightarrow>
     (ps_active_checks p \<noteq> [] \<longrightarrow> permits c PERMIT_ISSUE_ACTIVE)
     \<and> (ps_authentication_context_id p \<noteq> None \<longrightarrow> permits c AUTHENTICATION_CONTEXT_REGISTER)
     \<and> (ps_authorization_comparison_plan_id p \<noteq> None \<longrightarrow> permits c AUTHORIZATION_COMPARISON_REGISTER)"

definition issue_limits :: "permit_submission \<Rightarrow> owned_target_authorization \<Rightarrow> time \<Rightarrow> bool" where
  "issue_limits p a now \<longleftrightarrow>
     oa_target a = ps_target p \<and> oa_issued_at a \<le> now \<and> now < oa_expires_at a \<and> now \<le> ps_not_before p
     \<and> ps_expires_at p \<le> oa_expires_at a \<and> ps_maximum_request_attempts p \<le> lim_maximum_request_attempts (oa_limits a)
     \<and> ps_maximum_requests_per_second p \<le> 1 / lim_minimum_delay_seconds (oa_limits a) + 1 / 10 ^ 12"

lemma svc_issue_rights [svc_simps]:
  "require_issue_rights V c rid p s = (Inr u, t) \<longleftrightarrow> t = s \<and> issue_rights c p"
  by (auto simp: require_issue_rights_def issue_rights_def svc_simps)

lemma svc_issue_limits [svc_simps]:
  "check_issue_limits p a now s = (Inr u, t) \<longleftrightarrow> t = s \<and> issue_limits p a now"
  by (auto simp: check_issue_limits_def issue_limits_def svc_simps)

lemma svc_issue_references:
  assumes "check_issue_references c p a now s = (Inr u, t)"
  shows "t = s"
    and "ps_authentication_context_id p = Some i \<Longrightarrow>
      \<exists>r. context_require_bound i (ac_organization_id c) (ps_target p) (oa_authorization_id a) now (sv_contexts s) = Inr r"
    and "ps_authorization_comparison_plan_id p = Some i \<Longrightarrow>
      \<exists>r. plan_require_bound i (ac_organization_id c) (ps_target p) (oa_authorization_id a) now (sv_plans s) = Inr r
          \<and> cp_permitted_active_check r \<in> set (ps_active_checks p)"
proof -
  have contexts: "catchS (contextsS op) (\<lambda>e. case e of AuthenticationContextError code \<Rightarrow> api_error code 400 | _ \<Rightarrow> raiseS e) s
      = (Inr y, t) \<longleftrightarrow> contextsS op s = (Inr y, t)" for op and y :: unit and s t
    by (rule svc_catch) (simp add: svc_basic split: exn.split)
  have plans: "catchS (plansS op) (\<lambda>e. case e of AuthorizationComparisonError code \<Rightarrow> api_error code 400 | _ \<Rightarrow> raiseS e) s
      = (Inr y, t) \<longleftrightarrow> plansS op s = (Inr y, t)" for op and y :: comparison_plan and s t
    by (rule svc_catch) (simp add: svc_basic split: exn.split)
  show "t = s"
    and "ps_authentication_context_id p = Some i \<Longrightarrow>
      \<exists>r. context_require_bound i (ac_organization_id c) (ps_target p) (oa_authorization_id a) now (sv_contexts s) = Inr r"
    and "ps_authorization_comparison_plan_id p = Some i \<Longrightarrow>
      \<exists>r. plan_require_bound i (ac_organization_id c) (ps_target p) (oa_authorization_id a) now (sv_plans s) = Inr r
          \<and> cp_permitted_active_check r \<in> set (ps_active_checks p)"
    using assms unfolding check_issue_references_def
    by (auto simp: svc_simps contexts plans bindE_eq_Inr split: option.splits)
qed

text \<open>What the stored document says is what was signed.\<close>

lemma claims_dict_fields:
  assumes "permit_claims_to_dict c = permit_claims_to_dict d"
  shows "pc_permit_id c = pc_permit_id d" "pc_organization_id c = pc_organization_id d" "pc_authorization_id c = pc_authorization_id d"
    "pc_authorization_sha256 c = pc_authorization_sha256 d"
    "pc_target c = pc_target d" "pc_issued_by c = pc_issued_by d"
    "pc_maximum_request_attempts c = pc_maximum_request_attempts d"
    "pc_maximum_requests_per_second c = pc_maximum_requests_per_second d"
    "pc_active_checks c = pc_active_checks d"
    "pc_authentication_context_id c = pc_authentication_context_id d"
    "pc_authorization_comparison_plan_id c = pc_authorization_comparison_plan_id d"
  using assms
  by (simp_all add: permit_claims_to_dict_def json_option_def inj_map_eq_map inj_def split: option.splits)

lemma claims_window:
  "TrustScanPermitClaims_post_init E c = Inr d \<Longrightarrow>
     pc_not_before d = pc_not_before c \<and> pc_expires_at d = pc_expires_at c \<and> pc_issued_at d = pc_issued_at c
     \<and> pc_not_before d < pc_expires_at d"
  by (auto simp: TrustScanPermitClaims_post_init_def bindE_eq_Inr raise_if_eq_Inr)

lemma loaded_permit:
  assumes "load_signed_permit E doc = Inr p"
  shows "permit_claims_to_dict (sp_claims p) = permit_claims_to_dict (sp_claims doc)"
    and "TrustScanPermitClaims_post_init E (sp_claims doc) = Inr (sp_claims p)"
    and "sp_signature p = sp_signature doc" "sp_signing_key_id p = sp_signing_key_id doc"
proof -
  obtain claims where "TrustScanPermitClaims_post_init E (sp_claims doc) = Inr claims"
    "SignedTrustScanPermit_post_init (doc\<lparr>sp_claims := claims\<rparr>) = Inr p"
    "permit_claims_to_dict (sp_claims p) = permit_claims_to_dict (sp_claims doc)"
    using assms by (auto simp: load_signed_permit_def bindE_eq_Inr raise_if_eq_Inr)
  moreover from this(2) have "p = doc\<lparr>sp_claims := claims\<rparr>"
    by (auto simp: SignedTrustScanPermit_post_init_def raise_if_eq_Inr)
  ultimately show "permit_claims_to_dict (sp_claims p) = permit_claims_to_dict (sp_claims doc)"
    and "TrustScanPermitClaims_post_init E (sp_claims doc) = Inr (sp_claims p)"
    and "sp_signature p = sp_signature doc" "sp_signing_key_id p = sp_signing_key_id doc"
    by simp_all
qed

lemma issued_fields:
  assumes "TrustScanPermitClaims_post_init (se_py V) (issued_claims V c p a i now) = Inr claims"
  shows "pc_permit_id claims = i \<and> pc_organization_id claims = ac_organization_id c
    \<and> pc_authorization_id claims = oa_authorization_id a
    \<and> pc_authorization_sha256 claims = authorization_fingerprint (se_py V) a
    \<and> permit_target (se_py V) (ps_target p) = Inr (pc_target claims) \<and> pc_issued_by claims = ac_principal_id c
    \<and> pc_maximum_request_attempts claims = ps_maximum_request_attempts p
    \<and> pc_maximum_requests_per_second claims = ps_maximum_requests_per_second p
    \<and> permit_active_checks (ps_active_checks p) = Inr (pc_active_checks claims)
    \<and> pc_authentication_context_id claims = ps_authentication_context_id p
    \<and> pc_authorization_comparison_plan_id claims = ps_authorization_comparison_plan_id p"
proof -
  have uuid: "permit_uuid v = Inr w \<Longrightarrow> w = v" for v w
    by (auto simp: permit_uuid_def canonical_uuid_Inr)
  have option: "mapE_option permit_uuid v = Inr w \<Longrightarrow> w = v" for v w
    by (auto simp: mapE_option_def bindE_eq_Inr dest: uuid split: option.splits)
  have others: "permit_digest d = Inr d' \<Longrightarrow> d' = d" "permit_positive_integer m n = Inr n' \<Longrightarrow> n' = n"
    "permit_requests_per_second r = Inr r' \<Longrightarrow> r' = r" for d d' m n n' r r'
    by (auto simp: permit_digest_def permit_positive_integer_def permit_requests_per_second_def raise_if_eq_Inr)
  show ?thesis
    using assms unfolding TrustScanPermitClaims_post_init_def issued_claims_def
    by (auto simp: bindE_eq_Inr raise_if_eq_Inr dest!: uuid option others)
qed

lemma sign_and_store_Inr:
  assumes "sign_and_store V claims0 s = (Inr (claims, record), t)"
  shows "TrustScanPermitClaims_post_init (se_py V) claims0 = Inr claims
    \<and> (\<exists>signed db. signer_sign (se_signer V) claims = Inr signed
        \<and> create_scan_permit (se_py V) signed (sv_store s) = (Inr record, db) \<and> t = s\<lparr>sv_store := db\<rparr>)"
proof -
  have "bindS (resultS (TrustScanPermitClaims_post_init (se_py V) claims0)) (\<lambda>claims.
             bindS (resultS (signer_sign (se_signer V) claims)) (\<lambda>signed.
             bindS (storeS (create_scan_permit (se_py V) signed)) (\<lambda>record.
               returnS (claims, record)))) s = (Inr (claims, record), t)"
    using assms unfolding sign_and_store_def by (subst (asm) svc_catch) (simp add: svc_basic split: exn.split)
  then show ?thesis
    by (auto simp: svc_simps)
qed

lemma create_scan_permit_Inr:
  assumes "create_scan_permit E signed db = (Inr record, db')"
  shows "permit_from_row E (new_permit_row E signed) = Inr record
    \<and> load_signed_permit E signed = Inr (pp_permit record) \<and> pp_revoked_at record = None
    \<and> db' = db\<lparr>scan_permits := scan_permits db @ [new_permit_row E signed]\<rparr>
    \<and> fetch_permit (pc_permit_id (sp_claims signed)) db = None"
proof -
  let ?row = "new_permit_row E signed" and ?i = "pc_permit_id (sp_claims signed)"
  have fresh: "\<not> list_ex (\<lambda>p. pr_permit_id p = pr_permit_id ?row \<or> pr_permit_sha256 p = pr_permit_sha256 ?row) (scan_permits db)"
    using assms by (auto simp: create_scan_permit_def Let_def split: if_splits)
  have i: "pr_permit_id ?row = ?i"
    by (simp add: new_permit_row_def Let_def)
  then have none: "fetch_permit ?i db = None"
    using fresh by (auto simp: fetch_permit_def sql_find_None list_ex_iff)
  then have "fetch_permit ?i (db\<lparr>scan_permits := scan_permits db @ [?row]\<rparr>) = Some ?row"
    using i by (simp add: fetch_permit_def sql_find_append) (simp add: sql_find_def)
  then show ?thesis
    using assms fresh i none
    by (auto simp: create_scan_permit_def Let_def permit_from_row_def new_permit_row_def split: if_splits sum.splits)
qed

lemma issue_permit_chain:
  assumes "issue_permit V c loaded rid s = (Inr record, t)"
  shows "\<exists>p a claims signed db. loaded = Inr p \<and> permits c PERMIT_ISSUE
    \<and> authorization_assigned_to (ac_organization_id c) (ps_authorization_id p) (sv_identity s)
    \<and> authorization_get (se_authorizations V) (ps_authorization_id p) = Inr a
    \<and> issue_rights c p \<and> issue_limits p a (se_clock V (sv_draws s))
    \<and> TrustScanPermitClaims_post_init (se_py V)
         (issued_claims V c p a (se_uuid V (Suc (sv_draws s))) (se_clock V (sv_draws s))) = Inr claims
    \<and> signer_sign (se_signer V) claims = Inr signed
    \<and> create_scan_permit (se_py V) signed (sv_store s) = (Inr record, db) \<and> sv_store t = db"
proof -
  obtain p a claims u where p: "loaded = Inr p" "permits c PERMIT_ISSUE"
      "authorization_assigned_to (ac_organization_id c) (ps_authorization_id p) (sv_identity s)"
      "authorization_get (se_authorizations V) (ps_authorization_id p) = Inr a"
      "issue_rights c p" "issue_limits p a (se_clock V (sv_draws s))"
    and sign: "sign_and_store V (issued_claims V c p a (se_uuid V (Suc (sv_draws s))) (se_clock V (sv_draws s)))
      (s\<lparr>sv_draws := Suc (Suc (sv_draws s))\<rparr>) = (Inr (claims, record), u)"
    and t: "audit V c rid ''permits.issue'' ''trustscan_permit'' (pc_permit_id claims) AUDIT_SUCCEEDED (issue_detail claims) u = (Inr (), t)"
    using assms unfolding issue_permit_def by (auto simp: svc_simps dest!: svc_issue_references(1))
  obtain signed db where "TrustScanPermitClaims_post_init (se_py V)
         (issued_claims V c p a (se_uuid V (Suc (sv_draws s))) (se_clock V (sv_draws s))) = Inr claims"
      "signer_sign (se_signer V) claims = Inr signed"
      "create_scan_permit (se_py V) signed (sv_store s) = (Inr record, db)" "u = s\<lparr>sv_draws := Suc (Suc (sv_draws s)), sv_store := db\<rparr>"
    using sign_and_store_Inr [OF sign] by auto
  moreover from this(4) t have "sv_store t = db"
    by (auto simp: audit_def record_event_Inr)
  ultimately show ?thesis
    using p by blast
qed

text \<open>
  C33. A permit that the service issues stays within the authorization it rests on. The caller may issue
  permits, and active checks or a reference to an authentication context or a comparison plan are only
  granted by an owner; the authorization is assigned to the caller's organization and in force; the permit
  is for its target, begins no earlier than now and ends no later than the authorization, and its request
  budget and rate are within the authorization's; and from then on the store returns the permit, not revoked,
  to the organization.
\<close>

theorem issued_permit_within_authorization:
  assumes "issue_permit V c loaded rid s = (Inr record, t)"
  shows "\<exists>p a now. loaded = Inr p \<and> permits c PERMIT_ISSUE
    \<and> authorization_assigned_to (ac_organization_id c) (ps_authorization_id p) (sv_identity s)
    \<and> authorization_get (se_authorizations V) (ps_authorization_id p) = Inr a
    \<and> (let claims = sp_claims (pp_permit record) in
        pc_organization_id claims = ac_organization_id c \<and> pc_issued_by claims = ac_principal_id c
        \<and> pc_authorization_id claims = oa_authorization_id a
        \<and> pc_authorization_sha256 claims = authorization_fingerprint (se_py V) a
        \<and> permit_target (se_py V) (oa_target a) = Inr (pc_target claims)
        \<and> oa_issued_at a \<le> now \<and> now < oa_expires_at a
        \<and> now \<le> pc_not_before claims \<and> pc_not_before claims < pc_expires_at claims \<and> pc_expires_at claims \<le> oa_expires_at a
        \<and> pc_maximum_request_attempts claims \<le> lim_maximum_request_attempts (oa_limits a)
        \<and> pc_maximum_requests_per_second claims \<le> 1 / lim_minimum_delay_seconds (oa_limits a) + 1 / 10 ^ 12
        \<and> (pc_active_checks claims \<noteq> [] \<or> pc_authentication_context_id claims \<noteq> None
            \<or> pc_authorization_comparison_plan_id claims \<noteq> None \<longrightarrow> ac_role c = OWNER)
        \<and> get_scan_permit_scoped (se_py V) (pc_permit_id claims) (ac_organization_id c) (sv_store t) = Inr record
        \<and> pp_revoked_at record = None)"
proof -
  obtain p a claims signed db where loaded: "loaded = Inr p" "permits c PERMIT_ISSUE"
      "authorization_assigned_to (ac_organization_id c) (ps_authorization_id p) (sv_identity s)"
      "authorization_get (se_authorizations V) (ps_authorization_id p) = Inr a"
    and checks: "issue_rights c p" "issue_limits p a (se_clock V (sv_draws s))"
    and claims: "TrustScanPermitClaims_post_init (se_py V)
         (issued_claims V c p a (se_uuid V (Suc (sv_draws s))) (se_clock V (sv_draws s))) = Inr claims"
    and signed: "signer_sign (se_signer V) claims = Inr signed"
    and stored: "create_scan_permit (se_py V) signed (sv_store s) = (Inr record, db)" "sv_store t = db"
    using issue_permit_chain [OF assms] by blast
  let ?claims = "sp_claims (pp_permit record)"
  have doc: "sp_claims signed = claims"
    using signer_sign_Inr [OF signed] by simp
  have kept: "load_signed_permit (se_py V) signed = Inr (pp_permit record)" "pp_revoked_at record = None"
    "db = sv_store s\<lparr>scan_permits := scan_permits (sv_store s) @ [new_permit_row (se_py V) signed]\<rparr>"
    "fetch_permit (pc_permit_id claims) (sv_store s) = None"
    using create_scan_permit_Inr [OF stored(1)] doc by simp_all
  note same = claims_dict_fields [OF loaded_permit(1) [OF kept(1)], unfolded doc] and
    window = claims_window [OF loaded_permit(2) [OF kept(1), unfolded doc]] claims_window [OF claims]
  note issued = issued_fields [OF claims]
  let ?mine = "\<lambda>q. pr_permit_id q = pc_permit_id claims \<and> pr_organization_id q = ac_organization_id c"
  have "sql_find ?mine (scan_permits (sv_store s)) = None"
    using kept(4) by (auto simp: fetch_permit_def sql_find_None)
  moreover have "?mine (new_permit_row (se_py V) signed)"
    using doc issued by (simp add: new_permit_row_def Let_def)
  ultimately have "sql_find ?mine (scan_permits db) = Some (new_permit_row (se_py V) signed)"
    by (simp add: kept(3) sql_find_append) (simp add: sql_find_def)
  then have scoped: "get_scan_permit_scoped (se_py V) (pc_permit_id claims) (ac_organization_id c) db = Inr record"
    using create_scan_permit_Inr [OF stored(1)] by (simp add: get_scan_permit_scoped_def)
  have "pc_active_checks claims \<noteq> [] \<Longrightarrow> ps_active_checks p \<noteq> []"
    using issued by (auto simp: permit_active_checks_def sorted_unique_def Let_def)
  then have owner: "pc_active_checks claims \<noteq> [] \<or> pc_authentication_context_id claims \<noteq> None
      \<or> pc_authorization_comparison_plan_id claims \<noteq> None \<longrightarrow> ac_role c = OWNER"
    using checks(1) issued by (cases "ac_role c") (auto simp: issue_rights_def permits_def)
  have "pc_not_before claims < pc_expires_at claims"
    using claims_window [OF claims] by blast
  then show ?thesis
    using loaded checks(2) issued same window kept(2) scoped owner stored(2)
    by (intro exI [of _ p] exI [of _ a] exI [of _ "se_clock V (sv_draws s)"])
      (simp add: Let_def issue_limits_def issued_claims_def)
qed

section \<open>A permit issued\<close>

lemma ex_issued_ok: "TrustScanPermitClaims_post_init ex_env ex_issued = Inr ex_issued"
  by code_simp

lemma ex_signed_ok: "signer_sign ex_registry ex_issued = Inr ex_signed"
  by code_simp

lemma ex_signed_loads: "load_signed_permit ex_env ex_signed = Inr ex_signed"
proof -
  have "SignedTrustScanPermit_post_init ex_signed = Inr ex_signed"
    by code_simp
  moreover have "permit_digest (permit_fingerprint ex_env ex_issued) = Inr (permit_fingerprint ex_env ex_issued)"
    by (simp add: permit_fingerprint_def ex_env_def) code_simp
  ultimately show ?thesis
    using ex_issued_ok by (simp add: load_signed_permit_def ex_signed_def raise_if_def)
qed

lemma ex_stored: "create_scan_permit ex_env ex_signed empty_db
    = (Inr \<lparr>pp_permit = ex_signed, pp_revoked_at = None, pp_revoked_by = None\<rparr>, empty_db\<lparr>scan_permits := [ex_issued_row]\<rparr>)"
  by (simp add: create_scan_permit_def fetch_permit_def sql_find_def empty_db_def permit_from_row_def ex_issued_row_def [symmetric] Let_def)
    (simp add: ex_issued_row_def new_permit_row_def ex_signed_loads Let_def)

lemma ex_issue_steps:
  "authorization_get (se_authorizations ex_service_env) (ps_authorization_id ex_permit_submission) = Inr ex_authorization"
  "authorization_assigned_to (ac_organization_id ex_owner) (ps_authorization_id ex_permit_submission) (sv_identity ex_service)"
  "permits ex_owner PERMIT_ISSUE" "issue_rights ex_owner ex_permit_submission" "issue_limits ex_permit_submission ex_authorization 0"
  by code_simp+

lemma ex_issue_audit:
  "\<exists>t. audit ex_service_env ex_owner ex_rid ''permits.issue'' ''trustscan_permit'' (pc_permit_id ex_issued) AUDIT_SUCCEEDED
     (issue_detail ex_issued) ex_permitted = (Inr (), t)"
proof -
  have "\<not> isl (fst (audit ex_service_env ex_owner ex_rid ''permits.issue'' ''trustscan_permit'' (pc_permit_id ex_issued) AUDIT_SUCCEEDED
     (issue_detail ex_issued) ex_permitted))"
    by code_simp
  from succeeded [OF this] show ?thesis
    by simp
qed

lemma ex_issue:
  "\<exists>r t. issue_permit ex_service_env ex_owner (Inr ex_permit_submission) ex_rid ex_service = (Inr r, t)"
proof -
  have draws: "sv_draws ex_service = 0" "sv_store ex_service = empty_db" "se_clock ex_service_env 0 = 0" "se_uuid ex_service_env (Suc 0) = ex_fresh (Suc 0)"
    "se_py ex_service_env = ex_env" "se_signer ex_service_env = ex_registry"
    by (simp_all add: ex_service_def ex_empty_service_def ex_service_env_def)
  have "check_issue_references ex_owner ex_permit_submission ex_authorization 0 u = (Inr (), u)" for u
    by (simp add: check_issue_references_def ex_permit_submission_def svc_simps)
  moreover have "sign_and_store ex_service_env ex_issued (ex_service\<lparr>sv_draws := 2\<rparr>)
     = (Inr (ex_issued, \<lparr>pp_permit = ex_signed, pp_revoked_at = None, pp_revoked_by = None\<rparr>), ex_permitted)"
    by (simp add: sign_and_store_def catchS_def bindS_def resultS_def storeS_def returnS_def draws ex_issued_ok ex_signed_ok ex_stored ex_permitted_def)
  ultimately show ?thesis
    using ex_issue_steps ex_issue_audit
    by (simp add: issue_permit_def svc_simps draws ex_issued_def [symmetric] numeral_2_eq_2)
qed

theorem issued_permit_within_authorization_witness:
  "\<exists>record t. issue_permit ex_service_env ex_owner (Inr ex_permit_submission) ex_rid ex_service = (Inr record, t)
     \<and> pc_expires_at (sp_claims (pp_permit record)) \<le> oa_expires_at ex_authorization
     \<and> get_scan_permit_scoped ex_env (pc_permit_id (sp_claims (pp_permit record))) ex_org (sv_store t) = Inr record"
proof -
  obtain stored t where issued: "issue_permit ex_service_env ex_owner (Inr ex_permit_submission) ex_rid ex_service = (Inr stored, t)"
    using ex_issue by blast
  moreover have "ac_organization_id ex_owner = ex_org" "se_py ex_service_env = ex_env"
    by (simp_all add: ex_owner_def ex_context_def ex_service_env_def)
  ultimately show ?thesis
    using issued_permit_within_authorization [OF issued] ex_issue_steps(1) by (auto simp: Let_def)
qed

section \<open>Submitting a scan\<close>

lemma tenant_request_Inr [svc_simps]:
  "tenant_request V c p a now key s = (Inr request, t) \<longleftrightarrow>
     t = s \<and> (\<exists>r. job_request V p a now key = Inr r) \<and> job_request V p a now (internal_idempotency_key V c key) = Inr request"
  unfolding tenant_request_def
  by (subst svc_catch) (auto simp: svc_simps split: exn.splits)

lemma submitted_scope:
  assumes "submit E q i (Some org) (Some who) (Some pid) (Some psha) db = (Inr (rec, created), db1)"
  shows "map_option fst (job_scope_of db1 (jb_job_id rec)) = Some org \<and> job_permit_of db1 (jb_job_id rec) = Some (pid, psha)"
  using assms
proof (cases rule: submit_InrE)
  case new
  then show ?thesis
    by (auto simp: insert_job_def option_pair_def job_scope_of_def job_permit_of_def keyed_def fresh_record_def map_add_def)
next
  case (old row)
  then show ?thesis
    by (auto simp: resubmit_def bindE_eq_Inr raise_if_eq_Inr)
qed

text \<open>
  C34. A scan is accepted only when everything that authorizes it holds. The caller may submit jobs; the
  authorization is assigned to the caller's organization and names the target; the permit is stored for
  the organization, its signature verifies, it is not revoked, the instant the request reads from the
  clock is within its window, and it was issued for this authorization, target and mode. The job that is returned, new or found
  by its idempotency key, belongs to the organization and is bound to this permit.
\<close>

theorem submitted_scan_authorized:
  assumes "submit_scan V c loaded key pid rid s = (Inr ((job, binding), created), t)"
  shows "\<exists>p a permit. loaded = Inr p \<and> permits c JOB_SUBMIT
    \<and> authorization_assigned_to (ac_organization_id c) (ss_authorization_id p) (sv_identity s)
    \<and> authorization_get (se_authorizations V) (ss_authorization_id p) = Inr a \<and> oa_target a = ss_target p
    \<and> get_scan_permit_scoped (se_py V) pid (ac_organization_id c) (sv_store s) = Inr permit
    \<and> (let claims = sp_claims (pp_permit permit); now = se_clock V (sv_draws s) in
        signer_verify (se_signer V) (pp_permit permit) = Inr () \<and> pp_revoked_at permit = None
        \<and> pc_not_before claims \<le> now \<and> now < pc_expires_at claims
        \<and> pc_organization_id claims = ac_organization_id c \<and> pc_target claims = ss_target p
        \<and> pc_authorization_sha256 claims = authorization_fingerprint (se_py V) a
        \<and> ss_mode p \<in> set (pc_permitted_modes claims)
        \<and> map_option fst (job_scope_of (sv_store t) (jb_job_id job)) = Some (ac_organization_id c)
        \<and> binding = Some (pc_permit_id claims, permit_fingerprint (se_py V) claims))"
proof -
  obtain p a permit request i db n where p: "loaded = Inr p" "permits c JOB_SUBMIT"
      "authorization_assigned_to (ac_organization_id c) (ss_authorization_id p) (sv_identity s)"
      "authorization_get (se_authorizations V) (ss_authorization_id p) = Inr a" "oa_target a = ss_target p"
      "get_scan_permit_scoped (se_py V) pid (ac_organization_id c) (sv_store s) = Inr permit"
    and use: "validate_permit_use (se_py V) (se_signer V) permit (ac_organization_id c) a (ss_target p) (ss_mode p)
        (se_clock V (sv_draws s)) = Inr ()"
    and submit: "submit (se_py V) request i (Some (ac_organization_id c)) (Some (ac_principal_id c))
        (Some (pc_permit_id (sp_claims (pp_permit permit)))) (Some (permit_fingerprint (se_py V) (sp_claims (pp_permit permit))))
        (sv_store s) = (Inr (job, created), db)"
    and audited: "audit V c rid ''jobs.submit'' ''scan_job'' (jb_job_id job) AUDIT_SUCCEEDED None
        (s\<lparr>sv_draws := n, sv_store := db\<rparr>) = (Inr (), t)"
    and binding: "binding = get_job_permit_binding_scoped (jb_job_id job) (ac_organization_id c) (sv_store t)"
    using assms unfolding submit_scan_def
    by (auto simp: svc_simps validate_permit_now_def public_job_def split: if_splits)
  have "sv_store t = db"
    using audited by (auto simp: audit_def record_event_Inr)
  moreover note submitted_scope [OF submit]
  ultimately show ?thesis
    using p use binding
    by (intro exI [of _ p] exI [of _ a] exI [of _ permit])
      (auto simp: get_job_permit_binding_scoped_def validate_permit_use_def validate_permit_scope_def
        permit_state_at_def Let_def bindE_eq_Inr raise_if_eq_Inr split: if_splits)
qed

lemma ex_granted_permit:
  "get_scan_permit_scoped ex_env (ex_fresh (Suc 0)) ex_org (sv_store ex_granted)
     = Inr \<lparr>pp_permit = ex_signed, pp_revoked_at = None, pp_revoked_by = None\<rparr>"
proof -
  have row: "sv_store ex_granted = empty_db\<lparr>scan_permits := [ex_issued_row]\<rparr>" "pr_permit_id ex_issued_row = ex_fresh (Suc 0)"
    "pr_organization_id ex_issued_row = ex_org" "pr_document ex_issued_row = ex_signed"
    "pr_revoked_at ex_issued_row = None" "pr_revoked_by ex_issued_row = None"
    by (simp_all add: ex_granted_def ex_permitted_def ex_issued_row_def new_permit_row_def Let_def ex_signed_def ex_issued_def
        issued_claims_def ex_owner_def ex_context_def)
  then show ?thesis
    by (simp add: get_scan_permit_scoped_def sql_find_def permit_from_row_def ex_signed_loads)
qed

lemma ex_submit_steps:
  "permits ex_analyst JOB_SUBMIT"
  "authorization_assigned_to (ac_organization_id ex_analyst) (ss_authorization_id ex_scan_submission) (sv_identity ex_granted)"
  "authorization_get (se_authorizations ex_service_env) (ss_authorization_id ex_scan_submission) = Inr ex_authorization"
  "oa_target ex_authorization = ss_target ex_scan_submission"
  "validate_permit_use ex_env ex_registry \<lparr>pp_permit = ex_signed, pp_revoked_at = None, pp_revoked_by = None\<rparr> ex_org ex_authorization
     (ss_target ex_scan_submission) (ss_mode ex_scan_submission) 20 = Inr ()"
  "job_request ex_service_env ex_scan_submission ex_authorization 21 (internal_idempotency_key ex_service_env ex_analyst ''request-1'')
     = Inr ex_scan_request"
  "\<not> isl (job_request ex_service_env ex_scan_submission ex_authorization 21 ''request-1'')"
  "case fst (submit ex_env ex_scan_request (ex_fresh 22) (Some ex_org) (Some (ac_principal_id ex_analyst)) (Some (ex_fresh (Suc 0)))
     (Some ex_sha) (sv_store ex_granted)) of Inl e \<Rightarrow> False | Inr (job, created) \<Rightarrow> created \<and> jb_job_id job = ex_fresh 22"
  "\<not> isl (fst (audit ex_service_env ex_analyst ex_rid ''jobs.submit'' ''scan_job'' (ex_fresh 22) AUDIT_SUCCEEDED None
     (ex_granted\<lparr>sv_draws := 23\<rparr>)))"
  by code_simp+

lemma audit_anywhere:
  "\<not> isl (fst (audit V c rid action rtype i out detail s)) \<Longrightarrow> \<exists>t. audit V c rid action rtype i out detail (s\<lparr>sv_store := db\<rparr>) = (Inr (), t)"
  using succeeded [of "audit V c rid action rtype i out detail s"] by (auto simp: audit_def record_event_Inr)

lemma ex_submitted:
  "\<exists>job binding t. submit_scan ex_service_env ex_analyst (Inr ex_scan_submission) ''request-1'' (ex_fresh (Suc 0)) ex_rid ex_granted
     = (Inr ((job, binding), True), t)"
proof -
  have env: "sv_draws ex_granted = 20" "se_clock ex_service_env = int" "se_uuid ex_service_env = ex_fresh"
    "se_py ex_service_env = ex_env" "se_signer ex_service_env = ex_registry" "ac_organization_id ex_analyst = ex_org"
    "permit_fingerprint ex_env (sp_claims ex_signed) = ex_sha" "pc_permit_id (sp_claims ex_signed) = ex_fresh (Suc 0)"
    by (simp_all add: ex_granted_def ex_service_env_def ex_analyst_def ex_context_def permit_fingerprint_def ex_env_def ex_sha_def
        ex_signed_def ex_issued_def issued_claims_def)
  obtain job db where job: "submit ex_env ex_scan_request (ex_fresh 22) (Some ex_org) (Some (ac_principal_id ex_analyst))
     (Some (ex_fresh (Suc 0))) (Some ex_sha) (sv_store ex_granted) = (Inr (job, True), db)" "jb_job_id job = ex_fresh 22"
    using ex_submit_steps(8) by (auto split: sum.splits prod.splits) (metis prod.collapse)
  obtain t where "audit ex_service_env ex_analyst ex_rid ''jobs.submit'' ''scan_job'' (ex_fresh 22) AUDIT_SUCCEEDED None
     (ex_granted\<lparr>sv_draws := 23, sv_store := db\<rparr>) = (Inr (), t)"
    using audit_anywhere [OF ex_submit_steps(9)] by auto
  moreover obtain r where "job_request ex_service_env ex_scan_submission ex_authorization 21 ''request-1'' = Inr r"
    using ex_submit_steps(7) by (cases "job_request ex_service_env ex_scan_submission ex_authorization 21 ''request-1''") auto
  ultimately show ?thesis
    using ex_submit_steps(1-6) ex_granted_permit job
    by (simp add: submit_scan_def svc_simps validate_permit_now_def public_job_def env) blast
qed

theorem submitted_scan_authorized_witness:
  "\<exists>job t. submit_scan ex_service_env ex_analyst (Inr ex_scan_submission) ''request-1'' (ex_fresh (Suc 0)) ex_rid ex_granted
      = (Inr ((job, Some (ex_fresh (Suc 0), ex_sha)), True), t)
    \<and> map_option fst (job_scope_of (sv_store t) (jb_job_id job)) = Some ex_org"
proof -
  obtain job binding t where submitted: "submit_scan ex_service_env ex_analyst (Inr ex_scan_submission) ''request-1''
      (ex_fresh (Suc 0)) ex_rid ex_granted = (Inr ((job, binding), True), t)"
    using ex_submitted by blast
  have "ac_organization_id ex_analyst = ex_org" "se_py ex_service_env = ex_env"
    "permit_fingerprint ex_env (sp_claims ex_signed) = ex_sha" "pc_permit_id (sp_claims ex_signed) = ex_fresh (Suc 0)"
    by (simp_all add: ex_service_env_def ex_analyst_def ex_context_def permit_fingerprint_def ex_env_def ex_sha_def
        ex_signed_def ex_issued_def issued_claims_def)
  then show ?thesis
    using submitted_scan_authorized [OF submitted] submitted ex_granted_permit by (auto simp: Let_def)
qed

section \<open>An audit record that does not fit\<close>

text \<open>
  The audit record of a permit for every known active check under an authentication context has a detail of 129 characters, one
  more than a record may hold. The record is written after the permit was signed and stored, so such a request fails and
  its permit stays.
\<close>

definition full_checks_detail :: string where
  "full_checks_detail =
     ''active_checks_active.authorization.idor_and_active.sqli.error_and_active.ssrf.callback_and_active.xss.reflected''"

lemma full_detail_length:
  assumes "pc_active_checks claims = KNOWN_TRUSTSCAN_ACTIVE_CHECKS" "pc_authentication_context_id claims \<noteq> None"
  shows "\<exists>d. issue_detail claims = Some d \<and> 128 < length (py_strip d)"
proof -
  have "active_checks_audit_detail KNOWN_TRUSTSCAN_ACTIVE_CHECKS = Some full_checks_detail"
    "128 < length (py_strip (full_checks_detail @ ''_and_authenticated''))"
    "128 < length (py_strip ((full_checks_detail @ ''_and_authenticated'') @ ''_and_comparison''))" "full_checks_detail \<noteq> []"
    by code_simp+
  then show ?thesis
    using assms by (cases "pc_authorization_comparison_plan_id claims") (simp_all add: issue_detail_def with_suffix_def)
qed

lemma long_detail_fails:
  assumes "128 < length (py_strip d)"
  shows "\<exists>e t. audit V c rid action rtype i out (Some d) s = (Inl e, t) \<and> sv_store t = sv_store s"
proof -
  have "tenancy_identifier 128 d \<noteq> Inr x" for x
    using assms by (auto simp: tenancy_identifier_def tenancy_text_def bounded_text_def bindE_eq_Inr raise_if_eq_Inr Let_def)
  then have "audit V c rid action rtype i out (Some d) s \<noteq> (Inr u, t)" for u t
    by (auto simp: audit_def record_event_Inr SecurityAuditEvent_post_init_def bindE_eq_Inr mapE_option_def split: option.splits)
  moreover have "sv_store (snd (audit V c rid action rtype i out (Some d) s)) = sv_store s"
    by (auto simp: audit_def record_event_def on_identity_error_def catchS_def bindS_def drawS_def resultS_def identityS_def
        api_error_def raiseS_def split: prod.split sum.split exn.split)
  ultimately show ?thesis
    by (cases "audit V c rid action rtype i out (Some d) s"; cases "fst (audit V c rid action rtype i out (Some d) s)") auto
qed

lemma full_claims:
  assumes "TrustScanPermitClaims_post_init E claims0 = Inr claims" "pc_active_checks claims0 = KNOWN_TRUSTSCAN_ACTIVE_CHECKS"
    "pc_authentication_context_id claims0 \<noteq> None"
  shows "pc_active_checks claims = KNOWN_TRUSTSCAN_ACTIVE_CHECKS" "pc_authentication_context_id claims \<noteq> None"
proof -
  have "permit_active_checks KNOWN_TRUSTSCAN_ACTIVE_CHECKS = Inr KNOWN_TRUSTSCAN_ACTIVE_CHECKS"
    by code_simp
  then show "pc_active_checks claims = KNOWN_TRUSTSCAN_ACTIVE_CHECKS" "pc_authentication_context_id claims \<noteq> None"
    using assms by (auto simp: TrustScanPermitClaims_post_init_def bindE_eq_Inr raise_if_eq_Inr mapE_option_def split: option.splits)
qed

theorem full_permit_never_audited:
  assumes "ps_active_checks p = KNOWN_TRUSTSCAN_ACTIVE_CHECKS" "ps_authentication_context_id p \<noteq> None"
    "sign_and_store V (issued_claims V c p a i now) u = (Inr (claims, record), u')"
  shows "\<exists>e t. audit V c rid ''permits.issue'' ''trustscan_permit'' (pc_permit_id claims) AUDIT_SUCCEEDED (issue_detail claims) u' = (Inl e, t)
    \<and> sv_store t = sv_store u'"
proof -
  have "TrustScanPermitClaims_post_init (se_py V) (issued_claims V c p a i now) = Inr claims"
    using sign_and_store_Inr [OF assms(3)] by simp
  from full_claims [OF this] obtain d where "issue_detail claims = Some d" "128 < length (py_strip d)"
    using full_detail_length [of claims] assms(1,2) by (auto simp: issued_claims_def)
  then show ?thesis
    using long_detail_fails by simp
qed

end
