(* ===== verification/Http_Api.thy ===== *)
theory Http_Api
  imports Service_Requests
begin

text \<open>
  The HTTP transport (\<^verbatim>\<open>webguard_api/http_api.py\<close>): request targets and bodies, the client's address, the cookies and
  headers of answers, the authentication of a request under the rate limiter, and the routes of each method, over the
  handlers of the service.

  A request is what the HTTP server of the standard library hands over. The parsers of JSON texts, of
  cookie headers and of integers, the loaders of the contract package, the readiness checks and the handlers of the
  service for resources that this library does not model are fields of the environment; an answer is modelled without
  its body, except for the code of an error. An exception that no route handles leaves the request without an answer.
\<close>

section \<open>Requests\<close>

datatype http_method = GET | POST | PATCH | DELETE | PUT | OPTIONS

record http_request =
  hr_target :: string
  hr_headers :: "(string \<times> string) list"
  hr_peer :: string
  hr_body :: string

definition get_all :: "string \<Rightarrow> http_request \<Rightarrow> string list" where
  "get_all name r = map snd (filter (\<lambda>(n, _). py_lower n = py_lower name) (hr_headers r))"

definition header_get :: "string \<Rightarrow> http_request \<Rightarrow> string option" where
  "header_get name r = (case get_all name r of [] \<Rightarrow> None | v # _ \<Rightarrow> Some v)"

datatype ip_network = Network4 nat nat | Network6 nat nat

fun in_ip_network :: "ip_address \<Rightarrow> ip_network \<Rightarrow> bool" where
  "in_ip_network (IPv4 a) (Network4 base prefix) = in_network 32 base prefix a"
| "in_ip_network (IPv6 a) (Network6 base prefix) = in_network 128 base prefix a"
| "in_ip_network _ _ = False"

text \<open>\<^verbatim>\<open>json.loads\<close> of the bytes of a body: a value, a \<^verbatim>\<open>JSONDecodeError\<close>, or another exception.\<close>

datatype json_outcome = Json json | Json_Decode_Error | Json_Failure exn

record http_env =
  he_service :: service_env
  he_epoch :: "nat \<Rightarrow> rat"
  he_sessions :: bool
  he_maximum_request_bytes :: int
  he_allowed_origins :: "string list"
  he_secure_cookies :: bool
  he_hsts_enabled :: bool
  he_trusted_proxies :: "ip_network list"
  he_readiness :: "(bool \<times> string) list"
  he_loads :: "string \<Rightarrow> json_outcome"
  he_session_cookie :: "string list \<Rightarrow> string option"
  he_int :: "codes \<Rightarrow> int option"
  he_load_permit :: "string \<Rightarrow> permit_submission result"
  he_load_job :: "string \<Rightarrow> scan_job_submission result"
  he_load_schedule :: "string \<Rightarrow> schedule_submission result"
  he_other :: "string \<Rightarrow> string \<Rightarrow> page_request option \<Rightarrow> json option \<Rightarrow> auth_context \<Rightarrow> string \<Rightarrow> unit svc"

definition transport_error :: "string \<Rightarrow> int \<Rightarrow> 'a svc" where
  "transport_error code status = raiseS (ApiTransportError code status)"

definition transport_guard :: "bool \<Rightarrow> string \<Rightarrow> int \<Rightarrow> unit svc" where
  "transport_guard b code status = (if b then transport_error code status else returnS ())"

subsection \<open>The request target\<close>

definition unquote_plus :: "string \<Rightarrow> codes" where
  "unquote_plus s = unquote (map (\<lambda>c. if c = CHR ''+'' then CHR '' '' else c) s)"

definition query_field :: "string \<Rightarrow> (codes \<times> codes) option" where
  "query_field s =
     (case str_partition (CHR ''='') s of (name, has_eq, v) \<Rightarrow>
        if has_eq then Some (unquote_plus name, unquote_plus v) else None)"

definition add_field :: "codes \<times> codes \<Rightarrow> query \<Rightarrow> query" where
  "add_field f d = (case f of (k, v) \<Rightarrow> dict_put k ((case map_of d k of None \<Rightarrow> [] | Some vs \<Rightarrow> vs) @ [v]) d)"

text \<open>\<^verbatim>\<open>parse_qs(query, keep_blank_values=True, strict_parsing=True)\<close>.\<close>

definition parse_qs :: "string \<Rightarrow> query option" where
  "parse_qs q =
     (if q = [] then Some []
      else map_option (\<lambda>pairs. fold add_field pairs []) (those (map query_field (py_split (CHR ''&'') q))))"

definition request_target :: "http_request \<Rightarrow> (string \<times> query) svc" where
  "request_target r =
     (case urlsplit (hr_target r) of
        None \<Rightarrow> raiseS ValueError
      | Some u \<Rightarrow>
          bindS (transport_guard (u_fragment u \<noteq> []) ''request_target_invalid'' 400) (\<lambda>_.
          case parse_qs (u_query u) of
            None \<Rightarrow> transport_error ''request_query_invalid'' 400
          | Some query \<Rightarrow> returnS (u_path u, query)))"

definition require_empty_query :: "query \<Rightarrow> unit svc" where
  "require_empty_query query = transport_guard (query \<noteq> []) ''request_query_not_allowed'' 400"

definition request_page :: "http_env \<Rightarrow> query \<Rightarrow> (string \<times> string list) list \<Rightarrow> string list \<Rightarrow> page_request svc" where
  "request_page H query filters free_form_filters =
     catchS (resultS (parse_page_request (he_int H) query filters free_form_filters))
       (\<lambda>e. case e of PaginationError code \<Rightarrow> transport_error code 400 | _ \<Rightarrow> raiseS e)"

subsection \<open>The body and its headers\<close>

definition read_json_body :: "http_env \<Rightarrow> http_request \<Rightarrow> string svc" where
  "read_json_body H r =
     bindS (transport_guard (get_all ''Transfer-Encoding'' r \<noteq> []) ''transfer_encoding_not_allowed'' 400) (\<lambda>_.
     case get_all ''Content-Type'' r of
       [content_type] \<Rightarrow>
         bindS (transport_guard (py_lower (py_strip (takeWhile (\<lambda>c. c \<noteq> CHR '';'') content_type)) \<noteq> ''application/json'')
                  ''content_type_invalid'' 415) (\<lambda>_.
         case get_all ''Content-Length'' r of
           [text] \<Rightarrow>
             (case he_int H (codes text) of
                None \<Rightarrow> transport_error ''content_length_invalid'' 400
              | Some n \<Rightarrow>
                  bindS (transport_guard (n < 0) ''content_length_invalid'' 400) (\<lambda>_.
                  bindS (transport_guard (n > he_maximum_request_bytes H) ''request_body_too_large'' 413) (\<lambda>_.
                  bindS (transport_guard (int (length (hr_body r)) < n) ''request_body_incomplete'' 400) (\<lambda>_.
                    returnS (take (nat n) (hr_body r))))))
         | _ \<Rightarrow> transport_error ''content_length_required'' 411)
     | _ \<Rightarrow> transport_error ''content_type_required'' 415)"

definition json_object_body :: "http_env \<Rightarrow> http_request \<Rightarrow> string \<Rightarrow> json svc" where
  "json_object_body H r code =
     bindS (read_json_body H r) (\<lambda>raw_body.
     case he_loads H raw_body of
       Json (JObj pairs) \<Rightarrow> returnS (JObj pairs)
     | Json _ \<Rightarrow> transport_error code 400
     | Json_Decode_Error \<Rightarrow> transport_error code 400
     | Json_Failure e \<Rightarrow> raiseS e)"

definition no_body :: "http_request \<Rightarrow> string \<Rightarrow> unit svc" where
  "no_body r code = transport_guard (list_ex (\<lambda>v. v \<noteq> ''0'') (get_all ''Content-Length'' r)) code 400"

definition trustscan_permit_header :: "http_request \<Rightarrow> string svc" where
  "trustscan_permit_header r =
     (case get_all ''TrustScan-Permit'' r of
        [v] \<Rightarrow>
          bindS (transport_guard (v = [] \<or> py_strip v \<noteq> v) ''trustscan_permit_required'' 400) (\<lambda>_.
          case uuid_parse v of
            None \<Rightarrow> transport_error ''trustscan_permit_invalid'' 400
          | Some n \<Rightarrow>
              bindS (transport_guard (uuid_str n \<noteq> v) ''trustscan_permit_invalid'' 400) (\<lambda>_. returnS (uuid_str n)))
      | _ \<Rightarrow> transport_error ''trustscan_permit_required'' 400)"

definition user_agent :: "http_request \<Rightarrow> string option" where
  "user_agent r = map_option (take 512) (header_get ''User-Agent'' r)"

definition csrf_header_value :: "http_request \<Rightarrow> string option" where
  "csrf_header_value r = (case get_all ''X-CSRF-Token'' r of [v] \<Rightarrow> if v = [] then None else Some v | _ \<Rightarrow> None)"

subsection \<open>The address of the client\<close>

definition looks_like_ip :: "string \<Rightarrow> bool" where
  "looks_like_ip v \<longleftrightarrow> parse_ip v \<noteq> None"

definition trusted_peer :: "http_env \<Rightarrow> http_request \<Rightarrow> bool" where
  "trusted_peer H r \<longleftrightarrow>
     he_trusted_proxies H \<noteq> []
     \<and> (case parse_ip (hr_peer r) of None \<Rightarrow> False | Some a \<Rightarrow> list_ex (in_ip_network a) (he_trusted_proxies H))"

definition forwarded_candidate :: "http_request \<Rightarrow> string" where
  "forwarded_candidate r =
     (case header_get ''X-Forwarded-For'' r of None \<Rightarrow> [] | Some v \<Rightarrow> py_strip (takeWhile (\<lambda>c. c \<noteq> CHR '','') v))"

definition resolve_client_ip :: "http_env \<Rightarrow> http_request \<Rightarrow> string" where
  "resolve_client_ip H r =
     (if \<not> trusted_peer H r then hr_peer r
      else case header_get ''CF-Connecting-IP'' r of
        Some v \<Rightarrow>
          if looks_like_ip (py_strip v) then py_strip v
          else if looks_like_ip (forwarded_candidate r) then forwarded_candidate r else hr_peer r
      | None \<Rightarrow> if looks_like_ip (forwarded_candidate r) then forwarded_candidate r else hr_peer r)"

section \<open>Answers\<close>

record http_answer =
  ha_status :: int
  ha_code :: "string option"
  ha_headers :: "(string \<times> string) list"
  ha_cookies :: "string list"

definition cors_headers :: "http_env \<Rightarrow> http_request \<Rightarrow> (string \<times> string) list" where
  "cors_headers H r =
     (case header_get ''Origin'' r of
        None \<Rightarrow> []
      | Some origin \<Rightarrow>
          if origin = [] \<or> origin \<notin> set (he_allowed_origins H) then []
          else [(''Access-Control-Allow-Origin'', origin), (''Access-Control-Allow-Credentials'', ''true''), (''Vary'', ''Origin'')])"

definition security_headers :: "http_env \<Rightarrow> (string \<times> string) list" where
  "security_headers H =
     [(''X-Content-Type-Options'', ''nosniff''), (''X-Frame-Options'', ''DENY''), (''Referrer-Policy'', ''no-referrer''),
      (''Content-Security-Policy'', ''default-src 'none'; frame-ancestors 'none'' @ [CHR 0x27]),
      (''Permissions-Policy'', ''geolocation=(), camera=(), microphone=(), payment=(), usb=(), interest-cohort=()'')]
     @ (if he_hsts_enabled H then [(''Strict-Transport-Security'', ''max-age=63072000; includeSubDomains'')] else [])"

definition int_text :: "int \<Rightarrow> string" where
  "int_text n = (if n < 0 then ''-'' @ dec_str (nat (- n)) else dec_str (nat n))"

definition set_cookie :: "http_env \<Rightarrow> string \<Rightarrow> string \<Rightarrow> bool \<Rightarrow> int \<Rightarrow> string" where
  "set_cookie H name v http_only max_age_seconds =
     join_text ''; ''
       ([name @ ''='' @ v, ''Path=/'', ''Max-Age='' @ int_text max_age_seconds, ''SameSite=Lax'']
        @ (if http_only then [''HttpOnly''] else []) @ (if he_secure_cookies H then [''Secure''] else []))"

definition session_set_cookies :: "http_env \<Rightarrow> issued_session \<Rightarrow> string list" where
  "session_set_cookies H issued =
     (let max_age = (bs_absolute_expires_at (ib_record issued) - bs_issued_at (ib_record issued)) div microseconds in
      [set_cookie H ''wg_session'' (ib_token issued) True max_age, set_cookie H ''wg_csrf'' (ib_csrf_token issued) False max_age])"

definition clear_session_cookies :: "http_env \<Rightarrow> string list" where
  "clear_session_cookies H = [set_cookie H ''wg_session'' [] True 0, set_cookie H ''wg_csrf'' [] False 0]"

definition send_json ::
  "http_env \<Rightarrow> http_request \<Rightarrow> string \<Rightarrow> int \<Rightarrow> string option \<Rightarrow> (string \<times> string) list \<Rightarrow> string list \<Rightarrow> http_answer" where
  "send_json H r request_id status code extra_headers set_cookies =
     \<lparr>ha_status = status, ha_code = code,
      ha_headers = [(''Content-Type'', ''application/json; charset=utf-8''), (''Cache-Control'', ''no-store'')]
        @ security_headers H @ [(''X-Request-ID'', request_id)] @ cors_headers H r @ extra_headers @ [(''Connection'', ''close'')],
      ha_cookies = set_cookies\<rparr>"

text \<open>A download; the headers that describe the file depend on the report.\<close>

definition send_file :: "http_env \<Rightarrow> http_request \<Rightarrow> string \<Rightarrow> http_answer" where
  "send_file H r request_id =
     \<lparr>ha_status = 200, ha_code = None,
      ha_headers = [(''Cache-Control'', ''no-store'')] @ security_headers H @ [(''X-Request-ID'', request_id)] @ cors_headers H r,
      ha_cookies = []\<rparr>"

definition error_answer :: "http_env \<Rightarrow> http_request \<Rightarrow> string \<Rightarrow> exn \<Rightarrow> http_answer option" where
  "error_answer H r request_id e =
     (case e of
        ApiTransportError code status \<Rightarrow> Some (send_json H r request_id status (Some code) [] [])
      | ApiServiceError code status \<Rightarrow> Some (send_json H r request_id status (Some code) [] [])
      | AuthenticationError code status \<Rightarrow>
          Some (send_json H r request_id status (Some code)
            (if status = 401 then [(''WWW-Authenticate'', ''Bearer realm='' @ [CHR 0x22] @ ''webguard-api'' @ [CHR 0x22])] else []) [])
      | RateLimitError code retry_after_seconds \<Rightarrow>
          Some (send_json H r request_id 429 (Some code) [(''Retry-After'', int_text retry_after_seconds)] [])
      | _ \<Rightarrow> None)"

text \<open>The \<^verbatim>\<open>try\<close> around every method, with the identifier of the request.\<close>

definition answering :: "http_env \<Rightarrow> http_request \<Rightarrow> (string \<Rightarrow> http_answer svc) \<Rightarrow> http_answer svc" where
  "answering H r body =
     bindS (drawS (se_uuid (he_service H))) (\<lambda>request_id.
     catchS (body request_id) (\<lambda>e.
       case error_answer H r request_id e of Some a \<Rightarrow> returnS a | None \<Rightarrow> raiseS e))"

definition rate_headers :: "rate_limit_decision \<Rightarrow> (string \<times> string) list" where
  "rate_headers d =
     [(''RateLimit-Limit'', int_text (rd_limit d)), (''RateLimit-Remaining'', int_text (rd_remaining d)),
      (''RateLimit-Reset'', int_text (rd_reset_after_seconds d))]"

section \<open>Authentication\<close>

definition DEFAULT_IDLE_TIMEOUT :: time where
  "DEFAULT_IDLE_TIMEOUT = 30 * 60 * microseconds"

text \<open>The bucket of a failed authentication: the identifier of a well-formed token, or the address.\<close>

definition failure_token :: "string list \<Rightarrow> string option" where
  "failure_token authorization_headers =
     (case authorization_headers of
        [v] \<Rightarrow>
          (case str_partition (CHR '' '') v of (scheme, separator, token) \<Rightarrow>
             if separator \<and> py_lower scheme = ''bearer'' \<and> token \<noteq> [] \<and> py_strip token = token
             then (case split_token token of
                     [prefix, identifier, secret] \<Rightarrow>
                       if prefix = ''wgt'' \<and> secret \<noteq> []
                       then (case uuid_parse identifier of
                               Some n \<Rightarrow> if uuid_str n = identifier then Some identifier else None
                             | None \<Rightarrow> None)
                       else None
                   | _ \<Rightarrow> None)
             else None)
      | _ \<Rightarrow> None)"

definition authentication_failure_key :: "http_env \<Rightarrow> http_request \<Rightarrow> string" where
  "authentication_failure_key H r =
     (case failure_token (get_all ''Authorization'' r) of
        Some i \<Rightarrow> ''auth-failure-token:'' @ i
      | None \<Rightarrow> ''auth-failure-peer:'' @ resolve_client_ip H r)"

definition limiter_check :: "string \<Rightarrow> rat \<Rightarrow> rate_limit_decision svc" where
  "limiter_check key now_epoch s =
     (case check key now_epoch (sv_api_limiter s) of (d, l) \<Rightarrow> (d, s\<lparr>sv_api_limiter := l\<rparr>))"

definition limiter_release :: "string \<Rightarrow> rat \<Rightarrow> unit svc" where
  "limiter_release key now_epoch s = (Inr (), s\<lparr>sv_api_limiter := release key now_epoch (sv_api_limiter s)\<rparr>)"

definition session_cookie :: "http_env \<Rightarrow> http_request \<Rightarrow> string option" where
  "session_cookie H r = (if he_sessions H then he_session_cookie H (get_all ''Cookie'' r) else None)"

definition session_login :: "http_env \<Rightarrow> http_request \<Rightarrow> bool \<Rightarrow> string \<Rightarrow> time \<Rightarrow> auth_context svc" where
  "session_login H r require_csrf token now s =
     (case session_authenticate (se_kdf (he_service H)) token now DEFAULT_IDLE_TIMEOUT (csrf_header_value r) require_csrf
             (sv_identity s) (sv_sessions s) of (c, ss) \<Rightarrow> (c, s\<lparr>sv_sessions := ss\<rparr>))"

definition token_login :: "http_env \<Rightarrow> http_request \<Rightarrow> time \<Rightarrow> auth_context svc" where
  "token_login H r now = identityS (token_authenticate (se_kdf (he_service H)) (get_all ''Authorization'' r) now)"

text \<open>
  Capacity is reserved before a credential is checked and returned after it was accepted; then the quota
  of the credential itself is charged.
\<close>

definition authenticate_under :: "http_env \<Rightarrow> string \<Rightarrow> (time \<Rightarrow> auth_context svc) \<Rightarrow> (auth_context \<times> rate_limit_decision) svc" where
  "authenticate_under H failure_key login_with =
     bindS (drawS (he_epoch H)) (\<lambda>now_epoch.
     bindS (limiter_check failure_key now_epoch) (\<lambda>_.
     bindS (drawS (se_clock (he_service H))) (\<lambda>now.
     bindS (login_with now) (\<lambda>context.
     bindS (limiter_release failure_key now_epoch) (\<lambda>_.
     bindS (limiter_check (ac_token_id context) now_epoch) (\<lambda>decision.
       returnS (context, decision)))))))"

definition authenticate :: "http_env \<Rightarrow> http_request \<Rightarrow> bool \<Rightarrow> (auth_context \<times> rate_limit_decision) svc" where
  "authenticate H r require_csrf =
     (case session_cookie H r of
        Some token \<Rightarrow>
          authenticate_under H (''auth-failure-session-peer:'' @ resolve_client_ip H r) (session_login H r require_csrf token)
      | None \<Rightarrow> authenticate_under H (authentication_failure_key H r) (token_login H r))"

section \<open>Routes\<close>

text \<open>A path with one variable part.\<close>

definition path_match :: "string \<Rightarrow> string \<Rightarrow> (string \<Rightarrow> bool) \<Rightarrow> string \<Rightarrow> string option" where
  "path_match prefix suffix ok path =
     (let x = take (length path - length prefix - length suffix) (drop (length prefix) path) in
      if path = prefix @ x @ suffix \<and> ok x then Some x else None)"

definition uuid_part :: "string \<Rightarrow> bool" where
  "uuid_part x \<longleftrightarrow>
     length x = 36 \<and> list_all (\<lambda>i. if i \<in> {8, 13, 18, 23} then x ! i = CHR ''-'' else is_hex (x ! i)) [0..<36]"

definition loose_uuid_part :: "string \<Rightarrow> bool" where
  "loose_uuid_part x \<longleftrightarrow> length x = 36 \<and> list_all (\<lambda>c. is_hex c \<or> c = CHR ''-'') x"

definition name_part :: "string \<Rightarrow> bool" where
  "name_part x \<longleftrightarrow> x \<noteq> [] \<and> list_all (\<lambda>c. c \<in> set ''abcdefghijklmnopqrstuvwxyz'') x"

definition slug_part :: "string \<Rightarrow> bool" where
  "slug_part x \<longleftrightarrow> x \<noteq> [] \<and> list_all (\<lambda>c. c \<in> set ''abcdefghijklmnopqrstuvwxyz0123456789_'') x"

text \<open>
  What a route calls: a handler of the service that is modelled, perhaps with a page, or one that is not, by the name of
  the method and the variable part of the path.
\<close>

datatype endpoint =
    Handler "auth_context \<Rightarrow> request"
  | Paged string "auth_context \<Rightarrow> text_page \<Rightarrow> request"
  | Other string string
  | Download string

text \<open>The handlers of the service have texts of Latin-1 characters only: a page with others is left to the environment.\<close>

definition latin1 :: "codes \<Rightarrow> string option" where
  "latin1 cs = (if list_all (\<lambda>c. c < 256) cs then Some (map char_of cs) else None)"

definition text_page_of :: "page_request \<Rightarrow> text_page option" where
  "text_page_of page =
     (case (case pg_cursor page of None \<Rightarrow> Some None | Some c \<Rightarrow> map_option Some (latin1 c),
            those (map (\<lambda>(name, v). map_option (Pair name) (latin1 v)) (pg_filters page))) of
        (Some cursor, Some filters) \<Rightarrow>
          Some \<lparr>tp_limit = nat (pg_limit page), tp_cursor = cursor, tp_filters = filters\<rparr>
      | _ \<Rightarrow> None)"

definition exact :: "string \<Rightarrow> 'a \<Rightarrow> string \<Rightarrow> 'a option" where
  "exact p x path = (if path = p then Some x else None)"

definition under :: "string \<Rightarrow> string \<Rightarrow> (string \<Rightarrow> bool) \<Rightarrow> (string \<Rightarrow> 'a) \<Rightarrow> string \<Rightarrow> 'a option" where
  "under prefix suffix ok f path = map_option f (path_match prefix suffix ok path)"

fun first_match :: "('a \<Rightarrow> 'b option) list \<Rightarrow> 'a \<Rightarrow> 'b option" where
  "first_match [] x = None"
| "first_match (f # fs) x = (case f x of Some y \<Rightarrow> Some y | None \<Rightarrow> first_match fs x)"

definition call_endpoint ::
  "http_env \<Rightarrow> endpoint \<Rightarrow> page_request option \<Rightarrow> json option \<Rightarrow> auth_context \<Rightarrow> string \<Rightarrow> unit svc" where
  "call_endpoint H endpoint page body context request_id =
     (case endpoint of
        Handler f \<Rightarrow> serve (he_service H) (f context) request_id
      | Paged name f \<Rightarrow>
          (case Option.bind page text_page_of of
             Some p \<Rightarrow> serve (he_service H) (f context p) request_id
           | None \<Rightarrow> he_other H name [] page body context request_id)
      | Other name arg \<Rightarrow> he_other H name arg page body context request_id
      | Download i \<Rightarrow> serve (he_service H) (Download_Report context i) request_id)"

subsection \<open>Reading\<close>

datatype query_rule = No_Query | Page "(string \<times> string list) list" "string list"

definition job_states :: "string list" where
  "job_states = [''queued'', ''running'', ''completed'', ''completed_with_errors'', ''failed'', ''cancelled'']"

text \<open>The routes of \<^verbatim>\<open>GET\<close> in the order in which they are tried: resources of the organization, feeds, single records.\<close>

definition get_resource_routes :: "(string \<Rightarrow> (query_rule \<times> endpoint) option) list" where
  "get_resource_routes =
     [under ''/v1/reports/'' ''/download'' loose_uuid_part (\<lambda>i. (No_Query, Download i)),
      exact ''/v1/auth/session'' (No_Query, Handler Get_Session_Info),
      exact ''/v1/dashboard/summary'' (No_Query, Handler Dashboard_Summary),
      exact ''/v1/team'' (No_Query, Handler List_Team),
      exact ''/v1/api-keys'' (No_Query, Handler List_Api_Keys),
      exact ''/v1/settings'' (No_Query, Handler Get_Settings),
      exact ''/v1/assets'' (Page [] [], Paged ''list_assets'' List_Assets),
      exact ''/v1/module-entitlements'' (No_Query, Handler List_Module_Entitlements),
      exact ''/v1/soc/connectors'' (No_Query, Other ''list_soc_connectors'' []),
      exact ''/v1/compliance/frameworks'' (No_Query, Other ''list_compliance_frameworks'' []),
      exact ''/v1/compliance/assertions'' (No_Query, Other ''list_compliance_assertions'' []),
      under ''/v1/compliance/assertions/'' ''/collections'' slug_part (\<lambda>i. (No_Query, Other ''list_assertion_collections'' i))]"

definition get_feed_routes :: "(string \<Rightarrow> (query_rule \<times> endpoint) option) list" where
  "get_feed_routes =
     [exact ''/v1/me'' (No_Query, Handler Me),
      exact ''/v1/jobs'' (Page [(''state'', job_states), (''mode'', [''single_page'', ''crawl''])] [], Other ''list_jobs'' []),
      exact ''/v1/audit-events'' (Page [(''outcome'', [''succeeded'', ''failed'', ''denied''])] [], Other ''audit_events'' []),
      exact ''/v1/schedules'' (Page [(''state'', [''active'', ''paused''])] [''target''], Other ''list_schedules'' []),
      exact ''/v1/findings''
        (Page [(''status'', [''open'', ''confirmed'', ''false_positive'', ''accepted_risk'', ''resolved'', ''reopened'']),
               (''severity'', [''informational'', ''low'', ''medium'', ''high'', ''critical''])]
           [''scan_id'', ''cwe_id'', ''asset''], Paged ''list_findings'' List_Findings),
      exact ''/v1/reports'' (Page [] [''scan_id''], Paged ''list_reports'' List_Reports),
      exact ''/v1/scans'' (Page [(''status'', job_states)] [''target''], Paged ''list_scans'' List_Scan_Records),
      under ''/v1/assets/'' ''/coverage'' loose_uuid_part (\<lambda>i. (Page [] [], Other ''list_asset_coverage'' i))]"

definition get_record_routes :: "(string \<Rightarrow> (query_rule \<times> endpoint) option) list" where
  "get_record_routes =
     [under ''/v1/assets/'' [] uuid_part (\<lambda>i. (No_Query, Handler (\<lambda>c. Get_Asset c i))),
      under ''/v1/findings/'' ''/events'' loose_uuid_part (\<lambda>i. (No_Query, Handler (\<lambda>c. List_Finding_Events c i))),
      under ''/v1/findings/'' [] uuid_part (\<lambda>i. (No_Query, Handler (\<lambda>c. Get_Finding c i))),
      under ''/v1/reports/'' [] uuid_part (\<lambda>i. (No_Query, Handler (\<lambda>c. Get_Report c i))),
      under ''/v1/scans/'' [] uuid_part (\<lambda>i. (No_Query, Handler (\<lambda>c. Get_Scan_Record c i))),
      under ''/v1/permits/'' [] uuid_part (\<lambda>i. (No_Query, Handler (\<lambda>c. Get_Permit c i))),
      under ''/v1/schedules/'' [] uuid_part (\<lambda>i. (No_Query, Handler (\<lambda>c. Get_Scan_Schedule c i))),
      under ''/v1/jobs/'' [] uuid_part (\<lambda>i. (No_Query, Handler (\<lambda>c. Get_Scan c i))),
      under ''/v1/jobs/'' ''/result'' loose_uuid_part (\<lambda>i. (No_Query, Handler (\<lambda>c. Scan_Result c i)))]"

definition get_routes :: "(string \<Rightarrow> (query_rule \<times> endpoint) option) list" where
  "get_routes = get_resource_routes @ get_feed_routes @ get_record_routes"

text \<open>The first failing check, or the last one.\<close>

fun readiness :: "(bool \<times> string) list \<Rightarrow> bool \<times> string" where
  "readiness [] = (True, ''ready'')"
| "readiness [c] = c"
| "readiness (c # cs) = (if fst c then readiness cs else c)"

definition do_GET :: "http_env \<Rightarrow> http_request \<Rightarrow> http_answer svc" where
  "do_GET H r =
     answering H r (\<lambda>request_id.
     bindS (request_target r) (\<lambda>(path, query).
     if path \<in> {''/healthz'', ''/health'', ''/v1/trustscan/verification-key''}
     then bindS (require_empty_query query) (\<lambda>_. returnS (send_json H r request_id 200 None [] []))
     else if path = ''/ready''
     then bindS (require_empty_query query) (\<lambda>_.
            returnS (send_json H r request_id (if fst (readiness (he_readiness H)) then 200 else 503) None [] []))
     else
     bindS (authenticate H r False) (\<lambda>(context, decision).
     case first_match get_routes path of
       None \<Rightarrow> bindS (require_empty_query query) (\<lambda>_. transport_error ''route_not_found'' 404)
     | Some (No_Query, endpoint) \<Rightarrow>
         bindS (require_empty_query query) (\<lambda>_.
         bindS (call_endpoint H endpoint None None context request_id) (\<lambda>_.
           returnS (case endpoint of Download _ \<Rightarrow> send_file H r request_id
                    | _ \<Rightarrow> send_json H r request_id 200 None (rate_headers decision) [])))
     | Some (Page filters free_form_filters, endpoint) \<Rightarrow>
         bindS (request_page H query filters free_form_filters) (\<lambda>page.
         bindS (call_endpoint H endpoint (Some page) None context request_id) (\<lambda>_.
           returnS (send_json H r request_id 200 None (rate_headers decision) []))))))"

subsection \<open>Routes without a credential\<close>

datatype public_endpoint =
    Public_Register | Public_Login | Public_Reset_Request | Public_Reset_Confirm | Public_Verify_Confirm | Public_Accept

definition public_route :: "string \<Rightarrow> public_endpoint option" where
  "public_route =
     first_match
       [exact ''/v1/auth/register'' Public_Register, exact ''/v1/auth/login'' Public_Login,
        exact ''/v1/auth/password/reset/request'' Public_Reset_Request,
        exact ''/v1/auth/password/reset/confirm'' Public_Reset_Confirm,
        exact ''/v1/auth/email/verify/confirm'' Public_Verify_Confirm,
        exact ''/v1/auth/invitations/accept'' Public_Accept]"

definition signed_in :: "http_env \<Rightarrow> http_request \<Rightarrow> string \<Rightarrow> int \<Rightarrow> (auth_context \<times> issued_session) svc \<Rightarrow> http_answer svc" where
  "signed_in H r request_id status m =
     bindS m (\<lambda>(context, issued). returnS (send_json H r request_id status None [] (session_set_cookies H issued)))"

definition public_post :: "http_env \<Rightarrow> http_request \<Rightarrow> string \<Rightarrow> public_endpoint \<Rightarrow> http_answer svc" where
  "public_post H r request_id route =
     (let V = he_service H; ip = Some (resolve_client_ip H r); done = returnS (send_json H r request_id 200 None [] []) in
      case route of
        Public_Register \<Rightarrow>
          bindS (json_object_body H r ''register_body_invalid'') (\<lambda>body.
            signed_in H r request_id 201 (register_account V body request_id (user_agent r) ip))
      | Public_Login \<Rightarrow>
          bindS (json_object_body H r ''login_body_invalid'') (\<lambda>body.
            signed_in H r request_id 200 (login V body request_id (user_agent r) ip))
      | Public_Reset_Request \<Rightarrow>
          bindS (json_object_body H r ''password_reset_body_invalid'') (\<lambda>body.
          bindS (request_password_reset V body request_id ip) (\<lambda>_. done))
      | Public_Reset_Confirm \<Rightarrow>
          bindS (json_object_body H r ''password_reset_confirm_body_invalid'') (\<lambda>body.
          bindS (confirm_password_reset V body request_id ip) (\<lambda>_. done))
      | Public_Verify_Confirm \<Rightarrow>
          bindS (json_object_body H r ''email_verification_body_invalid'') (\<lambda>body.
          bindS (confirm_email_verification V body request_id ip) (\<lambda>_. done))
      | Public_Accept \<Rightarrow>
          bindS (json_object_body H r ''invitation_accept_body_invalid'') (\<lambda>body.
            signed_in H r request_id 200 (accept_invitation V body request_id (user_agent r) ip)))"

subsection \<open>Writing\<close>

text \<open>
  What a route asks of the body: none, under an error code and perhaps clearing the cookies, a JSON object, or a
  document of the contract package.
\<close>

datatype body_rule = Empty_Body string bool | Object_Body string int | Permit_Document | Schedule_Document | Job_Document

definition without_body :: "string \<Rightarrow> endpoint \<Rightarrow> body_rule \<times> (json \<Rightarrow> endpoint)" where
  "without_body code endpoint = (Empty_Body code False, \<lambda>_. endpoint)"

text \<open>The routes of \<^verbatim>\<open>POST\<close> in the order in which they are tried: accounts and assets, permits and findings, schedules and jobs.\<close>

definition post_account_routes :: "(string \<Rightarrow> (body_rule \<times> (json \<Rightarrow> endpoint)) option) list" where
  "post_account_routes =
     [exact ''/v1/auth/logout'' (Empty_Body ''logout_body_not_allowed'' True, \<lambda>_. Handler Logout),
      exact ''/v1/auth/logout-all'' (Empty_Body ''logout_all_body_not_allowed'' True, \<lambda>_. Handler Logout_All_Sessions),
      exact ''/v1/auth/password/change''
        (Object_Body ''password_change_body_invalid'' 200, \<lambda>body. Handler (\<lambda>c. Change_Password c body)),
      exact ''/v1/auth/email/verify/request''
        (without_body ''email_verify_request_body_not_allowed'' (Handler Request_Email_Verification)),
      exact ''/v1/assets'' (Object_Body ''asset_body_invalid'' 201, \<lambda>body. Handler (\<lambda>c. Create_Asset c body)),
      under ''/v1/assets/'' ''/verification'' loose_uuid_part
        (\<lambda>i. (Object_Body ''asset_verification_body_invalid'' 201, \<lambda>body. Handler (\<lambda>c. Start_Asset_Verification c i body))),
      under ''/v1/compliance/assertions/'' ''/collections'' slug_part
        (\<lambda>i. (Object_Body ''assertion_collection_body_invalid'' 201, \<lambda>_. Other ''collect_assertion'' i)),
      under ''/v1/assets/'' ''/verification/check'' loose_uuid_part
        (\<lambda>i. without_body ''asset_verification_body_not_allowed'' (Handler (\<lambda>c. Check_Asset_Verification c i))),
      exact ''/v1/team/invitations''
        (Object_Body ''team_invite_body_invalid'' 201, \<lambda>body. Handler (\<lambda>c. Invite_Team_Member c body)),
      exact ''/v1/api-keys'' (Object_Body ''api_key_body_invalid'' 201, \<lambda>body. Handler (\<lambda>c. Create_Api_Key c body))]"

definition post_permit_routes :: "(string \<Rightarrow> (body_rule \<times> (json \<Rightarrow> endpoint)) option) list" where
  "post_permit_routes =
     [exact ''/v1/permits'' (Permit_Document, \<lambda>_. Other [] []),
      exact ''/v1/reports'' (Object_Body ''report_body_invalid'' 201, \<lambda>body. Handler (\<lambda>c. Create_Report c body)),
      under ''/v1/findings/'' ''/status'' loose_uuid_part
        (\<lambda>i. (Object_Body ''finding_status_body_invalid'' 200, \<lambda>body. Handler (\<lambda>c. Update_Finding_Status c i body))),
      exact ''/v1/authentication-contexts''
        (Object_Body ''authentication_context_body_invalid'' 201, \<lambda>_. Other ''register_authentication_context'' []),
      under ''/v1/authentication-contexts/'' ''/revoke'' loose_uuid_part
        (\<lambda>i. without_body ''authentication_context_body_not_allowed'' (Handler (\<lambda>c. Revoke_Authentication_Context c i))),
      exact ''/v1/authorization-comparisons''
        (Object_Body ''authorization_comparison_body_invalid'' 201, \<lambda>_. Other ''register_authorization_comparison_plan'' []),
      under ''/v1/authorization-comparisons/'' ''/revoke'' loose_uuid_part
        (\<lambda>i. without_body ''authorization_comparison_body_not_allowed'' (Handler (\<lambda>c. Revoke_Authorization_Comparison_Plan c i)))]"

definition post_job_routes :: "(string \<Rightarrow> (body_rule \<times> (json \<Rightarrow> endpoint)) option) list" where
  "post_job_routes =
     [exact ''/v1/schedules'' (Schedule_Document, \<lambda>_. Other [] []),
      exact ''/v1/jobs'' (Job_Document, \<lambda>_. Other [] []),
      under ''/v1/permits/'' ''/revoke'' loose_uuid_part
        (\<lambda>i. without_body ''permit_body_not_allowed'' (Handler (\<lambda>c. Revoke_Permit c i))),
      under ''/v1/schedules/'' ''/pause'' loose_uuid_part
        (\<lambda>i. without_body ''schedule_body_not_allowed'' (Handler (\<lambda>c. Pause_Scan_Schedule c i))),
      under ''/v1/schedules/'' ''/resume'' loose_uuid_part
        (\<lambda>i. without_body ''schedule_body_not_allowed'' (Handler (\<lambda>c. Resume_Scan_Schedule c i))),
      under ''/v1/jobs/'' ''/cancel'' loose_uuid_part
        (\<lambda>i. without_body ''cancel_body_not_allowed'' (Handler (\<lambda>c. Cancel_Scan c i)))]"

definition post_routes :: "(string \<Rightarrow> (body_rule \<times> (json \<Rightarrow> endpoint)) option) list" where
  "post_routes = post_account_routes @ post_permit_routes @ post_job_routes"

definition patch_routes :: "(string \<Rightarrow> (body_rule \<times> (json \<Rightarrow> endpoint)) option) list" where
  "patch_routes =
     [under ''/v1/assets/'' [] uuid_part (\<lambda>i. (Object_Body ''asset_body_invalid'' 200, \<lambda>body. Handler (\<lambda>c. Update_Asset c i body))),
      under ''/v1/team/'' [] uuid_part
        (\<lambda>i. (Object_Body ''team_update_body_invalid'' 200, \<lambda>body. Handler (\<lambda>c. Update_Team_Member c i body))),
      under ''/v1/module-entitlements/'' [] name_part
        (\<lambda>i. (Object_Body ''module_entitlement_body_invalid'' 200, \<lambda>body. Handler (\<lambda>c. Set_Module_Entitlement c i body)))]"

definition delete_routes :: "(string \<Rightarrow> endpoint option) list" where
  "delete_routes =
     [under ''/v1/team/'' [] uuid_part (\<lambda>i. Handler (\<lambda>c. Remove_Team_Member c i)),
      under ''/v1/api-keys/'' [] uuid_part (\<lambda>i. Handler (\<lambda>c. Revoke_Api_Key c i))]"

text \<open>The document routes: a permit, a schedule under a permit, and a job under a permit and an idempotency key.\<close>

definition post_permit :: "http_env \<Rightarrow> http_request \<Rightarrow> auth_context \<Rightarrow> string \<Rightarrow> int svc" where
  "post_permit H r context request_id =
     bindS (read_json_body H r) (\<lambda>body.
     bindS (issue_permit (he_service H) context (he_load_permit H body) request_id) (\<lambda>_. returnS 201))"

definition post_schedule :: "http_env \<Rightarrow> http_request \<Rightarrow> auth_context \<Rightarrow> string \<Rightarrow> int svc" where
  "post_schedule H r context request_id =
     bindS (read_json_body H r) (\<lambda>body.
     bindS (trustscan_permit_header r) (\<lambda>permit_id.
     bindS (create_scan_schedule (he_service H) context (he_load_schedule H body) permit_id request_id) (\<lambda>_. returnS 201)))"

definition post_job :: "http_env \<Rightarrow> http_request \<Rightarrow> auth_context \<Rightarrow> string \<Rightarrow> int svc" where
  "post_job H r context request_id =
     (case get_all ''Idempotency-Key'' r of
        [key] \<Rightarrow>
          bindS (read_json_body H r) (\<lambda>body.
          bindS (trustscan_permit_header r) (\<lambda>permit_id.
          bindS (submit_scan (he_service H) context (he_load_job H body) key permit_id request_id) (\<lambda>(_, created).
            returnS (if created then 201 else 200))))
      | _ \<Rightarrow> transport_error ''idempotency_key_required'' 400)"

definition authorized_write ::
  "http_env \<Rightarrow> http_request \<Rightarrow> string \<Rightarrow> auth_context \<Rightarrow> rate_limit_decision \<Rightarrow> body_rule \<Rightarrow> (json \<Rightarrow> endpoint) \<Rightarrow> http_answer svc" where
  "authorized_write H r request_id context decision rule f =
     (let reply = (\<lambda>status cookies. returnS (send_json H r request_id status None (rate_headers decision) cookies)) in
      case rule of
        Empty_Body code clears \<Rightarrow>
          bindS (no_body r code) (\<lambda>_.
          bindS (call_endpoint H (f JNull) None None context request_id) (\<lambda>_.
            reply 200 (if clears then clear_session_cookies H else [])))
      | Object_Body code status \<Rightarrow>
          bindS (json_object_body H r code) (\<lambda>body.
          bindS (call_endpoint H (f body) None (Some body) context request_id) (\<lambda>_. reply status []))
      | Permit_Document \<Rightarrow> bindS (post_permit H r context request_id) (\<lambda>status. reply status [])
      | Schedule_Document \<Rightarrow> bindS (post_schedule H r context request_id) (\<lambda>status. reply status [])
      | Job_Document \<Rightarrow> bindS (post_job H r context request_id) (\<lambda>status. reply status []))"

definition do_POST :: "http_env \<Rightarrow> http_request \<Rightarrow> http_answer svc" where
  "do_POST H r =
     answering H r (\<lambda>request_id.
     bindS (request_target r) (\<lambda>(path, query).
     bindS (require_empty_query query) (\<lambda>_.
     case public_route path of
       Some route \<Rightarrow> public_post H r request_id route
     | None \<Rightarrow>
         bindS (authenticate H r True) (\<lambda>(context, decision).
         case first_match post_routes path of
           None \<Rightarrow> transport_error ''route_not_found'' 404
         | Some (rule, f) \<Rightarrow> authorized_write H r request_id context decision rule f))))"

definition do_PATCH :: "http_env \<Rightarrow> http_request \<Rightarrow> http_answer svc" where
  "do_PATCH H r =
     answering H r (\<lambda>request_id.
     bindS (request_target r) (\<lambda>(path, query).
     bindS (require_empty_query query) (\<lambda>_.
     bindS (authenticate H r True) (\<lambda>(context, decision).
     case first_match patch_routes path of
       None \<Rightarrow> transport_error ''route_not_found'' 404
     | Some (rule, f) \<Rightarrow> authorized_write H r request_id context decision rule f))))"

definition do_DELETE :: "http_env \<Rightarrow> http_request \<Rightarrow> http_answer svc" where
  "do_DELETE H r =
     answering H r (\<lambda>request_id.
     bindS (request_target r) (\<lambda>(path, query).
     bindS (require_empty_query query) (\<lambda>_.
     bindS (authenticate H r True) (\<lambda>(context, decision).
     bindS (no_body r ''delete_body_not_allowed'') (\<lambda>_.
     case first_match delete_routes path of
       None \<Rightarrow> transport_error ''route_not_found'' 404
     | Some endpoint \<Rightarrow>
         bindS (call_endpoint H endpoint None None context request_id) (\<lambda>_.
           returnS (send_json H r request_id 200 None (rate_headers decision) [])))))))"

definition do_PUT :: "http_env \<Rightarrow> http_request \<Rightarrow> http_answer svc" where
  "do_PUT H r =
     bindS (drawS (se_uuid (he_service H))) (\<lambda>request_id.
       returnS (send_json H r request_id 405 (Some ''method_not_allowed'') [] []))"

definition do_OPTIONS :: "http_env \<Rightarrow> http_request \<Rightarrow> http_answer svc" where
  "do_OPTIONS H r =
     returnS \<lparr>ha_status = 204, ha_code = None,
       ha_headers = cors_headers H r
         @ (if cors_headers H r = [] then []
            else [(''Access-Control-Allow-Methods'', ''GET, POST, PATCH, DELETE, OPTIONS''),
                  (''Access-Control-Allow-Headers'',
                     ''Authorization, Content-Type, Idempotency-Key, TrustScan-Permit, X-CSRF-Token''),
                  (''Access-Control-Max-Age'', ''600'')])
         @ [(''Content-Length'', ''0''), (''Connection'', ''close'')],
       ha_cookies = []\<rparr>"

primrec handle :: "http_env \<Rightarrow> http_method \<Rightarrow> http_request \<Rightarrow> http_answer svc" where
  "handle H GET r = do_GET H r"
| "handle H POST r = do_POST H r"
| "handle H PATCH r = do_PATCH H r"
| "handle H DELETE r = do_DELETE H r"
| "handle H PUT r = do_PUT H r"
| "handle H OPTIONS r = do_OPTIONS H r"

text \<open>\<^verbatim>\<open>create_server\<close> binds to loopback addresses only.\<close>

definition bind_address :: "string \<Rightarrow> string result" where
  "bind_address host =
     (case (parse_ip host, ip_compressed host) of
        (Some address, Some compressed) \<Rightarrow>
          raise_if (\<not> is_loopback address) (ApiTransportError ''service_non_loopback_binding_rejected'' 500) (Inr compressed)
      | _ \<Rightarrow> Inl (ApiTransportError ''service_host_invalid'' 500))"

end
