(* ===== verification/Http_Props.thy ===== *)
theory Http_Props
  imports Http_Api Service_Examples
begin

text \<open>
  Theorems about the HTTP transport: which credentials a request needs, how failed authentications are counted, and
  whose address counts.
\<close>

section \<open>Credentials\<close>

text \<open>
  States that differ at most in the limiter of the transport, the number of draws and the times of use
  of sessions: nothing that a handler writes for its caller. The second relation has no difference in
  the sessions either.
\<close>

definition without_use :: "session_state \<Rightarrow> session_state" where
  "without_use st = st\<lparr>ss_record := (ss_record st)\<lparr>bs_idle_expires_at := 0, bs_last_used_at := None\<rparr>\<rparr>"

definition unserved :: "service \<Rightarrow> service \<Rightarrow> bool" where
  "unserved s t \<longleftrightarrow>
     sv_identity t = sv_identity s \<and> sv_limiter t = sv_limiter s \<and> sv_entitlements t = sv_entitlements s
     \<and> sv_store t = sv_store s \<and> sv_contexts t = sv_contexts s \<and> sv_plans t = sv_plans s \<and> sv_outbox t = sv_outbox s
     \<and> sv_targets t = sv_targets s \<and> sv_verifications t = sv_verifications s \<and> sv_findings t = sv_findings s
     \<and> sv_scans t = sv_scans s \<and> sv_reports t = sv_reports s
     \<and> (\<forall>i. map_option without_use (sessions_get i (sv_sessions t)) = map_option without_use (sessions_get i (sv_sessions s)))"

definition untouched :: "service \<Rightarrow> service \<Rightarrow> bool" where
  "untouched s t \<longleftrightarrow> unserved s t \<and> sv_sessions t = sv_sessions s"

lemma target_state: "request_target r u = (Inr (path, query), u') \<Longrightarrow> u' = u" "require_empty_query query u = (Inr x, u') \<Longrightarrow> u' = u"
  by (auto simp: request_target_def require_empty_query_def transport_guard_def transport_error_def bindS_def returnS_def raiseS_def
      split: option.splits if_splits)

text \<open>The caller a request acts for at an instant.\<close>

definition acts_for :: "http_env \<Rightarrow> http_request \<Rightarrow> bool \<Rightarrow> time \<Rightarrow> service \<Rightarrow> auth_context \<Rightarrow> bool" where
  "acts_for H r require_csrf now s c \<longleftrightarrow>
     (case session_cookie H r of
        Some token \<Rightarrow>
          fst (session_authenticate (se_kdf (he_service H)) token now DEFAULT_IDLE_TIMEOUT (csrf_header_value r) require_csrf
            (sv_identity s) (sv_sessions s)) = Inr c
      | None \<Rightarrow>
          (\<exists>token metadata owner organization. bearer_token (get_all ''Authorization'' r) = Inr token
             \<and> check_api_token (se_kdf (he_service H)) token now (sv_identity s) = Inr (metadata, owner, organization)
             \<and> c = context_of owner organization (at_token_id metadata) ''api_token''))"

text \<open>The instant at which a request is authenticated: the second draw of the authentication is the clock's.\<close>

definition auth_instant :: "http_env \<Rightarrow> nat \<Rightarrow> time" where
  "auth_instant H draws = se_clock (he_service H) (Suc draws)"

lemma token_authenticate_cases:
  "(\<exists>token metadata owner organization. bearer_token headers = Inr token \<and> check_api_token K token now db = Inr (metadata, owner, organization)
      \<and> (\<forall>c. fst (token_authenticate K headers now db) = Inr c \<longrightarrow> c = context_of owner organization (at_token_id metadata) ''api_token''))
   \<or> (\<exists>e. token_authenticate K headers now db = (Inl e, db))"
  by (auto simp: token_authenticate_def authenticate_token_def auth_result_def bindE_def ApiTokenMetadata_post_init_def raise_if_def
      split: sum.splits prod.splits if_splits)

lemma svc_limiter [svc_simps]:
  "limiter_check key epoch s = (Inr d, t) \<longleftrightarrow>
     (\<exists>l. check key epoch (sv_api_limiter s) = (Inr d, l) \<and> t = s\<lparr>sv_api_limiter := l\<rparr>)"
  "limiter_release key epoch s = (Inr u, t) \<longleftrightarrow> t = s\<lparr>sv_api_limiter := release key epoch (sv_api_limiter s)\<rparr>"
  by (auto simp: limiter_check_def limiter_release_def split: prod.splits)

lemma svc_login [svc_simps]:
  "session_login H r csrf token now s = (Inr c, t) \<longleftrightarrow>
     (\<exists>ss. session_authenticate (se_kdf (he_service H)) token now DEFAULT_IDLE_TIMEOUT (csrf_header_value r) csrf
        (sv_identity s) (sv_sessions s) = (Inr c, ss) \<and> t = s\<lparr>sv_sessions := ss\<rparr>)"
  "token_login H r now s = (Inr c, t) \<longleftrightarrow>
     (\<exists>db. token_authenticate (se_kdf (he_service H)) (get_all ''Authorization'' r) now (sv_identity s) = (Inr c, db)
        \<and> t = s\<lparr>sv_identity := db\<rparr>)"
  by (auto simp: session_login_def token_login_def svc_calls split: prod.splits)

lemma authenticate_acts:
  assumes "authenticate H r csrf s = (Inr (c, d), t)"
  shows "acts_for H r csrf (auth_instant H (sv_draws s)) s c"
proof (cases "session_cookie H r")
  case None
  let ?now = "auth_instant H (sv_draws s)"
  obtain db where "token_authenticate (se_kdf (he_service H)) (get_all ''Authorization'' r) ?now (sv_identity s) = (Inr c, db)"
    using assms None by (auto simp: authenticate_def authenticate_under_def svc_simps auth_instant_def)
  then show ?thesis
    using None token_authenticate_cases [of "get_all ''Authorization'' r" "se_kdf (he_service H)" ?now "sv_identity s"]
    by (auto simp: acts_for_def)
next
  case (Some token)
  then show ?thesis
    using assms by (auto simp: authenticate_def authenticate_under_def svc_simps acts_for_def auth_instant_def)
qed

definition public_request :: "http_method \<Rightarrow> http_request \<Rightarrow> bool" where
  "public_request m r \<longleftrightarrow> m = POST \<and> (case urlsplit (hr_target r) of None \<Rightarrow> False | Some u \<Rightarrow> public_route (u_path u) \<noteq> None)"

lemma target_path:
  "request_target r u = (Inr (path, query), u') \<Longrightarrow> \<exists>v. urlsplit (hr_target r) = Some v \<and> path = u_path v"
  by (auto simp: request_target_def transport_guard_def transport_error_def bindS_def returnS_def raiseS_def
      split: option.splits if_splits)

text \<open>
  A relation that the transport's own steps keep, and that an authentication keeps unless the request
  has the credential. A route that authenticates its caller then does nothing for one who is refused.
\<close>

locale refusing_frame = handler_frame +
  fixes credential :: "http_env \<Rightarrow> http_request \<Rightarrow> bool \<Rightarrow> time \<Rightarrow> service \<Rightarrow> bool"
  assumes draws: "R s (s\<lparr>sv_draws := n\<rparr>)"
    and limits: "R s (s\<lparr>sv_api_limiter := l\<rparr>)"
    and session_refused: "session_cookie H r = Some token \<Longrightarrow> \<not> credential H r csrf now s \<Longrightarrow> R s (snd (session_login H r csrf token now s))"
    and token_refused: "session_cookie H r = None \<Longrightarrow> \<not> credential H r csrf now s \<Longrightarrow> R s (snd (token_login H r now s))"
    and accepted: "acts_for H r csrf now s c \<Longrightarrow> credential H r csrf now s"
    and reads: "sv_identity u = sv_identity s \<Longrightarrow> sv_sessions u = sv_sessions s \<Longrightarrow> credential H r csrf now u \<longleftrightarrow> credential H r csrf now s"
begin

lemma keeps_transport:
  "keeps R (drawS f)" "keeps R (transport_guard b code status)" "keeps R (transport_error code status :: 'a svc)"
  "keeps R (limiter_check key epoch)" "keeps R (limiter_release key epoch)"
  by (auto simp: keeps_def drawS_def transport_guard_def transport_error_def raiseS_def returnS_def limiter_check_def
      limiter_release_def refl draws limits split: prod.split)

lemma keeps_target: "keeps R (request_target r)" "keeps R (require_empty_query query)"
  unfolding request_target_def require_empty_query_def
  by (auto intro!: keeps_bind keeps_simple keeps_transport split: option.split)

lemma refused_authenticate:
  assumes "\<not> credential H r csrf (auth_instant H (sv_draws s)) s"
  shows "R s (snd (authenticate H r csrf s))"
proof -
  have refused: "\<not> credential H r csrf (se_clock (he_service H) (Suc (sv_draws s))) u"
    if "sv_identity u = sv_identity s" "sv_sessions u = sv_sessions s" for u
    using assms reads [OF that] by (simp add: auth_instant_def)
  show ?thesis
    unfolding authenticate_def authenticate_under_def
    by (cases "session_cookie H r")
      (auto simp: svc_simps refused intro!: bind_from keeps_transport [THEN kept_from] keeps_simple [THEN kept_from]
        token_refused [where csrf = csrf] session_refused)
qed

lemma refused_bind:
  assumes "\<not> credential H r csrf (auth_instant H (sv_draws u)) s"
    "sv_identity u = sv_identity s" "sv_sessions u = sv_sessions s"
  shows "R u (snd (bindS (authenticate H r csrf) k u))"
proof -
  have refused: "\<not> credential H r csrf (auth_instant H (sv_draws u)) u"
    using assms(1) reads [OF assms(2,3)] by simp
  then have "fst (authenticate H r csrf u) \<noteq> Inr x" for x
    using authenticate_acts [of H r csrf u] accepted by (cases x; cases "authenticate H r csrf u") auto
  then show ?thesis
    using refused_authenticate [OF refused]
    by (intro bind_from) auto
qed

lemma refused_answering:
  assumes "\<And>request_id. R (s\<lparr>sv_draws := Suc (sv_draws s)\<rparr>) (snd (body request_id (s\<lparr>sv_draws := Suc (sv_draws s)\<rparr>)))"
  shows "R s (snd (answering H r body s))"
proof -
  have catch: "R v (snd (catchS m (\<lambda>e. case error_answer H r i e of Some a \<Rightarrow> returnS a | None \<Rightarrow> raiseS e) v))
      \<longleftrightarrow> R v (snd (m v))" for m i and v :: service
    by (auto simp: catchS_def returnS_def raiseS_def split: prod.split sum.split option.split)
  show ?thesis
    unfolding answering_def
    by (rule bind_from) (use assms in \<open>auto simp: svc_simps catch keeps_transport [THEN kept_from]\<close>)
qed

lemma refused_routes:
  "(\<And>path query. request_target r u = (Inr (path, query), u) \<Longrightarrow> R u (snd (f path query u))) \<Longrightarrow>
     R u (snd (bindS (request_target r) (\<lambda>(path, query). f path query) u))"
  "R u (snd (g u)) \<Longrightarrow> R u (snd (bindS (require_empty_query q) (\<lambda>_. g) u))"
  by (auto intro!: bind_from keeps_target [THEN kept_from] dest: target_state)

lemma refused_request:
  assumes "\<not> credential H r (m \<noteq> GET) (auth_instant H (Suc (sv_draws s))) s" "\<not> public_request m r"
  shows "R s (snd (handle H m r s))"
proof (cases m)
  case GET
  have refused: "\<not> credential H r False (auth_instant H (Suc (sv_draws s))) s"
    using assms(1) GET by simp
  show ?thesis
    unfolding GET handle.simps do_GET_def
    by (intro refused_answering refused_routes)
      (auto simp: refused intro!: refused_routes(2) refused_bind [where s = s] keeps_simple [THEN kept_from])
next
  case POST
  have "public_route path = None" if "request_target r u = (Inr (path, query), u)" for path query u
    using assms(2) target_path [OF that] POST by (auto simp: public_request_def)
  moreover have refused: "\<not> credential H r True (auth_instant H (Suc (sv_draws s))) s"
    using assms(1) POST by simp
  ultimately show ?thesis
    unfolding POST handle.simps do_POST_def
    by (intro refused_answering refused_routes) (auto simp: refused intro!: refused_bind [where s = s])
next
  case PATCH
  have refused: "\<not> credential H r True (auth_instant H (Suc (sv_draws s))) s"
    using assms(1) PATCH by simp
  show ?thesis
    unfolding PATCH handle.simps do_PATCH_def
    by (intro refused_answering refused_routes) (auto simp: refused intro!: refused_bind [where s = s])
next
  case DELETE
  have refused: "\<not> credential H r True (auth_instant H (Suc (sv_draws s))) s"
    using assms(1) DELETE by simp
  show ?thesis
    unfolding DELETE handle.simps do_DELETE_def
    by (intro refused_answering refused_routes) (auto simp: refused intro!: refused_bind [where s = s])
qed (simp_all add: do_PUT_def do_OPTIONS_def bindS_def drawS_def returnS_def draws refl)

end

text \<open>A credential that is accepted when it is checked, whoever it belongs to.\<close>

definition valid_credential :: "http_env \<Rightarrow> http_request \<Rightarrow> bool \<Rightarrow> time \<Rightarrow> service \<Rightarrow> bool" where
  "valid_credential H r require_csrf now s \<longleftrightarrow>
     (case session_cookie H r of
        Some token \<Rightarrow>
          \<not> isl (fst (authenticate_session (se_kdf (he_service H)) token now DEFAULT_IDLE_TIMEOUT (csrf_header_value r)
            require_csrf (sv_sessions s)))
      | None \<Rightarrow>
          \<exists>token x. bearer_token (get_all ''Authorization'' r) = Inr token
            \<and> check_api_token (se_kdf (he_service H)) token now (sv_identity s) = Inr x)"

lemma session_authenticate_sessions:
  "snd (session_authenticate K token now ttl header csrf db ss) = snd (authenticate_session K token now ttl header csrf ss)"
  by (simp add: session_authenticate_def split: prod.split sum.split)

lemma session_login_state:
  "snd (session_login H r csrf token now s) = s\<lparr>sv_sessions :=
     snd (authenticate_session (se_kdf (he_service H)) token now DEFAULT_IDLE_TIMEOUT (csrf_header_value r) csrf (sv_sessions s))\<rparr>"
  unfolding session_login_def by (simp add: session_authenticate_sessions [symmetric, of _ _ _ _ _ _ _ "sv_identity s"] split: prod.split)

lemma authenticate_session_refused:
  "fst (authenticate_session K token now ttl header csrf ss) = Inl e \<Longrightarrow> snd (authenticate_session K token now ttl header csrf ss) = ss"
  by (rule authenticate_session_Inl) (simp add: prod_eq_iff)

lemma acts_for_reads:
  "sv_identity u = sv_identity s \<Longrightarrow> sv_sessions u = sv_sessions s \<Longrightarrow> acts_for H r csrf now u = acts_for H r csrf now s"
  by (simp add: acts_for_def fun_eq_iff split: option.split)

lemma authenticate_session_use:
  "map_option without_use (sessions_get i (snd (authenticate_session K token now ttl header csrf ss)))
     = map_option without_use (sessions_get i ss)"
  by (auto simp: authenticate_session_def Let_def sessions_get_put without_use_def split: sum.split option.split prod.split)

interpretation quiet: refusing_frame unserved "\<lambda>H r csrf now s. \<exists>c. acts_for H r csrf now s c"
proof unfold_locales
  fix H r now s csrf
  assume "session_cookie H r = None" "\<not> (\<exists>c. acts_for H r csrf now s c)"
  then have "\<exists>e. token_authenticate (se_kdf (he_service H)) (get_all ''Authorization'' r) now (sv_identity s) = (Inl e, sv_identity s)"
    using token_authenticate_cases [of "get_all ''Authorization'' r" "se_kdf (he_service H)" now "sv_identity s"]
    by (auto simp: acts_for_def)
  then show "unserved s (snd (token_login H r now s))"
    by (auto simp: token_login_def identityS_def unserved_def split: prod.split)
next
  show "unserved s (snd (session_login H r csrf token now s))" for H r csrf token now s
    by (simp add: unserved_def session_login_state authenticate_session_use)
  show "(\<exists>c. acts_for H r csrf now u c) \<longleftrightarrow> (\<exists>c. acts_for H r csrf now s c)"
    if "sv_identity u = sv_identity s" "sv_sessions u = sv_sessions s" for u s H r csrf now
    by (simp add: acts_for_reads [OF that])
qed (auto simp: unserved_def)

interpretation silent: refusing_frame untouched valid_credential
proof unfold_locales
  fix H r now s csrf
  assume "session_cookie H r = None" "\<not> valid_credential H r csrf now s"
  then have "\<exists>e. token_authenticate (se_kdf (he_service H)) (get_all ''Authorization'' r) now (sv_identity s) = (Inl e, sv_identity s)"
    using token_authenticate_cases [of "get_all ''Authorization'' r" "se_kdf (he_service H)" now "sv_identity s"]
    by (auto simp: valid_credential_def)
  then show "untouched s (snd (token_login H r now s))"
    by (auto simp: token_login_def identityS_def untouched_def unserved_def split: prod.split)
next
  fix H r token now s csrf
  assume "session_cookie H r = Some token" "\<not> valid_credential H r csrf now s"
  then have "sv_sessions (snd (session_login H r csrf token now s)) = sv_sessions s"
    by (auto simp: valid_credential_def session_login_state isl_def authenticate_session_refused)
  then show "untouched s (snd (session_login H r csrf token now s))"
    by (simp add: untouched_def unserved_def session_login_state)
next
  show "valid_credential H r csrf now s" if "acts_for H r csrf now s c" for H r csrf now s c
    using that by (auto simp: valid_credential_def acts_for_def session_authenticate_def
        split: option.splits prod.splits sum.splits)
qed (auto simp: untouched_def unserved_def valid_credential_def split: option.split)

lemma valid_credentialD:
  assumes "valid_credential H r csrf now s" "session_cookie H r = Some token"
  shows "\<exists>session_id secret st. parse_prefixed_secret ''wgs'' ''session_invalid'' token = Inr (session_id, secret)
    \<and> sessions_get session_id (sv_sessions s) = Some st \<and> verify_secret (se_kdf (he_service H)) secret (ss_secret_hash st)
    \<and> is_usable now (ss_record st)
    \<and> (csrf \<longrightarrow> (\<exists>h. csrf_header_value r = Some h \<and> verify_secret (se_kdf (he_service H)) h (ss_csrf_hash st)))"
  using assms unfolding valid_credential_def authenticate_session_def
  by (auto simp: isl_def Let_def split: sum.splits option.splits prod.splits if_splits)

text \<open>The member and the organization of the session that a request acts with.\<close>

definition active_session :: "http_env \<Rightarrow> http_request \<Rightarrow> service \<Rightarrow> bool" where
  "active_session H r s \<longleftrightarrow>
     (\<exists>token session_id secret st owner organization. session_cookie H r = Some token
        \<and> parse_prefixed_secret ''wgs'' ''session_invalid'' token = Inr (session_id, secret)
        \<and> sessions_get session_id (sv_sessions s) = Some st
        \<and> get_principal (bs_principal_id (ss_record st)) (sv_identity s) = Inr owner \<and> pn_active owner
        \<and> get_organization (bs_organization_id (ss_record st)) (sv_identity s) = Inr organization
        \<and> og_status organization = ORG_ACTIVE)"

lemma acts_for_active:
  assumes "acts_for H r csrf now s c" "session_cookie H r = Some token"
  shows "active_session H r s"
proof -
  let ?A = "authenticate_session (se_kdf (he_service H)) token now DEFAULT_IDLE_TIMEOUT (csrf_header_value r) csrf (sv_sessions s)"
  obtain session ss where auth: "?A = (Inr session, ss)"
    "\<exists>owner organization. get_principal (bs_principal_id session) (sv_identity s) = Inr owner \<and> pn_active owner
       \<and> get_organization (bs_organization_id session) (sv_identity s) = Inr organization \<and> og_status organization = ORG_ACTIVE"
    using assms by (auto simp: acts_for_def session_authenticate_def bindE_eq_Inr raise_if_eq_Inr auth_result_def
        split: prod.splits sum.splits)
  then show ?thesis
    unfolding active_session_def assms(2) authenticate_session_Inr by fastforce
qed

text \<open>
  C35. A request that is not for one of the public routes leaves every repository as it was, with the
  sessions and the limits on sign-ins among them, and changes at most the request counters of the
  transport, unless it carries a credential that is valid when it is checked: a live session, together
  with its anti-forgery token when the method is not \<^verbatim>\<open>GET\<close>, or, without a session cookie, an
  unexpired API token of an active member. With a session it changes no more than the time of use of
  the session, unless the member and the organization are active too.
\<close>

theorem request_needs_credential:
  assumes "handle H m r s = (a, t)" "\<not> untouched s t" "\<not> public_request m r"
  shows "let now = se_clock (he_service H) (sv_draws s + 2); K = se_kdf (he_service H) in
    case session_cookie H r of
      Some token \<Rightarrow>
        (\<exists>session_id secret st. parse_prefixed_secret ''wgs'' ''session_invalid'' token = Inr (session_id, secret)
          \<and> sessions_get session_id (sv_sessions s) = Some st \<and> verify_secret K secret (ss_secret_hash st)
          \<and> is_usable now (ss_record st)
          \<and> (m \<noteq> GET \<longrightarrow> (\<exists>h. csrf_header_value r = Some h \<and> verify_secret K h (ss_csrf_hash st))))
        \<and> (unserved s t \<or> active_session H r s)
    | None \<Rightarrow>
        \<exists>token x. bearer_token (get_all ''Authorization'' r) = Inr token \<and> check_api_token K token now (sv_identity s) = Inr x"
proof -
  have t: "snd (handle H m r s) = t"
    using assms(1) by simp
  have valid: "valid_credential H r (m \<noteq> GET) (auth_instant H (Suc (sv_draws s))) s"
    using silent.refused_request [OF _ assms(3), of H s] assms(2) t by metis
  have served: "unserved s t \<or> active_session H r s" if "session_cookie H r = Some token" for token
    using quiet.refused_request [OF _ assms(3), of H s] t acts_for_active [OF _ that] by metis
  show ?thesis
  proof (cases "session_cookie H r")
    case None
    then show ?thesis
      using valid by (simp add: valid_credential_def auth_instant_def)
  next
    case (Some token)
    then show ?thesis
      using valid_credentialD [OF valid Some] served by (simp add: auth_instant_def)
  qed
qed

text \<open>A transport over the example service, where the owner is signed in and signs out.\<close>

definition ex_http_env :: http_env where
  "ex_http_env =
     \<lparr>he_service = ex_service_env, he_epoch = of_nat, he_sessions = True, he_maximum_request_bytes = 1000,
      he_allowed_origins = [''https://app''], he_secure_cookies = True, he_hsts_enabled = True,
      he_trusted_proxies = [Network4 0x0A000000 8], he_readiness = [(True, ''ready'')], he_loads = (\<lambda>s. Json_Decode_Error),
      he_session_cookie = (\<lambda>vs. case vs of [] \<Rightarrow> None | v # _ \<Rightarrow> Some (drop 11 v)), he_int = (\<lambda>s. None),
      he_load_permit = (\<lambda>s. Inl ValueError), he_load_job = (\<lambda>s. Inl ValueError), he_load_schedule = (\<lambda>s. Inl ValueError),
      he_other = (\<lambda>name i page body c request_id. returnS ())\<rparr>"

definition ex_browser_session :: session_state where
  "ex_browser_session =
     \<lparr>ss_record =
        \<lparr>bs_session_id = ex_uuid (CHR ''6''), bs_principal_id = ex_uuid (CHR ''9''), bs_organization_id = ex_org,
         bs_assurance_level = ''password'', bs_issued_at = 0, bs_idle_expires_at = 110, bs_absolute_expires_at = 120,
         bs_last_used_at = None, bs_revoked_at = None, bs_user_agent = None, bs_ip_address = None\<rparr>,
      ss_secret_hash = hash_secret sample_kdf [3] ''s'', ss_csrf_hash = hash_secret sample_kdf [2] ''c''\<rparr>"

definition ex_signed_in :: service where
  "ex_signed_in = ex_service\<lparr>sv_sessions := [(ex_uuid (CHR ''6''), ex_browser_session)]\<rparr>"

definition ex_logout :: "string option \<Rightarrow> http_request" where
  "ex_logout csrf =
     \<lparr>hr_target = ''/v1/auth/logout'',
      hr_headers = [(''Cookie'', ''wg_session=wgs_'' @ ex_uuid (CHR ''6'') @ ''_s'')]
        @ (case csrf of None \<Rightarrow> [] | Some v \<Rightarrow> [(''x-csrf-token'', v)]),
      hr_peer = ''203.0.113.9'', hr_body = []\<rparr>"

lemma ex_logout_changes:
  "audit_events (sv_identity (snd (handle ex_http_env POST (ex_logout (Some ''c'')) ex_signed_in))) \<noteq> []"
  "audit_events (sv_identity ex_signed_in) = []" "\<not> public_request POST (ex_logout (Some ''c''))"
  by code_simp+

theorem request_needs_credential_witness:
  "let r = ex_logout (Some ''c'') in
   session_cookie ex_http_env r = Some (''wgs_'' @ ex_uuid (CHR ''6'') @ ''_s'')
   \<and> (\<exists>session_id secret st. parse_prefixed_secret ''wgs'' ''session_invalid'' (''wgs_'' @ ex_uuid (CHR ''6'') @ ''_s'')
        = Inr (session_id, secret)
      \<and> sessions_get session_id (sv_sessions ex_signed_in) = Some st \<and> is_usable 2 (ss_record st)
      \<and> (\<exists>h. csrf_header_value r = Some h \<and> verify_secret sample_kdf h (ss_csrf_hash st)))"
proof -
  let ?r = "ex_logout (Some ''c'')"
  obtain a t where handled: "handle ex_http_env POST ?r ex_signed_in = (a, t)"
    by fastforce
  then have "\<not> untouched ex_signed_in t"
    using ex_logout_changes(1,2) by (auto simp: untouched_def unserved_def)
  moreover have "session_cookie ex_http_env ?r = Some (''wgs_'' @ ex_uuid (CHR ''6'') @ ''_s'')"
    by code_simp
  moreover have "se_clock (he_service ex_http_env) (sv_draws ex_signed_in + 2) = 2" "se_kdf (he_service ex_http_env) = sample_kdf"
    by (simp_all add: ex_http_env_def ex_service_env_def ex_signed_in_def ex_service_def ex_empty_service_def)
  ultimately show ?thesis
    using request_needs_credential [OF handled _ ex_logout_changes(3)] by (auto simp: Let_def)
qed

section \<open>Failed authentications\<close>

text \<open>The admissions of a key in the current window, and the key that a request's failures are counted under.\<close>

definition window_count :: "fixed_window_limiter \<Rightarrow> string \<Rightarrow> rat \<Rightarrow> int" where
  "window_count l key now_epoch =
     (case fw_windows l key of None \<Rightarrow> 0
      | Some (window, n) \<Rightarrow> if window \<noteq> window_of (fw_window_seconds l) now_epoch then 0 else n)"

definition failure_bucket :: "http_env \<Rightarrow> http_request \<Rightarrow> string" where
  "failure_bucket H r =
     (case session_cookie H r of Some _ \<Rightarrow> ''auth-failure-session-peer:'' @ resolve_client_ip H r
      | None \<Rightarrow> authentication_failure_key H r)"

definition login_with :: "http_env \<Rightarrow> http_request \<Rightarrow> bool \<Rightarrow> time \<Rightarrow> auth_context svc" where
  "login_with H r require_csrf =
     (case session_cookie H r of Some token \<Rightarrow> session_login H r require_csrf token | None \<Rightarrow> token_login H r)"

lemma authenticate_login: "authenticate H r csrf = authenticate_under H (failure_bucket H r) (login_with H r csrf)"
  by (simp add: authenticate_def failure_bucket_def login_with_def split: option.split)

lemma check_window_count:
  "check key e l =
     (if window_count l key e \<ge> fw_requests l
      then (Inl (RateLimitError ''rate_limit_exceeded'' (seconds_left (fw_window_seconds l) e)), l)
      else (Inr \<lparr>rd_limit = fw_requests l, rd_remaining = fw_requests l - (window_count l key e + 1),
                 rd_reset_after_seconds = seconds_left (fw_window_seconds l) e\<rparr>,
            l\<lparr>fw_windows := (fw_windows l)(key \<mapsto> (window_of (fw_window_seconds l) e, window_count l key e + 1))\<rparr>))"
  by (simp add: check_def window_count_def Let_def)

lemma window_count_update:
  "window_count (l\<lparr>fw_windows := (fw_windows l)(k \<mapsto> (window_of (fw_window_seconds l) e, n))\<rparr>) key e
    = (if key = k then n else window_count l key e)"
  by (cases "fw_windows l key") (auto simp: window_count_def)

lemma window_count_release:
  "0 \<le> window_count l key e \<Longrightarrow> window_count (release k e l) key e = (if key = k then max 0 (window_count l key e - 1) else window_count l key e)"
  by (auto simp: window_count_def release_def split: option.split prod.split)

lemma check_api_token_metadata:
  "check_api_token K token now db = Inr (metadata, owner, organization) \<Longrightarrow> \<exists>row. token_metadata row = Inr metadata"
  by (auto simp: check_api_token_def bindE_eq_Inr raise_if_eq_Inr split: option.splits)

lemma token_metadata_shape: "token_metadata row = Inr metadata \<Longrightarrow> uuid_shape (at_token_id metadata)"
  by (auto simp: token_metadata_def ApiTokenMetadata_post_init_def persisted_def bindE_eq_Inr raise_if_eq_Inr tenancy_uuid_Inr
      split: sum.splits)

lemma prefixed_secret_shape: "parse_prefixed_secret p code token = Inr (i, secret) \<Longrightarrow> uuid_shape i"
  by (auto simp: parse_prefixed_secret_def raise_if_eq_Inr canonical_uuid_Inr split: list.splits sum.splits)

lemma session_context_id:
  assumes "fst (session_authenticate K token now ttl header csrf db ss) = Inr c" "sessions_inv ss"
  shows "uuid_shape (ac_token_id c)"
proof -
  obtain session ss' where accepted: "authenticate_session K token now ttl header csrf ss = (Inr session, ss')"
    and "ac_token_id c = bs_session_id session"
    using assms(1) by (auto simp: session_authenticate_def context_of_def bindE_eq_Inr raise_if_eq_Inr split: prod.splits sum.splits)
  moreover obtain i secret st where "parse_prefixed_secret ''wgs'' ''session_invalid'' token = Inr (i, secret)"
    "sessions_get i ss = Some st" "bs_session_id session = bs_session_id (ss_record st)"
    using accepted by (auto simp: authenticate_session_Inr)
  ultimately show ?thesis
    using sessions_get_inv [OF assms(2), of i st] prefixed_secret_shape [of "''wgs''" "''session_invalid''" token i secret] by simp
qed

lemma token_id_shape:
  assumes "acts_for H r csrf now s c" "sessions_inv (sv_sessions s)"
  shows "uuid_shape (ac_token_id c)"
  using assms by (auto simp: acts_for_def context_of_def intro: session_context_id split: option.splits
      dest!: check_api_token_metadata token_metadata_shape)

lemma failure_bucket_shape: "\<not> uuid_shape (failure_bucket H r)"
proof -
  have "CHR ''u'' \<in> set (failure_bucket H r)"
    by (simp add: failure_bucket_def authentication_failure_key_def split: option.split)
  then show ?thesis
    using dash_uuid_set [of _ "CHR ''u''"] by (auto simp: uuid_shape_def is_hex_def hex_alphabet_def)
qed

lemma login_limiter: "login_with H r csrf now u = (x, v) \<Longrightarrow> sv_api_limiter v = sv_api_limiter u"
  by (auto simp: login_with_def session_login_def token_login_def identityS_def split: option.splits prod.splits)

lemma login_acts:
  "login_with H r csrf now u = (Inr c, v) \<Longrightarrow> acts_for H r csrf now u c"
  using token_authenticate_cases [of "get_all ''Authorization'' r" "se_kdf (he_service H)" now "sv_identity u"]
  by (auto simp: login_with_def acts_for_def svc_simps split: option.splits)

text \<open>
  C36. A failure to authenticate is counted against the failure bucket of the request, which no successful request fills: its
  reservation is returned. Once the bucket holds as many failures as the quota of the window allows, the request is
  answered with a rate-limit error before any credential is looked at.
\<close>

theorem authentication_failures_counted:
  assumes "authenticate H r csrf s = (x, t)" "sessions_inv (sv_sessions s)"
    "0 \<le> window_count (sv_api_limiter s) (failure_bucket H r) now_epoch" "now_epoch = he_epoch H (sv_draws s)"
  shows "(let n = window_count (sv_api_limiter s) (failure_bucket H r) now_epoch;
              n' = window_count (sv_api_limiter t) (failure_bucket H r) now_epoch in
     if n \<ge> fw_requests (sv_api_limiter s)
     then t = s\<lparr>sv_draws := Suc (sv_draws s)\<rparr> \<and> (\<exists>retry. x = Inl (RateLimitError ''rate_limit_exceeded'' retry))
     else (case x of Inl (AuthenticationError _ _) \<Rightarrow> n' = n + 1 | Inr _ \<Rightarrow> n' = n | _ \<Rightarrow> True))"
proof -
  let ?k = "failure_bucket H r" and ?l = "sv_api_limiter s"
  show ?thesis
  proof (cases "window_count ?l ?k now_epoch \<ge> fw_requests ?l")
    case True
    then show ?thesis
      using assms(1,4) by (auto simp: authenticate_login authenticate_under_def bindS_def drawS_def limiter_check_def check_window_count)
  next
    case False
    define l where "l = ?l\<lparr>fw_windows := (fw_windows ?l)(?k \<mapsto>
      (window_of (fw_window_seconds ?l) now_epoch, window_count ?l ?k now_epoch + 1))\<rparr>"
    define u where "u = s\<lparr>sv_api_limiter := l, sv_draws := sv_draws s + 2\<rparr>"
    have counted: "window_count l ?k now_epoch = window_count ?l ?k now_epoch + 1"
      by (simp add: l_def window_count_update)
    then have returned: "window_count (release ?k now_epoch l) ?k now_epoch = window_count ?l ?k now_epoch"
      using assms(3) by (simp add: window_count_release)
    obtain y v where login: "login_with H r csrf (se_clock (he_service H) (Suc (sv_draws s))) u = (y, v)"
      by fastforce
    note limiter = login_limiter [OF login]
    have x: "(x, t) = (case y of Inl e \<Rightarrow> (Inl e, v)
        | Inr c \<Rightarrow> bindS (limiter_release ?k now_epoch) (\<lambda>_. bindS (limiter_check (ac_token_id c) now_epoch) (\<lambda>d. returnS (c, d))) v)"
      using assms(1,4) False login
      by (auto simp: authenticate_login authenticate_under_def bindS_def drawS_def limiter_check_def check_window_count u_def l_def
          split: sum.splits)
    show ?thesis
    proof (cases y)
      case (Inl e)
      then show ?thesis
        using x False counted limiter by (auto simp: u_def Let_def split: exn.split)
    next
      case (Inr c)
      have "sessions_inv (sv_sessions u)"
        using assms(2) by (simp add: u_def)
      then have "ac_token_id c \<noteq> ?k"
        using token_id_shape [OF login_acts [OF login [unfolded Inr]]] failure_bucket_shape [of H r] by auto
      then show ?thesis
        using x False returned limiter Inr
        by (auto simp: u_def Let_def bindS_def limiter_release_def limiter_check_def check_window_count returnS_def window_count_update
            split: if_splits)
    qed
  qed
qed

theorem authentication_failures_counted_witness:
  "\<exists>code status t. authenticate ex_http_env (ex_logout None) True ex_signed_in = (Inl (AuthenticationError code status), t)
     \<and> window_count (sv_api_limiter t) (failure_bucket ex_http_env (ex_logout None)) 0 = 1"
proof -
  let ?k = "failure_bucket ex_http_env (ex_logout None)"
  obtain x t where run: "authenticate ex_http_env (ex_logout None) True ex_signed_in = (x, t)"
    by fastforce
  moreover have "fst (authenticate ex_http_env (ex_logout None) True ex_signed_in) = Inl (AuthenticationError ''csrf_token_invalid'' 403)"
    by code_simp
  moreover have "window_count (sv_api_limiter ex_signed_in) ?k 0 = 0" "fw_requests (sv_api_limiter ex_signed_in) = 60"
    "he_epoch ex_http_env (sv_draws ex_signed_in) = 0" "sessions_inv (sv_sessions ex_signed_in)"
    by (simp_all add: window_count_def ex_signed_in_def ex_service_def ex_empty_service_def ex_http_env_def sessions_inv_def
        ex_browser_session_def)
  ultimately show ?thesis
    using authentication_failures_counted [OF run, of 0] by (auto simp: Let_def)
qed

section \<open>Client addresses\<close>

text \<open>
  Only a trusted proxy can name another client than its own address, and only by an IP address.
\<close>

theorem client_address:
  "resolve_client_ip H r = hr_peer r \<or> (trusted_peer H r \<and> looks_like_ip (resolve_client_ip H r))"
  by (simp add: resolve_client_ip_def split: option.split)

end
