(* ===== verification/Asset_Props.thy ===== *)
theory Asset_Props
  imports Service_Examples
begin

text \<open>
  Theorems about assets and reports: what it takes that an asset becomes verified, and which bytes a report is.
\<close>

section \<open>Verification\<close>

definition is_verified :: "string \<Rightarrow> verifications \<Rightarrow> bool" where
  "is_verified i vs \<longleftrightarrow> (case map_of vs i of None \<Rightarrow> False | Some v \<Rightarrow> tv_status v = VERIFICATION_VERIFIED)"

text \<open>Every verification is stored under its own target and has an identifier of its own.\<close>

definition verifications_ok :: "verifications \<Rightarrow> bool" where
  "verifications_ok vs \<longleftrightarrow>
     (\<forall>(i, v) \<in> set vs. tv_target_id v = i) \<and> distinct (map fst vs) \<and> distinct (map (tv_verification_id \<circ> snd) vs)"

lemma find_distinct: "distinct (map f xs) \<Longrightarrow> x \<in> set xs \<Longrightarrow> List.find (\<lambda>y. f y = f x) xs = Some x"
  by (induction xs) (auto simp: image_iff)

lemma verification_by_id:
  assumes "verifications_ok vs" "map_of vs i = Some v"
  shows "by_verification_id (tv_verification_id v) vs = Some v" "tv_target_id v = i"
proof -
  have v: "(i, v) \<in> set vs"
    using assms(2) by (rule map_of_SomeD)
  then have "v \<in> set (map snd vs)"
    by force
  moreover have "distinct (map tv_verification_id (map snd vs))"
    using assms(1) by (simp add: verifications_ok_def)
  ultimately show "by_verification_id (tv_verification_id v) vs = Some v"
    unfolding by_verification_id_def by (intro find_distinct)
  show "tv_target_id v = i"
    using assms(1) v by (auto simp: verifications_ok_def)
qed

text \<open>Both writes keep this, when the identifier of a new verification is new.\<close>

lemma dict_put_ids:
  assumes "distinct (map fst d)" "distinct (map (f \<circ> snd) d)" "\<And>j w. (j, w) \<in> set d \<Longrightarrow> j \<noteq> k \<Longrightarrow> f w \<noteq> f v"
  shows "distinct (map (f \<circ> snd) (dict_put k v d))"
proof (cases "k \<in> fst ` set d")
  case True
  have "distinct (map (f \<circ> snd) (map (\<lambda>(j, w). if j = k then (j, v) else (j, w)) d))"
    using assms
  proof (induction d)
    case (Cons x d)
    then have "map (\<lambda>(j, w). if j = k then (j, v) else (j, w)) d = d" if "fst x = k"
      using that by (intro map_idI) (auto simp: image_iff)
    then show ?case
      using Cons by (auto simp: image_iff split: prod.splits if_splits) blast+
  qed simp
  then show ?thesis
    using True by (simp add: dict_put_def)
next
  case False
  then show ?thesis
    using assms by (force simp: dict_put_def)
qed

lemma dict_put_ok:
  assumes "verifications_ok vs" "\<And>j w. (j, w) \<in> set vs \<Longrightarrow> j \<noteq> tv_target_id v \<Longrightarrow> tv_verification_id w \<noteq> tv_verification_id v"
  shows "verifications_ok (dict_put (tv_target_id v) v vs)"
proof -
  have "distinct (map fst (dict_put (tv_target_id v) v vs))"
    using assms(1) dict_put_distinct by (auto simp: verifications_ok_def dict_keys_distinct_def)
  moreover have "distinct (map (tv_verification_id \<circ> snd) (dict_put (tv_target_id v) v vs))"
    using assms by (intro dict_put_ids) (auto simp: verifications_ok_def)
  moreover have "\<forall>(i, w) \<in> set (dict_put (tv_target_id v) v vs). tv_target_id w = i"
    using assms(1) by (auto simp: verifications_ok_def dict_put_def split: if_splits)
  ultimately show ?thesis
    by (simp add: verifications_ok_def)
qed

lemma verifications_ok_kept:
  assumes "verifications_ok vs"
  shows "i \<notin> tv_verification_id ` snd ` set vs \<Longrightarrow> verifications_ok (snd (initiate i token target_id oid method now vs))"
    and "verifications_ok (snd (record_result j oid status detail now vs))"
proof -
  show "verifications_ok (snd (initiate i token target_id oid method now vs))" if "i \<notin> tv_verification_id ` snd ` set vs"
  proof -
    define v where "v = fst (initiate i token target_id oid method now vs)"
    have v: "tv_target_id v = target_id" "tv_verification_id v = i"
        "snd (initiate i token target_id oid method now vs) = dict_put target_id v vs"
      by (simp_all add: v_def initiate_def Let_def)
    have "tv_verification_id w \<noteq> i" if "(j, w) \<in> set vs" for j w
      using \<open>i \<notin> tv_verification_id ` snd ` set vs\<close> that by (metis image_eqI snd_conv)
    then have "verifications_ok (dict_put (tv_target_id v) v vs)"
      using assms v by (intro dict_put_ok) auto
    then show ?thesis
      using v by simp
  qed
  show "verifications_ok (snd (record_result j oid status detail now vs))"
  proof (cases "by_verification_id j vs")
    case (Some r)
    then have "r \<in> set (map snd vs)"
      by (auto simp: by_verification_id_def find_Some_iff)
    then obtain k where r: "(k, r) \<in> set vs" "tv_target_id r = k"
      using assms by (auto simp: verifications_ok_def)
    define v where "v = r\<lparr>tv_status := status, tv_checked_at := now, tv_evidence := Some detail, tv_expected_token := None\<rparr>"
    have "l = k" if "(l, w) \<in> set vs" "tv_verification_id w = tv_verification_id r" for l w
    proof -
      have "inj_on (tv_verification_id \<circ> snd) (set vs)"
        using assms by (simp add: verifications_ok_def distinct_map)
      from inj_onD [OF this _ that(1) r(1)] show ?thesis
        using that(2) by simp
    qed
    then have "verifications_ok (dict_put (tv_target_id v) v vs)"
      using assms r(2) by (intro dict_put_ok) (auto simp: v_def)
    then show ?thesis
      using Some assms by (simp add: record_result_def v_def Let_def)
  qed (simp add: record_result_def assms)
qed

text \<open>No asset but those of a set becomes verified.\<close>

definition verified_within :: "string set \<Rightarrow> service \<Rightarrow> service \<Rightarrow> bool" where
  "verified_within J s t \<longleftrightarrow> (\<forall>i. i \<notin> J \<longrightarrow> is_verified i (sv_verifications t) \<longrightarrow> is_verified i (sv_verifications s))"

lemma unverified_writes: "unverified_write vs vs' \<Longrightarrow> is_verified i vs' \<Longrightarrow> is_verified i vs"
  by (induction rule: unverified_write.induct)
    (auto simp: initiate_def record_result_def is_verified_def map_of_dict_put Let_def split: if_splits option.splits)

interpretation verifying: account_frame "verified_within J" for J
  by unfold_locales (auto simp: verified_within_def dest: unverified_writes)

text \<open>What a check that verifies an asset has found.\<close>

definition proven_control :: "service_env \<Rightarrow> auth_context \<Rightarrow> string \<Rightarrow> service \<Rightarrow> bool" where
  "proven_control V c i s \<longleftrightarrow>
     permits c ASSET_MANAGE
     \<and> (\<exists>target v token detail. get_target i (ac_organization_id c) (sv_targets s) = Inr target
          \<and> map_of (sv_verifications s) i = Some v \<and> tv_organization_id v = ac_organization_id c
          \<and> tv_status v = VERIFICATION_PENDING \<and> tv_expected_token v = Some token
          \<and> (\<forall>deadline. tv_expires_at v = Some deadline \<longrightarrow> se_clock V (sv_draws s) < deadline)
          \<and> (if tv_method v = DNS_TXT then check_dns_txt_token (se_network V (Suc (sv_draws s))) (tg_url target) token
             else check_well_known_token (se_py V) (se_network V (Suc (sv_draws s))) (tg_url target) token) = Inr (True, detail))"

lemma recorded_within:
  assumes "verifications_ok (sv_verifications s)" "map_of (sv_verifications s) i = Some v" "i \<in> J"
  shows "verified_within J s (snd (verificationsS (record_result (tv_verification_id v) oid status detail now) s))"
  using verification_by_id [OF assms(1,2)] assms(3)
  by (auto simp: verified_within_def verificationsS_def record_result_def is_verified_def Let_def split: if_splits)

lemma keeps_performed: "keeps (verified_within J) (performed_check V current url token)"
  unfolding performed_check_def by (intro keep_rules)

lemmas verifying_leaves =
  verifying.keeps_audit [THEN verifying.kept_from] verifying.keeps_simple [THEN verifying.kept_from]
  verifying.keeps_reads [THEN verifying.kept_from] verifying.keeps_reads [THEN verifying.keeps_translated, THEN verifying.kept_from]
  verifying.keeps_elsewhere [THEN verifying.kept_from] verifying.keeps_expire [THEN verifying.kept_from]
  keeps_performed [THEN verifying.kept_from]

lemma pending_read:
  assumes "get_current i oid vs = Some v" "tv_status v = VERIFICATION_PENDING"
  shows "map_of vs i = Some v" "tv_organization_id v = oid"
  using assms by (auto simp: get_current_def without_token_def split: option.splits if_splits)

lemma pending_token:
  assumes "verifications_ok vs" "map_of vs i = Some v" "get_pending_token (tv_verification_id v) oid vs = Inr token"
  shows "tv_expected_token v = Some token"
  using assms(3) verification_by_id(1) [OF assms(1,2)]
  by (auto simp: get_pending_token_def raise_if_eq_Inr split: option.splits)

lemma check_verifies:
  assumes "verifications_ok (sv_verifications s)" "proven_control V c i s \<Longrightarrow> i \<in> J"
  shows "verified_within J s (snd (check_asset_verification V c i rid s))"
proof -
  have proven: "verified_within J t (snd (verificationsS (record_result (tv_verification_id v) oid status detail now) t))"
    if "permits c ASSET_MANAGE" "get_target i (ac_organization_id c) (sv_targets s) = Inr target"
      "get_current i (ac_organization_id c) (sv_verifications s) = Some v" "tv_status v = VERIFICATION_PENDING"
      "\<not> (case tv_expires_at v of None \<Rightarrow> False | Some d \<Rightarrow> d \<le> se_clock V (sv_draws s))"
      "get_pending_token (tv_verification_id v) (ac_organization_id c) (sv_verifications s) = Inr token"
      "performed_check V v (tg_url target) token (s\<lparr>sv_draws := Suc (sv_draws s)\<rparr>) = (Inr (True, d), t)"
    for target v token d t oid status detail now
  proof -
    note v = pending_read [OF that(3,4)]
    have "proven_control V c i s"
      using that v pending_token [OF assms(1) v(1) that(6)]
      unfolding proven_control_def performed_check_def
      by (intro conjI exI [of _ target] exI [of _ v] exI [of _ token] exI [of _ d]) (auto simp: svc_simps split: option.splits)
    moreover have "sv_verifications t = sv_verifications s"
      using that(7) by (auto simp: performed_check_def svc_simps)
    ultimately show ?thesis
      using assms v(1) by (intro recorded_within) simp_all
  qed
  show ?thesis
    unfolding check_asset_verification_def Let_def
    by (intro verifying.bind_from verifying.guard_from verifying.cases_from)
      (auto simp: svc_simps verifying_leaves intro: proven)
qed

text \<open>
  C38. An asset becomes verified in no other way than by a check of its verification, by a caller who may manage assets of the
  organization that the asset belongs to, while the token that was issued for it is pending and has not expired, and when
  that token was found on the target: in the well-known file or the TXT record, as the verification asks.
\<close>

theorem verified_only_by_check:
  assumes "service_step V s t" "verifications_ok (sv_verifications s)"
    "is_verified i (sv_verifications t)" "\<not> is_verified i (sv_verifications s)"
  shows "\<exists>c rid. t = snd (serve V (Check_Asset_Verification c i) rid s) \<and> proven_control V c i s"
  using assms(1)
proof cases
  case (Serve r rid)
  show ?thesis
  proof (cases "\<exists>c j. r = Check_Asset_Verification c j")
    case True
    then obtain c j where r: "r = Check_Asset_Verification c j"
      by blast
    have "verified_within {k. k = j \<and> proven_control V c j s} s t"
      using check_verifies [OF assms(2), of V c j "{k. k = j \<and> proven_control V c j s}" rid] Serve r by (simp add: snd_ignore)
    then have "i = j \<and> proven_control V c j s"
      using assms(3,4) by (auto simp: verified_within_def)
    then show ?thesis
      using Serve r by blast
  next
    case False
    then have "verified_within {} s t"
      using verifying.keeps_unverified [of r] Serve by (auto simp: keeps_def)
    then show ?thesis
      using assms(3,4) by (simp add: verified_within_def)
  qed
qed (use assms(3,4) in simp_all)

text \<open>An asset of the example organization, with a pending verification of either method.\<close>

definition ex_asset :: target_record where
  "ex_asset =
     \<lparr>tg_target_id = ''t'', tg_organization_id = ex_org, tg_url = ''https://example.com/'', tg_created_by = ex_uuid (CHR ''9''),
      tg_created_at = 0, tg_label = None, tg_archived_at = None, tg_default_mode = None\<rparr>"

definition ex_pending :: "verification_method \<Rightarrow> service" where
  "ex_pending method =
     ex_service\<lparr>sv_targets := [(''t'', ex_asset)], sv_verifications := snd (initiate ''v'' ''s'' ''t'' ex_org method 0 [])\<rparr>"

lemma ex_pending_checked:
  "is_verified ''t'' (sv_verifications (snd (serve ex_service_env (Check_Asset_Verification ex_owner ''t'') ex_rid (ex_pending DNS_TXT))))"
  "is_verified ''t'' (sv_verifications (snd (serve ex_service_env (Check_Asset_Verification ex_owner ''t'') ex_rid (ex_pending WELL_KNOWN_HTTP))))"
  "\<not> is_verified ''t'' (sv_verifications (ex_pending WELL_KNOWN_HTTP))"
  by code_simp+

theorem verified_only_by_check_witness:
  "let s = ex_pending WELL_KNOWN_HTTP; t = snd (serve ex_service_env (Check_Asset_Verification ex_owner ''t'') ex_rid s) in
   is_verified ''t'' (sv_verifications t)
   \<and> (\<exists>c rid. t = snd (serve ex_service_env (Check_Asset_Verification c ''t'') rid s) \<and> proven_control ex_service_env c ''t'' s)"
proof -
  have "verifications_ok (sv_verifications (ex_pending WELL_KNOWN_HTTP))"
    by (simp add: verifications_ok_def ex_pending_def initiate_def dict_put_def Let_def)
  then show ?thesis
    using verified_only_by_check [OF Serve _ ex_pending_checked(2,3)] ex_pending_checked(2) by (auto simp: Let_def)
qed

section \<open>Reports\<close>

text \<open>
  A report that is handed out belongs to the caller's organization, and its bytes have the checksum that was
  stored with it.
\<close>

theorem downloaded_report_intact:
  assumes "download_report V c i rid s = (Inr (content, r), t)"
  shows "permits c REPORT_READ \<and> map_of (sv_reports s) i = Some r \<and> rr_organization_id r = ac_organization_id c
     \<and> (\<forall>checksum. rr_checksum r = Some checksum \<longrightarrow> se_sha256 V content = checksum)"
  using assms
  by (auto simp: download_report_def svc_simps get_report_scoped_def raise_if_eq_Inr split: if_splits option.splits)

end
