(* ===== verification/Spec2Isabelle.thy ===== *)
theory Spec2Isabelle
  imports Store_Props Schedule_Props Scheduler_Props Contract_Props Safety_Props Limit_Props Target_Props
    Crawl_Props Crawl_Safety Identity_Props Worker_Props Service_Props Service_Scan_Props
    Http_Props Asset_Props
begin

text \<open>
  OpenHuntX WebGuard scans web applications for which an organization has proved its authority. This
  library models the Python implementation under \<^verbatim>\<open>src/\<close> and proves what its parts promise. The
  packages are the contracts (\<^verbatim>\<open>packages/contracts/python/src/webguard_contracts\<close>), the service
  (\<^verbatim>\<open>apps/api/src/webguard_api\<close>) and the scanner (\<^verbatim>\<open>workers/scanner/src/webguard_scanner\<close>).

  \<^bold>\<open>The program.\<close> Users and service accounts authenticate with API tokens or browser sessions and act
  under a role. A request to scan becomes a job in a SQLite store, directly or through a recurring
  schedule, and is bound to a signed TrustScan permit that says which target, how many requests, how
  fast and for how long. A worker claims the oldest claimable job under a lease, runs the crawler, whose
  every request passes the runtime safety engine, and records the result with a signed safety receipt. The
  HTTP transport authenticates a request under a rate limit and calls one handler of the service facade,
  which checks the permission of the caller, works on the repositories and writes an audit event.

  \<^bold>\<open>Foundations.\<close>
  \<^item> \<^verbatim>\<open>WG_Prelude\<close>: exceptions as values of one datatype, results as sums and the chains of checks
    of a constructor, time in microseconds, the \<^verbatim>\<open>str\<close> methods the code uses, and SQL tables as lists
    of rows with the statements that read and write them. \<^verbatim>\<open>WG_Machine\<close>: reachable states and the two
    locales for machines, an inductive invariant and a preorder that every step respects.
  \<^item> \<^verbatim>\<open>Contract_Text\<close>, \<^verbatim>\<open>Py_Net\<close>, \<^verbatim>\<open>Py_Url\<close>: the validators that the contracts
    share, and the parts of Python's \<^verbatim>\<open>uuid\<close>, \<^verbatim>\<open>urllib.parse\<close>, \<^verbatim>\<open>ipaddress\<close> and
    \<^verbatim>\<open>posixpath\<close> that decide what they accept, after CPython 3.12. Text is Latin-1.

  \<^bold>\<open>Contracts and permits.\<close> \<^verbatim>\<open>Scan_Jobs\<close>, \<^verbatim>\<open>Owned_Targets\<close>, \<^verbatim>\<open>Scan_Permits\<close>,
  \<^verbatim>\<open>Scan_Schedules\<close>, \<^verbatim>\<open>Safety_Receipts\<close> and \<^verbatim>\<open>Tenancy\<close> translate the modules of these
  names, with every check of every constructor; the second half of \<^verbatim>\<open>Scan_Permits\<close> is
  \<^verbatim>\<open>permits.py\<close> and \<^verbatim>\<open>signing.py\<close>. \<^verbatim>\<open>Permit_Codec\<close> and \<^verbatim>\<open>Contract_Props\<close> show
  what the constructors accept, that Base64URL decoding inverts encoding, what a key's life means for its
  signatures and the exact conditions of a permit's use.

  \<^bold>\<open>The job store\<close> (\<^verbatim>\<open>store.py\<close>). \<^verbatim>\<open>Store_Db\<close> has the tables as records,
  \<^verbatim>\<open>Job_Store\<close>, \<^verbatim>\<open>Permit_Store\<close> and \<^verbatim>\<open>Schedule_Store\<close> one definition per method.
  \<^verbatim>\<open>Job_Invariants\<close>, \<^verbatim>\<open>Job_Effects\<close>, \<^verbatim>\<open>Job_Ops\<close> and \<^verbatim>\<open>Queue_Lemmas\<close> reduce
  every method to a few effects on the table. \<^verbatim>\<open>Store_Machine\<close> runs the methods in any order with
  admissible arguments: canonical requests and targets, fields that the records accept, and clock readings of
  renewals, cancellations and schedule changes that are not before the row they write. The code accepts and
  commits other calls too, after which some rows cannot be read; the invariant of the database is therefore
  proved for admissible calls only. \<^verbatim>\<open>Store_Any\<close> runs the methods with any arguments and carries what
  holds even then: final terminal states, one running job per permit, and revocation. Both interpret the machine
  locales. \<^verbatim>\<open>Store_Props\<close> and \<^verbatim>\<open>Schedule_Props\<close> hold the promises:
  the invariant of the database, final terminal states, one running job per permit, revocation, lease
  fencing, the order of claims, recovery, idempotent submission, tenant isolation, pages of the feed, and
  schedules that are enqueued exactly once on their grid. \<^verbatim>\<open>Store_Examples\<close> is a concrete run.

  \<^bold>\<open>Around the store.\<close> \<^verbatim>\<open>Authorizations\<close> (\<^verbatim>\<open>authorizations.py\<close>) and \<^verbatim>\<open>Scheduler\<close>
  (\<^verbatim>\<open>scheduler.py\<close>) with \<^verbatim>\<open>Scheduler_Props\<close>: a pass enqueues only what is authorized, and
  accounts for every due schedule of its batch; the store is the coordinator's repository through a locale.
  \<^verbatim>\<open>Worker\<close> (\<^verbatim>\<open>worker.py\<close>) with \<^verbatim>\<open>Worker_Props\<close>: left alone, the worker brings every
  claimable job to its end, with its monitor renewing the lease for as long as an execution takes; assumed are
  a store without other users and outages, clocks that agree, and steps of the worker that are short against
  the lease. \<^verbatim>\<open>Identity_Store\<close> (\<^verbatim>\<open>identity.py\<close>), \<^verbatim>\<open>Sessions\<close>
  (\<^verbatim>\<open>sessions.py\<close>, \<^verbatim>\<open>auth.py\<close>, \<^verbatim>\<open>passwords.py\<close>) with \<^verbatim>\<open>Identity_Machine\<close>,
  \<^verbatim>\<open>Identity_Props\<close> and \<^verbatim>\<open>Session_Props\<close>: whom a credential authenticates, that revocation is
  final, that the use of an identity token excludes every call that reads it afterwards, how long a session lives.
  The identity machine steps by single write statements, so reads may be stale, and calls that overlap can both
  use an identity token. \<^verbatim>\<open>Rate_Limits\<close> (\<^verbatim>\<open>rate_limit.py\<close>,
  \<^verbatim>\<open>auth_rate_limit.py\<close>) with \<^verbatim>\<open>Limit_Props\<close>: the in-memory limiter decides checks that come in the
  order of their clock readings like a reference that remembers every attempt; the table of attempts is a machine
  of calls that overlap between their count and their commit, and exceeds its limit by at most the number of
  overlapping calls.

  \<^bold>\<open>The service\<close> (\<^verbatim>\<open>service.py\<close>). \<^verbatim>\<open>Py_Dict\<close> models dictionaries;
  \<^verbatim>\<open>Module_Entitlements\<close> and \<^verbatim>\<open>Scan_Contexts\<close> are \<^verbatim>\<open>module_entitlements.py\<close>,
  \<^verbatim>\<open>authentication_contexts.py\<close> and \<^verbatim>\<open>authorization_comparison.py\<close>. A handler is a
  function on a record of all repositories that returns or raises: \<^verbatim>\<open>Service_Core\<close> has that monad, the
  permission check and the audit event, \<^verbatim>\<open>Service_Accounts\<close> the handlers of accounts, sessions, the
  team, API keys and entitlements, \<^verbatim>\<open>Service_Jobs\<close> those of permits, jobs and schedules,
  \<^verbatim>\<open>Service_Assets\<close> those of assets, findings, reports and scan records, with their feeds.
  \<^verbatim>\<open>Service_Requests\<close> lists the requests and the steps of a running service,
  \<^verbatim>\<open>Service_Rules\<close> has the locales for what a handler keeps, with their rules for each combinator, and
  \<^verbatim>\<open>Service_Success\<close> what a handler that returned has done. \<^verbatim>\<open>Service_Props\<close> and
  \<^verbatim>\<open>Service_Scan_Props\<close> show that a refused request changes nothing and is recorded, that a removed
  member stays locked out, that only owners touch owners, that an issued permit stays within its
  authorization, and that an accepted scan was permitted; \<^verbatim>\<open>Asset_Props\<close> that an asset is verified
  only by a successful check of its token, and that a downloaded report has the bytes it was stored with;
  \<^verbatim>\<open>Service_Examples\<close> is a concrete service.

  \<^bold>\<open>In-memory repositories of the service.\<close> \<^verbatim>\<open>Finding_Store\<close> (\<^verbatim>\<open>finding_store.py\<close>) runs its
  operations in any order: the events of a finding lead from open to its status by allowed transitions, and
  a re-detection keeps the status it was given. \<^verbatim>\<open>Asset_Stores\<close> has \<^verbatim>\<open>targets.py\<close>,
  \<^verbatim>\<open>target_verification.py\<close>, \<^verbatim>\<open>scan_store.py\<close> and \<^verbatim>\<open>report_store.py\<close>.
  \<^verbatim>\<open>Memory_Pages\<close> is the paging that these four stores share, and shows that a cursor of the service
  does not lead past the last record of its page.

  \<^bold>\<open>The transport.\<close> \<^verbatim>\<open>Pagination\<close> (\<^verbatim>\<open>pagination.py\<close>): page requests, and cursors that are
  good for exactly what they were issued for. \<^verbatim>\<open>Http_Api\<close> (\<^verbatim>\<open>http_api.py\<close>): targets,
  bodies and headers of requests, authentication, and the routes of every method over the handlers; with
  \<^verbatim>\<open>Http_Props\<close>: no request outside the public routes changes a repository without a valid credential,
  and failed authentications are counted until the quota refuses to look at the next one.

  \<^bold>\<open>The scanner.\<close> \<^verbatim>\<open>Scope_Validator\<close> with \<^verbatim>\<open>Target_Props\<close>: which addresses a commercial
  target may have, public ones and the site-local range that the code overlooks. \<^verbatim>\<open>Safety_Engine\<close> (\<^verbatim>\<open>safety.py\<close>) with \<^verbatim>\<open>Safety_Props\<close>: budgets,
  rate, circuit breaker and receipts over every sequence of calls. \<^verbatim>\<open>Retry_Policy\<close>
  (\<^verbatim>\<open>retry_policy.py\<close>, \<^verbatim>\<open>error_taxonomy.py\<close>). \<^verbatim>\<open>Crawl_Records\<close>, \<^verbatim>\<open>Crawl_Urls\<close>,
  \<^verbatim>\<open>Crawler\<close> and \<^verbatim>\<open>Crawl_Run\<close> are \<^verbatim>\<open>crawler.py\<close>; \<^verbatim>\<open>Crawl_Invariant\<close> and
  \<^verbatim>\<open>Crawl_Props\<close> show that a crawl stays in its origin and its budgets and that checkpoints pass the checks of
  a resumption, whose URLs are those of the crawl that wrote them; \<^verbatim>\<open>Crawl_Safety\<close> composes the crawler with the safety engine the way
  \<^verbatim>\<open>executor.py\<close> does.

  \<^bold>\<open>Parameters.\<close> Identifiers, salts and clock readings are arguments. \<^verbatim>\<open>py_env\<close> supplies IDNA
  encoding and the JSON digest, \<^verbatim>\<open>kdf\<close> the key derivation of secrets, a key registry the signature
  scheme, \<^verbatim>\<open>crawl_world\<close> the HTTP fetch, the clocks, the callbacks and the tag stream of the HTML
  parser, \<^verbatim>\<open>supervision\<close> the permit checks and clocks of the engine, \<^verbatim>\<open>worker_world\<close> the other
  users of the store, outages, clocks and the result of an execution. \<^verbatim>\<open>service_env\<close> has the clock,
  the generators of identifiers and secrets, the password hasher and the signer, each as a function of the
  number of draws so far, and likewise the answers of the network and of the artifact store;
  \<^verbatim>\<open>http_env\<close> the configuration of the transport, the parsers of JSON and cookies, and the handlers
  outside the model. Hypotheses about them are named
  definitions or assumptions of the theorems.

  \<^bold>\<open>Termination.\<close> Loops are structural recursions or recursions with a measure; the crawl loop ends
  because the queue only receives URLs while the budget of pages lasts. The worker's loop is a function of
  the number of iterations before it is told to stop, and its retries and the cycles of its monitor are
  numbers of the configuration and of the world, so no fuel can run out.

  \<^bold>\<open>Not modelled.\<close> The PostgreSQL repositories, which repeat the modelled contracts in SQL for a server
  without a semantics here; the command lines, configuration, logging and start-up, the creation and
  migration of schemas; sockets, TLS and DNS; the bodies of HTTP responses. Of the service facade, the
  handlers of coverage, SOC connectors and compliance, with the stores they use, the registration of contexts
  and plans, and the feeds of jobs, schedules and audit events. Of the scanner, the analyzers and detectors over
  response text, the composition of their results, reports, checkpoints on disk and the JSON loaders. Of the
  executor, all but the supervision of the crawl. These parts are either text generation and
  heuristics, whose only specification is their own code, or need a semantics of a server that the
  library does not have. Failures of SQLite other than violated constraints do not occur in the model.
\<close>

end
